(* ===== verification/Prelude.thy ===== *)
theory Prelude
  imports Main "HOL-Library.Word" "HOL-Library.AList"
begin

text \<open>
  Shared vocabulary of the development.

  \<^item> Python values: text (\<open>strip\<close>, \<open>lower\<close>, \<open>str\<close> of integers, \<open>int\<close> of text), UUIDs and
    their canonical text, instants of time and \<open>isoformat\<close>, insertion-ordered dictionaries.
  \<^item> Effects: every mutating method of the source is a \<open>step\<close>, a function from the state of an
    aggregate to an \<open>outcome\<close>. An outcome is either a normal return or a raised exception,
    and it carries the state in both cases: a Python method that raises half way leaves the
    assignments it has already made in place. \<open>steps\<close> runs a list of steps in order and stops at
    the first exception, which is what a block of statements does.
  \<^item> The shape of the domain events the aggregates queue.

  Conventions. A Python \<open>str\<close> is a \<open>string\<close> whose characters are the code points U+0000 to
  U+00FF. A \<open>datetime\<close> is the number of microseconds since 1970-01-01T00:00:00 UTC (the services
  only create UTC instants). Fresh identifiers that the source draws with \<open>uuid7()\<close> are arguments of
  the operation that stores them; the \<open>event_id\<close> of a queued event is read
  by the projections only, whose events carry it (\<open>Read_Models\<close>); it is left out here, as is the constant \<open>event_version\<close>.
\<close>

named_theorems step_simps \<open>evaluation of steps\<close>
named_theorems frame \<open>what an operation leaves alone\<close>

section \<open>Python values\<close>

type_synonym datetime = int
type_synonym uuid = "128 word"

text \<open>An \<open>EntityId\<close> is a ULID; the ULID package fixes a canonical text for each identifier,
  and \<open>str\<close> returns it. The model identifies the identifier with that text.\<close>

datatype EntityId = EntityId (entity_str: string)

datatype PyError = ValueError string | TypeError string | KeyError string | AssertionError

subsection \<open>Text\<close>

definition is_space :: "char \<Rightarrow> bool" where
  "is_space c = (let n = (of_char c :: nat) in
     (9 \<le> n \<and> n \<le> 13) \<or> (28 \<le> n \<and> n \<le> 32) \<or> n = 133 \<or> n = 160)"

definition strip :: "string \<Rightarrow> string" where
  "strip s = rev (dropWhile is_space (rev (dropWhile is_space s)))"

definition lower_char :: "char \<Rightarrow> char" where
  "lower_char c = (let n = (of_char c :: nat) in
     if (65 \<le> n \<and> n \<le> 90) \<or> (192 \<le> n \<and> n \<le> 222 \<and> n \<noteq> 215) then char_of (n + 32) else c)"

definition lower :: "string \<Rightarrow> string" where
  "lower = map lower_char"

definition digit_char :: "nat \<Rightarrow> char" where
  "digit_char n = ''0123456789'' ! n"

fun str_nat :: "nat \<Rightarrow> string" where
  "str_nat n = (if n < 10 then [digit_char n] else str_nat (n div 10) @ [digit_char (n mod 10)])"

declare str_nat.simps [simp del]

definition str_int :: "int \<Rightarrow> string" where
  "str_int i = (if i < 0 then CHR ''-'' # str_nat (nat (- i)) else str_nat (nat i))"

fun join :: "string \<Rightarrow> string list \<Rightarrow> string" where
  "join sep [] = []"
| "join sep [x] = x"
| "join sep (x # y # zs) = x @ sep @ join sep (y # zs)"

fun split_on :: "char \<Rightarrow> string \<Rightarrow> string list" where
  "split_on c [] = [[]]"
| "split_on c (x # xs) =
     (if x = c then [] # split_on c xs
      else case split_on c xs of [] \<Rightarrow> [[x]] | p # ps \<Rightarrow> (x # p) # ps)"

text \<open>\<open>int(text)\<close>: surrounding white space, one optional sign, decimal digits, and single
  underscores between digits.\<close>

definition digit_value :: "char \<Rightarrow> nat option" where
  "digit_value c = (let n = (of_char c :: nat) in if 48 \<le> n \<and> n \<le> 57 then Some (n - 48) else None)"

fun parse_digits :: "nat \<Rightarrow> string \<Rightarrow> nat option" where
  "parse_digits acc [] = Some acc"
| "parse_digits acc (c # cs) =
     (if c = CHR ''_'' then
        (case cs of [] \<Rightarrow> None
         | d # ds \<Rightarrow> (case digit_value d of None \<Rightarrow> None
                     | Some v \<Rightarrow> parse_digits (10 * acc + v) ds))
      else (case digit_value c of None \<Rightarrow> None | Some v \<Rightarrow> parse_digits (10 * acc + v) cs))"

definition parse_nat :: "string \<Rightarrow> nat option" where
  "parse_nat s = (case s of [] \<Rightarrow> None
     | c # cs \<Rightarrow> (case digit_value c of None \<Rightarrow> None | Some v \<Rightarrow> parse_digits v cs))"

definition py_int :: "string \<Rightarrow> int option" where
  "py_int s = (case strip s of [] \<Rightarrow> None
     | c # cs \<Rightarrow> (if c = CHR ''-'' then map_option (\<lambda>n. - int n) (parse_nat cs)
                 else if c = CHR ''+'' then map_option int (parse_nat cs)
                 else map_option int (parse_nat (c # cs))))"

subsection \<open>UUIDs and instants\<close>

definition hex_char :: "nat \<Rightarrow> char" where
  "hex_char n = ''0123456789abcdef'' ! n"

fun hex_fixed :: "nat \<Rightarrow> int \<Rightarrow> string" where
  "hex_fixed 0 n = []"
| "hex_fixed (Suc k) n = hex_fixed k (n div 16) @ [hex_char (nat (n mod 16))]"

definition uuid_str :: "uuid \<Rightarrow> string" where
  "uuid_str u = (let h = hex_fixed 32 (uint u) in
     take 8 h @ ''-'' @ take 4 (drop 8 h) @ ''-'' @ take 4 (drop 12 h) @ ''-''
     @ take 4 (drop 16 h) @ ''-'' @ drop 20 h)"

definition pad_left :: "nat \<Rightarrow> string \<Rightarrow> string" where
  "pad_left k s = replicate (k - length s) (CHR ''0'') @ s"

text \<open>\<open>datetime.isoformat()\<close> of a UTC instant: the proleptic Gregorian date of the day number (years that begin in March, in cycles of
  400, 100, 4 and 1 years),
  the time of day, the microseconds when there are any, and the offset.\<close>

definition civil_from_days :: "int \<Rightarrow> int \<times> int \<times> int" where
  "civil_from_days z0 =
     (let z = z0 + 719468;
          era = z div 146097;
          doe = z mod 146097;
          centuries = min 3 (doe div 36524);
          doc = doe - 36524 * centuries;
          quads = doc div 1461;
          doq = doc mod 1461;
          years = min 3 (doq div 365);
          doy = doq - 365 * years;
          y = era * 400 + centuries * 100 + quads * 4 + years;
          mp = (5 * doy + 2) div 153;
          d = doy - (153 * mp + 2) div 5 + 1;
          m = (if mp < 10 then mp + 3 else mp - 9)
      in ((if m \<le> 2 then y + 1 else y), m, d))"

definition isoformat :: "datetime \<Rightarrow> string" where
  "isoformat t =
     (let days = t div 86400000000;
          us = t mod 86400000000;
          secs = us div 1000000;
          micro = us mod 1000000;
          (y, m, d) = civil_from_days days;
          p2 = (\<lambda>v. pad_left 2 (str_int v))
      in pad_left 4 (str_int y) @ ''-'' @ p2 m @ ''-'' @ p2 d @ ''T''
         @ p2 (secs div 3600) @ '':'' @ p2 (secs div 60 mod 60) @ '':'' @ p2 (secs mod 60)
         @ (if micro = 0 then [] else ''.'' @ pad_left 6 (str_int micro)) @ ''+00:00'')"

subsection \<open>Dictionaries\<close>

text \<open>A Python dictionary keeps its keys in order of first insertion; assignment to a present key
  keeps its place. This is \<open>AList.update\<close> on association lists.\<close>

type_synonym ('k, 'v) dict = "('k \<times> 'v) list"

definition dict_set :: "'k \<Rightarrow> 'v \<Rightarrow> ('k, 'v) dict \<Rightarrow> ('k, 'v) dict" where
  "dict_set = AList.update"

definition dict_from_keys :: "'k list \<Rightarrow> 'v \<Rightarrow> ('k, 'v) dict" where
  "dict_from_keys ks v = fold (\<lambda>k d. dict_set k v d) ks []"

definition dict_get :: "('k, 'v) dict \<Rightarrow> 'k \<Rightarrow> 'v \<Rightarrow> 'v" where
  "dict_get d k v = (case map_of d k of None \<Rightarrow> v | Some w \<Rightarrow> w)"

section \<open>Effects\<close>

datatype ('e, 'a, 's) outcome = Raise (raised: 'e) (final: 's) | Return (result: 'a) (final: 's)

type_synonym ('e, 's) step = "'s \<Rightarrow> ('e, unit, 's) outcome"

primrec returned :: "('e, 'a, 's) outcome \<Rightarrow> bool" where
  "returned (Raise e s) = False"
| "returned (Return a s) = True"

primrec steps :: "('e, 's) step list \<Rightarrow> ('e, 's) step" where
  "steps [] s = Return () s"
| "steps (a # as) s = (case a s of Raise e t \<Rightarrow> Raise e t | Return _ t \<Rightarrow> steps as t)"

definition raise_if :: "('s \<Rightarrow> bool) \<Rightarrow> ('s \<Rightarrow> 'e) \<Rightarrow> ('e, 's) step" where
  "raise_if c e s = (if c s then Raise (e s) s else Return () s)"

definition assign :: "('s \<Rightarrow> 's) \<Rightarrow> ('e, 's) step" where
  "assign f s = Return () (f s)"

definition if_else :: "('s \<Rightarrow> bool) \<Rightarrow> ('e, 's) step list \<Rightarrow> ('e, 's) step list \<Rightarrow> ('e, 's) step" where
  "if_else c as bs s = (if c s then steps as s else steps bs s)"

definition for_each :: "'x list \<Rightarrow> ('x \<Rightarrow> ('e, 's) step) \<Rightarrow> ('e, 's) step" where
  "for_each xs body = steps (map body xs)"

text \<open>\<open>v = f(self)\<close> followed by a block that uses \<open>v\<close>.\<close>

definition with_value :: "('s \<Rightarrow> 'v) \<Rightarrow> ('v \<Rightarrow> ('e, 's) step list) \<Rightarrow> ('e, 's) step" where
  "with_value f body s = steps (body (f s)) s"

definition and_return :: "('e, 's) step \<Rightarrow> 'a \<Rightarrow> 's \<Rightarrow> ('e, 'a, 's) outcome" where
  "and_return a v s = (case a s of Raise e t \<Rightarrow> Raise e t | Return _ t \<Rightarrow> Return v t)"

section \<open>Domain events\<close>

text \<open>\<open>BaseDomainEvent\<close> of the three bounded contexts: when, for which tenant and by which
  aggregate the event was queued, and the fields of the concrete event class.\<close>

record 'p event =
  ev_occurred_at :: datetime
  ev_tenant_id :: EntityId
  ev_aggregate_id :: string
  ev_aggregate_type :: string
  ev_payload :: 'p

section \<open>Laws of the Python values\<close>

lemma hex_char_inj: "a < 16 \<Longrightarrow> b < 16 \<Longrightarrow> hex_char a = hex_char b \<longleftrightarrow> a = b"
  unfolding hex_char_def by (rule nth_eq_iff_index_eq) simp_all

lemma length_hex_fixed [simp]: "length (hex_fixed k n) = k"
  by (induction k arbitrary: n) simp_all

lemma hex_fixed_inj:
  "0 \<le> n \<Longrightarrow> n < 16 ^ k \<Longrightarrow> 0 \<le> m \<Longrightarrow> m < 16 ^ k \<Longrightarrow> hex_fixed k n = hex_fixed k m \<Longrightarrow> n = m"
proof (induction k arbitrary: n m)
  case 0
  then show ?case by simp
next
  case (Suc k)
  have bounds: "n div 16 < 16 ^ k" "m div 16 < 16 ^ k"
    using Suc.prems(2,4) by auto
  have "hex_fixed k (n div 16) = hex_fixed k (m div 16)"
    and last: "hex_char (nat (n mod 16)) = hex_char (nat (m mod 16))"
    using Suc.prems(5) by simp_all
  then have "n div 16 = m div 16"
    using Suc.IH Suc.prems(1,3) bounds by (simp add: pos_imp_zdiv_nonneg_iff)
  moreover have "n mod 16 = m mod 16"
    using last by (simp add: hex_char_inj nat_less_iff)
  ultimately show ?case
    by (metis mult_div_mod_eq)
qed

lemma take_drop_join: "i \<le> j \<Longrightarrow> take (j - i) (drop i xs) @ drop j xs = drop i xs"
proof -
  assume "i \<le> j"
  then have "drop j xs = drop (j - i) (drop i xs)" by simp
  then show ?thesis by (simp only: append_take_drop_id)
qed

lemma uuid_str_hex:
  assumes "uuid_str u = uuid_str v"
  shows "hex_fixed 32 (uint u) = hex_fixed 32 (uint v)"
proof -
  define h k where "h = hex_fixed 32 (uint u)" and "k = hex_fixed 32 (uint v)"
  have len: "length h = 32" "length k = 32"
    unfolding h_def k_def by (simp_all only: length_hex_fixed)
  have parts: "take 8 h = take 8 k" "take 4 (drop 8 h) = take 4 (drop 8 k)"
    "take 4 (drop 12 h) = take 4 (drop 12 k)" "take 4 (drop 16 h) = take 4 (drop 16 k)"
    "drop 20 h = drop 20 k"
    using assms len unfolding uuid_str_def Let_def h_def [symmetric] k_def [symmetric]
    by simp_all
  have "drop 16 h = drop 16 k"
    using parts take_drop_join [of 16 20 h] take_drop_join [of 16 20 k] by simp
  then have "drop 12 h = drop 12 k"
    using parts take_drop_join [of 12 16 h] take_drop_join [of 12 16 k] by simp
  then have "drop 8 h = drop 8 k"
    using parts take_drop_join [of 8 12 h] take_drop_join [of 8 12 k] by simp
  then have "h = k"
    using parts by (metis append_take_drop_id)
  then show ?thesis unfolding h_def k_def .
qed

lemma uuid_str_eq_iff [simp]: "uuid_str u = uuid_str v \<longleftrightarrow> u = v"
proof
  assume "uuid_str u = uuid_str v"
  then have "hex_fixed 32 (uint u) = hex_fixed 32 (uint v)" by (rule uuid_str_hex)
  moreover have "uint w < 16 ^ 32" for w :: uuid
    using uint_lt2p [of w] by simp
  ultimately have "uint u = uint v"
    by (intro hex_fixed_inj [where k = 32]) auto
  then show "u = v" by (simp only: word_uint_eq_iff)
qed simp

lemma length_uuid_str [simp]: "length (uuid_str u) = 36"
  using length_hex_fixed [of 32 "uint u"] unfolding uuid_str_def Let_def by simp

lemma strip_Nil [simp]: "strip [] = []"
  by (simp add: strip_def)

lemma dropWhile_idem: "dropWhile P (rev (dropWhile P (rev (dropWhile P xs)))) = rev (dropWhile P (rev (dropWhile P xs)))"
proof (cases "dropWhile P xs")
  case (Cons y ys)
  then have "\<not> P y" by (metis hd_dropWhile list.distinct(1) list.sel(1))
  then have "rev (dropWhile P (rev (y # ys))) = y # rev (dropWhile P (rev ys))"
    by (simp add: dropWhile_append)
  then show ?thesis using Cons \<open>\<not> P y\<close> by simp
next
  case Nil
  show ?thesis by (simp only: Nil) simp
qed

lemma strip_strip [simp]: "strip (strip s) = strip s"
  by (simp add: strip_def dropWhile_idem)

text \<open>\<open>int(str(n)) = n\<close>, and the text of a number holds digits only.\<close>

lemma digit_value_char: "n < 10 \<Longrightarrow> digit_value (digit_char n) = Some n"
proof -
  have "\<forall>n < 10. digit_value (digit_char n) = Some n" by code_simp
  then show "n < 10 \<Longrightarrow> digit_value (digit_char n) = Some n" by blast
qed

lemma digit_value_Some:
  "digit_value c = Some v \<Longrightarrow> \<not> is_space c \<and> c \<noteq> CHR ''-'' \<and> c \<noteq> CHR ''+'' \<and> c \<noteq> CHR ''_'' \<and> c \<noteq> CHR ''.''"
  by (auto simp: digit_value_def is_space_def Let_def split: if_splits)

abbreviation all_digits :: "string \<Rightarrow> bool" where
  "all_digits s \<equiv> \<forall>c \<in> set s. digit_value c \<noteq> None"

lemma parse_digits_snoc:
  "all_digits s \<Longrightarrow> digit_value c = Some v \<Longrightarrow>
   parse_digits acc (s @ [c]) = map_option (\<lambda>n. 10 * n + v) (parse_digits acc s)"
proof (induction s arbitrary: acc)
  case Nil
  then show ?case using digit_value_Some [of c v] by simp
next
  case (Cons d s)
  then obtain w where w: "digit_value d = Some w" by auto
  with Cons digit_value_Some [OF w] show ?case by simp
qed

lemma str_nat_digits: "all_digits (str_nat n) \<and> str_nat n \<noteq> []"
proof (induction n rule: str_nat.induct)
  case (1 n)
  then show ?case
    using digit_value_char [of n] digit_value_char [of "n mod 10"]
    by (subst (1 2) str_nat.simps) auto
qed

lemma parse_nat_str_nat: "parse_nat (str_nat n) = Some n"
proof (induction n rule: str_nat.induct)
  case (1 n)
  show ?case
  proof (cases "n < 10")
    case True
    then show ?thesis by (subst str_nat.simps) (simp add: parse_nat_def digit_value_char)
  next
    case False
    then have IH: "parse_nat (str_nat (n div 10)) = Some (n div 10)" using 1 by simp
    obtain c cs where s: "str_nat (n div 10) = c # cs" "all_digits (c # cs)"
      using str_nat_digits [of "n div 10"] by (cases "str_nat (n div 10)") auto
    moreover have "digit_value (digit_char (n mod 10)) = Some (n mod 10)" by (simp add: digit_value_char)
    ultimately have "parse_nat (str_nat (n div 10) @ [digit_char (n mod 10)]) = Some (10 * (n div 10) + n mod 10)"
      using IH parse_digits_snoc [of cs "digit_char (n mod 10)" "n mod 10"]
      by (auto simp: parse_nat_def split: option.splits)
    with False show ?thesis by (subst str_nat.simps) simp
  qed
qed

lemma strip_no_space: "\<forall>c \<in> set s. \<not> is_space c \<Longrightarrow> strip s = s"
proof -
  assume s: "\<forall>c \<in> set s. \<not> is_space c"
  then have "dropWhile is_space s = s" by (cases s) auto
  moreover have "dropWhile is_space (rev s) = rev s" using s by (cases "rev s") (auto simp: rev_swap)
  ultimately show ?thesis by (simp add: strip_def)
qed

lemma py_int_str_int: "0 \<le> i \<Longrightarrow> py_int (str_int i) = Some i"
proof -
  assume "0 \<le> i"
  then have i: "str_int i = str_nat (nat i)" by (simp add: str_int_def)
  obtain c cs where s: "str_nat (nat i) = c # cs" "all_digits (c # cs)"
    using str_nat_digits [of "nat i"] by (cases "str_nat (nat i)") auto
  then have "strip (c # cs) = c # cs"
    by (intro strip_no_space ballI) (metis digit_value_Some option.exhaust)
  moreover have "c \<noteq> CHR ''-''" "c \<noteq> CHR ''+''"
    using s(2) digit_value_Some [of c] by auto
  ultimately show ?thesis
    using parse_nat_str_nat [of "nat i"] s(1) \<open>0 \<le> i\<close> by (simp add: py_int_def i)
qed

lemma str_int_no_dot: "0 \<le> i \<Longrightarrow> CHR ''.'' \<notin> set (str_int i)"
  using str_nat_digits [of "nat i"] digit_value_Some by (force simp: str_int_def)

lemma split_on_append: "c \<notin> set a \<Longrightarrow> split_on c (a @ c # s) = a # split_on c s"
  by (induction a) auto

lemma split_on_absent: "c \<notin> set a \<Longrightarrow> split_on c a = [a]"
  by (induction a) auto

section \<open>Laws of steps\<close>

lemma steps_append:
  "steps (as @ bs) s = (case steps as s of Raise e t \<Rightarrow> Raise e t | Return _ t \<Rightarrow> steps bs t)"
  by (induction as arbitrary: s) (auto split: outcome.splits)

lemma steps_raise_if [step_simps]:
  "steps (raise_if c e # as) s = (if c s then Raise (e s) s else steps as s)"
  by (simp add: raise_if_def)

lemma steps_assign [step_simps]: "steps (assign f # as) s = steps as (f s)"
  by (simp add: assign_def)

lemma steps_if_else [step_simps]:
  "steps (if_else c as bs # cs) s = (if c s then steps (as @ cs) s else steps (bs @ cs) s)"
  by (simp add: if_else_def steps_append)

lemma steps_with_value [step_simps]:
  "steps (with_value f body # cs) s = steps (body (f s) @ cs) s"
  by (simp add: with_value_def steps_append)

lemma steps_for_each [step_simps]: "steps (for_each xs body # cs) s = steps (map body xs @ cs) s"
  by (simp add: for_each_def steps_append)

lemma steps_steps [step_simps]: "steps (steps as # bs) s = steps (as @ bs) s"
  by (simp add: steps_append)

lemma final_and_return [simp]: "final (and_return a v s) = final (a s)"
  by (simp add: and_return_def split: outcome.splits)

text \<open>\<open>keeps P a\<close>: the step \<open>a\<close> keeps the predicate \<open>P\<close>, whether it returns or raises.\<close>

definition keeps :: "('s \<Rightarrow> bool) \<Rightarrow> ('s \<Rightarrow> ('e, 'a, 's) outcome) \<Rightarrow> bool" where
  "keeps P a \<longleftrightarrow> (\<forall>s. P s \<longrightarrow> P (final (a s)))"

lemma keepsD: "keeps P a \<Longrightarrow> P s \<Longrightarrow> P (final (a s))"
  by (simp add: keeps_def)

lemma keeps_steps [intro]: "(\<And>a. a \<in> set as \<Longrightarrow> keeps P a) \<Longrightarrow> keeps P (steps as)"
proof (induction as)
  case Nil
  then show ?case by (simp add: keeps_def)
next
  case (Cons a as)
  then have "keeps P a" and "keeps P (steps as)" by simp_all
  then show ?case by (fastforce simp: keeps_def split: outcome.splits)
qed

lemma keeps_raise_if [intro, simp]: "keeps P (raise_if c e)"
  by (simp add: keeps_def raise_if_def)

lemma keeps_assign [intro]: "(\<And>s. P s \<Longrightarrow> P (f s)) \<Longrightarrow> keeps P (assign f)"
  by (simp add: keeps_def assign_def)

lemma keeps_if_else [intro]:
  "keeps P (steps as) \<Longrightarrow> keeps P (steps bs) \<Longrightarrow> keeps P (if_else c as bs)"
  by (simp add: keeps_def if_else_def)

lemma keeps_with_value [intro]:
  "(\<And>v. keeps P (steps (body v))) \<Longrightarrow> keeps P (with_value f body)"
  by (simp add: keeps_def with_value_def)

lemma keeps_for_each [intro]: "(\<And>x. keeps P (body x)) \<Longrightarrow> keeps P (for_each xs body)"
  unfolding for_each_def by (rule keeps_steps) auto

lemma keeps_and_return [intro]: "keeps P a \<Longrightarrow> keeps P (and_return a v)"
  by (auto simp: keeps_def and_return_def split: outcome.splits)

lemma keeps_steps_Nil: "keeps P (steps [])"
  by (simp add: keeps_def)

lemma keeps_steps_Cons:
  assumes "keeps P a" and "keeps P (steps as)"
  shows "keeps P (steps (a # as))"
  unfolding keeps_def
proof (intro allI impI)
  fix s
  assume "P s"
  then have "P (final (a s))" using assms(1) by (rule keepsD [rotated])
  then show "P (final (steps (a # as) s))"
    using assms(2) by (cases "a s") (simp_all add: keeps_def)
qed

lemma keeps_for_each_all: "(\<And>x. x \<in> set xs \<Longrightarrow> keeps P (body x)) \<Longrightarrow> keeps P (for_each xs body)"
  unfolding for_each_def by (rule keeps_steps) auto

lemmas keeps_intros = keeps_steps_Nil keeps_steps_Cons keeps_raise_if keeps_assign keeps_if_else
  keeps_with_value keeps_for_each_all keeps_and_return

text \<open>An assignment under the guard that makes it safe.\<close>

lemma keeps_guarded:
  "(\<And>s. P s \<Longrightarrow> \<not> c s \<Longrightarrow> P (f s)) \<Longrightarrow> keeps P (steps as) \<Longrightarrow> keeps P (steps (raise_if c e # assign f # as))"
  by (simp add: keeps_def raise_if_def assign_def)

lemma keeps_if_guarded:
  "(\<And>s. P s \<Longrightarrow> c s \<Longrightarrow> P (f s)) \<Longrightarrow> keeps P (steps as) \<Longrightarrow> keeps P (steps bs)
   \<Longrightarrow> keeps P (if_else c (assign f # as) bs)"
  by (simp add: keeps_def if_else_def assign_def)

text \<open>\<open>guard a\<close>: the step only looks at the state. \<open>total a\<close>: it never raises. A block whose
  guards all come before its assignments is \<open>atomic\<close>: when it raises, nothing has changed.\<close>

definition guard :: "('e, 's) step \<Rightarrow> bool" where
  "guard a \<longleftrightarrow> (\<forall>s. final (a s) = s)"

definition total :: "('e, 's) step \<Rightarrow> bool" where
  "total a \<longleftrightarrow> (\<forall>s. returned (a s))"

definition atomic :: "('s \<Rightarrow> ('e, 'a, 's) outcome) \<Rightarrow> bool" where
  "atomic a \<longleftrightarrow> (\<forall>s. \<not> returned (a s) \<longrightarrow> final (a s) = s)"

lemma guard_raise_if [simp]: "guard (raise_if c e)"
  by (simp add: guard_def raise_if_def)

lemma total_assign [simp]: "total (assign f)"
  by (simp add: total_def assign_def)

lemma total_steps: "(\<And>a. a \<in> set as \<Longrightarrow> total a) \<Longrightarrow> total (steps as)"
proof (induction as)
  case (Cons a as)
  then have a: "total a" and as: "total (steps as)" by simp_all
  show ?case
    unfolding total_def
  proof
    fix s
    from a have "returned (a s)" by (simp add: total_def)
    then obtain t where "a s = Return () t" by (cases "a s") auto
    then show "returned (steps (a # as) s)" using as by (simp add: total_def)
  qed
qed (simp add: total_def)

lemma guard_steps: "(\<And>a. a \<in> set as \<Longrightarrow> guard a) \<Longrightarrow> guard (steps as)"
proof (induction as)
  case (Cons a as)
  then have a: "guard a" and as: "guard (steps as)" by simp_all
  show ?case
    unfolding guard_def
  proof
    fix s
    from a have "final (a s) = s" by (simp add: guard_def)
    with as show "final (steps (a # as) s) = s" by (cases "a s") (simp_all add: guard_def)
  qed
qed (simp add: guard_def)

lemma guard_atomic: "guard a \<Longrightarrow> atomic a"
  by (simp add: guard_def atomic_def)

lemma total_atomic: "total a \<Longrightarrow> atomic a"
  by (simp add: total_def atomic_def)

lemma atomic_steps:
  assumes "guard (steps gs)" and "atomic (steps as)"
  shows "atomic (steps (gs @ as))"
  unfolding atomic_def
proof (intro allI impI)
  fix s
  assume "\<not> returned (steps (gs @ as) s)"
  moreover have "final (steps gs s) = s" using assms(1) by (simp add: guard_def)
  ultimately show "final (steps (gs @ as) s) = s"
    using assms(2) by (auto simp: steps_append atomic_def split: outcome.splits)
qed

lemma atomic_guard_Cons: "guard a \<Longrightarrow> atomic (steps as) \<Longrightarrow> atomic (steps (a # as))"
  using atomic_steps [of "[a]" as] guard_steps [of "[a]"] by simp

section \<open>Histories of calls\<close>

text \<open>A client holds an aggregate and makes a sequence of calls on it, catching what they raise.
  A call that raised and whose effect was not saved is a call left out of the history.\<close>

fun history :: "('c \<Rightarrow> ('e, 's) step) \<Rightarrow> 'c list \<Rightarrow> 's \<Rightarrow> 's" where
  "history exec [] s = s"
| "history exec (c # cs) s = history exec cs (final (exec c s))"

lemma history_append: "history exec (cs @ ds) s = history exec ds (history exec cs s)"
  by (induction cs arbitrary: s) simp_all

lemma history_keeps: "(\<And>c. keeps P (exec c)) \<Longrightarrow> P s \<Longrightarrow> P (history exec cs s)"
  by (induction cs arbitrary: s) (simp_all add: keepsD)

text \<open>The application services load an aggregate, make one call and save it: a call that raises is
  rolled back. \<open>saved_history\<close> is what the store then holds.\<close>

definition saved :: "('e, 'a, 's) outcome \<Rightarrow> 's \<Rightarrow> 's" where
  "saved r s = (case r of Raise _ _ \<Rightarrow> s | Return _ t \<Rightarrow> t)"

fun saved_history :: "('c \<Rightarrow> ('e, 's) step) \<Rightarrow> 'c list \<Rightarrow> 's \<Rightarrow> 's" where
  "saved_history exec [] s = s"
| "saved_history exec (c # cs) s = saved_history exec cs (saved (exec c s) s)"

lemma saved_history_keeps:
  "(\<And>c s t. exec c s = Return () t \<Longrightarrow> P s \<Longrightarrow> P t) \<Longrightarrow> P s \<Longrightarrow> P (saved_history exec cs s)"
proof (induction cs arbitrary: s)
  case (Cons c cs)
  have "P (saved (exec c s) s)"
    using Cons.prems by (cases "exec c s") (auto simp: saved_def)
  then show ?case using Cons by simp
qed simp

definition ignore_result :: "('s \<Rightarrow> ('e, 'a, 's) outcome) \<Rightarrow> ('e, 's) step" where
  "ignore_result a s = (case a s of Raise e t \<Rightarrow> Raise e t | Return _ t \<Rightarrow> Return () t)"

lemma final_ignore_result [simp]: "final (ignore_result a s) = final (a s)"
  by (simp add: ignore_result_def split: outcome.splits)

lemma keeps_ignore_result [simp]: "keeps P (ignore_result a) = keeps P a"
  by (simp add: keeps_def)

section \<open>Laws of dictionaries\<close>

lemma map_of_dict_set: "map_of (dict_set k v d) = (map_of d)(k \<mapsto> v)"
  by (simp add: dict_set_def update_conv')

lemma map_of_dict_from_keys: "map_of (dict_from_keys ks v) k = (if k \<in> set ks then Some v else None)"
proof -
  have "map_of (fold (\<lambda>k d. dict_set k v d) ks d) k = (if k \<in> set ks then Some v else map_of d k)" for d
    by (induction ks arbitrary: d) (auto simp: map_of_dict_set)
  then show ?thesis by (simp add: dict_from_keys_def)
qed

lemma keys_dict_set: "map fst (dict_set k v d) = (if k \<in> set (map fst d) then map fst d else map fst d @ [k])"
  by (induction d) (auto simp: dict_set_def)

lemma keys_dict_from_keys:
  assumes "distinct ks"
  shows "map fst (dict_from_keys ks v) = ks"
proof -
  have "distinct (map fst d @ ks) \<Longrightarrow> map fst (fold (\<lambda>k d. dict_set k v d) ks d) = map fst d @ ks" for d
  proof (induction ks arbitrary: d)
    case (Cons k ks)
    then have keys: "map fst (dict_set k v d) = map fst d @ [k]" by (simp add: keys_dict_set)
    with Cons.prems have "distinct (map fst (dict_set k v d) @ ks)" by simp
    then have "map fst (fold (\<lambda>k d. dict_set k v d) ks (dict_set k v d)) = map fst (dict_set k v d) @ ks"
      by (rule Cons.IH)
    with keys show ?case by simp
  qed simp
  then show ?thesis using assms by (simp add: dict_from_keys_def)
qed

lemma distinct_keys_dict_set [simp]: "distinct (map fst d) \<Longrightarrow> distinct (map fst (dict_set k v d))"
  by (simp add: keys_dict_set)

text \<open>\<open>{k(x): x for x in xs}\<close> with distinct keys.\<close>

lemma map_of_dict_index:
  assumes "distinct (map k xs)" and "x \<in> set xs"
  shows "map_of (fold (\<lambda>x d. dict_set (k x) x d) xs []) (k x) = Some x"
proof -
  have "map_of (fold (\<lambda>x d. dict_set (k x) x d) xs d) (k x) = Some x"
    if "distinct (map k xs)" "x \<in> set xs \<or> map_of d (k x) = Some x \<and> k x \<notin> k ` set xs" for d
    using that by (induction xs arbitrary: d) (auto simp: map_of_dict_set)
  with assms show ?thesis by blast
qed

section \<open>JSON\<close>

text \<open>The values that \<open>json.loads\<close> gives, without floating-point numbers.\<close>

datatype json = JNull | JBool bool | JInt int | JStr string | JList "json list" | JObject "(string \<times> json) list"

text \<open>From here on a block is evaluated by the laws in \<open>step_simps\<close>, one statement at a time.\<close>

declare steps.simps(2) [simp del]

end
