(* ===== verification/Aggregates.thy ===== *)
theory Aggregates
  imports Prelude
begin

text \<open>
  The contracts that the aggregate roots of the three bounded contexts share, as locales. A
  component gives its public mutators as a type of calls with an executor and proves the laws by an
  \<open>interpretation\<close>; what holds of whole histories of calls is proved here once.
\<close>

section \<open>Aggregate roots\<close>

text \<open>An aggregate never changes its tenant, its row version (the optimistic lock) never goes
  back, and the queue of pending events only grows at its end.\<close>

locale aggregate_root =
  fixes exec :: "'c \<Rightarrow> ('e, 's) step"
    and tenant_of :: "'s \<Rightarrow> EntityId"
    and version_of :: "'s \<Rightarrow> int"
    and events_of :: "'s \<Rightarrow> 'v list"
  assumes tenant_kept: "tenant_of (final (exec c s)) = tenant_of s"
    and version_grows: "version_of s \<le> version_of (final (exec c s))"
    and events_grow: "\<exists>es. events_of (final (exec c s)) = events_of s @ es"
begin

lemma history_tenant: "tenant_of (history exec cs s) = tenant_of s"
  by (induction cs arbitrary: s) (simp_all add: tenant_kept)

lemma history_version: "version_of s \<le> version_of (history exec cs s)"
proof (induction cs arbitrary: s)
  case (Cons c cs)
  show ?case using version_grows [of s c] Cons.IH [of "final (exec c s)"] by simp
qed simp

lemma history_events: "\<exists>es. events_of (history exec cs s) = events_of s @ es"
proof (induction cs arbitrary: s)
  case (Cons c cs)
  from events_grow [of c s] Cons.IH [of "final (exec c s)"] show ?case by auto
qed simp

end

text \<open>Tenant isolation: a call on behalf of another tenant raises and changes nothing. A call with
  no tenant argument (\<open>None\<close>) is outside the contract.\<close>

locale tenant_guarded = aggregate_root +
  fixes caller :: "'a \<Rightarrow> EntityId option"
  assumes foreign_call:
    "caller c = Some t \<Longrightarrow> t \<noteq> tenant_of s \<Longrightarrow> \<exists>e. exec c s = Raise e s"
begin

lemma foreign_history:
  assumes "\<And>c. c \<in> set cs \<Longrightarrow> \<exists>t. caller c = Some t \<and> t \<noteq> tenant_of s"
  shows "history exec cs s = s"
  using assms
proof (induction cs)
  case (Cons c cs)
  from Cons.prems obtain t where "caller c = Some t" "t \<noteq> tenant_of s" by auto
  then obtain e where "exec c s = Raise e s" using foreign_call by blast
  with Cons show ?case by simp
qed simp

end

section \<open>Status machines\<close>

text \<open>A status field whose moves follow a table. \<open>next_states\<close> is the table the code consults
  (or bypasses, where the component's table says so).\<close>

locale status_machine =
  fixes exec :: "'c \<Rightarrow> ('e, 's) step"
    and state_of :: "'s \<Rightarrow> 'st"
    and next_states :: "'st \<Rightarrow> 'st set"
  assumes moves:
    "state_of (final (exec c s)) = state_of s \<or> state_of (final (exec c s)) \<in> next_states (state_of s)"
begin

lemma history_path: "(state_of s, state_of (history exec cs s)) \<in> {(a, b). b \<in> next_states a}\<^sup>*"
proof (induction cs arbitrary: s)
  case (Cons c cs)
  from moves [of c s] have "(state_of s, state_of (final (exec c s))) \<in> {(a, b). b \<in> next_states a}\<^sup>*"
    by auto
  with Cons.IH [of "final (exec c s)"] show ?case by simp
qed simp

lemma history_closed:
  assumes "state_of s \<in> A" and "\<And>a. a \<in> A \<Longrightarrow> next_states a \<subseteq> A"
  shows "state_of (history exec cs s) \<in> A"
  using assms(1)
proof (induction cs arbitrary: s)
  case (Cons c cs)
  from moves [of c s] Cons.prems assms(2) have "state_of (final (exec c s)) \<in> A" by auto
  then show ?case using Cons.IH by simp
qed simp

lemma sink_history: "next_states (state_of s) = {} \<Longrightarrow> state_of (history exec cs s) = state_of s"
  using history_closed [of s "{state_of s}" cs] by auto

end

end
