(* ===== verification/Campaign_Data.thy ===== *)
theory Campaign_Data
  imports Aggregates "HOL-Library.Char_ord" "HOL-Library.List_Lexorder" "HOL-Library.Product_Lexorder"
begin

text \<open>
  The data of the \<open>campaignexecution\<close> context (\<open>campaignexecution/domain/value_objects\<close>, \<open>entities\<close>,
  \<open>exceptions\<close>, \<open>events\<close>), and the state, the constructor and the helpers of its aggregate root
  \<open>TaskGraphExecution\<close>. The mutators are in \<open>Campaign_Execution\<close>.

  Conventions: the identifiers of this context wrap a UUID without any check and are modelled by the
  UUID. The arrow U+2192 of \<open>_transition\<close>'s exception is written \<open>->\<close>. \<open>total_seconds\<close> is compared
  exactly (the source compares its float value, which agrees for spans below 272 years).
\<close>

section \<open>Data\<close>

datatype ExecutionState = INITIALIZING | RUNNING | WAITING_FOR_APPROVAL | PAUSED | ROLLING_BACK
  | COMPLETED | FAILED | ABORTED

datatype TaskExecutionState = PENDING | READY_TO_DISPATCH | DISPATCHING | RUNNING | COMPLETED | FAILED
  | SKIPPED | ROLLED_BACK | TIMED_OUT

datatype TaskOutcome = SUCCESS | FAILURE | PARTIAL_SUCCESS | TIMED_OUT | SKIPPED | ABORTED

primrec ExecutionState_value :: "ExecutionState \<Rightarrow> string" where
  "ExecutionState_value INITIALIZING = ''Initializing''"
| "ExecutionState_value ExecutionState.RUNNING = ''Running''"
| "ExecutionState_value WAITING_FOR_APPROVAL = ''WaitingForApproval''"
| "ExecutionState_value PAUSED = ''Paused''"
| "ExecutionState_value ROLLING_BACK = ''RollingBack''"
| "ExecutionState_value ExecutionState.COMPLETED = ''Completed''"
| "ExecutionState_value ExecutionState.FAILED = ''Failed''"
| "ExecutionState_value ExecutionState.ABORTED = ''Aborted''"

primrec TaskExecutionState_value :: "TaskExecutionState \<Rightarrow> string" where
  "TaskExecutionState_value PENDING = ''Pending''"
| "TaskExecutionState_value READY_TO_DISPATCH = ''ReadyToDispatch''"
| "TaskExecutionState_value DISPATCHING = ''Dispatching''"
| "TaskExecutionState_value TaskExecutionState.RUNNING = ''Running''"
| "TaskExecutionState_value TaskExecutionState.COMPLETED = ''Completed''"
| "TaskExecutionState_value TaskExecutionState.FAILED = ''Failed''"
| "TaskExecutionState_value TaskExecutionState.SKIPPED = ''Skipped''"
| "TaskExecutionState_value ROLLED_BACK = ''RolledBack''"
| "TaskExecutionState_value TaskExecutionState.TIMED_OUT = ''TimedOut''"

primrec TaskOutcome_value :: "TaskOutcome \<Rightarrow> string" where
  "TaskOutcome_value SUCCESS = ''Success''"
| "TaskOutcome_value FAILURE = ''Failure''"
| "TaskOutcome_value PARTIAL_SUCCESS = ''PartialSuccess''"
| "TaskOutcome_value TIMED_OUT = ''TimedOut''"
| "TaskOutcome_value SKIPPED = ''Skipped''"
| "TaskOutcome_value ABORTED = ''Aborted''"

record CampaignInstanceRef =
  ci_instance_id :: uuid
  ci_campaign_id :: uuid
  ci_tenant_id :: EntityId

record TaskGraphVersionRef =
  gv_graph_id :: uuid
  gv_version_str :: string

record OperationRef =
  op_operation_id :: uuid
  op_tenant_id :: EntityId

record PendingApprovalGate =
  pg_task_id :: uuid
  pg_gate_created_at :: datetime
  pg_gate_timeout_seconds :: int
  pg_required_approver_role :: string
  pg_default_on_timeout :: string

definition is_timed_out :: "PendingApprovalGate \<Rightarrow> datetime \<Rightarrow> bool" where
  "is_timed_out g now \<longleftrightarrow> now - pg_gate_created_at g \<ge> pg_gate_timeout_seconds g * 1000000"

record PolicySnapshot =
  ps_max_concurrent_actions :: int
  ps_auto_abort_on_detection :: bool
  ps_auto_abort_on_objective_failure :: bool
  ps_blast_radius_ceiling :: string

record EngagementRef =
  en_engagement_id :: uuid
  en_tenant_id :: EntityId

type_synonym ObjectiveStateMap = "(string, string) dict"

definition objective_get :: "ObjectiveStateMap \<Rightarrow> string \<Rightarrow> string option" where
  "objective_get m objective_id = map_of m objective_id"

definition objective_set :: "string \<Rightarrow> string \<Rightarrow> ObjectiveStateMap \<Rightarrow> ObjectiveStateMap" where
  "objective_set objective_id state m = dict_set objective_id state m"

text \<open>\<open>ActiveBranchPath\<close> holds a frozen set of task identifiers.\<close>

type_synonym ActiveBranchPath = "uuid set"

definition with_added :: "ActiveBranchPath \<Rightarrow> uuid list \<Rightarrow> ActiveBranchPath" where
  "with_added path ids = path \<union> set ids"

definition with_removed :: "ActiveBranchPath \<Rightarrow> uuid list \<Rightarrow> ActiveBranchPath" where
  "with_removed path ids = path - set ids"

subsection \<open>Task records\<close>

record TaskExecutionRecord =
  tr_record_id :: uuid
  tr_task_id :: uuid
  tr_state :: TaskExecutionState
  tr_outcome :: "TaskOutcome option"
  tr_operation_ref :: "OperationRef option"
  tr_dispatched_at :: "datetime option"
  tr_completed_at :: "datetime option"
  tr_failure_reason :: "string option"
  tr_is_rollback_task :: bool

definition mark_ready :: "TaskExecutionRecord \<Rightarrow> TaskExecutionRecord" where
  "mark_ready r = r\<lparr>tr_state := READY_TO_DISPATCH\<rparr>"

definition mark_dispatching :: "TaskExecutionRecord \<Rightarrow> TaskExecutionRecord" where
  "mark_dispatching r = r\<lparr>tr_state := DISPATCHING\<rparr>"

definition mark_task_running :: "OperationRef \<Rightarrow> datetime \<Rightarrow> TaskExecutionRecord \<Rightarrow> TaskExecutionRecord" where
  "mark_task_running operation_ref dispatched_at r =
     r\<lparr>tr_state := TaskExecutionState.RUNNING, tr_operation_ref := Some operation_ref,
       tr_dispatched_at := Some dispatched_at\<rparr>"

definition mark_completed :: "TaskOutcome \<Rightarrow> datetime \<Rightarrow> TaskExecutionRecord \<Rightarrow> TaskExecutionRecord" where
  "mark_completed outcome completed_at r =
     r\<lparr>tr_state := TaskExecutionState.COMPLETED, tr_outcome := Some outcome, tr_completed_at := Some completed_at\<rparr>"

definition mark_failed :: "string \<Rightarrow> datetime \<Rightarrow> TaskExecutionRecord \<Rightarrow> TaskExecutionRecord" where
  "mark_failed reason completed_at r =
     r\<lparr>tr_state := TaskExecutionState.FAILED, tr_outcome := Some FAILURE,
       tr_failure_reason := Some reason, tr_completed_at := Some completed_at\<rparr>"

definition mark_skipped :: "TaskExecutionRecord \<Rightarrow> TaskExecutionRecord" where
  "mark_skipped r = r\<lparr>tr_state := TaskExecutionState.SKIPPED, tr_outcome := Some SKIPPED\<rparr>"

definition mark_timed_out :: "datetime \<Rightarrow> TaskExecutionRecord \<Rightarrow> TaskExecutionRecord" where
  "mark_timed_out completed_at r =
     r\<lparr>tr_state := TaskExecutionState.TIMED_OUT, tr_outcome := Some TIMED_OUT, tr_completed_at := Some completed_at\<rparr>"

definition mark_rolled_back :: "OperationRef \<Rightarrow> datetime \<Rightarrow> TaskExecutionRecord \<Rightarrow> TaskExecutionRecord" where
  "mark_rolled_back rollback_op completed_at r =
     r\<lparr>tr_state := ROLLED_BACK, tr_operation_ref := Some rollback_op, tr_completed_at := Some completed_at\<rparr>"

definition is_terminal :: "TaskExecutionRecord \<Rightarrow> bool" where
  "is_terminal r \<longleftrightarrow> tr_state r \<in> {TaskExecutionState.COMPLETED, TaskExecutionState.FAILED,
     TaskExecutionState.SKIPPED, ROLLED_BACK, TaskExecutionState.TIMED_OUT}"

definition is_done :: "TaskExecutionRecord \<Rightarrow> bool" where
  "is_done r \<longleftrightarrow> tr_state r \<in> {TaskExecutionState.COMPLETED, TaskExecutionState.FAILED,
     TaskExecutionState.SKIPPED, TaskExecutionState.TIMED_OUT}"

record ExecutionTrack =
  et_track_id :: string
  et_task_ids :: "uuid list"

record CheckpointRecord =
  cr_checkpoint_task_id :: uuid
  cr_objective_states :: "(string \<times> string) list"
  cr_captured_at :: datetime

subsection \<open>Exceptions and events\<close>

datatype CampaignExecutionDomainException =
    InvalidStateTransition string string string
  | TenantMismatch EntityId EntityId
  | TaskNotFound string
  | TaskAlreadyDispatched string
  | TaskNotReadyToDispatch string string
  | BarrierNotPassable string int
  | SafetyPolicyViolation string string
  | ConcurrencyConflict string
  | NoApprovalGatePending string
  | RollbackNotAllowed string
  | MonitorAutoAbortAlreadyTriggered string

datatype ExecutionEvent =
    TaskGraphExecutionInitialized string string string int
  | ExecutionTrackStarted string "string list"
  | TaskDispatched string string string
  | TaskCompleted string string string
  | TaskFailed string string string
  | TaskTimedOut string int
  | TaskSkipped string string
  | BarrierPassed string string int
  | HumanApprovalGateReached string int string string
  | HumanApprovalGranted string string
  | HumanApprovalDenied string string string
  | ApprovalGateTimedOutProceeded string int
  | ConditionalBranchResolved string string "string list" "string list"
  | EvaluationCheckpointReached string "(string \<times> string) list"
  | RollbackInitiated string int
  | TaskRolledBack string string
  | RollbackCompleted int
  | ExecutionCompleted string int int int
  | ExecutionFailed string string
  | ExecutionAborted string string
  | SafetyPolicyBreached string string bool
  | SafetyMonitorInitialized string int bool
  | ConcurrentActionRegistered string int int
  | ConcurrentActionReleased string int
  | SafetyMonitorAborted string string
  | SafetyMonitorReleased string

section \<open>The aggregate\<close>

record TaskGraphExecution =
  ex_execution_id :: uuid
  ex_tenant_id :: EntityId
  ex_campaign_instance_ref :: CampaignInstanceRef
  ex_graph_version_ref :: TaskGraphVersionRef
  ex_engagement_ref :: EngagementRef
  ex_policy_snapshot :: PolicySnapshot
  ex_state :: ExecutionState
  ex_task_records :: "TaskExecutionRecord list"
  ex_tracks :: "ExecutionTrack list"
  ex_checkpoints :: "CheckpointRecord list"
  ex_objective_states :: ObjectiveStateMap
  ex_pending_approval_gate :: "PendingApprovalGate option"
  ex_active_branch_path :: ActiveBranchPath
  ex_version :: int
  ex_pending_events :: "ExecutionEvent event list"

type_synonym exec_step = "(CampaignExecutionDomainException, TaskGraphExecution) step"

primrec ALLOWED_TRANSITIONS :: "ExecutionState \<Rightarrow> ExecutionState set" where
  "ALLOWED_TRANSITIONS INITIALIZING = {ExecutionState.RUNNING, ExecutionState.FAILED}"
| "ALLOWED_TRANSITIONS ExecutionState.RUNNING =
     {WAITING_FOR_APPROVAL, PAUSED, ExecutionState.COMPLETED, ExecutionState.FAILED, ExecutionState.ABORTED}"
| "ALLOWED_TRANSITIONS WAITING_FOR_APPROVAL =
     {ExecutionState.RUNNING, PAUSED, ExecutionState.FAILED, ExecutionState.ABORTED}"
| "ALLOWED_TRANSITIONS PAUSED = {ExecutionState.RUNNING, ROLLING_BACK, ExecutionState.ABORTED}"
| "ALLOWED_TRANSITIONS ROLLING_BACK = {ExecutionState.FAILED, ExecutionState.ABORTED}"
| "ALLOWED_TRANSITIONS ExecutionState.COMPLETED = {}"
| "ALLOWED_TRANSITIONS ExecutionState.FAILED = {}"
| "ALLOWED_TRANSITIONS ExecutionState.ABORTED = {}"

definition pop_events :: "TaskGraphExecution \<Rightarrow> ExecutionEvent event list \<times> TaskGraphExecution" where
  "pop_events x = (ex_pending_events x, x\<lparr>ex_pending_events := []\<rparr>)"

definition emit :: "EntityId \<Rightarrow> datetime \<Rightarrow> (TaskGraphExecution \<Rightarrow> ExecutionEvent) \<Rightarrow> exec_step" where
  "emit tenant_id now payload = assign (\<lambda>x. x\<lparr>ex_pending_events := ex_pending_events x @
     [\<lparr>ev_occurred_at = now, ev_tenant_id = tenant_id, ev_aggregate_id = uuid_str (ex_execution_id x),
       ev_aggregate_type = ''TaskGraphExecution'', ev_payload = payload x\<rparr>]\<rparr>)"

definition mutate :: exec_step where
  "mutate = assign (\<lambda>x. x\<lparr>ex_version := ex_version x + 1\<rparr>)"

definition assert_tenant :: "EntityId \<Rightarrow> exec_step" where
  "assert_tenant tenant_id =
     raise_if (\<lambda>x. tenant_id \<noteq> ex_tenant_id x) (\<lambda>x. TenantMismatch (ex_tenant_id x) tenant_id)"

definition invalid_operation :: "string \<Rightarrow> TaskGraphExecution \<Rightarrow> CampaignExecutionDomainException" where
  "invalid_operation operation x =
     InvalidStateTransition (ExecutionState_value (ex_state x)) operation (uuid_str (ex_execution_id x))"

definition transition :: "ExecutionState \<Rightarrow> exec_step" where
  "transition to_state = steps [
     raise_if (\<lambda>x. to_state \<notin> ALLOWED_TRANSITIONS (ex_state x))
       (invalid_operation (''->'' @ ExecutionState_value to_state)),
     assign (\<lambda>x. x\<lparr>ex_state := to_state\<rparr>)]"

text \<open>\<open>initialize\<close>; the record identifiers are drawn one per task.\<close>

definition initialize ::
  "uuid \<Rightarrow> EntityId \<Rightarrow> CampaignInstanceRef \<Rightarrow> TaskGraphVersionRef \<Rightarrow> EngagementRef \<Rightarrow> PolicySnapshot
    \<Rightarrow> (uuid \<times> uuid) list \<Rightarrow> datetime \<Rightarrow> TaskGraphExecution" where
  "initialize execution_id tenant_id campaign_instance_ref graph_version_ref engagement_ref policy_snapshot
     task_ids now =
     final (emit tenant_id now (\<lambda>_. TaskGraphExecutionInitialized
         (uuid_str (ci_instance_id campaign_instance_ref)) (uuid_str (gv_graph_id graph_version_ref))
         (gv_version_str graph_version_ref) (int (length task_ids)))
       \<lparr>ex_execution_id = execution_id, ex_tenant_id = tenant_id,
        ex_campaign_instance_ref = campaign_instance_ref, ex_graph_version_ref = graph_version_ref,
        ex_engagement_ref = engagement_ref, ex_policy_snapshot = policy_snapshot,
        ex_state = INITIALIZING,
        ex_task_records = map (\<lambda>(rid, tid). \<lparr>tr_record_id = rid, tr_task_id = tid, tr_state = PENDING,
          tr_outcome = None, tr_operation_ref = None, tr_dispatched_at = None, tr_completed_at = None,
          tr_failure_reason = None, tr_is_rollback_task = False\<rparr>) task_ids,
        ex_tracks = [], ex_checkpoints = [], ex_objective_states = [], ex_pending_approval_gate = None,
        ex_active_branch_path = {}, ex_version = 1, ex_pending_events = []\<rparr>)"

subsection \<open>Records\<close>

definition find_record :: "uuid \<Rightarrow> TaskGraphExecution \<Rightarrow> TaskExecutionRecord option" where
  "find_record task_id x = find (\<lambda>r. tr_task_id r = task_id) (ex_task_records x)"

text \<open>\<open>self._find_record(task_id)\<close> as a statement, and a change of the record it returns.\<close>

definition assert_record :: "uuid \<Rightarrow> exec_step" where
  "assert_record task_id = raise_if (\<lambda>x. find_record task_id x = None) (\<lambda>_. TaskNotFound (uuid_str task_id))"

fun update_first :: "('a \<Rightarrow> bool) \<Rightarrow> ('a \<Rightarrow> 'a) \<Rightarrow> 'a list \<Rightarrow> 'a list" where
  "update_first P f [] = []"
| "update_first P f (x # xs) = (if P x then f x # xs else x # update_first P f xs)"

definition update_record :: "uuid \<Rightarrow> (TaskExecutionRecord \<Rightarrow> TaskExecutionRecord) \<Rightarrow> exec_step" where
  "update_record task_id f =
     assign (\<lambda>x. x\<lparr>ex_task_records := update_first (\<lambda>r. tr_task_id r = task_id) f (ex_task_records x)\<rparr>)"

definition record_is :: "(TaskExecutionRecord \<Rightarrow> bool) \<Rightarrow> uuid \<Rightarrow> TaskGraphExecution \<Rightarrow> bool" where
  "record_is P task_id x = (case find_record task_id x of None \<Rightarrow> False | Some r \<Rightarrow> P r)"

abbreviation in_state :: "TaskExecutionState set \<Rightarrow> uuid \<Rightarrow> TaskGraphExecution \<Rightarrow> bool" where
  "in_state S \<equiv> record_is (\<lambda>r. tr_state r \<in> S)"

definition operation_id_of :: "uuid \<Rightarrow> TaskGraphExecution \<Rightarrow> string" where
  "operation_id_of task_id x = (case find_record task_id x of None \<Rightarrow> []
     | Some r \<Rightarrow> (case tr_operation_ref r of None \<Rightarrow> [] | Some p \<Rightarrow> uuid_str (op_operation_id p)))"

definition state_value_of :: "uuid \<Rightarrow> TaskGraphExecution \<Rightarrow> string" where
  "state_value_of task_id x = (case find_record task_id x of None \<Rightarrow> [] | Some r \<Rightarrow> TaskExecutionState_value (tr_state r))"

definition get_ready_task_ids :: "TaskGraphExecution \<Rightarrow> uuid list" where
  "get_ready_task_ids x = map tr_task_id (filter (\<lambda>r. tr_state r = READY_TO_DISPATCH) (ex_task_records x))"

definition get_running_task_ids :: "TaskGraphExecution \<Rightarrow> uuid list" where
  "get_running_task_ids x = map tr_task_id (filter (\<lambda>r. tr_state r = TaskExecutionState.RUNNING) (ex_task_records x))"

definition concurrent_action_count :: "TaskGraphExecution \<Rightarrow> nat" where
  "concurrent_action_count x = length (filter (\<lambda>r. tr_state r = TaskExecutionState.RUNNING) (ex_task_records x))"

definition all_tasks_terminal :: "TaskGraphExecution \<Rightarrow> bool" where
  "all_tasks_terminal x \<longleftrightarrow> (\<forall>r \<in> set (ex_task_records x). is_terminal r)"

end
