(* ===== verification/Campaign_Execution.thy ===== *)
theory Campaign_Execution
  imports Campaign_Data
begin

text \<open>
  The mutators of \<open>TaskGraphExecution\<close>
  (\<open>campaignexecution/domain/aggregates/task_graph_execution.py\<close>), each as the list of its statements,
  and what holds of every history of calls.
\<close>

section \<open>Task operations\<close>

definition mark_running :: "datetime \<Rightarrow> exec_step" where
  "mark_running now = steps [transition ExecutionState.RUNNING, mutate]"

definition mark_task_ready :: "EntityId \<Rightarrow> uuid \<Rightarrow> datetime \<Rightarrow> exec_step" where
  "mark_task_ready tenant_id task_id now = steps [
     assert_tenant tenant_id,
     assert_record task_id,
     raise_if (\<lambda>x. \<not> in_state {PENDING} task_id x)
       (\<lambda>x. TaskNotReadyToDispatch (uuid_str task_id) (state_value_of task_id x)),
     update_record task_id mark_ready,
     mutate]"

definition record_task_dispatched :: "EntityId \<Rightarrow> uuid \<Rightarrow> OperationRef \<Rightarrow> datetime \<Rightarrow> exec_step" where
  "record_task_dispatched tenant_id task_id operation_ref now = steps [
     assert_tenant tenant_id,
     assert_record task_id,
     if_else (in_state {TaskExecutionState.RUNNING} task_id) []
       [raise_if (\<lambda>x. \<not> in_state {READY_TO_DISPATCH, DISPATCHING} task_id x)
          (\<lambda>_. TaskAlreadyDispatched (uuid_str task_id)),
        update_record task_id (mark_task_running operation_ref now),
        mutate,
        emit tenant_id now (\<lambda>x. TaskDispatched (uuid_str task_id) (uuid_str (op_operation_id operation_ref))
          (uuid_str (ci_instance_id (ex_campaign_instance_ref x))))]]"

definition mark_successor_ready :: "uuid \<Rightarrow> exec_step" where
  "mark_successor_ready sid = if_else (in_state {PENDING} sid) [update_record sid mark_ready] []"

definition mark_successor_skipped :: "EntityId \<Rightarrow> uuid \<Rightarrow> datetime \<Rightarrow> uuid \<Rightarrow> exec_step" where
  "mark_successor_skipped tenant_id task_id now sid =
     if_else (in_state {PENDING, READY_TO_DISPATCH} sid)
       [update_record sid mark_skipped,
        emit tenant_id now (\<lambda>_. TaskSkipped (uuid_str sid)
          (''Conditional branch not taken after task '' @ uuid_str task_id))] []"

text \<open>The optional successor lists default to \<open>None\<close>, which the code treats like the empty list.\<close>

definition record_task_completion ::
  "EntityId \<Rightarrow> uuid \<Rightarrow> TaskOutcome \<Rightarrow> datetime \<Rightarrow> uuid list \<Rightarrow> uuid list \<Rightarrow> exec_step" where
  "record_task_completion tenant_id task_id outcome now ready_successor_ids skipped_successor_ids = steps [
     assert_tenant tenant_id,
     assert_record task_id,
     if_else (record_is is_terminal task_id) []
       [update_record task_id (mark_completed outcome now),
        mutate,
        emit tenant_id now (\<lambda>x. TaskCompleted (uuid_str task_id) (TaskOutcome_value outcome) (operation_id_of task_id x)),
        for_each ready_successor_ids mark_successor_ready,
        for_each skipped_successor_ids (mark_successor_skipped tenant_id task_id now),
        if_else (\<lambda>_. ready_successor_ids \<noteq> [] \<or> skipped_successor_ids \<noteq> [])
          [assign (\<lambda>x. x\<lparr>ex_active_branch_path := with_added (ex_active_branch_path x) ready_successor_ids\<rparr>),
           emit tenant_id now (\<lambda>_. ConditionalBranchResolved (uuid_str task_id) (TaskOutcome_value outcome)
             (map uuid_str ready_successor_ids) (map uuid_str skipped_successor_ids))] []]]"

definition record_task_failure :: "EntityId \<Rightarrow> uuid \<Rightarrow> string \<Rightarrow> datetime \<Rightarrow> exec_step" where
  "record_task_failure tenant_id task_id failure_reason now = steps [
     assert_tenant tenant_id,
     assert_record task_id,
     if_else (record_is is_terminal task_id) []
       [update_record task_id (mark_failed failure_reason now),
        mutate,
        emit tenant_id now (\<lambda>x. TaskFailed (uuid_str task_id) failure_reason (operation_id_of task_id x))]]"

definition record_task_timeout :: "EntityId \<Rightarrow> uuid \<Rightarrow> int \<Rightarrow> datetime \<Rightarrow> exec_step" where
  "record_task_timeout tenant_id task_id timeout_seconds now = steps [
     assert_tenant tenant_id,
     assert_record task_id,
     if_else (record_is is_terminal task_id) []
       [update_record task_id (mark_timed_out now),
        mutate,
        emit tenant_id now (\<lambda>_. TaskTimedOut (uuid_str task_id) timeout_seconds)]]"

definition barrier_pending :: "uuid list \<Rightarrow> TaskGraphExecution \<Rightarrow> uuid list" where
  "barrier_pending task_group_task_ids x = filter (\<lambda>tid. record_is (\<lambda>r. \<not> is_done r) tid x) task_group_task_ids"

definition evaluate_barrier :: "EntityId \<Rightarrow> uuid \<Rightarrow> uuid list \<Rightarrow> datetime \<Rightarrow> exec_step" where
  "evaluate_barrier tenant_id barrier_task_id task_group_task_ids now = steps [
     assert_tenant tenant_id,
     raise_if (\<lambda>x. barrier_pending task_group_task_ids x \<noteq> [])
       (\<lambda>x. BarrierNotPassable (uuid_str barrier_task_id) (int (length (barrier_pending task_group_task_ids x)))),
     assert_record barrier_task_id,
     if_else (in_state {PENDING} barrier_task_id)
       [update_record barrier_task_id mark_ready,
        mutate,
        emit tenant_id now (\<lambda>_. BarrierPassed (uuid_str barrier_task_id)
          (case task_group_task_ids of [] \<Rightarrow> [] | t # _ \<Rightarrow> uuid_str t) (int (length task_group_task_ids)))] []]"

section \<open>Approval gates\<close>

definition reach_human_approval_gate :: "EntityId \<Rightarrow> PendingApprovalGate \<Rightarrow> datetime \<Rightarrow> exec_step" where
  "reach_human_approval_gate tenant_id pending_gate now = steps [
     assert_tenant tenant_id,
     assign (\<lambda>x. x\<lparr>ex_pending_approval_gate := Some pending_gate\<rparr>),
     transition WAITING_FOR_APPROVAL,
     mutate,
     emit tenant_id now (\<lambda>_. HumanApprovalGateReached (uuid_str (pg_task_id pending_gate))
       (pg_gate_timeout_seconds pending_gate) (pg_required_approver_role pending_gate)
       (pg_default_on_timeout pending_gate))]"

definition no_gate :: exec_step where
  "no_gate = raise_if (\<lambda>_. True) (\<lambda>x. NoApprovalGatePending (uuid_str (ex_execution_id x)))"

definition clear_gate :: exec_step where
  "clear_gate = assign (\<lambda>x. x\<lparr>ex_pending_approval_gate := None\<rparr>)"

definition grant_human_approval :: "EntityId \<Rightarrow> string \<Rightarrow> datetime \<Rightarrow> exec_step" where
  "grant_human_approval tenant_id approver_id now = steps [
     assert_tenant tenant_id,
     with_value ex_pending_approval_gate (\<lambda>pending. case pending of
       None \<Rightarrow> [no_gate]
     | Some gate \<Rightarrow>
        [clear_gate,
         assert_record (pg_task_id gate),
         update_record (pg_task_id gate) (mark_completed SUCCESS now),
         transition ExecutionState.RUNNING,
         mutate,
         emit tenant_id now (\<lambda>_. HumanApprovalGranted (uuid_str (pg_task_id gate)) approver_id)])]"

definition deny_human_approval :: "EntityId \<Rightarrow> string \<Rightarrow> string \<Rightarrow> datetime \<Rightarrow> exec_step" where
  "deny_human_approval tenant_id approver_id reason now = steps [
     assert_tenant tenant_id,
     with_value ex_pending_approval_gate (\<lambda>pending. case pending of
       None \<Rightarrow> [no_gate]
     | Some gate \<Rightarrow>
        [clear_gate,
         assert_record (pg_task_id gate),
         update_record (pg_task_id gate)
           (mark_failed (''Approval denied by '' @ approver_id @ '': '' @ reason) now),
         transition PAUSED,
         mutate,
         emit tenant_id now (\<lambda>_. HumanApprovalDenied (uuid_str (pg_task_id gate)) approver_id reason)])]"

definition approval_timeout_steps :: "EntityId \<Rightarrow> datetime \<Rightarrow> exec_step" where
  "approval_timeout_steps tenant_id now = steps [
     assert_tenant tenant_id,
     with_value ex_pending_approval_gate (\<lambda>pending. case pending of
       None \<Rightarrow> [no_gate]
     | Some gate \<Rightarrow>
        [clear_gate,
         if_else (\<lambda>_. pg_default_on_timeout gate = ''proceed'')
           [assert_record (pg_task_id gate),
            update_record (pg_task_id gate) (mark_completed SUCCESS now),
            transition ExecutionState.RUNNING,
            mutate,
            emit tenant_id now (\<lambda>_. ApprovalGateTimedOutProceeded (uuid_str (pg_task_id gate))
              (pg_gate_timeout_seconds gate))]
           [assert_record (pg_task_id gate),
            update_record (pg_task_id gate)
              (mark_failed ''Approval gate timed out with default_on_timeout=abort'' now),
            transition PAUSED,
            mutate]])]"

text \<open>The method returns the gate's default.\<close>

definition handle_approval_timeout ::
  "EntityId \<Rightarrow> datetime \<Rightarrow> TaskGraphExecution \<Rightarrow> (CampaignExecutionDomainException, string, TaskGraphExecution) outcome" where
  "handle_approval_timeout tenant_id now x =
     and_return (approval_timeout_steps tenant_id now)
       (case ex_pending_approval_gate x of None \<Rightarrow> [] | Some gate \<Rightarrow> pg_default_on_timeout gate) x"

section \<open>Lifecycle\<close>

definition pause :: "EntityId \<Rightarrow> string \<Rightarrow> datetime \<Rightarrow> exec_step" where
  "pause tenant_id reason now = steps [
     assert_tenant tenant_id,
     raise_if (\<lambda>x. ex_state x \<notin> {ExecutionState.RUNNING, WAITING_FOR_APPROVAL}) (invalid_operation ''pause''),
     transition PAUSED,
     mutate]"

definition resume :: "EntityId \<Rightarrow> datetime \<Rightarrow> exec_step" where
  "resume tenant_id now = steps [
     assert_tenant tenant_id,
     raise_if (\<lambda>x. ex_state x \<noteq> PAUSED) (invalid_operation ''resume''),
     transition ExecutionState.RUNNING,
     mutate]"

definition initiate_rollback :: "EntityId \<Rightarrow> string \<Rightarrow> int \<Rightarrow> datetime \<Rightarrow> exec_step" where
  "initiate_rollback tenant_id trigger_reason rollback_task_count now = steps [
     assert_tenant tenant_id,
     raise_if (\<lambda>x. ex_state x \<notin> {PAUSED, ExecutionState.FAILED})
       (\<lambda>x. RollbackNotAllowed (ExecutionState_value (ex_state x))),
     transition ROLLING_BACK,
     mutate,
     emit tenant_id now (\<lambda>_. RollbackInitiated trigger_reason rollback_task_count)]"

definition record_task_rolled_back :: "EntityId \<Rightarrow> uuid \<Rightarrow> OperationRef \<Rightarrow> datetime \<Rightarrow> exec_step" where
  "record_task_rolled_back tenant_id task_id rollback_operation_ref now = steps [
     assert_tenant tenant_id,
     assert_record task_id,
     update_record task_id (mark_rolled_back rollback_operation_ref now),
     mutate,
     emit tenant_id now (\<lambda>_. TaskRolledBack (uuid_str task_id) (uuid_str (op_operation_id rollback_operation_ref)))]"

definition complete_rollback :: "EntityId \<Rightarrow> int \<Rightarrow> datetime \<Rightarrow> exec_step" where
  "complete_rollback tenant_id rolled_back_count now = steps [
     assert_tenant tenant_id,
     raise_if (\<lambda>x. ex_state x \<noteq> ROLLING_BACK) (invalid_operation ''complete_rollback''),
     transition ExecutionState.FAILED,
     mutate,
     emit tenant_id now (\<lambda>_. RollbackCompleted rolled_back_count)]"

definition count_records :: "TaskExecutionState set \<Rightarrow> TaskGraphExecution \<Rightarrow> int" where
  "count_records S x = int (length (filter (\<lambda>r. tr_state r \<in> S) (ex_task_records x)))"

definition complete :: "EntityId \<Rightarrow> datetime \<Rightarrow> exec_step" where
  "complete tenant_id now = steps [
     assert_tenant tenant_id,
     raise_if (\<lambda>x. ex_state x \<noteq> ExecutionState.RUNNING) (invalid_operation ''complete''),
     transition ExecutionState.COMPLETED,
     mutate,
     emit tenant_id now (\<lambda>x. ExecutionCompleted (uuid_str (ci_instance_id (ex_campaign_instance_ref x)))
       (count_records {TaskExecutionState.COMPLETED} x) (count_records {TaskExecutionState.SKIPPED} x)
       (count_records {TaskExecutionState.FAILED, TaskExecutionState.TIMED_OUT} x))]"

definition fail :: "EntityId \<Rightarrow> string \<Rightarrow> datetime \<Rightarrow> exec_step" where
  "fail tenant_id failure_reason now = steps [
     assert_tenant tenant_id,
     raise_if (\<lambda>x. ex_state x \<notin> {ExecutionState.RUNNING, PAUSED, ROLLING_BACK}) (invalid_operation ''fail''),
     transition ExecutionState.FAILED,
     mutate,
     emit tenant_id now (\<lambda>x. ExecutionFailed (uuid_str (ci_instance_id (ex_campaign_instance_ref x))) failure_reason)]"

text \<open>\<open>abort\<close> assigns the state without \<open>_transition\<close>.\<close>

definition abort :: "EntityId \<Rightarrow> string \<Rightarrow> datetime \<Rightarrow> exec_step" where
  "abort tenant_id abort_reason now = steps [
     assert_tenant tenant_id,
     raise_if (\<lambda>x. ex_state x \<in> {ExecutionState.COMPLETED, ExecutionState.FAILED, ExecutionState.ABORTED})
       (invalid_operation ''abort''),
     assign (\<lambda>x. x\<lparr>ex_state := ExecutionState.ABORTED\<rparr>),
     mutate,
     emit tenant_id now (\<lambda>x. ExecutionAborted (uuid_str (ci_instance_id (ex_campaign_instance_ref x))) abort_reason)]"

definition breach_safety_policy :: "EntityId \<Rightarrow> string \<Rightarrow> string \<Rightarrow> datetime \<Rightarrow> exec_step" where
  "breach_safety_policy tenant_id breach_type details now = steps [
     assert_tenant tenant_id,
     emit tenant_id now (\<lambda>_. SafetyPolicyBreached breach_type details True)]"

definition start_execution_track :: "EntityId \<Rightarrow> string \<Rightarrow> uuid list \<Rightarrow> datetime \<Rightarrow> exec_step" where
  "start_execution_track tenant_id track_id task_ids now = steps [
     assert_tenant tenant_id,
     assign (\<lambda>x. x\<lparr>ex_tracks := ex_tracks x @ [\<lparr>et_track_id = track_id, et_task_ids = task_ids\<rparr>]\<rparr>),
     mutate,
     emit tenant_id now (\<lambda>_. ExecutionTrackStarted track_id (map uuid_str task_ids))]"

definition record_evaluation_checkpoint :: "EntityId \<Rightarrow> uuid \<Rightarrow> datetime \<Rightarrow> exec_step" where
  "record_evaluation_checkpoint tenant_id checkpoint_task_id now = steps [
     assert_tenant tenant_id,
     assert_record checkpoint_task_id,
     assign (\<lambda>x. x\<lparr>ex_checkpoints := ex_checkpoints x @ [\<lparr>cr_checkpoint_task_id = checkpoint_task_id,
       cr_objective_states = sort (ex_objective_states x), cr_captured_at = now\<rparr>]\<rparr>),
     mutate,
     emit tenant_id now (\<lambda>x. EvaluationCheckpointReached (uuid_str checkpoint_task_id) (sort (ex_objective_states x)))]"

section \<open>Calls\<close>

datatype exec_call =
    Mark_Running datetime
  | Mark_Task_Ready EntityId uuid datetime
  | Record_Task_Dispatched EntityId uuid OperationRef datetime
  | Record_Task_Completion EntityId uuid TaskOutcome datetime "uuid list" "uuid list"
  | Record_Task_Failure EntityId uuid string datetime
  | Record_Task_Timeout EntityId uuid int datetime
  | Evaluate_Barrier EntityId uuid "uuid list" datetime
  | Reach_Gate EntityId PendingApprovalGate datetime
  | Grant_Approval EntityId string datetime
  | Deny_Approval EntityId string string datetime
  | Approval_Timeout EntityId datetime
  | Pause EntityId string datetime
  | Resume EntityId datetime
  | Initiate_Rollback EntityId string int datetime
  | Record_Task_Rolled_Back EntityId uuid OperationRef datetime
  | Complete_Rollback EntityId int datetime
  | Complete EntityId datetime
  | Fail EntityId string datetime
  | Abort EntityId string datetime
  | Breach_Safety_Policy EntityId string string datetime
  | Start_Track EntityId string "uuid list" datetime
  | Record_Checkpoint EntityId uuid datetime

primrec exec :: "exec_call \<Rightarrow> exec_step" where
  "exec (Mark_Running now) = mark_running now"
| "exec (Mark_Task_Ready t i now) = mark_task_ready t i now"
| "exec (Record_Task_Dispatched t i op now) = record_task_dispatched t i op now"
| "exec (Record_Task_Completion t i out now rs ss) = record_task_completion t i out now rs ss"
| "exec (Record_Task_Failure t i r now) = record_task_failure t i r now"
| "exec (Record_Task_Timeout t i s now) = record_task_timeout t i s now"
| "exec (Evaluate_Barrier t i gs now) = evaluate_barrier t i gs now"
| "exec (Reach_Gate t g now) = reach_human_approval_gate t g now"
| "exec (Grant_Approval t a now) = grant_human_approval t a now"
| "exec (Deny_Approval t a r now) = deny_human_approval t a r now"
| "exec (Approval_Timeout t now) = ignore_result (handle_approval_timeout t now)"
| "exec (Pause t r now) = pause t r now"
| "exec (Resume t now) = resume t now"
| "exec (Initiate_Rollback t r n now) = initiate_rollback t r n now"
| "exec (Record_Task_Rolled_Back t i op now) = record_task_rolled_back t i op now"
| "exec (Complete_Rollback t n now) = complete_rollback t n now"
| "exec (Complete t now) = complete t now"
| "exec (Fail t r now) = fail t r now"
| "exec (Abort t r now) = abort t r now"
| "exec (Breach_Safety_Policy t b d now) = breach_safety_policy t b d now"
| "exec (Start_Track t i is now) = start_execution_track t i is now"
| "exec (Record_Checkpoint t i now) = record_evaluation_checkpoint t i now"

text \<open>\<open>mark_running\<close> is the only mutator without a tenant argument.\<close>

primrec exec_caller :: "exec_call \<Rightarrow> EntityId option" where
  "exec_caller (Mark_Running now) = None"
| "exec_caller (Mark_Task_Ready t i now) = Some t"
| "exec_caller (Record_Task_Dispatched t i op now) = Some t"
| "exec_caller (Record_Task_Completion t i out now rs ss) = Some t"
| "exec_caller (Record_Task_Failure t i r now) = Some t"
| "exec_caller (Record_Task_Timeout t i s now) = Some t"
| "exec_caller (Evaluate_Barrier t i gs now) = Some t"
| "exec_caller (Reach_Gate t g now) = Some t"
| "exec_caller (Grant_Approval t a now) = Some t"
| "exec_caller (Deny_Approval t a r now) = Some t"
| "exec_caller (Approval_Timeout t now) = Some t"
| "exec_caller (Pause t r now) = Some t"
| "exec_caller (Resume t now) = Some t"
| "exec_caller (Initiate_Rollback t r n now) = Some t"
| "exec_caller (Record_Task_Rolled_Back t i op now) = Some t"
| "exec_caller (Complete_Rollback t n now) = Some t"
| "exec_caller (Complete t now) = Some t"
| "exec_caller (Fail t r now) = Some t"
| "exec_caller (Abort t r now) = Some t"
| "exec_caller (Breach_Safety_Policy t b d now) = Some t"
| "exec_caller (Start_Track t i is now) = Some t"
| "exec_caller (Record_Checkpoint t i now) = Some t"

section \<open>What every call keeps\<close>

lemmas exec_op_defs = mark_running_def mark_task_ready_def record_task_dispatched_def
  record_task_completion_def record_task_failure_def record_task_timeout_def evaluate_barrier_def
  reach_human_approval_gate_def grant_human_approval_def deny_human_approval_def
  handle_approval_timeout_def approval_timeout_steps_def pause_def resume_def initiate_rollback_def
  record_task_rolled_back_def complete_rollback_def complete_def fail_def abort_def
  breach_safety_policy_def start_execution_track_def record_evaluation_checkpoint_def

lemmas exec_step_defs = transition_def mutate_def emit_def assert_tenant_def assert_record_def
  update_record_def no_gate_def clear_gate_def mark_successor_ready_def mark_successor_skipped_def

lemma final_exec_timeout: "final (exec (Approval_Timeout t now) x) = final (approval_timeout_steps t now x)"
  by (simp add: handle_approval_timeout_def)

text \<open>A predicate that every single statement keeps is kept by every call.\<close>

lemma exec_keeps:
  assumes assigns: "\<And>x ev. P x \<Longrightarrow> P (x\<lparr>ex_pending_events := ex_pending_events x @ [ev]\<rparr>)"
    "\<And>x. P x \<Longrightarrow> P (x\<lparr>ex_version := ex_version x + 1\<rparr>)"
    "\<And>x s. P x \<Longrightarrow> P (x\<lparr>ex_state := s\<rparr>)"
    "\<And>x rs. P x \<Longrightarrow> P (x\<lparr>ex_task_records := rs\<rparr>)"
    "\<And>x g. P x \<Longrightarrow> P (x\<lparr>ex_pending_approval_gate := g\<rparr>)"
    "\<And>x b. P x \<Longrightarrow> P (x\<lparr>ex_active_branch_path := b\<rparr>)"
    "\<And>x ts. P x \<Longrightarrow> P (x\<lparr>ex_tracks := ts\<rparr>)"
    "\<And>x cs. P x \<Longrightarrow> P (x\<lparr>ex_checkpoints := cs\<rparr>)"
  shows "keeps P (exec c)"
proof -
  have successors: "keeps P (mark_successor_ready s)" "keeps P (mark_successor_skipped t i now s)" for s t i now
    unfolding exec_step_defs by (auto intro!: keeps_intros assms)
  have timeout: "keeps P (approval_timeout_steps t now)" for t now
    unfolding exec_op_defs exec_step_defs by (auto intro!: keeps_intros assms split: option.splits)
  show ?thesis
  proof (cases c)
    case (Approval_Timeout t now)
    with timeout show ?thesis by (simp add: keeps_def final_exec_timeout del: exec.simps)
  qed (simp_all only: exec.simps exec_op_defs exec_step_defs,
    (auto intro!: keeps_intros assms successors split: option.splits))
qed

lemma exec_tenant: "ex_tenant_id (final (exec c x)) = ex_tenant_id x"
  using keepsD [OF exec_keeps [of "\<lambda>y. ex_tenant_id y = ex_tenant_id x"]] by simp

lemma exec_version: "ex_version x \<le> ex_version (final (exec c x))"
  using keepsD [OF exec_keeps [of "\<lambda>y. ex_version x \<le> ex_version y"]] by simp

lemma exec_events: "\<exists>es. ex_pending_events (final (exec c x)) = ex_pending_events x @ es"
  by (rule keepsD [OF exec_keeps [of "\<lambda>y. \<exists>es. ex_pending_events y = ex_pending_events x @ es"]]) auto

lemma assert_tenant_foreign:
  "t \<noteq> ex_tenant_id x \<Longrightarrow> steps (assert_tenant t # as) x = Raise (TenantMismatch (ex_tenant_id x) t) x"
  by (simp add: assert_tenant_def step_simps)

lemma assert_tenant_own: "steps (assert_tenant (ex_tenant_id x) # as) x = steps as x"
  by (simp add: assert_tenant_def step_simps)

lemma exec_foreign:
  "exec_caller c = Some t \<Longrightarrow> t \<noteq> ex_tenant_id x \<Longrightarrow> \<exists>e. exec c x = Raise e x"
  by (cases c) (simp_all add: exec_op_defs assert_tenant_foreign ignore_result_def and_return_def)

interpretation execution: aggregate_root exec ex_tenant_id ex_version ex_pending_events
  by unfold_locales (fact exec_tenant exec_version exec_events)+

interpretation execution: tenant_guarded exec ex_tenant_id ex_version ex_pending_events exec_caller
  by unfold_locales (fact exec_foreign)

section \<open>The execution state\<close>

text \<open>Completion touches neither the state nor the pending gate.\<close>

definition control :: "TaskGraphExecution \<Rightarrow> ExecutionState \<times> PendingApprovalGate option" where
  "control x = (ex_state x, ex_pending_approval_gate x)"

lemma completion_control: "control (final (record_task_completion t i out now rs ss x)) = control x"
proof -
  have "keeps (\<lambda>y. control y = control x) (record_task_completion t i out now rs ss)"
    unfolding record_task_completion_def mark_successor_ready_def mark_successor_skipped_def
      assert_tenant_def assert_record_def update_record_def mutate_def emit_def
    by (auto intro!: keeps_intros simp: control_def)
  then show ?thesis by (rule keepsD) simp
qed

text \<open>The moves of the state: the table, and \<open>abort\<close> from the initial state, which the table lacks.\<close>

definition execution_moves :: "ExecutionState \<Rightarrow> ExecutionState set" where
  "execution_moves s = ALLOWED_TRANSITIONS s \<union> (if s = INITIALIZING then {ExecutionState.ABORTED} else {})"

lemmas exec_eval = exec_op_defs transition_def mutate_def emit_def assert_record_def
  update_record_def no_gate_def clear_gate_def step_simps

lemma exec_moves:
  "ex_state (final (exec c x)) = ex_state x \<or> ex_state (final (exec c x)) \<in> execution_moves (ex_state x)"
proof (cases "exec_caller c = Some (ex_tenant_id x) \<or> exec_caller c = None")
  case False
  then obtain e where "exec c x = Raise e x" using exec_foreign by (metis option.exhaust)
  then show ?thesis by simp
next
  case True
  then show ?thesis
  proof (cases c)
    case (Record_Task_Completion t i out now rs ss)
    then show ?thesis using completion_control [of t i out now rs ss x] by (simp add: control_def)
  next
    case (Abort t r now)
    then show ?thesis using True
      by (cases "ex_state x") (simp_all add: assert_tenant_own exec_eval execution_moves_def)
  qed (use True in \<open>auto simp: assert_tenant_own exec_eval execution_moves_def split: option.splits\<close>)
qed

interpretation execution_states: status_machine exec ex_state execution_moves
  by unfold_locales (fact exec_moves)

text \<open>An execution that has completed, failed or been aborted keeps that state under every
  sequence of calls, and the states an execution goes through follow the transition table (plus the
  abort of an execution that has not started).\<close>

theorem execution_state_machine:
  "(ex_state x, ex_state (history exec cs x)) \<in> {(a, b). b \<in> execution_moves a}\<^sup>* \<and>
   (ex_state x \<in> {ExecutionState.COMPLETED, ExecutionState.FAILED, ExecutionState.ABORTED} \<longrightarrow>
      ex_state (history exec cs x) = ex_state x)"
  using execution_states.history_path [of x cs] execution_states.sink_history [of x cs]
  by (auto simp: execution_moves_def)

section \<open>Task records\<close>

lemma find_update_first:
  "\<forall>y. find P xs = Some y \<longrightarrow> R y (f y) \<Longrightarrow> (\<And>x. R x x) \<Longrightarrow> list_all2 R xs (update_first P f xs)"
  by (induction xs) (auto simp: list_all2_refl split: if_splits)

lemmas mark_defs = mark_ready_def mark_dispatching_def mark_task_running_def mark_completed_def
  mark_failed_def mark_skipped_def mark_timed_out_def mark_rolled_back_def

lemma record_is_find: "find_record i x = Some r \<Longrightarrow> record_is P i x \<longleftrightarrow> P r"
  by (simp add: record_is_def)

text \<open>A relation between the old and the new value of a record that every change of a record the
  aggregate makes respects holds between the records before and after any history.\<close>

locale record_relation =
  fixes R :: "TaskExecutionRecord \<Rightarrow> TaskExecutionRecord \<Rightarrow> bool"
  assumes refl: "R r r"
    and trans: "R a b \<Longrightarrow> R b c \<Longrightarrow> R a c"
    and completed: "R r (mark_completed out now r)"
    and failed: "R r (mark_failed why now r)"
    and skipped: "\<not> is_terminal r \<Longrightarrow> R r (mark_skipped r)"
    and timed_out: "R r (mark_timed_out now r)"
    and rolled_back: "R r (mark_rolled_back op now r)"
    and ready: "\<not> is_terminal r \<Longrightarrow> R r (mark_ready r)"
    and running: "\<not> is_terminal r \<Longrightarrow> R r (mark_task_running op now r)"
begin

definition since :: "TaskExecutionRecord list \<Rightarrow> TaskGraphExecution \<Rightarrow> bool" where
  "since rs x \<longleftrightarrow> list_all2 R rs (ex_task_records x)"

lemma since_update:
  assumes "since rs x" and "\<And>r. find_record i x = Some r \<Longrightarrow> R r (f r)"
  shows "since rs (x\<lparr>ex_task_records := update_first (\<lambda>r. tr_task_id r = i) f (ex_task_records x)\<rparr>)"
proof -
  have "list_all2 R (ex_task_records x) (update_first (\<lambda>r. tr_task_id r = i) f (ex_task_records x))"
    using assms(2) by (intro find_update_first) (auto simp: find_record_def refl)
  with assms(1) show ?thesis
    using list_all2_trans [of R R R, OF trans] by (simp add: since_def)
qed

lemma since_frame:
  "since rs (x\<lparr>ex_pending_events := a\<rparr>) = since rs x" "since rs (x\<lparr>ex_version := b\<rparr>) = since rs x"
  "since rs (x\<lparr>ex_state := c\<rparr>) = since rs x" "since rs (x\<lparr>ex_pending_approval_gate := d\<rparr>) = since rs x"
  "since rs (x\<lparr>ex_active_branch_path := e\<rparr>) = since rs x" "since rs (x\<lparr>ex_tracks := f\<rparr>) = since rs x"
  "since rs (x\<lparr>ex_checkpoints := g\<rparr>) = since rs x"
  by (simp_all add: since_def)

lemmas frames = transition_def mutate_def emit_def assert_tenant_def assert_record_def no_gate_def clear_gate_def
lemmas marks = completed failed skipped timed_out rolled_back ready running

lemma keeps_successors:
  "keeps (since rs) (mark_successor_ready s)" "keeps (since rs) (mark_successor_skipped t i now s)"
  unfolding mark_successor_ready_def mark_successor_skipped_def update_record_def frames
  by (rule keeps_if_guarded; auto intro!: since_update keeps_intros simp: record_is_find is_terminal_def since_frame marks)+

lemma keeps_guarded_ops:
  "keeps (since rs) (mark_task_ready t i now)" "keeps (since rs) (record_task_dispatched t i op now)"
  "keeps (since rs) (evaluate_barrier t i gs now)"
  unfolding mark_task_ready_def record_task_dispatched_def evaluate_barrier_def frames update_record_def
  by (intro keeps_guarded keeps_if_guarded keeps_steps_Nil keeps_steps_Cons keeps_if_else keeps_raise_if keeps_assign;
      auto intro!: since_update simp: record_is_find is_terminal_def since_frame marks)+

lemma keeps_timeout: "keeps (since rs) (approval_timeout_steps t now)"
  unfolding exec_op_defs frames update_record_def
  by (auto intro!: keeps_intros since_update marks simp: since_frame split: option.splits)

lemma exec_since: "keeps (since rs) (exec c)"
proof (cases c)
  case (Approval_Timeout t now)
  with keeps_timeout show ?thesis by (simp add: keeps_def final_exec_timeout del: exec.simps)
qed (simp_all only: exec.simps keeps_guarded_ops, simp_all only: exec_op_defs frames update_record_def,
  (auto intro!: keeps_intros since_update keeps_successors marks simp: since_frame split: option.splits))

lemma history_records: "list_all2 R (ex_task_records x) (ex_task_records (history exec cs x))"
proof -
  have "since (ex_task_records x) (history exec cs x)"
    by (rule history_keeps [OF exec_since]) (simp add: since_def list_all2_refl refl)
  then show ?thesis by (simp add: since_def)
qed

end

text \<open>A record keeps its identity, and a terminal one stays terminal.\<close>

definition record_le :: "TaskExecutionRecord \<Rightarrow> TaskExecutionRecord \<Rightarrow> bool" where
  "record_le r s \<longleftrightarrow> tr_task_id r = tr_task_id s \<and> tr_record_id r = tr_record_id s \<and>
     (is_terminal r \<longrightarrow> is_terminal s)"

lemma terminal_marks:
  "is_terminal (mark_completed out now r)" "is_terminal (mark_failed why now r)" "is_terminal (mark_skipped r)"
  "is_terminal (mark_timed_out now r)" "is_terminal (mark_rolled_back op now r)"
  by (simp_all add: mark_defs is_terminal_def)

lemma mark_identity:
  "tr_task_id (mark_completed out now r) = tr_task_id r" "tr_record_id (mark_completed out now r) = tr_record_id r"
  "tr_task_id (mark_failed why now r) = tr_task_id r" "tr_record_id (mark_failed why now r) = tr_record_id r"
  "tr_task_id (mark_skipped r) = tr_task_id r" "tr_record_id (mark_skipped r) = tr_record_id r"
  "tr_task_id (mark_timed_out now r) = tr_task_id r" "tr_record_id (mark_timed_out now r) = tr_record_id r"
  "tr_task_id (mark_rolled_back op now r) = tr_task_id r" "tr_record_id (mark_rolled_back op now r) = tr_record_id r"
  "tr_task_id (mark_ready r) = tr_task_id r" "tr_record_id (mark_ready r) = tr_record_id r"
  "tr_task_id (mark_task_running op now r) = tr_task_id r" "tr_record_id (mark_task_running op now r) = tr_record_id r"
  by (simp_all add: mark_defs)

interpretation identity: record_relation record_le
  by unfold_locales (simp_all add: record_le_def terminal_marks mark_identity)

text \<open>A completed record has an instant of completion.\<close>

definition dated :: "TaskExecutionRecord \<Rightarrow> bool" where
  "dated r \<longleftrightarrow> (tr_state r = TaskExecutionState.COMPLETED \<longrightarrow> tr_completed_at r \<noteq> None)"

interpretation dates: record_relation "\<lambda>r s. dated r \<longrightarrow> dated s"
  by unfold_locales (simp_all add: dated_def mark_defs is_terminal_def)

lemma completed_records_dated:
  assumes "r \<in> set (ex_task_records (history exec cs (initialize i t ci gv en ps ids now)))"
  shows "dated r"
proof -
  let ?x = "initialize i t ci gv en ps ids now"
  have start: "\<forall>r \<in> set (ex_task_records ?x). dated r"
    by (auto simp: initialize_def emit_def assign_def dated_def)
  obtain j where j: "j < length (ex_task_records (history exec cs ?x))" "r = ex_task_records (history exec cs ?x) ! j"
    using assms by (auto simp: in_set_conv_nth)
  note rel = dates.history_records [of ?x cs]
  have "j < length (ex_task_records ?x)" using j(1) list_all2_lengthD [OF rel] by simp
  then have "dated (ex_task_records ?x ! j)" using start by simp
  with list_all2_nthD2 [OF rel j(1)] j(2) show ?thesis by simp
qed


subsection \<open>Completion\<close>

abbreviation "record_ids x \<equiv> map tr_task_id (ex_task_records x)"

lemma update_first_map:
  "distinct (map k xs) \<Longrightarrow> update_first (\<lambda>x. k x = i) f xs = map (\<lambda>x. if k x = i then f x else x) xs"
  by (induction xs) (auto intro!: map_idI [symmetric] simp: image_iff)

lemma find_distinct: "distinct (map k xs) \<Longrightarrow> x \<in> set xs \<Longrightarrow> find (\<lambda>y. k y = k x) xs = Some x"
  by (induction xs) auto

lemma find_record_iff:
  "distinct (record_ids x) \<Longrightarrow> find_record i x = Some r \<longleftrightarrow> r \<in> set (ex_task_records x) \<and> tr_task_id r = i"
  unfolding find_record_def using find_distinct [of tr_task_id "ex_task_records x" r]
  by (auto simp: find_Some_iff)

definition ready_mark :: "uuid set \<Rightarrow> TaskExecutionRecord \<Rightarrow> TaskExecutionRecord" where
  "ready_mark S r = (if tr_task_id r \<in> S \<and> tr_state r = PENDING then mark_ready r else r)"

definition skip_mark :: "uuid set \<Rightarrow> TaskExecutionRecord \<Rightarrow> TaskExecutionRecord" where
  "skip_mark S r = (if tr_task_id r \<in> S \<and> tr_state r \<in> {PENDING, READY_TO_DISPATCH} then mark_skipped r else r)"

lemma mark_ids [simp]:
  "tr_task_id (ready_mark S r) = tr_task_id r" "tr_task_id (skip_mark S r) = tr_task_id r"
  "tr_task_id (mark_completed out now r) = tr_task_id r" "tr_state (mark_completed out now r) = TaskExecutionState.COMPLETED"
  by (simp_all add: ready_mark_def skip_mark_def mark_defs)

lemma map_record_update:
  assumes "distinct (record_ids x)" and "\<And>r. r \<in> set (ex_task_records x) \<Longrightarrow> tr_task_id r = i \<Longrightarrow> c i x \<longleftrightarrow> C r"
  shows "(if c i x then update_first (\<lambda>r. tr_task_id r = i) f (ex_task_records x) else ex_task_records x) =
    map (\<lambda>r. if tr_task_id r = i \<and> C r then f r else r) (ex_task_records x)"
  using assms by (auto simp: update_first_map intro!: map_idI [symmetric])

lemma in_state_record:
  "distinct (record_ids x) \<Longrightarrow> r \<in> set (ex_task_records x) \<Longrightarrow> tr_task_id r = i \<Longrightarrow> record_is P i x \<longleftrightarrow> P r"
  using find_record_iff [of x i r] by (auto simp: record_is_def)

lemma mark_successor_ready_eq:
  assumes "distinct (record_ids x)"
  shows "mark_successor_ready s x = Return () (x\<lparr>ex_task_records := map (ready_mark {s}) (ex_task_records x)\<rparr>)"
proof -
  have "(if in_state {PENDING} s x then update_first (\<lambda>r. tr_task_id r = s) mark_ready (ex_task_records x) else ex_task_records x)
      = map (ready_mark {s}) (ex_task_records x)"
    using map_record_update [OF assms, of s "in_state {PENDING}" "\<lambda>r. tr_state r = PENDING"] in_state_record [OF assms]
    by (simp add: ready_mark_def [abs_def])
  then show ?thesis
    by (auto simp: mark_successor_ready_def update_record_def if_else_def step_simps split: if_splits)
qed

lemma ready_loop:
  "distinct (record_ids x) \<Longrightarrow>
   steps (map mark_successor_ready ss) x = Return () (x\<lparr>ex_task_records := map (ready_mark (set ss)) (ex_task_records x)\<rparr>)"
proof (induction ss arbitrary: x)
  case Nil
  then show ?case by (simp add: ready_mark_def [abs_def])
next
  case (Cons s ss)
  have "ready_mark (set ss) (ready_mark {s} r) = ready_mark (set (s # ss)) r" for r
    by (simp add: ready_mark_def mark_ready_def)
  with Cons show ?case
    by (simp add: steps.simps mark_successor_ready_eq comp_def)
qed

lemma mark_successor_skipped_eq:
  assumes "distinct (record_ids x)"
  shows "\<exists>evs. mark_successor_skipped t i now s x = Return () (x\<lparr>ex_task_records := map (skip_mark {s}) (ex_task_records x),
    ex_pending_events := ex_pending_events x @ evs\<rparr>)"
proof -
  have eq: "(if in_state {PENDING, READY_TO_DISPATCH} s x then update_first (\<lambda>r. tr_task_id r = s) mark_skipped (ex_task_records x)
      else ex_task_records x) = map (skip_mark {s}) (ex_task_records x)"
    using map_record_update [OF assms, of s "in_state {PENDING, READY_TO_DISPATCH}" "\<lambda>r. tr_state r \<in> {PENDING, READY_TO_DISPATCH}"]
      in_state_record [OF assms] by (simp add: skip_mark_def [abs_def])
  show ?thesis
  proof (cases "in_state {PENDING, READY_TO_DISPATCH} s x")
    case True
    with eq have "update_first (\<lambda>r. tr_task_id r = s) mark_skipped (ex_task_records x) = map (skip_mark {s}) (ex_task_records x)"
      by simp
    with True show ?thesis
      unfolding mark_successor_skipped_def update_record_def emit_def if_else_def
      by (simp only: if_True step_simps steps.simps(1)) (auto simp: intro!: exI)
  next
    case False
    with eq show ?thesis
      by (intro exI [of _ "[]"]) (simp add: mark_successor_skipped_def if_else_def)
  qed
qed

lemma skip_loop:
  "distinct (record_ids x) \<Longrightarrow>
   \<exists>evs. steps (map (mark_successor_skipped t i now) ss) x =
     Return () (x\<lparr>ex_task_records := map (skip_mark (set ss)) (ex_task_records x), ex_pending_events := ex_pending_events x @ evs\<rparr>)"
proof (induction ss arbitrary: x)
  case Nil
  then show ?case by (auto simp: skip_mark_def [abs_def] intro!: exI [of _ "[]"])
next
  case (Cons s ss)
  have eq: "skip_mark (set ss) (skip_mark {s} r) = skip_mark (set (s # ss)) r" for r
    by (auto simp: skip_mark_def mark_skipped_def)
  obtain evs where e: "mark_successor_skipped t i now s x = Return () (x\<lparr>ex_task_records := map (skip_mark {s}) (ex_task_records x),
      ex_pending_events := ex_pending_events x @ evs\<rparr>)" using mark_successor_skipped_eq [OF Cons.prems] by blast
  define y where "y = x\<lparr>ex_task_records := map (skip_mark {s}) (ex_task_records x), ex_pending_events := ex_pending_events x @ evs\<rparr>"
  have "distinct (record_ids y)" using Cons.prems by (simp add: y_def comp_def)
  from Cons.IH [OF this] obtain evs' where
    "steps (map (mark_successor_skipped t i now) ss) y =
      Return () (y\<lparr>ex_task_records := map (skip_mark (set ss)) (ex_task_records y), ex_pending_events := ex_pending_events y @ evs'\<rparr>)"
    by blast
  then show ?case using e eq by (auto simp: steps.simps y_def comp_def)
qed

definition completed_mark :: "uuid \<Rightarrow> TaskOutcome \<Rightarrow> datetime \<Rightarrow> uuid set \<Rightarrow> uuid set \<Rightarrow> TaskExecutionRecord \<Rightarrow> TaskExecutionRecord" where
  "completed_mark i out now rs ss r =
     (if tr_task_id r = i then mark_completed out now r
      else if tr_task_id r \<in> ss \<and> tr_state r \<in> {PENDING, READY_TO_DISPATCH} then mark_skipped r
      else if tr_task_id r \<in> rs \<and> tr_state r = PENDING then mark_ready r
      else r)"

lemma completed_mark_eq:
  "skip_mark ss (ready_mark rs (if tr_task_id r = i then mark_completed out now r else r)) = completed_mark i out now rs ss r"
  by (auto simp: completed_mark_def skip_mark_def ready_mark_def mark_defs)

lemma completion_records:
  assumes "distinct (record_ids x)" and "find_record i x = Some r" and "\<not> is_terminal r"
  shows "\<exists>y. record_task_completion (ex_tenant_id x) i out now rs ss x = Return () y \<and>
    ex_task_records y = map (completed_mark i out now (set rs) (set ss)) (ex_task_records x) \<and>
    ex_active_branch_path y = ex_active_branch_path x \<union> (if rs = [] \<and> ss = [] then {} else set rs) \<and>
    ex_version y = ex_version x + 1"
proof -
  have "\<not> record_is is_terminal i x" using assms(2,3) by (simp add: record_is_find)
  moreover define x1 where "x1 = x\<lparr>ex_task_records := map (\<lambda>r. if tr_task_id r = i then mark_completed out now r else r) (ex_task_records x),
      ex_version := ex_version x + 1\<rparr>"
  define e where "e = \<lparr>ev_occurred_at = now, ev_tenant_id = ex_tenant_id x, ev_aggregate_id = uuid_str (ex_execution_id x),
      ev_aggregate_type = ''TaskGraphExecution'', ev_payload = TaskCompleted (uuid_str i) (TaskOutcome_value out) (operation_id_of i x1)\<rparr>"
  define x2 where "x2 = x1\<lparr>ex_pending_events := ex_pending_events x1 @ [e]\<rparr>"
  define x3 where "x3 = x2\<lparr>ex_task_records := map (ready_mark (set rs)) (ex_task_records x2)\<rparr>"
  have ids: "distinct (record_ids x2)" "distinct (record_ids x3)"
    using assms(1) by (auto simp: x3_def x2_def x1_def comp_def if_distrib cong: if_cong)
  obtain evs where skip: "steps (map (mark_successor_skipped (ex_tenant_id x) i now) ss) x3 =
      Return () (x3\<lparr>ex_task_records := map (skip_mark (set ss)) (ex_task_records x3), ex_pending_events := ex_pending_events x3 @ evs\<rparr>)"
    using skip_loop [OF ids(2)] by blast
  have recs: "map (skip_mark (set ss)) (ex_task_records x3) = map (completed_mark i out now (set rs) (set ss)) (ex_task_records x)"
    by (simp add: x3_def x2_def x1_def completed_mark_eq comp_def)
  have "record_task_completion (ex_tenant_id x) i out now rs ss x =
      steps (map mark_successor_ready rs @
        [for_each ss (mark_successor_skipped (ex_tenant_id x) i now), if_else (\<lambda>_. rs \<noteq> [] \<or> ss \<noteq> [])
          [assign (\<lambda>x. x\<lparr>ex_active_branch_path := with_added (ex_active_branch_path x) rs\<rparr>),
           emit (ex_tenant_id x) now (\<lambda>_. ConditionalBranchResolved (uuid_str i) (TaskOutcome_value out)
             (map uuid_str rs) (map uuid_str ss))] []]) x2"
    using calculation assms update_first_map [OF assms(1)]
    by (simp add: record_task_completion_def assert_tenant_own assert_record_def update_record_def mutate_def emit_def
        step_simps x2_def x1_def e_def)
  then show ?thesis
    using skip ready_loop [OF ids(1)] recs
    by (simp add: steps_append steps_for_each x3_def [symmetric]) (auto simp: step_simps emit_def with_added_def x3_def x2_def x1_def)
qed

text \<open>Recording a completion. The task becomes completed with its outcome, every ready successor
  that was pending becomes ready, every skipped successor that was pending or ready becomes skipped, all
  other records are untouched and the version grows by one; and reporting a task that is already in a
  terminal state changes nothing.\<close>

theorem record_task_completion_effect:
  assumes "distinct (record_ids x)" and "find_record i x = Some r"
  shows "\<exists>y. record_task_completion (ex_tenant_id x) i out now rs ss x = Return () y \<and>
    (if is_terminal r then y = x
     else ex_task_records y = map (completed_mark i out now (set rs) (set ss)) (ex_task_records x) \<and>
       ex_active_branch_path y = ex_active_branch_path x \<union> (if rs = [] \<and> ss = [] then {} else set rs) \<and>
       ex_version y = ex_version x + 1 \<and>
       ex_state y = ex_state x \<and> ex_pending_approval_gate y = ex_pending_approval_gate x)"
proof (cases "is_terminal r")
  case True
  then show ?thesis
    using assms(2) by (simp add: record_task_completion_def assert_tenant_own assert_record_def step_simps record_is_find)
next
  case False
  then show ?thesis
    using completion_records [OF assms False, of out now rs ss] completion_control [of "ex_tenant_id x" i out now rs ss x]
    by (auto simp: control_def)
qed

section \<open>Approval gates\<close>

definition gate_ok :: "TaskGraphExecution \<Rightarrow> bool" where
  "gate_ok x \<longleftrightarrow> (ex_state x = WAITING_FOR_APPROVAL \<longrightarrow> ex_pending_approval_gate x \<noteq> None)"

lemma exec_gate_ok:
  assumes "exec c x = Return () y" and "gate_ok x"
  shows "gate_ok y"
proof (cases c)
  case (Record_Task_Completion t i out now rs ss)
  then show ?thesis
    using assms completion_control [of t i out now rs ss x] by (auto simp: control_def gate_ok_def)
qed (use assms in \<open>auto simp: exec_eval assert_tenant_def gate_ok_def ignore_result_def and_return_def
    split: option.splits if_splits outcome.splits\<close>)

text \<open>In the store, an execution that waits for approval always has a pending gate, so that it can be
  granted, denied or timed out.\<close>

theorem waiting_execution_has_gate:
  "ex_state (saved_history exec cs (initialize i t ci gv en ps ids now)) = WAITING_FOR_APPROVAL \<Longrightarrow>
   ex_pending_approval_gate (saved_history exec cs (initialize i t ci gv en ps ids now)) \<noteq> None"
proof -
  have "gate_ok (saved_history exec cs (initialize i t ci gv en ps ids now))"
    by (rule saved_history_keeps) (blast intro: exec_gate_ok, simp add: gate_ok_def initialize_def emit_def assign_def)
  then show "ex_state (saved_history exec cs (initialize i t ci gv en ps ids now)) = WAITING_FOR_APPROVAL \<Longrightarrow>
    ex_pending_approval_gate (saved_history exec cs (initialize i t ci gv en ps ids now)) \<noteq> None"
    by (simp add: gate_ok_def)
qed

section \<open>Calls that raise\<close>

primrec gate_call :: "exec_call \<Rightarrow> bool" where
  "gate_call (Mark_Running now) = False"
| "gate_call (Mark_Task_Ready t i now) = False"
| "gate_call (Record_Task_Dispatched t i op now) = False"
| "gate_call (Record_Task_Completion t i out now rs ss) = False"
| "gate_call (Record_Task_Failure t i r now) = False"
| "gate_call (Record_Task_Timeout t i s now) = False"
| "gate_call (Evaluate_Barrier t i gs now) = False"
| "gate_call (Reach_Gate t g now) = True"
| "gate_call (Grant_Approval t a now) = True"
| "gate_call (Deny_Approval t a r now) = True"
| "gate_call (Approval_Timeout t now) = True"
| "gate_call (Pause t r now) = False"
| "gate_call (Resume t now) = False"
| "gate_call (Initiate_Rollback t r n now) = False"
| "gate_call (Record_Task_Rolled_Back t i op now) = False"
| "gate_call (Complete_Rollback t n now) = False"
| "gate_call (Complete t now) = False"
| "gate_call (Fail t r now) = False"
| "gate_call (Abort t r now) = False"
| "gate_call (Breach_Safety_Policy t b d now) = False"
| "gate_call (Start_Track t i is now) = False"
| "gate_call (Record_Checkpoint t i now) = False"

lemma total_if_else: "total (steps as) \<Longrightarrow> total (steps bs) \<Longrightarrow> total (if_else c as bs)"
  by (simp add: total_def if_else_def)

lemma total_for_each: "(\<And>x. total (body x)) \<Longrightarrow> total (for_each xs body)"
  unfolding for_each_def by (rule total_steps) auto

lemma completion_atomic: "atomic (record_task_completion t i out now rs ss)"
proof -
  have "total (mark_successor_ready s)" "total (mark_successor_skipped t i now s)" for s
    by (auto simp: mark_successor_ready_def mark_successor_skipped_def update_record_def emit_def total_def if_else_def step_simps)
  note successors = this
  show ?thesis
    unfolding record_task_completion_def assert_tenant_def assert_record_def update_record_def mutate_def emit_def
    by (rule atomic_guard_Cons [OF guard_raise_if], rule atomic_guard_Cons [OF guard_raise_if], rule total_atomic, rule total_steps)
      (auto intro!: total_steps total_if_else total_for_each successors)
qed

lemma exec_atomic: "\<not> gate_call c \<Longrightarrow> exec c x = Raise e y \<Longrightarrow> y = x"
proof (cases c)
  case (Record_Task_Completion t i out now rs ss)
  assume "exec c x = Raise e y"
  then show ?thesis
    using Record_Task_Completion completion_atomic [of t i out now rs ss] by (auto simp: atomic_def dest: spec [of _ x])
qed (auto simp: exec_eval assert_tenant_def split: if_splits)

text \<open>A call that raises leaves the aggregate as it was, for every mutator except the four that
  handle approval gates.\<close>

theorem failed_call_changes_nothing:
  "\<not> gate_call c \<Longrightarrow> exec c x = Raise e y \<Longrightarrow> y = x"
  by (rule exec_atomic)

text \<open>Denying an approval on a paused execution raises, because the table has no move from paused
  to paused, but only after the pending gate was dropped and the approval task was marked as failed: the
  object the caller holds has lost the gate.\<close>

theorem deny_on_paused_loses_gate:
  assumes "ex_state x = PAUSED" and "ex_pending_approval_gate x = Some g" and "find_record (pg_task_id g) x = Some r"
  shows "\<exists>e y. deny_human_approval (ex_tenant_id x) who why now x = Raise e y \<and>
    ex_pending_approval_gate y = None \<and> ex_state y = PAUSED \<and>
    ex_task_records y = update_first (\<lambda>r. tr_task_id r = pg_task_id g)
      (mark_failed (''Approval denied by '' @ who @ '': '' @ why) now) (ex_task_records x)"
  using assms by (simp add: deny_human_approval_def assert_tenant_own exec_eval find_record_def)

text \<open>Granting an approval resumes a paused execution. The pause keeps the pending gate, and the
  move from paused to running is in the table, so an approval restarts a campaign that was paused in the
  meantime, by an operator, by a safety breach or by the kill switch, without \<open>resume\<close>.\<close>

theorem approval_resumes_paused_execution:
  assumes "ex_state x = PAUSED" and "ex_pending_approval_gate x = Some g" and "find_record (pg_task_id g) x = Some r"
  shows "\<exists>y. grant_human_approval (ex_tenant_id x) who now x = Return () y \<and> ex_state y = ExecutionState.RUNNING"
  using assms by (simp add: grant_human_approval_def assert_tenant_own exec_eval find_record_def)

text \<open>Recording a dispatch does not look at the state of the execution: a ready task of an
  execution in any state, paused, aborted or completed included, becomes running.\<close>

theorem dispatch_ignores_execution_state:
  assumes "find_record i x = Some r" and "tr_state r = READY_TO_DISPATCH" and "distinct (record_ids x)"
  shows "\<exists>y. record_task_dispatched (ex_tenant_id x) i op now x = Return () y \<and> ex_state y = ex_state x \<and>
    find_record i y = Some (mark_task_running op now r)"
proof -
  have "find (\<lambda>r. tr_task_id r = i) (update_first (\<lambda>r. tr_task_id r = i) (mark_task_running op now) rs) =
      map_option (mark_task_running op now) (find (\<lambda>r. tr_task_id r = i) rs)" for rs
    by (induction rs) (simp_all add: mark_task_running_def)
  with assms show ?thesis
    by (simp add: record_task_dispatched_def assert_tenant_own exec_eval record_is_find) (simp add: find_record_def)
qed

text \<open>A rollback of a failed execution passes the check that names the failed state as allowed and
  then always raises, because the transition table has no move out of that state.\<close>

theorem rollback_of_failed_execution_raises:
  assumes "ex_state x = ExecutionState.FAILED"
  shows "initiate_rollback (ex_tenant_id x) why n now x =
    Raise (InvalidStateTransition ''Failed'' ''->RollingBack'' (uuid_str (ex_execution_id x))) x"
  using assms by (simp add: initiate_rollback_def assert_tenant_own exec_eval invalid_operation_def)

text \<open>Handling the timeout of a gate does not look at the clock: a gate that has not timed out is
  treated as expired, and with the default \<open>proceed\<close> the approval task counts as approved.\<close>

theorem approval_timeout_ignores_clock:
  assumes "ex_state x = WAITING_FOR_APPROVAL" and "ex_pending_approval_gate x = Some g"
    and "find_record (pg_task_id g) x = Some r" and "pg_default_on_timeout g = ''proceed''"
    and "\<not> is_timed_out g now"
  shows "\<exists>y. handle_approval_timeout (ex_tenant_id x) now x = Return ''proceed'' y \<and> ex_state y = ExecutionState.RUNNING \<and>
    ex_pending_approval_gate y = None"
  using assms by (simp add: handle_approval_timeout_def and_return_def approval_timeout_steps_def assert_tenant_own exec_eval find_record_def)

section \<open>Witnesses\<close>

definition sample_execution :: TaskGraphExecution where
  "sample_execution = initialize 7 (EntityId ''t'') \<lparr>ci_instance_id = 5, ci_campaign_id = 6, ci_tenant_id = EntityId ''t''\<rparr>
     \<lparr>gv_graph_id = 9, gv_version_str = ''1.0.0''\<rparr> \<lparr>en_engagement_id = 4, en_tenant_id = EntityId ''t''\<rparr>
     \<lparr>ps_max_concurrent_actions = 2, ps_auto_abort_on_detection = True, ps_auto_abort_on_objective_failure = False,
      ps_blast_radius_ceiling = ''low''\<rparr> [(101, 1), (102, 2)] 0"

definition sample_gate :: PendingApprovalGate where
  "sample_gate = \<lparr>pg_task_id = 1, pg_gate_created_at = 10, pg_gate_timeout_seconds = 60,
     pg_required_approver_role = ''lead'', pg_default_on_timeout = ''proceed''\<rparr>"

definition waiting_execution :: TaskGraphExecution where
  "waiting_execution = saved_history exec [Mark_Running 1, Reach_Gate (EntityId ''t'') sample_gate 10] sample_execution"

definition paused_execution :: TaskGraphExecution where
  "paused_execution = saved_history exec [Pause (EntityId ''t'') ''stop'' 20] waiting_execution"

lemma waiting_facts:
  "ex_state waiting_execution = WAITING_FOR_APPROVAL" "ex_pending_approval_gate waiting_execution = Some sample_gate"
  "\<exists>r. find_record 1 waiting_execution = Some r" "ex_tenant_id waiting_execution = EntityId ''t''"
  by (simp_all add: waiting_execution_def sample_execution_def initialize_def exec_eval assert_tenant_def saved_def
    find_record_def emit_def assign_def)

lemma paused_facts:
  "ex_state paused_execution = PAUSED" "ex_pending_approval_gate paused_execution = Some sample_gate"
  "\<exists>r. find_record 1 paused_execution = Some r" "ex_tenant_id paused_execution = EntityId ''t''"
  using waiting_facts by (simp_all add: paused_execution_def exec_eval assert_tenant_def saved_def find_record_def)

theorem execution_state_machine_witness:
  "ex_state (history exec [Resume (EntityId ''t'') 9] (sample_execution\<lparr>ex_state := ExecutionState.ABORTED\<rparr>)) = ExecutionState.ABORTED"
  using execution_state_machine [of "sample_execution\<lparr>ex_state := ExecutionState.ABORTED\<rparr>" "[Resume (EntityId ''t'') 9]"]
  by simp

definition failed_task_execution :: TaskGraphExecution where
  "failed_task_execution = history exec [Mark_Running 1, Record_Task_Failure (EntityId ''t'') 1 ''x'' 2] sample_execution"

lemma failed_task_facts:
  "length (ex_task_records failed_task_execution) = 2" "is_terminal (ex_task_records failed_task_execution ! 0)"
  by (simp_all add: failed_task_execution_def sample_execution_def initialize_def exec_eval assert_tenant_def
    find_record_def emit_def assign_def is_terminal_def record_is_def mark_failed_def)


theorem record_task_completion_effect_witness:
  "\<exists>y. record_task_completion (EntityId ''t'') 1 SUCCESS 30 [2] [] waiting_execution = Return () y \<and>
     map tr_state (ex_task_records y) = [TaskExecutionState.COMPLETED, READY_TO_DISPATCH]"
proof -
  let ?x = waiting_execution
  obtain r where r: "find_record 1 ?x = Some r" "\<not> is_terminal r"
    and ids: "record_ids ?x = [1, 2]" "map tr_state (ex_task_records ?x) = [PENDING, PENDING]"
    by (simp add: waiting_execution_def sample_execution_def initialize_def exec_eval assert_tenant_def saved_def
      find_record_def emit_def assign_def is_terminal_def)
  then have "distinct (record_ids ?x)" by simp
  from record_task_completion_effect [OF this r(1), of SUCCESS 30 "[2]" "[]"] r(2) waiting_facts(4)
  obtain y where "record_task_completion (EntityId ''t'') 1 SUCCESS 30 [2] [] ?x = Return () y"
    and "ex_task_records y = map (completed_mark 1 SUCCESS 30 {2} {}) (ex_task_records ?x)" by auto
  moreover obtain a b where "ex_task_records ?x = [a, b]" "tr_task_id a = 1" "tr_task_id b = 2" "tr_state a = PENDING" "tr_state b = PENDING"
    using ids by (auto simp: map_eq_Cons_conv)
  ultimately show ?thesis by (auto simp: completed_mark_def mark_defs)
qed

theorem waiting_execution_has_gate_witness: "ex_pending_approval_gate waiting_execution \<noteq> None"
  using waiting_execution_has_gate [OF waiting_facts(1) [unfolded waiting_execution_def sample_execution_def]]
  by (simp add: waiting_execution_def sample_execution_def)

theorem failed_call_changes_nothing_witness:
  "\<exists>e. exec (Resume (EntityId ''t'') 9) waiting_execution = Raise e waiting_execution"
proof -
  obtain e y where r: "exec (Resume (EntityId ''t'') 9) waiting_execution = Raise e y"
    using waiting_facts by (simp add: resume_def assert_tenant_def step_simps)
  have "\<not> gate_call (Resume (EntityId ''t'') 9)" by simp
  from failed_call_changes_nothing [OF this r] r show ?thesis by blast
qed

theorem deny_on_paused_loses_gate_witness:
  "\<exists>e y. deny_human_approval (EntityId ''t'') ''bob'' ''no'' 30 paused_execution = Raise e y \<and> ex_pending_approval_gate y = None"
proof -
  obtain r where r: "find_record (pg_task_id sample_gate) paused_execution = Some r"
    using paused_facts(3) by (auto simp: sample_gate_def)
  from deny_on_paused_loses_gate [OF paused_facts(1,2) r] paused_facts(4) show ?thesis by metis
qed

theorem approval_resumes_paused_execution_witness:
  "\<exists>y. grant_human_approval (EntityId ''t'') ''bob'' 30 paused_execution = Return () y \<and> ex_state y = ExecutionState.RUNNING"
proof -
  obtain r where r: "find_record (pg_task_id sample_gate) paused_execution = Some r"
    using paused_facts(3) by (auto simp: sample_gate_def)
  from approval_resumes_paused_execution [OF paused_facts(1,2) r, of "''bob''" 30] paused_facts(4) show ?thesis by simp
qed

theorem approval_timeout_ignores_clock_witness:
  "\<not> is_timed_out sample_gate 11 \<and>
   (\<exists>y. handle_approval_timeout (EntityId ''t'') 11 waiting_execution = Return ''proceed'' y \<and> ex_state y = ExecutionState.RUNNING)"
proof -
  obtain r where r: "find_record (pg_task_id sample_gate) waiting_execution = Some r"
    using waiting_facts(3) by (auto simp: sample_gate_def)
  have d: "pg_default_on_timeout sample_gate = ''proceed''" and c: "\<not> is_timed_out sample_gate 11"
    by (simp_all add: sample_gate_def is_timed_out_def)
  from approval_timeout_ignores_clock [OF waiting_facts(1,2) r d c] c waiting_facts(4) show ?thesis by auto
qed

theorem rollback_of_failed_execution_raises_witness:
  "\<exists>e. initiate_rollback (EntityId ''t'') ''undo'' 1 9 (sample_execution\<lparr>ex_state := ExecutionState.FAILED\<rparr>) =
     Raise e (sample_execution\<lparr>ex_state := ExecutionState.FAILED\<rparr>)"
  using rollback_of_failed_execution_raises [of "sample_execution\<lparr>ex_state := ExecutionState.FAILED\<rparr>" "''undo''" 1 9]
  by (auto simp: sample_execution_def initialize_def emit_def assign_def)

definition aborted_execution :: TaskGraphExecution where
  "aborted_execution = saved_history exec [Mark_Task_Ready (EntityId ''t'') 1 1, Abort (EntityId ''t'') ''stop'' 2] sample_execution"

theorem dispatch_ignores_execution_state_witness:
  "ex_state aborted_execution = ExecutionState.ABORTED \<and>
   (\<exists>y r. record_task_dispatched (EntityId ''t'') 1 \<lparr>op_operation_id = 77, op_tenant_id = EntityId ''t''\<rparr> 9 aborted_execution = Return () y \<and>
      find_record 1 y = Some r \<and> tr_state r = TaskExecutionState.RUNNING)"
proof -
  have st: "ex_state aborted_execution = ExecutionState.ABORTED" "ex_tenant_id aborted_execution = EntityId ''t''"
    "distinct (record_ids aborted_execution)"
    and f: "\<exists>r. find_record 1 aborted_execution = Some r \<and> tr_state r = READY_TO_DISPATCH"
    by (simp_all add: aborted_execution_def sample_execution_def initialize_def exec_eval assert_tenant_def saved_def
      find_record_def emit_def assign_def record_is_def mark_ready_def)
  from f obtain r where r: "find_record 1 aborted_execution = Some r" "tr_state r = READY_TO_DISPATCH" by blast
  from dispatch_ignores_execution_state [OF r st(3), of "\<lparr>op_operation_id = 77, op_tenant_id = EntityId ''t''\<rparr>" 9] st
  show ?thesis by (auto simp: mark_task_running_def)
qed

end
