(* ===== verification/Safety_Monitor.thy ===== *)
theory Safety_Monitor
  imports Campaign_Data
begin

text \<open>
  \<open>CampaignSafetyMonitor\<close> (\<open>campaignexecution/domain/aggregates/campaign_safety_monitor.py\<close>): the
  register of concurrent actions of a campaign, with its ceiling and the irreversible auto-abort.
\<close>

section \<open>The aggregate\<close>

datatype MonitorState = ACTIVE | ABORTED | RELEASED

primrec MonitorState_value :: "MonitorState \<Rightarrow> string" where
  "MonitorState_value ACTIVE = ''Active''"
| "MonitorState_value ABORTED = ''Aborted''"
| "MonitorState_value RELEASED = ''Released''"

record CampaignSafetyMonitor =
  sm_monitor_id :: uuid
  sm_tenant_id :: EntityId
  sm_campaign_instance_ref :: CampaignInstanceRef
  sm_policy_snapshot :: PolicySnapshot
  sm_monitor_state :: MonitorState
  sm_auto_abort_triggered :: bool
  sm_active_operation_ids :: "string list"
  sm_version :: int
  sm_pending_events :: "ExecutionEvent event list"

type_synonym monitor_step = "(CampaignExecutionDomainException, CampaignSafetyMonitor) step"

definition monitor_action_count :: "CampaignSafetyMonitor \<Rightarrow> nat" where
  "monitor_action_count m = length (sm_active_operation_ids m)"

definition pop_events :: "CampaignSafetyMonitor \<Rightarrow> ExecutionEvent event list \<times> CampaignSafetyMonitor" where
  "pop_events m = (sm_pending_events m, m\<lparr>sm_pending_events := []\<rparr>)"

definition emit :: "EntityId \<Rightarrow> datetime \<Rightarrow> (CampaignSafetyMonitor \<Rightarrow> ExecutionEvent) \<Rightarrow> monitor_step" where
  "emit tenant_id now payload = assign (\<lambda>m. m\<lparr>sm_pending_events := sm_pending_events m @
     [\<lparr>ev_occurred_at = now, ev_tenant_id = tenant_id, ev_aggregate_id = uuid_str (sm_monitor_id m),
       ev_aggregate_type = ''CampaignSafetyMonitor'', ev_payload = payload m\<rparr>]\<rparr>)"

definition mutate :: monitor_step where
  "mutate = assign (\<lambda>m. m\<lparr>sm_version := sm_version m + 1\<rparr>)"

definition assert_tenant :: "EntityId \<Rightarrow> monitor_step" where
  "assert_tenant tenant_id =
     raise_if (\<lambda>m. tenant_id \<noteq> sm_tenant_id m) (\<lambda>m. TenantMismatch (sm_tenant_id m) tenant_id)"

definition create :: "uuid \<Rightarrow> EntityId \<Rightarrow> CampaignInstanceRef \<Rightarrow> PolicySnapshot \<Rightarrow> datetime \<Rightarrow> CampaignSafetyMonitor" where
  "create monitor_id tenant_id campaign_instance_ref policy_snapshot now =
     final (emit tenant_id now (\<lambda>_. SafetyMonitorInitialized (uuid_str (ci_instance_id campaign_instance_ref))
         (ps_max_concurrent_actions policy_snapshot) (ps_auto_abort_on_detection policy_snapshot))
       \<lparr>sm_monitor_id = monitor_id, sm_tenant_id = tenant_id, sm_campaign_instance_ref = campaign_instance_ref,
        sm_policy_snapshot = policy_snapshot, sm_monitor_state = ACTIVE, sm_auto_abort_triggered = False,
        sm_active_operation_ids = [], sm_version = 1, sm_pending_events = []\<rparr>)"

definition register_action :: "EntityId \<Rightarrow> string \<Rightarrow> datetime \<Rightarrow> monitor_step" where
  "register_action tenant_id operation_id now = steps [
     assert_tenant tenant_id,
     raise_if sm_auto_abort_triggered (\<lambda>m. MonitorAutoAbortAlreadyTriggered (uuid_str (sm_monitor_id m))),
     raise_if (\<lambda>m. sm_monitor_state m \<noteq> ACTIVE)
       (\<lambda>_. SafetyPolicyViolation ''monitor_state'' ''Safety monitor is not active''),
     if_else (\<lambda>m. operation_id \<in> set (sm_active_operation_ids m)) []
       [raise_if (\<lambda>m. int (length (sm_active_operation_ids m)) \<ge> ps_max_concurrent_actions (sm_policy_snapshot m))
          (\<lambda>m. SafetyPolicyViolation ''max_concurrent_actions'' (''Would exceed ceiling of ''
             @ str_int (ps_max_concurrent_actions (sm_policy_snapshot m)) @ '' concurrent actions'')),
        assign (\<lambda>m. m\<lparr>sm_active_operation_ids := sm_active_operation_ids m @ [operation_id]\<rparr>),
        mutate,
        emit tenant_id now (\<lambda>m. ConcurrentActionRegistered operation_id
          (int (length (sm_active_operation_ids m))) (ps_max_concurrent_actions (sm_policy_snapshot m)))]]"

definition release_action :: "EntityId \<Rightarrow> string \<Rightarrow> datetime \<Rightarrow> monitor_step" where
  "release_action tenant_id operation_id now = steps [
     assert_tenant tenant_id,
     if_else (\<lambda>m. operation_id \<notin> set (sm_active_operation_ids m)) []
       [assign (\<lambda>m. m\<lparr>sm_active_operation_ids := remove1 operation_id (sm_active_operation_ids m)\<rparr>),
        mutate,
        emit tenant_id now (\<lambda>m. ConcurrentActionReleased operation_id (int (length (sm_active_operation_ids m))))]]"

definition trigger_auto_abort_on_detection :: "EntityId \<Rightarrow> string \<Rightarrow> datetime \<Rightarrow> monitor_step" where
  "trigger_auto_abort_on_detection tenant_id detection_detail now = steps [
     assert_tenant tenant_id,
     if_else (\<lambda>m. \<not> ps_auto_abort_on_detection (sm_policy_snapshot m)) []
       [if_else sm_auto_abort_triggered []
          [assign (\<lambda>m. m\<lparr>sm_auto_abort_triggered := True\<rparr>),
           assign (\<lambda>m. m\<lparr>sm_monitor_state := ABORTED\<rparr>),
           mutate,
           emit tenant_id now (\<lambda>m. SafetyMonitorAborted (uuid_str (ci_instance_id (sm_campaign_instance_ref m)))
             (''auto_abort_on_detection: '' @ detection_detail))]]]"

definition release :: "EntityId \<Rightarrow> datetime \<Rightarrow> monitor_step" where
  "release tenant_id now = steps [
     assert_tenant tenant_id,
     assign (\<lambda>m. m\<lparr>sm_monitor_state := RELEASED\<rparr>),
     assign (\<lambda>m. m\<lparr>sm_active_operation_ids := []\<rparr>),
     mutate,
     emit tenant_id now (\<lambda>m. SafetyMonitorReleased (uuid_str (ci_instance_id (sm_campaign_instance_ref m))))]"

datatype monitor_call =
    Register_Action EntityId string datetime
  | Release_Action EntityId string datetime
  | Trigger_Auto_Abort EntityId string datetime
  | Release EntityId datetime

primrec exec_monitor :: "monitor_call \<Rightarrow> monitor_step" where
  "exec_monitor (Register_Action t i now) = register_action t i now"
| "exec_monitor (Release_Action t i now) = release_action t i now"
| "exec_monitor (Trigger_Auto_Abort t d now) = trigger_auto_abort_on_detection t d now"
| "exec_monitor (Release t now) = release t now"

primrec monitor_caller :: "monitor_call \<Rightarrow> EntityId option" where
  "monitor_caller (Register_Action t i now) = Some t"
| "monitor_caller (Release_Action t i now) = Some t"
| "monitor_caller (Trigger_Auto_Abort t d now) = Some t"
| "monitor_caller (Release t now) = Some t"

section \<open>Laws\<close>

lemmas monitor_eval = register_action_def release_action_def trigger_auto_abort_on_detection_def release_def
  emit_def mutate_def assert_tenant_def step_simps

lemma monitor_tenant: "sm_tenant_id (final (exec_monitor c m)) = sm_tenant_id m"
  by (cases c) (simp_all add: monitor_eval)

lemma monitor_version: "sm_version m \<le> sm_version (final (exec_monitor c m))"
  by (cases c) (simp_all add: monitor_eval)

lemma monitor_events: "\<exists>es. sm_pending_events (final (exec_monitor c m)) = sm_pending_events m @ es"
  by (cases c) (simp_all add: monitor_eval)

lemma monitor_foreign:
  "monitor_caller c = Some t \<Longrightarrow> t \<noteq> sm_tenant_id m \<Longrightarrow> \<exists>e. exec_monitor c m = Raise e m"
  by (cases c) (simp_all add: monitor_eval)

interpretation monitor: aggregate_root exec_monitor sm_tenant_id sm_version sm_pending_events
  by unfold_locales (fact monitor_tenant monitor_version monitor_events)+

interpretation monitor: tenant_guarded exec_monitor sm_tenant_id sm_version sm_pending_events monitor_caller
  by unfold_locales (fact monitor_foreign)

definition monitor_ok :: "PolicySnapshot \<Rightarrow> CampaignSafetyMonitor \<Rightarrow> bool" where
  "monitor_ok p m \<longleftrightarrow> sm_policy_snapshot m = p \<and> distinct (sm_active_operation_ids m) \<and>
     int (length (sm_active_operation_ids m)) \<le> max 0 (ps_max_concurrent_actions p) \<and>
     (sm_auto_abort_triggered m \<longrightarrow> ps_auto_abort_on_detection p \<and> sm_monitor_state m \<noteq> ACTIVE)"

lemma exec_monitor_ok: "keeps (monitor_ok p) (exec_monitor c)"
proof -
  have "monitor_ok p (final (exec_monitor c m))" if "monitor_ok p m" for m
    using that by (cases c) (auto simp: monitor_eval monitor_ok_def length_remove1 max_def)
  then show ?thesis by (simp add: keeps_def)
qed

text \<open>Under every sequence of calls the number of registered actions never exceeds the policy's
  ceiling and no action is registered twice; an auto-abort only happens under a policy that asks for it.\<close>

theorem monitor_ceiling:
  "let m = history exec_monitor cs (create i t ci p now) in
     int (monitor_action_count m) \<le> max 0 (ps_max_concurrent_actions p) \<and>
     distinct (sm_active_operation_ids m) \<and>
     (sm_auto_abort_triggered m \<longrightarrow> ps_auto_abort_on_detection p \<and> sm_monitor_state m \<noteq> ACTIVE)"
proof -
  have "monitor_ok p (history exec_monitor cs (create i t ci p now))"
    by (rule history_keeps [OF exec_monitor_ok]) (simp add: create_def emit_def assign_def monitor_ok_def)
  then show ?thesis by (simp add: monitor_ok_def monitor_action_count_def Let_def)
qed

lemma exec_monitor_aborted:
  "keeps (\<lambda>m. sm_auto_abort_triggered m \<and> set (sm_active_operation_ids m) \<subseteq> A) (exec_monitor c)"
proof -
  have "sm_auto_abort_triggered (final (exec_monitor c m)) \<and> set (sm_active_operation_ids (final (exec_monitor c m))) \<subseteq> A"
    if "sm_auto_abort_triggered m \<and> set (sm_active_operation_ids m) \<subseteq> A" for m
    using that set_remove1_subset [of _ "sm_active_operation_ids m"] by (cases c) (auto simp: monitor_eval)
  then show ?thesis by (simp add: keeps_def)
qed

text \<open>Auto-abort is irreversible: once it has been triggered no sequence of calls clears it or adds
  an action, and every further registration raises.\<close>

theorem auto_abort_irreversible:
  assumes "sm_auto_abort_triggered m"
  shows "sm_auto_abort_triggered (history exec_monitor cs m) \<and>
    set (sm_active_operation_ids (history exec_monitor cs m)) \<subseteq> set (sm_active_operation_ids m) \<and>
    (\<exists>e. register_action t op now (history exec_monitor cs m) = Raise e (history exec_monitor cs m))"
proof -
  have "sm_auto_abort_triggered (history exec_monitor cs m) \<and>
      set (sm_active_operation_ids (history exec_monitor cs m)) \<subseteq> set (sm_active_operation_ids m)"
    by (rule history_keeps [OF exec_monitor_aborted]) (use assms in simp)
  then show ?thesis by (simp add: monitor_eval)
qed

section \<open>Witnesses\<close>

definition sample_monitor :: CampaignSafetyMonitor where
  "sample_monitor = create 3 (EntityId ''t'') \<lparr>ci_instance_id = 5, ci_campaign_id = 6, ci_tenant_id = EntityId ''t''\<rparr>
     \<lparr>ps_max_concurrent_actions = 1, ps_auto_abort_on_detection = True, ps_auto_abort_on_objective_failure = False,
      ps_blast_radius_ceiling = ''low''\<rparr> 0"

theorem monitor_ceiling_witness:
  "monitor_action_count (history exec_monitor [Register_Action (EntityId ''t'') ''a'' 1, Register_Action (EntityId ''t'') ''b'' 2]
     sample_monitor) \<le> 1"
  using monitor_ceiling [where cs = "[Register_Action (EntityId ''t'') ''a'' 1, Register_Action (EntityId ''t'') ''b'' 2]" and i = 3
    and t = "EntityId ''t''" and ci = "\<lparr>ci_instance_id = 5, ci_campaign_id = 6, ci_tenant_id = EntityId ''t''\<rparr>"
    and p = "\<lparr>ps_max_concurrent_actions = 1, ps_auto_abort_on_detection = True, ps_auto_abort_on_objective_failure = False,
      ps_blast_radius_ceiling = ''low''\<rparr>" and now = 0]
  unfolding sample_monitor_def Let_def by simp

theorem auto_abort_irreversible_witness:
  "sm_auto_abort_triggered (history exec_monitor [Release (EntityId ''t'') 9] (sample_monitor\<lparr>sm_auto_abort_triggered := True\<rparr>))"
  using auto_abort_irreversible [of "sample_monitor\<lparr>sm_auto_abort_triggered := True\<rparr>" "[Release (EntityId ''t'') 9]"] by simp

end
