(* ===== verification/Topology.thy ===== *)
theory Topology
  imports Prelude
begin

text \<open>
  The worklist algorithms on the task graph. The source runs Kahn's algorithm three times: in
  \<open>TaskGraphValidator._find_cycle\<close> (counting the visited nodes), in
  \<open>_compute_critical_path_duration\<close> (propagating distances) and, layer by layer, in
  \<open>ExecutionOrderResolver.resolve\<close>. The loops are defined here over any type of node, with the
  dictionaries the source builds; the locale \<open>known_digraph\<close> proves once what they compute.
\<close>

section \<open>The dictionaries\<close>

text \<open>\<open>in_degree\<close> and \<open>successors\<close> after the loop over the dependencies, which skips an edge
  with an end that is no key of \<open>in_degree\<close>.\<close>

fun link_edge :: "'k \<times> 'k \<Rightarrow> ('k, int) dict \<times> ('k, 'k list) dict \<Rightarrow> ('k, int) dict \<times> ('k, 'k list) dict" where
  "link_edge (p, t) (deg, succ) =
     (case (map_of deg p, map_of deg t) of
        (Some _, Some n) \<Rightarrow> (dict_set t (n + 1) deg, dict_set p (dict_get succ p [] @ [t]) succ)
      | _ \<Rightarrow> (deg, succ))"

definition degree_maps :: "'k list \<Rightarrow> ('k \<times> 'k) list \<Rightarrow> ('k, int) dict \<times> ('k, 'k list) dict" where
  "degree_maps ks es = fold link_edge es (dict_from_keys ks 0, [])"

text \<open>\<open>[tid for tid, deg in in_degree.items() if deg == 0]\<close>\<close>

definition zero_keys :: "('k, int) dict \<Rightarrow> 'k list" where
  "zero_keys deg = map fst (filter (\<lambda>(k, n). n = 0) deg)"

section \<open>The loops\<close>

text \<open>The inner loop: every successor loses one from its in-degree and is appended to the queue
  when that reaches zero. A missing key would be a \<open>KeyError\<close>; it does not occur, because
  \<open>link_edge\<close> only stores successors that are keys (\<open>degree_maps_known\<close> below).\<close>

fun relax_all :: "'k list \<Rightarrow> ('k, int) dict \<Rightarrow> 'k list \<Rightarrow> ('k, int) dict \<times> 'k list" where
  "relax_all [] deg q = (deg, q)"
| "relax_all (t # ts) deg q =
     (case map_of deg t of
        None \<Rightarrow> (deg, q)
      | Some n \<Rightarrow> relax_all ts (dict_set t (n - 1) deg) (if n - 1 = 0 then q @ [t] else q))"

definition degree_weight :: "('k, int) dict \<Rightarrow> nat" where
  "degree_weight deg = sum_list (map (\<lambda>(k, n). nat n) deg)"

lemma weight_decrease:
  "map_of deg t = Some n \<Longrightarrow>
   degree_weight (dict_set t (n - 1) deg) + (if n - 1 = 0 then 1 else 0) \<le> degree_weight deg"
  by (induction deg) (auto simp: degree_weight_def dict_set_def split: if_splits)

lemma relax_all_weight:
  "relax_all ts deg q = (deg', q') \<Longrightarrow> degree_weight deg' + length q' \<le> degree_weight deg + length q"
proof (induction ts arbitrary: deg q)
  case (Cons t ts)
  show ?case
  proof (cases "map_of deg t")
    case (Some n)
    with Cons.prems have
      "relax_all ts (dict_set t (n - 1) deg) (if n - 1 = 0 then q @ [t] else q) = (deg', q')"
      by simp
    then have "degree_weight deg' + length q' \<le>
        degree_weight (dict_set t (n - 1) deg) + length (if n - 1 = 0 then q @ [t] else q)"
      by (rule Cons.IH)
    with weight_decrease [OF Some] show ?thesis by (auto split: if_splits)
  qed (use Cons.prems in simp)
qed simp

text \<open>The queue loop of \<open>_find_cycle\<close>, with the visited counter. It stops on every graph: each turn
  takes one node off the queue, and a node is appended only when some in-degree drops to zero.\<close>

function find_cycle_loop :: "('k \<Rightarrow> 'k list) \<Rightarrow> ('k, int) dict \<Rightarrow> 'k list \<Rightarrow> nat \<Rightarrow> ('k, int) dict \<times> nat" where
  "find_cycle_loop succ deg [] visited = (deg, visited)"
| "find_cycle_loop succ deg (x # q) visited =
     (let (deg', q') = relax_all (succ x) deg q in find_cycle_loop succ deg' q' (visited + 1))"
  by pat_completeness auto
termination
proof (relation "measure (\<lambda>(succ, deg, q, v). degree_weight deg + length q)")
  fix succ :: "'k \<Rightarrow> 'k list" and deg x q and v :: nat and y deg' q'
  assume "y = relax_all (succ x) deg q" and "(deg', q') = y"
  then have "relax_all (succ x) deg q = (deg', q')" by simp
  from relax_all_weight [OF this]
  show "((succ, deg', q', v + 1), succ, deg, x # q, v) \<in> measure (\<lambda>(succ, deg, q, v). degree_weight deg + length q)"
    by simp
qed simp

text \<open>The layered loop of \<open>resolve\<close>.\<close>

fun relax_layer :: "('k \<Rightarrow> 'k list) \<Rightarrow> 'k list \<Rightarrow> ('k, int) dict \<Rightarrow> 'k list \<Rightarrow> ('k, int) dict \<times> 'k list" where
  "relax_layer succ [] deg nxt = (deg, nxt)"
| "relax_layer succ (x # xs) deg nxt =
     (let (deg', nxt') = relax_all (succ x) deg nxt in relax_layer succ xs deg' nxt')"

lemma relax_layer_weight:
  "relax_layer succ xs deg q = (deg', q') \<Longrightarrow> degree_weight deg' + length q' \<le> degree_weight deg + length q"
proof (induction xs arbitrary: deg q)
  case (Cons x xs)
  obtain d1 q1 where r: "relax_all (succ x) deg q = (d1, q1)" by fastforce
  with Cons.prems have "relax_layer succ xs d1 q1 = (deg', q')" by simp
  from Cons.IH [OF this] relax_all_weight [OF r] show ?case by simp
qed simp

function layer_loop :: "('k \<Rightarrow> 'k list) \<Rightarrow> ('k, int) dict \<Rightarrow> 'k list \<Rightarrow> 'k list list" where
  "layer_loop succ deg [] = []"
| "layer_loop succ deg (x # xs) =
     (let (deg', nxt) = relax_layer succ (x # xs) deg [] in (x # xs) # layer_loop succ deg' nxt)"
  by pat_completeness auto
termination
proof (relation "measure (\<lambda>(succ, deg, cur). degree_weight deg + length cur)")
  fix succ :: "'k \<Rightarrow> 'k list" and deg x xs y deg' nxt
  assume "y = relax_layer succ (x # xs) deg []" and "(deg', nxt) = y"
  then have "relax_layer succ (x # xs) deg [] = (deg', nxt)" by simp
  from relax_layer_weight [OF this]
  show "((succ, deg', nxt), succ, deg, x # xs) \<in> measure (\<lambda>(succ, deg, cur). degree_weight deg + length cur)"
    by simp
qed simp

text \<open>The queue loop of \<open>_compute_critical_path_duration\<close>: as above, with the distances.\<close>

fun relax_dist :: "('k \<Rightarrow> int) \<Rightarrow> 'k \<Rightarrow> 'k list \<Rightarrow> ('k \<Rightarrow> int) \<Rightarrow> ('k \<Rightarrow> int)" where
  "relax_dist w x [] dist = dist"
| "relax_dist w x (t # ts) dist =
     (let candidate = dist x + w t
      in relax_dist w x ts (if candidate > dist t then dist(t := candidate) else dist))"

function critical_loop ::
  "('k \<Rightarrow> 'k list) \<Rightarrow> ('k \<Rightarrow> int) \<Rightarrow> ('k, int) dict \<Rightarrow> ('k \<Rightarrow> int) \<Rightarrow> 'k list \<Rightarrow> ('k \<Rightarrow> int)" where
  "critical_loop succ w deg dist [] = dist"
| "critical_loop succ w deg dist (x # q) =
     (let (deg', q') = relax_all (succ x) deg q
      in critical_loop succ w deg' (relax_dist w x (succ x) dist) q')"
  by pat_completeness auto
termination
proof (relation "measure (\<lambda>(succ, w, deg, dist, q). degree_weight deg + length q)")
  fix succ :: "'k \<Rightarrow> 'k list" and w dist :: "'k \<Rightarrow> int" and deg x q y deg' q'
  assume "y = relax_all (succ x) deg q" and "(deg', q') = y"
  then have "relax_all (succ x) deg q = (deg', q')" by simp
  from relax_all_weight [OF this]
  show "((succ, w, deg', relax_dist w x (succ x) dist, q'), succ, w, deg, dist, x # q)
      \<in> measure (\<lambda>(succ, w, deg, dist, q). degree_weight deg + length q)"
    by simp
qed simp

text \<open>The order in which the queue loops take the nodes off the queue: a reference for the proofs.\<close>

function visit_order :: "('k \<Rightarrow> 'k list) \<Rightarrow> ('k, int) dict \<Rightarrow> 'k list \<Rightarrow> 'k list" where
  "visit_order succ deg [] = []"
| "visit_order succ deg (x # q) =
     (let (deg', q') = relax_all (succ x) deg q in x # visit_order succ deg' q')"
  by pat_completeness auto
termination
proof (relation "measure (\<lambda>(succ, deg, q). degree_weight deg + length q)")
  fix succ :: "'k \<Rightarrow> 'k list" and deg x q y deg' q'
  assume "y = relax_all (succ x) deg q" and "(deg', q') = y"
  then have "relax_all (succ x) deg q = (deg', q')" by simp
  from relax_all_weight [OF this]
  show "((succ, deg', q'), succ, deg, x # q) \<in> measure (\<lambda>(succ, deg, q). degree_weight deg + length q)"
    by simp
qed simp

section \<open>Specification vocabulary\<close>

text \<open>The successor list of a node, and the number of edges into a node from outside a set.\<close>

definition out_edges :: "('k \<times> 'k) list \<Rightarrow> 'k \<Rightarrow> 'k list" where
  "out_edges es x = map snd (filter (\<lambda>e. fst e = x) es)"

definition open_in :: "('k \<times> 'k) list \<Rightarrow> 'k set \<Rightarrow> 'k \<Rightarrow> nat" where
  "open_in es V t = length (filter (\<lambda>e. snd e = t \<and> fst e \<notin> V) es)"

lemma open_in_eq_0: "open_in es V t = 0 \<longleftrightarrow> (\<forall>p. (p, t) \<in> set es \<longrightarrow> p \<in> V)"
  by (force simp: open_in_def filter_empty_conv)

lemma open_in_insert:
  "x \<notin> V \<Longrightarrow> open_in es V t = open_in es (insert x V) t + count_list (out_edges es x) t"
  by (induction es) (auto simp: open_in_def out_edges_def)

lemma in_out_edges: "t \<in> set (out_edges es x) \<longleftrightarrow> (x, t) \<in> set es"
  by (force simp: out_edges_def)

text \<open>Edges between known nodes: what the guard of the loops over the dependencies keeps.\<close>

definition known_edges :: "'k list \<Rightarrow> ('k \<times> 'k) list \<Rightarrow> ('k \<times> 'k) list" where
  "known_edges ks es = filter (\<lambda>(p, t). p \<in> set ks \<and> t \<in> set ks) es"

lemma open_in_snoc: "open_in (es @ [(p, t)]) {} u = open_in es {} u + (if u = t then 1 else 0)"
  by (simp add: open_in_def)

lemma out_edges_snoc: "out_edges (es @ [(p, t)]) x = out_edges es x @ (if x = p then [t] else [])"
  by (simp add: out_edges_def)

lemma known_edges_snoc:
  "known_edges ks (es @ [(p, t)]) =
     (if p \<in> set ks \<and> t \<in> set ks then known_edges ks es @ [(p, t)] else known_edges ks es)"
  by (simp add: known_edges_def)

lemma degree_maps_known:
  "map fst (fst (degree_maps ks es)) = map fst (dict_from_keys ks (0::int)) \<and>
   (\<forall>t. map_of (fst (degree_maps ks es)) t =
      (if t \<in> set ks then Some (int (open_in (known_edges ks es) {} t)) else None)) \<and>
   (\<forall>x. dict_get (snd (degree_maps ks es)) x [] = out_edges (known_edges ks es) x)"
proof (induction es rule: rev_induct)
  case Nil
  then show ?case
    by (simp add: degree_maps_def map_of_dict_from_keys known_edges_def open_in_def out_edges_def dict_get_def)
next
  case (snoc e es)
  obtain p t where e: "e = (p, t)" by fastforce
  obtain deg succ where ds: "degree_maps ks es = (deg, succ)" by fastforce
  have step: "degree_maps ks (es @ [(p, t)]) = link_edge (p, t) (deg, succ)"
    using ds by (simp add: degree_maps_def)
  have keys: "map fst deg = map fst (dict_from_keys ks (0::int))"
    and deg: "\<And>u. map_of deg u = (if u \<in> set ks then Some (int (open_in (known_edges ks es) {} u)) else None)"
    and succ: "\<And>x. dict_get succ x [] = out_edges (known_edges ks es) x"
    using snoc ds by simp_all
  show ?case
  proof (cases "p \<in> set ks \<and> t \<in> set ks")
    case True
    then have "t \<in> set (map fst deg)"
      using deg [of t] by (metis map_of_eq_None_iff option.distinct(1) set_map)
    moreover have "dict_get (dict_set p v succ) x [] = (if x = p then v else dict_get succ x [])" for v x
      by (simp add: dict_get_def map_of_dict_set)
    ultimately show ?thesis
      using True unfolding e step
      by (simp add: deg succ known_edges_snoc open_in_snoc out_edges_snoc map_of_dict_set keys_dict_set keys)
  next
    case False
    then show ?thesis
      using keys deg succ unfolding e step by (auto simp: known_edges_snoc split: option.splits)
  qed
qed

section \<open>What the inner loop does\<close>

lemma relax_all_spec:
  assumes "relax_all ts deg q = (deg', q')"
    and "\<forall>t \<in> set ts. \<exists>n. map_of deg t = Some n \<and> int (count_list ts t) \<le> n"
  shows "map fst deg' = map fst deg \<and>
    (\<forall>t. map_of deg' t = map_option (\<lambda>n. n - int (count_list ts t)) (map_of deg t)) \<and>
    (\<exists>new. q' = q @ new \<and> distinct new \<and>
      set new = {t \<in> set ts. map_of deg t = Some (int (count_list ts t))})"
  using assms
proof (induction ts arbitrary: deg q)
  case Nil
  then show ?case by (simp add: option.map_ident)
next
  case (Cons u ts)
  obtain n where n: "map_of deg u = Some n" "int (count_list ts u) + 1 \<le> n"
    using Cons.prems(2) by auto
  define d1 where "d1 = dict_set u (n - 1) deg"
  define q1 where "q1 = (if n - 1 = 0 then q @ [u] else q)"
  have d1: "map_of d1 t = (if t = u then Some (n - 1) else map_of deg t)" for t
    by (simp add: d1_def map_of_dict_set)
  have r1: "relax_all ts d1 q1 = (deg', q')"
    using Cons.prems(1) n by (simp add: d1_def q1_def)
  have b1: "\<forall>t \<in> set ts. \<exists>n. map_of d1 t = Some n \<and> int (count_list ts t) \<le> n"
    using Cons.prems(2) n by (auto simp: d1 split: if_splits)
  have "u \<in> fst ` set deg"
    using n(1) by (metis map_of_eq_None_iff option.distinct(1))
  then have k: "map fst d1 = map fst deg"
    by (simp add: d1_def keys_dict_set)
  obtain new where IH: "map fst deg' = map fst d1"
    "\<And>t. map_of deg' t = map_option (\<lambda>n. n - int (count_list ts t)) (map_of d1 t)"
    "q' = q1 @ new" "distinct new"
    "set new = {t \<in> set ts. map_of d1 t = Some (int (count_list ts t))}"
    using Cons.IH [OF r1 b1] by blast
  have deg: "map_of deg' t = map_option (\<lambda>n. n - int (count_list (u # ts) t)) (map_of deg t)" for t
    using IH(2) [of t] n(1) by (simp add: d1)
  have queue: "\<exists>new. q' = q @ new \<and> distinct new \<and>
      set new = {t \<in> set (u # ts). map_of deg t = Some (int (count_list (u # ts) t))}"
  proof (cases "n = 1")
    case True
    with n(2) have u: "u \<notin> set ts" by (simp add: count_list_0_iff)
    have "set (u # new) = {t \<in> set (u # ts). map_of deg t = Some (int (count_list (u # ts) t))}"
      using u IH(5) n(1) True by (auto simp: d1)
    moreover have "distinct (u # new)" using u IH(4,5) by auto
    ultimately show ?thesis using IH(3) True by (intro exI [of _ "u # new"]) (simp add: q1_def)
  next
    case False
    have u: "n - 1 = int (count_list ts u) \<Longrightarrow> u \<in> set ts"
      using False by (cases "u \<in> set ts") simp_all
    have "t \<in> set new \<longleftrightarrow> t \<in> set (u # ts) \<and> map_of deg t = Some (int (count_list (u # ts) t))" for t
    proof (cases "t = u")
      case True
      have "n - 1 = int (count_list ts u) \<longleftrightarrow> n = int (count_list ts u) + 1" by linarith
      then show ?thesis using True u by (auto simp: IH(5) d1 n(1))
    qed (simp add: IH(5) d1)
    then have "set new = {t \<in> set (u # ts). map_of deg t = Some (int (count_list (u # ts) t))}"
      by blast
    then show ?thesis using IH(3,4) False by (intro exI [of _ new]) (simp add: q1_def)
  qed
  show ?case using IH(1) k deg queue by simp
qed

section \<open>What the loops compute\<close>

locale known_digraph =
  fixes ks :: "'k list" and es :: "('k \<times> 'k) list"
  assumes distinct_ks: "distinct ks"
    and edge_ends: "(p, t) \<in> set es \<Longrightarrow> p \<in> set ks \<and> t \<in> set ks"
begin

text \<open>The loop invariant: \<open>V\<close> are the nodes taken off the queue, the in-degrees count the edges
  from outside \<open>V\<close>, and the nodes of degree zero are those visited or queued.\<close>

definition worklist :: "'k set \<Rightarrow> ('k, int) dict \<Rightarrow> 'k list \<Rightarrow> bool" where
  "worklist V deg q \<longleftrightarrow>
     (\<forall>t. map_of deg t = (if t \<in> set ks then Some (int (open_in es V t)) else None)) \<and>
     distinct q \<and> set q \<inter> V = {} \<and> V \<union> set q \<subseteq> set ks \<and>
     (\<forall>t \<in> set ks. t \<in> V \<union> set q \<longleftrightarrow> open_in es V t = 0)"

lemma queue_preds: "worklist V deg q \<Longrightarrow> x \<in> set q \<Longrightarrow> (p, x) \<in> set es \<Longrightarrow> p \<in> V"
  unfolding worklist_def by (metis (no_types, lifting) UnI2 open_in_eq_0 subsetD)

lemma worklist_relax:
  assumes wl: "worklist V deg (x # q)" and r: "relax_all (out_edges es x) deg q = (deg', q')"
  shows "worklist (insert x V) deg' q' \<and>
    (\<exists>new. q' = q @ new \<and> (\<forall>t \<in> set new. (x, t) \<in> set es))"
proof -
  have x: "x \<notin> V" "x \<in> set ks" "x \<notin> set q" "distinct q"
    using wl by (auto simp: worklist_def)
  have deg: "\<And>t. map_of deg t = (if t \<in> set ks then Some (int (open_in es V t)) else None)"
    using wl by (simp add: worklist_def)
  have split: "\<And>t. open_in es V t = open_in es (insert x V) t + count_list (out_edges es x) t"
    using x(1) by (rule open_in_insert)
  have succ_ks: "\<And>t. t \<in> set (out_edges es x) \<Longrightarrow> t \<in> set ks"
    using edge_ends by (auto simp: in_out_edges)
  have bound: "\<forall>t \<in> set (out_edges es x). \<exists>n. map_of deg t = Some n \<and> int (count_list (out_edges es x) t) \<le> n"
    using succ_ks split by (auto simp: deg)
  obtain new where deg': "\<And>t. map_of deg' t = map_option (\<lambda>n. n - int (count_list (out_edges es x) t)) (map_of deg t)"
    and q': "q' = q @ new" "distinct new"
    and new: "set new = {t \<in> set (out_edges es x). map_of deg t = Some (int (count_list (out_edges es x) t))}"
    using relax_all_spec [OF r bound] by blast
  have new_iff: "t \<in> set new \<longleftrightarrow> t \<in> set (out_edges es x) \<and> open_in es (insert x V) t = 0" for t
    using succ_ks split [of t] by (auto simp: new deg)
  have old: "t \<in> V \<union> set (x # q) \<longleftrightarrow> open_in es V t = 0" if "t \<in> set ks" for t
    using wl that by (simp add: worklist_def)
  have pos: "t \<in> set (out_edges es x) \<Longrightarrow> open_in es V t \<noteq> 0" for t
    using split [of t] count_list_0_iff [of "out_edges es x" t] by auto
  have fresh: "set new \<inter> (V \<union> set (x # q)) = {}"
    using new_iff pos old succ_ks by blast
  have iff: "t \<in> insert x V \<union> set q' \<longleftrightarrow> open_in es (insert x V) t = 0" if "t \<in> set ks" for t
  proof (cases "t \<in> set (out_edges es x)")
    case True
    then have "t \<notin> V \<union> set (x # q)" using pos old that by blast
    with True show ?thesis using q'(1) new_iff by auto
  next
    case False
    then have "open_in es (insert x V) t = open_in es V t" using split [of t] by simp
    with False show ?thesis using old [OF that] q'(1) new_iff by auto
  qed
  have "worklist (insert x V) deg' q'"
    unfolding worklist_def
  proof (intro conjI allI ballI)
    show "map_of deg' t = (if t \<in> set ks then Some (int (open_in es (insert x V) t)) else None)" for t
      using split [of t] by (simp add: deg' deg)
    show "distinct q'" using q' x fresh by auto
    show "set q' \<inter> insert x V = {}" using q' x fresh wl by (auto simp: worklist_def)
    show "insert x V \<union> set q' \<subseteq> set ks" using q' x new_iff succ_ks wl by (auto simp: worklist_def)
    show "t \<in> insert x V \<union> set q' \<longleftrightarrow> open_in es (insert x V) t = 0" if "t \<in> set ks" for t
      using that by (rule iff)
  qed
  then show ?thesis using q' new_iff by (auto simp: in_out_edges)
qed

end

context known_digraph
begin

abbreviation "succ_list \<equiv> out_edges es"

lemma visit_order_spec:
  assumes "worklist V deg q" and "vs = visit_order succ_list deg q"
  shows "distinct vs \<and> set vs \<inter> V = {} \<and> set vs \<subseteq> set ks \<and>
    (\<forall>t \<in> set ks. t \<in> V \<union> set vs \<longleftrightarrow> open_in es (V \<union> set vs) t = 0) \<and>
    (\<forall>i < length vs. \<forall>p. (p, vs ! i) \<in> set es \<longrightarrow> p \<in> V \<union> set (take i vs))"
  using assms
proof (induction "succ_list" deg q arbitrary: V vs rule: visit_order.induct)
  case (1 deg)
  then show ?case by (simp add: worklist_def)
next
  case (2 deg x q)
  obtain deg' q' where r: "relax_all (succ_list x) deg q = (deg', q')" by fastforce
  define ws where "ws = visit_order succ_list deg' q'"
  have vs: "vs = x # ws" using 2(3) r by (simp add: ws_def)
  have wl: "worklist (insert x V) deg' q'" using worklist_relax [OF 2(2) r] by blast
  note IH = 2(1) [OF r [symmetric] refl wl ws_def]
  have x: "x \<notin> V" "x \<in> set ks" using 2(2) by (auto simp: worklist_def)
  have "p \<in> V \<union> set (take i vs)" if "i < length vs" "(p, vs ! i) \<in> set es" for i p
  proof (cases i)
    case 0
    with that vs queue_preds [OF 2(2), of x] show ?thesis by simp
  next
    case (Suc j)
    with that vs IH show ?thesis by auto
  qed
  then show ?case using IH x vs by auto
qed

lemma find_cycle_loop_visited:
  "snd (find_cycle_loop succ deg q v) = v + length (visit_order succ deg q)"
  by (induction succ deg q v rule: find_cycle_loop.induct) (auto split: prod.splits)

text \<open>Where Kahn's loop starts: the in-degrees of the whole graph and its roots.\<close>

definition initial :: "('k, int) dict \<Rightarrow> bool" where
  "initial deg \<longleftrightarrow> map fst deg = ks \<and>
     (\<forall>t. map_of deg t = (if t \<in> set ks then Some (int (open_in es {} t)) else None))"

lemma set_zero_keys:
  assumes "initial deg"
  shows "set (zero_keys deg) = {t \<in> set ks. open_in es {} t = 0}" and "distinct (zero_keys deg)"
proof -
  have d: "distinct (map fst deg)" using assms distinct_ks by (simp add: initial_def)
  have deg: "map_of deg t = (if t \<in> set ks then Some (int (open_in es {} t)) else None)" for t
    using assms by (simp add: initial_def)
  have "t \<in> set (zero_keys deg) \<longleftrightarrow> (t, 0) \<in> set deg" for t
    by (auto simp: zero_keys_def image_iff)
  then have zero: "t \<in> set (zero_keys deg) \<longleftrightarrow> map_of deg t = Some 0" for t
    using d by (simp add: map_of_eq_Some_iff)
  show "set (zero_keys deg) = {t \<in> set ks. open_in es {} t = 0}"
    by (rule set_eqI) (simp only: zero deg, simp)
  show "distinct (zero_keys deg)"
    using d by (simp add: zero_keys_def distinct_map_filter)
qed

lemma worklist_initial: "initial deg \<Longrightarrow> worklist {} deg (zero_keys deg)"
  using set_zero_keys [of deg] by (auto simp: worklist_def initial_def)

lemma edges_finite_acyclic: "acyclic (set es) \<longleftrightarrow> wf (set es)"
  by (auto simp: finite_acyclic_wf wf_acyclic)

text \<open>The visited nodes are all the nodes exactly when the graph has no cycle.\<close>

lemma visits_all_iff_acyclic:
  assumes "initial deg" and "vs = visit_order succ_list deg (zero_keys deg)"
  shows "length vs = length ks \<longleftrightarrow> acyclic (set es)"
proof -
  note spec = visit_order_spec [OF worklist_initial [OF assms(1)] assms(2), simplified]
  have all: "length vs = length ks \<longleftrightarrow> set vs = set ks"
    using spec distinct_ks distinct_card [of vs] distinct_card [of ks]
    by (metis List.finite_set card_subset_eq)
  show ?thesis
  proof
    assume "length vs = length ks"
    then have vs: "set vs = set ks" using all by simp
    define pos where "pos x = (LEAST i. i < length vs \<and> vs ! i = x)" for x
    have pos: "pos x < length vs \<and> vs ! pos x = x" if "x \<in> set vs" for x
      unfolding pos_def by (rule LeastI_ex) (use that in \<open>auto simp: in_set_conv_nth\<close>)
    have "pos p < pos t" if e: "(p, t) \<in> set es" for p t
    proof -
      have t: "pos t < length vs" "vs ! pos t = t" using pos edge_ends [OF e] vs by auto
      then have "p \<in> set (take (pos t) vs)" using spec e by auto
      then obtain j where "j < pos t" "vs ! j = p" "j < length vs"
        using t(1) by (auto simp: in_set_conv_nth)
      moreover have "pos p \<le> j" unfolding pos_def using calculation by (intro Least_le) simp
      ultimately show ?thesis by simp
    qed
    then have "set es \<subseteq> measure pos" by auto
    then show "acyclic (set es)" by (metis wf_acyclic wf_measure wf_subset)
  next
    assume "acyclic (set es)"
    then have wf: "wf (set es)" by (simp add: edges_finite_acyclic)
    have "set ks - set vs = {}"
    proof (rule ccontr)
      assume "set ks - set vs \<noteq> {}"
      then obtain t where t: "t \<in> set ks - set vs"
        and min: "\<And>p. (p, t) \<in> set es \<Longrightarrow> p \<notin> set ks - set vs"
        using wf by (metis ex_in_conv wfE_min)
      then have "\<forall>p. (p, t) \<in> set es \<longrightarrow> p \<in> set vs" using edge_ends by blast
      then have "open_in es (set vs) t = 0" by (simp add: open_in_eq_0)
      then show False using spec t by blast
    qed
    then show "length vs = length ks" using all spec by blast
  qed
qed

end

section \<open>Layers\<close>

lemma relax_all_prefix: "relax_all ts deg (a @ q) = map_prod id ((@) a) (relax_all ts deg q)"
proof (induction ts arbitrary: deg q)
  case (Cons t ts)
  show ?case
  proof (cases "map_of deg t")
    case (Some n)
    then show ?thesis using Cons.IH [of _ "q @ [t]"] Cons.IH [of _ q] by simp
  qed simp
qed simp

lemma visit_order_layer:
  "visit_order succ deg (xs @ q) =
     xs @ (case relax_layer succ xs deg q of (deg', q') \<Rightarrow> visit_order succ deg' q')"
proof (induction xs arbitrary: deg q)
  case (Cons x xs)
  obtain d1 q1 where r: "relax_all (succ x) deg q = (d1, q1)" by fastforce
  then have "relax_all (succ x) deg (xs @ q) = (d1, xs @ q1)" by (simp add: relax_all_prefix)
  with r Cons.IH [of d1 q1] show ?case by simp
qed simp

lemma concat_layer_loop: "concat (layer_loop succ deg cur) = visit_order succ deg cur"
proof (induction succ deg cur rule: layer_loop.induct)
  case (2 succ deg x xs)
  obtain d1 nxt where r: "relax_layer succ (x # xs) deg [] = (d1, nxt)" by fastforce
  have "concat (layer_loop succ d1 nxt) = visit_order succ d1 nxt"
    using 2 [OF r [symmetric] refl] .
  then show ?case using visit_order_layer [of succ deg "x # xs" "[]"] r by simp
qed simp

lemma layer_loop_nonempty: "[] \<notin> set (layer_loop succ deg cur)"
  by (induction succ deg cur rule: layer_loop.induct) (auto split: prod.splits)

context known_digraph
begin

lemma worklist_layer:
  assumes "worklist V deg (xs @ q)" and "relax_layer succ_list xs deg q = (deg', q')"
  shows "worklist (V \<union> set xs) deg' q' \<and>
    (\<exists>new. q' = q @ new \<and> (\<forall>t \<in> set new. \<exists>p \<in> set xs. (p, t) \<in> set es))"
  using assms
proof (induction xs arbitrary: V deg q)
  case (Cons x xs)
  obtain d1 q1 where r: "relax_all (succ_list x) deg q = (d1, q1)" by fastforce
  then have "relax_all (succ_list x) deg (xs @ q) = (d1, xs @ q1)" by (simp add: relax_all_prefix)
  then obtain new where "worklist (insert x V) d1 (xs @ q1)"
    and new: "q1 = q @ new" "\<forall>t \<in> set new. (x, t) \<in> set es"
    using worklist_relax [of V deg x "xs @ q" d1 "xs @ q1"] Cons.prems(1) by auto
  moreover have "relax_layer succ_list xs d1 q1 = (deg', q')" using Cons.prems(2) r by simp
  ultimately show ?case using Cons.IH [of "insert x V" d1 q1] new by fastforce
qed simp

lemma layer_loop_spec:
  assumes "worklist V deg cur" and "ls = layer_loop succ_list deg cur"
  shows "(\<forall>i < length ls. \<forall>t \<in> set (ls ! i). \<forall>p. (p, t) \<in> set es \<longrightarrow> p \<in> V \<union> set (concat (take i ls))) \<and>
    (\<forall>i. Suc i < length ls \<longrightarrow> (\<forall>t \<in> set (ls ! Suc i). \<exists>p \<in> set (ls ! i). (p, t) \<in> set es))"
  using assms
proof (induction "succ_list" deg cur arbitrary: V ls rule: layer_loop.induct)
  case (1 deg)
  then show ?case by simp
next
  case (2 deg x xs)
  obtain d1 nxt where r: "relax_layer succ_list (x # xs) deg [] = (d1, nxt)" by fastforce
  define ms where "ms = layer_loop succ_list d1 nxt"
  have ls: "ls = (x # xs) # ms" using 2(3) r by (simp add: ms_def)
  have wl: "worklist (V \<union> set (x # xs)) d1 nxt"
    and nxt: "\<forall>t \<in> set nxt. \<exists>p \<in> set (x # xs). (p, t) \<in> set es"
    using worklist_layer [of V deg "x # xs" "[]" d1 nxt] 2(2) r by auto
  note IH = 2(1) [OF r [symmetric] refl wl ms_def]
  have ms0: "ms \<noteq> [] \<Longrightarrow> ms ! 0 = nxt"
    unfolding ms_def by (cases nxt) (auto split: prod.splits)
  have "p \<in> V \<union> set (concat (take i ls))" if "i < length ls" "t \<in> set (ls ! i)" "(p, t) \<in> set es" for i t p
  proof (cases i)
    case 0
    with that ls queue_preds [OF 2(2), of t] show ?thesis by simp
  next
    case (Suc j)
    with that ls IH have "p \<in> V \<union> set (x # xs) \<union> set (concat (take j ms))" by auto
    with Suc ls show ?thesis by auto
  qed
  moreover have "\<exists>p \<in> set (ls ! i). (p, t) \<in> set es" if "Suc i < length ls" "t \<in> set (ls ! Suc i)" for i t
  proof (cases i)
    case 0
    with that ls ms0 nxt show ?thesis by auto
  next
    case (Suc j)
    with that ls IH show ?thesis by auto
  qed
  ultimately show ?case by blast
qed

end

section \<open>Longest paths\<close>

definition is_path :: "'k list \<Rightarrow> ('k \<times> 'k) list \<Rightarrow> 'k list \<Rightarrow> bool" where
  "is_path ks es p \<longleftrightarrow> p \<noteq> [] \<and> set p \<subseteq> set ks \<and> successively (\<lambda>x y. (x, y) \<in> set es) p"

definition path_weight :: "('k \<Rightarrow> int) \<Rightarrow> 'k list \<Rightarrow> int" where
  "path_weight w p = sum_list (map w p)"

lemma relax_dist_spec:
  "x \<notin> set ts \<Longrightarrow>
   relax_dist w x ts dist t = (if t \<in> set ts then max (dist t) (dist x + w t) else dist t)"
  by (induction ts arbitrary: dist) (auto simp: Let_def)

context known_digraph
begin

definition settled :: "('k \<Rightarrow> int) \<Rightarrow> 'k set \<Rightarrow> ('k \<Rightarrow> int) \<Rightarrow> bool" where
  "settled w V dist \<longleftrightarrow>
     (\<forall>t. w t \<le> dist t) \<and>
     (\<forall>p t. p \<in> V \<longrightarrow> (p, t) \<in> set es \<longrightarrow> dist p + w t \<le> dist t) \<and>
     (\<forall>t. dist t = w t \<or> (\<exists>p \<in> V. (p, t) \<in> set es \<and> dist t = dist p + w t))"

lemma settled_relax:
  assumes wl: "worklist V deg (x # q)" and st: "settled w V dist"
  shows "settled w (insert x V) (relax_dist w x (succ_list x) dist)"
proof -
  define d where "d = relax_dist w x (succ_list x) dist"
  have xV: "x \<notin> V" using wl by (simp add: worklist_def)
  have noself: "x \<notin> set (succ_list x)"
    using queue_preds [OF wl, of x x] xV by (auto simp: in_out_edges)
  have d: "d t = (if (x, t) \<in> set es then max (dist t) (dist x + w t) else dist t)" for t
    unfolding d_def using noself by (simp add: relax_dist_spec in_out_edges)
  have kept: "d p = dist p" if "p \<in> insert x V" for p
  proof -
    have "(x, p) \<notin> set es"
    proof (cases "p = x")
      case True
      then show ?thesis using noself by (simp add: in_out_edges)
    next
      case False
      then have "p \<in> V" using that by simp
      then have "open_in es V p = 0" using wl by (auto simp: worklist_def)
      then show ?thesis using xV by (auto simp: open_in_eq_0)
    qed
    then show ?thesis by (simp add: d)
  qed
  have "w t \<le> d t" for t
    using st by (simp add: settled_def d le_max_iff_disj)
  moreover have "d p + w t \<le> d t" if "p \<in> insert x V" "(p, t) \<in> set es" for p t
    using st that by (auto simp: kept settled_def) (auto simp: d le_max_iff_disj)
  moreover have "d t = w t \<or> (\<exists>p \<in> insert x V. (p, t) \<in> set es \<and> d t = d p + w t)" for t
  proof (cases "(x, t) \<in> set es \<and> dist t < dist x + w t")
    case True
    have "d x = dist x" by (rule kept) simp
    with True have "d t = d x + w t" by (simp add: d [of t])
    with True show ?thesis by blast
  next
    case False
    then have "d t = dist t" by (auto simp: d)
    then show ?thesis using st kept unfolding settled_def by (metis insertCI)
  qed
  ultimately show ?thesis unfolding settled_def d_def [symmetric] by blast
qed

lemma critical_loop_settled:
  assumes "worklist V deg q" and "settled w V dist"
  shows "settled w (V \<union> set (visit_order succ_list deg q)) (critical_loop succ_list w deg dist q)"
  using assms
proof (induction "succ_list" w deg dist q arbitrary: V rule: critical_loop.induct)
  case (1 w deg dist)
  then show ?case by simp
next
  case (2 w deg dist x q)
  obtain deg' q' where r: "relax_all (succ_list x) deg q = (deg', q')" by fastforce
  have "worklist (insert x V) deg' q'" using worklist_relax [OF 2(2) r] by blast
  moreover have "settled w (insert x V) (relax_dist w x (succ_list x) dist)"
    using 2(2,3) by (rule settled_relax)
  ultimately show ?case using 2(1) [OF r [symmetric] refl, of "insert x V"] r by simp
qed

lemma settled_upper:
  assumes st: "settled w (set ks) d" and p: "is_path ks es (p @ [t])"
  shows "path_weight w (p @ [t]) \<le> d t"
  using p
proof (induction p arbitrary: t rule: rev_induct)
  case Nil
  then show ?case using st by (simp add: settled_def path_weight_def)
next
  case (snoc u p)
  then have "is_path ks es (p @ [u])" and e: "(u, t) \<in> set es"
    by (auto simp: is_path_def successively_append_iff)
  then have "path_weight w (p @ [u]) \<le> d u" using snoc.IH by blast
  moreover have "d u + w t \<le> d t" using st e edge_ends [OF e] by (auto simp: settled_def)
  ultimately show ?case by (simp add: path_weight_def)
qed

lemma settled_attained:
  assumes st: "settled w (set ks) d" and wf: "wf (set es)" and "t \<in> set ks"
  shows "\<exists>p. is_path ks es (p @ [t]) \<and> path_weight w (p @ [t]) = d t"
  using wf assms(3)
proof (induction t rule: wf_induct_rule)
  case (less t)
  consider "d t = w t" | u where "u \<in> set ks" "(u, t) \<in> set es" "d t = d u + w t"
    using st unfolding settled_def by blast
  then show ?case
  proof cases
    case 1
    with less.prems show ?thesis by (intro exI [of _ "[]"]) (simp add: is_path_def path_weight_def)
  next
    case 2
    then obtain p where "is_path ks es (p @ [u])" "path_weight w (p @ [u]) = d u"
      using less.IH by blast
    with 2 less.prems show ?thesis
      by (intro exI [of _ "p @ [u]"]) (auto simp: is_path_def path_weight_def successively_append_iff)
  qed
qed

text \<open>The largest distance is the weight of the heaviest path.\<close>

lemma critical_loop_longest:
  assumes deg: "initial deg" and ac: "acyclic (set es)" and ne: "ks \<noteq> []"
    and d: "d = critical_loop succ_list w deg w (zero_keys deg)"
  shows "(\<forall>p. is_path ks es p \<longrightarrow> path_weight w p \<le> Max (d ` set ks)) \<and>
    (\<exists>p. is_path ks es p \<and> path_weight w p = Max (d ` set ks))"
proof -
  define vs where "vs = visit_order succ_list deg (zero_keys deg)"
  have "length vs = length ks" using visits_all_iff_acyclic [OF deg vs_def] ac by simp
  moreover have "distinct vs" "set vs \<subseteq> set ks"
    using visit_order_spec [OF worklist_initial [OF deg] vs_def] by blast+
  ultimately have vs: "set vs = set ks"
    using distinct_ks by (metis List.finite_set card_subset_eq distinct_card)
  have "settled w {} w" by (simp add: settled_def)
  then have st: "settled w (set ks) d"
    using critical_loop_settled [OF worklist_initial [OF deg]] vs by (simp add: d vs_def)
  have "path_weight w p \<le> Max (d ` set ks)" if "is_path ks es p" for p
  proof -
    obtain q t where p: "p = q @ [t]" using \<open>is_path ks es p\<close> by (cases p rule: rev_exhaust) (auto simp: is_path_def)
    then have "t \<in> set ks" using that by (simp add: is_path_def)
    then have "d t \<le> Max (d ` set ks)" by (intro Max_ge) auto
    with settled_upper [OF st] that p show ?thesis by fastforce
  qed
  moreover have "Max (d ` set ks) \<in> d ` set ks" using ne by (intro Max_in) auto
  then obtain t where "t \<in> set ks" "Max (d ` set ks) = d t" by blast
  moreover have "wf (set es)" using ac by (simp add: edges_finite_acyclic)
  ultimately show ?thesis using settled_attained [OF st, of t] by metis
qed

end

end
