(* ===== verification/TaskGraph_Model.thy ===== *)
theory TaskGraph_Model
  imports Aggregates
begin

text \<open>
  The data of the \<open>taskgraph\<close> context (\<open>taskgraph/domain/value_objects\<close>, \<open>entities\<close>,
  \<open>exceptions\<close>, \<open>events\<close>) and its aggregate root \<open>TaskGraph\<close>
  (\<open>taskgraph/domain/aggregates/task_graph.py\<close>): one definition per method, as the list of its
  statements. \<open>graph_ok\<close> is the invariant of the aggregate; the interpretations at the end give the
  contracts of \<open>Aggregates\<close> for it.
\<close>

section \<open>Enumerations\<close>

datatype TaskGraphState = DRAFT | VALIDATED | SIGNED | ACTIVE | DEPRECATED

datatype TaskType = OPERATION_TASK | WAIT_TASK | HUMAN_APPROVAL_TASK | EVALUATION_CHECKPOINT
  | ROLLBACK_TASK | BARRIER_TASK

datatype TaskCriticality = OPTIONAL | REQUIRED | CRITICAL_PATH

datatype DependencyPredicate = ALWAYS_EXECUTE | EXECUTE_ON_SUCCESS | EXECUTE_ON_FAILURE
  | EXECUTE_IF_OBJECTIVE_MET | EXECUTE_IF_OBJECTIVE_FAILED
  | EXECUTE_IF_DETECTION_FIRED | EXECUTE_IF_DETECTION_SILENT

primrec TaskGraphState_value :: "TaskGraphState \<Rightarrow> string" where
  "TaskGraphState_value DRAFT = ''Draft''"
| "TaskGraphState_value VALIDATED = ''Validated''"
| "TaskGraphState_value SIGNED = ''Signed''"
| "TaskGraphState_value ACTIVE = ''Active''"
| "TaskGraphState_value DEPRECATED = ''Deprecated''"

primrec TaskType_value :: "TaskType \<Rightarrow> string" where
  "TaskType_value OPERATION_TASK = ''OperationTask''"
| "TaskType_value WAIT_TASK = ''WaitTask''"
| "TaskType_value HUMAN_APPROVAL_TASK = ''HumanApprovalTask''"
| "TaskType_value EVALUATION_CHECKPOINT = ''EvaluationCheckpoint''"
| "TaskType_value ROLLBACK_TASK = ''RollbackTask''"
| "TaskType_value BARRIER_TASK = ''BarrierTask''"

primrec TaskCriticality_value :: "TaskCriticality \<Rightarrow> string" where
  "TaskCriticality_value OPTIONAL = ''Optional''"
| "TaskCriticality_value REQUIRED = ''Required''"
| "TaskCriticality_value CRITICAL_PATH = ''CriticalPath''"

primrec DependencyPredicate_value :: "DependencyPredicate \<Rightarrow> string" where
  "DependencyPredicate_value ALWAYS_EXECUTE = ''AlwaysExecute''"
| "DependencyPredicate_value EXECUTE_ON_SUCCESS = ''ExecuteOnSuccess''"
| "DependencyPredicate_value EXECUTE_ON_FAILURE = ''ExecuteOnFailure''"
| "DependencyPredicate_value EXECUTE_IF_OBJECTIVE_MET = ''ExecuteIfObjectiveMet''"
| "DependencyPredicate_value EXECUTE_IF_OBJECTIVE_FAILED = ''ExecuteIfObjectiveFailed''"
| "DependencyPredicate_value EXECUTE_IF_DETECTION_FIRED = ''ExecuteIfDetectionFired''"
| "DependencyPredicate_value EXECUTE_IF_DETECTION_SILENT = ''ExecuteIfDetectionSilent''"

section \<open>Identifiers and value objects\<close>

text \<open>\<open>TaskGraphId\<close> and \<open>CampaignTaskId\<close> wrap a UUID and are equal when it is; they are
  modelled by the UUID, with their constructor's check.\<close>

definition TaskGraphId :: "uuid \<Rightarrow> PyError + uuid" where
  "TaskGraphId v = (if uint v = 0 then Inl (ValueError ''TaskGraphId must not be nil UUID'') else Inr v)"

definition CampaignTaskId :: "uuid \<Rightarrow> PyError + uuid" where
  "CampaignTaskId v =
     (if uint v = 0 then Inl (ValueError ''CampaignTaskId must not be nil UUID'') else Inr v)"

definition TaskGroupId :: "string \<Rightarrow> PyError + string" where
  "TaskGroupId v = (if strip v = [] then Inl (ValueError ''TaskGroupId must not be empty'') else Inr v)"

record TaskGraphVersion =
  tv_major :: int
  tv_minor :: int
  tv_patch :: int

definition make_TaskGraphVersion :: "int \<Rightarrow> int \<Rightarrow> int \<Rightarrow> PyError + TaskGraphVersion" where
  "make_TaskGraphVersion major minor patch =
     (if major < 0 \<or> minor < 0 \<or> patch < 0
      then Inl (ValueError ''TaskGraphVersion components must be non-negative'')
      else Inr \<lparr>tv_major = major, tv_minor = minor, tv_patch = patch\<rparr>)"

definition TaskGraphVersion_str :: "TaskGraphVersion \<Rightarrow> string" where
  "TaskGraphVersion_str v = str_int (tv_major v) @ ''.'' @ str_int (tv_minor v) @ ''.'' @ str_int (tv_patch v)"

text \<open>Tuples compare lexicographically.\<close>

definition is_greater_than :: "TaskGraphVersion \<Rightarrow> TaskGraphVersion \<Rightarrow> bool" where
  "is_greater_than v w \<longleftrightarrow>
     tv_major v > tv_major w \<or> tv_major v = tv_major w \<and>
       (tv_minor v > tv_minor w \<or> tv_minor v = tv_minor w \<and> tv_patch v > tv_patch w)"

text \<open>\<open>int\<close> raises its own \<open>ValueError\<close> on text that is no number; its message is not used.\<close>

definition int_of :: "string \<Rightarrow> PyError + int" where
  "int_of s = (case py_int s of None \<Rightarrow> Inl (ValueError ''invalid literal for int()'') | Some i \<Rightarrow> Inr i)"

definition from_string :: "string \<Rightarrow> PyError + TaskGraphVersion" where
  "from_string s = (case split_on (CHR ''.'') s of
       [a, b, c] \<Rightarrow>
         (case int_of a of Inl e \<Rightarrow> Inl e
          | Inr major \<Rightarrow> (case int_of b of Inl e \<Rightarrow> Inl e
          | Inr minor \<Rightarrow> (case int_of c of Inl e \<Rightarrow> Inl e
          | Inr patch \<Rightarrow> make_TaskGraphVersion major minor patch)))
     | _ \<Rightarrow> Inl (ValueError (''Invalid version string: '' @ s)))"

record TaskOperationTemplate =
  ot_technique_id :: string
  ot_technique_name :: string
  ot_parameters :: "(string, string) dict"
  ot_timeout_seconds :: int

definition make_TaskOperationTemplate ::
  "string \<Rightarrow> string \<Rightarrow> (string, string) dict \<Rightarrow> int \<Rightarrow> PyError + TaskOperationTemplate" where
  "make_TaskOperationTemplate technique_id technique_name parameters timeout_seconds =
     (if strip technique_id = []
      then Inl (ValueError ''TaskOperationTemplate.technique_id must not be empty'')
      else if timeout_seconds \<le> 0
      then Inl (ValueError ''TaskOperationTemplate.timeout_seconds must be positive'')
      else Inr \<lparr>ot_technique_id = technique_id, ot_technique_name = technique_name,
                ot_parameters = parameters, ot_timeout_seconds = timeout_seconds\<rparr>)"

record RollbackConfiguration =
  rb_rollback_technique_id :: string
  rb_rollback_parameters :: "(string, string) dict"
  rb_rollback_not_possible :: bool
  rb_rollback_not_possible_reason :: "string option"

record HumanApprovalTaskConfig =
  ha_gate_timeout_seconds :: int
  ha_required_approver_role :: string
  ha_default_on_timeout :: string
  ha_timeout_justification :: "string option"

definition make_HumanApprovalTaskConfig ::
  "int \<Rightarrow> string \<Rightarrow> string \<Rightarrow> string option \<Rightarrow> PyError + HumanApprovalTaskConfig" where
  "make_HumanApprovalTaskConfig gate_timeout_seconds role default_on_timeout justification =
     (if default_on_timeout \<notin> {''proceed'', ''abort''}
      then Inl (ValueError (''HumanApprovalTaskConfig.default_on_timeout must be 'proceed' or 'abort'' @ [CHR 0x27]))
      else if default_on_timeout = ''proceed'' \<and> justification \<in> {None, Some []}
      then Inl (ValueError (''HumanApprovalTaskConfig.timeout_justification is required ''
                @ ''when default_on_timeout is 'proceed'' @ [CHR 0x27]))
      else Inr \<lparr>ha_gate_timeout_seconds = gate_timeout_seconds, ha_required_approver_role = role,
                ha_default_on_timeout = default_on_timeout, ha_timeout_justification = justification\<rparr>)"

record BarrierPolicy =
  bp_task_group_id :: string

definition make_BarrierPolicy :: "string \<Rightarrow> PyError + BarrierPolicy" where
  "make_BarrierPolicy g =
     (if strip g = [] then Inl (ValueError ''BarrierPolicy.task_group_id must not be empty'')
      else Inr \<lparr>bp_task_group_id = g\<rparr>)"

record ConditionalBranchConfig =
  cb_predicate :: DependencyPredicate
  cb_objective_ref :: "string option"

definition make_ConditionalBranchConfig ::
  "DependencyPredicate \<Rightarrow> string option \<Rightarrow> PyError + ConditionalBranchConfig" where
  "make_ConditionalBranchConfig predicate objective_ref =
     (if predicate \<in> {EXECUTE_IF_OBJECTIVE_MET, EXECUTE_IF_OBJECTIVE_FAILED} \<and> objective_ref \<in> {None, Some []}
      then Inl (ValueError (''ConditionalBranchConfig.objective_ref is required for predicate ''
                @ DependencyPredicate_value predicate))
      else Inr \<lparr>cb_predicate = predicate, cb_objective_ref = objective_ref\<rparr>)"

section \<open>Entities\<close>

record TaskDependency =
  td_predecessor_id :: uuid
  td_successor_id :: uuid
  td_condition :: ConditionalBranchConfig

record CampaignTask =
  ct_task_id :: uuid
  ct_task_type :: TaskType
  ct_name :: string
  ct_criticality :: TaskCriticality
  ct_timeout_seconds :: int
  ct_operation_template :: "TaskOperationTemplate option"
  ct_human_approval_config :: "HumanApprovalTaskConfig option"
  ct_barrier_policy :: "BarrierPolicy option"
  ct_rollback_config :: "RollbackConfiguration option"
  ct_task_group_id :: "string option"
  ct_rollback_task_ref :: "uuid option"

section \<open>Exceptions and events\<close>

datatype TaskGraphDomainException =
    InvalidStateTransition string string string
  | SignedGraphImmutabilityViolation string
  | TaskGraphValidationFailed string "string list"
  | CycleDetectedError string
  | InvalidArgument string string
  | TenantMismatch EntityId EntityId
  | TaskNotFound string
  | DuplicateTask string
  | OptimisticLockConflict string int int

datatype TaskGraphEvent =
    TaskGraphCreated string string
  | TaskAdded string string string
  | TaskRemoved string
  | DependencyAdded string string string
  | ConditionalBranchAdded string string string "string option"
  | TaskGraphValidated int int
  | TaskGraphSigned string string
  | TaskGraphActivated
  | TaskGraphDeprecated

section \<open>The aggregate\<close>

record TaskGraph =
  tg_graph_id :: uuid
  tg_tenant_id :: EntityId
  tg_name :: string
  tg_description :: string
  tg_state :: TaskGraphState
  tg_version :: TaskGraphVersion
  tg_tasks :: "CampaignTask list"
  tg_dependencies :: "TaskDependency list"
  tg_engagement_window_seconds :: int
  tg_signed_by :: "string option"
  tg_signed_at :: "datetime option"
  tg_signature :: "string option"
  tg_created_at :: datetime
  tg_updated_at :: datetime
  tg_row_version :: int
  tg_pending_events :: "TaskGraphEvent event list"

type_synonym graph_step = "(TaskGraphDomainException, TaskGraph) step"

primrec ALLOWED_TRANSITIONS :: "TaskGraphState \<Rightarrow> TaskGraphState set" where
  "ALLOWED_TRANSITIONS DRAFT = {VALIDATED}"
| "ALLOWED_TRANSITIONS VALIDATED = {SIGNED, DRAFT}"
| "ALLOWED_TRANSITIONS SIGNED = {ACTIVE}"
| "ALLOWED_TRANSITIONS ACTIVE = {DEPRECATED}"
| "ALLOWED_TRANSITIONS DEPRECATED = {}"

definition IMMUTABLE_STATES :: "TaskGraphState set" where
  "IMMUTABLE_STATES = {SIGNED, ACTIVE, DEPRECATED}"

definition pop_events :: "TaskGraph \<Rightarrow> TaskGraphEvent event list \<times> TaskGraph" where
  "pop_events g = (tg_pending_events g, g\<lparr>tg_pending_events := []\<rparr>)"

definition emit :: "datetime \<Rightarrow> (TaskGraph \<Rightarrow> TaskGraphEvent) \<Rightarrow> graph_step" where
  "emit now payload = assign (\<lambda>g. g\<lparr>tg_pending_events := tg_pending_events g @
     [\<lparr>ev_occurred_at = now, ev_tenant_id = tg_tenant_id g, ev_aggregate_id = uuid_str (tg_graph_id g),
       ev_aggregate_type = ''TaskGraph'', ev_payload = payload g\<rparr>]\<rparr>)"

definition assert_tenant :: "EntityId \<Rightarrow> graph_step" where
  "assert_tenant tenant_id =
     raise_if (\<lambda>g. tenant_id \<noteq> tg_tenant_id g) (\<lambda>g. TenantMismatch (tg_tenant_id g) tenant_id)"

definition assert_topology_mutable :: graph_step where
  "assert_topology_mutable =
     raise_if (\<lambda>g. tg_state g \<in> IMMUTABLE_STATES)
       (\<lambda>g. SignedGraphImmutabilityViolation (uuid_str (tg_graph_id g)))"

definition mutate :: "datetime \<Rightarrow> graph_step" where
  "mutate now = assign (\<lambda>g. g\<lparr>tg_updated_at := now, tg_row_version := tg_row_version g + 1\<rparr>)"

definition invalid_transition :: "TaskGraphState \<Rightarrow> TaskGraph \<Rightarrow> TaskGraphDomainException" where
  "invalid_transition to_state g =
     InvalidStateTransition (TaskGraphState_value (tg_state g)) (TaskGraphState_value to_state)
       (uuid_str (tg_graph_id g))"

definition transition :: "TaskGraphState \<Rightarrow> graph_step" where
  "transition to_state = steps [
     raise_if (\<lambda>g. to_state \<notin> ALLOWED_TRANSITIONS (tg_state g)) (invalid_transition to_state),
     assign (\<lambda>g. g\<lparr>tg_state := to_state\<rparr>)]"

definition task_ids :: "TaskGraph \<Rightarrow> uuid list" where
  "task_ids g = map ct_task_id (tg_tasks g)"

text \<open>\<open>TaskGraph.create\<close>: the new graph, with its first event queued.\<close>

definition create ::
  "uuid \<Rightarrow> EntityId \<Rightarrow> string \<Rightarrow> string \<Rightarrow> int \<Rightarrow> datetime \<Rightarrow> TaskGraphDomainException + TaskGraph" where
  "create graph_id tenant_id name description engagement_window_seconds now =
     (if strip name = [] then Inl (InvalidArgument ''name'' ''must not be empty'')
      else if engagement_window_seconds \<le> 0
      then Inl (InvalidArgument ''engagement_window_seconds'' ''must be positive'')
      else Inr (final (emit now (\<lambda>_. TaskGraphCreated (strip name) (entity_str tenant_id))
        \<lparr>tg_graph_id = graph_id, tg_tenant_id = tenant_id, tg_name = strip name,
         tg_description = strip description, tg_state = DRAFT,
         tg_version = \<lparr>tv_major = 1, tv_minor = 0, tv_patch = 0\<rparr>,
         tg_tasks = [], tg_dependencies = [],
         tg_engagement_window_seconds = engagement_window_seconds,
         tg_signed_by = None, tg_signed_at = None, tg_signature = None,
         tg_created_at = now, tg_updated_at = now, tg_row_version = 1, tg_pending_events = []\<rparr>)))"

definition add_task :: "EntityId \<Rightarrow> CampaignTask \<Rightarrow> datetime \<Rightarrow> graph_step" where
  "add_task tenant_id task now = steps [
     assert_tenant tenant_id,
     assert_topology_mutable,
     raise_if (\<lambda>g. ct_task_id task \<in> set (task_ids g)) (\<lambda>_. DuplicateTask (uuid_str (ct_task_id task))),
     raise_if (\<lambda>_. strip (ct_name task) = []) (\<lambda>_. InvalidArgument ''task.name'' ''must not be empty''),
     assign (\<lambda>g. g\<lparr>tg_tasks := tg_tasks g @ [task]\<rparr>),
     mutate now,
     emit now (\<lambda>_. TaskAdded (uuid_str (ct_task_id task)) (TaskType_value (ct_task_type task))
                 (TaskCriticality_value (ct_criticality task)))]"

text \<open>\<open>list.remove(found)\<close>: tasks are equal only when they are the same object, and \<open>found\<close> is the
  first task with the identifier, so the first such task goes.\<close>

fun remove_first :: "('a \<Rightarrow> bool) \<Rightarrow> 'a list \<Rightarrow> 'a list" where
  "remove_first P [] = []"
| "remove_first P (x # xs) = (if P x then xs else x # remove_first P xs)"

definition remove_task :: "EntityId \<Rightarrow> uuid \<Rightarrow> datetime \<Rightarrow> graph_step" where
  "remove_task tenant_id task_id now = steps [
     assert_tenant tenant_id,
     assert_topology_mutable,
     raise_if (\<lambda>g. task_id \<notin> set (task_ids g)) (\<lambda>_. TaskNotFound (uuid_str task_id)),
     assign (\<lambda>g. g\<lparr>tg_tasks := remove_first (\<lambda>t. ct_task_id t = task_id) (tg_tasks g)\<rparr>),
     assign (\<lambda>g. g\<lparr>tg_dependencies :=
       filter (\<lambda>d. td_predecessor_id d \<noteq> task_id \<and> td_successor_id d \<noteq> task_id) (tg_dependencies g)\<rparr>),
     mutate now,
     emit now (\<lambda>_. TaskRemoved (uuid_str task_id))]"

definition is_conditional :: "DependencyPredicate \<Rightarrow> bool" where
  "is_conditional p \<longleftrightarrow> p \<notin> {ALWAYS_EXECUTE, EXECUTE_ON_SUCCESS, EXECUTE_ON_FAILURE}"

definition add_dependency ::
  "EntityId \<Rightarrow> uuid \<Rightarrow> uuid \<Rightarrow> ConditionalBranchConfig \<Rightarrow> datetime \<Rightarrow> graph_step" where
  "add_dependency tenant_id predecessor_id successor_id condition now = steps [
     assert_tenant tenant_id,
     assert_topology_mutable,
     raise_if (\<lambda>g. predecessor_id \<notin> set (task_ids g)) (\<lambda>_. TaskNotFound (uuid_str predecessor_id)),
     raise_if (\<lambda>g. successor_id \<notin> set (task_ids g)) (\<lambda>_. TaskNotFound (uuid_str successor_id)),
     raise_if (\<lambda>_. predecessor_id = successor_id)
       (\<lambda>_. InvalidArgument ''predecessor_id'' ''task cannot depend on itself''),
     assign (\<lambda>g. g\<lparr>tg_dependencies := tg_dependencies g @
       [\<lparr>td_predecessor_id = predecessor_id, td_successor_id = successor_id, td_condition = condition\<rparr>]\<rparr>),
     mutate now,
     if_else (\<lambda>_. is_conditional (cb_predicate condition))
       [emit now (\<lambda>_. ConditionalBranchAdded (uuid_str predecessor_id) (uuid_str successor_id)
          (DependencyPredicate_value (cb_predicate condition)) (cb_objective_ref condition))]
       [emit now (\<lambda>_. DependencyAdded (uuid_str predecessor_id) (uuid_str successor_id)
          (DependencyPredicate_value (cb_predicate condition)))]]"

definition validate :: "EntityId \<Rightarrow> (TaskGraph \<Rightarrow> string list) \<Rightarrow> datetime \<Rightarrow> graph_step" where
  "validate tenant_id validator now = steps [
     assert_tenant tenant_id,
     raise_if (\<lambda>g. tg_tasks g = []) (\<lambda>_. InvalidArgument ''tasks'' ''graph must have at least one task''),
     raise_if (\<lambda>g. tg_state g \<notin> {DRAFT, VALIDATED}) (invalid_transition VALIDATED),
     raise_if (\<lambda>g. validator g \<noteq> []) (\<lambda>g. TaskGraphValidationFailed (uuid_str (tg_graph_id g)) (validator g)),
     assign (\<lambda>g. g\<lparr>tg_state := VALIDATED\<rparr>),
     mutate now,
     emit now (\<lambda>g. TaskGraphValidated (int (length (tg_tasks g))) (int (length (tg_dependencies g))))]"

definition sign :: "EntityId \<Rightarrow> string \<Rightarrow> string \<Rightarrow> datetime \<Rightarrow> graph_step" where
  "sign tenant_id signed_by signature now = steps [
     assert_tenant tenant_id,
     raise_if (\<lambda>g. tg_state g \<noteq> VALIDATED) (invalid_transition SIGNED),
     raise_if (\<lambda>_. strip signed_by = []) (\<lambda>_. InvalidArgument ''signed_by'' ''must not be empty''),
     raise_if (\<lambda>_. strip signature = []) (\<lambda>_. InvalidArgument ''signature'' ''must not be empty''),
     assign (\<lambda>g. g\<lparr>tg_signed_by := Some (strip signed_by)\<rparr>),
     assign (\<lambda>g. g\<lparr>tg_signed_at := Some now\<rparr>),
     assign (\<lambda>g. g\<lparr>tg_signature := Some (strip signature)\<rparr>),
     transition SIGNED,
     mutate now,
     emit now (\<lambda>g. TaskGraphSigned (strip signed_by) (TaskGraphVersion_str (tg_version g)))]"

definition activate :: "EntityId \<Rightarrow> datetime \<Rightarrow> graph_step" where
  "activate tenant_id now = steps [
     assert_tenant tenant_id, transition ACTIVE, mutate now, emit now (\<lambda>_. TaskGraphActivated)]"

definition deprecate :: "EntityId \<Rightarrow> datetime \<Rightarrow> graph_step" where
  "deprecate tenant_id now = steps [
     assert_tenant tenant_id, transition DEPRECATED, mutate now, emit now (\<lambda>_. TaskGraphDeprecated)]"

section \<open>Calls and the invariant\<close>

datatype graph_call =
    Add_Task EntityId CampaignTask datetime
  | Remove_Task EntityId uuid datetime
  | Add_Dependency EntityId uuid uuid ConditionalBranchConfig datetime
  | Validate EntityId datetime
  | Sign EntityId string string datetime
  | Activate EntityId datetime
  | Deprecate EntityId datetime

primrec exec_graph :: "(TaskGraph \<Rightarrow> string list) \<Rightarrow> graph_call \<Rightarrow> graph_step" where
  "exec_graph v (Add_Task t x now) = add_task t x now"
| "exec_graph v (Remove_Task t i now) = remove_task t i now"
| "exec_graph v (Add_Dependency t p s c now) = add_dependency t p s c now"
| "exec_graph v (Validate t now) = validate t v now"
| "exec_graph v (Sign t by sig now) = sign t by sig now"
| "exec_graph v (Activate t now) = activate t now"
| "exec_graph v (Deprecate t now) = deprecate t now"

primrec graph_caller :: "graph_call \<Rightarrow> EntityId option" where
  "graph_caller (Add_Task t x now) = Some t"
| "graph_caller (Remove_Task t i now) = Some t"
| "graph_caller (Add_Dependency t p s c now) = Some t"
| "graph_caller (Validate t now) = Some t"
| "graph_caller (Sign t by sig now) = Some t"
| "graph_caller (Activate t now) = Some t"
| "graph_caller (Deprecate t now) = Some t"

text \<open>Task identifiers are unique, edges join two different tasks of the graph, and a graph that
  left the editable states carries a signer, an instant and a signature.\<close>

definition topology_ok :: "CampaignTask list \<Rightarrow> TaskDependency list \<Rightarrow> bool" where
  "topology_ok ts ds \<longleftrightarrow>
     distinct (map ct_task_id ts) \<and>
     (\<forall>d \<in> set ds. td_predecessor_id d \<in> ct_task_id ` set ts \<and>
        td_successor_id d \<in> ct_task_id ` set ts \<and> td_predecessor_id d \<noteq> td_successor_id d) \<and>
     (\<forall>t \<in> set ts. strip (ct_name t) \<noteq> [])"

definition lifecycle_ok :: "TaskGraph \<Rightarrow> bool" where
  "lifecycle_ok g \<longleftrightarrow>
     0 < tg_engagement_window_seconds g \<and>
     (tg_signed_by g = None \<longleftrightarrow> tg_state g \<notin> IMMUTABLE_STATES) \<and>
     (tg_signature g = None \<longleftrightarrow> tg_state g \<notin> IMMUTABLE_STATES) \<and>
     (tg_signed_at g = None \<longleftrightarrow> tg_state g \<notin> IMMUTABLE_STATES)"

definition graph_ok :: "TaskGraph \<Rightarrow> bool" where
  "graph_ok g \<longleftrightarrow> topology_ok (tg_tasks g) (tg_dependencies g) \<and> lifecycle_ok g"

definition topology :: "TaskGraph \<Rightarrow> CampaignTask list \<times> TaskDependency list" where
  "topology g = (tg_tasks g, tg_dependencies g)"

section \<open>Laws\<close>

lemmas graph_op_defs = add_task_def remove_task_def add_dependency_def validate_def sign_def
  activate_def deprecate_def

lemmas graph_step_defs = emit_def assert_tenant_def assert_topology_mutable_def mutate_def
  transition_def invalid_transition_def

text \<open>Evaluation of a whole call.\<close>

lemmas graph_call_simps = graph_op_defs graph_step_defs step_simps

lemma set_remove_first: "set (remove_first P xs) \<subseteq> set xs"
  by (induction xs) auto

lemma remove_first_ids:
  "distinct (map f xs) \<Longrightarrow>
     distinct (map f (remove_first (\<lambda>x. f x = i) xs)) \<and>
     f ` set (remove_first (\<lambda>x. f x = i) xs) = f ` set xs - {i}"
proof (induction xs)
  case (Cons x xs)
  then show ?case by (cases "f x = i") (auto simp: insert_Diff_if)
qed simp

lemma allowed_transition [simp]:
  "VALIDATED \<in> ALLOWED_TRANSITIONS s \<longleftrightarrow> s = DRAFT"
  "SIGNED \<in> ALLOWED_TRANSITIONS s \<longleftrightarrow> s = VALIDATED"
  "ACTIVE \<in> ALLOWED_TRANSITIONS s \<longleftrightarrow> s = SIGNED"
  "DEPRECATED \<in> ALLOWED_TRANSITIONS s \<longleftrightarrow> s = ACTIVE"
  by (cases s; simp)+

lemma exec_graph_tenant: "tg_tenant_id (final (exec_graph v c g)) = tg_tenant_id g"
  by (cases c) (simp_all add: graph_call_simps)

lemma exec_graph_version: "tg_row_version g \<le> tg_row_version (final (exec_graph v c g))"
  by (cases c) (simp_all add: graph_call_simps)

lemma exec_graph_events: "\<exists>es. tg_pending_events (final (exec_graph v c g)) = tg_pending_events g @ es"
  by (cases c) (simp_all add: graph_call_simps)

lemma exec_graph_foreign:
  "graph_caller c = Some t \<Longrightarrow> t \<noteq> tg_tenant_id g \<Longrightarrow> \<exists>e. exec_graph v c g = Raise e g"
  by (cases c) (simp_all add: graph_call_simps)

lemma exec_graph_moves:
  "tg_state (final (exec_graph v c g)) = tg_state g \<or>
   tg_state (final (exec_graph v c g)) \<in> ALLOWED_TRANSITIONS (tg_state g)"
  by (cases c; cases "tg_state g") (simp_all add: graph_call_simps IMMUTABLE_STATES_def)

lemma exec_graph_topology:
  "tg_state g \<in> IMMUTABLE_STATES \<Longrightarrow> topology (final (exec_graph v c g)) = topology g"
  by (cases c) (simp_all add: graph_call_simps topology_def)

lemma topology_ok_add_task:
  "topology_ok ts ds \<Longrightarrow> ct_task_id x \<notin> ct_task_id ` set ts \<Longrightarrow> strip (ct_name x) \<noteq> [] \<Longrightarrow> topology_ok (ts @ [x]) ds"
  by (auto simp: topology_ok_def)

lemma topology_ok_remove_task:
  "topology_ok ts ds \<Longrightarrow>
   topology_ok (remove_first (\<lambda>t. ct_task_id t = i) ts)
     (filter (\<lambda>d. td_predecessor_id d \<noteq> i \<and> td_successor_id d \<noteq> i) ds)"
  using remove_first_ids [of ct_task_id ts i] set_remove_first [of "\<lambda>t. ct_task_id t = i" ts]
  by (auto simp: topology_ok_def)

lemma topology_ok_add_dependency:
  "topology_ok ts ds \<Longrightarrow> p \<in> ct_task_id ` set ts \<Longrightarrow> s \<in> ct_task_id ` set ts \<Longrightarrow> p \<noteq> s \<Longrightarrow>
   topology_ok ts (ds @ [\<lparr>td_predecessor_id = p, td_successor_id = s, td_condition = c\<rparr>])"
  by (simp add: topology_ok_def)

lemma exec_graph_topology_ok:
  "topology_ok (tg_tasks g) (tg_dependencies g) \<Longrightarrow>
   topology_ok (tg_tasks (final (exec_graph v c g))) (tg_dependencies (final (exec_graph v c g)))"
  by (cases c, simp_all add: graph_call_simps task_ids_def topology_ok_add_task topology_ok_remove_task
    topology_ok_add_dependency, auto)

lemma immutable_iff: "s \<in> IMMUTABLE_STATES \<longleftrightarrow> s = SIGNED \<or> s = ACTIVE \<or> s = DEPRECATED"
  by (simp add: IMMUTABLE_STATES_def)

lemma exec_graph_lifecycle_ok: "lifecycle_ok g \<Longrightarrow> lifecycle_ok (final (exec_graph v c g))"
  by (cases c; cases "tg_state g") (simp_all add: graph_call_simps lifecycle_ok_def immutable_iff)

lemma exec_graph_ok: "keeps graph_ok (exec_graph v c)"
  by (simp add: keeps_def graph_ok_def exec_graph_topology_ok exec_graph_lifecycle_ok)

lemma create_ok: "create i t n d w now = Inr g \<Longrightarrow> graph_ok g \<and> tg_state g = DRAFT \<and> tg_tasks g = []"
  by (simp add: create_def graph_ok_def topology_ok_def lifecycle_ok_def emit_def assign_def immutable_iff
    split: if_splits) auto

interpretation graph: aggregate_root "exec_graph v" tg_tenant_id tg_row_version tg_pending_events for v
  by unfold_locales (fact exec_graph_tenant exec_graph_version exec_graph_events)+

interpretation graph: tenant_guarded "exec_graph v" tg_tenant_id tg_row_version tg_pending_events graph_caller for v
  by unfold_locales (fact exec_graph_foreign)

interpretation graph_states: status_machine "exec_graph v" tg_state ALLOWED_TRANSITIONS for v
  by unfold_locales (fact exec_graph_moves)

section \<open>Properties\<close>

definition sealed_part :: "TaskGraph \<Rightarrow> _" where
  "sealed_part g = (topology g, tg_signed_by g, tg_signed_at g, tg_signature g, tg_version g)"

lemma exec_graph_sealed:
  assumes "tg_state g \<in> IMMUTABLE_STATES"
  shows "sealed_part (final (exec_graph v c g)) = sealed_part g"
    and "tg_state (final (exec_graph v c g)) \<in> IMMUTABLE_STATES"
proof -
  show "sealed_part (final (exec_graph v c g)) = sealed_part g"
    using assms by (cases c) (auto simp: graph_call_simps sealed_part_def topology_def immutable_iff)
  show "tg_state (final (exec_graph v c g)) \<in> IMMUTABLE_STATES"
    using assms exec_graph_moves [of v c g] by (auto simp: immutable_iff)
qed

text \<open>Once a graph has been signed, no sequence of calls, whatever their arguments and whether or
  not they raise, changes its tasks, its dependencies, its signature, its signer or its version; and
  it never becomes editable again.\<close>

theorem signed_topology_immutable:
  "tg_state g \<in> IMMUTABLE_STATES \<Longrightarrow>
   sealed_part (history (exec_graph v) cs g) = sealed_part g \<and>
   tg_state (history (exec_graph v) cs g) \<in> IMMUTABLE_STATES"
  by (induction cs arbitrary: g) (simp_all add: exec_graph_sealed)

text \<open>Every graph that starts with \<open>create\<close> keeps the invariant of the aggregate under any
  sequence of calls: task identifiers are unique, dependencies join two different tasks of the graph,
  names are not blank, the window is positive, and signer, instant and signature are present exactly
  in the signed states.\<close>

theorem graph_invariant:
  "create i t n d w now = Inr g \<Longrightarrow> graph_ok (history (exec_graph v) cs g)"
  by (blast intro: history_keeps exec_graph_ok dest: create_ok)

text \<open>Reading back the text of a version gives the version.\<close>

theorem version_round_trip:
  "make_TaskGraphVersion a b c = Inr v \<Longrightarrow> from_string (TaskGraphVersion_str v) = Inr v"
  by (auto simp: make_TaskGraphVersion_def from_string_def TaskGraphVersion_str_def int_of_def
    split_on_append split_on_absent str_int_no_dot py_int_str_int split: if_splits)

section \<open>Witnesses\<close>

definition sample_task :: "uuid \<Rightarrow> CampaignTask" where
  "sample_task i = \<lparr>ct_task_id = i, ct_task_type = WAIT_TASK, ct_name = ''wait'', ct_criticality = REQUIRED,
     ct_timeout_seconds = 60, ct_operation_template = None, ct_human_approval_config = None,
     ct_barrier_policy = None, ct_rollback_config = None, ct_task_group_id = None,
     ct_rollback_task_ref = None\<rparr>"

definition sample_graph :: "uuid list \<Rightarrow> (uuid \<times> uuid) list \<Rightarrow> TaskGraphState \<Rightarrow> TaskGraph" where
  "sample_graph is es st = \<lparr>tg_graph_id = 99, tg_tenant_id = EntityId ''t'', tg_name = ''g'',
     tg_description = [], tg_state = st, tg_version = \<lparr>tv_major = 1, tv_minor = 0, tv_patch = 0\<rparr>,
     tg_tasks = map sample_task is,
     tg_dependencies = map (\<lambda>(p, s). \<lparr>td_predecessor_id = p, td_successor_id = s,
       td_condition = \<lparr>cb_predicate = ALWAYS_EXECUTE, cb_objective_ref = None\<rparr>\<rparr>) es,
     tg_engagement_window_seconds = 3600, tg_signed_by = None, tg_signed_at = None, tg_signature = None,
     tg_created_at = 0, tg_updated_at = 0, tg_row_version = 1, tg_pending_events = []\<rparr>"

theorem signed_topology_immutable_witness:
  "topology (history (exec_graph (\<lambda>_. [])) [Remove_Task (EntityId ''t'') 1 5, Activate (EntityId ''t'') 6]
     (sample_graph [1, 2] [(1, 2)] SIGNED)) = topology (sample_graph [1, 2] [(1, 2)] SIGNED)"
  using signed_topology_immutable [of "sample_graph [1, 2] [(1, 2)] SIGNED" "\<lambda>_. []"
      "[Remove_Task (EntityId ''t'') 1 5, Activate (EntityId ''t'') 6]"]
  by (simp add: sample_graph_def immutable_iff sealed_part_def)

lemma strip_g: "strip ''g'' = ''g''"
  by code_simp

theorem graph_invariant_witness:
  "\<exists>g. create 99 (EntityId ''t'') ''g'' [] 3600 0 = Inr g \<and>
     graph_ok (history (exec_graph (\<lambda>_. [])) [Add_Task (EntityId ''t'') (sample_task 1) 5] g)"
proof -
  obtain g where "create 99 (EntityId ''t'') ''g'' [] 3600 0 = Inr g"
    by (simp add: create_def strip_g)
  with graph_invariant [OF this, of "\<lambda>_. []" "[Add_Task (EntityId ''t'') (sample_task 1) 5]"]
  show ?thesis by blast
qed

theorem version_round_trip_witness:
  "from_string (TaskGraphVersion_str \<lparr>tv_major = 1, tv_minor = 20, tv_patch = 3\<rparr>) =
     Inr \<lparr>tv_major = 1, tv_minor = 20, tv_patch = 3\<rparr>"
  using version_round_trip [of 1 20 3 "\<lparr>tv_major = 1, tv_minor = 20, tv_patch = 3\<rparr>"]
  by (simp add: make_TaskGraphVersion_def)

end
