(* ===== verification/Graph_Validator.thy ===== *)
theory Graph_Validator
  imports Topology TaskGraph_Model
begin

text \<open>
  \<open>TaskGraphValidator\<close> (\<open>taskgraph/domain/services/task_graph_validator.py\<close>): the six checks with
  their error texts, on the worklist loops of \<open>Topology\<close>. The interpretation \<open>task_digraph\<close> discharges
  the assumptions of \<open>known_digraph\<close> for the keys and edges the validator works on, for every graph.
\<close>

section \<open>The checks\<close>

definition quoted :: "string \<Rightarrow> string" where
  "quoted s = CHR 0x27 # s @ [CHR 0x27]"

definition dependency_pairs :: "TaskDependency list \<Rightarrow> (uuid \<times> uuid) list" where
  "dependency_pairs ds = map (\<lambda>d. (td_predecessor_id d, td_successor_id d)) ds"

definition validate_dependency_refs :: "TaskGraph \<Rightarrow> string list" where
  "validate_dependency_refs graph = concat (map (\<lambda>dep.
     (if td_predecessor_id dep \<notin> set (task_ids graph)
      then [''Dependency references unknown predecessor task: '' @ uuid_str (td_predecessor_id dep)] else []) @
     (if td_successor_id dep \<notin> set (task_ids graph)
      then [''Dependency references unknown successor task: '' @ uuid_str (td_successor_id dep)] else []))
     (tg_dependencies graph))"

definition find_cycle :: "TaskGraph \<Rightarrow> string list" where
  "find_cycle graph =
     (let (in_degree, successors) = degree_maps (task_ids graph) (dependency_pairs (tg_dependencies graph));
          (in_degree', visited_count) =
            find_cycle_loop (\<lambda>n. dict_get successors n []) in_degree (zero_keys in_degree) 0
      in if visited_count < length (task_ids graph)
         then [''Cycle detected involving tasks: '' @
               join '', '' (map (\<lambda>(tid, _). uuid_str tid) (filter (\<lambda>(tid, deg). deg > 0) in_degree'))]
         else [])"

definition task_map :: "TaskGraph \<Rightarrow> (uuid, CampaignTask) dict" where
  "task_map graph = fold (\<lambda>t d. dict_set (ct_task_id t) t d) (tg_tasks graph) []"

text \<open>\<open>task_map[tid].timeout_seconds\<close>; every lookup is at a key.\<close>

definition task_timeout :: "TaskGraph \<Rightarrow> uuid \<Rightarrow> int" where
  "task_timeout graph tid = (case map_of (task_map graph) tid of None \<Rightarrow> 0 | Some t \<Rightarrow> ct_timeout_seconds t)"

definition max_default :: "int \<Rightarrow> int list \<Rightarrow> int" where
  "max_default z xs = (case xs of [] \<Rightarrow> z | x # ys \<Rightarrow> fold max ys x)"

definition compute_critical_path_duration :: "TaskGraph \<Rightarrow> int" where
  "compute_critical_path_duration graph =
     (let tids = map fst (task_map graph);
          (in_degree, successors) = degree_maps tids (dependency_pairs (tg_dependencies graph));
          dist = critical_loop (\<lambda>n. dict_get successors n []) (task_timeout graph) in_degree
                   (task_timeout graph) (zero_keys in_degree)
      in max_default 0 (map dist tids))"

definition validate_human_approval_tasks :: "TaskGraph \<Rightarrow> string list" where
  "validate_human_approval_tasks graph = concat (map (\<lambda>task.
     if ct_task_type task = HUMAN_APPROVAL_TASK then
       (case ct_human_approval_config task of
          None \<Rightarrow> [''HumanApprovalTask '' @ quoted (uuid_str (ct_task_id task)) @ '' missing HumanApprovalTaskConfig'']
        | Some c \<Rightarrow> if ha_gate_timeout_seconds c \<le> 0
            then [''HumanApprovalTask '' @ quoted (uuid_str (ct_task_id task)) @ '' must have timeout > 0'']
            else [])
     else []) (tg_tasks graph))"

definition existing_group_ids :: "TaskGraph \<Rightarrow> string set" where
  "existing_group_ids graph = set (List.map_filter ct_task_group_id (tg_tasks graph))"

definition validate_barrier_tasks :: "TaskGraph \<Rightarrow> string list" where
  "validate_barrier_tasks graph = concat (map (\<lambda>task.
     if ct_task_type task = BARRIER_TASK then
       (case ct_barrier_policy task of
          None \<Rightarrow> [''BarrierTask '' @ quoted (uuid_str (ct_task_id task)) @ '' missing BarrierPolicy'']
        | Some p \<Rightarrow> if bp_task_group_id p \<notin> existing_group_ids graph
            then [''BarrierTask '' @ quoted (uuid_str (ct_task_id task)) @ '' references unknown ''
                  @ ''task_group_id '' @ quoted (bp_task_group_id p)]
            else [])
     else []) (tg_tasks graph))"

definition validate_rollback_tasks :: "TaskGraph \<Rightarrow> string list" where
  "validate_rollback_tasks graph = concat (map (\<lambda>task.
     if ct_task_type task = ROLLBACK_TASK then
       (case ct_rollback_task_ref task of
          None \<Rightarrow> [''RollbackTask '' @ quoted (uuid_str (ct_task_id task)) @ '' must have rollback_task_ref set'']
        | Some r \<Rightarrow> if r \<notin> set (task_ids graph)
            then [''RollbackTask '' @ quoted (uuid_str (ct_task_id task)) @ '' references unknown task ''
                  @ quoted (uuid_str r)]
            else [])
     else []) (tg_tasks graph))"

text \<open>\<open>critical_ids\<close> is a set: the order of its elements is not fixed, but only the number of
  start nodes is used. The loop over \<open>critical_deps\<close> only sees edges between critical tasks.\<close>

definition critical_ids :: "TaskGraph \<Rightarrow> uuid list" where
  "critical_ids graph = remdups (map ct_task_id (filter (\<lambda>t. ct_criticality t = CRITICAL_PATH) (tg_tasks graph)))"

definition critical_start_nodes :: "TaskGraph \<Rightarrow> uuid list" where
  "critical_start_nodes graph =
     (let ids = critical_ids graph;
          critical_deps = filter (\<lambda>d. td_predecessor_id d \<in> set ids \<and> td_successor_id d \<in> set ids)
                            (tg_dependencies graph);
          in_degree = fold (\<lambda>d m. dict_set (td_successor_id d) (dict_get m (td_successor_id d) 0 + 1) m)
                        critical_deps (dict_from_keys ids 0)
      in zero_keys in_degree)"

definition validate_critical_path :: "TaskGraph \<Rightarrow> string list" where
  "validate_critical_path graph =
     (if filter (\<lambda>t. ct_criticality t = CRITICAL_PATH) (tg_tasks graph) = [] then []
      else let start_nodes = critical_start_nodes graph in
        if length start_nodes \<noteq> 1
        then [''CriticalPath tasks must have exactly one start node, found '' @ str_nat (length start_nodes)]
        else let duration = compute_critical_path_duration graph in
          if duration > tg_engagement_window_seconds graph
          then [''Critical path duration '' @ str_int duration @ ''s exceeds '' @ ''engagement window ''
                @ str_int (tg_engagement_window_seconds graph) @ ''s'']
          else [])"

definition validate_graph :: "TaskGraph \<Rightarrow> string list" where
  "validate_graph graph =
     validate_dependency_refs graph @ find_cycle graph @ validate_human_approval_tasks graph @
     validate_barrier_tasks graph @ validate_rollback_tasks graph @ validate_critical_path graph"

section \<open>The graph the validator sees\<close>

definition graph_keys :: "TaskGraph \<Rightarrow> uuid list" where
  "graph_keys g = map fst (dict_from_keys (task_ids g) (0::int))"

definition task_edges :: "TaskGraph \<Rightarrow> (uuid \<times> uuid) list" where
  "task_edges g = known_edges (task_ids g) (dependency_pairs (tg_dependencies g))"

lemma dict_fold_keys:
  "map fst (fold (\<lambda>x d. dict_set (k x) (v x) d) xs d) = map fst (fold (\<lambda>x d. dict_set (k x) (w x) d) xs e)"
  if "map fst d = map fst e"
  using that by (induction xs arbitrary: d e) (simp_all add: keys_dict_set)

lemma set_dict_from_keys: "fst ` set (dict_from_keys ks v) = set ks"
  using map_of_dict_from_keys [of ks v] by (metis (no_types, lifting) map_of_eq_None_iff option.distinct(1) subsetI subset_antisym)

lemma distinct_dict_from_keys: "distinct (map fst (dict_from_keys ks v))"
proof -
  have "distinct (map fst d) \<Longrightarrow> distinct (map fst (fold (\<lambda>k d. dict_set k v d) ks d))" for d
    by (induction ks arbitrary: d) simp_all
  then show ?thesis by (simp add: dict_from_keys_def)
qed

lemma set_graph_keys [simp]: "set (graph_keys g) = set (task_ids g)"
  by (simp add: graph_keys_def set_dict_from_keys)

lemma distinct_graph_keys [simp]: "distinct (graph_keys g)"
  by (simp add: graph_keys_def distinct_dict_from_keys)

lemma graph_keys_distinct: "distinct (task_ids g) \<Longrightarrow> graph_keys g = task_ids g"
  by (simp add: graph_keys_def keys_dict_from_keys)

lemma length_graph_keys: "length (graph_keys g) = card (set (task_ids g))"
  using distinct_card [of "graph_keys g"] by simp

interpretation task_digraph: known_digraph "graph_keys g" "task_edges g" for g
  by unfold_locales (auto simp: task_edges_def known_edges_def)

lemma keys_task_map: "map fst (task_map g) = graph_keys g"
proof -
  have "map fst (fold (\<lambda>t d. dict_set (ct_task_id t) t d) ts []) =
      map fst (fold (\<lambda>t d. dict_set (ct_task_id t) (0::int) d) ts [])" for ts
    by (rule dict_fold_keys) simp
  then show ?thesis
    by (simp add: task_map_def graph_keys_def dict_from_keys_def task_ids_def fold_map comp_def)
qed

lemma known_edges_cong: "set ks = set ls \<Longrightarrow> known_edges ks es = known_edges ls es"
  by (simp add: known_edges_def)

text \<open>The dictionaries of the two loops are the initial ones of \<open>known_digraph\<close>.\<close>

lemma degree_maps_initial:
  assumes "degree_maps ks (dependency_pairs (tg_dependencies g)) = (deg, succ)"
    and "ks = task_ids g \<or> ks = graph_keys g"
  shows "task_digraph.initial g deg" and "(\<lambda>n. dict_get succ n []) = out_edges (task_edges g)"
proof -
  have ks: "set ks = set (task_ids g)" using assms(2) by auto
  have keys: "map fst (dict_from_keys ks (0::int)) = graph_keys g"
    using assms(2) keys_dict_from_keys [OF distinct_graph_keys, of g "0::int"] by (auto simp: graph_keys_def)
  have e: "known_edges ks (dependency_pairs (tg_dependencies g)) = task_edges g"
    unfolding task_edges_def by (rule known_edges_cong [OF ks])
  note spec = degree_maps_known [of ks "dependency_pairs (tg_dependencies g)", unfolded e keys assms(1), simplified]
  show "task_digraph.initial g deg" using spec ks by (simp add: task_digraph.initial_def)
  show "(\<lambda>n. dict_get succ n []) = out_edges (task_edges g)" using spec by auto
qed

section \<open>Cycles\<close>

lemma find_cycle_iff:
  "find_cycle g = [] \<longleftrightarrow> distinct (task_ids g) \<and> acyclic (set (task_edges g))"
proof -
  obtain deg succ where d: "degree_maps (task_ids g) (dependency_pairs (tg_dependencies g)) = (deg, succ)"
    by fastforce
  note init = degree_maps_initial [OF d, simplified]
  define vs where "vs = visit_order (out_edges (task_edges g)) deg (zero_keys deg)"
  have "find_cycle g = [] \<longleftrightarrow> length (task_ids g) \<le> length vs"
    using task_digraph.find_cycle_loop_visited [of "out_edges (task_edges g)" deg "zero_keys deg" 0]
    by (simp add: find_cycle_def d init(2) vs_def case_prod_beta Let_def not_less)
  moreover have "length vs \<le> length (graph_keys g)"
    using task_digraph.visit_order_spec [OF task_digraph.worklist_initial [OF init(1)] vs_def]
    by (metis card_mono distinct_card distinct_graph_keys List.finite_set)
  moreover have "length vs = length (graph_keys g) \<longleftrightarrow> acyclic (set (task_edges g))"
    using task_digraph.visits_all_iff_acyclic [OF init(1) vs_def] .
  moreover have "length (graph_keys g) \<le> length (task_ids g)"
    by (simp add: length_graph_keys card_length)
  moreover have "length (graph_keys g) = length (task_ids g) \<longleftrightarrow> distinct (task_ids g)"
    by (metis length_graph_keys card_distinct distinct_card)
  ultimately show ?thesis by linarith
qed

text \<open>C36: the cycle check accepts a graph exactly when its task identifiers are distinct and its
  dependencies between known tasks have no cycle. The loop ends on every graph.\<close>

theorem find_cycle_correct:
  "find_cycle g = [] \<longleftrightarrow> distinct (task_ids g) \<and> acyclic (set (task_edges g))"
  by (rule find_cycle_iff)

section \<open>The critical path\<close>

lemma max_default_Max: "xs \<noteq> [] \<Longrightarrow> max_default z xs = Max (set xs)"
  by (cases xs) (simp_all add: max_default_def Max.set_eq_fold del: set_simps)

text \<open>With distinct identifiers the weight of a node is the timeout of its task.\<close>

lemma task_timeout_eq:
  assumes "distinct (task_ids g)" and "t \<in> set (tg_tasks g)"
  shows "task_timeout g (ct_task_id t) = ct_timeout_seconds t"
  using map_of_dict_index [of ct_task_id "tg_tasks g" t] assms by (simp add: task_timeout_def task_map_def task_ids_def)

lemma critical_path_longest:
  assumes "acyclic (set (task_edges g))" and "tg_tasks g \<noteq> []"
  shows "(\<forall>p. is_path (graph_keys g) (task_edges g) p \<longrightarrow>
      path_weight (task_timeout g) p \<le> compute_critical_path_duration g) \<and>
    (\<exists>p. is_path (graph_keys g) (task_edges g) p \<and>
      path_weight (task_timeout g) p = compute_critical_path_duration g)"
proof -
  obtain deg succ where d: "degree_maps (graph_keys g) (dependency_pairs (tg_dependencies g)) = (deg, succ)"
    by fastforce
  note init = degree_maps_initial [OF d, simplified]
  have ne: "graph_keys g \<noteq> []"
    using assms(2) set_graph_keys [of g] by (metis list.map_disc_iff set_empty task_ids_def)
  define dist where "dist = critical_loop (out_edges (task_edges g)) (task_timeout g) deg (task_timeout g) (zero_keys deg)"
  have "compute_critical_path_duration g = Max (dist ` set (graph_keys g))"
    using ne by (simp add: compute_critical_path_duration_def keys_task_map d init(2) dist_def max_default_Max)
  then show ?thesis
    using task_digraph.critical_loop_longest [OF init(1) assms(1) ne dist_def] by simp
qed

text \<open>C37: on a graph without cycles the computed critical-path duration is the largest total timeout
  over all dependency paths: no path is longer, and some path has exactly that length.\<close>

theorem critical_path_duration_correct:
  assumes "find_cycle g = []" and "tg_tasks g \<noteq> []"
  shows "(\<forall>p. is_path (task_ids g) (task_edges g) p \<longrightarrow>
      path_weight (task_timeout g) p \<le> compute_critical_path_duration g) \<and>
    (\<exists>p. is_path (task_ids g) (task_edges g) p \<and>
      path_weight (task_timeout g) p = compute_critical_path_duration g)"
proof -
  have "distinct (task_ids g)" "acyclic (set (task_edges g))"
    using find_cycle_iff assms(1) by blast+
  then show ?thesis using critical_path_longest [OF _ assms(2)] by (simp add: graph_keys_distinct)
qed

section \<open>What an accepted graph is\<close>

definition critical_starts :: "TaskGraph \<Rightarrow> uuid set" where
  "critical_starts g = {i \<in> set (critical_ids g).
     \<forall>d \<in> set (tg_dependencies g). td_successor_id d = i \<longrightarrow> td_predecessor_id d \<notin> set (critical_ids g)}"

text \<open>The specification of the validator, without algorithms.\<close>

definition valid_graph :: "TaskGraph \<Rightarrow> bool" where
  "valid_graph g \<longleftrightarrow>
     (\<forall>d \<in> set (tg_dependencies g). {td_predecessor_id d, td_successor_id d} \<subseteq> set (task_ids g)) \<and>
     distinct (task_ids g) \<and> acyclic (set (task_edges g)) \<and>
     (\<forall>t \<in> set (tg_tasks g). ct_task_type t = HUMAN_APPROVAL_TASK \<longrightarrow>
        (\<exists>c. ct_human_approval_config t = Some c \<and> 0 < ha_gate_timeout_seconds c)) \<and>
     (\<forall>t \<in> set (tg_tasks g). ct_task_type t = BARRIER_TASK \<longrightarrow>
        (\<exists>p. ct_barrier_policy t = Some p \<and>
          (\<exists>u \<in> set (tg_tasks g). ct_task_group_id u = Some (bp_task_group_id p)))) \<and>
     (\<forall>t \<in> set (tg_tasks g). ct_task_type t = ROLLBACK_TASK \<longrightarrow>
        (\<exists>r. ct_rollback_task_ref t = Some r \<and> r \<in> set (task_ids g))) \<and>
     (critical_ids g \<noteq> [] \<longrightarrow>
        (\<exists>i. critical_starts g = {i}) \<and>
        (\<forall>p. is_path (task_ids g) (task_edges g) p \<longrightarrow>
           path_weight (task_timeout g) p \<le> tg_engagement_window_seconds g))"

lemma concat_map_Nil: "concat (map f xs) = [] \<longleftrightarrow> (\<forall>x \<in> set xs. f x = [])"
  by auto

lemma existing_group_ids_iff: "s \<in> existing_group_ids g \<longleftrightarrow> (\<exists>u \<in> set (tg_tasks g). ct_task_group_id u = Some s)"
  by (force simp: existing_group_ids_def map_filter_def)

text \<open>The in-degrees among the critical tasks.\<close>

lemma critical_degrees:
  assumes "\<forall>d \<in> set ds. td_successor_id d \<in> set ids" and "distinct ids"
  shows "map fst (fold (\<lambda>d m. dict_set (td_successor_id d) (dict_get m (td_successor_id d) 0 + 1) m) ds
      (dict_from_keys ids (0::int))) = ids \<and>
    (\<forall>t \<in> set ids. map_of (fold (\<lambda>d m. dict_set (td_successor_id d) (dict_get m (td_successor_id d) 0 + 1) m) ds
      (dict_from_keys ids (0::int))) t = Some (int (length (filter (\<lambda>d. td_successor_id d = t) ds))))"
  using assms(1)
proof (induction ds rule: rev_induct)
  case Nil
  then show ?case using assms(2) by (simp add: keys_dict_from_keys map_of_dict_from_keys)
next
  case (snoc d ds)
  then show ?case by (auto simp: keys_dict_set map_of_dict_set dict_get_def)
qed

lemma zero_keys_iff:
  "distinct (map fst deg) \<Longrightarrow> i \<in> set (zero_keys deg) \<longleftrightarrow> map_of deg i = Some 0"
  "distinct (map fst deg) \<Longrightarrow> distinct (zero_keys deg)"
  by (force simp: zero_keys_def map_of_eq_Some_iff) (simp add: zero_keys_def distinct_map_filter)

lemma critical_start_nodes_set:
  "distinct (critical_start_nodes g) \<and> set (critical_start_nodes g) = critical_starts g"
proof -
  define ids where "ids = critical_ids g"
  define ds where "ds = filter (\<lambda>d. td_predecessor_id d \<in> set ids \<and> td_successor_id d \<in> set ids) (tg_dependencies g)"
  define deg where "deg = fold (\<lambda>d m. dict_set (td_successor_id d) (dict_get m (td_successor_id d) 0 + 1) m) ds
      (dict_from_keys ids (0::int))"
  have ids: "distinct ids" by (simp add: ids_def critical_ids_def)
  have deg: "map fst deg = ids" "\<forall>t \<in> set ids. map_of deg t = Some (int (length (filter (\<lambda>d. td_successor_id d = t) ds)))"
    using critical_degrees [of ds ids] ids unfolding deg_def by (auto simp: ds_def)
  have nodes: "critical_start_nodes g = zero_keys deg"
    by (simp add: critical_start_nodes_def deg_def ds_def ids_def Let_def)
  have "i \<in> set (zero_keys deg) \<longleftrightarrow> i \<in> set ids \<and> filter (\<lambda>d. td_successor_id d = i) ds = []" for i
  proof (cases "i \<in> set ids")
    case False
    then have "map_of deg i = None" using deg(1) by (metis map_of_eq_None_iff set_map)
    then show ?thesis using False zero_keys_iff(1) [of deg i] deg(1) ids by simp
  qed (use zero_keys_iff(1) [of deg i] deg ids in simp)
  then have "set (zero_keys deg) = critical_starts g"
    by (auto simp: critical_starts_def ds_def ids_def filter_empty_conv)
  moreover have "distinct (zero_keys deg)" using zero_keys_iff(2) [of deg] deg(1) ids by simp
  ultimately show ?thesis by (simp add: nodes)
qed

lemma one_start_node: "length (critical_start_nodes g) = 1 \<longleftrightarrow> (\<exists>i. critical_starts g = {i})"
  using critical_start_nodes_set [of g] by (metis card_1_singleton_iff distinct_card One_nat_def)

lemma validate_critical_path_Nil:
  assumes "distinct (task_ids g)" and "acyclic (set (task_edges g))"
  shows "validate_critical_path g = [] \<longleftrightarrow> (critical_ids g \<noteq> [] \<longrightarrow>
    (\<exists>i. critical_starts g = {i}) \<and>
    (\<forall>p. is_path (task_ids g) (task_edges g) p \<longrightarrow> path_weight (task_timeout g) p \<le> tg_engagement_window_seconds g))"
proof (cases "filter (\<lambda>t. ct_criticality t = CRITICAL_PATH) (tg_tasks g) = []")
  case True
  then show ?thesis by (simp add: validate_critical_path_def critical_ids_def)
next
  case False
  then have "tg_tasks g \<noteq> []" and crit: "critical_ids g \<noteq> []" by (auto simp: critical_ids_def)
  then have D: "(\<forall>p. is_path (task_ids g) (task_edges g) p \<longrightarrow> path_weight (task_timeout g) p \<le> tg_engagement_window_seconds g)
      \<longleftrightarrow> compute_critical_path_duration g \<le> tg_engagement_window_seconds g"
    using critical_path_longest [of g] assms by (metis graph_keys_distinct order_trans)
  show ?thesis
    using False crit one_start_node [of g] unfolding D
    by (simp add: validate_critical_path_def Let_def not_less)
qed

lemma validate_graph_iff: "validate_graph g = [] \<longleftrightarrow> valid_graph g"
proof -
  have refs: "validate_dependency_refs g = [] \<longleftrightarrow>
      (\<forall>d \<in> set (tg_dependencies g). {td_predecessor_id d, td_successor_id d} \<subseteq> set (task_ids g))"
    unfolding validate_dependency_refs_def concat_map_Nil by (rule ball_cong) auto
  have human: "validate_human_approval_tasks g = [] \<longleftrightarrow>
      (\<forall>t \<in> set (tg_tasks g). ct_task_type t = HUMAN_APPROVAL_TASK \<longrightarrow>
        (\<exists>c. ct_human_approval_config t = Some c \<and> 0 < ha_gate_timeout_seconds c))"
    unfolding validate_human_approval_tasks_def concat_map_Nil
    by (rule ball_cong) (auto split: option.splits)
  have barrier: "validate_barrier_tasks g = [] \<longleftrightarrow>
      (\<forall>t \<in> set (tg_tasks g). ct_task_type t = BARRIER_TASK \<longrightarrow> (\<exists>p. ct_barrier_policy t = Some p \<and>
          (\<exists>u \<in> set (tg_tasks g). ct_task_group_id u = Some (bp_task_group_id p))))"
    unfolding validate_barrier_tasks_def concat_map_Nil
    by (rule ball_cong) (auto simp: existing_group_ids_iff split: option.splits)
  have rollback: "validate_rollback_tasks g = [] \<longleftrightarrow>
      (\<forall>t \<in> set (tg_tasks g). ct_task_type t = ROLLBACK_TASK \<longrightarrow>
        (\<exists>r. ct_rollback_task_ref t = Some r \<and> r \<in> set (task_ids g)))"
    unfolding validate_rollback_tasks_def concat_map_Nil
    by (rule ball_cong) (auto split: option.splits)
  show ?thesis
    unfolding validate_graph_def valid_graph_def append_is_Nil_conv refs human barrier rollback find_cycle_iff
    using validate_critical_path_Nil [of g] by argo
qed

text \<open>C6: the validator reports no error exactly when the graph meets its specification: all
  references known, identifiers distinct, no cycle, approval, barrier and rollback tasks configured, and,
  when there are critical-path tasks, exactly one of them without a critical predecessor and no
  dependency path longer than the engagement window.\<close>

theorem validator_correct: "validate_graph g = [] \<longleftrightarrow> valid_graph g"
  by (rule validate_graph_iff)

text \<open>\<open>TaskGraph.validate\<close> with this validator moves a graph to \<open>VALIDATED\<close> only if it is the
  caller's, has a task, was a draft or validated, and meets the specification; otherwise it raises and
  nothing changes, and the topology never changes.\<close>

theorem validate_call_correct:
  "case validate tenant validate_graph now g of
     Return _ h \<Rightarrow> valid_graph g \<and> tg_tasks g \<noteq> [] \<and> tenant = tg_tenant_id g \<and>
       tg_state g \<in> {DRAFT, VALIDATED} \<and> tg_state h = VALIDATED \<and> topology h = topology g \<and>
       tg_row_version h = tg_row_version g + 1
   | Raise e h \<Rightarrow> h = g \<and>
       (e = TaskGraphValidationFailed (uuid_str (tg_graph_id g)) (validate_graph g) \<longrightarrow> \<not> valid_graph g)"
  by (auto simp: validate_def graph_step_defs step_simps validate_graph_iff topology_def)

section \<open>Witnesses\<close>

lemma sample_validates: "validate_graph (sample_graph [1, 2, 3] [(1, 2), (1, 3)] DRAFT) = []"
  by code_simp

theorem critical_path_duration_correct_witness:
  "compute_critical_path_duration (sample_graph [1, 2, 3] [(1, 2), (1, 3)] DRAFT) = 120 \<and>
   (\<exists>p. is_path [1, 2, 3] (task_edges (sample_graph [1, 2, 3] [(1, 2), (1, 3)] DRAFT)) p \<and>
      path_weight (task_timeout (sample_graph [1, 2, 3] [(1, 2), (1, 3)] DRAFT)) p = 120)"
proof -
  let ?g = "sample_graph [1, 2, 3] [(1, 2), (1, 3)] DRAFT"
  have "compute_critical_path_duration ?g = 120" and "find_cycle ?g = []" by code_simp+
  moreover have "tg_tasks ?g \<noteq> []" and "task_ids ?g = [1, 2, 3]"
    by (simp_all add: sample_graph_def task_ids_def sample_task_def)
  ultimately show ?thesis using critical_path_duration_correct [of ?g] by simp
qed

theorem validate_call_correct_witness:
  "\<exists>h. validate (EntityId ''t'') validate_graph 7 (sample_graph [1, 2, 3] [(1, 2), (1, 3)] DRAFT) = Return () h \<and>
     valid_graph (sample_graph [1, 2, 3] [(1, 2), (1, 3)] DRAFT) \<and> tg_state h = VALIDATED"
proof -
  let ?g = "sample_graph [1, 2, 3] [(1, 2), (1, 3)] DRAFT"
  obtain h where "validate (EntityId ''t'') validate_graph 7 ?g = Return () h"
    using sample_validates by (simp add: validate_def graph_step_defs step_simps sample_graph_def)
  with validate_call_correct [where tenant = "EntityId ''t''" and now = 7 and g = ?g] show ?thesis by auto
qed

section \<open>Editing after validation\<close>

definition cyclic_edit :: "graph_call list" where
  "cyclic_edit = (let t = EntityId ''t''; always = \<lparr>cb_predicate = ALWAYS_EXECUTE, cb_objective_ref = None\<rparr>
     in [Add_Task t (sample_task 1) 1, Add_Task t (sample_task 2) 2, Add_Dependency t 1 2 always 3,
         Validate t 4, Add_Dependency t 2 1 always 5, Sign t ''alice'' ''sig'' 6, Activate t 7])"

text \<open>Validation is not repeated when a validated graph is edited. Adding a dependency to a
  validated graph leaves it in the state \<open>VALIDATED\<close>, so a graph with a cycle can be signed and
  activated: such a graph is reachable from \<open>create\<close> by calls that all return.\<close>

theorem cyclic_graph_can_be_activated:
  "\<exists>g cs. create 99 (EntityId ''t'') ''g'' [] 3600 0 = Inr g \<and>
     tg_state (history (exec_graph validate_graph) cs g) = ACTIVE \<and>
     \<not> valid_graph (history (exec_graph validate_graph) cs g)"
proof -
  obtain g where g: "create 99 (EntityId ''t'') ''g'' [] 3600 0 = Inr g"
    by (simp add: create_def strip_g)
  then have eq: "history (exec_graph validate_graph) cyclic_edit g =
      history (exec_graph validate_graph) cyclic_edit (projr (create 99 (EntityId ''t'') ''g'' [] 3600 0))" by simp
  have "tg_state (history (exec_graph validate_graph) cyclic_edit (projr (create 99 (EntityId ''t'') ''g'' [] 3600 0))) = ACTIVE"
    and "validate_graph (history (exec_graph validate_graph) cyclic_edit (projr (create 99 (EntityId ''t'') ''g'' [] 3600 0))) \<noteq> []"
    by code_simp+
  then show ?thesis using g eq validate_graph_iff by metis
qed

end
