(* ===== verification/Order_Resolver.thy ===== *)
theory Order_Resolver
  imports Graph_Validator
begin

text \<open>
  \<open>ExecutionOrderResolver\<close> (\<open>taskgraph/domain/services/execution_order_resolver.py\<close>), with the
  breadth-first search \<open>_reachable_from\<close>, and \<open>RollbackPlanComputer\<close>
  (\<open>taskgraph/domain/services/rollback_plan_computer.py\<close>).
\<close>

section \<open>The operations\<close>

text \<open>The queue loop of \<open>_reachable_from\<close>. A turn either drops a visited node or marks a node, whose
  successor list then no longer counts: the measure is the queue plus the lists still to append.\<close>

definition pending_successors :: "('k, 'k list) dict \<Rightarrow> 'k set \<Rightarrow> nat" where
  "pending_successors succ visited = sum_list (map (\<lambda>(k, ts). if k \<in> visited then 0 else length ts) succ)"

lemma pending_insert:
  "n \<notin> visited \<Longrightarrow> pending_successors succ (insert n visited) + length (dict_get succ n []) \<le> pending_successors succ visited"
proof (induction succ)
  case (Cons kv succ)
  obtain k ts where kv: "kv = (k, ts)" by fastforce
  have mono: "pending_successors succ (insert n visited) \<le> pending_successors succ visited"
    unfolding pending_successors_def by (rule sum_list_mono) auto
  show ?case
    using Cons mono by (cases "k = n") (auto simp: kv pending_successors_def dict_get_def)
qed (simp add: pending_successors_def dict_get_def)

function reachable_loop :: "('k, 'k list) dict \<Rightarrow> 'k set \<Rightarrow> 'k list \<Rightarrow> 'k set" where
  "reachable_loop succ visited [] = visited"
| "reachable_loop succ visited (node # queue) =
     (if node \<in> visited then reachable_loop succ visited queue
      else let visited' = insert node visited
           in reachable_loop succ visited' (queue @ filter (\<lambda>s. s \<notin> visited') (dict_get succ node [])))"
  by pat_completeness auto
termination
proof (relation "measure (\<lambda>(succ, visited, queue). pending_successors succ visited + length queue)")
  fix succ :: "('k, 'k list) dict" and visited visited' :: "'k set" and node queue
  assume "node \<notin> visited" and "visited' = insert node visited"
  moreover have "pending_successors succ (insert node visited) + length (filter P (dict_get succ node []))
      \<le> pending_successors succ visited" for P
    by (rule order_trans [OF add_left_mono [OF length_filter_le] pending_insert [OF \<open>node \<notin> visited\<close>]])
  ultimately show "((succ, visited', queue @ filter (\<lambda>s. s \<notin> visited') (dict_get succ node [])), succ, visited, node # queue)
      \<in> measure (\<lambda>(succ, visited, queue). pending_successors succ visited + length queue)"
    by (simp add: le_imp_less_Suc)
qed simp_all

definition reachable_from :: "'k \<Rightarrow> ('k, 'k list) dict \<Rightarrow> 'k set" where
  "reachable_from start successors = reachable_loop successors {} [start]"

text \<open>The source also fills a \<open>group_map\<close> of the tasks of each group, which nothing reads.\<close>

definition resolve :: "TaskGraph \<Rightarrow> uuid option \<Rightarrow> uuid list list" where
  "resolve graph start_task_id =
     (if task_ids graph = [] then []
      else let (in_degree, successors) = degree_maps (task_ids graph) (dependency_pairs (tg_dependencies graph));
               current_layer = zero_keys in_degree;
               current_layer' = (case start_task_id of None \<Rightarrow> current_layer
                 | Some start \<Rightarrow>
                     if map_of in_degree start = None then current_layer
                     else filter (\<lambda>tid. tid \<in> insert start (reachable_from start successors)) current_layer)
           in layer_loop (\<lambda>n. dict_get successors n []) in_degree current_layer')"

definition predecessors_of :: "TaskGraph \<Rightarrow> uuid \<Rightarrow> uuid set" where
  "predecessors_of graph tid = set (map fst (filter (\<lambda>(p, s). s = tid)
     (known_edges (task_ids graph) (dependency_pairs (tg_dependencies graph)))))"

definition get_ready_tasks :: "TaskGraph \<Rightarrow> uuid set \<Rightarrow> uuid set \<Rightarrow> uuid list" where
  "get_ready_tasks graph completed_task_ids skipped_task_ids =
     (let done = completed_task_ids \<union> skipped_task_ids
      in filter (\<lambda>tid. tid \<notin> done \<and> predecessors_of graph tid \<subseteq> done) (task_ids graph))"

text \<open>\<open>RollbackPlanComputer.compute\<close>.\<close>

definition compute_rollback_plan :: "uuid list \<Rightarrow> uuid set \<Rightarrow> uuid list" where
  "compute_rollback_plan completed_task_ids_in_order rollback_eligible =
     filter (\<lambda>t. t \<in> rollback_eligible) (rev completed_task_ids_in_order)"

section \<open>Reachability\<close>

lemma reachable_loop_sound:
  "\<lbrakk>\<And>n t. t \<in> set (dict_get succ n []) \<Longrightarrow> (n, t) \<in> E; \<forall>v \<in> visited \<union> set queue. (s, v) \<in> E\<^sup>*\<rbrakk>
   \<Longrightarrow> \<forall>v \<in> reachable_loop succ visited queue. (s, v) \<in> E\<^sup>*"
proof (induction succ visited queue rule: reachable_loop.induct)
  case (2 succ visited node queue)
  show ?case
  proof (cases "node \<in> visited")
    case True
    with 2 show ?thesis by simp
  next
    case False
    have "(s, t) \<in> E\<^sup>*" if "t \<in> set (dict_get succ node [])" for t
      using 2(3) [OF that] 2(4) by (meson UnI2 list.set_intros(1) rtrancl.rtrancl_into_rtrancl)
    then have "\<forall>v \<in> insert node visited \<union> set (queue @ filter (\<lambda>s. s \<notin> insert node visited) (dict_get succ node [])). (s, v) \<in> E\<^sup>*"
      using 2(4) by auto
    from 2(2) [OF False refl 2(3) this] False show ?thesis by (simp add: Let_def)
  qed
qed simp

lemma reachable_loop_closed:
  "\<lbrakk>\<And>v t. v \<in> visited \<Longrightarrow> t \<in> set (dict_get succ v []) \<Longrightarrow> t \<in> visited \<union> set queue\<rbrakk>
   \<Longrightarrow> visited \<union> set queue \<subseteq> reachable_loop succ visited queue \<and>
     (\<forall>v \<in> reachable_loop succ visited queue. set (dict_get succ v []) \<subseteq> reachable_loop succ visited queue)"
proof (induction succ visited queue rule: reachable_loop.induct)
  case (2 succ visited node queue)
  show ?case
  proof (cases "node \<in> visited")
    case True
    have "\<And>v t. v \<in> visited \<Longrightarrow> t \<in> set (dict_get succ v []) \<Longrightarrow> t \<in> visited \<union> set queue"
      using 2(3) True by auto
    then show ?thesis using 2(1) [OF True] True by auto
  next
    case False
    define visited' where "visited' = insert node visited"
    define queue' where "queue' = queue @ filter (\<lambda>s. s \<notin> visited') (dict_get succ node [])"
    have "\<And>v t. v \<in> visited' \<Longrightarrow> t \<in> set (dict_get succ v []) \<Longrightarrow> t \<in> visited' \<union> set queue'"
      using 2(3) by (auto simp: visited'_def queue'_def)
    from 2(2) [OF False visited'_def this [unfolded queue'_def]] False show ?thesis
      by (auto simp: Let_def visited'_def)
  qed
qed auto

lemma reachable_from_rtrancl:
  assumes "\<And>n t. t \<in> set (dict_get succ n []) \<longleftrightarrow> (n, t) \<in> E"
  shows "reachable_from s succ = {t. (s, t) \<in> E\<^sup>*}"
proof -
  let ?R = "reachable_loop succ {} [s]"
  have "\<forall>v \<in> ?R. (s, v) \<in> E\<^sup>*" by (rule reachable_loop_sound) (auto simp: assms)
  moreover have s: "s \<in> ?R" and cl: "\<forall>v \<in> ?R. set (dict_get succ v []) \<subseteq> ?R"
    using reachable_loop_closed [of "{}" succ "[s]"] by auto
  moreover have "t \<in> ?R" if "(s, t) \<in> E\<^sup>*" for t
    using that by (induction rule: rtrancl_induct) (use s cl assms in blast)+
  ultimately show ?thesis by (auto simp: reachable_from_def)
qed

section \<open>Ready tasks\<close>

lemma predecessors_of_iff: "p \<in> predecessors_of g t \<longleftrightarrow> (p, t) \<in> set (task_edges g)"
  by (force simp: predecessors_of_def task_edges_def)

lemma ready_iff:
  "t \<in> set (get_ready_tasks g C S) \<longleftrightarrow>
     t \<in> set (task_ids g) \<and> t \<notin> C \<union> S \<and> (\<forall>p. (p, t) \<in> set (task_edges g) \<longrightarrow> p \<in> C \<union> S)"
  by (auto simp: get_ready_tasks_def Let_def predecessors_of_iff subset_iff)

text \<open>The scheduler is never stuck on a valid graph: as long as some task is neither completed
  nor skipped, some task is ready; and every ready task is unfinished with all its predecessors
  finished.\<close>

theorem ready_tasks_progress:
  assumes "valid_graph g" and "\<not> set (task_ids g) \<subseteq> C \<union> S"
  shows "get_ready_tasks g C S \<noteq> [] \<and>
    (\<forall>t \<in> set (get_ready_tasks g C S). t \<in> set (task_ids g) - (C \<union> S) \<and>
      (\<forall>d \<in> set (tg_dependencies g). td_successor_id d = t \<longrightarrow> td_predecessor_id d \<in> C \<union> S))"
proof -
  have "wf (set (task_edges g))"
    using assms(1) by (simp add: valid_graph_def finite_acyclic_wf)
  moreover have "set (task_ids g) - (C \<union> S) \<noteq> {}" using assms(2) by blast
  ultimately obtain t where t: "t \<in> set (task_ids g) - (C \<union> S)"
    and min: "\<And>p. (p, t) \<in> set (task_edges g) \<Longrightarrow> p \<notin> set (task_ids g) - (C \<union> S)"
    by (metis ex_in_conv wfE_min)
  then have "t \<in> set (get_ready_tasks g C S)"
    using task_digraph.edge_ends [of _ t g] by (auto simp: ready_iff)
  moreover have "(td_predecessor_id d, td_successor_id d) \<in> set (task_edges g)" if "d \<in> set (tg_dependencies g)" for d
    using assms(1) that by (auto simp: valid_graph_def task_edges_def known_edges_def dependency_pairs_def)
  ultimately show ?thesis by (fastforce simp: ready_iff)
qed

section \<open>Layers\<close>

lemma resolve_layers:
  assumes "ls = resolve g None"
  obtains deg where "task_digraph.initial g deg" "ls = layer_loop (out_edges (task_edges g)) deg (zero_keys deg)"
proof -
  obtain deg succ where d: "degree_maps (task_ids g) (dependency_pairs (tg_dependencies g)) = (deg, succ)"
    by fastforce
  note init = degree_maps_initial [OF d, simplified]
  have "deg = []" if "task_ids g = []"
    using init(1) that set_graph_keys [of g] unfolding task_digraph.initial_def by (metis map_is_Nil_conv set_empty)
  then have "ls = layer_loop (out_edges (task_edges g)) deg (zero_keys deg)"
    using assms d init(2) by (cases "task_ids g = []") (simp_all add: resolve_def zero_keys_def)
  with init(1) that show thesis by blast
qed

lemma resolve_order:
  assumes "valid_graph g" and ls: "ls = resolve g None"
  shows "distinct (concat ls) \<and> set (concat ls) = set (task_ids g) \<and> [] \<notin> set ls \<and>
    (\<forall>i < length ls. \<forall>t \<in> set (ls ! i). \<forall>p. (p, t) \<in> set (task_edges g) \<longrightarrow> p \<in> set (concat (take i ls))) \<and>
    (\<forall>i. Suc i < length ls \<longrightarrow> (\<forall>t \<in> set (ls ! Suc i). \<exists>p \<in> set (ls ! i). (p, t) \<in> set (task_edges g)))"
proof -
  obtain deg where init: "task_digraph.initial g deg"
    and l: "ls = layer_loop (out_edges (task_edges g)) deg (zero_keys deg)"
    using resolve_layers [OF ls] by blast
  note wl = task_digraph.worklist_initial [OF init]
  define vs where "vs = visit_order (out_edges (task_edges g)) deg (zero_keys deg)"
  have c: "concat ls = vs" by (simp add: l vs_def concat_layer_loop)
  note spec = task_digraph.visit_order_spec [OF wl vs_def]
  have "length vs = length (graph_keys g)"
    using task_digraph.visits_all_iff_acyclic [OF init vs_def] assms(1) by (simp add: valid_graph_def)
  then have "set vs = set (task_ids g)"
    using spec by (metis List.finite_set card_subset_eq distinct_card distinct_graph_keys set_graph_keys)
  with spec c have "distinct (concat ls)" "set (concat ls) = set (task_ids g)" by simp_all
  then show ?thesis
    using task_digraph.layer_loop_spec [OF wl l] layer_loop_nonempty l by simp
qed

lemma dependency_edge:
  "valid_graph g \<Longrightarrow> d \<in> set (tg_dependencies g) \<Longrightarrow> (td_predecessor_id d, td_successor_id d) \<in> set (task_edges g)"
  by (auto simp: valid_graph_def task_edges_def known_edges_def dependency_pairs_def)

text \<open>C7: on a valid graph the execution order lists every task exactly once, no layer is empty, and
  every dependency leads from an earlier layer to a later one.\<close>

theorem resolve_topological:
  assumes "valid_graph g"
  shows "distinct (concat (resolve g None)) \<and> set (concat (resolve g None)) = set (task_ids g) \<and>
    [] \<notin> set (resolve g None) \<and>
    (\<forall>d \<in> set (tg_dependencies g). \<forall>i < length (resolve g None). td_successor_id d \<in> set (resolve g None ! i) \<longrightarrow>
       (\<exists>j < i. td_predecessor_id d \<in> set (resolve g None ! j)))"
proof -
  define ls where "ls = resolve g None"
  note spec = resolve_order [OF assms ls_def]
  have "\<exists>j < i. td_predecessor_id d \<in> set (ls ! j)"
    if "d \<in> set (tg_dependencies g)" "i < length ls" "td_successor_id d \<in> set (ls ! i)" for d i
  proof -
    have "td_predecessor_id d \<in> set (concat (take i ls))"
      using spec that dependency_edge [OF assms that(1)] by blast
    then show ?thesis using that(2) by (auto simp: in_set_conv_nth [of _ "take i ls"]) blast
  qed
  with spec show ?thesis unfolding ls_def by blast
qed

lemma layer_unique:
  assumes "distinct (concat ls)" "i < length ls" "t \<in> set (ls ! i)"
  shows "t \<notin> set (concat (take i ls))"
proof -
  have "concat ls = concat (take i ls) @ ls ! i @ concat (drop (Suc i) ls)"
    using assms(2) by (metis append_take_drop_id concat_append Cons_nth_drop_Suc concat.simps(2))
  with assms show ?thesis by auto
qed

lemma concat_take_mono: "j \<le> i \<Longrightarrow> set (concat (take j ls)) \<subseteq> set (concat (take i ls))"
  by (auto dest: subsetD [OF set_take_subset_set_take])

text \<open>C38: the layers are the rounds of the run-time scheduler: when exactly the earlier layers are
  finished, the ready tasks are the tasks of the next layer.\<close>

theorem resolve_layers_are_ready_sets:
  assumes "valid_graph g" and "i < length (resolve g None)" and "C \<union> S = set (concat (take i (resolve g None)))"
  shows "set (get_ready_tasks g C S) = set (resolve g None ! i)"
proof -
  define ls where "ls = resolve g None"
  note spec = resolve_order [OF assms(1) ls_def]
  have i: "i < length ls" and dn: "C \<union> S = set (concat (take i ls))" using assms(2,3) by (simp_all add: ls_def)
  have dist: "distinct (concat ls)"
    and cover: "\<And>k t. Suc k < length ls \<Longrightarrow> t \<in> set (ls ! Suc k) \<Longrightarrow> \<exists>p \<in> set (ls ! k). (p, t) \<in> set (task_edges g)"
    using spec by simp_all
  have fwd: "t \<in> set (get_ready_tasks g C S)" if "t \<in> set (ls ! i)" for t
  proof -
    have "t \<in> set (concat ls)" using that i by (auto intro: nth_mem)
    then show ?thesis using spec that i layer_unique [of ls i t] unfolding ready_iff dn by blast
  qed
  have "t \<in> set (ls ! i)" if t: "t \<in> set (get_ready_tasks g C S)" for t
  proof -
    have "t \<in> set (concat ls)" using spec t by (simp add: ready_iff)
    then obtain j where j: "j < length ls" "t \<in> set (ls ! j)" by (auto simp: in_set_conv_nth [of _ ls])
    have "\<not> j < i"
    proof
      assume "j < i"
      then have "ls ! j \<in> set (take i ls)" using j(1) by (auto simp: in_set_conv_nth)
      then show False using t j(2) unfolding ready_iff dn by auto
    qed
    moreover have "\<not> i < j"
    proof
      assume "i < j"
      then obtain k where k: "j = Suc k" "i \<le> k" by (cases j) auto
      then obtain p where p: "p \<in> set (ls ! k)" "(p, t) \<in> set (task_edges g)"
        using cover [of k t] j by auto
      have "k < length ls" using j k by simp
      then have "p \<notin> set (concat (take k ls))" using layer_unique [OF dist] p(1) by blast
      moreover have "p \<in> set (concat (take i ls))" using t p(2) unfolding ready_iff dn by blast
      ultimately show False using concat_take_mono [OF k(2), of ls] by blast
    qed
    ultimately show ?thesis using j by (simp add: nat_neq_iff)
  qed
  with fwd show ?thesis unfolding ls_def by blast
qed

section \<open>Starting in the middle\<close>

text \<open>Resolving from a start task that has a predecessor gives the empty order, whatever is
  reachable from it: the first layer is drawn from the tasks without predecessors, and on a valid graph
  none of them is reachable from such a start task.\<close>

theorem resolve_from_inner_task_is_empty:
  assumes "valid_graph g" and "d \<in> set (tg_dependencies g)" and "s = td_successor_id d"
  shows "resolve g (Some s) = []"
proof -
  obtain deg succ where m: "degree_maps (task_ids g) (dependency_pairs (tg_dependencies g)) = (deg, succ)"
    by fastforce
  note init = degree_maps_initial [OF m, simplified]
  have edge: "(td_predecessor_id d, s) \<in> set (task_edges g)" using dependency_edge assms by metis
  have reach: "reachable_from s succ = {t. (s, t) \<in> (set (task_edges g))\<^sup>*}"
    by (rule reachable_from_rtrancl) (metis init(2) in_out_edges)
  have "t \<notin> insert s (reachable_from s succ)" if "t \<in> set (zero_keys deg)" for t
  proof
    assume "t \<in> insert s (reachable_from s succ)"
    then have "(s, t) \<in> (set (task_edges g))\<^sup>*" using reach by auto
    then have "\<exists>p. (p, t) \<in> set (task_edges g)" using edge by (metis rtranclE)
    moreover have "\<forall>p. (p, t) \<notin> set (task_edges g)"
      using that task_digraph.set_zero_keys(1) [OF init(1)] by (auto simp: open_in_eq_0)
    ultimately show False by blast
  qed
  then have "filter (\<lambda>t. t \<in> insert s (reachable_from s succ)) (zero_keys deg) = []"
    by (auto simp: filter_empty_conv)
  moreover have "s \<in> set (task_ids g)" using task_digraph.edge_ends [OF edge] by simp
  then have "map_of deg s \<noteq> None" using init(1) by (simp add: task_digraph.initial_def)
  ultimately show ?thesis by (auto simp: resolve_def m Let_def)
qed

section \<open>Witnesses\<close>

abbreviation fork :: TaskGraph where
  "fork \<equiv> sample_graph [1, 2, 3] [(1, 2), (1, 3)] DRAFT"

lemma fork_valid: "valid_graph fork"
  using sample_validates validate_graph_iff by blast

theorem ready_tasks_progress_witness: "get_ready_tasks fork {1} {} \<noteq> []"
proof -
  have "\<not> set (task_ids fork) \<subseteq> {1} \<union> {}" by (simp add: sample_graph_def task_ids_def sample_task_def)
  from ready_tasks_progress [OF fork_valid this] show ?thesis by blast
qed

theorem resolve_topological_witness: "set (concat (resolve fork None)) = {1, 2, 3} \<and> distinct (concat (resolve fork None))"
  using resolve_topological [OF fork_valid] by (simp add: sample_graph_def task_ids_def sample_task_def)

theorem resolve_layers_are_ready_sets_witness: "set (get_ready_tasks fork {1} {}) = {2, 3}"
proof -
  have r: "resolve fork None = [[1], [2, 3]]" by code_simp
  show ?thesis using resolve_layers_are_ready_sets [OF fork_valid, of 1 "{1}" "{}"] by (simp add: r)
qed

theorem resolve_from_inner_task_is_empty_witness: "resolve fork (Some 2) = []"
  by (rule resolve_from_inner_task_is_empty [OF fork_valid, of "tg_dependencies fork ! 0"])
    (simp_all add: sample_graph_def)

end
