(* ===== verification/Use_Case.thy ===== *)
theory Use_Case
  imports Prelude
begin

text \<open>
  What the application services share: their exceptions (\<open>application/exceptions.py\<close>, the same in every context but for the
  authorization error of \<open>execution\<close>), the steps a use case is built from, transactions and a calculus of triples.

  A use case is a function from the world to an outcome: it returns or raises, in both cases with the world it leaves.
\<close>

section \<open>Exceptions\<close>

datatype ApplicationException =
    ApplicationValidationError string string
  | ApplicationNotFoundError string string
  | ApplicationConflictError string
  | ApplicationAuthorizationError string "string option"

text \<open>What can leave a use case: an application exception, an exception of the domain (of type \<open>'d\<close>), a Python error, or an error of a
  collaborator outside the context, of type \<open>'x\<close>.\<close>

datatype ('d, 'x) use_case_error = ApplicationFailure ApplicationException | DomainFailure 'd | PythonFailure PyError | ExternalFailure 'x

section \<open>Steps\<close>

definition give :: "'a \<Rightarrow> 's \<Rightarrow> ('e, 'a, 's) outcome" where
  "give a s = Return a s"

definition throw :: "'e \<Rightarrow> 's \<Rightarrow> ('e, 'a, 's) outcome" where
  "throw e s = Raise e s"

definition and_then :: "('s \<Rightarrow> ('e, 'a, 's) outcome) \<Rightarrow> ('a \<Rightarrow> 's \<Rightarrow> ('e, 'b, 's) outcome) \<Rightarrow> 's \<Rightarrow> ('e, 'b, 's) outcome" where
  "and_then m f s = (case m s of Raise e t \<Rightarrow> Raise e t | Return a t \<Rightarrow> f a t)"

text \<open>A value that may be an error, and a call on an aggregate the use case holds.\<close>

definition attempt :: "('e \<Rightarrow> 'f) \<Rightarrow> 'e + 'a \<Rightarrow> 's \<Rightarrow> ('f, 'a, 's) outcome" where
  "attempt err v s = (case v of Inl e \<Rightarrow> Raise (err e) s | Inr a \<Rightarrow> Return a s)"

definition on_aggregate :: "('e \<Rightarrow> 'f) \<Rightarrow> ('e, 'a, 'g) outcome \<Rightarrow> 's \<Rightarrow> ('f, 'g, 's) outcome" where
  "on_aggregate err r s = (case r of Raise e _ \<Rightarrow> Raise (err e) s | Return _ g \<Rightarrow> Return g s)"

text \<open>\<open>if x is None: raise\<close>, and a step on one part of the world.\<close>

definition found_or :: "'e \<Rightarrow> 'a option \<Rightarrow> 's \<Rightarrow> ('e, 'a, 's) outcome" where
  "found_or e r = (case r of Some a \<Rightarrow> give a | None \<Rightarrow> throw e)"

definition on_part :: "('s \<Rightarrow> 'v) \<Rightarrow> ('v \<Rightarrow> 's \<Rightarrow> 's) \<Rightarrow> ('e \<Rightarrow> 'f) \<Rightarrow> ('v \<Rightarrow> ('e, 'a, 'v) outcome) \<Rightarrow> 's \<Rightarrow> ('f, 'a, 's) outcome" where
  "on_part get put err m s =
     (case m (get s) of Raise e v \<Rightarrow> Raise (err e) (put v s) | Return a v \<Rightarrow> Return a (put v s))"

section \<open>Python values\<close>

text \<open>\<open>repr\<close> of a text and the error of an enumeration's constructor.\<close>

definition repr_char :: "char \<Rightarrow> char \<Rightarrow> string" where
  "repr_char quote c = (let n = (of_char c :: nat) in
     if c = quote \<or> n = 92 then [CHR 0x5C, c]
     else if n = 10 then CHR 0x5C # ''n''
     else if n = 13 then CHR 0x5C # ''r''
     else if n = 9 then CHR 0x5C # ''t''
     else if n < 32 \<or> 127 \<le> n \<and> n \<le> 160 \<or> n = 173 then CHR 0x5C # ''x'' @ hex_fixed 2 (int n)
     else [c])"

definition py_repr :: "string \<Rightarrow> string" where
  "py_repr s = (let quote = (if CHR 0x27 \<in> set s \<and> CHR 0x22 \<notin> set s then CHR 0x22 else CHR 0x27)
     in quote # concat (map (repr_char quote) s) @ [quote])"

definition enum_of :: "string \<Rightarrow> ('a \<Rightarrow> string) \<Rightarrow> 'a list \<Rightarrow> string \<Rightarrow> PyError + 'a" where
  "enum_of class value members v =
     (case find (\<lambda>m. value m = v) members of
        Some m \<Rightarrow> Inr m
      | None \<Rightarrow> Inl (ValueError (py_repr v @ '' is not a valid '' @ class)))"

section \<open>Triples\<close>

text \<open>\<open>triple P m Q R\<close>: started where \<open>P\<close> holds, \<open>m\<close> returns with \<open>Q\<close> or raises with \<open>R\<close>.\<close>

definition triple :: "('s \<Rightarrow> bool) \<Rightarrow> ('s \<Rightarrow> ('e, 'a, 's) outcome) \<Rightarrow> ('a \<Rightarrow> 's \<Rightarrow> bool) \<Rightarrow> ('e \<Rightarrow> 's \<Rightarrow> bool) \<Rightarrow> bool" where
  "triple P m Q R \<longleftrightarrow> (\<forall>s. P s \<longrightarrow> (case m s of Return a t \<Rightarrow> Q a t | Raise e t \<Rightarrow> R e t))"

named_theorems triple_intros

lemma triple_return: "triple P m Q R \<Longrightarrow> P s \<Longrightarrow> m s = Return a t \<Longrightarrow> Q a t"
  by (auto simp: triple_def split: outcome.splits)

lemma triple_raise: "triple P m Q R \<Longrightarrow> P s \<Longrightarrow> m s = Raise e t \<Longrightarrow> R e t"
  by (auto simp: triple_def split: outcome.splits)

lemma triple_weaken:
  "triple P m Q R \<Longrightarrow> (\<And>s. P' s \<Longrightarrow> P s) \<Longrightarrow> (\<And>a s. Q a s \<Longrightarrow> Q' a s) \<Longrightarrow> (\<And>e s. R e s \<Longrightarrow> R' e s) \<Longrightarrow> triple P' m Q' R'"
  by (fastforce simp: triple_def split: outcome.splits)

lemma triple_pre: "(\<And>s. P s \<Longrightarrow> A) \<Longrightarrow> (A \<Longrightarrow> triple P m Q R) \<Longrightarrow> triple P m Q R"
  by (fastforce simp: triple_def)

lemma triple_and_then [triple_intros]:
  "triple P m M R \<Longrightarrow> (\<And>a. triple (M a) (f a) Q R) \<Longrightarrow> triple P (and_then m f) Q R"
  by (fastforce simp: triple_def and_then_def split: outcome.splits)

lemma triple_give: "(\<And>s. P s \<Longrightarrow> Q a s) \<Longrightarrow> triple P (give a) Q R"
  by (simp add: triple_def give_def)

lemma triple_throw: "(\<And>s. P s \<Longrightarrow> R e s) \<Longrightarrow> triple P (throw e) Q R"
  by (simp add: triple_def throw_def)

lemma triple_attempt:
  "(\<And>a s. v = Inr a \<Longrightarrow> P s \<Longrightarrow> Q a s) \<Longrightarrow> (\<And>e s. v = Inl e \<Longrightarrow> P s \<Longrightarrow> R (err e) s) \<Longrightarrow> triple P (attempt err v) Q R"
  by (simp add: triple_def attempt_def split: sum.splits)

lemma triple_on_aggregate:
  "(\<And>a g s. r = Return a g \<Longrightarrow> P s \<Longrightarrow> Q g s) \<Longrightarrow> (\<And>e g s. r = Raise e g \<Longrightarrow> P s \<Longrightarrow> R (err e) s) \<Longrightarrow>
   triple P (on_aggregate err r) Q R"
  by (simp add: triple_def on_aggregate_def split: outcome.splits)

lemma triple_on_part:
  "(\<And>a v s. m (get s) = Return a v \<Longrightarrow> P s \<Longrightarrow> Q a (put v s)) \<Longrightarrow> (\<And>e v s. m (get s) = Raise e v \<Longrightarrow> P s \<Longrightarrow> R (err e) (put v s)) \<Longrightarrow>
   triple P (on_part get put err m) Q R"
  by (simp add: triple_def on_part_def split: outcome.splits)

lemma triple_found_or:
  "(\<And>a s. r = Some a \<Longrightarrow> P s \<Longrightarrow> Q a s) \<Longrightarrow> (\<And>s. r = None \<Longrightarrow> P s \<Longrightarrow> R e s) \<Longrightarrow> triple P (found_or e r) Q R"
  by (simp add: triple_def found_or_def give_def throw_def split: option.splits)

lemma triple_if: "(c \<Longrightarrow> triple P m Q R) \<Longrightarrow> (\<not> c \<Longrightarrow> triple P n Q R) \<Longrightarrow> triple P (if c then m else n) Q R"
  by simp

lemma triple_case_option:
  "(r = None \<Longrightarrow> triple P m Q R) \<Longrightarrow> (\<And>a. r = Some a \<Longrightarrow> triple P (f a) Q R) \<Longrightarrow>
   triple P (case r of None \<Rightarrow> m | Some a \<Rightarrow> f a) Q R"
  by (cases r) simp_all

lemma triple_ignore_result: "triple P m (\<lambda>_. Q) R \<Longrightarrow> triple P (ignore_result m) (\<lambda>_. Q) R"
  by (fastforce simp: triple_def ignore_result_def split: outcome.splits)

text \<open>Pure facts and existentials of a precondition.\<close>

lemma triple_pure: "(A \<Longrightarrow> triple P m Q R) \<Longrightarrow> triple (\<lambda>w. P w \<and> A) m Q R"
  by (auto simp: triple_def)

lemma triple_ex: "(\<And>x. triple (P x) m Q R) \<Longrightarrow> triple (\<lambda>w. \<exists>x. P x w) m Q R"
  by (auto simp: triple_def)

lemma triple_weaken_pre: "triple P m Q R \<Longrightarrow> (\<And>w. P' w \<Longrightarrow> P w) \<Longrightarrow> triple P' m Q R"
  by (auto simp: triple_def)

lemma triple_final: "triple P m (\<lambda>_. Q) (\<lambda>_. Q) \<Longrightarrow> P s \<Longrightarrow> Q (final (m s))"
  by (cases "m s") (fastforce simp: triple_def)+

lemma triple_finalI:
  assumes "\<And>s. P s \<Longrightarrow> Q (final (m s))" and "\<And>s. Q s \<Longrightarrow> R s"
  shows "triple P m (\<lambda>_. Q) (\<lambda>_. R)"
  unfolding triple_def
proof (intro allI impI)
  fix s
  assume "P s"
  then have "Q (final (m s))" by (rule assms(1))
  then show "case m s of Return a t \<Rightarrow> Q t | Raise e t \<Rightarrow> R t" by (cases "m s") (simp_all add: assms(2))
qed

section \<open>Transactions\<close>

text \<open>\<open>tx_db\<close> is the committed database, \<open>tx_session\<close> what the open unit of work sees; leaving the unit of work drops what was not
  committed. \<open>tx_ports\<close> is the state of the collaborators that take no part in the transaction, \<open>tx_published\<close> the batches of events
  handed to the publisher, whose failures the services swallow.\<close>

record ('s, 'p, 'v) transaction =
  tx_db :: 's
  tx_session :: 's
  tx_ports :: 'p
  tx_published :: "'v list list"

type_synonym ('s, 'p, 'v, 'd, 'x, 'a) transacted =
  "('s, 'p, 'v) transaction \<Rightarrow> (('d, 'x) use_case_error, 'a, ('s, 'p, 'v) transaction) outcome"

definition within_uow :: "('s, 'p, 'v, 'd, 'x, 'a) transacted \<Rightarrow> ('s, 'p, 'v, 'd, 'x, 'a) transacted" where
  "within_uow body w =
     (case body (w\<lparr>tx_session := tx_db w\<rparr>) of
        Raise e w' \<Rightarrow> Raise e (w'\<lparr>tx_session := tx_db w'\<rparr>)
      | Return a w' \<Rightarrow> Return a (w'\<lparr>tx_session := tx_db w'\<rparr>))"

definition read_session :: "('s \<Rightarrow> ('d, 'x) use_case_error + 'a) \<Rightarrow> ('s, 'p, 'v, 'd, 'x, 'a) transacted" where
  "read_session query w = attempt (\<lambda>e. e) (query (tx_session w)) w"

definition write_session ::
  "('s \<Rightarrow> (('d, 'x) use_case_error, 'a, 's) outcome) \<Rightarrow> ('s, 'p, 'v, 'd, 'x, 'a) transacted" where
  "write_session f = on_part tx_session (\<lambda>d w. w\<lparr>tx_session := d\<rparr>) (\<lambda>e. e) f"

definition commit_session :: "('s \<Rightarrow> 'x + 's) \<Rightarrow> ('s, 'p, 'v, 'd, 'x, unit) transacted" where
  "commit_session f w =
     (case f (tx_session w) of
        Inl e \<Rightarrow> Raise (ExternalFailure e) w
      | Inr d \<Rightarrow> Return () (w\<lparr>tx_db := d, tx_session := d\<rparr>))"

definition on_ports :: "('p \<Rightarrow> ('x, 'a, 'p) outcome) \<Rightarrow> ('s, 'p, 'v, 'd, 'x, 'a) transacted" where
  "on_ports f = on_part tx_ports (\<lambda>p w. w\<lparr>tx_ports := p\<rparr>) ExternalFailure f"

text \<open>\<open>_publish_all\<close> returns early where there is nothing to publish.\<close>

definition publish_all :: "'v list \<Rightarrow> ('s, 'p, 'v, 'd, 'x, unit) transacted" where
  "publish_all events w = (if events = [] then Return () w else Return () (w\<lparr>tx_published := tx_published w @ [events]\<rparr>))"

text \<open>What the committed database is after a step.\<close>

lemma and_then_db:
  "(\<And>a w. tx_db (final (f a w)) = tx_db w) \<Longrightarrow> tx_db (final (and_then m f w)) = tx_db (final (m w))"
  by (simp add: and_then_def split: outcome.splits)

lemma within_uow_db: "tx_db (final (within_uow m w)) = tx_db (final (m (w\<lparr>tx_session := tx_db w\<rparr>)))"
  by (simp add: within_uow_def split: outcome.splits)

lemma quiet_steps:
  "tx_db (final (attempt err v w)) = tx_db w" "tx_db (final (give a w)) = tx_db w" "tx_db (final (publish_all evs w)) = tx_db w"
  "tx_db (final (on_ports p w)) = tx_db w" "tx_db (final (found_or e r w)) = tx_db w" "tx_db (final (read_session q w)) = tx_db w"
  "tx_db (final (on_aggregate err r' w)) = tx_db w" "tx_db (final (throw e w)) = tx_db w"
  by (simp_all add: attempt_def give_def publish_all_def on_ports_def on_part_def found_or_def read_session_def on_aggregate_def throw_def
    split: sum.splits outcome.splits option.splits)

lemma ignore_result_final: "final (ignore_result m w) = final (m w)"
  by (simp add: ignore_result_def split: outcome.splits)

text \<open>Units of work in triples: \<open>opened d\<close> is the start of one on the database \<open>d\<close>, \<open>untouched d\<close> what an exception before the commit leaves.\<close>

abbreviation opened :: "'s \<Rightarrow> ('s, 'p, 'v) transaction \<Rightarrow> bool" where
  "opened d w \<equiv> tx_db w = d \<and> tx_session w = d"

abbreviation untouched :: "'s \<Rightarrow> 'e \<Rightarrow> ('s, 'p, 'v) transaction \<Rightarrow> bool" where
  "untouched d e w \<equiv> tx_db w = d"

lemma uow_triple:
  assumes "triple (opened d) body (\<lambda>a w. Q a (tx_db w)) (\<lambda>_ w. R (tx_db w))"
  shows "triple (\<lambda>w. tx_db w = d) (within_uow body) (\<lambda>a w. Q a (tx_db w)) (\<lambda>_ w. R (tx_db w))"
  unfolding triple_def
proof (intro allI impI)
  fix s :: "('a, 'b, 'c) transaction"
  assume "tx_db s = d"
  then have o: "opened d (s\<lparr>tx_session := tx_db s\<rparr>)" by simp
  show "case within_uow body s of Return a t \<Rightarrow> Q a (tx_db t) | Raise e t \<Rightarrow> R (tx_db t)"
    using triple_return [OF assms o] triple_raise [OF assms o] by (simp add: within_uow_def split: outcome.splits)
qed

lemma read_triple: "triple (opened d) (read_session q) (\<lambda>r w. opened d w \<and> q d = Inr r) (untouched d)"
  by (auto simp: triple_def read_session_def attempt_def split: sum.splits outcome.splits)

lemma ports_triple: "triple (opened d) (on_ports f) (\<lambda>_. opened d) (untouched d)"
  by (auto simp: triple_def on_ports_def on_part_def split: outcome.splits)

lemma aggregate_triple: "triple (opened d) (on_aggregate DomainFailure r) (\<lambda>y w. opened d w \<and> (\<exists>u. r = Return u y)) (untouched d)"
  by (rule triple_on_aggregate) auto

lemma write_triple:
  "triple (\<lambda>w. tx_db w = d \<and> tx_session w = d1) (write_session f) (\<lambda>u w. tx_db w = d \<and> f d1 = Return u (tx_session w)) (untouched d)"
  by (auto simp: triple_def write_session_def on_part_def split: outcome.splits)

lemma commit_triple:
  "triple (\<lambda>w. tx_db w = d \<and> tx_session w = d1) (commit_session f) (\<lambda>_ w. f d1 = Inr (tx_db w)) (untouched d)"
  by (auto simp: triple_def commit_session_def split: sum.splits)

text \<open>A change of the database followed by steps that leave it alone.\<close>

lemma then_quiet:
  assumes "triple P m (\<lambda>_ w. Q (tx_db w)) (\<lambda>_ w. Q (tx_db w))" and "\<And>a w. tx_db (final (f a w)) = tx_db w"
  shows "triple P (and_then m f) (\<lambda>_ w. Q (tx_db w)) (\<lambda>_ w. Q (tx_db w))"
  by (rule triple_and_then [OF assms(1)]) (rule triple_finalI, simp_all add: assms(2))

lemma attempt_triple:
  "(\<And>a. v = Inr a \<Longrightarrow> triple P (f a) Q R) \<Longrightarrow> (\<And>e w. P w \<Longrightarrow> R e w) \<Longrightarrow> triple P (and_then (attempt err v) f) Q R"
  by (cases v) (simp_all add: triple_def and_then_def attempt_def)

end
