(* ===== verification/Campaign_Services.thy ===== *)
theory Campaign_Services
  imports Campaign_Execution Safety_Monitor Order_Resolver Use_Case
begin

text \<open>
  The domain services of the \<open>campaignexecution\<close> context
  (\<open>campaignexecution/domain/services\<close>): conditional branches, the pause coordinator, rollback and the
  dispatch to the execution plane. The port that creates operations in the other context is an argument.
  The theorems tie them to the task graph: every predicate the authoring side can store is understood at
  run time, and the run-time rollback plan is the one of \<open>RollbackPlanComputer\<close>.
\<close>

section \<open>Branch resolution\<close>

definition evaluate_predicate :: "string \<Rightarrow> TaskOutcome \<Rightarrow> string option \<Rightarrow> ObjectiveStateMap \<Rightarrow> bool" where
  "evaluate_predicate predicate outcome objective_ref objective_states =
     (if predicate = ''AlwaysExecute'' then True
      else if predicate = ''ExecuteOnSuccess'' then outcome \<in> {SUCCESS, PARTIAL_SUCCESS}
      else if predicate = ''ExecuteOnFailure'' then outcome \<in> {FAILURE, TaskOutcome.TIMED_OUT}
      else if predicate = ''ExecuteIfObjectiveMet'' then
        (case objective_ref of None \<Rightarrow> False | Some ref \<Rightarrow>
           if ref = [] then False else objective_get objective_states ref = Some ''Achieved'')
      else if predicate = ''ExecuteIfObjectiveFailed'' then
        (case objective_ref of None \<Rightarrow> False | Some ref \<Rightarrow>
           if ref = [] then False else objective_get objective_states ref \<in> {Some ''Failed'', Some ''Inconclusive''})
      else if predicate = ''ExecuteIfDetectionFired'' then True
      else if predicate = ''ExecuteIfDetectionSilent'' then True
      else True)"

definition resolve_step ::
  "TaskOutcome \<Rightarrow> ObjectiveStateMap \<Rightarrow> uuid \<times> string \<times> string option \<Rightarrow> uuid list \<times> uuid list \<Rightarrow> uuid list \<times> uuid list" where
  "resolve_step outcome objective_states = (\<lambda>(succ_id, predicate, objective_ref) (ready, skipped).
     if evaluate_predicate predicate outcome objective_ref objective_states
     then (ready @ [succ_id], skipped) else (ready, skipped @ [succ_id]))"

definition resolve_branches ::
  "uuid \<Rightarrow> TaskOutcome \<Rightarrow> (uuid \<times> string \<times> string option) list \<Rightarrow> ObjectiveStateMap \<Rightarrow> uuid list \<times> uuid list" where
  "resolve_branches completed_task_id outcome successors objective_states =
     fold (resolve_step outcome objective_states) successors ([], [])"

section \<open>Pause coordinator\<close>

definition handle_safety_breach :: "EntityId \<Rightarrow> string \<Rightarrow> string \<Rightarrow> datetime \<Rightarrow> exec_step" where
  "handle_safety_breach tenant_id breach_type details now = steps [
     breach_safety_policy tenant_id breach_type details now,
     if_else (\<lambda>x. ex_state x = ExecutionState.RUNNING)
       [pause tenant_id (''Safety breach: '' @ breach_type) now] []]"

definition handle_human_approval_gate :: "EntityId \<Rightarrow> PendingApprovalGate \<Rightarrow> datetime \<Rightarrow> exec_step" where
  "handle_human_approval_gate tenant_id pending_gate now = reach_human_approval_gate tenant_id pending_gate now"

definition handle_kill_switch_triggered :: "EntityId \<Rightarrow> datetime \<Rightarrow> exec_step" where
  "handle_kill_switch_triggered tenant_id now =
     if_else (\<lambda>x. ex_state x = ExecutionState.RUNNING) [pause tenant_id ''M29 kill switch triggered'' now] []"

section \<open>Rollback\<close>

text \<open>The sort key \<open>completed_at or dispatched_at or task_id.value\<close>: an instant (always true) or a UUID.
  Python compares no instant with a UUID, so a list with both raises \<open>TypeError\<close>.\<close>

definition rollback_key :: "TaskExecutionRecord \<Rightarrow> datetime option" where
  "rollback_key r = (case tr_completed_at r of Some t \<Rightarrow> Some t | None \<Rightarrow> tr_dispatched_at r)"

definition sort_completed :: "TaskExecutionRecord list \<Rightarrow> PyError + TaskExecutionRecord list" where
  "sort_completed rs =
     (if \<forall>r \<in> set rs. rollback_key r \<noteq> None then Inr (sort_key (\<lambda>r. the (rollback_key r)) rs)
      else if \<forall>r \<in> set rs. rollback_key r = None then Inr (sort_key tr_task_id rs)
      else Inl (TypeError ''not supported between instances of 'UUID' and 'datetime.datetime' ''))"

definition compute_rollback_plan :: "TaskGraphExecution \<Rightarrow> uuid list \<Rightarrow> PyError + TaskExecutionRecord list" where
  "compute_rollback_plan execution rollback_eligible_task_ids =
     (case sort_completed (filter (\<lambda>r. tr_state r = TaskExecutionState.COMPLETED) (ex_task_records execution)) of
        Inl e \<Rightarrow> Inl e
      | Inr completed_ordered \<Rightarrow>
          let ordered_ids = filter (\<lambda>i. i \<in> set rollback_eligible_task_ids) (map tr_task_id (rev completed_ordered));
              by_id = fold (\<lambda>r d. dict_set (tr_task_id r) r d) completed_ordered []
          in Inr (List.map_filter (map_of by_id) ordered_ids))"

section \<open>Dispatch\<close>

record TaskDispatchRequest =
  dr_campaign_instance_id :: string
  dr_task_id :: string
  dr_technique_id :: string
  dr_technique_name :: string
  dr_parameters :: "(string, string) dict"
  dr_engagement_id :: string
  dr_tenant_id :: string

text \<open>\<open>port.create_operation\<close> is an argument: it returns a reference or raises, and may have a state of its own.\<close>

definition dispatch ::
  "EntityId \<Rightarrow> uuid \<Rightarrow> uuid \<Rightarrow> string \<Rightarrow> string \<Rightarrow> (string, string) dict \<Rightarrow> EngagementRef \<Rightarrow> (TaskDispatchRequest \<Rightarrow> 'r) \<Rightarrow> 'r" where
  "dispatch tenant_id campaign_instance_id task_id technique_id technique_name parameters engagement_ref port =
     port \<lparr>dr_campaign_instance_id = uuid_str campaign_instance_id, dr_task_id = uuid_str task_id,
       dr_technique_id = technique_id, dr_technique_name = technique_name, dr_parameters = parameters,
       dr_engagement_id = uuid_str (en_engagement_id engagement_ref), dr_tenant_id = entity_str tenant_id\<rparr>"

text \<open>\<open>execute_rollback_step\<close> changes the execution it is given; the caller keeps it only where no exception leaves the step. \<open>err\<close> embeds the
  exceptions of the aggregate in those of the caller.\<close>

definition execute_rollback_step ::
  "(CampaignExecutionDomainException \<Rightarrow> 'e) \<Rightarrow> TaskGraphExecution \<Rightarrow> EntityId \<Rightarrow> uuid \<Rightarrow> string \<Rightarrow> string \<Rightarrow> (string, string) dict
    \<Rightarrow> (TaskDispatchRequest \<Rightarrow> 's \<Rightarrow> ('e, OperationRef, 's) outcome) \<Rightarrow> datetime \<Rightarrow> 's \<Rightarrow> ('e, TaskGraphExecution, 's) outcome" where
  "execute_rollback_step err execution tenant_id task_id technique_id technique_name parameters port now =
     and_then (dispatch tenant_id (ci_instance_id (ex_campaign_instance_ref execution)) task_id technique_id technique_name
       (dict_set ''_rollback'' ''true'' parameters) (ex_engagement_ref execution) port) (\<lambda>operation_ref.
     on_aggregate err (record_task_rolled_back tenant_id task_id operation_ref now execution))"

section \<open>Branches agree with the authored predicates\<close>

text \<open>What each predicate means, by constructor.\<close>

primrec predicate_holds :: "DependencyPredicate \<Rightarrow> TaskOutcome \<Rightarrow> string option \<Rightarrow> ObjectiveStateMap \<Rightarrow> bool" where
  "predicate_holds ALWAYS_EXECUTE out ref m \<longleftrightarrow> True"
| "predicate_holds EXECUTE_ON_SUCCESS out ref m \<longleftrightarrow> out = SUCCESS \<or> out = PARTIAL_SUCCESS"
| "predicate_holds EXECUTE_ON_FAILURE out ref m \<longleftrightarrow> out = FAILURE \<or> out = TaskOutcome.TIMED_OUT"
| "predicate_holds EXECUTE_IF_OBJECTIVE_MET out ref m \<longleftrightarrow>
     (\<exists>ob. ref = Some ob \<and> ob \<noteq> [] \<and> map_of m ob = Some ''Achieved'')"
| "predicate_holds EXECUTE_IF_OBJECTIVE_FAILED out ref m \<longleftrightarrow>
     (\<exists>ob. ref = Some ob \<and> ob \<noteq> [] \<and> (map_of m ob = Some ''Failed'' \<or> map_of m ob = Some ''Inconclusive''))"
| "predicate_holds EXECUTE_IF_DETECTION_FIRED out ref m \<longleftrightarrow> True"
| "predicate_holds EXECUTE_IF_DETECTION_SILENT out ref m \<longleftrightarrow> True"

lemma evaluate_predicate_value:
  "evaluate_predicate (DependencyPredicate_value p) out ref m = predicate_holds p out ref m"
  by (cases p) (auto simp: evaluate_predicate_def objective_get_def split: option.splits)

lemma resolve_fold:
  "fold (resolve_step out m) succs (r, s) =
     (r @ map fst (filter (\<lambda>(i, p, ref). evaluate_predicate p out ref m) succs),
      s @ map fst (filter (\<lambda>(i, p, ref). \<not> evaluate_predicate p out ref m) succs))"
  by (induction succs arbitrary: r s) (auto simp: resolve_step_def)

text \<open>Given successors with predicates as the task graph stores them, branch resolution makes ready
  exactly those whose predicate holds and skips exactly the others, both in the order of the successors;
  no stored predicate falls through to the default.\<close>

theorem branch_resolution_correct:
  "resolve_branches i out (map (\<lambda>(s, p, ref). (s, DependencyPredicate_value p, ref)) succs) m =
     (map fst (filter (\<lambda>(s, p, ref). predicate_holds p out ref m) succs),
      map fst (filter (\<lambda>(s, p, ref). \<not> predicate_holds p out ref m) succs))"
proof -
  have "map fst (filter (\<lambda>(i, p, ref). P p ref) (map (\<lambda>(s, p, ref). (s, f p, ref)) succs)) =
      map fst (filter (\<lambda>(s, p, ref). P (f p) ref) succs)" for P :: "string \<Rightarrow> string option \<Rightarrow> bool" and f :: "DependencyPredicate \<Rightarrow> string"
    by (induction succs) auto
  then show ?thesis
    unfolding resolve_branches_def resolve_fold by (simp add: evaluate_predicate_value)
qed

section \<open>The rollback plan\<close>

definition completed_records :: "TaskGraphExecution \<Rightarrow> TaskExecutionRecord list" where
  "completed_records x = filter (\<lambda>r. tr_state r = TaskExecutionState.COMPLETED) (ex_task_records x)"

definition completion :: "TaskExecutionRecord \<Rightarrow> datetime" where
  "completion r = the (tr_completed_at r)"

definition completion_order :: "TaskGraphExecution \<Rightarrow> TaskExecutionRecord list" where
  "completion_order x = sort_key completion (completed_records x)"

lemma filter_by_index:
  assumes "\<And>r. r \<in> set rs \<Longrightarrow> f (k r) = Some r"
  shows "List.map_filter f (filter P (map k rs)) = filter (\<lambda>r. P (k r)) rs"
  using assms by (induction rs) (auto simp: map_filter_simps)

lemma sort_key_eq: "(\<And>x. x \<in> set xs \<Longrightarrow> f x = g x) \<Longrightarrow> sort_key f xs = sort_key g xs"
proof (induction xs)
  case (Cons x xs)
  have "insort_key f x ys = insort_key g x ys" if "\<And>y. y \<in> insert x (set ys) \<Longrightarrow> f y = g y" for ys
    using that by (induction ys) auto
  from this [of "sort_key g xs"] Cons show ?case by simp
qed simp

lemma sort_completed_dated:
  assumes "\<forall>r \<in> set (ex_task_records x). dated r"
  shows "sort_completed (completed_records x) = Inr (completion_order x)"
proof -
  have key: "rollback_key r = Some (completion r)" if "r \<in> set (completed_records x)" for r
    using assms that by (auto simp: completed_records_def dated_def rollback_key_def completion_def)
  then have "sort_key (\<lambda>r. the (rollback_key r)) (completed_records x) = sort_key completion (completed_records x)"
    by (intro sort_key_eq) simp
  with key show ?thesis by (auto simp: sort_completed_def completion_order_def)
qed

lemma rollback_plan_eq:
  assumes "\<forall>r \<in> set (ex_task_records x). dated r" and "distinct (record_ids x)"
  shows "compute_rollback_plan x el = Inr (filter (\<lambda>r. tr_task_id r \<in> set el) (rev (completion_order x)))"
proof -
  have "distinct (map tr_task_id (completed_records x))"
    using assms(2) by (simp add: completed_records_def distinct_map_filter)
  then have "distinct (map tr_task_id (completion_order x))"
    by (metis completion_order_def distinct_map distinct_sort set_sort)
  then have "map_of (fold (\<lambda>r d. dict_set (tr_task_id r) r d) (completion_order x) []) (tr_task_id r) = Some r"
    if "r \<in> set (rev (completion_order x))" for r
    using map_of_dict_index [of tr_task_id "completion_order x" r] that by simp
  note index = filter_by_index [where k = tr_task_id and rs = "rev (completion_order x)", OF this]
  show ?thesis
    using sort_completed_dated [OF assms(1)] index
    by (simp add: compute_rollback_plan_def completed_records_def)
qed

lemma history_record_ids: "record_ids (history exec cs x) = record_ids x"
  using identity.history_records [of x cs]
  by (auto simp: list_all2_conv_all_nth record_le_def intro!: nth_equalityI)

text \<open>C40: for every execution that started with distinct tasks, after any calls, the rollback plan is
  computed without a type error, holds exactly the completed tasks that are eligible, lists them from the
  latest completion to the earliest, and is the plan \<open>RollbackPlanComputer\<close> gives for the tasks in their
  order of completion.\<close>

theorem rollback_plan_correct:
  assumes "distinct (map snd ids)" and "x = history exec cs (initialize i t ci gv en ps ids now)"
  shows "\<exists>plan. compute_rollback_plan x el = Inr plan \<and>
    set plan = {r \<in> set (ex_task_records x). tr_state r = TaskExecutionState.COMPLETED \<and> tr_task_id r \<in> set el} \<and>
    sorted (map completion (rev plan)) \<and>
    map tr_task_id plan = Order_Resolver.compute_rollback_plan (map tr_task_id (completion_order x)) (set el)"
proof -
  have "record_ids (initialize i t ci gv en ps ids now) = map snd ids"
    by (auto simp: initialize_def Campaign_Data.emit_def assign_def)
  then have "distinct (record_ids x)" using assms history_record_ids by simp
  moreover have "\<forall>r \<in> set (ex_task_records x). dated r" using completed_records_dated assms(2) by blast
  ultimately have "compute_rollback_plan x el = Inr (filter (\<lambda>r. tr_task_id r \<in> set el) (rev (completion_order x)))"
    by (rule rollback_plan_eq [rotated])
  moreover have "sorted (map completion (rev (filter (\<lambda>r. tr_task_id r \<in> set el) (rev (completion_order x)))))"
    by (simp add: rev_filter completion_order_def sorted_filter)
  moreover have "map tr_task_id (filter (\<lambda>r. tr_task_id r \<in> set el) (rev (completion_order x))) =
      Order_Resolver.compute_rollback_plan (map tr_task_id (completion_order x)) (set el)"
    by (simp add: Order_Resolver.compute_rollback_plan_def rev_map filter_map comp_def)
  ultimately show ?thesis
    by (intro exI [of _ "filter (\<lambda>r. tr_task_id r \<in> set el) (rev (completion_order x))"])
      (auto simp: completion_order_def completed_records_def)
qed

section \<open>Pausing\<close>

text \<open>A safety breach always queues the breach event and pauses an execution exactly when it is
  running; it never raises for the execution's own tenant.\<close>

theorem safety_breach_pauses:
  "\<exists>y. handle_safety_breach (ex_tenant_id x) breach details now x = Return () y \<and>
     ex_state y = (if ex_state x = ExecutionState.RUNNING then PAUSED else ex_state x) \<and>
     map ev_payload (ex_pending_events y) = map ev_payload (ex_pending_events x) @ [SafetyPolicyBreached breach details True] \<and>
     ex_task_records y = ex_task_records x"
  by (simp add: handle_safety_breach_def breach_safety_policy_def pause_def exec_eval Campaign_Data.emit_def
    Campaign_Data.assert_tenant_def)

text \<open>The kill switch does not stop an execution that waits for an approval: it stays waiting, and
  an approval granted after the kill switch has fired sets it running.\<close>

theorem kill_switch_leaves_waiting_execution:
  assumes "ex_state x = WAITING_FOR_APPROVAL" and "ex_pending_approval_gate x = Some g"
    and "find_record (pg_task_id g) x = Some r"
  shows "\<exists>y z. handle_kill_switch_triggered (ex_tenant_id x) now x = Return () y \<and>
    grant_human_approval (ex_tenant_id x) who later y = Return () z \<and> ex_state z = ExecutionState.RUNNING"
  using assms
  by (simp add: handle_kill_switch_triggered_def if_else_def grant_human_approval_def assert_tenant_own exec_eval find_record_def)

section \<open>Witnesses\<close>

theorem kill_switch_leaves_waiting_execution_witness:
  "\<exists>y z. handle_kill_switch_triggered (EntityId ''t'') 20 waiting_execution = Return () y \<and>
     grant_human_approval (EntityId ''t'') ''bob'' 30 y = Return () z \<and> ex_state z = ExecutionState.RUNNING"
proof -
  obtain r where r: "find_record (pg_task_id sample_gate) waiting_execution = Some r"
    using waiting_facts(3) by (auto simp: sample_gate_def)
  from kill_switch_leaves_waiting_execution [OF waiting_facts(1,2) r] show ?thesis by (simp add: waiting_facts(4))
qed

theorem rollback_plan_correct_witness:
  "\<exists>plan. compute_rollback_plan (history exec [Mark_Running 1, Record_Task_Completion (EntityId ''t'') 1 SUCCESS 5 [] [],
       Record_Task_Completion (EntityId ''t'') 2 SUCCESS 6 [] []] sample_execution) [1, 2] = Inr plan \<and>
     sorted (map completion (rev plan))"
proof -
  have "distinct (map snd [(101, 1), (102, 2)] :: uuid list)" by simp
  from rollback_plan_correct [OF this refl] show ?thesis unfolding sample_execution_def by blast
qed

end
