(* ===== verification/Tables.thy ===== *)
theory Tables
  imports Use_Case "HOL-Library.Multiset"
begin

text \<open>
  What the PostgreSQL repositories of the contexts use of the database: a table is an argument, a record of what SELECT, INSERT, UPDATE
  and DELETE do, with the laws that the code relies on (\<open>table_laws\<close>); the reading of JSON columns; constructors that may raise.
\<close>

section \<open>Tables\<close>

record ('r, 't) table =
  tb_select :: "('r \<Rightarrow> bool) \<Rightarrow> 't \<Rightarrow> 'r list"
  tb_add :: "'r \<Rightarrow> 't \<Rightarrow> 't"
  tb_update :: "('r \<Rightarrow> bool) \<Rightarrow> ('r \<Rightarrow> 'r) \<Rightarrow> 't \<Rightarrow> nat \<times> 't"
  tb_delete :: "('r \<Rightarrow> bool) \<Rightarrow> 't \<Rightarrow> 't"

text \<open>SELECT answers with the rows that satisfy the condition, in some order; INSERT adds a row; UPDATE changes the rows that satisfy
  the condition and counts them; DELETE removes them.\<close>

definition rows :: "('r, 't) table \<Rightarrow> 't \<Rightarrow> 'r multiset" where
  "rows tb t = mset (tb_select tb (\<lambda>_. True) t)"

definition table_laws :: "('r, 't) table \<Rightarrow> bool" where
  "table_laws tb \<longleftrightarrow>
     (\<forall>p t. mset (tb_select tb p t) = filter_mset p (rows tb t)) \<and>
     (\<forall>r t. rows tb (tb_add tb r t) = add_mset r (rows tb t)) \<and>
     (\<forall>p f t. fst (tb_update tb p f t) = size (filter_mset p (rows tb t)) \<and>
        rows tb (snd (tb_update tb p f t)) = image_mset (\<lambda>r. if p r then f r else r) (rows tb t)) \<and>
     (\<forall>p t. rows tb (tb_delete tb p t) = filter_mset (\<lambda>r. \<not> p r) (rows tb t))"

text \<open>\<open>session.get\<close> and \<open>scalar_one_or_none\<close>.\<close>

definition session_get :: "('r, 't) table \<Rightarrow> ('r \<Rightarrow> bool) \<Rightarrow> 't \<Rightarrow> 'r option" where
  "session_get tb key t = (case tb_select tb key t of [] \<Rightarrow> None | r # _ \<Rightarrow> Some r)"

definition scalar_one_or_none :: "'x \<Rightarrow> 'r list \<Rightarrow> 'x + 'r option" where
  "scalar_one_or_none multiple rs =
     (case rs of [] \<Rightarrow> Inr None | [r] \<Rightarrow> Inr (Some r) | _ \<Rightarrow> Inl multiple)"

text \<open>Sequences of constructors that may raise.\<close>

definition sum_bind :: "'e + 'a \<Rightarrow> ('a \<Rightarrow> 'e + 'b) \<Rightarrow> 'e + 'b" where
  "sum_bind v f = (case v of Inl e \<Rightarrow> Inl e | Inr a \<Rightarrow> f a)"

definition if_some :: "'a option \<Rightarrow> ('a \<Rightarrow> 'e + 'b) \<Rightarrow> 'e + 'b option" where
  "if_some x f = (case x of None \<Rightarrow> Inr None | Some a \<Rightarrow> sum_bind (f a) (\<lambda>b. Inr (Some b)))"

fun sum_map :: "('a \<Rightarrow> 'e + 'b) \<Rightarrow> 'a list \<Rightarrow> 'e + 'b list" where
  "sum_map f [] = Inr []"
| "sum_map f (x # xs) = sum_bind (f x) (\<lambda>y. sum_bind (sum_map f xs) (\<lambda>ys. Inr (y # ys)))"

text \<open>An empty or missing text counts as false.\<close>

definition truthy :: "string option \<Rightarrow> bool" where
  "truthy s \<longleftrightarrow> s \<noteq> None \<and> s \<noteq> Some []"

definition when_truthy :: "string option \<Rightarrow> (string \<Rightarrow> 'e + 'b) \<Rightarrow> 'e + 'b option" where
  "when_truthy x f = (if truthy x then if_some x f else Inr None)"

text \<open>An INSERT under a primary key.\<close>

definition insert_row :: "('r, 't) table \<Rightarrow> ('r \<Rightarrow> 'k) \<Rightarrow> 'x \<Rightarrow> 'r \<Rightarrow> 't \<Rightarrow> 'x + 't" where
  "insert_row tb key integrity_error r t =
     (if tb_select tb (\<lambda>m. key m = key r) t = [] then Inr (tb_add tb r t) else Inl integrity_error)"

fun insert_all :: "('r, 't) table \<Rightarrow> ('r \<Rightarrow> 'k) \<Rightarrow> 'x \<Rightarrow> 'r list \<Rightarrow> 't \<Rightarrow> 'x + 't" where
  "insert_all tb key integrity_error [] t = Inr t"
| "insert_all tb key integrity_error (r # rs) t =
     sum_bind (insert_row tb key integrity_error r t) (insert_all tb key integrity_error rs)"

section \<open>JSON columns\<close>

text \<open>Reading a JSON value: \<open>repr\<close>, truth, and an enumeration built from it.\<close>

fun json_repr :: "json \<Rightarrow> string" where
  "json_repr JNull = ''None''"
| "json_repr (JBool b) = (if b then ''True'' else ''False'')"
| "json_repr (JInt i) = str_int i"
| "json_repr (JStr s) = py_repr s"
| "json_repr (JList xs) = ''['' @ join '', '' (map json_repr xs) @ '']''"
| "json_repr (JObject kvs) = CHR 0x7B # join '', '' (map (\<lambda>(k, v). py_repr k @ '': '' @ json_repr v) kvs) @ [CHR 0x7D]"

fun json_truth :: "json \<Rightarrow> bool" where
  "json_truth JNull = False"
| "json_truth (JBool b) = b"
| "json_truth (JInt i) = (i \<noteq> 0)"
| "json_truth (JStr s) = (s \<noteq> [])"
| "json_truth (JList xs) = (xs \<noteq> [])"
| "json_truth (JObject kvs) = (kvs \<noteq> [])"

definition json_enum :: "string \<Rightarrow> ('a \<Rightarrow> string) \<Rightarrow> 'a list \<Rightarrow> json \<Rightarrow> PyError + 'a" where
  "json_enum class value members v =
     (case v of JStr s \<Rightarrow> enum_of class value members s | _ \<Rightarrow> Inl (ValueError (json_repr v @ '' is not a valid '' @ class)))"

definition json_key :: "(string \<times> json) list \<Rightarrow> string \<Rightarrow> PyError + json" where
  "json_key kvs key = (case map_of kvs key of None \<Rightarrow> Inl (KeyError key) | Some v \<Rightarrow> Inr v)"

definition json_str :: "json \<Rightarrow> string" where
  "json_str v = (case v of JStr s \<Rightarrow> s | _ \<Rightarrow> json_repr v)"

text \<open>What a JSON column keeps of a value: an object may come back with its keys in another order.\<close>

inductive json_same :: "json \<Rightarrow> json \<Rightarrow> bool" where
  json_same_refl: "json_same v v"
| json_same_list: "list_all2 json_same xs ys \<Longrightarrow> json_same (JList xs) (JList ys)"
| json_same_object: "(\<forall>k. rel_option json_same (map_of xs k) (map_of ys k)) \<Longrightarrow> json_same (JObject xs) (JObject ys)"

definition json_scalar :: "json \<Rightarrow> bool" where
  "json_scalar v = (case v of JList _ \<Rightarrow> False | JObject _ \<Rightarrow> False | _ \<Rightarrow> True)"

inductive_cases json_same_objectE: "json_same (JObject xs) v"

lemma json_same_scalar: "json_scalar v \<Longrightarrow> json_same v w \<longleftrightarrow> w = v"
  by (auto simp: json_scalar_def intro: json_same_refl elim: json_same.cases)

lemma json_same_keys:
  assumes "json_same (JObject xs) (JObject ys)"
  shows "rel_option json_same (map_of xs k) (map_of ys k)"
  using assms by (rule json_same_objectE) (auto intro: option.rel_refl json_same_refl)

lemma json_same_flat:
  assumes "json_same (JObject xs) (JObject ys)" and "\<forall>(k, v) \<in> set xs. json_scalar v"
  shows "map_of ys = map_of xs"
proof
  fix k
  have "rel_option json_same (map_of xs k) (map_of ys k)" by (rule json_same_keys [OF assms(1)])
  then show "map_of ys k = map_of xs k"
    using assms(2) map_of_SomeD [of xs k] by (fastforce simp: json_same_scalar option_rel_Some1 elim: option.rel_cases)
qed

section \<open>Laws of constructors\<close>

lemma json_same_get: "json_same (JObject xs) (JObject ys) \<Longrightarrow> map_of xs k = Some v \<Longrightarrow> json_scalar v \<Longrightarrow> map_of ys k = Some v"
  using json_same_keys [of xs ys k] by (auto simp: option_rel_Some1 json_same_scalar)

lemma json_same_get_object:
  "json_same (JObject xs) (JObject ys) \<Longrightarrow> map_of xs k = Some (JObject ps) \<Longrightarrow> \<exists>qs. map_of ys k = Some (JObject qs) \<and> json_same (JObject ps) (JObject qs)"
  using json_same_keys [of xs ys k] by (auto simp: option_rel_Some1 elim: json_same_objectE intro: json_same.intros)

lemma sum_bind_simps [simp]: "sum_bind (Inr a) f = f a" "sum_bind (Inl e) f = Inl e"
  by (simp_all add: sum_bind_def)

lemma sum_bind_Inr: "sum_bind v f = Inr b \<longleftrightarrow> (\<exists>a. v = Inr a \<and> f a = Inr b)"
  by (cases v) simp_all

lemma if_some_simps [simp]: "if_some None f = Inr None" "if_some (Some a) f = sum_bind (f a) (\<lambda>b. Inr (Some b))"
  by (simp_all add: if_some_def)

lemma sum_map_Inr: "sum_map f xs = Inr ys \<longleftrightarrow> list_all2 (\<lambda>x y. f x = Inr y) xs ys"
  by (induction xs arbitrary: ys) (auto simp: sum_bind_Inr list_all2_Cons1)

section \<open>Laws of tables\<close>

lemma table_select: "table_laws tb \<Longrightarrow> mset (tb_select tb p t) = filter_mset p (rows tb t)"
  by (simp add: table_laws_def)

lemma table_add: "table_laws tb \<Longrightarrow> rows tb (tb_add tb r t) = add_mset r (rows tb t)"
  by (simp add: table_laws_def)

lemma table_update:
  "table_laws tb \<Longrightarrow> tb_update tb p f t = (n, t') \<Longrightarrow> n = size (filter_mset p (rows tb t)) \<and>
     rows tb t' = image_mset (\<lambda>r. if p r then f r else r) (rows tb t)"
  unfolding table_laws_def by (metis fst_conv snd_conv)

lemma table_delete: "table_laws tb \<Longrightarrow> rows tb (tb_delete tb p t) = filter_mset (\<lambda>r. \<not> p r) (rows tb t)"
  by (simp add: table_laws_def)

lemma select_set: "table_laws tb \<Longrightarrow> set (tb_select tb p t) = {r \<in> set_mset (rows tb t). p r}"
  by (metis table_select set_mset_filter set_mset_mset)

lemma session_get_Some: "table_laws tb \<Longrightarrow> session_get tb p t = Some r \<Longrightarrow> r \<in># rows tb t \<and> p r"
  using select_set [of tb p t] by (auto simp: session_get_def split: list.splits)

lemma session_get_None: "table_laws tb \<Longrightarrow> session_get tb p t = None \<Longrightarrow> r \<in># rows tb t \<Longrightarrow> \<not> p r"
  using select_set [of tb p t] by (auto simp: session_get_def split: list.splits)

lemma scalar_Some: "scalar_one_or_none x rs = Inr (Some r) \<longleftrightarrow> rs = [r]"
  by (auto simp: scalar_one_or_none_def split: list.splits)

lemma scalar_None: "scalar_one_or_none x rs = Inr None \<longleftrightarrow> rs = []"
  by (auto simp: scalar_one_or_none_def split: list.splits)

lemma filter_mset_eq_empty: "filter_mset p M = {#} \<longleftrightarrow> (\<forall>r \<in># M. \<not> p r)"
  by (auto simp: set_mset_eq_empty_iff [symmetric])

lemma update_none:
  "table_laws tb \<Longrightarrow> tb_update tb p f t = (0, t') \<Longrightarrow> rows tb t' = rows tb t"
proof -
  assume laws: "table_laws tb" and upd: "tb_update tb p f t = (0, t')"
  from table_update [OF laws upd] have "filter_mset p (rows tb t) = {#}" and r: "rows tb t' = image_mset (\<lambda>r. if p r then f r else r) (rows tb t)"
    by simp_all
  then have "\<forall>r \<in># rows tb t. \<not> p r" by (metis filter_mset_eq_empty)
  then show ?thesis unfolding r by (subst image_mset_cong [where g = "\<lambda>r. r"]) simp_all
qed

lemma held_none:
  assumes "table_laws tb" and "image_mset f (filter_mset p (rows tb t)) = {#}"
  shows "tb_select tb p t = [] \<and> filter_mset p (rows tb t) = {#}"
proof -
  have "filter_mset p (rows tb t) = {#}" using assms(2) by (simp only: image_mset_is_empty_iff)
  with table_select [OF assms(1), of p t] show ?thesis by (metis mset_zero_iff)
qed

lemma held_one:
  assumes "table_laws tb" and "image_mset f (filter_mset p (rows tb t)) = {#n#}"
  obtains r where "tb_select tb p t = [r]" "filter_mset p (rows tb t) = {#r#}" "f r = n"
proof -
  from msed_map_invR [OF assms(2)] obtain r where "filter_mset p (rows tb t) = {#r#}" "f r = n" by auto
  with table_select [OF assms(1), of p t] show ?thesis using that by (metis mset_single_iff)
qed

lemma no_row_updated:
  assumes "table_laws tb" and "filter_mset p (rows tb t) = {#r#}" and "f r \<noteq> n"
  shows "\<exists>t'. tb_update tb (\<lambda>m. p m \<and> f m = n) g t = (0, t')"
proof -
  obtain c t' where u: "tb_update tb (\<lambda>m. p m \<and> f m = n) g t = (c, t')" by (cases "tb_update tb (\<lambda>m. p m \<and> f m = n) g t")
  have "filter_mset (\<lambda>m. p m \<and> f m = n) (rows tb t) = filter_mset (\<lambda>m. f m = n) {#r#}"
    unfolding assms(2) [symmetric] by (simp add: filter_filter_mset conj_commute)
  with table_update [OF assms(1) u] u assms(3) show ?thesis by simp
qed

lemma select_nil: "table_laws tb \<Longrightarrow> tb_select tb p t = [] \<longleftrightarrow> (\<forall>r \<in># rows tb t. \<not> p r)"
  using select_set [of tb p t] by (cases "tb_select tb p t") auto

text \<open>A column without duplicates.\<close>

definition unique_key :: "('r \<Rightarrow> 'k) \<Rightarrow> 'r multiset \<Rightarrow> bool" where
  "unique_key f M \<longleftrightarrow> (\<forall>i. size {#m \<in># M. f m = i#} \<le> 1)"

lemma unique_key_eq:
  assumes "unique_key f M" and "a \<in># M" and "b \<in># M" and "f a = f b"
  shows "a = b"
proof (rule ccontr)
  assume "a \<noteq> b"
  with assms(2,3) obtain N where "M = add_mset a (add_mset b N)" by (metis insert_DiffM insert_noteq_member)
  with assms(4) have "size {#m \<in># M. f m = f a#} \<ge> 2" by simp
  with assms(1) show False unfolding unique_key_def by (metis One_nat_def Suc_1 not_less_eq_eq)
qed

lemma unique_key_add:
  assumes "unique_key f M" and "\<forall>m \<in># M. f m \<noteq> f r"
  shows "unique_key f (add_mset r M)"
  unfolding unique_key_def
proof
  fix i
  have "{#m \<in># M. f m = f r#} = {#}" using assms(2) by (simp add: filter_mset_eq_empty)
  then show "size {#m \<in># add_mset r M. f m = i#} \<le> 1" using assms(1) by (cases "f r = i") (auto simp: unique_key_def)
qed

lemma unique_key_image: "(\<And>m. m \<in># M \<Longrightarrow> f (g m) = f m) \<Longrightarrow> unique_key f (image_mset g M) \<longleftrightarrow> unique_key f M"
proof -
  assume g: "\<And>m. m \<in># M \<Longrightarrow> f (g m) = f m"
  have "{#m \<in># image_mset g M. f m = i#} = image_mset g {#m \<in># M. f m = i#}" for i
    by (simp add: filter_mset_image_mset g cong: filter_mset_cong)
  then show ?thesis by (simp add: unique_key_def)
qed

lemma unique_select:
  assumes "table_laws tb" and "unique_key f (rows tb t)" and "\<And>m. p m \<Longrightarrow> f m = k"
  shows "tb_select tb p t = [] \<or> (\<exists>m. tb_select tb p t = [m] \<and> m \<in># rows tb t \<and> p m)"
proof -
  have "filter_mset p (rows tb t) \<subseteq># {#m \<in># rows tb t. f m = k#}" by (rule filter_mset_mono_strong) (simp_all add: assms(3))
  then have "size (filter_mset p (rows tb t)) \<le> 1" using assms(2) size_mset_mono unfolding unique_key_def by (metis le_trans)
  then have "length (tb_select tb p t) \<le> 1" by (metis assms(1) size_mset table_select)
  then have "tb_select tb p t = [] \<or> (\<exists>m. tb_select tb p t = [m])" by (cases "tb_select tb p t") auto
  then show ?thesis using select_set [OF assms(1), of p t] by auto
qed

lemma unique_row:
  assumes "table_laws tb" and "unique_key f (rows tb t)" and "r \<in># rows tb t" and "p r" and "\<And>m. p m \<Longrightarrow> f m = k"
  shows "tb_select tb p t = [r]" and "filter_mset p (rows tb t) = {#r#}" and "\<And>m. m \<in># rows tb t \<Longrightarrow> p m \<longleftrightarrow> m = r"
proof -
  show same: "p m \<longleftrightarrow> m = r" if "m \<in># rows tb t" for m
  proof
    assume "p m"
    then have "f m = f r" using assms(4,5) by simp
    then show "m = r" by (rule unique_key_eq [OF assms(2) that assms(3)])
  qed (use assms(4) in simp)
  have sel: "tb_select tb p t = [] \<or> (\<exists>m. tb_select tb p t = [m] \<and> m \<in># rows tb t \<and> p m)"
    by (rule unique_select [OF assms(1,2)]) (rule assms(5))
  have "tb_select tb p t \<noteq> []" using assms(3,4) by (auto simp: select_nil [OF assms(1)])
  with sel same show one: "tb_select tb p t = [r]" by blast
  show "filter_mset p (rows tb t) = {#r#}" using table_select [OF assms(1), of p t] one by simp
qed

lemma unique_key_distinct:
  assumes "table_laws tb" and "unique_key f (rows tb t)"
  shows "distinct (map f (tb_select tb p t))"
proof -
  have "length (filter (\<lambda>m. f m = k) (tb_select tb p t)) \<le> 1" for k
  proof -
    have "mset (filter (\<lambda>m. f m = k) (tb_select tb p t)) \<subseteq># {#m \<in># rows tb t. f m = k#}"
      by (simp add: table_select [OF assms(1)] filter_filter_mset) (rule filter_mset_mono_strong, simp_all)
    then have "size (mset (filter (\<lambda>m. f m = k) (tb_select tb p t))) \<le> size {#m \<in># rows tb t. f m = k#}" by (rule size_mset_mono)
    then show ?thesis using assms(2) unfolding unique_key_def size_mset by (meson le_trans)
  qed
  moreover have "distinct (map f ms)" if "\<And>k. length (filter (\<lambda>m. f m = k) ms) \<le> 1" for ms
    using that
  proof (induction ms)
    case (Cons m ms)
    have "length (filter (\<lambda>m. f m = k) ms) \<le> 1" for k using Cons.prems [of k] by (simp split: if_splits)
    moreover have "f m \<notin> f ` set ms"
    proof
      assume "f m \<in> f ` set ms"
      then have "filter (\<lambda>n. f n = f m) ms \<noteq> []" by (auto simp: filter_empty_conv)
      with Cons.prems [of "f m"] show False by (cases "filter (\<lambda>n. f n = f m) ms") simp_all
    qed
    ultimately show ?case using Cons.IH by simp
  qed simp
  ultimately show ?thesis by blast
qed

lemma list_all2_member: "list_all2 P xs ys \<Longrightarrow> x \<in> set xs \<Longrightarrow> \<exists>y \<in> set ys. P x y"
  by (induction rule: list_all2_induct) auto

lemma insert_row_Inr:
  assumes "table_laws tb" and "insert_row tb key e r t = Inr t'"
  shows "rows tb t' = add_mset r (rows tb t)" "\<forall>m \<in># rows tb t. key m \<noteq> key r"
  using assms(2) by (auto simp: insert_row_def table_add [OF assms(1)] select_nil [OF assms(1)] split: if_splits)

lemma insert_all_Inr:
  assumes "table_laws tb" and "insert_all tb key e rs t = Inr t'"
  shows "rows tb t' = rows tb t + mset rs \<and> distinct (map key rs) \<and> (\<forall>r \<in> set rs. \<forall>m \<in># rows tb t. key m \<noteq> key r)"
  using assms(2)
proof (induction rs arbitrary: t)
  case (Cons r rs)
  from Cons.prems have free: "\<forall>m \<in># rows tb t. key m \<noteq> key r" and rest: "insert_all tb key e rs (tb_add tb r t) = Inr t'"
    by (auto simp: insert_row_def select_nil [OF assms(1)] split: if_splits)
  from Cons.IH [OF rest] have "rows tb t' = add_mset r (rows tb t) + mset rs" "distinct (map key rs)"
    "\<forall>q \<in> set rs. \<forall>m \<in># add_mset r (rows tb t). key m \<noteq> key q"
    by (simp_all add: table_add [OF assms(1)])
  with free show ?case by force
qed simp

lemma insert_all_free:
  assumes "table_laws tb" and "distinct (map key rs)" and "\<forall>r \<in> set rs. \<forall>m \<in># rows tb t. key m \<noteq> key r"
  shows "\<exists>t'. insert_all tb key e rs t = Inr t'"
  using assms(2,3)
proof (induction rs arbitrary: t)
  case (Cons r rs)
  then have "insert_row tb key e r t = Inr (tb_add tb r t)"
    by (simp add: insert_row_def select_nil [OF assms(1)])
  moreover have "\<exists>t'. insert_all tb key e rs (tb_add tb r t) = Inr t'"
    using Cons.prems by (intro Cons.IH) (force simp: table_add [OF assms(1)])+
  ultimately show ?case by simp
qed simp

section \<open>Rows up to order\<close>

lemma mset_map_perm: "mset xs = image_mset f (mset ys) \<Longrightarrow> \<exists>zs. mset zs = mset ys \<and> xs = map f zs"
proof (induction xs arbitrary: ys)
  case (Cons x xs)
  then have "x \<in># image_mset f (mset ys)" by (metis list.set_intros(1) set_mset_mset)
  then obtain y as bs where y: "ys = as @ y # bs" "f y = x" by (auto dest: split_list)
  then have "mset xs = image_mset f (mset (as @ bs))" using Cons.prems by simp
  from Cons.IH [OF this] obtain zs where zs: "mset zs = mset (as @ bs)" "xs = map f zs" by blast
  have "mset (y # zs) = mset ys" unfolding y(1) using zs(1) by simp
  moreover have "x # xs = map f (y # zs)" by (simp only: list.map y(2) zs(2))
  ultimately show ?case by (intro exI [of _ "y # zs"] conjI)
qed simp

lemma sum_map_exists: "(\<And>z. z \<in> set zs \<Longrightarrow> \<exists>y. f z = Inr y \<and> R z y) \<Longrightarrow> \<exists>ys. sum_map f zs = Inr ys \<and> list_all2 R zs ys"
proof (induction zs)
  case (Cons z zs)
  then obtain y ys where "f z = Inr y" "R z y" "sum_map f zs = Inr ys" "list_all2 R zs ys" by (metis list.set_intros(1,2))
  then have "sum_map f (z # zs) = Inr (y # ys) \<and> list_all2 R (z # zs) (y # ys)" by simp
  then show ?case by blast
qed simp

lemma update_one:
  assumes "table_laws tb" and "tb_update tb p f t = (1, t')" and "rows tb t = add_mset m R" and "\<And>r. r \<in># R \<Longrightarrow> \<not> p r"
  shows "p m \<and> rows tb t' = add_mset (f m) R"
proof -
  have none: "{#r \<in># R. p r#} = {#}" unfolding filter_mset_eq_empty using assms(4) by blast
  have same: "image_mset (\<lambda>r. if p r then f r else r) R = R"
    using image_mset_cong [of R "\<lambda>r. if p r then f r else r" id] assms(4) by simp
  have u: "1 = size {#r \<in># add_mset m R. p r#}" "rows tb t' = image_mset (\<lambda>r. if p r then f r else r) (add_mset m R)"
    using table_update [OF assms(1,2)] assms(3) by simp_all
  from u(1) have "p m" by (cases "p m") (simp_all only: filter_mset_add_mset if_False none size_empty)
  with u(2) same show ?thesis by simp
qed

lemma keyed_replace:
  assumes "\<And>r. r \<in># N \<Longrightarrow> f r = i"
  shows "{#r \<in># {#r \<in># M. f r \<noteq> i#} + N. f r = j#} = (if j = i then N else {#r \<in># M. f r = j#})"
proof -
  have "{#r \<in># N. f r = j#} = (if j = i then N else {#})"
    using assms by (auto simp: filter_mset_eq_conv filter_mset_eq_empty)
  moreover have "{#r \<in># {#r \<in># M. f r \<noteq> i#}. f r = j#} = (if j = i then {#} else {#r \<in># M. f r = j#})"
    by (auto simp: filter_filter_mset filter_mset_eq_empty intro: filter_mset_cong)
  ultimately show ?thesis by simp
qed

section \<open>List tables\<close>

text \<open>Tables on which the properties of repositories are evaluated.\<close>

definition list_table :: "('r, 'r list) table" where
  "list_table = \<lparr>tb_select = filter, tb_add = (\<lambda>r t. t @ [r]),
     tb_update = (\<lambda>p f t. (length (filter p t), map (\<lambda>r. if p r then f r else r) t)), tb_delete = (\<lambda>p. filter (\<lambda>r. \<not> p r))\<rparr>"

text \<open>Identifiers as texts of 128 binary digits.\<close>

definition digits_of :: "uuid \<Rightarrow> EntityId" where
  "digits_of u = EntityId (map (\<lambda>i. if bit u i then CHR ''1'' else CHR ''0'') [0..<128])"

definition of_digits :: "EntityId \<Rightarrow> uuid" where
  "of_digits t = horner_sum of_bool 2 (map (\<lambda>c. c = CHR ''1'') (entity_str t))"

lemma rows_list_table [simp]: "rows list_table t = mset t"
  by (simp add: rows_def list_table_def)

lemma list_table_laws: "table_laws list_table"
  by (auto simp: table_laws_def rows_list_table) (simp_all add: list_table_def mset_filter [symmetric] del: mset_filter)

lemma of_digits_of [simp]: "of_digits (digits_of u) = u"
proof -
  have "map (\<lambda>c. c = CHR ''1'') (entity_str (digits_of u)) = map (bit u) [0..<128]"
    by (simp add: digits_of_def comp_def)
  then show ?thesis using horner_sum_bit_eq_take_bit [of u 128] by (simp add: of_digits_def take_bit_word_eq_self)
qed

end
