(* ===== verification/Campaign_Service.thy ===== *)
theory Campaign_Service
  imports Campaign_Services Tables
begin

text \<open>
  The application service of \<open>campaignexecution\<close> (\<open>campaignexecution/application\<close>), its stub adapters
  (\<open>campaignexecution/infrastructure/acl/degraded_adapters.py\<close>) and its wiring (\<open>campaignexecution/infrastructure/container.py\<close>): one
  definition per use case. The repositories, the port that creates operations and the notification port are arguments
  (\<open>campaign_repositories\<close>, \<open>campaign_ports\<close>); the port that queries attack actions is kept by the service and never called. The clock and
  generated identifiers are the argument \<open>fresh\<close>.
\<close>

section \<open>Ports\<close>

type_synonym 'x campaign_error = "(CampaignExecutionDomainException, 'x) use_case_error"

record ('s, 'x) campaign_repositories =
  ca_save_execution :: "TaskGraphExecution \<Rightarrow> 's \<Rightarrow> ('x campaign_error, unit, 's) outcome"
  ca_find_execution :: "uuid \<Rightarrow> EntityId \<Rightarrow> 's \<Rightarrow> 'x campaign_error + TaskGraphExecution option"
  ca_find_execution_by_instance :: "uuid \<Rightarrow> EntityId \<Rightarrow> 's \<Rightarrow> 'x campaign_error + TaskGraphExecution option"
  ca_save_monitor :: "CampaignSafetyMonitor \<Rightarrow> 's \<Rightarrow> ('x campaign_error, unit, 's) outcome"
  ca_find_monitor :: "uuid \<Rightarrow> EntityId \<Rightarrow> 's \<Rightarrow> 'x campaign_error + CampaignSafetyMonitor option"
  ca_commit :: "'s \<Rightarrow> 'x + 's"

record ('p, 'x) campaign_ports =
  cp_create_operation :: "TaskDispatchRequest \<Rightarrow> 'p \<Rightarrow> ('x, OperationRef, 'p) outcome"
  cp_notify_human_approval_gate :: "string \<Rightarrow> string \<Rightarrow> string \<Rightarrow> string \<Rightarrow> int \<Rightarrow> ('x, 'p) step"
  cp_notify_campaign_paused :: "string \<Rightarrow> string \<Rightarrow> string \<Rightarrow> ('x, 'p) step"

record ('s, 'p, 'x) campaign_service =
  cs_repositories :: "('s, 'x) campaign_repositories"
  cs_ports :: "('p, 'x) campaign_ports"

record campaign_fresh =
  cf_now :: datetime
  cf_execution_id :: uuid
  cf_monitor_id :: uuid
  cf_record_ids :: "nat \<Rightarrow> uuid"
  cf_track_id :: uuid

type_synonym ('s, 'p, 'x, 'a) campaign_use_case =
  "('s, 'p, ExecutionEvent event, CampaignExecutionDomainException, 'x, 'a) transacted"

section \<open>Commands and results\<close>

text \<open>Commands of a tenant, an identifier and at most two texts are arguments of their use case.\<close>

record InitializeCampaignExecutionCommand =
  ic_tenant_id :: EntityId
  ic_campaign_instance_id :: uuid
  ic_campaign_id :: uuid
  ic_graph_id :: uuid
  ic_graph_version :: string
  ic_engagement_id :: uuid
  ic_task_ids :: "uuid list"
  ic_max_concurrent_actions :: int
  ic_auto_abort_on_detection :: bool
  ic_auto_abort_on_objective_failure :: bool
  ic_blast_radius_ceiling :: string

record DispatchTaskSpec =
  ds_task_id :: uuid
  ds_technique_id :: string
  ds_technique_name :: string
  ds_parameters :: "(string, string) dict"

record DispatchNextTasksCommand =
  dn_tenant_id :: EntityId
  dn_execution_id :: uuid
  dn_task_id :: "uuid option"
  dn_technique_id :: string
  dn_technique_name :: string
  dn_parameters :: "(string, string) dict"
  dn_tasks :: "DispatchTaskSpec list"

record SuccessorPredicateSpec =
  sp_task_id :: uuid
  sp_predicate :: string
  sp_objective_ref :: "string option"

record RecordTaskCompletionCommand =
  rc_tenant_id :: EntityId
  rc_execution_id :: uuid
  rc_task_id :: uuid
  rc_outcome :: string
  rc_ready_successor_ids :: "uuid list"
  rc_skipped_successor_ids :: "uuid list"
  rc_successors :: "SuccessorPredicateSpec list"

record ResolveConditionalBranchCommand =
  rv_tenant_id :: EntityId
  rv_execution_id :: uuid
  rv_completed_task_id :: uuid
  rv_outcome :: string
  rv_successors :: "SuccessorPredicateSpec list"

record ReachHumanApprovalGateCommand =
  rg_tenant_id :: EntityId
  rg_execution_id :: uuid
  rg_task_id :: uuid
  rg_gate_timeout_seconds :: int
  rg_required_approver_role :: string
  rg_default_on_timeout :: string

record RollbackStepSpec =
  rs_task_id :: uuid
  rs_technique_id :: string
  rs_technique_name :: string
  rs_parameters :: "(string, string) dict"

record InitiateRollbackCommand =
  ir_tenant_id :: EntityId
  ir_execution_id :: uuid
  ir_trigger_reason :: string
  ir_rollback_eligible_task_ids :: "uuid list"
  ir_steps :: "RollbackStepSpec list"

record TaskExecutionRecordDTO =
  rd_task_id :: string
  rd_state :: string
  rd_outcome :: "string option"
  rd_operation_id :: "string option"
  rd_dispatched_at :: "datetime option"
  rd_completed_at :: "datetime option"
  rd_failure_reason :: "string option"

record ExecutionDTO =
  xd_execution_id :: string
  xd_tenant_id :: string
  xd_campaign_instance_id :: string
  xd_graph_id :: string
  xd_graph_version :: string
  xd_state :: string
  xd_concurrent_action_count :: int
  xd_task_records :: "TaskExecutionRecordDTO list"
  xd_pending_approval_gate_task_id :: "string option"

record SafetyMonitorDTO =
  md_monitor_id :: string
  md_tenant_id :: string
  md_campaign_instance_id :: string
  md_monitor_state :: string
  md_concurrent_action_count :: int
  md_auto_abort_triggered :: bool
  md_max_concurrent_actions :: int

definition record_dto :: "TaskExecutionRecord \<Rightarrow> TaskExecutionRecordDTO" where
  "record_dto r =
     \<lparr>rd_task_id = uuid_str (tr_task_id r), rd_state = TaskExecutionState_value (tr_state r), rd_outcome = map_option TaskOutcome_value (tr_outcome r),
      rd_operation_id = map_option (\<lambda>p. uuid_str (op_operation_id p)) (tr_operation_ref r), rd_dispatched_at = tr_dispatched_at r,
      rd_completed_at = tr_completed_at r, rd_failure_reason = tr_failure_reason r\<rparr>"

definition to_execution_dto :: "TaskGraphExecution \<Rightarrow> ExecutionDTO" where
  "to_execution_dto x =
     \<lparr>xd_execution_id = uuid_str (ex_execution_id x), xd_tenant_id = entity_str (ex_tenant_id x),
      xd_campaign_instance_id = uuid_str (ci_instance_id (ex_campaign_instance_ref x)), xd_graph_id = uuid_str (gv_graph_id (ex_graph_version_ref x)),
      xd_graph_version = gv_version_str (ex_graph_version_ref x), xd_state = ExecutionState_value (ex_state x),
      xd_concurrent_action_count = int (concurrent_action_count x), xd_task_records = map record_dto (ex_task_records x),
      xd_pending_approval_gate_task_id = map_option (\<lambda>g. uuid_str (pg_task_id g)) (ex_pending_approval_gate x)\<rparr>"

definition to_monitor_dto :: "CampaignSafetyMonitor \<Rightarrow> SafetyMonitorDTO" where
  "to_monitor_dto m =
     \<lparr>md_monitor_id = uuid_str (sm_monitor_id m), md_tenant_id = entity_str (sm_tenant_id m),
      md_campaign_instance_id = uuid_str (ci_instance_id (sm_campaign_instance_ref m)), md_monitor_state = MonitorState_value (sm_monitor_state m),
      md_concurrent_action_count = int (monitor_action_count m), md_auto_abort_triggered = sm_auto_abort_triggered m,
      md_max_concurrent_actions = ps_max_concurrent_actions (sm_policy_snapshot m)\<rparr>"

section \<open>Parts of the use cases\<close>

text \<open>\<open>pop_events\<close> empties the queue of the object; the service does not use the queue again.\<close>

definition monitor_events :: "CampaignSafetyMonitor option \<Rightarrow> ExecutionEvent event list" where
  "monitor_events m = (case m of None \<Rightarrow> [] | Some m \<Rightarrow> fst (Safety_Monitor.pop_events m))"

definition publish :: "TaskGraphExecution \<Rightarrow> CampaignSafetyMonitor option \<Rightarrow> ('s, 'p, 'x, unit) campaign_use_case" where
  "publish x m = publish_all (fst (Campaign_Data.pop_events x) @ monitor_events m)"

definition resolve_successors :: "TaskGraphExecution \<Rightarrow> TaskOutcome \<Rightarrow> uuid \<Rightarrow> SuccessorPredicateSpec list \<Rightarrow> uuid list \<times> uuid list" where
  "resolve_successors x outcome completed_task_id successors =
     resolve_branches completed_task_id outcome (map (\<lambda>s. (sp_task_id s, sp_predicate s, sp_objective_ref s)) successors) (ex_objective_states x)"

definition TaskOutcome_of :: "string \<Rightarrow> TaskOutcome option" where
  "TaskOutcome_of v = find (\<lambda>o'. TaskOutcome_value o' = v) [SUCCESS, FAILURE, PARTIAL_SUCCESS, TaskOutcome.TIMED_OUT, TaskOutcome.SKIPPED, TaskOutcome.ABORTED]"

definition parse_outcome :: "string \<Rightarrow> 'x campaign_error + TaskOutcome" where
  "parse_outcome v = (case TaskOutcome_of v of
       Some o' \<Rightarrow> Inr o'
     | None \<Rightarrow> Inl (ApplicationFailure (ApplicationValidationError ''outcome'' (''Unknown outcome: '' @ v))))"

definition load_execution :: "('s, 'p, 'x) campaign_service \<Rightarrow> uuid \<Rightarrow> EntityId \<Rightarrow> ('s, 'p, 'x, TaskGraphExecution) campaign_use_case" where
  "load_execution sv execution_id tenant =
     and_then (read_session (ca_find_execution (cs_repositories sv) execution_id tenant)) (\<lambda>found.
     found_or (ApplicationFailure (ApplicationNotFoundError ''TaskGraphExecution'' (uuid_str execution_id))) found)"

definition load_monitor :: "('s, 'p, 'x) campaign_service \<Rightarrow> TaskGraphExecution \<Rightarrow> EntityId \<Rightarrow> ('s, 'p, 'x, CampaignSafetyMonitor option) campaign_use_case" where
  "load_monitor sv x tenant = read_session (ca_find_monitor (cs_repositories sv) (ci_instance_id (ex_campaign_instance_ref x)) tenant)"

text \<open>A call on the monitor where there is one.\<close>

definition on_monitor :: "monitor_step \<Rightarrow> CampaignSafetyMonitor option \<Rightarrow> ('s, 'p, 'x, CampaignSafetyMonitor option) campaign_use_case" where
  "on_monitor call m = (case m of
       None \<Rightarrow> give None
     | Some m \<Rightarrow> and_then (on_aggregate DomainFailure (call m)) (\<lambda>m. give (Some m)))"

definition store_monitor :: "('s, 'p, 'x) campaign_service \<Rightarrow> CampaignSafetyMonitor option \<Rightarrow> ('s, 'p, 'x, unit) campaign_use_case" where
  "store_monitor sv m = (case m of None \<Rightarrow> give () | Some m \<Rightarrow> write_session (ca_save_monitor (cs_repositories sv) m))"

text \<open>\<open>save\<close> of the execution, \<open>save\<close> of the monitor where there is one, \<open>commit\<close>.\<close>

definition store_all :: "('s, 'p, 'x) campaign_service \<Rightarrow> TaskGraphExecution \<Rightarrow> CampaignSafetyMonitor option \<Rightarrow> ('s, 'p, 'x, unit) campaign_use_case" where
  "store_all sv x m =
     and_then (write_session (ca_save_execution (cs_repositories sv) x)) (\<lambda>_.
     and_then (store_monitor sv m) (\<lambda>_.
     commit_session (ca_commit (cs_repositories sv))))"

text \<open>The unit of work of the use cases that make one call on the execution, and of those that make one on its monitor too.\<close>

definition change_execution ::
  "('s, 'p, 'x) campaign_service \<Rightarrow> uuid \<Rightarrow> EntityId \<Rightarrow> (TaskGraphExecution \<Rightarrow> (CampaignExecutionDomainException, 'r, TaskGraphExecution) outcome)
     \<Rightarrow> ('s, 'p, 'x, TaskGraphExecution) campaign_use_case" where
  "change_execution sv execution_id tenant call =
     within_uow (
     and_then (load_execution sv execution_id tenant) (\<lambda>x.
     and_then (on_aggregate DomainFailure (call x)) (\<lambda>x.
     and_then (store_all sv x None) (\<lambda>_. give x))))"

definition change_monitored ::
  "('s, 'p, 'x) campaign_service \<Rightarrow> uuid \<Rightarrow> EntityId \<Rightarrow> (TaskGraphExecution \<Rightarrow> exec_step) \<Rightarrow> monitor_step
     \<Rightarrow> ('s, 'p, 'x, TaskGraphExecution \<times> CampaignSafetyMonitor option) campaign_use_case" where
  "change_monitored sv execution_id tenant call monitor_call =
     within_uow (
     and_then (load_execution sv execution_id tenant) (\<lambda>x.
     and_then (load_monitor sv x tenant) (\<lambda>m.
     and_then (on_aggregate DomainFailure (call x x)) (\<lambda>x.
     and_then (on_monitor monitor_call m) (\<lambda>m.
     and_then (store_all sv x m) (\<lambda>_. give (x, m)))))))"

definition finish :: "TaskGraphExecution \<times> CampaignSafetyMonitor option \<Rightarrow> ('s, 'p, 'x, ExecutionDTO) campaign_use_case" where
  "finish = (\<lambda>(x, m). and_then (publish x m) (\<lambda>_. give (to_execution_dto x)))"

section \<open>Use cases\<close>

definition initialize_execution ::
  "('s, 'p, 'x) campaign_service \<Rightarrow> campaign_fresh \<Rightarrow> InitializeCampaignExecutionCommand \<Rightarrow> ('s, 'p, 'x, ExecutionDTO) campaign_use_case" where
  "initialize_execution sv fresh cmd =
     (let instance_ref = \<lparr>ci_instance_id = ic_campaign_instance_id cmd, ci_campaign_id = ic_campaign_id cmd, ci_tenant_id = ic_tenant_id cmd\<rparr>;
          graph_ref = \<lparr>gv_graph_id = ic_graph_id cmd, gv_version_str = ic_graph_version cmd\<rparr>;
          engagement_ref = \<lparr>en_engagement_id = ic_engagement_id cmd, en_tenant_id = ic_tenant_id cmd\<rparr>;
          policy = \<lparr>ps_max_concurrent_actions = ic_max_concurrent_actions cmd, ps_auto_abort_on_detection = ic_auto_abort_on_detection cmd,
            ps_auto_abort_on_objective_failure = ic_auto_abort_on_objective_failure cmd, ps_blast_radius_ceiling = ic_blast_radius_ceiling cmd\<rparr>;
          task_ids = map (\<lambda>(n, i). (cf_record_ids fresh n, i)) (List.enumerate 0 (ic_task_ids cmd));
          execution = initialize (cf_execution_id fresh) (ic_tenant_id cmd) instance_ref graph_ref engagement_ref policy task_ids (cf_now fresh);
          monitor = Safety_Monitor.create (cf_monitor_id fresh) (ic_tenant_id cmd) instance_ref policy (cf_now fresh)
      in and_then (on_aggregate DomainFailure (mark_running (cf_now fresh) execution)) (\<lambda>x.
         and_then (within_uow (store_all sv x (Some monitor))) (\<lambda>_.
         finish (x, Some monitor))))"

definition dispatch_specs :: "DispatchNextTasksCommand \<Rightarrow> 'x campaign_error + DispatchTaskSpec list" where
  "dispatch_specs cmd =
     (if dn_tasks cmd \<noteq> [] then Inr (dn_tasks cmd)
      else (case dn_task_id cmd of
          Some i \<Rightarrow> Inr [\<lparr>ds_task_id = i, ds_technique_id = dn_technique_id cmd, ds_technique_name = dn_technique_name cmd, ds_parameters = dn_parameters cmd\<rparr>]
        | None \<Rightarrow> Inl (ApplicationFailure (ApplicationValidationError ''tasks'' ''Provide task_id or a non-empty tasks list''))))"

definition dispatch_one ::
  "('s, 'p, 'x) campaign_service \<Rightarrow> EntityId \<Rightarrow> datetime \<Rightarrow> DispatchTaskSpec \<Rightarrow> TaskGraphExecution \<times> CampaignSafetyMonitor option
     \<Rightarrow> ('s, 'p, 'x, TaskGraphExecution \<times> CampaignSafetyMonitor option) campaign_use_case" where
  "dispatch_one sv tenant now spec = (\<lambda>(x, m).
     and_then (on_monitor (register_action tenant (uuid_str (ds_task_id spec)) now) m) (\<lambda>m.
     and_then (on_ports (dispatch tenant (ci_instance_id (ex_campaign_instance_ref x)) (ds_task_id spec) (ds_technique_id spec)
       (ds_technique_name spec) (ds_parameters spec) (ex_engagement_ref x) (cp_create_operation (cs_ports sv)))) (\<lambda>operation_ref.
     and_then (on_aggregate DomainFailure (record_task_dispatched tenant (ds_task_id spec) operation_ref now x)) (\<lambda>x.
     give (x, m)))))"

primrec dispatch_each ::
  "('s, 'p, 'x) campaign_service \<Rightarrow> EntityId \<Rightarrow> datetime \<Rightarrow> DispatchTaskSpec list \<Rightarrow> TaskGraphExecution \<times> CampaignSafetyMonitor option
     \<Rightarrow> ('s, 'p, 'x, TaskGraphExecution \<times> CampaignSafetyMonitor option) campaign_use_case" where
  "dispatch_each sv tenant now [] p = give p"
| "dispatch_each sv tenant now (spec # specs) p = and_then (dispatch_one sv tenant now spec p) (dispatch_each sv tenant now specs)"

definition start_track :: "EntityId \<Rightarrow> campaign_fresh \<Rightarrow> DispatchTaskSpec list \<Rightarrow> exec_step" where
  "start_track tenant fresh specs =
     if_else (\<lambda>_. 1 < length specs) [start_execution_track tenant (uuid_str (cf_track_id fresh)) (map ds_task_id specs) (cf_now fresh)] []"

definition dispatch_next_task ::
  "('s, 'p, 'x) campaign_service \<Rightarrow> campaign_fresh \<Rightarrow> DispatchNextTasksCommand \<Rightarrow> ('s, 'p, 'x, ExecutionDTO) campaign_use_case" where
  "dispatch_next_task sv fresh cmd =
     and_then (attempt (\<lambda>e. e) (dispatch_specs cmd)) (\<lambda>specs.
     and_then (within_uow (
       and_then (load_execution sv (dn_execution_id cmd) (dn_tenant_id cmd)) (\<lambda>x.
       and_then (load_monitor sv x (dn_tenant_id cmd)) (\<lambda>m.
       and_then (on_aggregate DomainFailure (start_track (dn_tenant_id cmd) fresh specs x)) (\<lambda>x.
       and_then (dispatch_each sv (dn_tenant_id cmd) (cf_now fresh) specs (x, m)) (\<lambda>(x, m).
       and_then (store_all sv x m) (\<lambda>_. give (x, m))))))))
     finish)"

definition successor_ids :: "RecordTaskCompletionCommand \<Rightarrow> TaskOutcome \<Rightarrow> TaskGraphExecution \<Rightarrow> uuid list \<times> uuid list" where
  "successor_ids cmd outcome x =
     (if rc_successors cmd \<noteq> [] then resolve_successors x outcome (rc_task_id cmd) (rc_successors cmd)
      else (rc_ready_successor_ids cmd, rc_skipped_successor_ids cmd))"

definition record_task_completion ::
  "('s, 'p, 'x) campaign_service \<Rightarrow> campaign_fresh \<Rightarrow> RecordTaskCompletionCommand \<Rightarrow> ('s, 'p, 'x, ExecutionDTO) campaign_use_case" where
  "record_task_completion sv fresh cmd =
     and_then (attempt (\<lambda>e. e) (parse_outcome (rc_outcome cmd))) (\<lambda>outcome.
     and_then (change_monitored sv (rc_execution_id cmd) (rc_tenant_id cmd)
       (\<lambda>x. case successor_ids cmd outcome x of (ready, skipped) \<Rightarrow>
         Campaign_Execution.record_task_completion (rc_tenant_id cmd) (rc_task_id cmd) outcome (cf_now fresh) ready skipped)
       (release_action (rc_tenant_id cmd) (uuid_str (rc_task_id cmd)) (cf_now fresh)))
     finish)"

definition resolve_conditional_branch ::
  "('s, 'p, 'x) campaign_service \<Rightarrow> campaign_fresh \<Rightarrow> ResolveConditionalBranchCommand \<Rightarrow> ('s, 'p, 'x, ExecutionDTO) campaign_use_case" where
  "resolve_conditional_branch sv fresh cmd =
     and_then (attempt (\<lambda>e. e) (parse_outcome (rv_outcome cmd))) (\<lambda>outcome.
     and_then (change_execution sv (rv_execution_id cmd) (rv_tenant_id cmd)
       (\<lambda>x. case resolve_successors x outcome (rv_completed_task_id cmd) (rv_successors cmd) of (ready, skipped) \<Rightarrow>
         Campaign_Execution.record_task_completion (rv_tenant_id cmd) (rv_completed_task_id cmd) outcome (cf_now fresh) ready skipped x)) (\<lambda>x.
     finish (x, None)))"

definition record_task_failure ::
  "('s, 'p, 'x) campaign_service \<Rightarrow> campaign_fresh \<Rightarrow> EntityId \<Rightarrow> uuid \<Rightarrow> uuid \<Rightarrow> string \<Rightarrow> ('s, 'p, 'x, ExecutionDTO) campaign_use_case" where
  "record_task_failure sv fresh tenant execution_id task_id failure_reason =
     and_then (change_monitored sv execution_id tenant
       (\<lambda>_. Campaign_Execution.record_task_failure tenant task_id failure_reason (cf_now fresh))
       (release_action tenant (uuid_str task_id) (cf_now fresh)))
     finish"

text \<open>The use cases that make one call on the execution, publish and return.\<close>

definition call_execution ::
  "('s, 'p, 'x) campaign_service \<Rightarrow> uuid \<Rightarrow> EntityId \<Rightarrow> (TaskGraphExecution \<Rightarrow> (CampaignExecutionDomainException, 'r, TaskGraphExecution) outcome)
     \<Rightarrow> ('s, 'p, 'x, ExecutionDTO) campaign_use_case" where
  "call_execution sv execution_id tenant call = and_then (change_execution sv execution_id tenant call) (\<lambda>x. finish (x, None))"

definition evaluate_barrier ::
  "('s, 'p, 'x) campaign_service \<Rightarrow> campaign_fresh \<Rightarrow> EntityId \<Rightarrow> uuid \<Rightarrow> uuid \<Rightarrow> uuid list \<Rightarrow> ('s, 'p, 'x, ExecutionDTO) campaign_use_case" where
  "evaluate_barrier sv fresh tenant execution_id barrier_task_id task_group_task_ids =
     call_execution sv execution_id tenant (Campaign_Execution.evaluate_barrier tenant barrier_task_id task_group_task_ids (cf_now fresh))"

definition notify_paused :: "('s, 'p, 'x) campaign_service \<Rightarrow> EntityId \<Rightarrow> TaskGraphExecution \<Rightarrow> string \<Rightarrow> ('s, 'p, 'x, unit) campaign_use_case" where
  "notify_paused sv tenant x reason =
     on_ports (cp_notify_campaign_paused (cs_ports sv) (entity_str tenant) (uuid_str (ex_execution_id x)) reason)"

definition reach_human_approval_gate ::
  "('s, 'p, 'x) campaign_service \<Rightarrow> campaign_fresh \<Rightarrow> ReachHumanApprovalGateCommand \<Rightarrow> ('s, 'p, 'x, ExecutionDTO) campaign_use_case" where
  "reach_human_approval_gate sv fresh cmd =
     (let pending_gate = \<lparr>pg_task_id = rg_task_id cmd, pg_gate_created_at = cf_now fresh, pg_gate_timeout_seconds = rg_gate_timeout_seconds cmd,
            pg_required_approver_role = rg_required_approver_role cmd, pg_default_on_timeout = rg_default_on_timeout cmd\<rparr>
      in and_then (change_execution sv (rg_execution_id cmd) (rg_tenant_id cmd)
           (handle_human_approval_gate (rg_tenant_id cmd) pending_gate (cf_now fresh))) (\<lambda>x.
         and_then (on_ports (cp_notify_human_approval_gate (cs_ports sv) (entity_str (rg_tenant_id cmd)) (uuid_str (ex_execution_id x))
           (uuid_str (rg_task_id cmd)) (rg_required_approver_role cmd) (rg_gate_timeout_seconds cmd))) (\<lambda>_.
         finish (x, None))))"

definition grant_human_approval ::
  "('s, 'p, 'x) campaign_service \<Rightarrow> campaign_fresh \<Rightarrow> EntityId \<Rightarrow> uuid \<Rightarrow> string \<Rightarrow> ('s, 'p, 'x, ExecutionDTO) campaign_use_case" where
  "grant_human_approval sv fresh tenant execution_id approver_id =
     call_execution sv execution_id tenant (Campaign_Execution.grant_human_approval tenant approver_id (cf_now fresh))"

definition deny_human_approval ::
  "('s, 'p, 'x) campaign_service \<Rightarrow> campaign_fresh \<Rightarrow> EntityId \<Rightarrow> uuid \<Rightarrow> string \<Rightarrow> string \<Rightarrow> ('s, 'p, 'x, ExecutionDTO) campaign_use_case" where
  "deny_human_approval sv fresh tenant execution_id approver_id reason =
     call_execution sv execution_id tenant (Campaign_Execution.deny_human_approval tenant approver_id reason (cf_now fresh))"

definition handle_approval_timeout ::
  "('s, 'p, 'x) campaign_service \<Rightarrow> campaign_fresh \<Rightarrow> EntityId \<Rightarrow> uuid \<Rightarrow> ('s, 'p, 'x, ExecutionDTO) campaign_use_case" where
  "handle_approval_timeout sv fresh tenant execution_id =
     call_execution sv execution_id tenant (Campaign_Execution.handle_approval_timeout tenant (cf_now fresh))"

definition pause_execution ::
  "('s, 'p, 'x) campaign_service \<Rightarrow> campaign_fresh \<Rightarrow> EntityId \<Rightarrow> uuid \<Rightarrow> string \<Rightarrow> ('s, 'p, 'x, ExecutionDTO) campaign_use_case" where
  "pause_execution sv fresh tenant execution_id reason =
     and_then (change_execution sv execution_id tenant (pause tenant reason (cf_now fresh))) (\<lambda>x.
     and_then (notify_paused sv tenant x reason) (\<lambda>_.
     finish (x, None)))"

definition resume_execution ::
  "('s, 'p, 'x) campaign_service \<Rightarrow> campaign_fresh \<Rightarrow> EntityId \<Rightarrow> uuid \<Rightarrow> ('s, 'p, 'x, ExecutionDTO) campaign_use_case" where
  "resume_execution sv fresh tenant execution_id = call_execution sv execution_id tenant (resume tenant (cf_now fresh))"

definition handle_kill_switch_triggered ::
  "('s, 'p, 'x) campaign_service \<Rightarrow> campaign_fresh \<Rightarrow> EntityId \<Rightarrow> uuid \<Rightarrow> ('s, 'p, 'x, ExecutionDTO) campaign_use_case" where
  "handle_kill_switch_triggered sv fresh tenant execution_id =
     and_then (change_execution sv execution_id tenant (Campaign_Services.handle_kill_switch_triggered tenant (cf_now fresh))) (\<lambda>x.
     and_then (notify_paused sv tenant x ''M29 kill switch triggered'') (\<lambda>_.
     finish (x, None)))"

definition rollback_one ::
  "('s, 'p, 'x) campaign_service \<Rightarrow> EntityId \<Rightarrow> datetime \<Rightarrow> RollbackStepSpec \<Rightarrow> TaskGraphExecution \<Rightarrow> ('s, 'p, 'x, TaskGraphExecution) campaign_use_case" where
  "rollback_one sv tenant now spec x =
     execute_rollback_step DomainFailure x tenant (rs_task_id spec) (rs_technique_id spec) (rs_technique_name spec) (rs_parameters spec)
       (\<lambda>request. on_ports (cp_create_operation (cs_ports sv) request)) now"

primrec rollback_each ::
  "('s, 'p, 'x) campaign_service \<Rightarrow> EntityId \<Rightarrow> datetime \<Rightarrow> RollbackStepSpec list \<Rightarrow> TaskGraphExecution \<Rightarrow> ('s, 'p, 'x, TaskGraphExecution) campaign_use_case" where
  "rollback_each sv tenant now [] x = give x"
| "rollback_each sv tenant now (spec # specs) x = and_then (rollback_one sv tenant now spec x) (rollback_each sv tenant now specs)"

text \<open>The counter \<open>rolled\<close> equals the number of steps when the loop has ended.\<close>

definition end_rollback :: "EntityId \<Rightarrow> datetime \<Rightarrow> RollbackStepSpec list \<Rightarrow> exec_step" where
  "end_rollback tenant now specs = if_else (\<lambda>_. specs \<noteq> []) [complete_rollback tenant (int (length specs)) now] []"

definition initiate_rollback ::
  "('s, 'p, 'x) campaign_service \<Rightarrow> campaign_fresh \<Rightarrow> InitiateRollbackCommand \<Rightarrow> ('s, 'p, 'x, ExecutionDTO) campaign_use_case" where
  "initiate_rollback sv fresh cmd =
     and_then (within_uow (
       and_then (load_execution sv (ir_execution_id cmd) (ir_tenant_id cmd)) (\<lambda>x.
       and_then (attempt PythonFailure (compute_rollback_plan x (ir_rollback_eligible_task_ids cmd))) (\<lambda>rollback_plan.
       and_then (on_aggregate DomainFailure
         (Campaign_Execution.initiate_rollback (ir_tenant_id cmd) (ir_trigger_reason cmd) (int (length rollback_plan)) (cf_now fresh) x)) (\<lambda>x.
       and_then (rollback_each sv (ir_tenant_id cmd) (cf_now fresh) (ir_steps cmd) x) (\<lambda>x.
       and_then (on_aggregate DomainFailure (end_rollback (ir_tenant_id cmd) (cf_now fresh) (ir_steps cmd) x)) (\<lambda>x.
       and_then (store_all sv x None) (\<lambda>_. give x)))))))) (\<lambda>x.
     finish (x, None))"

definition complete_execution ::
  "('s, 'p, 'x) campaign_service \<Rightarrow> campaign_fresh \<Rightarrow> EntityId \<Rightarrow> uuid \<Rightarrow> ('s, 'p, 'x, ExecutionDTO) campaign_use_case" where
  "complete_execution sv fresh tenant execution_id =
     and_then (change_monitored sv execution_id tenant (\<lambda>_. complete tenant (cf_now fresh)) (release tenant (cf_now fresh))) finish"

definition abort_execution ::
  "('s, 'p, 'x) campaign_service \<Rightarrow> campaign_fresh \<Rightarrow> EntityId \<Rightarrow> uuid \<Rightarrow> string \<Rightarrow> ('s, 'p, 'x, ExecutionDTO) campaign_use_case" where
  "abort_execution sv fresh tenant execution_id abort_reason =
     and_then (change_monitored sv execution_id tenant (\<lambda>_. abort tenant abort_reason (cf_now fresh)) (release tenant (cf_now fresh))) finish"

definition breach_execution ::
  "('s, 'p, 'x) campaign_service \<Rightarrow> campaign_fresh \<Rightarrow> EntityId \<Rightarrow> string \<Rightarrow> TaskGraphExecution option \<Rightarrow> ('s, 'p, 'x, TaskGraphExecution option) campaign_use_case" where
  "breach_execution sv fresh tenant detection_detail found = (case found of
       None \<Rightarrow> give None
     | Some x \<Rightarrow>
         and_then (on_aggregate DomainFailure (handle_safety_breach tenant ''AutoAbortOnDetection'' detection_detail (cf_now fresh) x)) (\<lambda>x.
         and_then (write_session (ca_save_execution (cs_repositories sv) x)) (\<lambda>_. give (Some x))))"

definition report_abort ::
  "('s, 'p, 'x) campaign_service \<Rightarrow> EntityId \<Rightarrow> string \<Rightarrow> CampaignSafetyMonitor \<times> TaskGraphExecution option \<Rightarrow> ('s, 'p, 'x, SafetyMonitorDTO option) campaign_use_case" where
  "report_abort sv tenant detection_detail = (\<lambda>(m, found).
     and_then (case found of None \<Rightarrow> give () | Some x \<Rightarrow> notify_paused sv tenant x (''Auto-abort on detection: '' @ detection_detail)) (\<lambda>_.
     and_then (publish_all (monitor_events (Some m) @ (case found of None \<Rightarrow> [] | Some x \<Rightarrow> fst (Campaign_Data.pop_events x)))) (\<lambda>_.
     give (Some (to_monitor_dto m)))))"

definition trigger_auto_abort_on_detection ::
  "('s, 'p, 'x) campaign_service \<Rightarrow> campaign_fresh \<Rightarrow> EntityId \<Rightarrow> uuid \<Rightarrow> string \<Rightarrow> ('s, 'p, 'x, SafetyMonitorDTO option) campaign_use_case" where
  "trigger_auto_abort_on_detection sv fresh tenant campaign_instance_id detection_detail =
     and_then (within_uow (
       and_then (read_session (ca_find_monitor (cs_repositories sv) campaign_instance_id tenant)) (\<lambda>found.
       case found of
         None \<Rightarrow> give None
       | Some m \<Rightarrow>
           and_then (on_aggregate DomainFailure (Safety_Monitor.trigger_auto_abort_on_detection tenant detection_detail (cf_now fresh) m)) (\<lambda>m.
           and_then (read_session (ca_find_execution_by_instance (cs_repositories sv) campaign_instance_id tenant)) (\<lambda>x.
           and_then (breach_execution sv fresh tenant detection_detail x) (\<lambda>x.
           and_then (write_session (ca_save_monitor (cs_repositories sv) m)) (\<lambda>_.
           and_then (commit_session (ca_commit (cs_repositories sv))) (\<lambda>_.
           give (Some (m, x)))))))))) (\<lambda>changed.
     case changed of None \<Rightarrow> give None | Some p \<Rightarrow> report_abort sv tenant detection_detail p)"

definition get_execution ::
  "('s, 'p, 'x) campaign_service \<Rightarrow> EntityId \<Rightarrow> uuid \<Rightarrow> ('s, 'p, 'x, ExecutionDTO option) campaign_use_case" where
  "get_execution sv tenant execution_id =
     within_uow (
     and_then (read_session (ca_find_execution (cs_repositories sv) execution_id tenant)) (\<lambda>found.
     give (map_option to_execution_dto found)))"

section \<open>The stub adapters\<close>

record approval_gate_notice =
  an_tenant_id :: string
  an_execution_id :: string
  an_task_id :: string
  an_required_approver_role :: string
  an_gate_timeout_seconds :: int

record pause_notice =
  pn_tenant_id :: string
  pn_execution_id :: string
  pn_reason :: string

text \<open>The state of both stubs; \<open>st_drawn\<close> counts the identifiers drawn from \<open>uuid7\<close>.\<close>

record stub_adapters =
  st_approval_gates :: "approval_gate_notice list"
  st_pauses :: "pause_notice list"
  st_cache :: "(string \<times> string, OperationRef) dict"
  st_drawn :: nat

definition stub_notify_human_approval_gate :: "string \<Rightarrow> string \<Rightarrow> string \<Rightarrow> string \<Rightarrow> int \<Rightarrow> ('x, stub_adapters) step" where
  "stub_notify_human_approval_gate tenant_id execution_id task_id role timeout = assign (\<lambda>p. p\<lparr>st_approval_gates := st_approval_gates p @
     [\<lparr>an_tenant_id = tenant_id, an_execution_id = execution_id, an_task_id = task_id, an_required_approver_role = role, an_gate_timeout_seconds = timeout\<rparr>]\<rparr>)"

definition stub_notify_campaign_paused :: "string \<Rightarrow> string \<Rightarrow> string \<Rightarrow> ('x, stub_adapters) step" where
  "stub_notify_campaign_paused tenant_id execution_id reason = assign (\<lambda>p. p\<lparr>st_pauses := st_pauses p @
     [\<lparr>pn_tenant_id = tenant_id, pn_execution_id = execution_id, pn_reason = reason\<rparr>]\<rparr>)"

text \<open>\<open>EntityId.from_string\<close> and the identifiers of \<open>uuid7\<close> are arguments.\<close>

definition stub_create_operation ::
  "(string \<Rightarrow> 'x + EntityId) \<Rightarrow> (nat \<Rightarrow> uuid) \<Rightarrow> TaskDispatchRequest \<Rightarrow> stub_adapters \<Rightarrow> ('x, OperationRef, stub_adapters) outcome" where
  "stub_create_operation parse_id uuid7 request p =
     (let key = (dr_campaign_instance_id request, dr_task_id request)
      in case map_of (st_cache p) key of
           Some ref \<Rightarrow> Return ref p
         | None \<Rightarrow>
             (case parse_id (dr_tenant_id request) of
                Inl e \<Rightarrow> Raise e (p\<lparr>st_drawn := st_drawn p + 1\<rparr>)
              | Inr tenant \<Rightarrow>
                  (let ref = \<lparr>op_operation_id = uuid7 (st_drawn p), op_tenant_id = tenant\<rparr>
                   in Return ref (p\<lparr>st_cache := dict_set key ref (st_cache p), st_drawn := st_drawn p + 1\<rparr>))))"

definition stub_ports :: "(string \<Rightarrow> 'x + EntityId) \<Rightarrow> (nat \<Rightarrow> uuid) \<Rightarrow> (stub_adapters, 'x) campaign_ports" where
  "stub_ports parse_id uuid7 =
     \<lparr>cp_create_operation = stub_create_operation parse_id uuid7, cp_notify_human_approval_gate = stub_notify_human_approval_gate,
      cp_notify_campaign_paused = stub_notify_campaign_paused\<rparr>"

text \<open>\<open>build_execution_application_service\<close> without ports of its own.\<close>

definition build_execution_application_service ::
  "(string \<Rightarrow> 'x + EntityId) \<Rightarrow> (nat \<Rightarrow> uuid) \<Rightarrow> ('s, 'x) campaign_repositories \<Rightarrow> ('s, stub_adapters, 'x) campaign_service" where
  "build_execution_application_service parse_id uuid7 repositories =
     \<lparr>cs_repositories = repositories, cs_ports = stub_ports parse_id uuid7\<rparr>"

end
