(* ===== verification/Timestamps.thy ===== *)
theory Timestamps
  imports Tables
begin

text \<open>
  Reading back what \<open>datetime.isoformat()\<close> and \<open>str(UUID)\<close> print: \<open>datetime.fromisoformat\<close> on texts of a UTC instant and \<open>UUID(text)\<close>.
\<close>

section \<open>Dates\<close>

definition days_from_civil :: "int \<Rightarrow> int \<Rightarrow> int \<Rightarrow> int" where
  "days_from_civil y0 m d =
     (let y = (if m \<le> 2 then y0 - 1 else y0);
          yoe = y mod 400;
          doy = (153 * (if m > 2 then m - 3 else m + 9) + 2) div 5 + d - 1
      in y div 400 * 146097 + yoe * 365 + yoe div 4 - yoe div 100 + doy - 719468)"

lemma civil_day:
  assumes "civil_from_days z = (yy, mm, dd)"
  shows "days_from_civil yy mm dd = z" "1 \<le> mm" "mm \<le> 12" "1 \<le> dd" "dd \<le> 31"
proof -
  define era where "era = (z + 719468) div 146097"
  define doe where "doe = (z + 719468) mod 146097"
  define c where "c = min 3 (doe div 36524)"
  define doc where "doc = doe - 36524 * c"
  define q where "q = doc div 1461"
  define doq where "doq = doc mod 1461"
  define a where "a = min 3 (doq div 365)"
  define doy where "doy = doq - 365 * a"
  define mp where "mp = (5 * doy + 2) div 153"
  define d where "d = doy - (153 * mp + 2) div 5 + 1"
  define m where "m = (if mp < 10 then mp + 3 else mp - 9)"
  let ?y = "era * 400 + c * 100 + q * 4 + a"
  have z: "z = era * 146097 + doe - 719468" by (simp add: era_def doe_def)
  have doe: "0 \<le> doe" "doe < 146097" by (simp_all add: doe_def)
  then have c: "0 \<le> c" "c \<le> 3" "0 \<le> doc" "doc \<le> 36524" by (auto simp: c_def doc_def min_def)
  then have q: "0 \<le> q" "q \<le> 24" "0 \<le> doq" "doq < 1461" and doc: "doc = 1461 * q + doq" by (simp_all add: q_def doq_def)
  then have a: "0 \<le> a" "a \<le> 3" "0 \<le> doy" "doy \<le> 365" by (simp_all add: a_def doy_def min_def; linarith)+
  then have mp: "0 \<le> mp" "mp \<le> 11" unfolding mp_def by linarith+
  have eq: "civil_from_days z = (if m \<le> 2 then ?y + 1 else ?y, m, d)"
    unfolding civil_from_days_def Let_def era_def [symmetric] doe_def [symmetric] c_def [symmetric] doc_def [symmetric] q_def [symmetric]
      doq_def [symmetric] a_def [symmetric] doy_def [symmetric] mp_def [symmetric] d_def [symmetric] m_def [symmetric] by simp
  have "0 \<le> c * 100 + q * 4 + a" "c * 100 + q * 4 + a < 400" using c q a by linarith+
  then have "(c * 100 + q * 4 + a + era * 400) mod 400 = c * 100 + q * 4 + a" "(c * 100 + q * 4 + a + era * 400) div 400 = era" by simp_all
  then have y: "?y mod 400 = c * 100 + q * 4 + a" "?y div 400 = era" by (simp_all add: algebra_simps)
  have "(c * 100 + q * 4 + a) div 4 = c * 25 + q" "(c * 100 + q * 4 + a) div 100 = c" using q a by linarith+
  moreover have "(if m > 2 then m - 3 else m + 9) = mp" using mp by (simp add: m_def)
  ultimately have "days_from_civil (if m \<le> 2 then ?y + 1 else ?y) m d = era * 146097 + doe - 719468"
    using doc by (simp add: days_from_civil_def y d_def doy_def doc_def)
  moreover have ymd: "yy = (if m \<le> 2 then ?y + 1 else ?y)" "mm = m" "dd = d" using assms unfolding eq by blast+
  ultimately show "days_from_civil yy mm dd = z" by (simp only: z)
  have "0 \<le> doy - (153 * mp + 2) div 5" "doy - (153 * mp + 2) div 5 \<le> 30" unfolding mp_def using a by linarith+
  with mp show "1 \<le> mm" "mm \<le> 12" "1 \<le> dd" "dd \<le> 31" by (simp_all add: ymd m_def d_def)
qed

section \<open>Instants\<close>

fun decimal :: "nat \<Rightarrow> string \<Rightarrow> nat option" where
  "decimal acc [] = Some acc"
| "decimal acc (c # cs) = (case digit_value c of None \<Rightarrow> None | Some v \<Rightarrow> decimal (10 * acc + v) cs)"

text \<open>The texts read are those of the form \<open>YYYY-MM-DDTHH:MM:SS[.ffffff]+00:00\<close>; the repository replaces the offset by UTC. A date is a
  date of the calendar if it is the date of its day number.\<close>

definition iso_error :: "string \<Rightarrow> PyError" where
  "iso_error s = ValueError (''Invalid isoformat string: '' @ py_repr s)"

definition iso_fields :: "string \<Rightarrow> (nat \<times> nat \<times> nat \<times> nat \<times> nat \<times> nat \<times> nat) option" where
  "iso_fields s =
     (case (decimal 0 (take 4 s), decimal 0 (take 2 (drop 5 s)), decimal 0 (take 2 (drop 8 s)), decimal 0 (take 2 (drop 11 s)),
        decimal 0 (take 2 (drop 14 s)), decimal 0 (take 2 (drop 17 s)), decimal 0 (if length s = 25 then [] else take 6 (drop 20 s))) of
        (Some y, Some m, Some d, Some h, Some mi, Some sec, Some us) \<Rightarrow> Some (y, m, d, h, mi, sec, us)
      | _ \<Rightarrow> None)"

definition iso_shape :: "string \<Rightarrow> bool" where
  "iso_shape s \<longleftrightarrow> (length s = 25 \<or> length s = 32 \<and> s ! 19 = CHR ''.'') \<and> s ! 4 = CHR ''-'' \<and> s ! 7 = CHR ''-'' \<and> s ! 10 = CHR ''T'' \<and>
     s ! 13 = CHR '':'' \<and> s ! 16 = CHR '':'' \<and> drop (length s - 6) s = ''+00:00''"

definition fromisoformat :: "string \<Rightarrow> PyError + datetime" where
  "fromisoformat s =
     (if iso_shape s then
        (case iso_fields s of
           None \<Rightarrow> Inl (iso_error s)
         | Some (y, m, d, h, mi, sec, us) \<Rightarrow>
             (if 1 \<le> y \<and> civil_from_days (days_from_civil (int y) (int m) (int d)) = (int y, int m, int d) \<and> h < 24 \<and> mi < 60 \<and> sec < 60
              then Inr (days_from_civil (int y) (int m) (int d) * 86400000000 + (int h * 3600 + int mi * 60 + int sec) * 1000000 + int us)
              else Inl (iso_error s)))
      else Inl (iso_error s))"

text \<open>The instants of \<open>datetime\<close>.\<close>

definition datetime_range :: "datetime \<Rightarrow> bool" where
  "datetime_range t \<longleftrightarrow> 1 \<le> fst (civil_from_days (t div 86400000000)) \<and> fst (civil_from_days (t div 86400000000)) \<le> 9999"

lemma decimal_append: "decimal acc (xs @ ys) = (case decimal acc xs of None \<Rightarrow> None | Some n \<Rightarrow> decimal n ys)"
  by (induction xs arbitrary: acc) (simp_all split: option.splits)

lemma decimal_zeros: "decimal 0 (replicate k (CHR ''0'')) = Some 0"
  by (induction k) (simp_all add: digit_value_def)

lemma decimal_str_nat: "decimal 0 (str_nat n) = Some n"
proof (induction n rule: str_nat.induct)
  case (1 n)
  show ?case
  proof (cases "n < 10")
    case True
    then show ?thesis by (subst str_nat.simps) (simp add: digit_value_char)
  next
    case False
    with 1 have "decimal 0 (str_nat (n div 10)) = Some (n div 10)" by simp
    with False show ?thesis by (subst str_nat.simps) (simp add: decimal_append digit_value_char)
  qed
qed

lemma length_str_nat: "n < 10 ^ Suc k \<Longrightarrow> length (str_nat n) \<le> Suc k"
proof (induction k arbitrary: n)
  case (Suc k)
  show ?case
  proof (cases "n < 10")
    case False
    have "n div 10 < 10 ^ Suc k" using Suc.prems by (simp add: less_mult_imp_div_less)
    from Suc.IH [OF this] False show ?thesis by (subst str_nat.simps) simp
  qed (subst str_nat.simps, simp)
qed (subst str_nat.simps, simp)

lemma padded:
  assumes "0 \<le> v" and "v < 10 ^ Suc k"
  shows "length (pad_left (Suc k) (str_int v)) = Suc k" "decimal 0 (pad_left (Suc k) (str_int v)) = Some (nat v)"
proof -
  have "nat v < 10 ^ Suc k" using assms by (simp add: nat_less_iff)
  then show "length (pad_left (Suc k) (str_int v)) = Suc k" using assms(1) length_str_nat [of "nat v" k] by (simp add: pad_left_def str_int_def)
  show "decimal 0 (pad_left (Suc k) (str_int v)) = Some (nat v)"
    using assms(1) by (simp add: pad_left_def str_int_def decimal_append decimal_zeros decimal_str_nat)
qed

lemma iso_parts:
  assumes "length y = 4" "length m = 2" "length d = 2" "length h = 2" "length mi = 2" "length sec = 2"
    "decimal 0 y = Some y'" "decimal 0 m = Some m'" "decimal 0 d = Some d'" "decimal 0 h = Some h'" "decimal 0 mi = Some mi'" "decimal 0 sec = Some sec'"
    "us = [] \<and> us' = 0 \<or> (\<exists>f. us = CHR ''.'' # f \<and> length f = 6 \<and> decimal 0 f = Some us')"
  defines "s \<equiv> y @ ''-'' @ m @ ''-'' @ d @ ''T'' @ h @ '':'' @ mi @ '':'' @ sec @ us @ ''+00:00''"
  shows "iso_shape s" "iso_fields s = Some (y', m', d', h', mi', sec', us')"
proof -
  have us: "length us = 0 \<and> us' = 0 \<or> length us = 7 \<and> us ! 0 = CHR ''.'' \<and> decimal 0 (drop 1 us) = Some us'" using assms(13) by auto
  have len: "length s = 25 + length us" using assms(1-6) by (simp add: s_def)
  show "iso_shape s" using us len assms(1-6) by (auto simp: iso_shape_def s_def nth_append)
  have parts: "take 4 s = y" "take 2 (drop 5 s) = m" "take 2 (drop 8 s) = d" "take 2 (drop 11 s) = h" "take 2 (drop 14 s) = mi" "take 2 (drop 17 s) = sec"
    using assms(1-6) by (simp_all add: s_def)
  have "decimal 0 (if length s = 25 then [] else take 6 (drop 20 s)) = Some us'"
    using us len assms(1-6) by (auto simp: s_def drop_Cons')
  then show "iso_fields s = Some (y', m', d', h', mi', sec', us')"
    using assms(7-12) by (simp add: iso_fields_def parts)
qed


lemma fromisoformat_fields:
  assumes "iso_shape s" and "iso_fields s = Some (nat y, nat m, nat d, nat h, nat mi, nat sec, nat us)"
    and "1 \<le> y" "0 \<le> m" "0 \<le> d" "0 \<le> h" "h < 24" "0 \<le> mi" "mi < 60" "0 \<le> sec" "sec < 60" "0 \<le> us"
    and "civil_from_days z = (y, m, d)" "days_from_civil y m d = z"
  shows "fromisoformat s = Inr (z * 86400000000 + (h * 3600 + mi * 60 + sec) * 1000000 + us)"
  using assms by (simp add: fromisoformat_def nat_less_iff nat_le_iff Suc_le_eq)

theorem isoformat_back:
  assumes "datetime_range t"
  shows "fromisoformat (isoformat t) = Inr t"
proof -
  define us where "us = t mod 86400000000"
  define secs where "secs = us div 1000000"
  define micro where "micro = us mod 1000000"
  obtain y m d where civil: "civil_from_days (t div 86400000000) = (y, m, d)" by (cases "civil_from_days (t div 86400000000)") auto
  note day = civil_day [OF civil]
  have us: "0 \<le> us" "us < 86400000000" by (simp_all add: us_def)
  then have secs: "0 \<le> secs" "secs < 86400" "0 \<le> micro" "micro < 1000000" by (simp_all add: secs_def micro_def)
  have y: "1 \<le> y" "y \<le> 9999" using assms civil by (simp_all add: datetime_range_def)
  have iso: "isoformat t = pad_left 4 (str_int y) @ ''-'' @ pad_left 2 (str_int m) @ ''-'' @ pad_left 2 (str_int d) @ ''T'' @
      pad_left 2 (str_int (secs div 3600)) @ '':'' @ pad_left 2 (str_int (secs div 60 mod 60)) @ '':'' @ pad_left 2 (str_int (secs mod 60)) @
      (if micro = 0 then [] else ''.'' @ pad_left 6 (str_int micro)) @ ''+00:00''"
    by (simp add: isoformat_def Let_def civil us_def secs_def micro_def)
  have p4: "length (pad_left 4 (str_int y)) = 4" "decimal 0 (pad_left 4 (str_int y)) = Some (nat y)"
    using padded [of y 3] y by (simp_all add: numeral_eq_Suc)
  have p2: "length (pad_left 2 (str_int v)) = 2" "decimal 0 (pad_left 2 (str_int v)) = Some (nat v)" if "0 \<le> v" "v \<le> 99" for v
    using padded [of v 1] that by (simp_all add: numeral_2_eq_2)
  have p6: "length (pad_left 6 (str_int micro)) = 6" "decimal 0 (pad_left 6 (str_int micro)) = Some (nat micro)"
    using padded [of micro 5] secs by (simp_all add: numeral_eq_Suc)
  have v: "0 \<le> m" "m \<le> 99" "0 \<le> d" "d \<le> 99" "0 \<le> secs div 3600" "secs div 3600 \<le> 99" "0 \<le> secs div 60 mod 60" "secs div 60 mod 60 \<le> 99"
    "0 \<le> secs mod 60" "secs mod 60 \<le> 99" "secs div 3600 < 24" using day secs by auto
  have frac: "(if micro = 0 then [] else ''.'' @ pad_left 6 (str_int micro)) = [] \<and> nat micro = 0 \<or>
      (\<exists>f. (if micro = 0 then [] else ''.'' @ pad_left 6 (str_int micro)) = CHR ''.'' # f \<and> length f = 6 \<and> decimal 0 f = Some (nat micro))"
    using p6 by simp
  note parts = iso_parts [OF p4(1) p2(1) [OF v(1,2)] p2(1) [OF v(3,4)] p2(1) [OF v(5,6)] p2(1) [OF v(7,8)] p2(1) [OF v(9,10)]
    p4(2) p2(2) [OF v(1,2)] p2(2) [OF v(3,4)] p2(2) [OF v(5,6)] p2(2) [OF v(7,8)] p2(2) [OF v(9,10)] frac, folded iso]
  have "secs div 3600 * 3600 + secs div 60 mod 60 * 60 + secs mod 60 = secs"
  proof -
    have "secs div 3600 = secs div 60 div 60" using zdiv_zmult2_eq [of 60 secs 60] by simp
    moreover have "p * 3600 + u * 60 + r = s" if "s = q * 60 + r" "q = p * 60 + u" for p q r s u :: int using that by simp
    from this [OF _ _, of secs "secs div 60" "secs mod 60" "secs div 60 div 60" "secs div 60 mod 60"]
    have "secs div 60 div 60 * 3600 + secs div 60 mod 60 * 60 + secs mod 60 = secs" by simp
    ultimately show ?thesis by simp
  qed
  moreover have "secs * 1000000 + micro = us" "t div 86400000000 * 86400000000 + us = t" by (simp_all add: secs_def micro_def us_def)
  ultimately have "t div 86400000000 * 86400000000 + (secs div 3600 * 3600 + secs div 60 mod 60 * 60 + secs mod 60) * 1000000 + micro = t" by simp
  with fromisoformat_fields [OF parts y(1) v(1,3,5,11,7) _ v(9) _ secs(3) civil day(1)] show ?thesis by simp
qed

section \<open>UUIDs\<close>

definition hex_digit :: "char \<Rightarrow> nat option" where
  "hex_digit c = (let n = (of_char c :: nat) in
     if 48 \<le> n \<and> n \<le> 57 then Some (n - 48) else if 97 \<le> n \<and> n \<le> 102 then Some (n - 87) else if 65 \<le> n \<and> n \<le> 70 then Some (n - 55) else None)"

fun hexadecimal :: "int \<Rightarrow> string \<Rightarrow> int option" where
  "hexadecimal acc [] = Some acc"
| "hexadecimal acc (c # cs) = (case hex_digit c of None \<Rightarrow> None | Some v \<Rightarrow> hexadecimal (16 * acc + int v) cs)"

text \<open>\<open>UUID(hex)\<close> drops the hyphens and reads 32 hexadecimal digits. The prefixes and braces it also drops do not occur.\<close>

definition UUID :: "string \<Rightarrow> PyError + uuid" where
  "UUID s = (let h = filter (\<lambda>c. c \<noteq> CHR ''-'') s
     in if length h \<noteq> 32 then Inl (ValueError ''badly formed hexadecimal UUID string'')
        else (case hexadecimal 0 h of None \<Rightarrow> Inl (ValueError ''invalid literal for int() with base 16'') | Some n \<Rightarrow> Inr (word_of_int n)))"

lemma hexadecimal_append: "hexadecimal acc (xs @ ys) = (case hexadecimal acc xs of None \<Rightarrow> None | Some n \<Rightarrow> hexadecimal n ys)"
  by (induction xs arbitrary: acc) (simp_all split: option.splits)

lemma hex_digit_char: "n < 16 \<Longrightarrow> hex_digit (hex_char n) = Some n \<and> hex_char n \<noteq> CHR ''-''"
proof -
  assume "n < 16"
  then have "n \<in> set [0..<16]" by simp
  moreover have "\<forall>n \<in> set [0..<16]. hex_digit (hex_char n) = Some n \<and> hex_char n \<noteq> CHR ''-''" by code_simp
  ultimately show ?thesis by blast
qed

lemma hexadecimal_fixed: "0 \<le> n \<Longrightarrow> n < 16 ^ k \<Longrightarrow> hexadecimal 0 (hex_fixed k n) = Some n"
proof (induction k arbitrary: n)
  case (Suc k)
  have "n div 16 < 16 ^ k" using Suc.prems by (simp add: div_less_iff_less_mult mult.commute)
  with Suc show ?case by (simp add: hexadecimal_append hex_digit_char nat_less_iff)
qed simp

lemma hex_fixed_no_hyphen: "filter (\<lambda>c. c \<noteq> CHR ''-'') (hex_fixed k n) = hex_fixed k n"
  by (induction k arbitrary: n) (simp_all add: hex_digit_char nat_less_iff)

lemma UUID_back [simp]: "UUID (uuid_str u) = Inr u"
proof -
  define h where "h = hex_fixed 32 (uint u)"
  have keep: "filter (\<lambda>c. c \<noteq> CHR ''-'') h = h" by (simp add: h_def hex_fixed_no_hyphen)
  then have all: "\<forall>c \<in> set h. c \<noteq> CHR ''-''" by (simp only: filter_id_conv)
  have sub: "filter (\<lambda>c. c \<noteq> CHR ''-'') (take n (drop k h)) = take n (drop k h)" for n k
    using all by (auto dest: in_set_dropD in_set_takeD intro: filter_True)
  have d: "filter (\<lambda>c. c \<noteq> CHR ''-'') (drop k h) = drop k h" for k
    using all by (auto dest: in_set_dropD intro: filter_True)
  have t: "filter (\<lambda>c. c \<noteq> CHR ''-'') (take k h) = take k h" for k
    using all by (auto dest: in_set_takeD intro: filter_True)
  have "take 8 h @ take 4 (drop 8 h) @ take 4 (drop 12 h) @ take 4 (drop 16 h) @ drop 20 h = h"
    using append_take_drop_id [of 8 h] append_take_drop_id [of 4 "drop 8 h"] append_take_drop_id [of 4 "drop 12 h"] append_take_drop_id [of 4 "drop 16 h"]
    by (simp del: append_take_drop_id)
  then have "filter (\<lambda>c. c \<noteq> CHR ''-'') (uuid_str u) = h"
    by (simp add: uuid_str_def Let_def h_def [symmetric] sub d t)
  moreover have "hexadecimal 0 h = Some (uint u)"
    unfolding h_def using uint_lt2p [of u] by (intro hexadecimal_fixed) simp_all
  ultimately show ?thesis by (simp add: UUID_def h_def)
qed

end
