(* ===== verification/Campaign_Repository.thy ===== *)
theory Campaign_Repository
  imports Campaign_Service Timestamps
begin

text \<open>
  The PostgreSQL repositories of \<open>campaignexecution\<close>
  (\<open>campaignexecution/infrastructure/persistence/repositories\<close>, \<open>models/execution_models.py\<close>): rows of executions, of task records and of
  safety monitors, with JSON columns, over a database engine that is an argument (\<open>campaign_engine\<close>, with \<open>campaign_engine_laws\<close>).

  The tracks, the checkpoints and the active branch path of an execution have no columns. A JSON value that does not have the type of
  the field it is read into, which the repositories never write, raises \<open>TypeError\<close> in the model.
\<close>

section \<open>Rows\<close>

record TaskGraphExecutionModel =
  xm_id :: uuid
  xm_tenant_id :: uuid
  xm_campaign_instance_id :: uuid
  xm_campaign_id :: uuid
  xm_engagement_id :: uuid
  xm_graph_id :: uuid
  xm_graph_version :: string
  xm_state :: string
  xm_policy_snapshot_json :: json
  xm_pending_approval_gate_json :: "json option"
  xm_objective_states_json :: json
  xm_row_version :: int

record TaskExecutionRecordModel =
  rm_id :: uuid
  rm_execution_id :: uuid
  rm_task_id :: uuid
  rm_state :: string
  rm_outcome :: "string option"
  rm_operation_id :: "uuid option"
  rm_operation_tenant_id :: "uuid option"
  rm_dispatched_at :: "datetime option"
  rm_completed_at :: "datetime option"
  rm_failure_reason :: "string option"
  rm_is_rollback_task :: bool

record CampaignSafetyMonitorModel =
  mm_id :: uuid
  mm_tenant_id :: uuid
  mm_campaign_instance_id :: uuid
  mm_campaign_id :: uuid
  mm_monitor_state :: string
  mm_auto_abort_triggered :: bool
  mm_active_operation_ids_json :: json
  mm_policy_snapshot_json :: json
  mm_row_version :: int

record ('e, 'r, 'm) campaign_database =
  cb_executions :: 'e
  cb_records :: 'r
  cb_monitors :: 'm

record ('e, 'r, 'm, 'x) campaign_engine =
  ce_executions :: "(TaskGraphExecutionModel, 'e) table"
  ce_records :: "(TaskExecutionRecordModel, 'r) table"
  ce_monitors :: "(CampaignSafetyMonitorModel, 'm) table"
  ce_multiple_results :: 'x
  ce_integrity_error :: 'x
  ce_commit :: "('e, 'r, 'm) campaign_database \<Rightarrow> 'x + ('e, 'r, 'm) campaign_database"
  ce_uuid_of :: "EntityId \<Rightarrow> uuid"
  ce_from_uuid :: "uuid \<Rightarrow> EntityId"
  ce_jsonb :: "json \<Rightarrow> json"

definition campaign_engine_laws :: "('e, 'r, 'm, 'x) campaign_engine \<Rightarrow> bool" where
  "campaign_engine_laws en \<longleftrightarrow> table_laws (ce_executions en) \<and> table_laws (ce_records en) \<and> table_laws (ce_monitors en) \<and>
     (\<forall>d d'. ce_commit en d = Inr d' \<longrightarrow> d' = d) \<and> (\<forall>u. ce_uuid_of en (ce_from_uuid en u) = u) \<and>
     (\<forall>v. json_same v (ce_jsonb en v)) \<and> (\<forall>v kvs. ce_jsonb en v = JObject kvs \<longrightarrow> distinct (map fst kvs))"

section \<open>JSON columns\<close>

definition json_type_error :: PyError where
  "json_type_error = TypeError ''value of another type''"

definition as_object :: "json \<Rightarrow> PyError + (string \<times> json) list" where
  "as_object v = (case v of JObject kvs \<Rightarrow> Inr kvs | _ \<Rightarrow> Inl json_type_error)"

definition as_text :: "json \<Rightarrow> PyError + string" where
  "as_text v = (case v of JStr s \<Rightarrow> Inr s | _ \<Rightarrow> Inl json_type_error)"

definition as_number :: "json \<Rightarrow> PyError + int" where
  "as_number v = (case v of JInt i \<Rightarrow> Inr i | _ \<Rightarrow> Inl json_type_error)"

definition as_flag :: "json \<Rightarrow> PyError + bool" where
  "as_flag v = (case v of JBool b \<Rightarrow> Inr b | _ \<Rightarrow> Inl json_type_error)"

text \<open>\<open>data.get(key, default)\<close>.\<close>

definition json_get :: "(string \<times> json) list \<Rightarrow> string \<Rightarrow> json \<Rightarrow> json" where
  "json_get kvs key otherwise = (case map_of kvs key of None \<Rightarrow> otherwise | Some v \<Rightarrow> v)"

definition policy_from_json :: "json \<Rightarrow> PyError + PolicySnapshot" where
  "policy_from_json data =
     sum_bind (as_object data) (\<lambda>kvs.
     sum_bind (as_number (json_get kvs ''max_concurrent_actions'' (JInt 10))) (\<lambda>maximum.
     sum_bind (as_flag (json_get kvs ''auto_abort_on_detection'' (JBool False))) (\<lambda>on_detection.
     sum_bind (as_flag (json_get kvs ''auto_abort_on_objective_failure'' (JBool False))) (\<lambda>on_failure.
     sum_bind (as_text (json_get kvs ''blast_radius_ceiling'' (JStr ''Medium''))) (\<lambda>ceiling.
     Inr \<lparr>ps_max_concurrent_actions = maximum, ps_auto_abort_on_detection = on_detection,
       ps_auto_abort_on_objective_failure = on_failure, ps_blast_radius_ceiling = ceiling\<rparr>)))))"

definition policy_to_json :: "PolicySnapshot \<Rightarrow> json" where
  "policy_to_json p = JObject
     [(''max_concurrent_actions'', JInt (ps_max_concurrent_actions p)), (''auto_abort_on_detection'', JBool (ps_auto_abort_on_detection p)),
      (''auto_abort_on_objective_failure'', JBool (ps_auto_abort_on_objective_failure p)), (''blast_radius_ceiling'', JStr (ps_blast_radius_ceiling p))]"

definition gate_to_json :: "PendingApprovalGate \<Rightarrow> json" where
  "gate_to_json g = JObject
     [(''task_id'', JStr (uuid_str (pg_task_id g))), (''gate_created_at'', JStr (isoformat (pg_gate_created_at g))),
      (''gate_timeout_seconds'', JInt (pg_gate_timeout_seconds g)), (''required_approver_role'', JStr (pg_required_approver_role g)),
      (''default_on_timeout'', JStr (pg_default_on_timeout g))]"

definition gate_from_json :: "json \<Rightarrow> PyError + PendingApprovalGate" where
  "gate_from_json data =
     sum_bind (as_object data) (\<lambda>kvs.
     sum_bind (sum_bind (sum_bind (json_key kvs ''task_id'') as_text) UUID) (\<lambda>task_id.
     sum_bind (sum_bind (sum_bind (json_key kvs ''gate_created_at'') as_text) fromisoformat) (\<lambda>created.
     sum_bind (sum_bind (json_key kvs ''gate_timeout_seconds'') as_number) (\<lambda>timeout.
     sum_bind (sum_bind (json_key kvs ''required_approver_role'') as_text) (\<lambda>role.
     sum_bind (sum_bind (json_key kvs ''default_on_timeout'') as_text) (\<lambda>default_on_timeout.
     Inr \<lparr>pg_task_id = task_id, pg_gate_created_at = created, pg_gate_timeout_seconds = timeout, pg_required_approver_role = role,
       pg_default_on_timeout = default_on_timeout\<rparr>))))))"

text \<open>\<open>if row.pending_approval_gate_json\<close>.\<close>

definition gate_of_column :: "json option \<Rightarrow> PyError + PendingApprovalGate option" where
  "gate_of_column column = (case column of
       None \<Rightarrow> Inr None
     | Some v \<Rightarrow> (if json_truth v then sum_bind (gate_from_json v) (\<lambda>g. Inr (Some g)) else Inr None))"

definition objectives_to_json :: "ObjectiveStateMap \<Rightarrow> json" where
  "objectives_to_json states = JObject (map (\<lambda>(k, v). (k, JStr v)) states)"

definition objectives_from_json :: "json \<Rightarrow> PyError + ObjectiveStateMap" where
  "objectives_from_json data =
     sum_bind (if json_truth data then as_object data else Inr []) (\<lambda>kvs.
     sum_map (\<lambda>(k, v). sum_bind (as_text v) (\<lambda>s. Inr (k, s))) kvs)"

definition ids_from_json :: "json \<Rightarrow> PyError + string list" where
  "ids_from_json data =
     (if json_truth data then (case data of JList vs \<Rightarrow> sum_map as_text vs | _ \<Rightarrow> Inl json_type_error) else Inr [])"

section \<open>Executions\<close>

definition ExecutionState_of :: "string \<Rightarrow> PyError + ExecutionState" where
  "ExecutionState_of = enum_of ''ExecutionState'' ExecutionState_value
     [INITIALIZING, ExecutionState.RUNNING, WAITING_FOR_APPROVAL, PAUSED, ROLLING_BACK, ExecutionState.COMPLETED, ExecutionState.FAILED, ExecutionState.ABORTED]"

definition TaskExecutionState_of :: "string \<Rightarrow> PyError + TaskExecutionState" where
  "TaskExecutionState_of = enum_of ''TaskExecutionState'' TaskExecutionState_value
     [PENDING, READY_TO_DISPATCH, DISPATCHING, TaskExecutionState.RUNNING, TaskExecutionState.COMPLETED, TaskExecutionState.FAILED,
      TaskExecutionState.SKIPPED, ROLLED_BACK, TaskExecutionState.TIMED_OUT]"

definition outcome_of_column :: "string \<Rightarrow> PyError + TaskOutcome" where
  "outcome_of_column = enum_of ''TaskOutcome'' TaskOutcome_value
     [SUCCESS, FAILURE, PARTIAL_SUCCESS, TaskOutcome.TIMED_OUT, TaskOutcome.SKIPPED, TaskOutcome.ABORTED]"

definition record_from_model :: "('e, 'r, 'm, 'x) campaign_engine \<Rightarrow> TaskExecutionRecordModel \<Rightarrow> PyError + TaskExecutionRecord" where
  "record_from_model en m =
     sum_bind (TaskExecutionState_of (rm_state m)) (\<lambda>state.
     sum_bind (when_truthy (rm_outcome m) outcome_of_column) (\<lambda>outcome.
     Inr \<lparr>tr_record_id = rm_id m, tr_task_id = rm_task_id m, tr_state = state, tr_outcome = outcome,
       tr_operation_ref = (case (rm_operation_id m, rm_operation_tenant_id m) of
           (Some i, Some t) \<Rightarrow> Some \<lparr>op_operation_id = i, op_tenant_id = ce_from_uuid en t\<rparr>
         | _ \<Rightarrow> None),
       tr_dispatched_at = rm_dispatched_at m, tr_completed_at = rm_completed_at m, tr_failure_reason = rm_failure_reason m,
       tr_is_rollback_task = rm_is_rollback_task m\<rparr>))"

definition record_update :: "('e, 'r, 'm, 'x) campaign_engine \<Rightarrow> TaskExecutionRecord \<Rightarrow> TaskExecutionRecordModel \<Rightarrow> TaskExecutionRecordModel" where
  "record_update en r m = m\<lparr>rm_state := TaskExecutionState_value (tr_state r), rm_outcome := map_option TaskOutcome_value (tr_outcome r),
     rm_operation_id := map_option op_operation_id (tr_operation_ref r),
     rm_operation_tenant_id := map_option (\<lambda>p. ce_uuid_of en (op_tenant_id p)) (tr_operation_ref r),
     rm_dispatched_at := tr_dispatched_at r, rm_completed_at := tr_completed_at r, rm_failure_reason := tr_failure_reason r\<rparr>"

definition record_to_model :: "('e, 'r, 'm, 'x) campaign_engine \<Rightarrow> TaskGraphExecution \<Rightarrow> TaskExecutionRecord \<Rightarrow> TaskExecutionRecordModel" where
  "record_to_model en x r =
     \<lparr>rm_id = tr_record_id r, rm_execution_id = ex_execution_id x, rm_task_id = tr_task_id r, rm_state = TaskExecutionState_value (tr_state r),
      rm_outcome = map_option TaskOutcome_value (tr_outcome r), rm_operation_id = map_option op_operation_id (tr_operation_ref r),
      rm_operation_tenant_id = map_option (\<lambda>p. ce_uuid_of en (op_tenant_id p)) (tr_operation_ref r),
      rm_dispatched_at = tr_dispatched_at r, rm_completed_at = tr_completed_at r, rm_failure_reason = tr_failure_reason r,
      rm_is_rollback_task = tr_is_rollback_task r\<rparr>"

definition execution_to_model :: "('e, 'r, 'm, 'x) campaign_engine \<Rightarrow> TaskGraphExecution \<Rightarrow> TaskGraphExecutionModel" where
  "execution_to_model en x =
     \<lparr>xm_id = ex_execution_id x, xm_tenant_id = ce_uuid_of en (ex_tenant_id x),
      xm_campaign_instance_id = ci_instance_id (ex_campaign_instance_ref x), xm_campaign_id = ci_campaign_id (ex_campaign_instance_ref x),
      xm_engagement_id = en_engagement_id (ex_engagement_ref x), xm_graph_id = gv_graph_id (ex_graph_version_ref x),
      xm_graph_version = gv_version_str (ex_graph_version_ref x), xm_state = ExecutionState_value (ex_state x),
      xm_policy_snapshot_json = ce_jsonb en (policy_to_json (ex_policy_snapshot x)),
      xm_pending_approval_gate_json = map_option (\<lambda>g. ce_jsonb en (gate_to_json g)) (ex_pending_approval_gate x),
      xm_objective_states_json = ce_jsonb en (objectives_to_json (ex_objective_states x)), xm_row_version = ex_version x\<rparr>"

definition execution_update :: "('e, 'r, 'm, 'x) campaign_engine \<Rightarrow> TaskGraphExecution \<Rightarrow> TaskGraphExecutionModel \<Rightarrow> TaskGraphExecutionModel" where
  "execution_update en x m = m\<lparr>xm_state := ExecutionState_value (ex_state x),
     xm_pending_approval_gate_json := map_option (\<lambda>g. ce_jsonb en (gate_to_json g)) (ex_pending_approval_gate x),
     xm_objective_states_json := ce_jsonb en (objectives_to_json (ex_objective_states x)), xm_row_version := ex_version x\<rparr>"

definition execution_from_row ::
  "('e, 'r, 'm, 'x) campaign_engine \<Rightarrow> TaskGraphExecutionModel \<Rightarrow> TaskExecutionRecord list \<Rightarrow> PyError + TaskGraphExecution" where
  "execution_from_row en m records =
     sum_bind (gate_of_column (xm_pending_approval_gate_json m)) (\<lambda>pending_gate.
     sum_bind (objectives_from_json (xm_objective_states_json m)) (\<lambda>objectives.
     sum_bind (policy_from_json (xm_policy_snapshot_json m)) (\<lambda>policy.
     sum_bind (ExecutionState_of (xm_state m)) (\<lambda>state.
     let tenant = ce_from_uuid en (xm_tenant_id m)
     in Inr \<lparr>ex_execution_id = xm_id m, ex_tenant_id = tenant,
       ex_campaign_instance_ref = \<lparr>ci_instance_id = xm_campaign_instance_id m, ci_campaign_id = xm_campaign_id m, ci_tenant_id = tenant\<rparr>,
       ex_graph_version_ref = \<lparr>gv_graph_id = xm_graph_id m, gv_version_str = xm_graph_version m\<rparr>,
       ex_engagement_ref = \<lparr>en_engagement_id = xm_engagement_id m, en_tenant_id = tenant\<rparr>,
       ex_policy_snapshot = policy, ex_state = state, ex_task_records = records, ex_tracks = [], ex_checkpoints = [],
       ex_objective_states = objectives, ex_pending_approval_gate = pending_gate, ex_active_branch_path = {},
       ex_version = xm_row_version m, ex_pending_events = []\<rparr>))))"

definition sync_record ::
  "('e, 'r, 'm, 'x) campaign_engine \<Rightarrow> TaskGraphExecution \<Rightarrow> TaskExecutionRecord \<Rightarrow> 'r \<Rightarrow> 'x + 'r" where
  "sync_record en x r t =
     sum_bind (scalar_one_or_none (ce_multiple_results en) (tb_select (ce_records en) (\<lambda>m. rm_id m = tr_record_id r) t)) (\<lambda>found.
     case found of
       None \<Rightarrow> insert_row (ce_records en) rm_id (ce_integrity_error en) (record_to_model en x r) t
     | Some _ \<Rightarrow> Inr (snd (tb_update (ce_records en) (\<lambda>m. rm_id m = tr_record_id r) (record_update en r) t)))"

primrec sync_records ::
  "('e, 'r, 'm, 'x) campaign_engine \<Rightarrow> TaskGraphExecution \<Rightarrow> TaskExecutionRecord list \<Rightarrow> 'r \<Rightarrow> 'x + 'r" where
  "sync_records en x [] t = Inr t"
| "sync_records en x (r # rs) t = sum_bind (sync_record en x r t) (sync_records en x rs)"

definition write_records ::
  "('e, 'r, 'm, 'x) campaign_engine \<Rightarrow> TaskGraphExecution \<Rightarrow> ('e, 'r, 'm) campaign_database
     \<Rightarrow> ('x campaign_error, unit, ('e, 'r, 'm) campaign_database) outcome" where
  "write_records en x db = (case sync_records en x (ex_task_records x) (cb_records db) of
       Inl e \<Rightarrow> Raise (ExternalFailure e) db
     | Inr t \<Rightarrow> Return () (db\<lparr>cb_records := t\<rparr>))"

definition execution_key :: "('e, 'r, 'm, 'x) campaign_engine \<Rightarrow> uuid \<Rightarrow> EntityId \<Rightarrow> TaskGraphExecutionModel \<Rightarrow> bool" where
  "execution_key en execution_id tenant_id m \<longleftrightarrow> xm_id m = execution_id \<and> xm_tenant_id m = ce_uuid_of en tenant_id"

definition save_execution ::
  "('e, 'r, 'm, 'x) campaign_engine \<Rightarrow> TaskGraphExecution \<Rightarrow> ('e, 'r, 'm) campaign_database
     \<Rightarrow> ('x campaign_error, unit, ('e, 'r, 'm) campaign_database) outcome" where
  "save_execution en x db =
     (let key = execution_key en (ex_execution_id x) (ex_tenant_id x);
          expected = max (ex_version x - 1) 1
      in case scalar_one_or_none (ce_multiple_results en) (tb_select (ce_executions en) key (cb_executions db)) of
           Inl e \<Rightarrow> Raise (ExternalFailure e) db
         | Inr None \<Rightarrow>
             (case insert_row (ce_executions en) xm_id (ce_integrity_error en) (execution_to_model en x) (cb_executions db) of
                Inl e \<Rightarrow> Raise (ExternalFailure e) db
              | Inr t \<Rightarrow> write_records en x (db\<lparr>cb_executions := t\<rparr>))
         | Inr (Some _) \<Rightarrow>
             (case tb_update (ce_executions en) (\<lambda>m. key m \<and> xm_row_version m = expected) (execution_update en x) (cb_executions db) of
                (updated, t) \<Rightarrow>
                  (if updated = 0 then Raise (DomainFailure (ConcurrencyConflict (uuid_str (ex_execution_id x)))) (db\<lparr>cb_executions := t\<rparr>)
                   else if updated = 1 then write_records en x (db\<lparr>cb_executions := t\<rparr>)
                   else Raise (ExternalFailure (ce_multiple_results en)) (db\<lparr>cb_executions := t\<rparr>))))"

definition python :: "PyError + 'a \<Rightarrow> 'x campaign_error + 'a" where
  "python = map_sum PythonFailure id"

definition one_execution ::
  "('e, 'r, 'm, 'x) campaign_engine \<Rightarrow> (TaskGraphExecutionModel \<Rightarrow> bool) \<Rightarrow> ('e, 'r, 'm) campaign_database \<Rightarrow> 'x campaign_error + TaskGraphExecution option" where
  "one_execution en p db =
     sum_bind (map_sum ExternalFailure id (scalar_one_or_none (ce_multiple_results en) (tb_select (ce_executions en) p (cb_executions db)))) (\<lambda>found.
     if_some found (\<lambda>row. python (
       sum_bind (sum_map (record_from_model en) (tb_select (ce_records en) (\<lambda>r. rm_execution_id r = xm_id row) (cb_records db))) (\<lambda>records.
       execution_from_row en row records))))"

definition find_by_id ::
  "('e, 'r, 'm, 'x) campaign_engine \<Rightarrow> uuid \<Rightarrow> EntityId \<Rightarrow> ('e, 'r, 'm) campaign_database \<Rightarrow> 'x campaign_error + TaskGraphExecution option" where
  "find_by_id en execution_id tenant_id = one_execution en (execution_key en execution_id tenant_id)"

definition find_by_campaign_instance ::
  "('e, 'r, 'm, 'x) campaign_engine \<Rightarrow> uuid \<Rightarrow> EntityId \<Rightarrow> ('e, 'r, 'm) campaign_database \<Rightarrow> 'x campaign_error + TaskGraphExecution option" where
  "find_by_campaign_instance en instance_id tenant_id =
     one_execution en (\<lambda>m. xm_campaign_instance_id m = instance_id \<and> xm_tenant_id m = ce_uuid_of en tenant_id)"

definition find_pending_dispatch_by_tenant ::
  "('e, 'r, 'm, 'x) campaign_engine \<Rightarrow> EntityId \<Rightarrow> ('e, 'r, 'm) campaign_database \<Rightarrow> 'x campaign_error + TaskExecutionRecord list" where
  "find_pending_dispatch_by_tenant en tenant_id db =
     python (sum_map (record_from_model en) (tb_select (ce_records en) (\<lambda>r. rm_state r = TaskExecutionState_value READY_TO_DISPATCH \<and>
       tb_select (ce_executions en) (\<lambda>m. xm_id m = rm_execution_id r \<and> xm_tenant_id m = ce_uuid_of en tenant_id) (cb_executions db) \<noteq> []) (cb_records db)))"

section \<open>Monitors\<close>

definition MonitorState_of :: "string \<Rightarrow> PyError + MonitorState" where
  "MonitorState_of = enum_of ''MonitorState'' MonitorState_value [MonitorState.ACTIVE, MonitorState.ABORTED, RELEASED]"

definition monitor_to_model :: "('e, 'r, 'm, 'x) campaign_engine \<Rightarrow> CampaignSafetyMonitor \<Rightarrow> CampaignSafetyMonitorModel" where
  "monitor_to_model en m =
     \<lparr>mm_id = sm_monitor_id m, mm_tenant_id = ce_uuid_of en (sm_tenant_id m),
      mm_campaign_instance_id = ci_instance_id (sm_campaign_instance_ref m), mm_campaign_id = ci_campaign_id (sm_campaign_instance_ref m),
      mm_monitor_state = MonitorState_value (sm_monitor_state m), mm_auto_abort_triggered = sm_auto_abort_triggered m,
      mm_active_operation_ids_json = ce_jsonb en (JList (map JStr (sm_active_operation_ids m))),
      mm_policy_snapshot_json = ce_jsonb en (policy_to_json (sm_policy_snapshot m)), mm_row_version = sm_version m\<rparr>"

definition monitor_update :: "('e, 'r, 'm, 'x) campaign_engine \<Rightarrow> CampaignSafetyMonitor \<Rightarrow> CampaignSafetyMonitorModel \<Rightarrow> CampaignSafetyMonitorModel" where
  "monitor_update en m row = row\<lparr>mm_monitor_state := MonitorState_value (sm_monitor_state m), mm_auto_abort_triggered := sm_auto_abort_triggered m,
     mm_active_operation_ids_json := ce_jsonb en (JList (map JStr (sm_active_operation_ids m))), mm_row_version := sm_version m\<rparr>"

definition monitor_from_row :: "('e, 'r, 'm, 'x) campaign_engine \<Rightarrow> CampaignSafetyMonitorModel \<Rightarrow> PyError + CampaignSafetyMonitor" where
  "monitor_from_row en row =
     sum_bind (policy_from_json (mm_policy_snapshot_json row)) (\<lambda>policy.
     sum_bind (MonitorState_of (mm_monitor_state row)) (\<lambda>state.
     sum_bind (ids_from_json (mm_active_operation_ids_json row)) (\<lambda>ids.
     let tenant = ce_from_uuid en (mm_tenant_id row)
     in Inr \<lparr>sm_monitor_id = mm_id row, sm_tenant_id = tenant,
       sm_campaign_instance_ref = \<lparr>ci_instance_id = mm_campaign_instance_id row, ci_campaign_id = mm_campaign_id row, ci_tenant_id = tenant\<rparr>,
       sm_policy_snapshot = policy, sm_monitor_state = state, sm_auto_abort_triggered = mm_auto_abort_triggered row,
       sm_active_operation_ids = ids, sm_version = mm_row_version row, sm_pending_events = []\<rparr>)))"

text \<open>An INSERT of a monitor checks the primary key and the unique column \<open>campaign_instance_id\<close>.\<close>

definition insert_monitor :: "('e, 'r, 'm, 'x) campaign_engine \<Rightarrow> CampaignSafetyMonitorModel \<Rightarrow> 'm \<Rightarrow> 'x + 'm" where
  "insert_monitor en row t =
     (if tb_select (ce_monitors en) (\<lambda>m. mm_campaign_instance_id m = mm_campaign_instance_id row) t = []
      then insert_row (ce_monitors en) mm_id (ce_integrity_error en) row t else Inl (ce_integrity_error en))"

definition save_monitor ::
  "('e, 'r, 'm, 'x) campaign_engine \<Rightarrow> CampaignSafetyMonitor \<Rightarrow> ('e, 'r, 'm) campaign_database
     \<Rightarrow> ('x campaign_error, unit, ('e, 'r, 'm) campaign_database) outcome" where
  "save_monitor en m db =
     (let key = (\<lambda>row. mm_id row = sm_monitor_id m \<and> mm_tenant_id row = ce_uuid_of en (sm_tenant_id m));
          expected = max (sm_version m - 1) 1
      in case scalar_one_or_none (ce_multiple_results en) (tb_select (ce_monitors en) key (cb_monitors db)) of
           Inl e \<Rightarrow> Raise (ExternalFailure e) db
         | Inr None \<Rightarrow>
             (case insert_monitor en (monitor_to_model en m) (cb_monitors db) of
                Inl e \<Rightarrow> Raise (ExternalFailure e) db
              | Inr t \<Rightarrow> Return () (db\<lparr>cb_monitors := t\<rparr>))
         | Inr (Some _) \<Rightarrow>
             (case tb_update (ce_monitors en) (\<lambda>row. key row \<and> mm_row_version row = expected) (monitor_update en m) (cb_monitors db) of
                (updated, t) \<Rightarrow>
                  (if updated = 0 then Raise (DomainFailure (ConcurrencyConflict (uuid_str (sm_monitor_id m)))) (db\<lparr>cb_monitors := t\<rparr>)
                   else if updated = 1 then Return () (db\<lparr>cb_monitors := t\<rparr>)
                   else Raise (ExternalFailure (ce_multiple_results en)) (db\<lparr>cb_monitors := t\<rparr>))))"

definition find_monitor ::
  "('e, 'r, 'm, 'x) campaign_engine \<Rightarrow> uuid \<Rightarrow> EntityId \<Rightarrow> ('e, 'r, 'm) campaign_database \<Rightarrow> 'x campaign_error + CampaignSafetyMonitor option" where
  "find_monitor en instance_id tenant_id db =
     sum_bind (map_sum ExternalFailure id (scalar_one_or_none (ce_multiple_results en)
       (tb_select (ce_monitors en) (\<lambda>m. mm_campaign_instance_id m = instance_id \<and> mm_tenant_id m = ce_uuid_of en tenant_id) (cb_monitors db)))) (\<lambda>found.
     if_some found (\<lambda>row. python (monitor_from_row en row)))"

definition pg_campaign_repositories :: "('e, 'r, 'm, 'x) campaign_engine \<Rightarrow> (('e, 'r, 'm) campaign_database, 'x) campaign_repositories" where
  "pg_campaign_repositories en =
     \<lparr>ca_save_execution = save_execution en, ca_find_execution = find_by_id en, ca_find_execution_by_instance = find_by_campaign_instance en,
      ca_save_monitor = save_monitor en, ca_find_monitor = find_monitor en, ca_commit = ce_commit en\<rparr>"

end
