(* ===== verification/Campaign_Store.thy ===== *)
theory Campaign_Store
  imports Campaign_Repository
begin

text \<open>
  What the use cases of \<open>campaignexecution\<close> do to the stored executions and monitors. \<open>campaign_effect\<close> is the specification of one use
  case on the database: nothing, a new execution with its monitor, or calls of the aggregates on what was found, followed by their saves;
  \<open>campaign_perform_effect\<close> shows that every use case implements it, for all repositories and ports.
\<close>

section \<open>Calls\<close>

text \<open>A gate is created at an instant of \<open>datetime\<close>.\<close>

definition call_in_range :: "exec_call \<Rightarrow> bool" where
  "call_in_range c = (case c of Reach_Gate t g now \<Rightarrow> datetime_range (pg_gate_created_at g) | _ \<Rightarrow> True)"

definition reaches :: "TaskGraphExecution \<Rightarrow> TaskGraphExecution \<Rightarrow> bool" where
  "reaches x y \<longleftrightarrow> (\<exists>cs. (\<forall>c \<in> set cs. call_in_range c) \<and> y = history exec cs x)"

definition monitor_reaches :: "CampaignSafetyMonitor \<Rightarrow> CampaignSafetyMonitor \<Rightarrow> bool" where
  "monitor_reaches m n \<longleftrightarrow> (\<exists>cs. n = history exec_monitor cs m)"

lemma reaches_refl [simp]: "reaches x x"
  unfolding reaches_def by (rule exI [of _ "[]"]) simp

lemma reaches_trans: "reaches x y \<Longrightarrow> reaches y z \<Longrightarrow> reaches x z"
proof -
  assume "reaches x y" "reaches y z"
  then obtain cs ds where "\<forall>c \<in> set cs. call_in_range c" "y = history exec cs x" "\<forall>c \<in> set ds. call_in_range c" "z = history exec ds y"
    by (auto simp: reaches_def)
  then show ?thesis unfolding reaches_def by (intro exI [of _ "cs @ ds"]) (auto simp: history_append)
qed

lemma reaches_exec: "call_in_range c \<Longrightarrow> exec c x = Return () y \<Longrightarrow> reaches x y"
  unfolding reaches_def by (rule exI [of _ "[c]"]) simp

lemma monitor_reaches_refl [simp]: "monitor_reaches m m"
  unfolding monitor_reaches_def by (rule exI [of _ "[]"]) simp

lemma monitor_reaches_trans: "monitor_reaches x y \<Longrightarrow> monitor_reaches y z \<Longrightarrow> monitor_reaches x z"
  unfolding monitor_reaches_def by (metis history_append)

lemma monitor_reaches_exec: "exec_monitor c m = Return () n \<Longrightarrow> monitor_reaches m n"
  unfolding monitor_reaches_def by (rule exI [of _ "[c]"]) simp

lemma monitor_calls:
  "register_action t i now m = Return () n \<Longrightarrow> monitor_reaches m n" "release_action t i now m = Return () n \<Longrightarrow> monitor_reaches m n"
  "Safety_Monitor.trigger_auto_abort_on_detection t s now m = Return () n \<Longrightarrow> monitor_reaches m n" "release t now m = Return () n \<Longrightarrow> monitor_reaches m n"
  by (rule monitor_reaches_exec [of "Register_Action t i now"] monitor_reaches_exec [of "Release_Action t i now"]
    monitor_reaches_exec [of "Trigger_Auto_Abort t s now"] monitor_reaches_exec [of "Release t now"]; simp)+

lemma if_else_reaches:
  "(\<And>u z. a x = Return u z \<Longrightarrow> reaches x z) \<Longrightarrow> if_else c [a] [] x = Return () y \<Longrightarrow> reaches x y"
  by (cases "a x") (auto simp: if_else_def steps.simps split: if_splits)

lemma execution_calls:
  "Campaign_Execution.record_task_completion t i out now rs ss x = Return () y \<Longrightarrow> reaches x y"
  "Campaign_Execution.record_task_failure t i r now x = Return () y \<Longrightarrow> reaches x y"
  "record_task_dispatched t i op now x = Return () y \<Longrightarrow> reaches x y"
  "Campaign_Execution.evaluate_barrier t i is now x = Return () y \<Longrightarrow> reaches x y"
  "Campaign_Execution.grant_human_approval t a now x = Return () y \<Longrightarrow> reaches x y"
  "Campaign_Execution.deny_human_approval t a r now x = Return () y \<Longrightarrow> reaches x y"
  "pause t r now x = Return () y \<Longrightarrow> reaches x y" "resume t now x = Return () y \<Longrightarrow> reaches x y"
  "Campaign_Execution.initiate_rollback t r n now x = Return () y \<Longrightarrow> reaches x y"
  "record_task_rolled_back t i op now x = Return () y \<Longrightarrow> reaches x y" "complete_rollback t n now x = Return () y \<Longrightarrow> reaches x y"
  "complete t now x = Return () y \<Longrightarrow> reaches x y" "abort t r now x = Return () y \<Longrightarrow> reaches x y"
  "breach_safety_policy t b r now x = Return () y \<Longrightarrow> reaches x y" "start_execution_track t tr is now x = Return () y \<Longrightarrow> reaches x y"
  by (rule reaches_exec [of "Record_Task_Completion t i out now rs ss"] reaches_exec [of "Record_Task_Failure t i r now"]
    reaches_exec [of "Record_Task_Dispatched t i op now"] reaches_exec [of "Evaluate_Barrier t i is now"] reaches_exec [of "Grant_Approval t a now"]
    reaches_exec [of "Deny_Approval t a r now"] reaches_exec [of "Pause t r now"] reaches_exec [of "Resume t now"]
    reaches_exec [of "Initiate_Rollback t r n now"] reaches_exec [of "Record_Task_Rolled_Back t i op now"] reaches_exec [of "Complete_Rollback t n now"]
    reaches_exec [of "Complete t now"] reaches_exec [of "Abort t r now"] reaches_exec [of "Breach_Safety_Policy t b r now"]
    reaches_exec [of "Start_Track t tr is now"]; simp add: call_in_range_def)+

lemma coordinated_calls:
  "datetime_range (pg_gate_created_at g) \<Longrightarrow> handle_human_approval_gate t g now x = Return () y \<Longrightarrow> reaches x y"
  "Campaign_Execution.handle_approval_timeout t now x = Return r y \<Longrightarrow> reaches x y"
  "Campaign_Services.handle_kill_switch_triggered t now x = Return () y \<Longrightarrow> reaches x y"
  "handle_safety_breach t b s now x = Return () y \<Longrightarrow> reaches x y"
  "start_track t fr specs x = Return () y \<Longrightarrow> reaches x y" "end_rollback t now steps' x = Return () y \<Longrightarrow> reaches x y"
  subgoal by (rule reaches_exec [of "Reach_Gate t g now"]) (simp_all add: call_in_range_def handle_human_approval_gate_def)
  subgoal by (rule reaches_exec [of "Approval_Timeout t now"]) (simp_all add: call_in_range_def ignore_result_def)
  subgoal unfolding Campaign_Services.handle_kill_switch_triggered_def by (rule if_else_reaches [rotated]) (auto intro: execution_calls)
  subgoal premises p
  proof -
    from p obtain z where z: "breach_safety_policy t b s now x = Return () z"
      and y: "if_else (\<lambda>x. ex_state x = ExecutionState.RUNNING) [pause t (''Safety breach: '' @ b) now] [] z = Return () y"
      by (cases "breach_safety_policy t b s now x") (auto simp: handle_safety_breach_def steps.simps split: outcome.splits)
    have "reaches z y" by (rule if_else_reaches [OF _ y]) (auto intro: execution_calls)
    with z show ?thesis by (blast intro: reaches_trans execution_calls)
  qed
  subgoal unfolding start_track_def by (rule if_else_reaches [rotated]) (auto intro: execution_calls)
  subgoal unfolding end_rollback_def by (rule if_else_reaches [rotated]) (auto intro: execution_calls)
  done

section \<open>The effect of a use case\<close>

definition stored_all :: "('s, 'x) campaign_repositories \<Rightarrow> TaskGraphExecution \<Rightarrow> CampaignSafetyMonitor option \<Rightarrow> 's \<Rightarrow> 's \<Rightarrow> bool" where
  "stored_all repo x m d d' \<longleftrightarrow> (\<exists>d1 d2. ca_save_execution repo x d = Return () d1 \<and>
     (case m of None \<Rightarrow> d2 = d1 | Some m \<Rightarrow> ca_save_monitor repo m d1 = Return () d2) \<and> ca_commit repo d2 = Inr d')"

definition found_execution :: "('s, 'x) campaign_repositories \<Rightarrow> EntityId \<Rightarrow> 's \<Rightarrow> TaskGraphExecution \<Rightarrow> bool" where
  "found_execution repo t d x \<longleftrightarrow>
     (\<exists>i. ca_find_execution repo i t d = Inr (Some x) \<or> ca_find_execution_by_instance repo i t d = Inr (Some x))"

definition found_monitor :: "('s, 'x) campaign_repositories \<Rightarrow> EntityId \<Rightarrow> 's \<Rightarrow> CampaignSafetyMonitor \<Rightarrow> bool" where
  "found_monitor repo t d m \<longleftrightarrow> (\<exists>i. ca_find_monitor repo i t d = Inr (Some m))"

text \<open>A monitor that was found and called, where there is one.\<close>

definition called_monitor :: "('s, 'x) campaign_repositories \<Rightarrow> EntityId \<Rightarrow> 's \<Rightarrow> CampaignSafetyMonitor option \<Rightarrow> bool" where
  "called_monitor repo t d m \<longleftrightarrow> (\<forall>n. m = Some n \<longrightarrow> (\<exists>m'. found_monitor repo t d m' \<and> monitor_reaches m' n))"

definition started :: "campaign_fresh \<Rightarrow> InitializeCampaignExecutionCommand \<Rightarrow> TaskGraphExecution \<Rightarrow> CampaignSafetyMonitor \<Rightarrow> bool" where
  "started fr cmd x m \<longleftrightarrow> (\<exists>ci gv er p. ci_instance_id ci = ic_campaign_instance_id cmd \<and>
     mark_running (cf_now fr) (initialize (cf_execution_id fr) (ic_tenant_id cmd) ci gv er p
       (map (\<lambda>(n, i). (cf_record_ids fr n, i)) (List.enumerate 0 (ic_task_ids cmd))) (cf_now fr)) = Return () x \<and>
     m = Safety_Monitor.create (cf_monitor_id fr) (ic_tenant_id cmd) ci p (cf_now fr))"

inductive campaign_effect :: "('s, 'x) campaign_repositories \<Rightarrow> ('s \<Rightarrow> campaign_fresh \<Rightarrow> bool) \<Rightarrow> EntityId \<Rightarrow> 's \<Rightarrow> 's \<Rightarrow> bool" for repo fresh t d where
  effect_nothing: "campaign_effect repo fresh t d d"
| effect_start: "started fr cmd x m \<Longrightarrow> ic_tenant_id cmd = t \<Longrightarrow> fresh d fr \<Longrightarrow> stored_all repo x (Some m) d d' \<Longrightarrow> campaign_effect repo fresh t d d'"
| effect_change: "found_execution repo t d x \<Longrightarrow> reaches x y \<Longrightarrow> called_monitor repo t d m \<Longrightarrow> stored_all repo y m d d' \<Longrightarrow> campaign_effect repo fresh t d d'"
| effect_monitor: "found_monitor repo t d m \<Longrightarrow> monitor_reaches m n \<Longrightarrow> ca_save_monitor repo n d = Return () d1 \<Longrightarrow> ca_commit repo d1 = Inr d' \<Longrightarrow>
    campaign_effect repo fresh t d d'"

section \<open>Steps\<close>

lemma load_execution_triple:
  "triple (opened d) (load_execution sv i t) (\<lambda>x w. opened d w \<and> found_execution (cs_repositories sv) t d x) (untouched d)"
  unfolding load_execution_def found_execution_def
  by (rule triple_and_then [OF read_triple]) (rule triple_found_or, auto)

lemma load_monitor_triple:
  "triple (opened d) (load_monitor sv x t) (\<lambda>m w. opened d w \<and> called_monitor (cs_repositories sv) t d m) (untouched d)"
  unfolding load_monitor_def called_monitor_def found_monitor_def
  by (rule triple_weaken [OF read_triple]) (auto intro: monitor_reaches_refl)

lemma on_monitor_triple:
  assumes "\<And>a b. call a = Return () b \<Longrightarrow> monitor_reaches a b" and "called_monitor repo t d m"
  shows "triple (opened d) (on_monitor call m) (\<lambda>n w. opened d w \<and> called_monitor repo t d n) (untouched d)"
proof (cases m)
  case None
  then show ?thesis by (simp add: on_monitor_def called_monitor_def) (rule triple_give, simp)
next
  case (Some a)
  have "called_monitor repo t d (Some b)" if "call a = Return u b" for u b
    using assms that Some unfolding called_monitor_def by (auto intro: monitor_reaches_trans)
  then show ?thesis
    unfolding on_monitor_def Some option.case
    by (intro triple_and_then [OF aggregate_triple] triple_give) auto
qed

lemma store_all_triple: "triple (opened d) (store_all sv x m) (\<lambda>_ w. stored_all (cs_repositories sv) x m d (tx_db w)) (untouched d)"
proof -
  let ?repo = "cs_repositories sv"
  have mon: "triple (\<lambda>w. tx_db w = d \<and> tx_session w = d1) (store_monitor sv m)
      (\<lambda>_ w. tx_db w = d \<and> (case m of None \<Rightarrow> tx_session w = d1 | Some m \<Rightarrow> ca_save_monitor ?repo m d1 = Return () (tx_session w))) (untouched d)" for d1
    unfolding store_monitor_def by (cases m) (auto intro!: triple_give triple_weaken [OF write_triple])
  show ?thesis
    unfolding store_all_def
    apply (rule triple_and_then [OF write_triple])
    apply (rule triple_weaken_pre [where P = "\<lambda>w. \<exists>d1. (tx_db w = d \<and> tx_session w = d1) \<and> ca_save_execution ?repo x d = Return () d1"])
     apply (rule triple_ex, rule triple_pure, rule triple_and_then [OF mon])
     apply (rule triple_weaken_pre [where P = "\<lambda>w. \<exists>d2. (tx_db w = d \<and> tx_session w = d2) \<and>
        (case m of None \<Rightarrow> d2 = _ | Some m \<Rightarrow> ca_save_monitor ?repo m _ = Return () d2)"])
      apply (rule triple_ex, rule triple_pure, rule triple_weaken [OF commit_triple])
        apply (auto simp: stored_all_def)
    done
qed


section \<open>Use cases\<close>

lemma finish_db: "tx_db (final (finish p w)) = tx_db w"
  by (simp add: finish_def publish_def and_then_db quiet_steps split: prod.splits)

lemma notified_db: "tx_db (final (and_then (on_ports f) (\<lambda>_. finish p) w)) = tx_db w"
  by (simp add: and_then_db finish_db quiet_steps)

lemma report_abort_db: "tx_db (final (report_abort sv t s p w)) = tx_db w"
  by (simp add: report_abort_def notify_paused_def and_then_db quiet_steps split: prod.splits option.splits)

lemma change_execution_triple:
  fixes sv :: "('s, 'p, 'x) campaign_service"
  assumes "\<And>x u y. call x = Return u y \<Longrightarrow> reaches x y"
  shows "triple (\<lambda>w. tx_db w = d) (change_execution sv i t call)
    (\<lambda>_ w. campaign_effect (cs_repositories sv) fresh t d (tx_db w)) (\<lambda>_ w. campaign_effect (cs_repositories sv) fresh t d (tx_db w))"
  unfolding change_execution_def
proof (rule uow_triple, rule triple_weaken [where P = "opened d" and R = "\<lambda>_ w. tx_db w = d"])
  let ?Q = "\<lambda>_ w. campaign_effect (cs_repositories sv) fresh t d (tx_db w)"
  show "triple (opened d) (and_then (load_execution sv i t) (\<lambda>x. and_then (on_aggregate DomainFailure (call x)) (\<lambda>x.
      and_then (store_all sv x None) (\<lambda>_. give x)))) ?Q (untouched d)"
  proof (rule triple_and_then [OF load_execution_triple], rule triple_pure, rule triple_and_then [OF aggregate_triple], rule triple_pure)
    fix x y
    assume "found_execution (cs_repositories sv) t d x" "\<exists>u. call x = Return u y"
    moreover have "called_monitor (cs_repositories sv) t d None" by (simp add: called_monitor_def)
    ultimately have "stored_all (cs_repositories sv) y None d d' \<Longrightarrow> campaign_effect (cs_repositories sv) fresh t d d'" for d'
      using assms by (auto intro: effect_change)
    then show "triple (opened d) (and_then (store_all sv y None) (\<lambda>_. give y)) ?Q (untouched d)"
      by (intro triple_and_then [OF store_all_triple] triple_give) simp
  qed
qed (auto intro: effect_nothing)

lemma change_monitored_triple:
  fixes sv :: "('s, 'p, 'x) campaign_service"
  assumes "\<And>x y. call x x = Return () y \<Longrightarrow> reaches x y" and "\<And>a b. mcall a = Return () b \<Longrightarrow> monitor_reaches a b"
  shows "triple (\<lambda>w. tx_db w = d) (change_monitored sv i t call mcall)
    (\<lambda>_ w. campaign_effect (cs_repositories sv) fresh t d (tx_db w)) (\<lambda>_ w. campaign_effect (cs_repositories sv) fresh t d (tx_db w))"
  unfolding change_monitored_def
proof (rule uow_triple, rule triple_weaken [where P = "opened d" and R = "\<lambda>_ w. tx_db w = d"])
  let ?repo = "cs_repositories sv"
  let ?Q = "\<lambda>_ w. campaign_effect (cs_repositories sv) fresh t d (tx_db w)"
  show "triple (opened d) (and_then (load_execution sv i t) (\<lambda>x. and_then (load_monitor sv x t) (\<lambda>m.
      and_then (on_aggregate DomainFailure (call x x)) (\<lambda>x. and_then (on_monitor mcall m) (\<lambda>m.
      and_then (store_all sv x m) (\<lambda>_. give (x, m))))))) ?Q (untouched d)"
  proof (rule triple_and_then [OF load_execution_triple], rule triple_pure, rule triple_and_then [OF load_monitor_triple], rule triple_pure,
      rule triple_and_then [OF aggregate_triple], rule triple_pure)
    fix x m y
    assume "found_execution ?repo t d x" "called_monitor ?repo t d m" "\<exists>u. call x x = Return u y"
    then have "called_monitor ?repo t d n \<Longrightarrow> stored_all ?repo y n d d' \<Longrightarrow> campaign_effect ?repo fresh t d d'" for n d'
      using assms(1) by (auto intro: effect_change)
    then show "triple (opened d) (and_then (on_monitor mcall m) (\<lambda>m. and_then (store_all sv y m) (\<lambda>_. give (y, m)))) ?Q (untouched d)"
      by (intro triple_and_then [OF on_monitor_triple [OF assms(2) \<open>called_monitor ?repo t d m\<close>]] triple_pure triple_and_then [OF store_all_triple] triple_give) simp_all
  qed
qed (auto intro: effect_nothing)


text \<open>A calculated loop: the execution and the monitor that are carried along come from calls on those found.\<close>

definition carried :: "('s, 'x) campaign_repositories \<Rightarrow> EntityId \<Rightarrow> 's \<Rightarrow> TaskGraphExecution \<times> CampaignSafetyMonitor option \<Rightarrow> bool" where
  "carried repo t d = (\<lambda>(y, m). (\<exists>x. found_execution repo t d x \<and> reaches x y) \<and> called_monitor repo t d m)"

lemma carried_effect: "carried repo t d (y, m) \<Longrightarrow> stored_all repo y m d d' \<Longrightarrow> campaign_effect repo fresh t d d'"
  by (auto simp: carried_def intro: effect_change)

lemma dispatch_one_triple:
  assumes "carried (cs_repositories sv) t d p"
  shows "triple (opened d) (dispatch_one sv t now spec p) (\<lambda>q w. opened d w \<and> carried (cs_repositories sv) t d q) (untouched d)"
proof (cases p)
  case (Pair x m)
  let ?repo = "cs_repositories sv"
  have c: "\<exists>z. found_execution ?repo t d z \<and> reaches z x" "called_monitor ?repo t d m" using assms by (simp_all add: carried_def Pair)
  have "carried ?repo t d (y, n)" if "record_task_dispatched t (ds_task_id spec) op now x = Return u y" "called_monitor ?repo t d n" for u y n op
    using that c(1) execution_calls(3) [of t "ds_task_id spec" op now x y] by (auto simp: carried_def intro: reaches_trans)
  then show ?thesis
    unfolding dispatch_one_def Pair prod.case dispatch_def
    by (intro triple_and_then [OF on_monitor_triple [OF monitor_calls(1) c(2)]] triple_pure triple_and_then [OF ports_triple]
      triple_and_then [OF aggregate_triple] triple_give) auto
qed

lemma dispatch_each_triple:
  "carried (cs_repositories sv) t d p \<Longrightarrow>
   triple (opened d) (dispatch_each sv t now specs p) (\<lambda>q w. opened d w \<and> carried (cs_repositories sv) t d q) (untouched d)"
proof (induction specs arbitrary: p)
  case Nil
  then show ?case by (simp add: triple_give)
next
  case (Cons spec specs)
  show ?case
    unfolding dispatch_each.simps
    by (rule triple_and_then [OF dispatch_one_triple [OF Cons.prems]], rule triple_pure, rule Cons.IH)
qed

lemma dispatch_next_task_triple:
  fixes sv :: "('s, 'p, 'x) campaign_service"
  shows "triple (\<lambda>w. tx_db w = d) (dispatch_next_task sv fr cmd)
    (\<lambda>_ w. campaign_effect (cs_repositories sv) fresh (dn_tenant_id cmd) d (tx_db w)) (\<lambda>_ w. campaign_effect (cs_repositories sv) fresh (dn_tenant_id cmd) d (tx_db w))"
  unfolding dispatch_next_task_def
proof (rule attempt_triple, rule then_quiet [OF uow_triple finish_db], rule triple_weaken [where P = "opened d" and R = "untouched d"])
  fix specs
  let ?repo = "cs_repositories sv"
  let ?t = "dn_tenant_id cmd"
  let ?Q = "\<lambda>_ w. campaign_effect (cs_repositories sv) fresh ?t d (tx_db w)"
  show "triple (opened d) (and_then (load_execution sv (dn_execution_id cmd) ?t) (\<lambda>x. and_then (load_monitor sv x ?t) (\<lambda>m.
      and_then (on_aggregate DomainFailure (start_track ?t fr specs x)) (\<lambda>x. and_then (dispatch_each sv ?t (cf_now fr) specs (x, m)) (\<lambda>(x, m).
      and_then (store_all sv x m) (\<lambda>_. give (x, m))))))) ?Q (untouched d)"
  proof (rule triple_and_then [OF load_execution_triple], rule triple_pure, rule triple_and_then [OF load_monitor_triple], rule triple_pure,
      rule triple_and_then [OF aggregate_triple], rule triple_pure)
    fix x m y
    assume "found_execution ?repo ?t d x" "called_monitor ?repo ?t d m" "\<exists>u. start_track ?t fr specs x = Return u y"
    then have c: "carried ?repo ?t d (y, m)" using coordinated_calls(5) [of ?t fr specs x y] by (auto simp: carried_def)
    show "triple (opened d) (and_then (dispatch_each sv ?t (cf_now fr) specs (y, m)) (\<lambda>(x, m). and_then (store_all sv x m) (\<lambda>_. give (x, m)))) ?Q (untouched d)"
    proof (rule triple_and_then [OF dispatch_each_triple [OF c]], rule triple_pure)
      fix q
      assume "carried ?repo ?t d q"
      then show "triple (opened d) (case q of (x, m) \<Rightarrow> and_then (store_all sv x m) (\<lambda>_. give (x, m))) ?Q (untouched d)"
        by (cases q) (auto intro!: triple_and_then [OF store_all_triple] triple_give intro: carried_effect)
    qed
  qed
qed (auto intro: effect_nothing)

lemma rollback_each_triple: "triple (opened d) (rollback_each sv t now specs y) (\<lambda>z w. opened d w \<and> reaches y z) (untouched d)"
proof (induction specs arbitrary: y)
  case Nil
  then show ?case by (simp add: triple_give)
next
  case (Cons spec specs)
  have one: "triple (opened d) (rollback_one sv t now spec y) (\<lambda>z w. opened d w \<and> reaches y z) (untouched d)"
    unfolding rollback_one_def execute_rollback_step_def dispatch_def
    by (rule triple_and_then [OF ports_triple], rule triple_weaken [OF aggregate_triple]) (auto intro: execution_calls)
  show ?case
    unfolding rollback_each.simps
    by (rule triple_and_then [OF one], rule triple_pure, rule triple_weaken [OF Cons.IH]) (auto intro: reaches_trans)
qed

lemma initiate_rollback_triple:
  fixes sv :: "('s, 'p, 'x) campaign_service"
  shows "triple (\<lambda>w. tx_db w = d) (initiate_rollback sv fr cmd)
    (\<lambda>_ w. campaign_effect (cs_repositories sv) fresh (ir_tenant_id cmd) d (tx_db w)) (\<lambda>_ w. campaign_effect (cs_repositories sv) fresh (ir_tenant_id cmd) d (tx_db w))"
  unfolding initiate_rollback_def
proof (rule then_quiet [OF uow_triple finish_db], rule triple_weaken [where P = "opened d" and R = "untouched d"])
  let ?repo = "cs_repositories sv"
  let ?t = "ir_tenant_id cmd"
  let ?Q = "\<lambda>_ w. campaign_effect (cs_repositories sv) fresh ?t d (tx_db w)"
  show "triple (opened d) (and_then (load_execution sv (ir_execution_id cmd) ?t) (\<lambda>x.
      and_then (attempt PythonFailure (compute_rollback_plan x (ir_rollback_eligible_task_ids cmd))) (\<lambda>plan.
      and_then (on_aggregate DomainFailure (Campaign_Execution.initiate_rollback ?t (ir_trigger_reason cmd) (int (length plan)) (cf_now fr) x)) (\<lambda>x.
      and_then (rollback_each sv ?t (cf_now fr) (ir_steps cmd) x) (\<lambda>x.
      and_then (on_aggregate DomainFailure (end_rollback ?t (cf_now fr) (ir_steps cmd) x)) (\<lambda>x.
      and_then (store_all sv x None) (\<lambda>_. give x))))))) ?Q (untouched d)"
  proof (rule triple_and_then [OF load_execution_triple], rule triple_pure, rule attempt_triple, rule triple_and_then [OF aggregate_triple], rule triple_pure)
    fix x plan y
    assume "found_execution ?repo ?t d x"
      "\<exists>u. Campaign_Execution.initiate_rollback ?t (ir_trigger_reason cmd) (int (length plan)) (cf_now fr) x = Return u y"
    then have c: "\<exists>x. found_execution ?repo ?t d x \<and> reaches x y" using execution_calls(9) [of ?t "ir_trigger_reason cmd" "int (length plan)" "cf_now fr" x y] by auto
    show "triple (opened d) (and_then (rollback_each sv ?t (cf_now fr) (ir_steps cmd) y) (\<lambda>x.
      and_then (on_aggregate DomainFailure (end_rollback ?t (cf_now fr) (ir_steps cmd) x)) (\<lambda>x.
      and_then (store_all sv x None) (\<lambda>_. give x)))) ?Q (untouched d)"
    proof (rule triple_and_then [OF rollback_each_triple], rule triple_pure, rule triple_and_then [OF aggregate_triple], rule triple_pure)
      fix z z'
      assume "reaches y z" "\<exists>u. end_rollback ?t (cf_now fr) (ir_steps cmd) z = Return u z'"
      then have "carried ?repo ?t d (z', None)"
        using c coordinated_calls(6) [of ?t "cf_now fr" "ir_steps cmd" z z'] by (auto simp: carried_def called_monitor_def intro: reaches_trans)
      then show "triple (opened d) (and_then (store_all sv z' None) (\<lambda>_. give z')) ?Q (untouched d)"
        by (auto intro!: triple_and_then [OF store_all_triple] triple_give intro: carried_effect)
    qed
  qed simp
qed (auto intro: effect_nothing)


lemma startedI:
  "ci_instance_id ci = ic_campaign_instance_id cmd \<Longrightarrow> mark_running (cf_now fr) (initialize (cf_execution_id fr) (ic_tenant_id cmd) ci gv er p
     (map (\<lambda>(n, i). (cf_record_ids fr n, i)) (List.enumerate 0 (ic_task_ids cmd))) (cf_now fr)) = Return u x \<Longrightarrow>
   started fr cmd x (Safety_Monitor.create (cf_monitor_id fr) (ic_tenant_id cmd) ci p (cf_now fr))"
  by (cases u) (auto simp: started_def)

lemma initialize_triple:
  fixes sv :: "('s, 'p, 'x) campaign_service"
  assumes "fresh d fr"
  shows "triple (\<lambda>w. tx_db w = d) (initialize_execution sv fr cmd)
    (\<lambda>_ w. campaign_effect (cs_repositories sv) fresh (ic_tenant_id cmd) d (tx_db w)) (\<lambda>_ w. campaign_effect (cs_repositories sv) fresh (ic_tenant_id cmd) d (tx_db w))"
proof -
  have start: "triple (\<lambda>w. tx_db w = d) (within_uow (store_all sv x (Some m)))
      (\<lambda>_ w. campaign_effect (cs_repositories sv) fresh (ic_tenant_id cmd) d (tx_db w)) (\<lambda>_ w. campaign_effect (cs_repositories sv) fresh (ic_tenant_id cmd) d (tx_db w))"
    if "started fr cmd x m" for x m
    using assms that
    by (intro uow_triple triple_weaken [OF store_all_triple]) (auto intro: effect_start effect_nothing)
  show ?thesis
    unfolding initialize_execution_def Let_def
    apply (rule triple_and_then [OF triple_on_aggregate [where r = r and P = "\<lambda>w. tx_db w = d" and Q = "\<lambda>x w. tx_db w = d \<and> (\<exists>u. r = Return u x)" for r]])
      apply blast
     apply (simp add: effect_nothing)
    apply (rule triple_pure, rule then_quiet [OF start finish_db])
    apply (erule exE, rule startedI [rotated], assumption, simp)
    done
qed

lemma auto_abort_triple:
  fixes sv :: "('s, 'p, 'x) campaign_service"
  shows "triple (\<lambda>w. tx_db w = d) (trigger_auto_abort_on_detection sv fr t i s)
    (\<lambda>_ w. campaign_effect (cs_repositories sv) fresh t d (tx_db w)) (\<lambda>_ w. campaign_effect (cs_repositories sv) fresh t d (tx_db w))"
proof -
  let ?repo = "cs_repositories sv"
  let ?Q = "\<lambda>_ w. campaign_effect ?repo fresh t d (tx_db w)"
  have body: "triple (opened d) (and_then (breach_execution sv fr t s x) (\<lambda>x. and_then (write_session (ca_save_monitor ?repo n)) (\<lambda>_.
      and_then (commit_session (ca_commit ?repo)) (\<lambda>_. give (Some (n, x)))))) ?Q (untouched d)"
    if m: "found_monitor ?repo t d m" "monitor_reaches m n" and x: "\<And>y. x = Some y \<Longrightarrow> found_execution ?repo t d y" for m n x
  proof (cases x)
    case None
    show ?thesis
      unfolding None breach_execution_def option.case
      apply (rule triple_and_then [OF triple_give [where Q = "\<lambda>_. opened d"]], assumption)
      apply (rule triple_and_then [OF write_triple])
      apply (rule triple_weaken_pre [where P = "\<lambda>w. \<exists>d1. (tx_db w = d \<and> tx_session w = d1) \<and> ca_save_monitor ?repo n d = Return () d1"])
       apply (rule triple_ex, rule triple_pure, rule triple_and_then [OF commit_triple], rule triple_give)
       apply (auto intro: effect_monitor [OF m])
      done
  next
    case (Some y)
    have eff: "campaign_effect ?repo fresh t d d'"
      if "handle_safety_breach t ''AutoAbortOnDetection'' s (cf_now fr) y = Return u z" "ca_save_execution ?repo z d = Return () d1"
        "ca_save_monitor ?repo n d1 = Return () d2" "ca_commit ?repo d2 = Inr d'" for u z d1 d2 d'
      using x [OF Some] coordinated_calls(4) [of t "''AutoAbortOnDetection''" s "cf_now fr" y z] m that
      by (intro effect_change [of _ _ _ y z "Some n"]) (auto simp: called_monitor_def stored_all_def)
    have breach: "triple (opened d) (breach_execution sv fr t s x) (\<lambda>_ w. \<exists>d1. (tx_db w = d \<and> tx_session w = d1) \<and>
        (\<exists>u z. handle_safety_breach t ''AutoAbortOnDetection'' s (cf_now fr) y = Return u z \<and> ca_save_execution ?repo z d = Return () d1)) (untouched d)"
      unfolding breach_execution_def Some option.case
      by (rule triple_and_then [OF aggregate_triple], rule triple_pure, rule triple_and_then [OF write_triple], rule triple_give) auto
    show ?thesis
      apply (rule triple_and_then [OF breach], rule triple_ex, rule triple_pure, rule triple_and_then [OF write_triple])
      apply (rule triple_weaken_pre [where P = "\<lambda>w. \<exists>d2. (tx_db w = d \<and> tx_session w = d2) \<and> ca_save_monitor ?repo n _ = Return () d2"])
       apply (rule triple_ex, rule triple_pure, rule triple_and_then [OF commit_triple], rule triple_give)
       apply (auto intro: eff)
      done
  qed
  have "triple (\<lambda>w. tx_db w = d) (within_uow (and_then (read_session (ca_find_monitor ?repo i t)) (\<lambda>found.
       case found of None \<Rightarrow> give None
       | Some m \<Rightarrow>
           and_then (on_aggregate DomainFailure (Safety_Monitor.trigger_auto_abort_on_detection t s (cf_now fr) m)) (\<lambda>m.
           and_then (read_session (ca_find_execution_by_instance ?repo i t)) (\<lambda>x.
           and_then (breach_execution sv fr t s x) (\<lambda>x.
           and_then (write_session (ca_save_monitor ?repo m)) (\<lambda>_.
           and_then (commit_session (ca_commit ?repo)) (\<lambda>_.
           give (Some (m, x))))))))))  ?Q ?Q"
  proof (rule uow_triple, rule triple_weaken [where P = "opened d" and R = "untouched d"], rule triple_and_then [OF read_triple], rule triple_pure)
    fix found
    assume found: "ca_find_monitor ?repo i t d = Inr found"
    show "triple (opened d) (case found of None \<Rightarrow> give None
       | Some m \<Rightarrow>
           and_then (on_aggregate DomainFailure (Safety_Monitor.trigger_auto_abort_on_detection t s (cf_now fr) m)) (\<lambda>m.
           and_then (read_session (ca_find_execution_by_instance ?repo i t)) (\<lambda>x.
           and_then (breach_execution sv fr t s x) (\<lambda>x.
           and_then (write_session (ca_save_monitor ?repo m)) (\<lambda>_.
           and_then (commit_session (ca_commit ?repo)) (\<lambda>_.
           give (Some (m, x)))))))) ?Q (untouched d)"
    proof (cases found)
      case None
      then show ?thesis by (auto intro!: triple_give effect_nothing)
    next
      case (Some m)
      with found have m: "found_monitor ?repo t d m" by (auto simp: found_monitor_def)
      show ?thesis
        unfolding Some option.case
        by (rule triple_and_then [OF aggregate_triple], rule triple_pure, rule triple_and_then [OF read_triple], rule triple_pure, rule body [OF m])
          (auto simp: found_execution_def intro: monitor_calls)
    qed
  qed (auto intro: effect_nothing)
  then show ?thesis
    unfolding trigger_auto_abort_on_detection_def by (rule then_quiet) (simp add: report_abort_db quiet_steps split: option.splits)
qed

lemma call_execution_triple:
  fixes sv :: "('s, 'p, 'x) campaign_service"
  assumes "\<And>x u y. call x = Return u y \<Longrightarrow> reaches x y"
  shows "triple (\<lambda>w. tx_db w = d) (call_execution sv i t call)
    (\<lambda>_ w. campaign_effect (cs_repositories sv) fresh t d (tx_db w)) (\<lambda>_ w. campaign_effect (cs_repositories sv) fresh t d (tx_db w))"
  unfolding call_execution_def by (rule then_quiet [OF change_execution_triple [OF assms] finish_db])

section \<open>Requests\<close>

datatype campaign_request =
    Request_Start campaign_fresh InitializeCampaignExecutionCommand
  | Request_Dispatch campaign_fresh DispatchNextTasksCommand
  | Request_Completion campaign_fresh RecordTaskCompletionCommand
  | Request_Branch campaign_fresh ResolveConditionalBranchCommand
  | Request_Failure campaign_fresh EntityId uuid uuid string
  | Request_Barrier campaign_fresh EntityId uuid uuid "uuid list"
  | Request_Gate campaign_fresh ReachHumanApprovalGateCommand
  | Request_Grant campaign_fresh EntityId uuid string
  | Request_Denial campaign_fresh EntityId uuid string string
  | Request_Timeout campaign_fresh EntityId uuid
  | Request_Pause campaign_fresh EntityId uuid string
  | Request_Resume campaign_fresh EntityId uuid
  | Request_Kill_Switch campaign_fresh EntityId uuid
  | Request_Rollback campaign_fresh InitiateRollbackCommand
  | Request_Complete campaign_fresh EntityId uuid
  | Request_Abort campaign_fresh EntityId uuid string
  | Request_Auto_Abort campaign_fresh EntityId uuid string
  | Query_Execution EntityId uuid

primrec perform :: "('s, 'p, 'x) campaign_service \<Rightarrow> campaign_request \<Rightarrow> ('s, 'p, 'x, unit) campaign_use_case" where
  "perform sv (Request_Start fr cmd) = ignore_result (initialize_execution sv fr cmd)"
| "perform sv (Request_Dispatch fr cmd) = ignore_result (dispatch_next_task sv fr cmd)"
| "perform sv (Request_Completion fr cmd) = ignore_result (record_task_completion sv fr cmd)"
| "perform sv (Request_Branch fr cmd) = ignore_result (resolve_conditional_branch sv fr cmd)"
| "perform sv (Request_Failure fr t i k r) = ignore_result (record_task_failure sv fr t i k r)"
| "perform sv (Request_Barrier fr t i b gs) = ignore_result (evaluate_barrier sv fr t i b gs)"
| "perform sv (Request_Gate fr cmd) = ignore_result (reach_human_approval_gate sv fr cmd)"
| "perform sv (Request_Grant fr t i a) = ignore_result (grant_human_approval sv fr t i a)"
| "perform sv (Request_Denial fr t i a r) = ignore_result (deny_human_approval sv fr t i a r)"
| "perform sv (Request_Timeout fr t i) = ignore_result (handle_approval_timeout sv fr t i)"
| "perform sv (Request_Pause fr t i r) = ignore_result (pause_execution sv fr t i r)"
| "perform sv (Request_Resume fr t i) = ignore_result (resume_execution sv fr t i)"
| "perform sv (Request_Kill_Switch fr t i) = ignore_result (handle_kill_switch_triggered sv fr t i)"
| "perform sv (Request_Rollback fr cmd) = ignore_result (initiate_rollback sv fr cmd)"
| "perform sv (Request_Complete fr t i) = ignore_result (complete_execution sv fr t i)"
| "perform sv (Request_Abort fr t i r) = ignore_result (abort_execution sv fr t i r)"
| "perform sv (Request_Auto_Abort fr t i s) = ignore_result (trigger_auto_abort_on_detection sv fr t i s)"
| "perform sv (Query_Execution t i) = ignore_result (get_execution sv t i)"

text \<open>What is assumed of generated identifiers when an execution is started, and of the clock when a gate is created.\<close>

definition request_ok :: "('s \<Rightarrow> campaign_fresh \<Rightarrow> bool) \<Rightarrow> 's \<Rightarrow> campaign_request \<Rightarrow> bool" where
  "request_ok fresh d r = (case r of
       Request_Start fr cmd \<Rightarrow> fresh d fr
     | Request_Gate fr cmd \<Rightarrow> datetime_range (cf_now fr)
     | _ \<Rightarrow> True)"

inductive campaign_runs ::
  "('s, 'p, 'x) campaign_service \<Rightarrow> ('s \<Rightarrow> campaign_fresh \<Rightarrow> bool) \<Rightarrow> ('s, 'p, ExecutionEvent event) transaction \<Rightarrow> ('s, 'p, ExecutionEvent event) transaction \<Rightarrow> bool"
  for sv fresh u where
  run_start: "campaign_runs sv fresh u u"
| run_request: "campaign_runs sv fresh u v \<Longrightarrow> request_ok fresh (tx_db v) r \<Longrightarrow> campaign_runs sv fresh u (final (perform sv r v))"

text \<open>Every use case implements the specification.\<close>

lemma successor_split: "(case p of (ready, skipped) \<Rightarrow> Campaign_Execution.record_task_completion t i out now ready skipped) x = Return () y \<Longrightarrow> reaches x y"
  by (cases p) (auto intro: execution_calls)

lemma get_execution_db: "tx_db (final (get_execution sv t i w)) = tx_db w"
  by (simp add: get_execution_def within_uow_db and_then_db quiet_steps)

theorem campaign_perform_effect:
  fixes sv :: "('s, 'p, 'x) campaign_service"
  assumes "request_ok fresh (tx_db w) r"
  shows "\<exists>t. campaign_effect (cs_repositories sv) fresh t (tx_db w) (tx_db (final (perform sv r w)))"
proof -
  let ?d = "tx_db w"
  have by_triple: "\<exists>t. campaign_effect (cs_repositories sv) fresh t ?d (tx_db (final (ignore_result m w)))"
    if "triple (\<lambda>w. tx_db w = ?d) m (\<lambda>_ w. campaign_effect (cs_repositories sv) fresh t ?d (tx_db w))
      (\<lambda>_ w. campaign_effect (cs_repositories sv) fresh t ?d (tx_db w))" for m :: "('s, 'p, 'x, 'a) campaign_use_case" and t
    using triple_final [OF that refl] unfolding ignore_result_final by blast
  note uses = record_task_failure_def evaluate_barrier_def grant_human_approval_def deny_human_approval_def handle_approval_timeout_def
    resume_execution_def complete_execution_def abort_execution_def
  show ?thesis
  proof (cases r)
    case (Request_Start fr cmd)
    with assms have "fresh ?d fr" by (simp add: request_ok_def)
    then show ?thesis unfolding Request_Start perform.simps by (rule by_triple [OF initialize_triple])
  next
    case (Request_Dispatch fr cmd)
    then show ?thesis using by_triple [OF dispatch_next_task_triple] by simp
  next
    case (Request_Completion fr cmd)
    show ?thesis
      unfolding Request_Completion perform.simps record_task_completion_def
      by (rule by_triple, rule attempt_triple, rule then_quiet [OF change_monitored_triple finish_db])
        (auto intro: successor_split monitor_calls effect_nothing)
  next
    case (Request_Branch fr cmd)
    show ?thesis
      unfolding Request_Branch perform.simps resolve_conditional_branch_def
      by (rule by_triple, rule attempt_triple, rule then_quiet [OF change_execution_triple finish_db])
        (auto intro: execution_calls effect_nothing split: prod.splits)
  next
    case (Request_Gate fr cmd)
    with assms have "datetime_range (cf_now fr)" by (simp add: request_ok_def)
    then show ?thesis
      unfolding Request_Gate perform.simps reach_human_approval_gate_def Let_def
      by - (rule by_triple, rule then_quiet [OF change_execution_triple notified_db], rule coordinated_calls(1), auto)
  next
    case (Request_Failure fr t i k s)
    show ?thesis unfolding Request_Failure perform.simps uses
      by (rule by_triple, rule then_quiet [OF change_monitored_triple finish_db]) (auto intro: execution_calls monitor_calls)
  next
    case (Request_Complete fr t i)
    show ?thesis unfolding Request_Complete perform.simps uses
      by (rule by_triple, rule then_quiet [OF change_monitored_triple finish_db]) (auto intro: execution_calls monitor_calls)
  next
    case (Request_Abort fr t i s)
    show ?thesis unfolding Request_Abort perform.simps uses
      by (rule by_triple, rule then_quiet [OF change_monitored_triple finish_db]) (auto intro: execution_calls monitor_calls)
  next
    case (Request_Pause fr t i s)
    show ?thesis unfolding Request_Pause perform.simps pause_execution_def notify_paused_def
      by (rule by_triple, rule then_quiet [OF change_execution_triple notified_db]) (auto intro: execution_calls)
  next
    case (Request_Kill_Switch fr t i)
    show ?thesis unfolding Request_Kill_Switch perform.simps handle_kill_switch_triggered_def notify_paused_def
      by (rule by_triple, rule then_quiet [OF change_execution_triple notified_db]) (auto intro: coordinated_calls)
  next
    case (Request_Rollback fr cmd)
    then show ?thesis using by_triple [OF initiate_rollback_triple] by simp
  next
    case (Request_Auto_Abort fr t i s)
    then show ?thesis using by_triple [OF auto_abort_triple] by simp
  next
    case (Query_Execution t i)
    then show ?thesis by (simp add: ignore_result_final get_execution_db) (rule exI, rule effect_nothing)
  next
    case (Request_Barrier fr t i b gs)
    show ?thesis unfolding Request_Barrier perform.simps uses by (rule by_triple, rule call_execution_triple) (auto intro: execution_calls)
  next
    case (Request_Grant fr t i a)
    show ?thesis unfolding Request_Grant perform.simps uses by (rule by_triple, rule call_execution_triple) (auto intro: execution_calls)
  next
    case (Request_Denial fr t i a s)
    show ?thesis unfolding Request_Denial perform.simps uses by (rule by_triple, rule call_execution_triple) (auto intro: execution_calls)
  next
    case (Request_Timeout fr t i)
    show ?thesis unfolding Request_Timeout perform.simps uses by (rule by_triple, rule call_execution_triple) (auto intro: coordinated_calls)
  next
    case (Request_Resume fr t i)
    show ?thesis unfolding Request_Resume perform.simps uses by (rule by_triple, rule call_execution_triple) (auto intro: execution_calls)
  qed
qed

text \<open>A property of the database that every effect keeps holds after every sequence of requests; so does a reflexive and transitive relation.\<close>

lemma runs_keep:
  assumes "campaign_runs sv fresh u v" and "P (tx_db u)"
    and "\<And>t d d'. campaign_effect (cs_repositories sv) fresh t d d' \<Longrightarrow> P d \<Longrightarrow> P d'"
  shows "P (tx_db v)"
  using assms(1)
proof induction
  case (run_request v r)
  then show ?case using campaign_perform_effect [OF run_request(2)] assms(3) by blast
qed (fact assms(2))

end
