(* ===== verification/Campaign_Storage.thy ===== *)
theory Campaign_Storage
  imports Campaign_Store
begin

text \<open>
  The PostgreSQL repositories of \<open>campaignexecution\<close> over every engine with \<open>campaign_engine_laws\<close>: what rows read back as, what a save
  does to the tables, and the invariant of the database that every use case keeps.
\<close>

section \<open>Reading rows\<close>

lemma json_same_object_left: "json_same (JObject xs) v \<Longrightarrow> \<exists>ys. v = JObject ys \<and> json_same (JObject xs) (JObject ys)"
  by (auto elim: json_same_objectE intro: json_same.intros)

lemma policy_back: "json_same (policy_to_json p) v \<Longrightarrow> policy_from_json v = Inr p"
proof -
  assume "json_same (policy_to_json p) v"
  then obtain ys where v: "v = JObject ys" and "json_same (policy_to_json p) (JObject ys)"
    unfolding policy_to_json_def by (blast dest: json_same_object_left)
  note get = json_same_get [OF this(2) [unfolded policy_to_json_def]]
  have "map_of ys ''max_concurrent_actions'' = Some (JInt (ps_max_concurrent_actions p))"
    "map_of ys ''auto_abort_on_detection'' = Some (JBool (ps_auto_abort_on_detection p))"
    "map_of ys ''auto_abort_on_objective_failure'' = Some (JBool (ps_auto_abort_on_objective_failure p))"
    "map_of ys ''blast_radius_ceiling'' = Some (JStr (ps_blast_radius_ceiling p))"
    by (rule get; simp add: json_scalar_def)+
  then show ?thesis by (simp add: v policy_from_json_def as_object_def json_get_def as_number_def as_flag_def as_text_def)
qed

lemma gate_back:
  assumes "json_same (gate_to_json g) v" and "datetime_range (pg_gate_created_at g)"
  shows "gate_of_column (Some v) = Inr (Some g)"
proof -
  from assms(1) obtain ys where v: "v = JObject ys" and "json_same (gate_to_json g) (JObject ys)"
    unfolding gate_to_json_def by (blast dest: json_same_object_left)
  note get = json_same_get [OF this(2) [unfolded gate_to_json_def]]
  have cols: "map_of ys ''task_id'' = Some (JStr (uuid_str (pg_task_id g)))" "map_of ys ''gate_created_at'' = Some (JStr (isoformat (pg_gate_created_at g)))"
    "map_of ys ''gate_timeout_seconds'' = Some (JInt (pg_gate_timeout_seconds g))"
    "map_of ys ''required_approver_role'' = Some (JStr (pg_required_approver_role g))" "map_of ys ''default_on_timeout'' = Some (JStr (pg_default_on_timeout g))"
    by (rule get; simp add: json_scalar_def)+
  then have "ys \<noteq> []" by auto
  with cols show ?thesis
    using isoformat_back [OF assms(2)]
    by (simp add: v gate_of_column_def gate_from_json_def as_object_def json_key_def as_number_def as_text_def)
qed

lemma objectives_back:
  assumes "json_same (objectives_to_json states) v" and "\<And>kvs. v = JObject kvs \<Longrightarrow> distinct (map fst kvs)"
  shows "\<exists>ob. objectives_from_json v = Inr ob"
proof -
  let ?xs = "map (\<lambda>(k, v). (k, JStr v)) states"
  from assms(1) obtain ys where v: "v = JObject ys" and same: "json_same (JObject ?xs) (JObject ys)"
    unfolding objectives_to_json_def by (blast dest: json_same_object_left)
  have eq: "map_of ys = map_of ?xs" by (rule json_same_flat [OF same]) (auto simp: json_scalar_def)
  have "\<exists>s. w = JStr s" if "(k, w) \<in> set ys" for k w
  proof -
    have "map_of ys k = Some w" using assms(2) [OF v] that by simp
    then have "(k, w) \<in> set ?xs" unfolding eq by (rule map_of_SomeD)
    then show ?thesis by auto
  qed
  then have "\<exists>ob. sum_map (\<lambda>(k, v). sum_bind (as_text v) (\<lambda>s. Inr (k, s))) ys = Inr ob \<and> list_all2 (\<lambda>_ _. True) ys ob"
    by (intro sum_map_exists) (fastforce simp: as_text_def)
  then show ?thesis by (auto simp: v objectives_from_json_def as_object_def)
qed

lemma ids_back: "json_same (JList (map JStr ids)) v \<Longrightarrow> ids_from_json v = Inr ids"
proof -
  assume "json_same (JList (map JStr ids)) v"
  then have "\<exists>ys. v = JList ys \<and> list_all2 json_same (map JStr ids) ys"
    by (cases rule: json_same.cases) (auto intro!: list.rel_refl json_same_refl)
  then obtain ys where v: "v = JList ys" and "list_all2 (\<lambda>s w. w = JStr s) ids ys"
    by (auto simp: list_all2_map1 json_same_scalar json_scalar_def)
  from this(2) have "ys = map JStr ids" by (induction rule: list_all2_induct) simp_all
  moreover have "sum_map as_text (map JStr ids) = Inr ids" by (induction ids) (simp_all add: as_text_def)
  ultimately show ?thesis by (simp add: v ids_from_json_def)
qed

lemma campaign_enums [simp]:
  "ExecutionState_of (ExecutionState_value es) = Inr es" "TaskExecutionState_of (TaskExecutionState_value ts) = Inr ts"
  "outcome_of_column (TaskOutcome_value out) = Inr out" "MonitorState_of (MonitorState_value ms) = Inr ms"
  subgoal by (cases es) (simp_all add: ExecutionState_of_def enum_of_def)
  subgoal by (cases ts) (simp_all add: TaskExecutionState_of_def enum_of_def)
  subgoal by (cases out) (simp_all add: outcome_of_column_def enum_of_def)
  subgoal by (cases ms) (simp_all add: MonitorState_of_def enum_of_def)
  done

lemma outcome_back: "when_truthy (map_option TaskOutcome_value out) outcome_of_column = Inr out"
proof (cases out)
  case (Some a)
  have "TaskOutcome_value a \<noteq> []" by (cases a) simp_all
  then show ?thesis by (simp add: Some when_truthy_def truthy_def)
qed (simp add: when_truthy_def truthy_def)

section \<open>The invariant\<close>

definition gate_in_range :: "TaskGraphExecution \<Rightarrow> bool" where
  "gate_in_range x \<longleftrightarrow> (\<forall>g. ex_pending_approval_gate x = Some g \<longrightarrow> datetime_range (pg_gate_created_at g))"

definition execution_row_ok :: "('e, 'r, 'm, 'x) campaign_engine \<Rightarrow> TaskGraphExecutionModel \<Rightarrow> bool" where
  "execution_row_ok en m \<longleftrightarrow> (\<exists>x. m = execution_to_model en x \<and> gate_in_range x \<and> 2 \<le> ex_version x)"

definition record_row_ok :: "('e, 'r, 'm, 'x) campaign_engine \<Rightarrow> TaskExecutionRecordModel \<Rightarrow> bool" where
  "record_row_ok en m \<longleftrightarrow> (\<exists>x r. m = record_to_model en x r)"

definition monitor_row_ok :: "('e, 'r, 'm, 'x) campaign_engine \<Rightarrow> CampaignSafetyMonitorModel \<Rightarrow> bool" where
  "monitor_row_ok en m \<longleftrightarrow> (\<exists>s. m = monitor_to_model en s \<and> monitor_ok (sm_policy_snapshot s) s \<and> 1 \<le> sm_version s)"

definition executions_ok :: "('e, 'r, 'm, 'x) campaign_engine \<Rightarrow> TaskGraphExecutionModel multiset \<Rightarrow> CampaignSafetyMonitorModel multiset \<Rightarrow> bool" where
  "executions_ok en X M \<longleftrightarrow> unique_key xm_id X \<and> unique_key xm_campaign_instance_id X \<and> (\<forall>m \<in># X. execution_row_ok en m) \<and>
     (\<forall>m \<in># X. \<exists>s \<in># M. mm_campaign_instance_id s = xm_campaign_instance_id m)"

definition records_ok :: "('e, 'r, 'm, 'x) campaign_engine \<Rightarrow> TaskGraphExecutionModel multiset \<Rightarrow> TaskExecutionRecordModel multiset \<Rightarrow> bool" where
  "records_ok en X R \<longleftrightarrow> unique_key rm_id R \<and> (\<forall>r \<in># R. record_row_ok en r \<and> (\<exists>m \<in># X. xm_id m = rm_execution_id r))"

definition monitors_ok :: "('e, 'r, 'm, 'x) campaign_engine \<Rightarrow> CampaignSafetyMonitorModel multiset \<Rightarrow> bool" where
  "monitors_ok en M \<longleftrightarrow> unique_key mm_id M \<and> unique_key mm_campaign_instance_id M \<and> (\<forall>m \<in># M. monitor_row_ok en m)"

definition campaign_valid :: "('e, 'r, 'm, 'x) campaign_engine \<Rightarrow> ('e, 'r, 'm) campaign_database \<Rightarrow> bool" where
  "campaign_valid en db \<longleftrightarrow>
     executions_ok en (rows (ce_executions en) (cb_executions db)) (rows (ce_monitors en) (cb_monitors db)) \<and>
     records_ok en (rows (ce_executions en) (cb_executions db)) (rows (ce_records en) (cb_records db)) \<and>
     monitors_ok en (rows (ce_monitors en) (cb_monitors db))"

text \<open>The generated identifier of a monitor is not in use.\<close>

definition unused_ids :: "('e, 'r, 'm, 'x) campaign_engine \<Rightarrow> ('e, 'r, 'm) campaign_database \<Rightarrow> campaign_fresh \<Rightarrow> bool" where
  "unused_ids en db fr \<longleftrightarrow> (\<forall>m \<in># rows (ce_monitors en) (cb_monitors db). mm_id m \<noteq> cf_monitor_id fr)"

section \<open>What calls keep\<close>

lemma exec_fixed:
  "ex_execution_id (final (exec c x)) = ex_execution_id x"
  using keepsD [OF exec_keeps [of "\<lambda>y. ex_execution_id y = ex_execution_id x"]] by simp

lemma exec_gate_in_range:
  assumes "call_in_range c"
  shows "keeps gate_in_range (exec c)"
proof -
  have other: "ex_pending_approval_gate (final (exec c x)) = ex_pending_approval_gate x \<or> ex_pending_approval_gate (final (exec c x)) = None \<or>
      (\<exists>t g now. c = Reach_Gate t g now \<and> ex_pending_approval_gate (final (exec c x)) = Some g)" for x
  proof (cases c)
    case (Record_Task_Completion t i out now rs ss)
    then show ?thesis using completion_control [of t i out now rs ss x] by (simp add: control_def)
  qed (auto simp: exec_eval Campaign_Data.assert_tenant_def split: option.splits)
  show ?thesis unfolding keeps_def gate_in_range_def
  proof (intro allI impI)
    fix x g
    assume x: "\<forall>g. ex_pending_approval_gate x = Some g \<longrightarrow> datetime_range (pg_gate_created_at g)" "ex_pending_approval_gate (final (exec c x)) = Some g"
    then show "datetime_range (pg_gate_created_at g)" using other [of x] assms by (auto simp: call_in_range_def)
  qed
qed

lemma reaches_keeps:
  assumes "reaches x y"
  shows "ex_execution_id y = ex_execution_id x" "ex_tenant_id y = ex_tenant_id x" "ex_version x \<le> ex_version y" "gate_in_range x \<Longrightarrow> gate_in_range y"
    "ex_state x \<in> {ExecutionState.COMPLETED, ExecutionState.FAILED, ExecutionState.ABORTED} \<Longrightarrow> ex_state y = ex_state x"
proof -
  from assms obtain cs where cs: "\<forall>c \<in> set cs. call_in_range c" "y = history exec cs x" by (auto simp: reaches_def)
  show "ex_execution_id y = ex_execution_id x" unfolding cs(2) by (induction cs arbitrary: x) (simp_all add: exec_fixed)
  show "ex_tenant_id y = ex_tenant_id x" "ex_version x \<le> ex_version y"
    unfolding cs(2) by (rule execution.history_tenant execution.history_version)+
  show "gate_in_range y" if "gate_in_range x"
    using cs(1) that unfolding cs(2) by (induction cs arbitrary: x) (auto dest: keepsD [OF exec_gate_in_range])
  show "ex_state y = ex_state x" if "ex_state x \<in> {ExecutionState.COMPLETED, ExecutionState.FAILED, ExecutionState.ABORTED}"
    unfolding cs(2) by (rule execution_states.sink_history) (use that in \<open>auto simp: execution_moves_def\<close>)
qed

lemma monitor_fixed: "sm_monitor_id (final (exec_monitor c m)) = sm_monitor_id m"
  by (cases c) (simp_all add: monitor_eval)

lemma monitor_reaches_keeps:
  assumes "monitor_reaches m n"
  shows "sm_monitor_id n = sm_monitor_id m" "sm_tenant_id n = sm_tenant_id m" "monitor_ok p m \<Longrightarrow> monitor_ok p n" "sm_version m \<le> sm_version n"
proof -
  from assms obtain cs where n: "n = history exec_monitor cs m" by (auto simp: monitor_reaches_def)
  show "sm_monitor_id n = sm_monitor_id m" unfolding n by (induction cs arbitrary: m) (simp_all add: monitor_fixed)
  show "sm_tenant_id n = sm_tenant_id m" "sm_version m \<le> sm_version n" unfolding n by (rule monitor.history_tenant monitor.history_version)+
  show "monitor_ok p n" if "monitor_ok p m" unfolding n by (rule history_keeps [OF exec_monitor_ok that])
qed

section \<open>Rows and what is read from them\<close>

definition reads_record :: "TaskExecutionRecordModel \<Rightarrow> TaskExecutionRecord \<Rightarrow> bool" where
  "reads_record m r \<longleftrightarrow> tr_record_id r = rm_id m \<and> tr_task_id r = rm_task_id m \<and> TaskExecutionState_value (tr_state r) = rm_state m"

definition reads_execution :: "('e, 'r, 'm, 'x) campaign_engine \<Rightarrow> TaskGraphExecutionModel \<Rightarrow> TaskGraphExecution \<Rightarrow> bool" where
  "reads_execution en m x \<longleftrightarrow> ex_execution_id x = xm_id m \<and> ce_uuid_of en (ex_tenant_id x) = xm_tenant_id m \<and> ex_version x = xm_row_version m \<and>
     ExecutionState_value (ex_state x) = xm_state m \<and> gate_in_range x \<and> ex_pending_events x = [] \<and>
     ci_instance_id (ex_campaign_instance_ref x) = xm_campaign_instance_id m \<and> ex_tenant_id x = ce_from_uuid en (xm_tenant_id m)"

definition reads_monitor :: "('e, 'r, 'm, 'x) campaign_engine \<Rightarrow> CampaignSafetyMonitorModel \<Rightarrow> CampaignSafetyMonitor \<Rightarrow> bool" where
  "reads_monitor en row m \<longleftrightarrow> sm_monitor_id m = mm_id row \<and> ce_uuid_of en (sm_tenant_id m) = mm_tenant_id row \<and> sm_version m = mm_row_version row \<and>
     ci_instance_id (sm_campaign_instance_ref m) = mm_campaign_instance_id row \<and> sm_tenant_id m = ce_from_uuid en (mm_tenant_id row) \<and>
     monitor_ok (sm_policy_snapshot m) m \<and> 1 \<le> sm_version m \<and> ids_from_json (mm_active_operation_ids_json row) = Inr (sm_active_operation_ids m) \<and>
     (\<forall>s. row = monitor_to_model en s \<longrightarrow> sm_policy_snapshot s = sm_policy_snapshot m)"

locale pg_campaign_engine =
  fixes en :: "('e, 'r, 'm, 'x) campaign_engine"
  assumes laws: "campaign_engine_laws en"
begin

lemma engine:
  "table_laws (ce_executions en)" "table_laws (ce_records en)" "table_laws (ce_monitors en)" "ce_uuid_of en (ce_from_uuid en u) = u"
  "json_same v (ce_jsonb en v)" "ce_commit en d = Inr d' \<Longrightarrow> d' = d" "ce_jsonb en v = JObject kvs \<Longrightarrow> distinct (map fst kvs)"
  using laws by (simp_all add: campaign_engine_laws_def)

section \<open>Finding\<close>

lemma record_back: "record_row_ok en m \<Longrightarrow> \<exists>r. record_from_model en m = Inr r \<and> reads_record m r"
  by (auto simp: record_row_ok_def record_from_model_def record_to_model_def outcome_back reads_record_def)

lemma execution_row_back:
  assumes "execution_row_ok en m"
  shows "\<exists>x. execution_from_row en m records = Inr x \<and> reads_execution en m x \<and> ex_task_records x = records"
proof -
  from assms obtain y where m: "m = execution_to_model en y" and gate: "gate_in_range y" by (auto simp: execution_row_ok_def)
  obtain ob where ob: "objectives_from_json (ce_jsonb en (objectives_to_json (ex_objective_states y))) = Inr ob"
    using objectives_back [OF engine(5), of "ex_objective_states y"] engine(7) by blast
  have g: "gate_of_column (map_option (\<lambda>g. ce_jsonb en (gate_to_json g)) (ex_pending_approval_gate y)) = Inr (ex_pending_approval_gate y)"
    using gate gate_back [OF engine(5)] by (cases "ex_pending_approval_gate y") (simp_all add: gate_in_range_def gate_of_column_def)
  show ?thesis
    using gate by (simp add: m execution_from_row_def execution_to_model_def ob g policy_back [OF engine(5)] engine(4) gate_in_range_def reads_execution_def Let_def)
qed

lemma monitor_row_back:
  assumes "monitor_row_ok en row"
  shows "\<exists>m. monitor_from_row en row = Inr m \<and> reads_monitor en row m"
proof -
  from assms obtain s where row: "row = monitor_to_model en s" and ok: "monitor_ok (sm_policy_snapshot s) s" "1 \<le> sm_version s" by (auto simp: monitor_row_ok_def)
  have "sm_policy_snapshot s' = sm_policy_snapshot s" if "row = monitor_to_model en s'" for s'
  proof -
    have "policy_from_json (ce_jsonb en (policy_to_json (sm_policy_snapshot s'))) = policy_from_json (ce_jsonb en (policy_to_json (sm_policy_snapshot s)))"
      using that row by (simp add: monitor_to_model_def)
    then show ?thesis by (simp add: policy_back [OF engine(5)])
  qed
  moreover obtain m where m: "monitor_from_row en row = Inr m" "m = s\<lparr>sm_tenant_id := ce_from_uuid en (mm_tenant_id row), sm_pending_events := [],
      sm_campaign_instance_ref := \<lparr>ci_instance_id = mm_campaign_instance_id row, ci_campaign_id = mm_campaign_id row, ci_tenant_id = ce_from_uuid en (mm_tenant_id row)\<rparr>\<rparr>"
    by (simp add: row monitor_to_model_def monitor_from_row_def policy_back [OF engine(5)] ids_back [OF engine(5)] Let_def)
  moreover have "mm_id row = sm_monitor_id s" "mm_row_version row = sm_version s" "ids_from_json (mm_active_operation_ids_json row) = Inr (sm_active_operation_ids s)"
    by (simp_all add: row monitor_to_model_def ids_back [OF engine(5)])
  ultimately show ?thesis using ok by (auto simp: reads_monitor_def monitor_ok_def engine(4))
qed

lemma records_back:
  assumes "records_ok en X (rows (ce_records en) t)"
  shows "\<exists>rs. sum_map (record_from_model en) (tb_select (ce_records en) p t) = Inr rs \<and> list_all2 reads_record (tb_select (ce_records en) p t) rs"
proof (rule sum_map_exists)
  fix m
  assume "m \<in> set (tb_select (ce_records en) p t)"
  then have "record_row_ok en m" using assms by (simp add: select_set [OF engine(2)] records_ok_def)
  from record_back [OF this] show "\<exists>r. record_from_model en m = Inr r \<and> reads_record m r" .
qed

lemma valid_keys:
  assumes "campaign_valid en db"
  shows "unique_key xm_id (rows (ce_executions en) (cb_executions db))" "unique_key xm_campaign_instance_id (rows (ce_executions en) (cb_executions db))"
    "unique_key rm_id (rows (ce_records en) (cb_records db))" "unique_key mm_id (rows (ce_monitors en) (cb_monitors db))"
    "unique_key mm_campaign_instance_id (rows (ce_monitors en) (cb_monitors db))"
  using assms by (simp_all add: campaign_valid_def executions_ok_def records_ok_def monitors_ok_def)

text \<open>A query by a unique column answers with nothing, or with the execution of the one row and its records.\<close>

lemma one_execution_law:
  assumes "campaign_valid en db" and "unique_key f (rows (ce_executions en) (cb_executions db))" and "\<And>m. p m \<Longrightarrow> f m = k"
  shows "(one_execution en p db = Inr None \<and> (\<forall>m \<in># rows (ce_executions en) (cb_executions db). \<not> p m)) \<or>
    (\<exists>m x. one_execution en p db = Inr (Some x) \<and> m \<in># rows (ce_executions en) (cb_executions db) \<and> p m \<and> reads_execution en m x \<and>
      list_all2 reads_record (tb_select (ce_records en) (\<lambda>r. rm_execution_id r = xm_id m) (cb_records db)) (ex_task_records x))"
proof -
  have "tb_select (ce_executions en) p (cb_executions db) = [] \<or>
      (\<exists>m. tb_select (ce_executions en) p (cb_executions db) = [m] \<and> m \<in># rows (ce_executions en) (cb_executions db) \<and> p m)"
    by (rule unique_select [OF engine(1) assms(2)]) (rule assms(3))
  then show ?thesis
  proof (elim disjE exE conjE)
    fix m
    assume m: "tb_select (ce_executions en) p (cb_executions db) = [m]" "m \<in># rows (ce_executions en) (cb_executions db)" "p m"
    with assms(1) have ok: "execution_row_ok en m" and recs: "records_ok en (rows (ce_executions en) (cb_executions db)) (rows (ce_records en) (cb_records db))"
      by (auto simp: campaign_valid_def executions_ok_def)
    obtain rs where rs: "sum_map (record_from_model en) (tb_select (ce_records en) (\<lambda>r. rm_execution_id r = xm_id m) (cb_records db)) = Inr rs"
      "list_all2 reads_record (tb_select (ce_records en) (\<lambda>r. rm_execution_id r = xm_id m) (cb_records db)) rs" using records_back [OF recs] by blast
    from execution_row_back [OF ok, of rs] obtain x where x: "execution_from_row en m rs = Inr x" "reads_execution en m x" "ex_task_records x = rs" by blast
    have "one_execution en p db = Inr (Some x)" using m(1) rs(1) x(1) by (simp add: one_execution_def scalar_one_or_none_def python_def)
    with m x rs(2) show ?thesis by blast
  next
    assume "tb_select (ce_executions en) p (cb_executions db) = []"
    then show ?thesis by (simp add: one_execution_def scalar_one_or_none_def select_nil [OF engine(1), symmetric])
  qed
qed

lemma find_by_id_law:
  assumes "campaign_valid en db"
  shows "(find_by_id en i t db = Inr None \<and> (\<forall>m \<in># rows (ce_executions en) (cb_executions db). \<not> execution_key en i t m)) \<or>
    (\<exists>m x. find_by_id en i t db = Inr (Some x) \<and> m \<in># rows (ce_executions en) (cb_executions db) \<and> execution_key en i t m \<and> reads_execution en m x \<and>
      list_all2 reads_record (tb_select (ce_records en) (\<lambda>r. rm_execution_id r = xm_id m) (cb_records db)) (ex_task_records x))"
  unfolding find_by_id_def by (rule one_execution_law [OF assms valid_keys(1) [OF assms]]) (simp add: execution_key_def)

lemma find_by_campaign_instance_law:
  assumes "campaign_valid en db"
  shows "(find_by_campaign_instance en i t db = Inr None \<and>
      (\<forall>m \<in># rows (ce_executions en) (cb_executions db). \<not> (xm_campaign_instance_id m = i \<and> xm_tenant_id m = ce_uuid_of en t))) \<or>
    (\<exists>m x. find_by_campaign_instance en i t db = Inr (Some x) \<and> m \<in># rows (ce_executions en) (cb_executions db) \<and>
      (xm_campaign_instance_id m = i \<and> xm_tenant_id m = ce_uuid_of en t) \<and> reads_execution en m x \<and>
      list_all2 reads_record (tb_select (ce_records en) (\<lambda>r. rm_execution_id r = xm_id m) (cb_records db)) (ex_task_records x))"
  unfolding find_by_campaign_instance_def by (rule one_execution_law [OF assms valid_keys(2) [OF assms]]) simp

lemma found_execution_row:
  assumes "campaign_valid en db" and "found_execution (pg_campaign_repositories en) t db x"
  shows "\<exists>m \<in># rows (ce_executions en) (cb_executions db). reads_execution en m x \<and> xm_tenant_id m = ce_uuid_of en t"
proof -
  from assms(2) obtain i where "find_by_id en i t db = Inr (Some x) \<or> find_by_campaign_instance en i t db = Inr (Some x)"
    by (auto simp: found_execution_def pg_campaign_repositories_def)
  then show ?thesis
    using find_by_id_law [OF assms(1), of i t] find_by_campaign_instance_law [OF assms(1), of i t] by (auto simp: execution_key_def)
qed

lemma find_monitor_law:
  assumes "campaign_valid en db"
  shows "(find_monitor en i t db = Inr None \<and>
      (\<forall>row \<in># rows (ce_monitors en) (cb_monitors db). \<not> (mm_campaign_instance_id row = i \<and> mm_tenant_id row = ce_uuid_of en t))) \<or>
    (\<exists>row m. find_monitor en i t db = Inr (Some m) \<and> row \<in># rows (ce_monitors en) (cb_monitors db) \<and> mm_campaign_instance_id row = i \<and>
      mm_tenant_id row = ce_uuid_of en t \<and> reads_monitor en row m)"
proof -
  let ?p = "\<lambda>m. mm_campaign_instance_id m = i \<and> mm_tenant_id m = ce_uuid_of en t"
  have "tb_select (ce_monitors en) ?p (cb_monitors db) = [] \<or>
      (\<exists>m. tb_select (ce_monitors en) ?p (cb_monitors db) = [m] \<and> m \<in># rows (ce_monitors en) (cb_monitors db) \<and> ?p m)"
    by (rule unique_select [OF engine(3) valid_keys(5) [OF assms]]) simp
  then show ?thesis
  proof (elim disjE exE conjE)
    fix row
    assume row: "tb_select (ce_monitors en) ?p (cb_monitors db) = [row]" "row \<in># rows (ce_monitors en) (cb_monitors db)"
      "mm_campaign_instance_id row = i" "mm_tenant_id row = ce_uuid_of en t"
    then have "monitor_row_ok en row" using assms by (simp add: campaign_valid_def monitors_ok_def)
    from monitor_row_back [OF this] obtain m where m: "monitor_from_row en row = Inr m" "reads_monitor en row m" by blast
    then have "find_monitor en i t db = Inr (Some m)" using row(1) by (simp add: find_monitor_def scalar_one_or_none_def python_def)
    with row m show ?thesis by blast
  next
    assume none: "tb_select (ce_monitors en) ?p (cb_monitors db) = []"
    then have "\<forall>row \<in># rows (ce_monitors en) (cb_monitors db). \<not> ?p row" unfolding select_nil [OF engine(3)] .
    then show ?thesis using none by (simp add: find_monitor_def scalar_one_or_none_def)
  qed
qed

lemma found_monitor_row:
  assumes "campaign_valid en db" and "found_monitor (pg_campaign_repositories en) t db m"
  shows "\<exists>row \<in># rows (ce_monitors en) (cb_monitors db). reads_monitor en row m"
proof -
  from assms(2) obtain i where "find_monitor en i t db = Inr (Some m)" by (auto simp: found_monitor_def pg_campaign_repositories_def)
  then show ?thesis using find_monitor_law [OF assms(1), of i t] by auto
qed

end

end
