(* ===== verification/Campaign_Invariant.thy ===== *)
theory Campaign_Invariant
  imports Campaign_Storage
begin

text \<open>
  Saving to the tables of \<open>campaignexecution\<close>: when a save succeeds and what it changes, and that the invariant of the database
  (\<open>campaign_valid\<close>) is kept by every use case, while stored executions only move along the state machine (\<open>follows\<close>).
\<close>

section \<open>Following the state machine\<close>

definition final_state :: "string \<Rightarrow> bool" where
  "final_state s \<longleftrightarrow> s \<in> ExecutionState_value ` {ExecutionState.COMPLETED, ExecutionState.FAILED, ExecutionState.ABORTED}"

lemma final_state_iff: "final_state (ExecutionState_value s) \<longleftrightarrow> s \<in> {ExecutionState.COMPLETED, ExecutionState.FAILED, ExecutionState.ABORTED}"
  by (cases s) (simp_all add: final_state_def)

text \<open>A stored execution keeps its identity, its version does not fall, and a final state stays.\<close>

definition row_follows :: "TaskGraphExecutionModel \<Rightarrow> TaskGraphExecutionModel \<Rightarrow> bool" where
  "row_follows r s \<longleftrightarrow> xm_id s = xm_id r \<and> xm_tenant_id s = xm_tenant_id r \<and> xm_campaign_instance_id s = xm_campaign_instance_id r \<and>
     xm_row_version r \<le> xm_row_version s \<and> (final_state (xm_state r) \<longrightarrow> xm_state s = xm_state r)"

definition follows :: "('e, 'r, 'm, 'x) campaign_engine \<Rightarrow> ('e, 'r, 'm) campaign_database \<Rightarrow> ('e, 'r, 'm) campaign_database \<Rightarrow> bool" where
  "follows en db db' \<longleftrightarrow> (\<forall>r \<in># rows (ce_executions en) (cb_executions db). \<exists>s \<in># rows (ce_executions en) (cb_executions db'). row_follows r s)"

lemma row_follows_refl: "row_follows r r"
  by (simp add: row_follows_def)

lemma row_follows_trans: "row_follows a b \<Longrightarrow> row_follows b c \<Longrightarrow> row_follows a c"
  by (auto simp: row_follows_def)

lemma follows_refl: "follows en db db"
  unfolding follows_def by (blast intro: row_follows_refl)

lemma follows_trans: "follows en a b \<Longrightarrow> follows en b c \<Longrightarrow> follows en a c"
  unfolding follows_def by (meson row_follows_trans)

lemma started_facts:
  assumes "started fr cmd x m"
  shows "ex_version x = 2" "gate_in_range x" "ex_execution_id x = cf_execution_id fr" "sm_monitor_id m = cf_monitor_id fr"
    "ci_instance_id (ex_campaign_instance_ref x) = ci_instance_id (sm_campaign_instance_ref m)" "monitor_ok (sm_policy_snapshot m) m"
    "sm_version m = 1" "ex_state x = ExecutionState.RUNNING"
  using assms
  by (auto simp: started_def initialize_def mark_running_def Campaign_Data.emit_def Campaign_Data.mutate_def Campaign_Data.transition_def gate_in_range_def
    Safety_Monitor.create_def Safety_Monitor.emit_def monitor_ok_def exec_eval assign_def)

lemma pg_repositories [simp]:
  "ca_save_execution (pg_campaign_repositories en) = save_execution en" "ca_find_execution (pg_campaign_repositories en) = find_by_id en"
  "ca_find_execution_by_instance (pg_campaign_repositories en) = find_by_campaign_instance en" "ca_save_monitor (pg_campaign_repositories en) = save_monitor en"
  "ca_find_monitor (pg_campaign_repositories en) = find_monitor en" "ca_commit (pg_campaign_repositories en) = ce_commit en"
  by (simp_all add: pg_campaign_repositories_def)

lemma pg_stored_all:
  "stored_all (pg_campaign_repositories en) x m d d' \<longleftrightarrow> (\<exists>d1 d2. save_execution en x d = Return () d1 \<and>
     (case m of None \<Rightarrow> d2 = d1 | Some m \<Rightarrow> save_monitor en m d1 = Return () d2) \<and> ce_commit en d2 = Inr d')"
  by (cases m) (simp_all add: stored_all_def)

section \<open>Rows that change\<close>

lemma record_update_fixed: "rm_id (record_update en r m) = rm_id m" "rm_execution_id (record_update en r m) = rm_execution_id m"
  by (simp_all add: record_update_def)

lemma record_update_ok: "record_row_ok en m \<Longrightarrow> record_row_ok en (record_update en r m)"
proof -
  assume "record_row_ok en m"
  then obtain x r0 where "m = record_to_model en x r0" by (auto simp: record_row_ok_def)
  then have "record_update en r m = record_to_model en x (r0\<lparr>tr_state := tr_state r, tr_outcome := tr_outcome r, tr_operation_ref := tr_operation_ref r,
      tr_dispatched_at := tr_dispatched_at r, tr_completed_at := tr_completed_at r, tr_failure_reason := tr_failure_reason r\<rparr>)"
    by (simp add: record_update_def record_to_model_def)
  then show ?thesis unfolding record_row_ok_def by blast
qed

lemma execution_update_fixed:
  "xm_id (execution_update en x m) = xm_id m" "xm_tenant_id (execution_update en x m) = xm_tenant_id m"
  "xm_campaign_instance_id (execution_update en x m) = xm_campaign_instance_id m" "xm_state (execution_update en x m) = ExecutionState_value (ex_state x)"
  "xm_row_version (execution_update en x m) = ex_version x"
  by (simp_all add: execution_update_def)

lemma execution_update_ok:
  assumes "execution_row_ok en m" and "gate_in_range x" and "2 \<le> ex_version x"
  shows "execution_row_ok en (execution_update en x m)"
proof -
  from assms(1) obtain x0 where "m = execution_to_model en x0" by (auto simp: execution_row_ok_def)
  then have "execution_update en x m = execution_to_model en (x0\<lparr>ex_state := ex_state x, ex_pending_approval_gate := ex_pending_approval_gate x,
      ex_objective_states := ex_objective_states x, ex_version := ex_version x\<rparr>)"
    by (simp add: execution_update_def execution_to_model_def)
  then show ?thesis using assms(2,3) unfolding execution_row_ok_def
    by (intro exI [of _ "x0\<lparr>ex_state := ex_state x, ex_pending_approval_gate := ex_pending_approval_gate x,
      ex_objective_states := ex_objective_states x, ex_version := ex_version x\<rparr>"]) (simp add: gate_in_range_def)
qed

lemma monitor_update_fixed:
  "mm_id (monitor_update en m row) = mm_id row" "mm_campaign_instance_id (monitor_update en m row) = mm_campaign_instance_id row"
  "mm_tenant_id (monitor_update en m row) = mm_tenant_id row" "mm_row_version (monitor_update en m row) = sm_version m"
  by (simp_all add: monitor_update_def)

lemma monitor_update_ok:
  assumes "monitor_row_ok en row" and "monitor_ok p n" and "\<And>s. row = monitor_to_model en s \<Longrightarrow> sm_policy_snapshot s = p" and "1 \<le> sm_version n"
  shows "monitor_row_ok en (monitor_update en n row)"
proof -
  from assms(1) obtain s where row: "row = monitor_to_model en s" by (auto simp: monitor_row_ok_def)
  let ?s = "s\<lparr>sm_monitor_state := sm_monitor_state n, sm_auto_abort_triggered := sm_auto_abort_triggered n,
      sm_active_operation_ids := sm_active_operation_ids n, sm_version := sm_version n\<rparr>"
  have "monitor_update en n row = monitor_to_model en ?s" by (simp add: row monitor_update_def monitor_to_model_def)
  moreover have "monitor_ok (sm_policy_snapshot ?s) ?s" using assms(2) assms(3) [OF row] by (simp add: monitor_ok_def)
  moreover have "1 \<le> sm_version ?s" using assms(4) by simp
  ultimately show ?thesis unfolding monitor_row_ok_def by blast
qed

text \<open>A record is stored with its state, and a record of an execution belongs to no other.\<close>

definition record_saved :: "TaskGraphExecution \<Rightarrow> TaskExecutionRecordModel multiset \<Rightarrow> TaskExecutionRecord \<Rightarrow> bool" where
  "record_saved x R r \<longleftrightarrow> (\<exists>m \<in># R. rm_id m = tr_record_id r \<and> rm_execution_id m = ex_execution_id x \<and> rm_state m = TaskExecutionState_value (tr_state r))"

definition own_record :: "TaskGraphExecution \<Rightarrow> TaskExecutionRecordModel multiset \<Rightarrow> TaskExecutionRecord \<Rightarrow> bool" where
  "own_record x R r \<longleftrightarrow> (\<forall>m \<in># R. rm_id m = tr_record_id r \<longrightarrow> rm_execution_id m = ex_execution_id x)"

lemma image_mset_member: "m \<in># M \<Longrightarrow> g m \<in># image_mset g M"
  by simp

context pg_campaign_engine
begin

section \<open>Records\<close>

lemma sync_record_law:
  assumes "records_ok en X (rows (ce_records en) t)" and "\<exists>m \<in># X. xm_id m = ex_execution_id x"
  shows "\<exists>t'. sync_record en x r t = Inr t' \<and> records_ok en X (rows (ce_records en) t')"
proof -
  have key: "unique_key rm_id (rows (ce_records en) t)" using assms(1) by (simp add: records_ok_def)
  have "tb_select (ce_records en) (\<lambda>m. rm_id m = tr_record_id r) t = [] \<or>
      (\<exists>m. tb_select (ce_records en) (\<lambda>m. rm_id m = tr_record_id r) t = [m] \<and> m \<in># rows (ce_records en) t \<and> rm_id m = tr_record_id r)"
    by (rule unique_select [OF engine(2) key]) simp
  then show ?thesis
  proof (elim disjE exE conjE)
    assume none: "tb_select (ce_records en) (\<lambda>m. rm_id m = tr_record_id r) t = []"
    have "rm_id (record_to_model en x r) = tr_record_id r" "rm_execution_id (record_to_model en x r) = ex_execution_id x"
      by (simp_all add: record_to_model_def)
    with none have "sync_record en x r t = Inr (tb_add (ce_records en) (record_to_model en x r) t)" "\<forall>m \<in># rows (ce_records en) t. rm_id m \<noteq> rm_id (record_to_model en x r)"
      "\<exists>m \<in># X. xm_id m = rm_execution_id (record_to_model en x r)"
      using select_nil [OF engine(2), of "\<lambda>m. rm_id m = tr_record_id r" t] assms(2) by (simp_all add: sync_record_def scalar_one_or_none_def insert_row_def)
    moreover have "record_row_ok en (record_to_model en x r)" by (auto simp: record_row_ok_def)
    ultimately show ?thesis using assms(1) by (simp add: records_ok_def table_add [OF engine(2)] unique_key_add)
  next
    fix m
    assume one: "tb_select (ce_records en) (\<lambda>m. rm_id m = tr_record_id r) t = [m]"
    obtain n t' where u: "tb_update (ce_records en) (\<lambda>m. rm_id m = tr_record_id r) (record_update en r) t = (n, t')" by fastforce
    with one have "sync_record en x r t = Inr t'" by (simp add: sync_record_def scalar_one_or_none_def)
    moreover have "records_ok en X (rows (ce_records en) t')"
      using assms(1) table_update [OF engine(2) u]
      by (auto simp: records_ok_def unique_key_image record_update_fixed record_update_ok)
    ultimately show ?thesis by blast
  qed
qed

lemma sync_records_law:
  assumes "\<exists>m \<in># X. xm_id m = ex_execution_id x"
  shows "records_ok en X (rows (ce_records en) t) \<Longrightarrow> \<exists>t'. sync_records en x rs t = Inr t' \<and> records_ok en X (rows (ce_records en) t')"
proof (induction rs arbitrary: t)
  case (Cons r rs)
  then show ?case using sync_record_law [OF Cons.prems assms, of r] by auto
qed simp

lemma records_ok_keys:
  "records_ok en X R \<Longrightarrow> (\<And>m. m \<in># X \<Longrightarrow> \<exists>m' \<in># X'. xm_id m' = xm_id m) \<Longrightarrow> records_ok en X' R"
  unfolding records_ok_def by fastforce

lemma sync_record_saves:
  assumes "sync_record en x r t = Inr t'" and "own_record x (rows (ce_records en) t) r"
  shows "record_saved x (rows (ce_records en) t') r"
    and "tr_record_id q \<noteq> tr_record_id r \<Longrightarrow> record_saved x (rows (ce_records en) t) q \<Longrightarrow> record_saved x (rows (ce_records en) t') q"
    and "own_record x (rows (ce_records en) t) q \<Longrightarrow> own_record x (rows (ce_records en) t') q"
proof -
  let ?R = "rows (ce_records en) t"
  have cases: "rows (ce_records en) t' = add_mset (record_to_model en x r) ?R \<or>
      (\<exists>m \<in># ?R. rm_id m = tr_record_id r) \<and> rows (ce_records en) t' = image_mset (\<lambda>m. if rm_id m = tr_record_id r then record_update en r m else m) ?R"
  proof (cases "scalar_one_or_none (ce_multiple_results en) (tb_select (ce_records en) (\<lambda>m. rm_id m = tr_record_id r) t)")
    case (Inr found)
    then show ?thesis
    proof (cases found)
      case None
      with assms(1) Inr have "insert_row (ce_records en) rm_id (ce_integrity_error en) (record_to_model en x r) t = Inr t'" by (simp add: sync_record_def)
      then show ?thesis by (intro disjI1) (rule insert_row_Inr(1) [OF engine(2)])
    next
      case (Some m)
      with Inr have "m \<in> set (tb_select (ce_records en) (\<lambda>m. rm_id m = tr_record_id r) t)" by (simp add: scalar_Some)
      then have "m \<in># ?R" "rm_id m = tr_record_id r" by (simp_all add: select_set [OF engine(2)])
      moreover obtain n t'' where u: "tb_update (ce_records en) (\<lambda>m. rm_id m = tr_record_id r) (record_update en r) t = (n, t'')" by fastforce
      ultimately show ?thesis using assms(1) Inr Some table_update [OF engine(2) u] by (auto simp: sync_record_def)
    qed
  qed (use assms(1) in \<open>simp add: sync_record_def\<close>)
  note fields = record_update_def record_to_model_def
  show "record_saved x (rows (ce_records en) t') r"
    using cases
  proof (elim disjE conjE bexE)
    fix m
    assume m: "m \<in># ?R" "rm_id m = tr_record_id r"
      and R: "rows (ce_records en) t' = image_mset (\<lambda>m. if rm_id m = tr_record_id r then record_update en r m else m) ?R"
    from m assms(2) have "rm_execution_id m = ex_execution_id x" by (simp add: own_record_def)
    with m show ?thesis using image_mset_member [OF m(1), of "\<lambda>m. if rm_id m = tr_record_id r then record_update en r m else m"]
      unfolding record_saved_def R by (intro bexI [of _ "record_update en r m"]) (simp_all add: fields)
  qed (simp add: record_saved_def fields)
  show "record_saved x (rows (ce_records en) t') q" if q: "tr_record_id q \<noteq> tr_record_id r" "record_saved x ?R q"
    using cases
  proof (elim disjE conjE)
    assume R: "rows (ce_records en) t' = image_mset (\<lambda>m. if rm_id m = tr_record_id r then record_update en r m else m) ?R"
    from q(2) obtain m where m: "m \<in># ?R" "rm_id m = tr_record_id q" "rm_execution_id m = ex_execution_id x" "rm_state m = TaskExecutionState_value (tr_state q)"
      by (auto simp: record_saved_def)
    then show ?thesis using image_mset_member [OF m(1), of "\<lambda>m. if rm_id m = tr_record_id r then record_update en r m else m"] q(1)
      unfolding record_saved_def R by (intro bexI [of _ m]) simp_all
  qed (use q(2) in \<open>auto simp: record_saved_def\<close>)
  show "own_record x (rows (ce_records en) t') q" if "own_record x ?R q"
    using cases that by (auto simp: own_record_def fields)
qed

lemma sync_records_saves:
  assumes "sync_records en x rs t = Inr t'" and "distinct (map tr_record_id rs)" and "\<forall>r \<in> set rs. own_record x (rows (ce_records en) t) r"
  shows "(\<forall>r \<in> set rs. record_saved x (rows (ce_records en) t') r) \<and>
    (\<forall>q. tr_record_id q \<notin> tr_record_id ` set rs \<longrightarrow> record_saved x (rows (ce_records en) t) q \<longrightarrow> record_saved x (rows (ce_records en) t') q)"
  using assms
proof (induction rs arbitrary: t)
  case (Cons r rs)
  then obtain t1 where t1: "sync_record en x r t = Inr t1" "sync_records en x rs t1 = Inr t'" by (auto simp: sum_bind_Inr)
  note one = sync_record_saves [OF t1(1)]
  have "\<forall>q \<in> set rs. own_record x (rows (ce_records en) t1) q" using Cons.prems(3) one(3) by simp
  with Cons.IH [OF t1(2)] Cons.prems(2,3) one(1,2) show ?case by auto
qed simp

lemma save_syncs: "save_execution en y db = Return () db' \<Longrightarrow> sync_records en y (ex_task_records y) (cb_records db) = Inr (cb_records db')"
  by (auto simp: save_execution_def Let_def write_records_def split: sum.splits option.splits if_splits prod.splits)

text \<open>The records of a loaded execution have distinct identifiers, and no other execution has them.\<close>

lemma loaded_records:
  assumes "campaign_valid en db" and "list_all2 reads_record (tb_select (ce_records en) (\<lambda>r. rm_execution_id r = ex_execution_id x) (cb_records db)) (ex_task_records x)"
    and "reaches x y"
  shows "distinct (map tr_record_id (ex_task_records y))" and "\<forall>r \<in> set (ex_task_records y). own_record y (rows (ce_records en) (cb_records db)) r"
proof -
  let ?ms = "tb_select (ce_records en) (\<lambda>r. rm_execution_id r = ex_execution_id x) (cb_records db)"
  note key = valid_keys(3) [OF assms(1)]
  have "map tr_record_id (ex_task_records x) = map rm_id ?ms"
    using assms(2) by (induction rule: list_all2_induct) (simp_all add: reads_record_def)
  moreover have "map tr_record_id (ex_task_records y) = map tr_record_id (ex_task_records x)"
  proof -
    from assms(3) obtain cs where y: "y = history exec cs x" by (auto simp: reaches_def)
    have "list_all2 record_le (ex_task_records x) (ex_task_records y)" unfolding y by (rule identity.history_records)
    then show ?thesis by (induction rule: list_all2_induct) (simp_all add: record_le_def)
  qed
  ultimately have ids: "map tr_record_id (ex_task_records y) = map rm_id ?ms" by simp
  show "distinct (map tr_record_id (ex_task_records y))" unfolding ids by (rule unique_key_distinct [OF engine(2) key])
  show "\<forall>r \<in> set (ex_task_records y). own_record y (rows (ce_records en) (cb_records db)) r"
    unfolding own_record_def
  proof (intro ballI impI)
    fix r m
    assume "r \<in> set (ex_task_records y)" and m: "m \<in># rows (ce_records en) (cb_records db)" "rm_id m = tr_record_id r"
    then have "tr_record_id r \<in> rm_id ` set ?ms" using ids by (metis image_eqI list.set_map)
    then obtain m' where "m' \<in># rows (ce_records en) (cb_records db)" "rm_execution_id m' = ex_execution_id x" "rm_id m' = tr_record_id r"
      by (auto simp: select_set [OF engine(2)])
    with m unique_key_eq [OF key, of m m'] show "rm_execution_id m = ex_execution_id y" by (simp add: reaches_keeps(1) [OF assms(3)])
  qed
qed

lemma saved_records:
  assumes "record_saved x (rows (ce_records en) t) r" and "list_all2 reads_record (tb_select (ce_records en) (\<lambda>r. rm_execution_id r = ex_execution_id x) t) rs"
  shows "\<exists>q \<in> set rs. tr_record_id q = tr_record_id r \<and> tr_state q = tr_state r"
proof -
  from assms(1) obtain m where m: "m \<in> set (tb_select (ce_records en) (\<lambda>r. rm_execution_id r = ex_execution_id x) t)" "rm_id m = tr_record_id r"
    "rm_state m = TaskExecutionState_value (tr_state r)" by (auto simp: record_saved_def select_set [OF engine(2)])
  with list_all2_member [OF assms(2)] obtain q where "q \<in> set rs" "reads_record m q" by blast
  with m(2,3) show ?thesis by (metis campaign_enums(2) reads_record_def sum.inject(2))
qed

section \<open>Executions\<close>

text \<open>A stored execution is saved exactly when its version is the successor of the stored one; any other version is a conflict.\<close>

lemma stored_select:
  assumes "campaign_valid en db" and "m \<in># rows (ce_executions en) (cb_executions db)" and "execution_key en i t m"
  shows "tb_select (ce_executions en) (execution_key en i t) (cb_executions db) = [m]"
    "filter_mset (execution_key en i t) (rows (ce_executions en) (cb_executions db)) = {#m#}"
    "\<And>r. r \<in># rows (ce_executions en) (cb_executions db) \<Longrightarrow> execution_key en i t r \<longleftrightarrow> r = m"
proof -
  note row = unique_row [where p = "execution_key en i t" and k = i, OF engine(1) valid_keys(1) [OF assms(1)] assms(2) assms(3)]
  show "tb_select (ce_executions en) (execution_key en i t) (cb_executions db) = [m]" by (rule row(1)) (simp add: execution_key_def)
  show "filter_mset (execution_key en i t) (rows (ce_executions en) (cb_executions db)) = {#m#}" by (rule row(2)) (simp add: execution_key_def)
  show "execution_key en i t r \<longleftrightarrow> r = m" if "r \<in># rows (ce_executions en) (cb_executions db)" for r
    by (rule row(3) [OF _ that]) (simp add: execution_key_def)
qed

lemma save_stored_execution:
  assumes valid: "campaign_valid en db" and m: "m \<in># rows (ce_executions en) (cb_executions db)"
    and key: "execution_key en (ex_execution_id y) (ex_tenant_id y) m" and version: "xm_row_version m \<le> ex_version y"
  shows "ex_version y \<noteq> xm_row_version m + 1 \<Longrightarrow>
      \<exists>db'. save_execution en y db = Raise (DomainFailure (ConcurrencyConflict (uuid_str (xm_id m)))) db'"
    and "ex_version y = xm_row_version m + 1 \<Longrightarrow> \<exists>db'. save_execution en y db = Return () db' \<and> cb_monitors db' = cb_monitors db \<and>
      rows (ce_executions en) (cb_executions db') = image_mset (\<lambda>r. if r = m then execution_update en y m else r) (rows (ce_executions en) (cb_executions db)) \<and>
      records_ok en (rows (ce_executions en) (cb_executions db')) (rows (ce_records en) (cb_records db'))"
proof -
  let ?key = "execution_key en (ex_execution_id y) (ex_tenant_id y)"
  let ?X = "rows (ce_executions en) (cb_executions db)"
  note sel = stored_select [OF valid m key]
  from valid m have "execution_row_ok en m" by (simp add: campaign_valid_def executions_ok_def)
  then have two: "2 \<le> xm_row_version m" by (auto simp: execution_row_ok_def execution_to_model_def)
  with version have expected: "max (ex_version y - 1) 1 = ex_version y - 1" by simp
  obtain n t where u: "tb_update (ce_executions en) (\<lambda>r. ?key r \<and> xm_row_version r = ex_version y - 1) (execution_update en y) (cb_executions db) = (n, t)"
    by fastforce
  note upd = table_update [OF engine(1) u]
  have count: "n = size {#r \<in># {#m#}. xm_row_version r = ex_version y - 1#}"
    using upd unfolding sel(2) [symmetric] by (simp add: filter_filter_mset conj_commute)
  have id: "xm_id m = ex_execution_id y" using key by (simp add: execution_key_def)
  have save: "save_execution en y db =
      (if n = 0 then Raise (DomainFailure (ConcurrencyConflict (uuid_str (xm_id m)))) (db\<lparr>cb_executions := t\<rparr>)
       else if n = 1 then write_records en y (db\<lparr>cb_executions := t\<rparr>) else Raise (ExternalFailure (ce_multiple_results en)) (db\<lparr>cb_executions := t\<rparr>))"
    by (simp add: save_execution_def Let_def expected u sel(1) scalar_one_or_none_def id)
  show "\<exists>db'. save_execution en y db = Raise (DomainFailure (ConcurrencyConflict (uuid_str (xm_id m)))) db'"
    if "ex_version y \<noteq> xm_row_version m + 1"
    using that count by (simp add: save)
  show "\<exists>db'. save_execution en y db = Return () db' \<and> cb_monitors db' = cb_monitors db \<and>
      rows (ce_executions en) (cb_executions db') = image_mset (\<lambda>r. if r = m then execution_update en y m else r) ?X \<and>
      records_ok en (rows (ce_executions en) (cb_executions db')) (rows (ce_records en) (cb_records db'))"
    if v: "ex_version y = xm_row_version m + 1"
  proof -
    have rows: "rows (ce_executions en) t = image_mset (\<lambda>r. if r = m then execution_update en y m else r) ?X"
      unfolding conjunct2 [OF upd] by (rule image_mset_cong) (use sel(3) v in auto)
    have kept: "\<exists>r \<in># rows (ce_executions en) t. xm_id r = xm_id m'" if "m' \<in># ?X" for m'
      using image_mset_member [OF that, of "\<lambda>r. if r = m then execution_update en y m else r"]
      by (intro bexI [of _ "if m' = m then execution_update en y m else m'"]) (simp_all add: rows execution_update_fixed)
    have "records_ok en (rows (ce_executions en) t) (rows (ce_records en) (cb_records db))"
      by (rule records_ok_keys [of ?X, OF _ kept]) (use valid in \<open>simp add: campaign_valid_def\<close>)
    moreover have "\<exists>r \<in># rows (ce_executions en) t. xm_id r = ex_execution_id y" using kept [OF m] by (simp add: id)
    ultimately obtain t' where "sync_records en y (ex_task_records y) (cb_records db) = Inr t'"
      "records_ok en (rows (ce_executions en) t) (rows (ce_records en) t')" using sync_records_law by blast
    then show ?thesis using rows count v by (simp add: save write_records_def)
  qed
qed

text \<open>A new execution is inserted; its version is 2, so that a row with its identifier would be a conflict.\<close>

lemma save_new_execution:
  assumes valid: "campaign_valid en db" and "ex_version x = 2" and save: "save_execution en x db = Return () db'"
  shows "cb_monitors db' = cb_monitors db" "\<forall>m \<in># rows (ce_executions en) (cb_executions db). xm_id m \<noteq> ex_execution_id x"
    "rows (ce_executions en) (cb_executions db') = add_mset (execution_to_model en x) (rows (ce_executions en) (cb_executions db))"
    "records_ok en (rows (ce_executions en) (cb_executions db')) (rows (ce_records en) (cb_records db'))"
proof -
  let ?key = "execution_key en (ex_execution_id x) (ex_tenant_id x)"
  let ?X = "rows (ce_executions en) (cb_executions db)"
  have "\<not> ?key m" if m: "m \<in># ?X" for m
  proof
    assume key: "?key m"
    from valid m have "execution_row_ok en m" by (simp add: campaign_valid_def executions_ok_def)
    then have two: "2 \<le> xm_row_version m" by (auto simp: execution_row_ok_def execution_to_model_def)
    obtain n t where u: "tb_update (ce_executions en) (\<lambda>r. ?key r \<and> xm_row_version r = 1) (execution_update en x) (cb_executions db) = (n, t)" by fastforce
    have "n = size {#r \<in># {#m#}. xm_row_version r = 1#}"
      using table_update [OF engine(1) u] unfolding stored_select(2) [OF valid m key, symmetric] by (simp add: filter_filter_mset conj_commute)
    then show False
      using save u two assms(2) by (simp add: save_execution_def Let_def stored_select(1) [OF valid m key] scalar_one_or_none_def)
  qed
  then have none: "tb_select (ce_executions en) ?key (cb_executions db) = []" by (simp add: select_nil [OF engine(1)])
  from save none obtain t where t: "insert_row (ce_executions en) xm_id (ce_integrity_error en) (execution_to_model en x) (cb_executions db) = Inr t"
    and recs: "write_records en x (db\<lparr>cb_executions := t\<rparr>) = Return () db'"
    by (auto simp: save_execution_def Let_def scalar_one_or_none_def split: sum.splits)
  from recs obtain t' where t': "sync_records en x (ex_task_records x) (cb_records db) = Inr t'" "db' = db\<lparr>cb_executions := t, cb_records := t'\<rparr>"
    by (auto simp: write_records_def split: sum.splits)
  note ins = insert_row_Inr [OF engine(1) t]
  show "cb_monitors db' = cb_monitors db" using t'(2) by simp
  have id: "xm_id (execution_to_model en x) = ex_execution_id x" by (simp add: execution_to_model_def)
  show "\<forall>m \<in># ?X. xm_id m \<noteq> ex_execution_id x" using ins(2) by (simp add: id)
  show rows: "rows (ce_executions en) (cb_executions db') = add_mset (execution_to_model en x) ?X" using ins(1) t'(2) by simp
  have "records_ok en (add_mset (execution_to_model en x) ?X) (rows (ce_records en) (cb_records db))"
    by (rule records_ok_keys [of ?X]) (use valid in \<open>auto simp: campaign_valid_def\<close>)
  moreover have "\<exists>m \<in># add_mset (execution_to_model en x) ?X. xm_id m = ex_execution_id x" by (simp add: id)
  ultimately have "records_ok en (add_mset (execution_to_model en x) ?X) (rows (ce_records en) t')"
    using sync_records_law [of "add_mset (execution_to_model en x) ?X" x "cb_records db" "ex_task_records x"] t'(1) by auto
  then show "records_ok en (rows (ce_executions en) (cb_executions db')) (rows (ce_records en) (cb_records db'))" using rows t'(2) by simp
qed

section \<open>Monitors\<close>

lemma save_stored_monitor:
  assumes ok: "monitors_ok en (rows (ce_monitors en) (cb_monitors db))" and row: "row \<in># rows (ce_monitors en) (cb_monitors db)" "reads_monitor en row m"
    and n: "monitor_reaches m n" and save: "save_monitor en n db = Return () db'"
  shows "cb_executions db' = cb_executions db" "cb_records db' = cb_records db" "monitors_ok en (rows (ce_monitors en) (cb_monitors db'))"
    "image_mset mm_campaign_instance_id (rows (ce_monitors en) (cb_monitors db')) = image_mset mm_campaign_instance_id (rows (ce_monitors en) (cb_monitors db))"
proof -
  let ?M = "rows (ce_monitors en) (cb_monitors db)"
  let ?key = "\<lambda>row. mm_id row = sm_monitor_id n \<and> mm_tenant_id row = ce_uuid_of en (sm_tenant_id n)"
  from n row(2) have fixed: "sm_monitor_id n = mm_id row" "ce_uuid_of en (sm_tenant_id n) = mm_tenant_id row"
    and pol: "monitor_ok (sm_policy_snapshot m) n" "\<And>s. row = monitor_to_model en s \<Longrightarrow> sm_policy_snapshot s = sm_policy_snapshot m"
    by (simp_all add: monitor_reaches_keeps reads_monitor_def engine(4))
  have one: "1 \<le> sm_version n" using row(2) monitor_reaches_keeps(4) [OF n] by (simp add: reads_monitor_def)
  have uniq: "unique_key mm_id ?M" using ok by (simp add: monitors_ok_def)
  have "?key row" using fixed by simp
  then have "tb_select (ce_monitors en) ?key (cb_monitors db) \<noteq> []" using row(1) select_nil [OF engine(3), of ?key "cb_monitors db"] by blast
  then obtain row' where sel: "scalar_one_or_none (ce_multiple_results en) (tb_select (ce_monitors en) ?key (cb_monitors db)) = Inr (Some row')"
    using save by (cases "scalar_one_or_none (ce_multiple_results en) (tb_select (ce_monitors en) ?key (cb_monitors db))")
      (auto simp: save_monitor_def Let_def scalar_None split: option.splits)
  obtain k t where u: "tb_update (ce_monitors en) (\<lambda>row. ?key row \<and> mm_row_version row = max (sm_version n - 1) 1) (monitor_update en n) (cb_monitors db) = (k, t)"
    by fastforce
  have db': "db' = db\<lparr>cb_monitors := t\<rparr>" using save sel u by (auto simp: save_monitor_def Let_def split: if_splits)
  have rows: "rows (ce_monitors en) t = image_mset (\<lambda>r. if ?key r \<and> mm_row_version r = max (sm_version n - 1) 1 then monitor_update en n r else r) ?M"
    using table_update [OF engine(3) u] by simp
  have same: "r = row" if "r \<in># ?M" "?key r" for r using unique_key_eq [OF uniq that(1) row(1)] that(2) fixed by simp
  show "cb_executions db' = cb_executions db" "cb_records db' = cb_records db" using db' by simp_all
  show "image_mset mm_campaign_instance_id (rows (ce_monitors en) (cb_monitors db')) = image_mset mm_campaign_instance_id ?M"
    unfolding db' by (simp add: rows image_mset.compositionality comp_def) (rule image_mset_cong, simp add: monitor_update_fixed)
  have "monitor_row_ok en (monitor_update en n row)"
    by (rule monitor_update_ok [OF _ pol one]) (use ok row(1) in \<open>simp_all add: monitors_ok_def\<close>)
  then have "monitor_row_ok en r" if "r \<in># rows (ce_monitors en) t" for r
    using that ok same by (auto simp: rows monitors_ok_def)
  then show "monitors_ok en (rows (ce_monitors en) (cb_monitors db'))"
    using ok by (simp add: db' monitors_ok_def rows unique_key_image monitor_update_fixed)
qed

lemma save_new_monitor:
  assumes ok: "monitors_ok en (rows (ce_monitors en) (cb_monitors db))" and fresh: "\<forall>r \<in># rows (ce_monitors en) (cb_monitors db). mm_id r \<noteq> sm_monitor_id m"
    and m: "monitor_ok (sm_policy_snapshot m) m" "sm_version m = 1" and save: "save_monitor en m db = Return () db'"
  shows "cb_executions db' = cb_executions db" "cb_records db' = cb_records db" "monitors_ok en (rows (ce_monitors en) (cb_monitors db'))"
    "rows (ce_monitors en) (cb_monitors db') = add_mset (monitor_to_model en m) (rows (ce_monitors en) (cb_monitors db))"
    "\<forall>r \<in># rows (ce_monitors en) (cb_monitors db). mm_campaign_instance_id r \<noteq> ci_instance_id (sm_campaign_instance_ref m)"
proof -
  let ?M = "rows (ce_monitors en) (cb_monitors db)"
  have "tb_select (ce_monitors en) (\<lambda>row. mm_id row = sm_monitor_id m \<and> mm_tenant_id row = ce_uuid_of en (sm_tenant_id m)) (cb_monitors db) = []"
    using fresh by (auto simp: select_nil [OF engine(3)])
  with save obtain t where t: "insert_monitor en (monitor_to_model en m) (cb_monitors db) = Inr t" and db': "db' = db\<lparr>cb_monitors := t\<rparr>"
    by (auto simp: save_monitor_def Let_def scalar_one_or_none_def split: sum.splits)
  from t have none: "tb_select (ce_monitors en) (\<lambda>r. mm_campaign_instance_id r = mm_campaign_instance_id (monitor_to_model en m)) (cb_monitors db) = []"
    and ins: "insert_row (ce_monitors en) mm_id (ce_integrity_error en) (monitor_to_model en m) (cb_monitors db) = Inr t"
    by (simp_all add: insert_monitor_def split: if_splits)
  note rows = insert_row_Inr [OF engine(3) ins]
  have inst: "mm_campaign_instance_id (monitor_to_model en m) = ci_instance_id (sm_campaign_instance_ref m)" by (simp add: monitor_to_model_def)
  show "cb_executions db' = cb_executions db" "cb_records db' = cb_records db" using db' by simp_all
  show new: "\<forall>r \<in># ?M. mm_campaign_instance_id r \<noteq> ci_instance_id (sm_campaign_instance_ref m)"
    using none by (simp add: select_nil [OF engine(3)] inst)
  show add: "rows (ce_monitors en) (cb_monitors db') = add_mset (monitor_to_model en m) ?M" using db' rows(1) by simp
  have "monitor_row_ok en (monitor_to_model en m)" using m by (auto simp: monitor_row_ok_def)
  then show "monitors_ok en (rows (ce_monitors en) (cb_monitors db'))"
    using ok new rows(2) unfolding add by (simp add: monitors_ok_def unique_key_add inst)
qed

section \<open>Every use case keeps the invariant\<close>

lemma executions_ok_monitors:
  "executions_ok en X M \<Longrightarrow> image_mset mm_campaign_instance_id M' = image_mset mm_campaign_instance_id M \<Longrightarrow> executions_ok en X M'"
proof -
  assume ok: "executions_ok en X M" and "image_mset mm_campaign_instance_id M' = image_mset mm_campaign_instance_id M"
  from this(2) have "set_mset (image_mset mm_campaign_instance_id M') = set_mset (image_mset mm_campaign_instance_id M)" by (rule arg_cong)
  then have "mm_campaign_instance_id ` set_mset M' = mm_campaign_instance_id ` set_mset M" by simp
  then have inst: "(\<exists>s \<in># M'. mm_campaign_instance_id s = i) \<longleftrightarrow> (\<exists>s \<in># M. mm_campaign_instance_id s = i)" for i
    by (metis image_iff)
  from ok show ?thesis unfolding executions_ok_def inst .
qed

lemma save_changed_execution:
  assumes valid: "campaign_valid en db" and x: "found_execution (pg_campaign_repositories en) t db x" "reaches x y"
    and save: "save_execution en y db = Return () db'"
  shows "campaign_valid en db' \<and> follows en db db' \<and> cb_monitors db' = cb_monitors db"
proof -
  let ?X = "rows (ce_executions en) (cb_executions db)"
  from found_execution_row [OF valid x(1)] obtain m where m: "m \<in># ?X" "reads_execution en m x" by blast
  then have ok: "execution_row_ok en m" using valid by (simp add: campaign_valid_def executions_ok_def)
  have y: "ex_execution_id y = xm_id m" "ce_uuid_of en (ex_tenant_id y) = xm_tenant_id m" "xm_row_version m \<le> ex_version y" "gate_in_range y"
    using m(2) reaches_keeps [OF x(2)] by (simp_all add: reads_execution_def engine(4))
  then have key: "execution_key en (ex_execution_id y) (ex_tenant_id y) m" by (simp add: execution_key_def)
  have "ex_version y = xm_row_version m + 1" using save_stored_execution(1) [OF valid m(1) key y(3)] save by force
  then obtain db'' where "save_execution en y db = Return () db''" and mon: "cb_monitors db'' = cb_monitors db" and
    rows: "rows (ce_executions en) (cb_executions db'') = image_mset (\<lambda>r. if r = m then execution_update en y m else r) ?X" and
    recs: "records_ok en (rows (ce_executions en) (cb_executions db'')) (rows (ce_records en) (cb_records db''))"
    using save_stored_execution(2) [OF valid m(1) key y(3)] by blast
  with save have db': "db'' = db'" by simp
  have two: "2 \<le> ex_version y" using ok y(3) by (auto simp: execution_row_ok_def execution_to_model_def)
  have "execution_row_ok en (execution_update en y m)" by (rule execution_update_ok [OF ok y(4) two])
  with valid have "executions_ok en (rows (ce_executions en) (cb_executions db')) (rows (ce_monitors en) (cb_monitors db))"
    unfolding campaign_valid_def executions_ok_def rows [unfolded db'] by (auto simp: unique_key_image execution_update_fixed)
  moreover have "follows en db db'"
    unfolding follows_def rows [unfolded db']
  proof
    fix r
    assume r: "r \<in># ?X"
    have final: "ExecutionState_value (ex_state y) = xm_state m" if "final_state (xm_state m)"
      using that m(2) reaches_keeps(5) [OF x(2)] final_state_iff [of "ex_state x"] by (auto simp: reads_execution_def)
    show "\<exists>r' \<in># image_mset (\<lambda>r. if r = m then execution_update en y m else r) ?X. row_follows r r'"
      by (rule bexI [OF _ image_mset_member [OF r]]) (auto simp: row_follows_def execution_update_fixed y(3) final)
  qed
  ultimately show ?thesis using valid recs mon by (simp add: db' campaign_valid_def)
qed

lemma save_called_monitor:
  assumes valid: "campaign_valid en db" and m: "found_monitor (pg_campaign_repositories en) t db0 m" "monitor_reaches m n" "cb_monitors db0 = cb_monitors db" "campaign_valid en db0"
    and save: "save_monitor en n db = Return () db'"
  shows "campaign_valid en db' \<and> cb_executions db' = cb_executions db"
proof -
  from found_monitor_row [OF m(4,1)] obtain row where row: "row \<in># rows (ce_monitors en) (cb_monitors db)" "reads_monitor en row m" using m(3) by auto
  have ok: "monitors_ok en (rows (ce_monitors en) (cb_monitors db))" using valid by (simp add: campaign_valid_def)
  note saved = save_stored_monitor [OF ok row m(2) save]
  have "executions_ok en (rows (ce_executions en) (cb_executions db)) (rows (ce_monitors en) (cb_monitors db'))"
    by (rule executions_ok_monitors [OF _ saved(4)]) (use valid in \<open>simp add: campaign_valid_def\<close>)
  with valid saved show ?thesis by (simp add: campaign_valid_def)
qed

lemma start_keeps:
  assumes valid: "campaign_valid en db" and st: "started fr cmd x m" and fresh: "unused_ids en db fr"
    and save: "save_execution en x db = Return () d1" "save_monitor en m d1 = Return () db'"
  shows "campaign_valid en db' \<and> follows en db db'"
proof -
  note s = started_facts [OF st]
  note new = save_new_execution [OF valid s(1) save(1)]
  have ok: "monitors_ok en (rows (ce_monitors en) (cb_monitors d1))" using valid new(1) by (simp add: campaign_valid_def)
  have "\<forall>r \<in># rows (ce_monitors en) (cb_monitors d1). mm_id r \<noteq> sm_monitor_id m" using fresh new(1) s(4) by (simp add: unused_ids_def)
  note mon = save_new_monitor [OF ok this s(6,7) save(2)]
  let ?X = "rows (ce_executions en) (cb_executions db)"
  let ?x = "execution_to_model en x"
  have inst: "xm_campaign_instance_id ?x = ci_instance_id (sm_campaign_instance_ref m)" by (simp add: execution_to_model_def s(5))
  have row: "execution_row_ok en ?x" unfolding execution_row_ok_def by (rule exI [of _ x]) (simp add: s(1,2))
  have X: "executions_ok en ?X (rows (ce_monitors en) (cb_monitors db))" using valid by (simp add: campaign_valid_def)
  then have fresh_inst: "\<forall>r \<in># ?X. xm_campaign_instance_id r \<noteq> xm_campaign_instance_id ?x"
    using mon(5) unfolding inst executions_ok_def new(1) by metis
  have own: "\<exists>s \<in># add_mset (monitor_to_model en m) (rows (ce_monitors en) (cb_monitors db)). mm_campaign_instance_id s = xm_campaign_instance_id ?x"
    by (simp add: inst monitor_to_model_def)
  have "xm_id ?x = ex_execution_id x" by (simp add: execution_to_model_def)
  with X row own new(2) fresh_inst
  have "executions_ok en (add_mset ?x ?X) (add_mset (monitor_to_model en m) (rows (ce_monitors en) (cb_monitors db)))"
    unfolding executions_ok_def by (auto simp: unique_key_add)
  then have "campaign_valid en db'"
    using mon new(1,3,4) by (simp add: campaign_valid_def)
  moreover have "follows en db db'" unfolding follows_def mon(1) new(3) by (auto intro: row_follows_refl)
  ultimately show ?thesis by simp
qed

theorem effect_keeps:
  assumes "campaign_effect (pg_campaign_repositories en) (unused_ids en) t db db'" and valid: "campaign_valid en db"
  shows "campaign_valid en db' \<and> follows en db db'"
  using assms(1)
proof cases
  case effect_nothing
  with valid show ?thesis by (simp add: follows_refl)
next
  case (effect_start fr cmd x m)
  then obtain d1 d2 where "save_execution en x db = Return () d1" "save_monitor en m d1 = Return () d2" "ce_commit en d2 = Inr db'"
    by (auto simp: pg_stored_all)
  then show ?thesis using start_keeps [OF valid effect_start(1,3)] engine(6) by blast
next
  case (effect_change x y m)
  then obtain d1 d2 where save: "save_execution en y db = Return () d1" "case m of None \<Rightarrow> d2 = d1 | Some m \<Rightarrow> save_monitor en m d1 = Return () d2"
    "ce_commit en d2 = Inr db'" by (auto simp: pg_stored_all)
  note ch = save_changed_execution [OF valid effect_change(1,2) save(1)]
  have db': "db' = d2" using save(3) engine(6) by blast
  show ?thesis
  proof (cases m)
    case None
    with save(2) ch db' show ?thesis by simp
  next
    case (Some n)
    with effect_change(3) obtain m' where m': "found_monitor (pg_campaign_repositories en) t db m'" "monitor_reaches m' n" by (auto simp: called_monitor_def)
    have "campaign_valid en d2 \<and> cb_executions d2 = cb_executions d1"
      by (rule save_called_monitor [OF _ m' _ valid]) (use save(2) ch Some in auto)
    with ch db' show ?thesis by (simp add: follows_def)
  qed
next
  case (effect_monitor m n d1)
  then have "campaign_valid en d1 \<and> cb_executions d1 = cb_executions db"
    by (intro save_called_monitor [OF valid effect_monitor(1,2) refl valid]) simp
  moreover have "db' = d1" using effect_monitor(4) engine(6) by simp
  ultimately show ?thesis using follows_refl [of en db] by (simp add: follows_def)
qed

end

end
