(* ===== verification/Campaign_Properties.thy ===== *)
theory Campaign_Properties
  imports Campaign_Invariant "HOL-Library.AList"
begin

text \<open>
  The properties of the campaign-execution service over its PostgreSQL repositories, and an engine of list tables on which they are
  evaluated.
\<close>

section \<open>An engine of list tables\<close>

type_synonym list_campaigns = "(TaskGraphExecutionModel list, TaskExecutionRecordModel list, CampaignSafetyMonitorModel list) campaign_database"

definition distinct_keys :: "json \<Rightarrow> json" where
  "distinct_keys v = (case v of JObject kvs \<Rightarrow> JObject (AList.clearjunk kvs) | _ \<Rightarrow> v)"

lemma distinct_keys_same: "json_same v (distinct_keys v)"
proof (cases v)
  case (JObject kvs)
  have "rel_option json_same (map_of kvs k) (map_of (AList.clearjunk kvs) k)" for k
    by (simp add: AList.map_of_clearjunk) (rule option.rel_refl, rule json_same_refl)
  then show ?thesis by (simp add: JObject distinct_keys_def json_same_object)
qed (simp_all add: distinct_keys_def json_same_refl)

definition list_campaign_engine ::
  "(TaskGraphExecutionModel list, TaskExecutionRecordModel list, CampaignSafetyMonitorModel list, string) campaign_engine" where
  "list_campaign_engine = \<lparr>ce_executions = list_table, ce_records = list_table, ce_monitors = list_table,
     ce_multiple_results = ''MultipleResultsFound'', ce_integrity_error = ''IntegrityError'', ce_commit = Inr,
     ce_uuid_of = of_digits, ce_from_uuid = digits_of, ce_jsonb = distinct_keys\<rparr>"

lemma list_campaign_engine_laws: "campaign_engine_laws list_campaign_engine"
proof -
  have "distinct (map fst kvs)" if "distinct_keys v = JObject kvs" for v kvs
    using that AList.distinct_clearjunk by (auto simp: distinct_keys_def split: json.splits)
  then show ?thesis by (simp add: campaign_engine_laws_def list_campaign_engine_def list_table_laws distinct_keys_same)
qed

interpretation list_campaigns: pg_campaign_engine list_campaign_engine
  by unfold_locales (rule list_campaign_engine_laws)

section \<open>Reachable databases\<close>

definition no_campaigns :: "('e, 'r, 'm, 'x) campaign_engine \<Rightarrow> ('e, 'r, 'm) campaign_database \<Rightarrow> bool" where
  "no_campaigns en db \<longleftrightarrow> rows (ce_executions en) (cb_executions db) = {#} \<and> rows (ce_records en) (cb_records db) = {#} \<and>
     rows (ce_monitors en) (cb_monitors db) = {#}"

lemma no_campaigns_valid: "no_campaigns en db \<Longrightarrow> campaign_valid en db"
  by (simp add: no_campaigns_def campaign_valid_def executions_ok_def records_ok_def monitors_ok_def unique_key_def)

lemma state_value_inj: "ExecutionState_value a = ExecutionState_value b \<longleftrightarrow> a = b"
  by (metis campaign_enums(1) sum.inject(2))

lemma attempt_value: "and_then (attempt err (Inr a)) f = f a"
  by (simp add: fun_eq_iff and_then_def attempt_def)

context pg_campaign_engine
begin

lemma runs_valid:
  assumes "campaign_runs sv (unused_ids en) u v" and "cs_repositories sv = pg_campaign_repositories en" and "campaign_valid en (tx_db u)"
  shows "campaign_valid en (tx_db v) \<and> follows en (tx_db u) (tx_db v)"
proof -
  have "campaign_valid en (tx_db v) \<and> follows en (tx_db u) (tx_db v)"
    by (rule runs_keep [OF assms(1), where P = "\<lambda>d. campaign_valid en d \<and> follows en (tx_db u) d"])
      (use assms(2,3) effect_keeps in \<open>auto intro: follows_refl follows_trans\<close>)
  then show ?thesis .
qed

lemma reachable_valid:
  assumes "cs_repositories sv = pg_campaign_repositories en" and "no_campaigns en (tx_db u)" and "campaign_runs sv (unused_ids en) u v"
  shows "campaign_valid en (tx_db v)"
  using runs_valid [OF assms(3,1)] no_campaigns_valid [OF assms(2)] by blast

text \<open>The execution found under a key is that of the row with this key.\<close>

lemma found_by_id:
  assumes "campaign_valid en db" and "m \<in># rows (ce_executions en) (cb_executions db)" and "execution_key en i t m"
  shows "\<exists>x. find_by_id en i t db = Inr (Some x) \<and> reads_execution en m x \<and>
    list_all2 reads_record (tb_select (ce_records en) (\<lambda>r. rm_execution_id r = i) (cb_records db)) (ex_task_records x)"
proof -
  have "xm_id m = i" using assms(3) by (simp add: execution_key_def)
  then show ?thesis using find_by_id_law [OF assms(1), of i t] stored_select(3) [OF assms] assms(2,3) by blast
qed

lemma found_row:
  assumes "campaign_valid en db" and "find_by_id en i t db = Inr (Some x)"
  obtains m where "m \<in># rows (ce_executions en) (cb_executions db)" "execution_key en i t m" "reads_execution en m x"
    "list_all2 reads_record (tb_select (ce_records en) (\<lambda>r. rm_execution_id r = i) (cb_records db)) (ex_task_records x)"
  using find_by_id_law [OF assms(1), of i t] assms(2) that by (auto simp: execution_key_def)

lemma final_stays:
  assumes "campaign_valid en d" and "campaign_valid en d'" and "follows en d d'"
    and "find_by_id en i t d = Inr (Some x)" and "ex_state x \<in> {ExecutionState.COMPLETED, ExecutionState.FAILED, ExecutionState.ABORTED}"
  shows "\<exists>y. find_by_id en i t d' = Inr (Some y) \<and> ex_state y = ex_state x"
proof -
  from found_row [OF assms(1,4)] obtain m where m: "m \<in># rows (ce_executions en) (cb_executions d)" "execution_key en i t m" "reads_execution en m x" by metis
  with assms(3) obtain m' where m': "m' \<in># rows (ce_executions en) (cb_executions d')" "row_follows m m'" by (auto simp: follows_def)
  then have "execution_key en i t m'" using m(2) by (simp add: execution_key_def row_follows_def)
  from found_by_id [OF assms(2) m'(1) this] obtain y where y: "find_by_id en i t d' = Inr (Some y)" "reads_execution en m' y" by blast
  have st: "ExecutionState_value (ex_state x) = xm_state m" using m(3) by (simp add: reads_execution_def)
  have "final_state (xm_state m)" unfolding st [symmetric] final_state_iff by (rule assms(5))
  with y(2) m'(2) st have "ExecutionState_value (ex_state y) = ExecutionState_value (ex_state x)" by (simp add: reads_execution_def row_follows_def)
  with y(1) show ?thesis by (simp add: state_value_inj)
qed

lemma one_per_instance:
  assumes "campaign_valid en d" and "find_by_id en i t d = Inr (Some x)" and "find_by_id en j s d = Inr (Some y)"
    and "ci_instance_id (ex_campaign_instance_ref x) = ci_instance_id (ex_campaign_instance_ref y)"
  shows "i = j \<and> x = y"
proof -
  from found_row [OF assms(1,2)] obtain m where m: "m \<in># rows (ce_executions en) (cb_executions d)" "execution_key en i t m" "reads_execution en m x" by metis
  from found_row [OF assms(1,3)] obtain n where n: "n \<in># rows (ce_executions en) (cb_executions d)" "execution_key en j s n" "reads_execution en n y" by metis
  have "m = n" by (rule unique_key_eq [OF valid_keys(2) [OF assms(1)] m(1) n(1)]) (use m(3) n(3) assms(4) in \<open>simp add: reads_execution_def\<close>)
  then have "i = j" "execution_key en i t = execution_key en j s" using m(2) n(2) by (auto simp: execution_key_def fun_eq_iff)
  then show ?thesis using assms(2,3) by (simp add: find_by_id_def)
qed

text \<open>What a save of a loaded and changed execution does.\<close>

lemma save_loaded:
  assumes "campaign_valid en d" and "find_by_id en i t d = Inr (Some x)" and "reaches x y"
  shows "ex_version y \<noteq> ex_version x + 1 \<Longrightarrow> \<exists>d'. save_execution en y d = Raise (DomainFailure (ConcurrencyConflict (uuid_str i))) d'"
    and "ex_version y = ex_version x + 1 \<Longrightarrow> \<exists>d' z. save_execution en y d = Return () d' \<and> campaign_valid en d' \<and> cb_monitors d' = cb_monitors d \<and>
      find_by_id en i t d' = Inr (Some z) \<and> ex_state z = ex_state y \<and> ex_version z = ex_version y \<and>
      (\<forall>r \<in> set (ex_task_records y). \<exists>q \<in> set (ex_task_records z). tr_record_id q = tr_record_id r \<and> tr_state q = tr_state r)"
proof -
  from found_row [OF assms(1,2)] obtain m where m: "m \<in># rows (ce_executions en) (cb_executions d)" "execution_key en i t m" "reads_execution en m x"
    "list_all2 reads_record (tb_select (ce_records en) (\<lambda>r. rm_execution_id r = i) (cb_records d)) (ex_task_records x)" by metis
  have y: "ex_execution_id y = xm_id m" "ce_uuid_of en (ex_tenant_id y) = xm_tenant_id m" "xm_row_version m \<le> ex_version y"
    using m(3) reaches_keeps [OF assms(3)] by (simp_all add: reads_execution_def engine(4))
  then have key: "execution_key en (ex_execution_id y) (ex_tenant_id y) m" by (simp add: execution_key_def)
  have id: "xm_id m = i" and v: "xm_row_version m = ex_version x" using m(2,3) by (simp_all add: execution_key_def reads_execution_def)
  note save = save_stored_execution [OF assms(1) m(1) key y(3), unfolded v id]
  show "\<exists>d'. save_execution en y d = Raise (DomainFailure (ConcurrencyConflict (uuid_str i))) d'" if "ex_version y \<noteq> ex_version x + 1"
    using save(1) that by blast
  assume "ex_version y = ex_version x + 1"
  then obtain d' where d': "save_execution en y d = Return () d'"
    "rows (ce_executions en) (cb_executions d') = image_mset (\<lambda>r. if r = m then execution_update en y m else r) (rows (ce_executions en) (cb_executions d))"
    using save(2) by blast
  have found: "found_execution (pg_campaign_repositories en) t d x" using assms(2) by (auto simp: found_execution_def)
  note kept = save_changed_execution [OF assms(1) found assms(3) d'(1)]
  have "execution_update en y m \<in># rows (ce_executions en) (cb_executions d')"
    unfolding d'(2) using image_mset_member [OF m(1), of "\<lambda>r. if r = m then execution_update en y m else r"] by simp
  moreover have "execution_key en i t (execution_update en y m)" using m(2) by (simp add: execution_key_def execution_update_fixed)
  ultimately obtain z where z: "find_by_id en i t d' = Inr (Some z)" "reads_execution en (execution_update en y m) z"
    "list_all2 reads_record (tb_select (ce_records en) (\<lambda>r. rm_execution_id r = i) (cb_records d')) (ex_task_records z)"
    using found_by_id kept by blast
  have ids: "ex_execution_id x = i" "ex_execution_id y = i" using m(2,3) y(1) id by (simp_all add: reads_execution_def)
  then have "\<forall>r \<in> set (ex_task_records y). record_saved y (rows (ce_records en) (cb_records d')) r"
    using sync_records_saves [OF save_syncs [OF d'(1)]] loaded_records [OF assms(1) _ assms(3)] m(4) by simp
  then have "\<forall>r \<in> set (ex_task_records y). \<exists>q \<in> set (ex_task_records z). tr_record_id q = tr_record_id r \<and> tr_state q = tr_state r"
    using saved_records [OF _ z(3) [folded ids(2)]] by blast
  with z d'(1) kept show "\<exists>d' z. save_execution en y d = Return () d' \<and> campaign_valid en d' \<and> cb_monitors d' = cb_monitors d \<and>
      find_by_id en i t d' = Inr (Some z) \<and> ex_state z = ex_state y \<and> ex_version z = ex_version y \<and>
      (\<forall>r \<in> set (ex_task_records y). \<exists>q \<in> set (ex_task_records z). tr_record_id q = tr_record_id r \<and> tr_state q = tr_state r)"
    by (auto simp: reads_execution_def execution_update_fixed state_value_inj)
qed

section \<open>Conflicts of the service with its repository\<close>

text \<open>What is committed was saved with the successor of the version that was loaded.\<close>

lemma stored_version:
  assumes "campaign_valid en d" and "find_by_id en i t d = Inr (Some x)" and "reaches x y" and "stored_all (pg_campaign_repositories en) y m d d'"
  shows "ex_version y = ex_version x + 1"
proof (rule ccontr)
  assume "ex_version y \<noteq> ex_version x + 1"
  then obtain d1 where "save_execution en y d = Raise (DomainFailure (ConcurrencyConflict (uuid_str i))) d1" using save_loaded(1) [OF assms(1-3)] by blast
  then show False using assms(4) by (simp add: pg_stored_all)
qed

lemma load_pg:
  assumes "cs_repositories sv = pg_campaign_repositories en"
  shows "triple (opened d) (load_execution sv i t) (\<lambda>x w. opened d w \<and> find_by_id en i t d = Inr (Some x)) (untouched d)"
  unfolding load_execution_def assms pg_repositories
  by (rule triple_and_then [OF read_triple]) (rule triple_found_or, auto)

lemma never_stored:
  assumes "campaign_valid en d" and "cs_repositories sv = pg_campaign_repositories en" and "find_by_id en i t d = Inr (Some x)" and "reaches x y"
    and "ex_version y \<noteq> ex_version x + 1"
  shows "triple (opened d) (and_then (store_all sv y m) f) (\<lambda>_ _. False) (untouched d)"
  by (rule triple_and_then [OF triple_weaken [OF store_all_triple, where Q' = "\<lambda>_ _. False"]])
    (use stored_version [OF assms(1,3,4)] assms(2,5) in \<open>auto simp: triple_def\<close>)

lemma never_commits:
  assumes "triple (opened (tx_db w)) body (\<lambda>_ _. False) (untouched (tx_db w))"
  shows "\<exists>e w'. and_then (within_uow body) f w = Raise e w' \<and> tx_db w' = tx_db w"
proof -
  have run: "triple (\<lambda>v. tx_db v = tx_db w) (within_uow body) (\<lambda>_ _. False) (untouched (tx_db w))"
    using assms by (rule uow_triple [where Q = "\<lambda>_ _. False" and R = "\<lambda>d. d = tx_db w"])
  show ?thesis using triple_return [OF run refl] triple_raise [OF run refl] by (cases "within_uow body w") (simp_all add: and_then_def)
qed

lemma rollback_conflict:
  assumes "campaign_valid en (tx_db w)" and "cs_repositories sv = pg_campaign_repositories en" and "ir_steps cmd \<noteq> []"
  shows "\<exists>e w'. initiate_rollback sv fr cmd w = Raise e w' \<and> tx_db w' = tx_db w"
  unfolding initiate_rollback_def
proof (rule never_commits, rule triple_and_then [OF load_pg [OF assms(2)]], rule triple_pure, rule attempt_triple, rule triple_and_then [OF aggregate_triple],
    rule triple_pure, rule triple_and_then [OF rollback_each_triple], rule triple_pure, rule triple_and_then [OF aggregate_triple], rule triple_pure)
  fix x plan y z z'
  assume x: "find_by_id en (ir_execution_id cmd) (ir_tenant_id cmd) (tx_db w) = Inr (Some x)"
    and y: "\<exists>u. Campaign_Execution.initiate_rollback (ir_tenant_id cmd) (ir_trigger_reason cmd) (int (length plan)) (cf_now fr) x = Return u y"
    and z: "reaches y z" and z': "\<exists>u. end_rollback (ir_tenant_id cmd) (cf_now fr) (ir_steps cmd) z = Return u z'"
  have "ex_version y = ex_version x + 1" using y by (auto simp: exec_eval Campaign_Data.assert_tenant_def split: if_splits)
  moreover have "ex_version y \<le> ex_version z" using reaches_keeps(3) [OF z] .
  moreover have "ex_version z' = ex_version z + 1"
    using z' assms(3) by (auto simp: end_rollback_def exec_eval if_else_def Campaign_Data.assert_tenant_def split: if_splits)
  ultimately have "ex_version z' \<noteq> ex_version x + 1" by simp
  moreover have "reaches x y" "reaches z z'" using y z' by (auto intro: execution_calls coordinated_calls)
  with z have "reaches x z'" by (blast intro: reaches_trans)
  ultimately show "triple (opened (tx_db w)) (and_then (store_all sv z' None) (\<lambda>_. give z')) (\<lambda>_ _. False) (untouched (tx_db w))"
    by (intro never_stored [OF assms(1,2) x])
qed simp

text \<open>A loop over tasks that leaves the version alone found every task running.\<close>

lemma dispatch_one_version:
  "triple (opened d) (dispatch_one sv t now spec p) (\<lambda>q w. opened d w \<and> reaches (fst p) (fst q) \<and>
     (ex_version (fst q) = ex_version (fst p) \<longrightarrow> fst q = fst p \<and> in_state {TaskExecutionState.RUNNING} (ds_task_id spec) (fst p))) (untouched d)"
proof (cases p)
  case (Pair x m)
  have "reaches x y \<and> (ex_version y = ex_version x \<longrightarrow> y = x \<and> in_state {TaskExecutionState.RUNNING} (ds_task_id spec) x)"
    if "record_task_dispatched t (ds_task_id spec) op now x = Return u y" for op u y
    using that execution_calls(3) [of t "ds_task_id spec" op now x y]
    by (auto simp: exec_eval if_else_def Campaign_Data.assert_tenant_def split: if_splits)
  then show ?thesis
    unfolding dispatch_one_def Pair prod.case fst_conv dispatch_def on_monitor_def
    by (cases m) (auto intro!: triple_and_then [OF triple_give [where Q = "\<lambda>_. opened d"]] triple_and_then [OF triple_and_then [OF aggregate_triple triple_give [where Q = "\<lambda>_. opened d"]]]
      triple_and_then [OF ports_triple] triple_and_then [OF aggregate_triple] triple_give)
qed

lemma dispatch_each_version:
  "triple (opened d) (dispatch_each sv t now specs p) (\<lambda>q w. opened d w \<and> reaches (fst p) (fst q) \<and>
     (ex_version (fst q) = ex_version (fst p) \<longrightarrow> (\<forall>spec \<in> set specs. in_state {TaskExecutionState.RUNNING} (ds_task_id spec) (fst p)))) (untouched d)"
proof (induction specs arbitrary: p)
  case Nil
  then show ?case by (simp add: triple_give)
next
  case (Cons spec specs)
  show ?case
    unfolding dispatch_each.simps
  proof (rule triple_and_then [OF dispatch_one_version], rule triple_pure, rule triple_weaken [OF Cons.IH], assumption)
    fix q r w
    assume q: "reaches (fst p) (fst q) \<and>
      (ex_version (fst q) = ex_version (fst p) \<longrightarrow> fst q = fst p \<and> in_state {TaskExecutionState.RUNNING} (ds_task_id spec) (fst p))"
      and r: "opened d w \<and> reaches (fst q) (fst r) \<and>
        (ex_version (fst r) = ex_version (fst q) \<longrightarrow> (\<forall>spec \<in> set specs. in_state {TaskExecutionState.RUNNING} (ds_task_id spec) (fst q)))"
    then have "ex_version (fst p) \<le> ex_version (fst q)" "ex_version (fst q) \<le> ex_version (fst r)" "reaches (fst p) (fst r)"
      using reaches_keeps(3) reaches_trans by blast+
    with q r show "opened d w \<and> reaches (fst p) (fst r) \<and>
      (ex_version (fst r) = ex_version (fst p) \<longrightarrow> (\<forall>spec \<in> set (spec # specs). in_state {TaskExecutionState.RUNNING} (ds_task_id spec) (fst p)))"
      by auto
  qed
qed

lemma dispatch_conflict:
  fixes sv :: "(('e, 'r, 'm) campaign_database, 'p, 'x) campaign_service"
  assumes "campaign_valid en (tx_db w)" and "cs_repositories sv = pg_campaign_repositories en"
    and "find_by_id en (dn_execution_id cmd) (dn_tenant_id cmd) (tx_db w) = Inr (Some x)" and "1 < length (dn_tasks cmd)"
    and "spec \<in> set (dn_tasks cmd)" and "\<not> in_state {TaskExecutionState.RUNNING} (ds_task_id spec) x"
  shows "\<exists>e w'. dispatch_next_task sv fr cmd w = Raise e w' \<and> tx_db w' = tx_db w"
proof -
  let ?d = "tx_db w" and ?t = "dn_tenant_id cmd" and ?specs = "dn_tasks cmd"
  have specs: "dispatch_specs cmd = (Inr ?specs :: 'x campaign_error + _)" using assms(4) by (auto simp: dispatch_specs_def)
  show ?thesis
    unfolding dispatch_next_task_def specs attempt_value
  proof (rule never_commits, rule triple_and_then [OF load_pg [OF assms(2)]], rule triple_pure, rule triple_and_then [OF load_monitor_triple], rule triple_pure,
      rule triple_and_then [OF aggregate_triple], rule triple_pure, rule triple_and_then [OF dispatch_each_version], rule triple_pure)
    fix x' m y and q :: "TaskGraphExecution \<times> CampaignSafetyMonitor option"
    assume x': "find_by_id en (dn_execution_id cmd) ?t ?d = Inr (Some x')" and y: "\<exists>u. start_track ?t fr ?specs x' = Return u y"
      and q: "reaches (fst (y, m)) (fst q) \<and>
        (ex_version (fst q) = ex_version (fst (y, m)) \<longrightarrow> (\<forall>spec \<in> set ?specs. in_state {TaskExecutionState.RUNNING} (ds_task_id spec) (fst (y, m))))"
    from x' assms(3) have [simp]: "x' = x" by simp
    from y assms(4) have y1: "ex_version y = ex_version x + 1" "ex_task_records y = ex_task_records x"
      by (auto simp: start_track_def exec_eval if_else_def Campaign_Data.assert_tenant_def split: if_splits)
    then have "\<not> in_state {TaskExecutionState.RUNNING} (ds_task_id spec) y" using assms(6) by (simp add: record_is_def find_record_def)
    with q assms(5) have "ex_version (fst q) \<noteq> ex_version y" by auto
    moreover have "ex_version y \<le> ex_version (fst q)" using q reaches_keeps(3) by simp
    ultimately have "ex_version (fst q) \<noteq> ex_version x + 1" using y1 by simp
    moreover have "reaches x y" using y by (auto intro: coordinated_calls)
    with q have "reaches x (fst q)" by (auto intro: reaches_trans)
    ultimately show "triple (opened ?d) (case q of (x, m) \<Rightarrow> and_then (store_all sv x m) (\<lambda>_. give (x, m))) (\<lambda>_ _. False) (untouched ?d)"
      by (cases q) (simp, rule never_stored [OF assms(1-3)], simp_all)
  qed
qed

text \<open>The kill switch.\<close>

lemma pause_running:
  assumes "ex_state x = ExecutionState.RUNNING" and "ex_tenant_id x = t"
  shows "Campaign_Services.handle_kill_switch_triggered t now x = Return () (x\<lparr>ex_state := PAUSED, ex_version := ex_version x + 1\<rparr>)"
  using assms by (simp add: Campaign_Services.handle_kill_switch_triggered_def exec_eval if_else_def Campaign_Data.assert_tenant_def)

lemma kill_switch_idle:
  assumes "ex_state x \<noteq> ExecutionState.RUNNING"
  shows "Campaign_Services.handle_kill_switch_triggered t now x = Return () x"
  using assms by (simp add: Campaign_Services.handle_kill_switch_triggered_def if_else_def steps.simps)

lemma kill_switch_pauses:
  assumes "campaign_valid en (tx_db w)" and "sv = build_execution_application_service parse_id uuid7 (pg_campaign_repositories en)"
    and "find_by_id en i t (tx_db w) = Inr (Some x)" and "ex_state x = ExecutionState.RUNNING" and "ex_tenant_id x = t" and "\<And>d. ce_commit en d = Inr d"
  shows "\<exists>dto w' y. handle_kill_switch_triggered sv fr t i w = Return dto w' \<and> xd_state dto = ''Paused'' \<and>
    find_by_id en i t (tx_db w') = Inr (Some y) \<and> ex_state y = PAUSED \<and>
    st_pauses (tx_ports w') = st_pauses (tx_ports w) @ [\<lparr>pn_tenant_id = entity_str t, pn_execution_id = uuid_str i, pn_reason = ''M29 kill switch triggered''\<rparr>]"
proof -
  let ?y = "x\<lparr>ex_state := PAUSED, ex_version := ex_version x + 1\<rparr>"
  note call = pause_running [OF assms(4,5), of "cf_now fr"]
  obtain d' z where d': "save_execution en ?y (tx_db w) = Return () d'" "find_by_id en i t d' = Inr (Some z)" "ex_state z = PAUSED"
    using save_loaded(2) [OF assms(1,3) coordinated_calls(3) [OF call]] by auto
  from found_row [OF assms(1,3)] have ids: "ex_execution_id x = i" "ex_pending_events x = []" by (metis execution_key_def reads_execution_def)+
  let ?w = "w\<lparr>tx_db := d', tx_session := d', tx_ports := tx_ports w\<lparr>st_pauses := st_pauses (tx_ports w) @
    [\<lparr>pn_tenant_id = entity_str t, pn_execution_id = uuid_str i, pn_reason = ''M29 kill switch triggered''\<rparr>]\<rparr>\<rparr>"
  have "handle_kill_switch_triggered sv fr t i w = Return (to_execution_dto ?y) ?w"
    using d'(1) assms(3,6) call ids
    by (simp add: handle_kill_switch_triggered_def change_execution_def within_uow_def load_execution_def store_all_def store_monitor_def
      read_session_def write_session_def commit_session_def on_ports_def on_part_def on_aggregate_def attempt_def found_or_def give_def and_then_def
      notify_paused_def finish_def publish_def publish_all_def monitor_events_def Campaign_Data.pop_events_def assms(2)
      build_execution_application_service_def stub_ports_def stub_notify_campaign_paused_def assign_def)
  then show ?thesis using d'(2,3) by (simp add: to_execution_dto_def)
qed

lemma kill_switch_conflict:
  assumes "campaign_valid en (tx_db w)" and "cs_repositories sv = pg_campaign_repositories en"
    and "find_by_id en i t (tx_db w) = Inr (Some x)" and "ex_state x \<noteq> ExecutionState.RUNNING"
  shows "\<exists>w'. handle_kill_switch_triggered sv fr t i w = Raise (DomainFailure (ConcurrencyConflict (uuid_str i))) w' \<and>
    tx_db w' = tx_db w \<and> tx_ports w' = tx_ports w \<and> tx_published w' = tx_published w"
proof -
  obtain d' where "save_execution en x (tx_db w) = Raise (DomainFailure (ConcurrencyConflict (uuid_str i))) d'"
    using save_loaded(1) [OF assms(1,3) reaches_refl] by auto
  then show ?thesis
    using assms(2,3) kill_switch_idle [OF assms(4)]
    by (simp add: handle_kill_switch_triggered_def change_execution_def within_uow_def load_execution_def store_all_def store_monitor_def
      read_session_def write_session_def on_part_def on_aggregate_def attempt_def found_or_def give_def and_then_def)
qed

section \<open>Detections\<close>

text \<open>A stored monitor is saved exactly when its version is the successor of the stored one, or both are 1.\<close>

lemma save_loaded_monitor:
  assumes valid: "campaign_valid en d" and found: "find_monitor en i t d0 = Inr (Some m)" "campaign_valid en d0" "cb_monitors d0 = cb_monitors d"
    and n: "monitor_reaches m n"
  shows "if max (sm_version n - 1) 1 = sm_version m
    then \<exists>d' n'. save_monitor en n d = Return () d' \<and> cb_executions d' = cb_executions d \<and> cb_records d' = cb_records d \<and>
      find_monitor en i t d' = Inr (Some n') \<and> sm_active_operation_ids n' = sm_active_operation_ids n
    else \<exists>d'. save_monitor en n d = Raise (DomainFailure (ConcurrencyConflict (uuid_str (sm_monitor_id m)))) d'"
proof -
  from find_monitor_law [OF found(2), of i t] found(1,3) obtain row where row: "row \<in># rows (ce_monitors en) (cb_monitors d)" "reads_monitor en row m"
    "mm_campaign_instance_id row = i \<and> mm_tenant_id row = ce_uuid_of en t" by auto
  let ?key = "\<lambda>row. mm_id row = sm_monitor_id n \<and> mm_tenant_id row = ce_uuid_of en (sm_tenant_id n)"
  have fixed: "sm_monitor_id n = mm_id row" "ce_uuid_of en (sm_tenant_id n) = mm_tenant_id row" "mm_row_version row = sm_version m" "sm_monitor_id m = mm_id row"
    using n row(2) by (simp_all add: monitor_reaches_keeps reads_monitor_def engine(4))
  have key: "unique_key mm_id (rows (ce_monitors en) (cb_monitors d))" using valid_keys(4) [OF valid] .
  have "?key row" using fixed by simp
  note sel = unique_row(1,2) [where p = ?key, OF engine(3) key row(1) this, of "sm_monitor_id n"]
  have one: "filter_mset ?key (rows (ce_monitors en) (cb_monitors d)) = {#row#}" by (rule sel(2)) simp
  have sel: "tb_select (ce_monitors en) ?key (cb_monitors d) = [row]" by (rule sel(1)) simp
  obtain k t' where u: "tb_update (ce_monitors en) (\<lambda>row. ?key row \<and> mm_row_version row = max (sm_version n - 1) 1) (monitor_update en n) (cb_monitors d) = (k, t')"
    by fastforce
  have "k = size {#r \<in># {#row#}. mm_row_version r = max (sm_version n - 1) 1#}"
    using table_update [OF engine(3) u] unfolding one [symmetric] by (simp add: filter_filter_mset conj_commute)
  with fixed(3) have k: "k = (if max (sm_version n - 1) 1 = sm_version m then 1 else 0)" by auto
  have save: "save_monitor en n d = (if k = 0 then Raise (DomainFailure (ConcurrencyConflict (uuid_str (sm_monitor_id n)))) (d\<lparr>cb_monitors := t'\<rparr>)
      else if k = 1 then Return () (d\<lparr>cb_monitors := t'\<rparr>) else Raise (ExternalFailure (ce_multiple_results en)) (d\<lparr>cb_monitors := t'\<rparr>))"
    using u sel by (simp add: save_monitor_def Let_def scalar_one_or_none_def)
  show ?thesis
  proof (cases "max (sm_version n - 1) 1 = sm_version m")
    case True
    let ?row = "monitor_update en n row"
    have ret: "save_monitor en n d = Return () (d\<lparr>cb_monitors := t'\<rparr>)" using save k True by simp
    have "found_monitor (pg_campaign_repositories en) t d0 m" using found(1) by (auto simp: found_monitor_def)
    from save_called_monitor [OF valid this n found(3,2) ret] have valid': "campaign_valid en (d\<lparr>cb_monitors := t'\<rparr>)" by simp
    have "?row \<in># rows (ce_monitors en) t'"
      using table_update [OF engine(3) u] image_mset_member [OF row(1), of "\<lambda>r. if ?key r \<and> mm_row_version r = max (sm_version n - 1) 1 then monitor_update en n r else r"]
        fixed True by simp
    moreover have "mm_campaign_instance_id ?row = i \<and> mm_tenant_id ?row = ce_uuid_of en t" using row(3) by (simp add: monitor_update_fixed)
    ultimately obtain row' n' where n': "find_monitor en i t (d\<lparr>cb_monitors := t'\<rparr>) = Inr (Some n')" "row' \<in># rows (ce_monitors en) t'"
      "mm_campaign_instance_id row' = i" "reads_monitor en row' n'" "?row \<in># rows (ce_monitors en) t'" "mm_campaign_instance_id ?row = i"
      using find_monitor_law [OF valid', of i t] by auto
    have "row' = ?row" using unique_key_eq [OF valid_keys(5) [OF valid'], of row' ?row] n' by simp
    then have "sm_active_operation_ids n' = sm_active_operation_ids n"
      using n'(4) ids_back [OF engine(5)] by (simp add: reads_monitor_def monitor_update_def)
    with True ret n'(1) show ?thesis by auto
  qed (use save k fixed in auto)
qed

lemma find_instance_by_id:
  assumes "campaign_valid en d" and "find_by_campaign_instance en i t d = Inr (Some x)"
  shows "find_by_id en (ex_execution_id x) t d = Inr (Some x)"
proof -
  let ?p = "\<lambda>m. xm_campaign_instance_id m = i \<and> xm_tenant_id m = ce_uuid_of en t"
  from find_by_campaign_instance_law [OF assms(1), of i t] assms(2) obtain m where
    m: "m \<in># rows (ce_executions en) (cb_executions d)" "?p m" "reads_execution en m x" by auto
  then have key: "execution_key en (ex_execution_id x) t m" by (simp add: execution_key_def reads_execution_def)
  have "tb_select (ce_executions en) ?p (cb_executions d) = [m]"
    by (rule unique_row(1) [OF engine(1) valid_keys(2) [OF assms(1)] m(1)]) (use m(2) in simp_all)
  then have "one_execution en ?p d = one_execution en (execution_key en (ex_execution_id x) t) d"
    by (simp add: one_execution_def stored_select(1) [OF assms(1) m(1) key])
  with assms(2) show ?thesis by (simp add: find_by_id_def find_by_campaign_instance_def)
qed

lemma breach_running:
  assumes "ex_state x = ExecutionState.RUNNING" and "ex_tenant_id x = t"
  shows "\<exists>y. handle_safety_breach t b s now x = Return () y \<and> ex_state y = PAUSED \<and> ex_version y = ex_version x + 1"
  using assms by (simp add: handle_safety_breach_def exec_eval if_else_def Campaign_Data.assert_tenant_def)

lemma detection_without_policy:
  assumes valid: "campaign_valid en (tx_db w)" and sv: "sv = build_execution_application_service parse_id uuid7 (pg_campaign_repositories en)"
    and m: "find_monitor en i t (tx_db w) = Inr (Some m)" "\<not> ps_auto_abort_on_detection (sm_policy_snapshot m)" "sm_tenant_id m = t"
    and x: "find_by_campaign_instance en i t (tx_db w) = Inr (Some x)" "ex_state x = ExecutionState.RUNNING" "ex_tenant_id x = t"
    and commit: "\<And>d. ce_commit en d = Inr d"
  shows "if sm_version m = 1
    then \<exists>dto w' y. trigger_auto_abort_on_detection sv fr t i s w = Return (Some dto) w' \<and> md_monitor_state dto = MonitorState_value (sm_monitor_state m) \<and>
      find_by_id en (ex_execution_id x) t (tx_db w') = Inr (Some y) \<and> ex_state y = PAUSED
    else \<exists>w'. trigger_auto_abort_on_detection sv fr t i s w = Raise (DomainFailure (ConcurrencyConflict (uuid_str (sm_monitor_id m)))) w' \<and> tx_db w' = tx_db w"
proof -
  obtain y where y: "handle_safety_breach t ''AutoAbortOnDetection'' s (cf_now fr) x = Return () y" "ex_state y = PAUSED" "ex_version y = ex_version x + 1"
    using breach_running [OF x(2,3)] by blast
  note find = find_instance_by_id [OF valid x(1)]
  obtain d1 z where d1: "save_execution en y (tx_db w) = Return () d1" "campaign_valid en d1" "cb_monitors d1 = cb_monitors (tx_db w)"
    "find_by_id en (ex_execution_id x) t d1 = Inr (Some z)" "ex_state z = PAUSED"
    using save_loaded(2) [OF valid find coordinated_calls(4) [OF y(1)] y(3)] y(2) by auto
  have idle: "Safety_Monitor.trigger_auto_abort_on_detection t s (cf_now fr) m = Return () m" using m(2,3) by (simp add: monitor_eval)
  have "max (sm_version m - 1) 1 = sm_version m \<longleftrightarrow> sm_version m = 1" by auto
  note save = save_loaded_monitor [OF d1(2) m(1) valid d1(3) [symmetric] monitor_reaches_refl, unfolded this]
  note eval = trigger_auto_abort_on_detection_def breach_execution_def within_uow_def read_session_def write_session_def commit_session_def on_part_def
    on_aggregate_def attempt_def give_def and_then_def sv build_execution_application_service_def pg_repositories
  show ?thesis
  proof (cases "sm_version m = 1")
    case True
    with save obtain d2 where d2: "save_monitor en m d1 = Return () d2" "cb_executions d2 = cb_executions d1" "cb_records d2 = cb_records d1" by auto
    then have "find_by_id en (ex_execution_id x) t d2 = Inr (Some z)" using d1(4) by (simp add: find_by_id_def one_execution_def)
    with True d2 d1 m(1) x(1) y(1) idle commit show ?thesis
      by (simp add: eval report_abort_def notify_paused_def on_ports_def stub_ports_def stub_notify_campaign_paused_def assign_def publish_all_def to_monitor_dto_def)
  next
    case False
    with save obtain d2 where "save_monitor en m d1 = Raise (DomainFailure (ConcurrencyConflict (uuid_str (sm_monitor_id m)))) d2" by auto
    with False d1 m(1) x(1) y(1) idle show ?thesis by (simp add: eval)
  qed
qed

section \<open>Dispatching one task\<close>

lemma update_first_find: "find p xs = Some r \<Longrightarrow> f r \<in> set (update_first p f xs) \<and> p r"
  by (induction xs) (auto split: if_splits)

lemma register_free:
  assumes "sm_tenant_id m = t" and "\<not> sm_auto_abort_triggered m" and "sm_monitor_state m = MonitorState.ACTIVE" and "op \<notin> set (sm_active_operation_ids m)"
    and "int (length (sm_active_operation_ids m)) < ps_max_concurrent_actions (sm_policy_snapshot m)"
  shows "\<exists>n. register_action t op now m = Return () n \<and> sm_active_operation_ids n = sm_active_operation_ids m @ [op] \<and> sm_version n = sm_version m + 1"
  using assms by (simp add: monitor_eval)

lemma dispatch_ready_call:
  assumes "ex_tenant_id x = t" and "find_record k x = Some r" and "tr_state r = READY_TO_DISPATCH"
  shows "\<exists>y. record_task_dispatched t k op now x = Return () y \<and> ex_version y = ex_version x + 1 \<and>
    (\<exists>q \<in> set (ex_task_records y). tr_record_id q = tr_record_id r \<and> tr_task_id q = k \<and> tr_state q = TaskExecutionState.RUNNING)"
proof -
  let ?rs = "update_first (\<lambda>r. tr_task_id r = k) (mark_task_running op now) (ex_task_records x)"
  have "mark_task_running op now r \<in> set ?rs" "tr_task_id r = k"
    using update_first_find [OF assms(2) [unfolded find_record_def], of "mark_task_running op now"] by simp_all
  then have "\<exists>q \<in> set ?rs. tr_record_id q = tr_record_id r \<and> tr_task_id q = k \<and> tr_state q = TaskExecutionState.RUNNING"
    by (intro bexI [of _ "mark_task_running op now r"]) (simp_all add: mark_task_running_def)
  with assms show ?thesis by (simp add: exec_eval if_else_def Campaign_Data.assert_tenant_def record_is_def)
qed

lemma dispatch_ready:
  assumes valid: "campaign_valid en (tx_db w)" and sv: "sv = build_execution_application_service parse_id uuid7 (pg_campaign_repositories en)"
    and cmd: "dn_tasks cmd = []" "dn_task_id cmd = Some k" "dn_tenant_id cmd = t" "dn_execution_id cmd = i"
    and x: "find_by_id en i t (tx_db w) = Inr (Some x)" "ex_tenant_id x = t" "find_record k x = Some r" "tr_state r = READY_TO_DISPATCH"
    and m: "find_monitor en (ci_instance_id (ex_campaign_instance_ref x)) t (tx_db w) = Inr (Some m)" "sm_tenant_id m = t" "\<not> sm_auto_abort_triggered m"
      "sm_monitor_state m = MonitorState.ACTIVE" "uuid_str k \<notin> set (sm_active_operation_ids m)"
      "int (length (sm_active_operation_ids m)) < ps_max_concurrent_actions (sm_policy_snapshot m)"
    and port: "parse_id (entity_str t) = Inr t'" and commit: "\<And>d. ce_commit en d = Inr d"
  shows "\<exists>dto w' y q n. dispatch_next_task sv fr cmd w = Return dto w' \<and> find_by_id en i t (tx_db w') = Inr (Some y) \<and>
    q \<in> set (ex_task_records y) \<and> tr_record_id q = tr_record_id r \<and> tr_state q = TaskExecutionState.RUNNING \<and>
    find_monitor en (ci_instance_id (ex_campaign_instance_ref x)) t (tx_db w') = Inr (Some n) \<and>
    sm_active_operation_ids n = sm_active_operation_ids m @ [uuid_str k]"
proof -
  let ?now = "cf_now fr" and ?inst = "ci_instance_id (ex_campaign_instance_ref x)"
  obtain n where n: "register_action t (uuid_str k) ?now m = Return () n" "sm_active_operation_ids n = sm_active_operation_ids m @ [uuid_str k]" "sm_version n = sm_version m + 1"
    using register_free [OF m(2-6)] by blast
  obtain op p where op: "stub_create_operation parse_id uuid7 \<lparr>dr_campaign_instance_id = uuid_str ?inst, dr_task_id = uuid_str k, dr_technique_id = dn_technique_id cmd,
      dr_technique_name = dn_technique_name cmd, dr_parameters = dn_parameters cmd, dr_engagement_id = uuid_str (en_engagement_id (ex_engagement_ref x)),
      dr_tenant_id = entity_str t\<rparr> (tx_ports w) = Return op p"
    using port by (cases "map_of (st_cache (tx_ports w)) (uuid_str ?inst, uuid_str k)") (simp_all add: stub_create_operation_def Let_def)
  obtain y where y: "record_task_dispatched t k op ?now x = Return () y" "ex_version y = ex_version x + 1"
    "\<exists>q \<in> set (ex_task_records y). tr_record_id q = tr_record_id r \<and> tr_task_id q = k \<and> tr_state q = TaskExecutionState.RUNNING"
    using dispatch_ready_call [OF x(2-4)] by blast
  obtain d1 z where d1: "save_execution en y (tx_db w) = Return () d1" "campaign_valid en d1" "cb_monitors d1 = cb_monitors (tx_db w)"
    "find_by_id en i t d1 = Inr (Some z)" "\<forall>r \<in> set (ex_task_records y). \<exists>q \<in> set (ex_task_records z). tr_record_id q = tr_record_id r \<and> tr_state q = tr_state r"
    using save_loaded(2) [OF valid x(1) execution_calls(3) [OF y(1)] y(2)] by auto
  have "1 \<le> sm_version m" using find_monitor_law [OF valid, of ?inst t] m(1) by (auto simp: reads_monitor_def)
  then have "max (sm_version n - 1) 1 = sm_version m" using n(3) by simp
  then obtain d2 n' where d2: "save_monitor en n d1 = Return () d2" "cb_executions d2 = cb_executions d1" "cb_records d2 = cb_records d1"
    "find_monitor en ?inst t d2 = Inr (Some n')" "sm_active_operation_ids n' = sm_active_operation_ids n"
    using save_loaded_monitor [OF d1(2) m(1) valid d1(3) [symmetric] monitor_calls(1) [OF n(1)]] by auto
  have find: "find_by_id en i t d2 = Inr (Some z)" using d1(4) d2(2,3) by (simp add: find_by_id_def one_execution_def)
  have "\<exists>dto w'. dispatch_next_task sv fr cmd w = Return dto w' \<and> tx_db w' = d2"
    using cmd x(1) m(1) n(1) op y(1) d1(1) d2(1) commit
    by (simp add: dispatch_next_task_def dispatch_specs_def within_uow_def load_execution_def load_monitor_def start_track_def if_else_def steps.simps dispatch_one_def
      dispatch_def on_monitor_def store_all_def store_monitor_def read_session_def write_session_def commit_session_def on_ports_def on_part_def on_aggregate_def attempt_def
      found_or_def give_def and_then_def sv build_execution_application_service_def stub_ports_def finish_def publish_def publish_all_def)
  moreover obtain q where "q \<in> set (ex_task_records z)" "tr_record_id q = tr_record_id r" "tr_state q = TaskExecutionState.RUNNING" using y(3) d1(5) by auto
  ultimately show ?thesis using find d2(4,5) n(2) by auto
qed

end

section \<open>Properties\<close>

text \<open>A world that requests to the service lead to, from an empty database.\<close>

definition campaign_reachable ::
  "('e, 'r, 'm, 'x) campaign_engine \<Rightarrow> (('e, 'r, 'm) campaign_database, 'p, 'x) campaign_service \<Rightarrow> (('e, 'r, 'm) campaign_database, 'p, ExecutionEvent event) transaction \<Rightarrow> bool" where
  "campaign_reachable en sv v \<longleftrightarrow> campaign_engine_laws en \<and> cs_repositories sv = pg_campaign_repositories en \<and>
     (\<exists>u. no_campaigns en (tx_db u) \<and> campaign_runs sv (unused_ids en) u v)"

lemma campaign_reachableD:
  assumes "campaign_reachable en sv v"
  shows "pg_campaign_engine en" "cs_repositories sv = pg_campaign_repositories en" "campaign_valid en (tx_db v)"
proof -
  from assms show "pg_campaign_engine en" "cs_repositories sv = pg_campaign_repositories en"
    by (auto simp: campaign_reachable_def intro: pg_campaign_engine.intro)
  then show "campaign_valid en (tx_db v)"
    using assms pg_campaign_engine.reachable_valid by (auto simp: campaign_reachable_def)
qed

text \<open>C9: an execution that is stored as completed, failed or aborted is stored in that state after every further sequence of requests, whatever the requests,
  the tenants that make them and the answers of the ports.\<close>

theorem stored_final_state_stays:
  assumes "campaign_reachable en sv v" and "campaign_runs sv (unused_ids en) v w" and "find_by_id en i t (tx_db v) = Inr (Some x)"
    and "ex_state x \<in> {ExecutionState.COMPLETED, ExecutionState.FAILED, ExecutionState.ABORTED}"
  shows "\<exists>y. find_by_id en i t (tx_db w) = Inr (Some y) \<and> ex_state y = ex_state x"
proof -
  note r = campaign_reachableD [OF assms(1)]
  show ?thesis
    using pg_campaign_engine.runs_valid [OF r(1) assms(2) r(2,3)] pg_campaign_engine.final_stays [OF r(1) r(3) _ _ assms(3,4)] by blast
qed

text \<open>C12: reading the monitor of a campaign instance never fails, and the monitor that is stored has no more registered actions than its policy allows, each of
  them once, after every sequence of requests.\<close>

theorem stored_monitor_within_ceiling:
  assumes "campaign_reachable en sv v"
  shows "\<exists>r. find_monitor en i t (tx_db v) = Inr r \<and>
    (\<forall>m. r = Some m \<longrightarrow> int (monitor_action_count m) \<le> max 0 (ps_max_concurrent_actions (sm_policy_snapshot m)) \<and> distinct (sm_active_operation_ids m))"
  using pg_campaign_engine.find_monitor_law [OF campaign_reachableD(1,3) [OF assms], of i t]
  by (auto simp: reads_monitor_def monitor_ok_def monitor_action_count_def)

text \<open>C13: a campaign instance has at most one execution, over all tenants and after every sequence of requests, although the table of executions has no
  constraint that says so: a start inserts an execution and a monitor in one transaction, and the monitor's column is unique. The query by instance never
  raises.\<close>

theorem one_execution_per_instance:
  assumes "campaign_reachable en sv v"
  shows "(\<exists>r. find_by_campaign_instance en c s (tx_db v) = Inr r) \<and>
    (\<forall>i j t t' x y. find_by_id en i t (tx_db v) = Inr (Some x) \<longrightarrow> find_by_id en j t' (tx_db v) = Inr (Some y) \<longrightarrow>
       ci_instance_id (ex_campaign_instance_ref x) = ci_instance_id (ex_campaign_instance_ref y) \<longrightarrow> i = j \<and> x = y)"
proof -
  note r = campaign_reachableD(1,3) [OF assms]
  show ?thesis using pg_campaign_engine.find_by_campaign_instance_law [OF r, of c s] pg_campaign_engine.one_per_instance [OF r] by blast
qed

text \<open>C10: saving an execution that was loaded and changed by any calls succeeds exactly when the calls raised its version by one; then the execution that is
  loaded again has the state, the version and the states of the task records that were saved. With any other version the save raises a conflict.\<close>

theorem save_accepts_one_version:
  assumes "campaign_reachable en sv v" and "find_by_id en i t (tx_db v) = Inr (Some x)" and "y = history exec cs x" and "\<forall>c \<in> set cs. call_in_range c"
  shows "if ex_version y = ex_version x + 1
    then \<exists>d z. save_execution en y (tx_db v) = Return () d \<and> find_by_id en i t d = Inr (Some z) \<and> ex_state z = ex_state y \<and> ex_version z = ex_version y \<and>
      (\<forall>r \<in> set (ex_task_records y). \<exists>q \<in> set (ex_task_records z). tr_record_id q = tr_record_id r \<and> tr_state q = tr_state r)
    else \<exists>d. save_execution en y (tx_db v) = Raise (DomainFailure (ConcurrencyConflict (uuid_str i))) d"
proof -
  note r = campaign_reachableD(1,3) [OF assms(1)]
  have "reaches x y" using assms(3,4) by (auto simp: reaches_def)
  from pg_campaign_engine.save_loaded [OF r assms(2) this] show ?thesis by fastforce
qed

text \<open>C22: dispatching several tasks in one request always raises when one of them is not running yet, and changes nothing in the database: starting the track and
  every recorded dispatch raise the version, and the save accepts one step only. The operations that the port has created by then remain.\<close>

theorem several_dispatches_never_commit:
  assumes "campaign_reachable en sv v" and "find_by_id en (dn_execution_id cmd) (dn_tenant_id cmd) (tx_db v) = Inr (Some x)" and "1 < length (dn_tasks cmd)"
    and "spec \<in> set (dn_tasks cmd)" and "\<not> in_state {TaskExecutionState.RUNNING} (ds_task_id spec) x"
  shows "\<exists>e w. dispatch_next_task sv fr cmd v = Raise e w \<and> tx_db w = tx_db v"
proof -
  note r = campaign_reachableD [OF assms(1)]
  show ?thesis by (rule pg_campaign_engine.dispatch_conflict [OF r(1,3,2) assms(2-5)])
qed

text \<open>A rollback with steps always raises and changes nothing in the database, for the same reason: it raises the version when it begins, at every step and when it
  is completed.\<close>

theorem rollback_with_steps_never_commits:
  assumes "campaign_reachable en sv v" and "ir_steps cmd \<noteq> []"
  shows "\<exists>e w. initiate_rollback sv fr cmd v = Raise e w \<and> tx_db w = tx_db v"
proof -
  note r = campaign_reachableD [OF assms(1)]
  show ?thesis by (rule pg_campaign_engine.rollback_conflict [OF r(1,3,2) assms(2)])
qed


text \<open>On an execution that is not running the kill switch raises a conflict and has no effect: the coordinator leaves the execution alone, but it is saved with
  the version it was loaded with.\<close>

theorem kill_switch_conflicts_when_not_running:
  assumes "campaign_reachable en sv v" and "find_by_id en i t (tx_db v) = Inr (Some x)" and "ex_state x \<noteq> ExecutionState.RUNNING"
  shows "\<exists>w. handle_kill_switch_triggered sv fr t i v = Raise (DomainFailure (ConcurrencyConflict (uuid_str i))) w \<and>
    tx_db w = tx_db v \<and> tx_ports w = tx_ports v \<and> tx_published w = tx_published v"
proof -
  note r = campaign_reachableD [OF assms(1)]
  show ?thesis by (rule pg_campaign_engine.kill_switch_conflict [OF r(1,3,2) assms(2,3)])
qed

text \<open>A detection pauses a running execution although its policy asks for no automatic abort, as long as its monitor is as it was created; afterwards the same
  request raises a conflict and changes nothing, because the unchanged monitor is saved.\<close>

theorem detection_ignores_policy:
  assumes "campaign_reachable en (build_execution_application_service parse_id uuid7 (pg_campaign_repositories en)) v"
    and "find_monitor en i t (tx_db v) = Inr (Some m)" and "\<not> ps_auto_abort_on_detection (sm_policy_snapshot m)" and "sm_tenant_id m = t"
    and "find_by_campaign_instance en i t (tx_db v) = Inr (Some x)" and "ex_state x = ExecutionState.RUNNING" and "ex_tenant_id x = t"
    and "\<forall>d. ce_commit en d = Inr d"
  shows "let sv = build_execution_application_service parse_id uuid7 (pg_campaign_repositories en) in
    if sm_version m = 1
    then \<exists>dto w y. trigger_auto_abort_on_detection sv fr t i s v = Return (Some dto) w \<and> md_monitor_state dto = MonitorState_value (sm_monitor_state m) \<and>
      find_by_id en (ex_execution_id x) t (tx_db w) = Inr (Some y) \<and> ex_state y = PAUSED
    else \<exists>w. trigger_auto_abort_on_detection sv fr t i s v = Raise (DomainFailure (ConcurrencyConflict (uuid_str (sm_monitor_id m)))) w \<and> tx_db w = tx_db v"
proof -
  note r = campaign_reachableD [OF assms(1)]
  show ?thesis unfolding Let_def by (rule pg_campaign_engine.detection_without_policy [OF r(1,3) refl assms(2-7)]) (use assms(8) in blast)
qed


section \<open>Witnesses\<close>

definition list_campaign_service :: "(list_campaigns, stub_adapters, string) campaign_service" where
  "list_campaign_service = build_execution_application_service (\<lambda>s. Inr (EntityId s)) of_nat (pg_campaign_repositories list_campaign_engine)"

definition campaign_world :: "list_campaigns \<Rightarrow> (list_campaigns, stub_adapters, ExecutionEvent event) transaction" where
  "campaign_world db = \<lparr>tx_db = db, tx_session = db, tx_ports = \<lparr>st_approval_gates = [], st_pauses = [], st_cache = [], st_drawn = 0\<rparr>, tx_published = []\<rparr>"

definition no_executions :: list_campaigns where
  "no_executions = \<lparr>cb_executions = [], cb_records = [], cb_monitors = []\<rparr>"

definition start_fresh :: campaign_fresh where
  "start_fresh = \<lparr>cf_now = 10, cf_execution_id = 7, cf_monitor_id = 4, cf_record_ids = (\<lambda>n. of_nat (100 + n)), cf_track_id = 50\<rparr>"

definition start_command :: InitializeCampaignExecutionCommand where
  "start_command = \<lparr>ic_tenant_id = digits_of 5, ic_campaign_instance_id = 6, ic_campaign_id = 8, ic_graph_id = 9, ic_graph_version = ''1.0.0'', ic_engagement_id = 3,
     ic_task_ids = [1, 2], ic_max_concurrent_actions = 2, ic_auto_abort_on_detection = False, ic_auto_abort_on_objective_failure = False, ic_blast_radius_ceiling = ''Medium''\<rparr>"

text \<open>The database after the start, with the state and the version of the execution, the state of its first task, and the state and the version of
  its monitor.\<close>

definition start_policy :: PolicySnapshot where
  "start_policy = \<lparr>ps_max_concurrent_actions = 2, ps_auto_abort_on_detection = False, ps_auto_abort_on_objective_failure = False, ps_blast_radius_ceiling = ''Medium''\<rparr>"

definition campaign_record :: "uuid \<Rightarrow> uuid \<Rightarrow> TaskExecutionState \<Rightarrow> TaskExecutionRecord" where
  "campaign_record i k s = \<lparr>tr_record_id = i, tr_task_id = k, tr_state = s, tr_outcome = None, tr_operation_ref = None, tr_dispatched_at = None, tr_completed_at = None,
     tr_failure_reason = None, tr_is_rollback_task = False\<rparr>"

definition campaign_execution :: "ExecutionState \<Rightarrow> int \<Rightarrow> TaskExecutionState \<Rightarrow> TaskGraphExecution" where
  "campaign_execution st v s = \<lparr>ex_execution_id = 7, ex_tenant_id = digits_of 5,
     ex_campaign_instance_ref = \<lparr>ci_instance_id = 6, ci_campaign_id = 8, ci_tenant_id = digits_of 5\<rparr>, ex_graph_version_ref = \<lparr>gv_graph_id = 9, gv_version_str = ''1.0.0''\<rparr>,
     ex_engagement_ref = \<lparr>en_engagement_id = 3, en_tenant_id = digits_of 5\<rparr>, ex_policy_snapshot = start_policy, ex_state = st,
     ex_task_records = [campaign_record 100 1 s, campaign_record 101 2 PENDING], ex_tracks = [], ex_checkpoints = [], ex_objective_states = [],
     ex_pending_approval_gate = None, ex_active_branch_path = {}, ex_version = v, ex_pending_events = []\<rparr>"

definition campaign_monitor :: "MonitorState \<Rightarrow> int \<Rightarrow> CampaignSafetyMonitor" where
  "campaign_monitor st v = \<lparr>sm_monitor_id = 4, sm_tenant_id = digits_of 5, sm_campaign_instance_ref = \<lparr>ci_instance_id = 6, ci_campaign_id = 8, ci_tenant_id = digits_of 5\<rparr>,
     sm_policy_snapshot = start_policy, sm_monitor_state = st, sm_auto_abort_triggered = False, sm_active_operation_ids = [], sm_version = v, sm_pending_events = []\<rparr>"

definition campaign_stage :: "ExecutionState \<Rightarrow> int \<Rightarrow> TaskExecutionState \<Rightarrow> MonitorState \<Rightarrow> int \<Rightarrow> list_campaigns" where
  "campaign_stage st v s ms mv = \<lparr>cb_executions = [execution_to_model list_campaign_engine (campaign_execution st v s)],
     cb_records = map (record_to_model list_campaign_engine (campaign_execution st v s)) [campaign_record 100 1 s, campaign_record 101 2 PENDING],
     cb_monitors = [monitor_to_model list_campaign_engine (campaign_monitor ms mv)]\<rparr>"

lemmas campaign_stage_defs = campaign_stage_def campaign_execution_def campaign_record_def campaign_monitor_def

lemma list_engine_fields:
  "ce_executions list_campaign_engine = list_table" "ce_records list_campaign_engine = list_table" "ce_monitors list_campaign_engine = list_table"
  "ce_commit list_campaign_engine = Inr" "ce_uuid_of list_campaign_engine = of_digits" "ce_from_uuid list_campaign_engine = digits_of"
  by (simp_all add: list_campaign_engine_def)

lemma list_back:
  "policy_from_json (ce_jsonb list_campaign_engine (policy_to_json p)) = Inr p" "ids_from_json (ce_jsonb list_campaign_engine (JList [])) = Inr []"
  "when_truthy None outcome_of_column = Inr None" "TaskExecutionState_of ''Pending'' = Inr PENDING"
  using policy_back [OF list_campaigns.engine(5)] ids_back [OF list_campaigns.engine(5), of "[]"] campaign_enums(2) [of PENDING]
  by (simp_all add: when_truthy_def truthy_def)

lemma no_objectives: "objectives_from_json (ce_jsonb list_campaign_engine (objectives_to_json [])) = Inr []"
  by (simp add: list_campaign_engine_def distinct_keys_def objectives_to_json_def objectives_from_json_def)

lemma campaign_stage_find:
  "find_by_id list_campaign_engine 7 (digits_of 5) (campaign_stage st v s ms mv) = Inr (Some (campaign_execution st v s))"
  "find_by_campaign_instance list_campaign_engine 6 (digits_of 5) (campaign_stage st v s ms mv) = Inr (Some (campaign_execution st v s))"
  "find_monitor list_campaign_engine 6 (digits_of 5) (campaign_stage st v s ms mv) = Inr (Some (campaign_monitor ms mv))"
  by (simp_all add: find_by_id_def find_by_campaign_instance_def find_monitor_def one_execution_def execution_key_def list_engine_fields list_table_def
    campaign_stage_defs execution_to_model_def record_to_model_def monitor_to_model_def scalar_one_or_none_def python_def record_from_model_def execution_from_row_def
    monitor_from_row_def list_back no_objectives gate_of_column_def Let_def)

lemma campaign_stage_save:
  "1 \<le> v \<Longrightarrow> save_execution list_campaign_engine (campaign_execution st (v + 1) s\<lparr>ex_pending_events := es\<rparr>) (campaign_stage st' v s' ms mv) = Return () (campaign_stage st (v + 1) s ms mv)"
  "1 \<le> mv \<Longrightarrow> save_monitor list_campaign_engine (campaign_monitor ms (mv + 1)\<lparr>sm_pending_events := es\<rparr>) (campaign_stage st v s ms' mv) = Return () (campaign_stage st v s ms (mv + 1))"
  by (simp_all add: save_execution_def save_monitor_def execution_key_def list_engine_fields list_table_def campaign_stage_defs execution_to_model_def record_to_model_def
    monitor_to_model_def scalar_one_or_none_def execution_update_def monitor_update_def record_update_def write_records_def sync_record_def Let_def)

lemma service_fields:
  "cs_repositories list_campaign_service = pg_campaign_repositories list_campaign_engine" "cs_ports list_campaign_service = stub_ports (\<lambda>s. Inr (EntityId s)) of_nat"
  by (simp_all add: list_campaign_service_def build_execution_application_service_def)

lemmas campaign_steps = within_uow_def load_execution_def load_monitor_def on_monitor_def store_all_def store_monitor_def read_session_def write_session_def
  commit_session_def on_ports_def on_part_def on_aggregate_def attempt_def found_or_def give_def and_then_def finish_def publish_def publish_all_def
  change_execution_def change_monitored_def call_execution_def ignore_result_def

lemma request_start:
  assumes "tx_db w = no_executions"
  shows "tx_db (final (perform list_campaign_service (Request_Start start_fresh start_command) w)) = campaign_stage ExecutionState.RUNNING 2 PENDING MonitorState.ACTIVE 1"
  using assms
  by (simp add: initialize_execution_def start_fresh_def start_command_def initialize_def Safety_Monitor.create_def Safety_Monitor.emit_def Campaign_Data.emit_def assign_def
    exec_eval campaign_steps service_fields save_execution_def save_monitor_def insert_monitor_def insert_row_def no_executions_def list_engine_fields list_table_def
    campaign_stage_defs start_policy_def execution_to_model_def record_to_model_def monitor_to_model_def scalar_one_or_none_def write_records_def sync_record_def Let_def)

lemma request_abort:
  assumes "tx_db w = campaign_stage ExecutionState.RUNNING 2 PENDING MonitorState.ACTIVE 1"
  shows "tx_db (final (perform list_campaign_service (Request_Abort start_fresh (digits_of 5) 7 ''stop'') w)) = campaign_stage ExecutionState.ABORTED 3 PENDING RELEASED 2"
proof -
  have "\<exists>es. abort (digits_of 5) ''stop'' 10 (campaign_execution ExecutionState.RUNNING 2 PENDING) = Return () (campaign_execution ExecutionState.ABORTED (2 + 1) PENDING\<lparr>ex_pending_events := es\<rparr>)"
    by (simp add: campaign_execution_def exec_eval Campaign_Data.assert_tenant_def)
  moreover have "\<exists>es. release (digits_of 5) 10 (campaign_monitor MonitorState.ACTIVE 1) = Return () (campaign_monitor RELEASED (1 + 1)\<lparr>sm_pending_events := es\<rparr>)"
    by (simp add: campaign_monitor_def monitor_eval)
  moreover have "ci_instance_id (ex_campaign_instance_ref (campaign_execution st v s)) = 6" for st v s by (simp add: campaign_execution_def)
  ultimately show ?thesis
    using assms campaign_stage_save(1) [of 2] campaign_stage_save(2) [of 1]
    by (auto simp: abort_execution_def campaign_steps service_fields campaign_stage_find list_engine_fields start_fresh_def)
qed

lemma request_barrier:
  assumes "tx_db w = campaign_stage ExecutionState.RUNNING 2 PENDING MonitorState.ACTIVE 1"
  shows "tx_db (final (perform list_campaign_service (Request_Barrier start_fresh (digits_of 5) 7 1 []) w)) =
    campaign_stage ExecutionState.RUNNING 3 READY_TO_DISPATCH MonitorState.ACTIVE 1"
proof -
  have "\<exists>es. Campaign_Execution.evaluate_barrier (digits_of 5) 1 [] 10 (campaign_execution ExecutionState.RUNNING 2 PENDING) =
      Return () (campaign_execution ExecutionState.RUNNING (2 + 1) READY_TO_DISPATCH\<lparr>ex_pending_events := es\<rparr>)"
    by (simp add: campaign_execution_def campaign_record_def exec_eval if_else_def barrier_pending_def record_is_def find_record_def mark_ready_def Campaign_Data.assert_tenant_def)
  then show ?thesis
    using assms campaign_stage_save(1) [of 2]
    by (auto simp: evaluate_barrier_def campaign_steps service_fields campaign_stage_find list_engine_fields start_fresh_def)
qed

definition started_world :: "(list_campaigns, stub_adapters, ExecutionEvent event) transaction" where
  "started_world = final (perform list_campaign_service (Request_Start start_fresh start_command) (campaign_world no_executions))"

definition aborted_world :: "(list_campaigns, stub_adapters, ExecutionEvent event) transaction" where
  "aborted_world = final (perform list_campaign_service (Request_Abort start_fresh (digits_of 5) 7 ''stop'') started_world)"

definition ready_world :: "(list_campaigns, stub_adapters, ExecutionEvent event) transaction" where
  "ready_world = final (perform list_campaign_service (Request_Barrier start_fresh (digits_of 5) 7 1 []) started_world)"

lemma campaign_worlds:
  "tx_db started_world = campaign_stage ExecutionState.RUNNING 2 PENDING MonitorState.ACTIVE 1"
  "tx_db aborted_world = campaign_stage ExecutionState.ABORTED 3 PENDING RELEASED 2"
  "tx_db ready_world = campaign_stage ExecutionState.RUNNING 3 READY_TO_DISPATCH MonitorState.ACTIVE 1"
proof -
  show started: "tx_db started_world = campaign_stage ExecutionState.RUNNING 2 PENDING MonitorState.ACTIVE 1"
    unfolding started_world_def by (rule request_start) (simp add: campaign_world_def)
  show "tx_db aborted_world = campaign_stage ExecutionState.ABORTED 3 PENDING RELEASED 2" unfolding aborted_world_def by (rule request_abort [OF started])
  show "tx_db ready_world = campaign_stage ExecutionState.RUNNING 3 READY_TO_DISPATCH MonitorState.ACTIVE 1"
    unfolding ready_world_def by (rule request_barrier [OF started])
qed

lemma reachable_worlds:
  "campaign_reachable list_campaign_engine list_campaign_service started_world" "campaign_reachable list_campaign_engine list_campaign_service aborted_world"
  "campaign_reachable list_campaign_engine list_campaign_service ready_world"
proof -
  let ?runs = "campaign_runs list_campaign_service (unused_ids list_campaign_engine) (campaign_world no_executions)"
  have start: "?runs started_world"
    unfolding started_world_def
    by (rule run_request [OF run_start]) (simp add: request_ok_def unused_ids_def campaign_world_def no_executions_def list_engine_fields)
  have empty: "no_campaigns list_campaign_engine (tx_db (campaign_world no_executions))"
    by (simp add: no_campaigns_def campaign_world_def no_executions_def list_engine_fields)
  have reach: "campaign_reachable list_campaign_engine list_campaign_service w" if "?runs w" for w
    using that empty list_campaign_engine_laws service_fields(1) by (auto simp: campaign_reachable_def)
  show "campaign_reachable list_campaign_engine list_campaign_service started_world" by (rule reach [OF start])
  show "campaign_reachable list_campaign_engine list_campaign_service aborted_world"
    unfolding aborted_world_def by (rule reach [OF run_request [OF start]]) (simp add: request_ok_def)
  show "campaign_reachable list_campaign_engine list_campaign_service ready_world"
    unfolding ready_world_def by (rule reach [OF run_request [OF start]]) (simp add: request_ok_def)
qed

lemmas world_finds = campaign_stage_find [of ExecutionState.RUNNING 2 PENDING MonitorState.ACTIVE 1, folded campaign_worlds]
  campaign_stage_find [of ExecutionState.ABORTED 3 PENDING RELEASED 2, folded campaign_worlds]
  campaign_stage_find [of ExecutionState.RUNNING 3 READY_TO_DISPATCH MonitorState.ACTIVE 1, folded campaign_worlds]

theorem stored_final_state_stays_witness:
  "\<exists>y. find_by_id list_campaign_engine 7 (digits_of 5)
      (tx_db (final (perform list_campaign_service (Request_Pause start_fresh (digits_of 5) 7 ''wait'') aborted_world))) = Inr (Some y) \<and> ex_state y = ExecutionState.ABORTED"
proof -
  have "campaign_runs list_campaign_service (unused_ids list_campaign_engine) aborted_world
      (final (perform list_campaign_service (Request_Pause start_fresh (digits_of 5) 7 ''wait'') aborted_world))"
    by (rule run_request [OF run_start]) (simp add: request_ok_def)
  from stored_final_state_stays [OF reachable_worlds(2) this world_finds(4)] show ?thesis by (simp add: campaign_execution_def)
qed

theorem stored_monitor_within_ceiling_witness:
  "\<exists>m. find_monitor list_campaign_engine 6 (digits_of 5) (tx_db started_world) = Inr (Some m) \<and>
     int (monitor_action_count m) \<le> max 0 (ps_max_concurrent_actions (sm_policy_snapshot m))"
  using stored_monitor_within_ceiling [OF reachable_worlds(1), of 6 "digits_of 5"] world_finds(3) by auto

theorem one_execution_per_instance_witness:
  "\<exists>r. find_by_campaign_instance list_campaign_engine 6 (digits_of 5) (tx_db started_world) = Inr r"
  using one_execution_per_instance [OF reachable_worlds(1), of 6 "digits_of 5"] by blast

theorem save_accepts_one_version_witness:
  "\<exists>d z. save_execution list_campaign_engine (history exec [Pause (digits_of 5) ''wait'' 11] (campaign_execution ExecutionState.RUNNING 2 PENDING)) (tx_db started_world) = Return () d \<and>
     find_by_id list_campaign_engine 7 (digits_of 5) d = Inr (Some z) \<and> ex_state z = PAUSED"
proof -
  let ?y = "history exec [Pause (digits_of 5) ''wait'' 11] (campaign_execution ExecutionState.RUNNING 2 PENDING)"
  have "ex_version ?y = ex_version (campaign_execution ExecutionState.RUNNING 2 PENDING) + 1" "ex_state ?y = PAUSED"
    by (simp_all add: campaign_execution_def exec_eval Campaign_Data.assert_tenant_def)
  then show ?thesis
    using save_accepts_one_version [OF reachable_worlds(1) world_finds(1) refl, of "[Pause (digits_of 5) ''wait'' 11]"] by (auto simp: call_in_range_def)
qed

definition two_tasks :: DispatchNextTasksCommand where
  "two_tasks = \<lparr>dn_tenant_id = digits_of 5, dn_execution_id = 7, dn_task_id = None, dn_technique_id = [], dn_technique_name = [], dn_parameters = [],
     dn_tasks = [\<lparr>ds_task_id = 1, ds_technique_id = ''T1003'', ds_technique_name = ''dump'', ds_parameters = []\<rparr>,
       \<lparr>ds_task_id = 2, ds_technique_id = ''T1021'', ds_technique_name = ''move'', ds_parameters = []\<rparr>]\<rparr>"

theorem several_dispatches_never_commit_witness:
  "\<exists>e w. dispatch_next_task list_campaign_service start_fresh two_tasks ready_world = Raise e w \<and> tx_db w = tx_db ready_world"
  by (rule several_dispatches_never_commit [OF reachable_worlds(3), of _ "campaign_execution ExecutionState.RUNNING 3 READY_TO_DISPATCH" "hd (dn_tasks two_tasks)"])
    (simp_all add: two_tasks_def world_finds campaign_execution_def campaign_record_def record_is_def find_record_def)

definition rollback_command :: InitiateRollbackCommand where
  "rollback_command = \<lparr>ir_tenant_id = digits_of 5, ir_execution_id = 7, ir_trigger_reason = ''undo'', ir_rollback_eligible_task_ids = [1],
     ir_steps = [\<lparr>rs_task_id = 1, rs_technique_id = ''T1003'', rs_technique_name = ''undo'', rs_parameters = []\<rparr>]\<rparr>"

theorem rollback_with_steps_never_commits_witness:
  "\<exists>e w. initiate_rollback list_campaign_service start_fresh rollback_command started_world = Raise e w \<and> tx_db w = tx_db started_world"
  by (rule rollback_with_steps_never_commits [OF reachable_worlds(1)]) (simp add: rollback_command_def)

lemmas stub_worlds = reachable_worlds [unfolded list_campaign_service_def]


theorem kill_switch_conflicts_when_not_running_witness:
  "\<exists>w. handle_kill_switch_triggered list_campaign_service start_fresh (digits_of 5) 7 aborted_world = Raise (DomainFailure (ConcurrencyConflict (uuid_str 7))) w \<and>
     tx_db w = tx_db aborted_world"
  using kill_switch_conflicts_when_not_running [OF reachable_worlds(2) world_finds(4), of start_fresh] by (auto simp: campaign_execution_def)

theorem detection_ignores_policy_witness:
  "\<exists>dto w y. trigger_auto_abort_on_detection list_campaign_service start_fresh (digits_of 5) 6 ''edr'' started_world = Return (Some dto) w \<and>
     find_by_id list_campaign_engine 7 (digits_of 5) (tx_db w) = Inr (Some y) \<and> ex_state y = PAUSED"
  using detection_ignores_policy [OF stub_worlds(1) world_finds(3) _ _ world_finds(2), of start_fresh "''edr''", folded list_campaign_service_def]
  by (auto simp: campaign_execution_def campaign_monitor_def start_policy_def list_engine_fields Let_def)

definition one_task :: DispatchNextTasksCommand where
  "one_task = \<lparr>dn_tenant_id = digits_of 5, dn_execution_id = 7, dn_task_id = Some 1, dn_technique_id = ''T1003'', dn_technique_name = ''dump'', dn_parameters = [],
     dn_tasks = []\<rparr>"


end
