(* ===== verification/Sha256.thy ===== *)
theory Sha256
  imports Prelude
begin

text \<open>
  \<open>hashlib.sha256(text.encode("utf-8")).hexdigest()\<close>, the one primitive of the Python library that
  the safety plane builds its tamper evidence on (\<open>TriggerHash\<close>, \<open>ActionHash\<close>, \<open>manifest_hash\<close>, the
  journal chain), written out as FIPS 180-4 gives it on 32-bit words. The lemmas the components use
  are that a digest has 64 characters, all of them hexadecimal digits.
\<close>

unbundle bit_operations_syntax

section \<open>The compression function\<close>

text \<open>The round constants are the first 32 bits of the fractional parts of the cube roots of the
  first 64 primes, the initial hash those of the square roots of the first eight.\<close>

definition int_root :: "nat \<Rightarrow> int \<Rightarrow> int" where
  "int_root k n = fold (\<lambda>b r. if (r + 2 ^ b) ^ k \<le> n then r + 2 ^ b else r) (rev [0..<36]) 0"

definition small_primes :: "int list" where
  "small_primes = map int (filter (\<lambda>n. \<forall>d \<in> set [2..<n]. n mod d \<noteq> 0) [2..<312])"

definition sha_K :: "32 word list" where
  "sha_K = map (\<lambda>p. word_of_int (int_root 3 (p * 2 ^ 96))) small_primes"

definition sha_H0 :: "32 word list" where
  "sha_H0 = map (\<lambda>p. word_of_int (int_root 2 (p * 2 ^ 64))) [2, 3, 5, 7, 11, 13, 17, 19]"

definition big_sigma0 :: "32 word \<Rightarrow> 32 word" where
  "big_sigma0 x = word_rotr 2 x XOR word_rotr 13 x XOR word_rotr 22 x"

definition big_sigma1 :: "32 word \<Rightarrow> 32 word" where
  "big_sigma1 x = word_rotr 6 x XOR word_rotr 11 x XOR word_rotr 25 x"

definition small_sigma0 :: "32 word \<Rightarrow> 32 word" where
  "small_sigma0 x = word_rotr 7 x XOR word_rotr 18 x XOR drop_bit 3 x"

definition small_sigma1 :: "32 word \<Rightarrow> 32 word" where
  "small_sigma1 x = word_rotr 17 x XOR word_rotr 19 x XOR drop_bit 10 x"

definition sha_ch :: "32 word \<Rightarrow> 32 word \<Rightarrow> 32 word \<Rightarrow> 32 word" where
  "sha_ch x y z = (x AND y) XOR (NOT x AND z)"

definition sha_maj :: "32 word \<Rightarrow> 32 word \<Rightarrow> 32 word \<Rightarrow> 32 word" where
  "sha_maj x y z = (x AND y) XOR (x AND z) XOR (y AND z)"

definition extend_schedule :: "32 word list \<Rightarrow> 32 word list" where
  "extend_schedule w =
     (let t = length w
      in w @ [small_sigma1 (w ! (t - 2)) + w ! (t - 7) + small_sigma0 (w ! (t - 15)) + w ! (t - 16)])"

definition schedule :: "32 word list \<Rightarrow> 32 word list" where
  "schedule block = (extend_schedule ^^ 48) block"

type_synonym sha_state = "32 word \<times> 32 word \<times> 32 word \<times> 32 word \<times> 32 word \<times> 32 word \<times> 32 word \<times> 32 word"

fun sha_round :: "32 word \<times> 32 word \<Rightarrow> sha_state \<Rightarrow> sha_state" where
  "sha_round (k, w) (a, b, c, d, e, f, g, h) =
     (let t1 = h + big_sigma1 e + sha_ch e f g + k + w;
          t2 = big_sigma0 a + sha_maj a b c
      in (t1 + t2, a, b, c, d + t1, e, f, g))"

fun state_of_list :: "32 word list \<Rightarrow> sha_state" where
  "state_of_list [a, b, c, d, e, f, g, h] = (a, b, c, d, e, f, g, h)"
| "state_of_list _ = (0, 0, 0, 0, 0, 0, 0, 0)"

fun list_of_state :: "sha_state \<Rightarrow> 32 word list" where
  "list_of_state (a, b, c, d, e, f, g, h) = [a, b, c, d, e, f, g, h]"

definition compress :: "32 word list \<Rightarrow> 32 word list \<Rightarrow> 32 word list" where
  "compress block hs =
     map2 (+) hs (list_of_state (fold sha_round (zip sha_K (schedule block)) (state_of_list hs)))"

section \<open>Padding and blocks\<close>

fun utf8 :: "string \<Rightarrow> 8 word list" where
  "utf8 [] = []"
| "utf8 (c # cs) =
     (let n = (of_char c :: int)
      in (if n < 128 then [of_int n] else [of_int (192 + n div 64), of_int (128 + n mod 64)]) @ utf8 cs)"

fun big_endian :: "nat \<Rightarrow> int \<Rightarrow> 8 word list" where
  "big_endian 0 n = []"
| "big_endian (Suc k) n = big_endian k (n div 256) @ [of_int n]"

definition sha_pad :: "8 word list \<Rightarrow> 8 word list" where
  "sha_pad bs =
     (let len = length bs
      in bs @ [0x80] @ replicate ((119 - len mod 64) mod 64) 0 @ big_endian 8 (8 * int len))"

function chunks :: "nat \<Rightarrow> 'a list \<Rightarrow> 'a list list" where
  "chunks k xs = (if k = 0 \<or> xs = [] then [] else take k xs # chunks k (drop k xs))"
  by pat_completeness auto
termination
  by (relation "measure (\<lambda>(k, xs). length xs)") auto

declare chunks.simps [simp del]

definition word_of_bytes :: "8 word list \<Rightarrow> 32 word" where
  "word_of_bytes = foldl (\<lambda>acc b. acc * 256 + ucast b) 0"

definition sha_block :: "8 word list \<Rightarrow> 32 word list" where
  "sha_block bs = map word_of_bytes (chunks 4 bs)"

definition sha256_words :: "8 word list \<Rightarrow> 32 word list" where
  "sha256_words bs = fold (\<lambda>b hs. compress (sha_block b) hs) (chunks 64 (sha_pad bs)) sha_H0"

definition sha256_hex :: "string \<Rightarrow> string" where
  "sha256_hex s = concat (map (\<lambda>w. hex_fixed 8 (uint w)) (sha256_words (utf8 s)))"

section \<open>Digests have 64 hexadecimal digits\<close>

lemma length_list_of_state [simp]: "length (list_of_state st) = 8"
  by (cases st rule: list_of_state.cases) simp

lemma length_compress: "length hs = 8 \<Longrightarrow> length (compress b hs) = 8"
  by (simp add: compress_def)

lemma length_sha256_words [simp]: "length (sha256_words bs) = 8"
proof -
  have "length hs = 8 \<Longrightarrow> length (fold (\<lambda>b hs. compress (sha_block b) hs) bls hs) = 8" for bls hs
    by (induction bls arbitrary: hs) (simp_all add: length_compress)
  then show ?thesis by (simp add: sha256_words_def sha_H0_def)
qed

lemma length_sha256_hex [simp]: "length (sha256_hex s) = 64"
proof -
  have "length (concat (map (\<lambda>w. hex_fixed 8 (uint w)) ws)) = 8 * length ws" for ws :: "32 word list"
    by (induction ws) simp_all
  then show ?thesis by (simp add: sha256_hex_def)
qed

lemma hex_char_digit: "n < 16 \<Longrightarrow> hex_char n \<in> set ''0123456789abcdef''"
  unfolding hex_char_def by (rule nth_mem) simp

lemma set_hex_fixed: "set (hex_fixed k n) \<subseteq> set ''0123456789abcdef''"
proof (induction k arbitrary: n)
  case (Suc k)
  have "hex_char (nat (n mod 16)) \<in> set ''0123456789abcdef''"
    by (rule hex_char_digit) (simp add: nat_less_iff)
  with Suc show ?case by simp
qed simp

lemma set_sha256_hex: "set (sha256_hex s) \<subseteq> set ''0123456789abcdef''"
  using set_hex_fixed by (fastforce simp: sha256_hex_def)

end
