(* ===== verification/Execution_Values.thy ===== *)
theory Execution_Values
  imports Aggregates Sha256 "HOL-Library.Char_ord" "HOL-Library.List_Lexorder"
begin

text \<open>
  The data of the \<open>execution\<close> context, the safety plane: enumerations, identifiers, value objects
  (\<open>execution/domain/value_objects\<close>), exceptions and events. Identifiers wrap a non-nil UUID and are
  modelled by the UUID, with the check of their constructors as \<open>non_nil\<close>. The value objects with a
  check have a constructor function that raises as \<open>__post_init__\<close> does.
\<close>

section \<open>Enumerations\<close>

datatype KillSwitchScope = ENGAGEMENT | OPERATION | PLATFORM_WIDE

datatype KillSwitchArmedState = ARMED | TRIGGERED | RELEASED

datatype RateLimitDecision = PERMITTED | THROTTLED | FORBIDDEN

datatype ImpactCeiling = OBSERVE | PROBE | EXPLOIT | DESTRUCT

datatype JournalEntryType = ACTION_STARTED | ACTION_COMPLETED | ACTION_FAILED | ACTION_ABORTED
  | KILL_SWITCH_TRIGGERED | SAFETY_CHECK_FAILED | SCOPE_VIOLATION_ATTEMPTED | HUMAN_APPROVAL_REQUIRED
  | APPROVAL_GRANTED | APPROVAL_DENIED | ROLLBACK_INITIATED | ROLLBACK_COMPLETED | CORRECTION_ENTRY

datatype ChainIntegrityStatus = VERIFIED | BROKEN

datatype AttackActionState = AUTHORIZED | EXECUTING | COMPLETED | FAILED | ABORTED | TIMED_OUT

datatype WorkerType = CLOUD_AGENT | EDGE_AGENT | CONTAINER_AGENT | LOCAL_OPERATOR_AGENT | SCHEDULED_AGENT

datatype WorkerHealthStatus = HEALTHY | DEGRADED | UNAVAILABLE | DECOMMISSIONED

datatype WorkerTrustLevel = HIGH_TRUST | STANDARD_TRUST | LOW_TRUST

datatype ScopeVerificationStatus = VERIFIED | FAILED | UNAVAILABLE

datatype AuthorizationFailureReason = KILL_SWITCH_TRIGGERED | SCOPE_VIOLATION | RATE_LIMIT_THROTTLED
  | RATE_LIMIT_FORBIDDEN | OUTSIDE_EXECUTION_WINDOW | WORKER_CAPABILITY_INSUFFICIENT
  | WORKER_TRUST_INSUFFICIENT | WORKER_UNAVAILABLE | PAYLOAD_REVOKED | PAYLOAD_NOT_APPROVED
  | PAYLOAD_HASH_MISMATCH

primrec KillSwitchScope_value :: "KillSwitchScope \<Rightarrow> string" where
  "KillSwitchScope_value ENGAGEMENT = ''Engagement''"
| "KillSwitchScope_value OPERATION = ''Operation''"
| "KillSwitchScope_value PLATFORM_WIDE = ''PlatformWide''"

primrec KillSwitchArmedState_value :: "KillSwitchArmedState \<Rightarrow> string" where
  "KillSwitchArmedState_value ARMED = ''Armed''"
| "KillSwitchArmedState_value TRIGGERED = ''Triggered''"
| "KillSwitchArmedState_value RELEASED = ''Released''"

primrec RateLimitDecision_value :: "RateLimitDecision \<Rightarrow> string" where
  "RateLimitDecision_value PERMITTED = ''Permitted''"
| "RateLimitDecision_value THROTTLED = ''Throttled''"
| "RateLimitDecision_value FORBIDDEN = ''Forbidden''"

primrec ImpactCeiling_value :: "ImpactCeiling \<Rightarrow> string" where
  "ImpactCeiling_value OBSERVE = ''Observe''"
| "ImpactCeiling_value PROBE = ''Probe''"
| "ImpactCeiling_value EXPLOIT = ''Exploit''"
| "ImpactCeiling_value DESTRUCT = ''Destruct''"

primrec JournalEntryType_value :: "JournalEntryType \<Rightarrow> string" where
  "JournalEntryType_value ACTION_STARTED = ''ActionStarted''"
| "JournalEntryType_value ACTION_COMPLETED = ''ActionCompleted''"
| "JournalEntryType_value ACTION_FAILED = ''ActionFailed''"
| "JournalEntryType_value ACTION_ABORTED = ''ActionAborted''"
| "JournalEntryType_value JournalEntryType.KILL_SWITCH_TRIGGERED = ''KillSwitchTriggered''"
| "JournalEntryType_value SAFETY_CHECK_FAILED = ''SafetyCheckFailed''"
| "JournalEntryType_value SCOPE_VIOLATION_ATTEMPTED = ''ScopeViolationAttempted''"
| "JournalEntryType_value HUMAN_APPROVAL_REQUIRED = ''HumanApprovalRequired''"
| "JournalEntryType_value APPROVAL_GRANTED = ''ApprovalGranted''"
| "JournalEntryType_value APPROVAL_DENIED = ''ApprovalDenied''"
| "JournalEntryType_value ROLLBACK_INITIATED = ''RollbackInitiated''"
| "JournalEntryType_value ROLLBACK_COMPLETED = ''RollbackCompleted''"
| "JournalEntryType_value CORRECTION_ENTRY = ''CorrectionEntry''"

primrec AttackActionState_value :: "AttackActionState \<Rightarrow> string" where
  "AttackActionState_value AUTHORIZED = ''Authorized''"
| "AttackActionState_value EXECUTING = ''Executing''"
| "AttackActionState_value COMPLETED = ''Completed''"
| "AttackActionState_value AttackActionState.FAILED = ''Failed''"
| "AttackActionState_value ABORTED = ''Aborted''"
| "AttackActionState_value TIMED_OUT = ''TimedOut''"

primrec WorkerType_value :: "WorkerType \<Rightarrow> string" where
  "WorkerType_value CLOUD_AGENT = ''CloudAgent''"
| "WorkerType_value EDGE_AGENT = ''EdgeAgent''"
| "WorkerType_value CONTAINER_AGENT = ''ContainerAgent''"
| "WorkerType_value LOCAL_OPERATOR_AGENT = ''LocalOperatorAgent''"
| "WorkerType_value SCHEDULED_AGENT = ''ScheduledAgent''"

primrec WorkerTrustLevel_value :: "WorkerTrustLevel \<Rightarrow> string" where
  "WorkerTrustLevel_value HIGH_TRUST = ''HighTrust''"
| "WorkerTrustLevel_value STANDARD_TRUST = ''StandardTrust''"
| "WorkerTrustLevel_value LOW_TRUST = ''LowTrust''"

primrec ScopeVerificationStatus_value :: "ScopeVerificationStatus \<Rightarrow> string" where
  "ScopeVerificationStatus_value ScopeVerificationStatus.VERIFIED = ''Verified''"
| "ScopeVerificationStatus_value ScopeVerificationStatus.FAILED = ''Failed''"
| "ScopeVerificationStatus_value ScopeVerificationStatus.UNAVAILABLE = ''Unavailable''"

primrec AuthorizationFailureReason_value :: "AuthorizationFailureReason \<Rightarrow> string" where
  "AuthorizationFailureReason_value KILL_SWITCH_TRIGGERED = ''KillSwitchTriggered''"
| "AuthorizationFailureReason_value SCOPE_VIOLATION = ''ScopeViolation''"
| "AuthorizationFailureReason_value RATE_LIMIT_THROTTLED = ''RateLimitThrottled''"
| "AuthorizationFailureReason_value RATE_LIMIT_FORBIDDEN = ''RateLimitForbidden''"
| "AuthorizationFailureReason_value OUTSIDE_EXECUTION_WINDOW = ''OutsideExecutionWindow''"
| "AuthorizationFailureReason_value WORKER_CAPABILITY_INSUFFICIENT = ''WorkerCapabilityInsufficient''"
| "AuthorizationFailureReason_value WORKER_TRUST_INSUFFICIENT = ''WorkerTrustInsufficient''"
| "AuthorizationFailureReason_value WORKER_UNAVAILABLE = ''WorkerUnavailable''"
| "AuthorizationFailureReason_value PAYLOAD_REVOKED = ''PayloadRevoked''"
| "AuthorizationFailureReason_value PAYLOAD_NOT_APPROVED = ''PayloadNotApproved''"
| "AuthorizationFailureReason_value PAYLOAD_HASH_MISMATCH = ''PayloadHashMismatch''"

definition CISO_ROLE :: string where "CISO_ROLE = ''redteam:ciso''"

definition OVERSIGHT_ROLES :: "string set" where
  "OVERSIGHT_ROLES = {''legal:oversight'', ''compliance:authority''}"

primrec impact_rank :: "ImpactCeiling \<Rightarrow> nat" where
  "impact_rank OBSERVE = 1"
| "impact_rank PROBE = 2"
| "impact_rank EXPLOIT = 3"
| "impact_rank DESTRUCT = 4"

definition trust_allows_impact :: "WorkerTrustLevel \<Rightarrow> ImpactCeiling \<Rightarrow> bool" where
  "trust_allows_impact trust ceiling =
     (if trust = LOW_TRUST then impact_rank ceiling < impact_rank EXPLOIT else True)"

text \<open>The ceilings are ordered by their rank.\<close>

lemma impact_rank_inj: "impact_rank a = impact_rank b \<longleftrightarrow> a = b"
  by (cases a; cases b) simp_all

instantiation ImpactCeiling :: linorder
begin

definition less_eq_ImpactCeiling :: "ImpactCeiling \<Rightarrow> ImpactCeiling \<Rightarrow> bool" where
  "a \<le> b \<longleftrightarrow> impact_rank a \<le> impact_rank b"

definition less_ImpactCeiling :: "ImpactCeiling \<Rightarrow> ImpactCeiling \<Rightarrow> bool" where
  "a < b \<longleftrightarrow> impact_rank a < impact_rank b"

instance
  by standard (auto simp: less_eq_ImpactCeiling_def less_ImpactCeiling_def impact_rank_inj)

end

section \<open>Identifiers\<close>

definition non_nil :: "string \<Rightarrow> uuid \<Rightarrow> PyError + uuid" where
  "non_nil class v = (if uint v = 0 then Inl (ValueError (class @ '' must not be nil UUID'')) else Inr v)"

section \<open>Value objects\<close>

record Authority =
  au_operator_id :: uuid
  au_role :: string

text \<open>\<open>TriggerAuthority\<close> and \<open>ReleaseAuthority\<close> have the same fields and check.\<close>

definition make_TriggerAuthority :: "uuid \<Rightarrow> string \<Rightarrow> PyError + Authority" where
  "make_TriggerAuthority operator_id role =
     (if strip role = [] then Inl (ValueError ''TriggerAuthority.role must not be empty'')
      else Inr \<lparr>au_operator_id = operator_id, au_role = role\<rparr>)"

definition make_ReleaseAuthority :: "uuid \<Rightarrow> string \<Rightarrow> PyError + Authority" where
  "make_ReleaseAuthority operator_id role =
     (if strip role = [] then Inl (ValueError ''ReleaseAuthority.role must not be empty'')
      else Inr \<lparr>au_operator_id = operator_id, au_role = role\<rparr>)"

definition make_TriggerReason :: "string \<Rightarrow> PyError + string" where
  "make_TriggerReason value =
     (let text = strip value in
      if text = [] then Inl (ValueError ''TriggerReason must not be empty'')
      else if length text > 2048 then Inl (ValueError ''TriggerReason must be at most 2048 characters'')
      else Inr text)"

definition make_TriggerHash :: "string \<Rightarrow> PyError + string" where
  "make_TriggerHash value =
     (if length value \<noteq> 64 then Inl (ValueError ''TriggerHash must be a 64-char SHA-256 hex digest'') else Inr value)"

text \<open>\<open>TriggerHash.compute\<close> gives the text of the hash; \<open>hashes_well_formed\<close> below shows that the
  constructor accepts it.\<close>

definition TriggerHash_compute :: "KillSwitchScope \<Rightarrow> KillSwitchArmedState \<Rightarrow> Authority \<Rightarrow> datetime \<Rightarrow> string" where
  "TriggerHash_compute scope state authority timestamp =
     sha256_hex (KillSwitchScope_value scope @ ''|'' @ KillSwitchArmedState_value state @ ''|'' @
       uuid_str (au_operator_id authority) @ ''|'' @ isoformat timestamp)"

record RateLimitPolicy =
  rp_max_executions :: int
  rp_window_duration_seconds :: int
  rp_technique_category :: string

definition make_RateLimitPolicy :: "int \<Rightarrow> int \<Rightarrow> string \<Rightarrow> PyError + RateLimitPolicy" where
  "make_RateLimitPolicy max_executions window_duration_seconds technique_category =
     (if max_executions < 1 then Inl (ValueError ''max_executions must be >= 1'')
      else if window_duration_seconds < 1 then Inl (ValueError ''window_duration_seconds must be >= 1'')
      else if strip technique_category = [] then Inl (ValueError ''technique_category must not be empty'')
      else Inr \<lparr>rp_max_executions = max_executions, rp_window_duration_seconds = window_duration_seconds,
                rp_technique_category = technique_category\<rparr>)"

record TechniqueRef =
  tq_technique_id :: string
  tq_technique_category :: string
  tq_impact_ceiling :: ImpactCeiling

definition make_TechniqueRef :: "string \<Rightarrow> string \<Rightarrow> ImpactCeiling \<Rightarrow> PyError + TechniqueRef" where
  "make_TechniqueRef technique_id technique_category impact_ceiling =
     (if strip technique_id = [] then Inl (ValueError ''technique_id must not be empty'')
      else if strip technique_category = [] then Inl (ValueError ''technique_category must not be empty'')
      else Inr \<lparr>tq_technique_id = technique_id, tq_technique_category = technique_category,
                tq_impact_ceiling = impact_ceiling\<rparr>)"

text \<open>\<open>TargetRef\<close>, \<open>WorkerRef\<close> and \<open>OperatorRef\<close> wrap one identifier and print as it.\<close>

type_synonym TargetRef = uuid
type_synonym WorkerRef = uuid
type_synonym OperatorRef = uuid

record ExecutionStepRef =
  st_step_id :: uuid
  st_operation_id :: uuid
  st_engagement_id :: uuid

subsection \<open>Action inputs\<close>

text \<open>\<open>json.dumps\<close> of action parameters with
  \<open>sort_keys=True\<close> and compact separators: keys sorted, text escaped to ASCII.\<close>

definition json_escape :: "char \<Rightarrow> string" where
  "json_escape c = (let n = (of_char c :: nat) in
     if n = 34 then [CHR 0x5C, CHR 0x22]
     else if n = 92 then [CHR 0x5C, CHR 0x5C]
     else if n = 10 then CHR 0x5C # ''n''
     else if n = 13 then CHR 0x5C # ''r''
     else if n = 9 then CHR 0x5C # ''t''
     else if n = 12 then CHR 0x5C # ''f''
     else if n = 8 then CHR 0x5C # ''b''
     else if 32 \<le> n \<and> n \<le> 126 then [c]
     else CHR 0x5C # ''u'' @ hex_fixed 4 (int n))"

definition json_string :: "string \<Rightarrow> string" where
  "json_string s = CHR 0x22 # concat (map json_escape s) @ [CHR 0x22]"

fun json_dumps :: "json \<Rightarrow> string" where
  "json_dumps JNull = ''null''"
| "json_dumps (JBool b) = (if b then ''true'' else ''false'')"
| "json_dumps (JInt i) = str_int i"
| "json_dumps (JStr s) = json_string s"
| "json_dumps (JList xs) = ''['' @ join '','' (map json_dumps xs) @ '']''"
| "json_dumps (JObject kvs) =
     CHR 0x7B # join '','' (map snd (sort_key fst (map (\<lambda>(k, v). (k, json_string k @ '':'' @ json_dumps v)) kvs))) @ [CHR 0x7D]"

type_synonym ActionInput = "(string \<times> json) list"

definition serialized :: "ActionInput \<Rightarrow> string" where
  "serialized parameters = json_dumps (JObject parameters)"

definition input_hash :: "ActionInput \<Rightarrow> string" where
  "input_hash parameters = sha256_hex (serialized parameters)"

record ActionOutputRef =
  ao_output_hash :: string
  ao_storage_ref :: string

definition make_ActionOutputRef :: "string \<Rightarrow> string \<Rightarrow> PyError + ActionOutputRef" where
  "make_ActionOutputRef output_hash storage_ref =
     (if length output_hash \<noteq> 64 then Inl (ValueError ''output_hash must be a 64-char SHA-256 hex digest'')
      else if strip storage_ref = [] then Inl (ValueError ''storage_ref must not be empty'')
      else Inr \<lparr>ao_output_hash = output_hash, ao_storage_ref = storage_ref\<rparr>)"

definition make_ActionHash :: "string \<Rightarrow> PyError + string" where
  "make_ActionHash value =
     (if length value \<noteq> 64 then Inl (ValueError ''ActionHash must be a 64-char SHA-256 hex digest'') else Inr value)"

definition ActionHash_compute :: "uuid \<Rightarrow> TargetRef \<Rightarrow> TechniqueRef \<Rightarrow> string \<Rightarrow> datetime \<Rightarrow> string" where
  "ActionHash_compute action_id target_ref technique_ref inp_hash execution_timestamp =
     sha256_hex (uuid_str action_id @ ''|'' @ uuid_str target_ref @ ''|'' @ tq_technique_id technique_ref @ ''|'' @
       inp_hash @ ''|'' @ isoformat execution_timestamp)"

record SafetyCheckResult =
  sc_kill_switch_state :: KillSwitchArmedState
  sc_scope_status :: ScopeVerificationStatus
  sc_rate_limit_decision :: RateLimitDecision
  sc_window_permitted :: bool
  sc_worker_capability_ok :: bool

record AuthorizationToken =
  tk_token_id :: string
  tk_tenant_id :: EntityId
  tk_engagement_id :: uuid
  tk_operation_id :: uuid
  tk_step_ref :: ExecutionStepRef
  tk_target_ref :: TargetRef
  tk_technique_ref :: TechniqueRef
  tk_operator_ref :: OperatorRef
  tk_worker_ref :: "WorkerRef option"
  tk_safety :: SafetyCheckResult
  tk_issued_at :: datetime
  tk_scope_hash :: string
  tk_engagement_version :: int

record ScopeSnapshot =
  sn_engagement_id :: uuid
  sn_tenant_id :: EntityId
  sn_authorized_target_ids :: "uuid set"
  sn_scope_hash :: string
  sn_engagement_version :: int
  sn_state :: string
  sn_window_start :: "datetime option"
  sn_window_end :: "datetime option"
  sn_allowed_techniques :: "string set"
  sn_kill_switch_field_hint :: "KillSwitchArmedState option"
  sn_degraded :: bool

record SignedCapabilityManifest =
  mf_techniques :: "string set"
  mf_trust_level :: WorkerTrustLevel
  mf_signer_operator_id :: uuid
  mf_signature :: string
  mf_signed_at :: datetime

definition make_SignedCapabilityManifest ::
  "string set \<Rightarrow> WorkerTrustLevel \<Rightarrow> uuid \<Rightarrow> string \<Rightarrow> datetime \<Rightarrow> PyError + SignedCapabilityManifest" where
  "make_SignedCapabilityManifest techniques trust_level signer_operator_id signature signed_at =
     (if techniques = {} then Inl (ValueError ''SignedCapabilityManifest must declare at least one technique'')
      else if strip signature = [] then Inl (ValueError ''signature must not be empty'')
      else Inr \<lparr>mf_techniques = techniques, mf_trust_level = trust_level, mf_signer_operator_id = signer_operator_id,
                mf_signature = signature, mf_signed_at = signed_at\<rparr>)"

definition manifest_hash :: "SignedCapabilityManifest \<Rightarrow> string" where
  "manifest_hash m =
     sha256_hex (join '','' (sorted_list_of_set (mf_techniques m)) @ ''|'' @ WorkerTrustLevel_value (mf_trust_level m) @ ''|'' @
       uuid_str (mf_signer_operator_id m) @ ''|'' @ mf_signature m @ ''|'' @ isoformat (mf_signed_at m))"

record ChainIntegrityReport =
  cr_status :: ChainIntegrityStatus
  cr_journal_id :: string
  cr_entry_count :: int
  cr_broken_at_sequence :: "int option"
  cr_detail :: string

definition is_terminal_action_state :: "AttackActionState \<Rightarrow> bool" where
  "is_terminal_action_state state \<longleftrightarrow> state \<in> {COMPLETED, AttackActionState.FAILED, ABORTED, TIMED_OUT}"

section \<open>Exceptions and events\<close>

datatype DomainException =
    InvalidArgument string string
  | InvalidStateTransition string string "string option"
  | TenantMismatch EntityId EntityId
  | OptimisticLockConflict string int int
  | KillSwitchNotFound uuid EntityId
  | JournalNotFound uuid EntityId
  | AttackActionNotFound uuid EntityId
  | ExecutionWorkerNotFound uuid EntityId
  | SameOperatorReleaseForbidden string
  | PlatformWideReleaseAuthorizationInsufficient string
  | AggregateSealed string string
  | AuthorizationRequired string
  | AuthorizationDenied string string
  | AttackActionTamper uuid
  | WorkerCapabilityInsufficient string string
  | WorkerTrustInsufficient string string string
  | WorkerDecommissioned string
  | JournalAlreadyExists uuid
  | SignedManifestRequired

datatype SafetyEvent =
    KillSwitchTriggered KillSwitchScope string string string string KillSwitchArmedState
  | KillSwitchReleased KillSwitchScope string string "string option" KillSwitchArmedState
  | KillSwitchReArmed KillSwitchScope string string KillSwitchArmedState
  | JournalChainIntegrityFailed string string "int option" string
  | JournalCreated string
  | JournalEntryAppended string string string int string

datatype PipelineEvent =
    AttackActionAuthorized string string string string string string string
  | AttackActionStarted string string "string option" datetime
  | AttackActionCompleted string string datetime "string option"
  | AttackActionFailed string string string datetime
  | AttackActionAborted string string string string datetime
  | AttackActionTimedOut string string datetime int
  | AttackActionTamperDetected string string string string
  | ExecutionWorkerRegistered string WorkerTrustLevel string string string
  | ExecutionWorkerHeartbeatReceived WorkerHealthStatus datetime
  | ExecutionWorkerHealthDegraded WorkerHealthStatus WorkerHealthStatus datetime
  | ExecutionWorkerDecommissioned string datetime
  | ExecutionAssigned string string string
  | ExecutionCompleted string string string

section \<open>Laws\<close>

lemma hashes_well_formed:
  "make_TriggerHash (TriggerHash_compute sc st au ts) = Inr (TriggerHash_compute sc st au ts)"
  "make_ActionHash (ActionHash_compute i tg tq h ts) = Inr (ActionHash_compute i tg tq h ts)"
  by (simp_all add: make_TriggerHash_def TriggerHash_compute_def make_ActionHash_def ActionHash_compute_def)

lemma trust_allows_impact_iff: "trust_allows_impact trust c \<longleftrightarrow> trust \<noteq> LOW_TRUST \<or> c < EXPLOIT"
  by (simp add: trust_allows_impact_def less_ImpactCeiling_def)

end
