(* ===== verification/Kill_Switch.thy ===== *)
theory Kill_Switch
  imports Execution_Values
begin

text \<open>
  The kill switch of the execution plane: the aggregate \<open>KillSwitchState\<close>
  (\<open>execution/domain/aggregates/kill_switch_state.py\<close>), the store its state is written through to
  (\<open>execution/infrastructure/redis\<close>: the in-memory store and the Redis one, whose client is an argument)
  and \<open>KillSwitchEvaluationService\<close>, which every authorization consults first.
  What the evaluation relies on of a store is the locale \<open>kill_switch_store\<close>.
\<close>

section \<open>The aggregate\<close>

record KillSwitchState =
  ks_kill_switch_id :: uuid
  ks_tenant_id :: EntityId
  ks_scope :: KillSwitchScope
  ks_scope_ref :: uuid
  ks_armed_state :: KillSwitchArmedState
  ks_created_at :: datetime
  ks_updated_at :: datetime
  ks_version :: int
  ks_trigger_authority :: "Authority option"
  ks_trigger_reason :: "string option"
  ks_trigger_timestamp :: "datetime option"
  ks_trigger_hash :: "string option"
  ks_release_authority :: "Authority option"
  ks_release_countersign_authority :: "Authority option"
  ks_release_timestamp :: "datetime option"
  ks_pending_events :: "SafetyEvent event list"

type_synonym switch_step = "(DomainException, KillSwitchState) step"

primrec ALLOWED :: "KillSwitchArmedState \<Rightarrow> KillSwitchArmedState set" where
  "ALLOWED ARMED = {TRIGGERED}"
| "ALLOWED TRIGGERED = {RELEASED}"
| "ALLOWED RELEASED = {ARMED}"

definition pop_events :: "KillSwitchState \<Rightarrow> SafetyEvent event list \<times> KillSwitchState" where
  "pop_events k = (ks_pending_events k, k\<lparr>ks_pending_events := []\<rparr>)"

definition emit :: "datetime \<Rightarrow> (KillSwitchState \<Rightarrow> SafetyEvent) \<Rightarrow> switch_step" where
  "emit now payload = assign (\<lambda>k. k\<lparr>ks_pending_events := ks_pending_events k @
     [\<lparr>ev_occurred_at = now, ev_tenant_id = ks_tenant_id k, ev_aggregate_id = uuid_str (ks_kill_switch_id k),
       ev_aggregate_type = ''KillSwitchState'', ev_payload = payload k\<rparr>]\<rparr>)"

definition mutate :: "datetime \<Rightarrow> switch_step" where
  "mutate now = assign (\<lambda>k. k\<lparr>ks_updated_at := now, ks_version := ks_version k + 1\<rparr>)"

definition assert_tenant :: "EntityId \<Rightarrow> switch_step" where
  "assert_tenant tenant_id =
     raise_if (\<lambda>k. tenant_id \<noteq> ks_tenant_id k) (\<lambda>k. TenantMismatch (ks_tenant_id k) tenant_id)"

definition transition :: "KillSwitchArmedState \<Rightarrow> switch_step" where
  "transition to_state = steps [
     raise_if (\<lambda>k. to_state \<notin> ALLOWED (ks_armed_state k))
       (\<lambda>k. InvalidStateTransition (KillSwitchArmedState_value (ks_armed_state k))
              (KillSwitchArmedState_value to_state) (Some (uuid_str (ks_kill_switch_id k)))),
     assign (\<lambda>k. k\<lparr>ks_armed_state := to_state\<rparr>)]"

definition create_armed :: "uuid \<Rightarrow> EntityId \<Rightarrow> KillSwitchScope \<Rightarrow> uuid \<Rightarrow> datetime \<Rightarrow> KillSwitchState" where
  "create_armed kill_switch_id tenant_id scope scope_ref now =
     \<lparr>ks_kill_switch_id = kill_switch_id, ks_tenant_id = tenant_id, ks_scope = scope, ks_scope_ref = scope_ref,
      ks_armed_state = ARMED, ks_created_at = now, ks_updated_at = now, ks_version = 0,
      ks_trigger_authority = None, ks_trigger_reason = None, ks_trigger_timestamp = None, ks_trigger_hash = None,
      ks_release_authority = None, ks_release_countersign_authority = None, ks_release_timestamp = None,
      ks_pending_events = []\<rparr>"

definition trigger :: "EntityId \<Rightarrow> Authority \<Rightarrow> string \<Rightarrow> datetime \<Rightarrow> switch_step" where
  "trigger tenant_id authority reason now = steps [
     assert_tenant tenant_id,
     raise_if (\<lambda>_. strip reason = []) (\<lambda>_. InvalidArgument ''reason'' ''trigger requires a non-empty reason''),
     with_value ks_armed_state (\<lambda>previous. [
       transition TRIGGERED,
       assign (\<lambda>k. k\<lparr>ks_trigger_authority := Some authority\<rparr>),
       assign (\<lambda>k. k\<lparr>ks_trigger_reason := Some reason\<rparr>),
       assign (\<lambda>k. k\<lparr>ks_trigger_timestamp := Some now\<rparr>),
       assign (\<lambda>k. k\<lparr>ks_trigger_hash := Some (TriggerHash_compute (ks_scope k) TRIGGERED authority now)\<rparr>),
       assign (\<lambda>k. k\<lparr>ks_release_authority := None\<rparr>),
       assign (\<lambda>k. k\<lparr>ks_release_countersign_authority := None\<rparr>),
       assign (\<lambda>k. k\<lparr>ks_release_timestamp := None\<rparr>),
       mutate now,
       emit now (\<lambda>k. KillSwitchTriggered (ks_scope k) (uuid_str (ks_scope_ref k)) (uuid_str (au_operator_id authority))
         reason (the (ks_trigger_hash k)) previous)])]"

definition folded_role :: "Authority \<Rightarrow> string" where
  "folded_role a = lower (strip (au_role a))"

definition validate_platform_wide_release :: "Authority \<Rightarrow> Authority option \<Rightarrow> DomainException option" where
  "validate_platform_wide_release releasing countersigning =
     (case countersigning of
        None \<Rightarrow> Some (PlatformWideReleaseAuthorizationInsufficient
          ''requires two distinct authorities (redteam:ciso + oversight role)'')
      | Some cs \<Rightarrow>
          if au_operator_id releasing = au_operator_id cs then
            Some (PlatformWideReleaseAuthorizationInsufficient ''same identity may not fulfill both release roles'')
          else let roles = {folded_role releasing, folded_role cs} in
          if CISO_ROLE \<notin> roles then
            Some (PlatformWideReleaseAuthorizationInsufficient (''one authority must hold '' @ CISO_ROLE))
          else let oversight = roles - {CISO_ROLE} in
          if oversight = {} \<or> \<not> oversight \<subseteq> lower ` OVERSIGHT_ROLES then
            Some (PlatformWideReleaseAuthorizationInsufficient
              (''second authority must hold a distinct oversight role ('' @
               join '', '' (sorted_list_of_set OVERSIGHT_ROLES) @ '')''))
          else if folded_role releasing = folded_role cs then
            Some (PlatformWideReleaseAuthorizationInsufficient ''releasing authorities must hold distinct roles'')
          else None)"

definition release :: "EntityId \<Rightarrow> Authority \<Rightarrow> datetime \<Rightarrow> Authority option \<Rightarrow> switch_step" where
  "release tenant_id releasing now countersigning = steps [
     assert_tenant tenant_id,
     raise_if (\<lambda>k. case ks_trigger_authority k of None \<Rightarrow> False | Some a \<Rightarrow> au_operator_id releasing = au_operator_id a)
       (\<lambda>_. SameOperatorReleaseForbidden (uuid_str (au_operator_id releasing))),
     if_else (\<lambda>k. ks_scope k = PLATFORM_WIDE)
       [raise_if (\<lambda>_. validate_platform_wide_release releasing countersigning \<noteq> None)
          (\<lambda>_. the (validate_platform_wide_release releasing countersigning))]
       [raise_if (\<lambda>_. countersigning \<noteq> None)
          (\<lambda>_. InvalidArgument ''countersigning'' ''countersigning authority is only valid for PlatformWide release'')],
     with_value ks_armed_state (\<lambda>previous. [
       transition RELEASED,
       assign (\<lambda>k. k\<lparr>ks_release_authority := Some releasing\<rparr>),
       assign (\<lambda>k. k\<lparr>ks_release_countersign_authority := countersigning\<rparr>),
       assign (\<lambda>k. k\<lparr>ks_release_timestamp := Some now\<rparr>),
       mutate now,
       emit now (\<lambda>k. KillSwitchReleased (ks_scope k) (uuid_str (ks_scope_ref k)) (uuid_str (au_operator_id releasing))
         (map_option (\<lambda>a. uuid_str (au_operator_id a)) countersigning) previous)])]"

definition re_arm :: "EntityId \<Rightarrow> Authority \<Rightarrow> datetime \<Rightarrow> switch_step" where
  "re_arm tenant_id authority now = steps [
     assert_tenant tenant_id,
     with_value ks_armed_state (\<lambda>previous. [
       transition ARMED,
       assign (\<lambda>k. k\<lparr>ks_trigger_authority := None\<rparr>),
       assign (\<lambda>k. k\<lparr>ks_trigger_reason := None\<rparr>),
       assign (\<lambda>k. k\<lparr>ks_trigger_timestamp := None\<rparr>),
       assign (\<lambda>k. k\<lparr>ks_trigger_hash := None\<rparr>),
       assign (\<lambda>k. k\<lparr>ks_release_authority := None\<rparr>),
       assign (\<lambda>k. k\<lparr>ks_release_countersign_authority := None\<rparr>),
       assign (\<lambda>k. k\<lparr>ks_release_timestamp := None\<rparr>),
       mutate now,
       emit now (\<lambda>k. KillSwitchReArmed (ks_scope k) (uuid_str (ks_scope_ref k)) (uuid_str (au_operator_id authority))
         previous)])]"

datatype switch_call =
    Trigger EntityId Authority string datetime
  | Release EntityId Authority datetime "Authority option"
  | Re_Arm EntityId Authority datetime

primrec exec_switch :: "switch_call \<Rightarrow> switch_step" where
  "exec_switch (Trigger t a r now) = trigger t a r now"
| "exec_switch (Release t a now c) = release t a now c"
| "exec_switch (Re_Arm t a now) = re_arm t a now"

primrec switch_caller :: "switch_call \<Rightarrow> EntityId option" where
  "switch_caller (Trigger t a r now) = Some t"
| "switch_caller (Release t a now c) = Some t"
| "switch_caller (Re_Arm t a now) = Some t"

section \<open>The stores\<close>

datatype StoreError = KillSwitchStoreUnavailable string

subsection \<open>In memory\<close>

record InMemoryKillSwitchStore =
  ms_states :: "(string \<times> string \<times> string, KillSwitchArmedState) dict"
  ms_unavailable :: bool

definition simulate_unavailability :: "bool \<Rightarrow> InMemoryKillSwitchStore \<Rightarrow> InMemoryKillSwitchStore" where
  "simulate_unavailability unavailable s = s\<lparr>ms_unavailable := unavailable\<rparr>"

definition memory_key :: "EntityId \<Rightarrow> KillSwitchScope \<Rightarrow> uuid \<Rightarrow> string \<times> string \<times> string" where
  "memory_key tenant_id scope scope_ref = (entity_str tenant_id, KillSwitchScope_value scope, uuid_str scope_ref)"

definition memory_get_state ::
  "InMemoryKillSwitchStore \<Rightarrow> EntityId \<Rightarrow> KillSwitchScope \<Rightarrow> uuid \<Rightarrow> StoreError + KillSwitchArmedState option" where
  "memory_get_state s tenant_id scope scope_ref =
     (if ms_unavailable s then Inl (KillSwitchStoreUnavailable ''kill switch store unavailable'')
      else Inr (map_of (ms_states s) (memory_key tenant_id scope scope_ref)))"

definition memory_set_state :: "KillSwitchState \<Rightarrow> (StoreError, InMemoryKillSwitchStore) step" where
  "memory_set_state k = steps [
     raise_if ms_unavailable (\<lambda>_. KillSwitchStoreUnavailable ''kill switch store unavailable''),
     assign (\<lambda>s. s\<lparr>ms_states :=
       dict_set (memory_key (ks_tenant_id k) (ks_scope k) (ks_scope_ref k)) (ks_armed_state k) (ms_states s)\<rparr>)]"

subsection \<open>Redis\<close>

text \<open>The client's \<open>get\<close> and \<open>set\<close> are arguments: each fails with the text of an exception or
  answers.\<close>

definition redis_key :: "EntityId \<Rightarrow> KillSwitchScope \<Rightarrow> uuid \<Rightarrow> string" where
  "redis_key tenant_id scope scope_ref =
     entity_str tenant_id @ '':killswitch:'' @ KillSwitchScope_value scope @ '':'' @ uuid_str scope_ref"

definition KillSwitchArmedState_of :: "string \<Rightarrow> KillSwitchArmedState option" where
  "KillSwitchArmedState_of v = find (\<lambda>s. KillSwitchArmedState_value s = v) [ARMED, TRIGGERED, RELEASED]"

definition redis_get_state ::
  "('r \<Rightarrow> string \<Rightarrow> string + string option) \<Rightarrow> 'r \<Rightarrow> EntityId \<Rightarrow> KillSwitchScope \<Rightarrow> uuid
     \<Rightarrow> StoreError + KillSwitchArmedState option" where
  "redis_get_state redis_get r tenant_id scope scope_ref =
     (case redis_get r (redis_key tenant_id scope scope_ref) of
        Inl exc \<Rightarrow> Inl (KillSwitchStoreUnavailable exc)
      | Inr None \<Rightarrow> Inr None
      | Inr (Some text) \<Rightarrow>
          (case KillSwitchArmedState_of text of
             Some state \<Rightarrow> Inr (Some state)
           | None \<Rightarrow> Inl (KillSwitchStoreUnavailable (''invalid kill switch value: '' @ text))))"

definition redis_set_state ::
  "(string \<Rightarrow> string \<Rightarrow> (string, 'r) step) \<Rightarrow> KillSwitchState \<Rightarrow> (StoreError, 'r) step" where
  "redis_set_state redis_set k r =
     (case redis_set (redis_key (ks_tenant_id k) (ks_scope k) (ks_scope_ref k))
             (KillSwitchArmedState_value (ks_armed_state k)) r of
        Raise exc r' \<Rightarrow> Raise (KillSwitchStoreUnavailable exc) r'
      | Return _ r' \<Rightarrow> Return () r')"

section \<open>Evaluation\<close>

text \<open>\<open>get_state\<close> of the store and \<open>EntityId.to_uuid\<close> (of the ULID package) are arguments. Both
  \<open>except\<close> branches of \<open>_safe_get\<close> return \<open>TRIGGERED\<close>.\<close>

definition safe_get ::
  "(EntityId \<Rightarrow> KillSwitchScope \<Rightarrow> uuid \<Rightarrow> 'e + KillSwitchArmedState option)
     \<Rightarrow> EntityId \<Rightarrow> KillSwitchScope \<Rightarrow> uuid \<Rightarrow> KillSwitchArmedState option" where
  "safe_get get_state tenant_id scope scope_ref =
     (case get_state tenant_id scope scope_ref of Inr s \<Rightarrow> s | Inl _ \<Rightarrow> Some TRIGGERED)"

fun blocking :: "KillSwitchArmedState option list \<Rightarrow> KillSwitchArmedState" where
  "blocking [] = ARMED"
| "blocking (state # states) = (if state \<noteq> None \<and> state \<noteq> Some ARMED then TRIGGERED else blocking states)"

definition evaluate ::
  "(EntityId \<Rightarrow> KillSwitchScope \<Rightarrow> uuid \<Rightarrow> 'e + KillSwitchArmedState option) \<Rightarrow> (EntityId \<Rightarrow> uuid)
     \<Rightarrow> EntityId \<Rightarrow> uuid \<Rightarrow> uuid option \<Rightarrow> KillSwitchArmedState" where
  "evaluate get_state to_uuid tenant_id engagement_id operation_id =
     (let platform = safe_get get_state tenant_id PLATFORM_WIDE (to_uuid tenant_id) in
      if platform = Some TRIGGERED then TRIGGERED
      else let engagement = safe_get get_state tenant_id ENGAGEMENT engagement_id in
      if engagement = Some TRIGGERED then TRIGGERED
      else if (case operation_id of None \<Rightarrow> False
               | Some op \<Rightarrow> safe_get get_state tenant_id OPERATION op = Some TRIGGERED) then TRIGGERED
      else blocking [platform, engagement])"

section \<open>Laws of the aggregate\<close>

lemmas switch_eval = trigger_def release_def re_arm_def transition_def emit_def mutate_def assert_tenant_def step_simps

lemma switch_tenant: "ks_tenant_id (final (exec_switch c k)) = ks_tenant_id k"
  by (cases c) (simp_all add: switch_eval)

lemma switch_version: "ks_version k \<le> ks_version (final (exec_switch c k))"
  by (cases c) (simp_all add: switch_eval)

lemma switch_events: "\<exists>es. ks_pending_events (final (exec_switch c k)) = ks_pending_events k @ es"
  by (cases c) (simp_all add: switch_eval)

lemma switch_foreign: "switch_caller c = Some t \<Longrightarrow> t \<noteq> ks_tenant_id k \<Longrightarrow> \<exists>e. exec_switch c k = Raise e k"
  by (cases c) (simp_all add: switch_eval)

lemma switch_moves:
  "ks_armed_state (final (exec_switch c k)) = ks_armed_state k \<or>
   ks_armed_state (final (exec_switch c k)) \<in> ALLOWED (ks_armed_state k)"
  by (cases c) (simp_all add: switch_eval)

interpretation kill_switch: aggregate_root exec_switch ks_tenant_id ks_version ks_pending_events
  by unfold_locales (fact switch_tenant switch_version switch_events)+

interpretation kill_switch: tenant_guarded exec_switch ks_tenant_id ks_version ks_pending_events switch_caller
  by unfold_locales (fact switch_foreign)

interpretation kill_switch: status_machine exec_switch ks_armed_state ALLOWED
  by unfold_locales (fact switch_moves)

lemma platform_wide_release_iff:
  "validate_platform_wide_release a c = None \<longleftrightarrow>
     (\<exists>b. c = Some b \<and> au_operator_id a \<noteq> au_operator_id b \<and>
       (folded_role a = CISO_ROLE \<and> folded_role b \<in> OVERSIGHT_ROLES \<or>
        folded_role b = CISO_ROLE \<and> folded_role a \<in> OVERSIGHT_ROLES))"
proof -
  have low: "lower ` OVERSIGHT_ROLES = OVERSIGHT_ROLES" by code_simp
  have ciso: "CISO_ROLE \<notin> OVERSIGHT_ROLES" by code_simp
  show ?thesis
    using ciso by (auto simp: validate_platform_wide_release_def Let_def low split: option.splits if_splits)
qed

text \<open>Two different people, neither the one who stopped the platform as the releaser, hold the release
  of a switch; what a released switch records is what was checked.\<close>

definition release_authorized :: "KillSwitchScope \<Rightarrow> Authority \<Rightarrow> Authority \<Rightarrow> Authority option \<Rightarrow> bool" where
  "release_authorized scope triggering releasing countersigning \<longleftrightarrow>
     au_operator_id releasing \<noteq> au_operator_id triggering \<and>
     (if scope = PLATFORM_WIDE then validate_platform_wide_release releasing countersigning = None
      else countersigning = None)"

definition trigger_recorded :: "KillSwitchState \<Rightarrow> bool" where
  "trigger_recorded k \<longleftrightarrow> (\<exists>a r ts. ks_trigger_authority k = Some a \<and> ks_trigger_reason k = Some r \<and> strip r \<noteq> [] \<and>
     ks_trigger_timestamp k = Some ts \<and> ks_trigger_hash k = Some (TriggerHash_compute (ks_scope k) TRIGGERED a ts))"

definition switch_ok :: "KillSwitchState \<Rightarrow> bool" where
  "switch_ok k = (case ks_armed_state k of
     ARMED \<Rightarrow> ks_trigger_authority k = None \<and> ks_trigger_reason k = None \<and> ks_trigger_timestamp k = None \<and>
       ks_trigger_hash k = None \<and> ks_release_authority k = None \<and> ks_release_countersign_authority k = None \<and>
       ks_release_timestamp k = None
   | TRIGGERED \<Rightarrow> trigger_recorded k \<and> ks_release_authority k = None \<and>
       ks_release_countersign_authority k = None \<and> ks_release_timestamp k = None
   | RELEASED \<Rightarrow> trigger_recorded k \<and> ks_release_timestamp k \<noteq> None \<and>
       (\<exists>a. ks_release_authority k = Some a \<and>
          release_authorized (ks_scope k) (the (ks_trigger_authority k)) a (ks_release_countersign_authority k)))"

lemma trigger_ok: "switch_ok k \<Longrightarrow> switch_ok (final (trigger t a r now k))"
  by (cases "ks_armed_state k") (simp_all add: switch_eval switch_ok_def trigger_recorded_def)

lemma release_ok: "switch_ok k \<Longrightarrow> switch_ok (final (release t a now c k))"
  by (cases "ks_armed_state k")
    (auto simp: switch_eval switch_ok_def trigger_recorded_def release_authorized_def)

lemma re_arm_ok: "switch_ok k \<Longrightarrow> switch_ok (final (re_arm t a now k))"
  by (cases "ks_armed_state k") (simp_all add: switch_eval switch_ok_def)

lemma exec_switch_ok: "keeps switch_ok (exec_switch c)"
  by (cases c) (simp_all add: keeps_def trigger_ok release_ok re_arm_ok)

text \<open>Under every sequence of calls an armed switch carries no trace of an earlier trigger, a triggered
  switch records who stopped it, why, when and the matching hash, and a released switch was released by
  somebody other than the operator who triggered it, with the second signature that its scope asks for.\<close>

theorem kill_switch_invariant:
  "switch_ok (history exec_switch cs (create_armed i t scope ref now))"
  by (rule history_keeps [OF exec_switch_ok]) (simp add: create_armed_def switch_ok_def)


text \<open>The operator who triggered a platform-wide switch may countersign its release in the oversight
  role: only the releasing operator is compared with the triggering one.\<close>

theorem triggering_operator_may_countersign:
  assumes "t = ks_tenant_id k" and "ks_scope k = PLATFORM_WIDE" and "ks_armed_state k = TRIGGERED"
    and "ks_trigger_authority k = Some trig" and "au_operator_id a \<noteq> au_operator_id trig"
    and "folded_role a = CISO_ROLE" and "r \<in> OVERSIGHT_ROLES"
  shows "ks_armed_state (final (release t a now (Some \<lparr>au_operator_id = au_operator_id trig, au_role = r\<rparr>) k)) = RELEASED"
proof -
  have "folded_role \<lparr>au_operator_id = au_operator_id trig, au_role = r\<rparr> = r"
  proof -
    have "\<forall>r \<in> OVERSIGHT_ROLES. lower (strip r) = r" by code_simp
    then show ?thesis using assms(7) by (simp add: folded_role_def)
  qed
  then have "validate_platform_wide_release a (Some \<lparr>au_operator_id = au_operator_id trig, au_role = r\<rparr>) = None"
    using assms by (auto simp: platform_wide_release_iff)
  then show ?thesis using assms by (simp add: switch_eval)
qed

section \<open>Laws of the stores\<close>

text \<open>What the evaluation relies on: a write is read back, and it touches no other key.\<close>

locale kill_switch_store =
  fixes get_state :: "'s \<Rightarrow> EntityId \<Rightarrow> KillSwitchScope \<Rightarrow> uuid \<Rightarrow> 'e + KillSwitchArmedState option"
    and set_state :: "KillSwitchState \<Rightarrow> ('e, 's) step"
  assumes get_set: "set_state k s = Return () s' \<Longrightarrow>
      get_state s' (ks_tenant_id k) (ks_scope k) (ks_scope_ref k) = Inr (Some (ks_armed_state k))"
    and get_other: "set_state k s = Return () s' \<Longrightarrow>
      (t, sc, r) \<noteq> (ks_tenant_id k, ks_scope k, ks_scope_ref k) \<Longrightarrow> get_state s' t sc r = get_state s t sc r"
begin

lemma safe_get_set:
  "set_state k s = Return () s' \<Longrightarrow> safe_get (get_state s') t sc r =
     (if (t, sc, r) = (ks_tenant_id k, ks_scope k, ks_scope_ref k) then Some (ks_armed_state k)
      else safe_get (get_state s) t sc r)"
  by (auto simp: safe_get_def get_set get_other)

lemma triggered_platform_blocks:
  "set_state k s = Return () s' \<Longrightarrow> ks_armed_state k = TRIGGERED \<Longrightarrow> ks_scope k = PLATFORM_WIDE \<Longrightarrow>
   ks_scope_ref k = to_uuid (ks_tenant_id k) \<Longrightarrow> evaluate (get_state s') to_uuid (ks_tenant_id k) eng op = TRIGGERED"
  by (simp add: evaluate_def safe_get_set)

lemma triggered_engagement_blocks:
  "set_state k s = Return () s' \<Longrightarrow> ks_armed_state k = TRIGGERED \<Longrightarrow> ks_scope k = ENGAGEMENT \<Longrightarrow>
   evaluate (get_state s') to_uuid (ks_tenant_id k) (ks_scope_ref k) op = TRIGGERED"
  by (simp add: evaluate_def Let_def safe_get_set)

lemma triggered_operation_blocks:
  "set_state k s = Return () s' \<Longrightarrow> ks_armed_state k = TRIGGERED \<Longrightarrow> ks_scope k = OPERATION \<Longrightarrow>
   evaluate (get_state s') to_uuid (ks_tenant_id k) eng (Some (ks_scope_ref k)) = TRIGGERED"
  by (simp add: evaluate_def Let_def safe_get_set)

end

lemma KillSwitchScope_value_inj: "KillSwitchScope_value a = KillSwitchScope_value b \<longleftrightarrow> a = b"
  by (cases a; cases b) simp_all

lemma memory_key_inj: "memory_key t sc r = memory_key t' sc' r' \<longleftrightarrow> (t, sc, r) = (t', sc', r')"
  by (cases t; cases t') (simp add: memory_key_def KillSwitchScope_value_inj)

interpretation memory: kill_switch_store memory_get_state memory_set_state
  by unfold_locales
    (auto simp: memory_set_state_def memory_get_state_def step_simps map_of_dict_set memory_key_inj split: if_splits)

text \<open>The Redis keys of different switches differ: the reference has a fixed width, and no scope's text
  ends as another one does.\<close>

lemma redis_key_inj: "redis_key t sc r = redis_key t' sc' r' \<longleftrightarrow> (t, sc, r) = (t', sc', r')"
proof
  assume "redis_key t sc r = redis_key t' sc' r'"
  then have "(entity_str t @ '':killswitch:'' @ KillSwitchScope_value sc @ '':'') @ uuid_str r =
      (entity_str t' @ '':killswitch:'' @ KillSwitchScope_value sc' @ '':'') @ uuid_str r'"
    by (simp add: redis_key_def)
  then have pre: "entity_str t @ '':killswitch:'' @ KillSwitchScope_value sc @ '':'' =
      entity_str t' @ '':killswitch:'' @ KillSwitchScope_value sc' @ '':''" and "uuid_str r = uuid_str r'"
    by (subst (asm) append_eq_append_conv; simp)+
  from pre have "rev (entity_str t @ '':killswitch:'' @ KillSwitchScope_value sc @ '':'') =
      rev (entity_str t' @ '':killswitch:'' @ KillSwitchScope_value sc' @ '':'')"
    by (rule arg_cong)
  then have "sc = sc' \<and> entity_str t = entity_str t'" by (cases sc; cases sc') simp_all
  then show "(t, sc, r) = (t', sc', r')"
    using \<open>uuid_str r = uuid_str r'\<close> by (simp add: EntityId.expand)
qed simp

lemma KillSwitchArmedState_of_value [simp]: "KillSwitchArmedState_of (KillSwitchArmedState_value s) = Some s"
  by (cases s) (simp_all add: KillSwitchArmedState_of_def)

text \<open>Over a Redis client whose \<open>get\<close> reads back what \<open>set\<close> stored and whose \<open>set\<close> touches no other
  key, the Redis store answers for every switch what was last written for it, as the in-memory store does.\<close>

theorem redis_store_correct:
  assumes read_back: "\<And>key v r r'. redis_set key v r = Return () r' \<Longrightarrow> redis_get r' key = Inr (Some v)"
    and no_other: "\<And>key v r r' key'. redis_set key v r = Return () r' \<Longrightarrow> key' \<noteq> key \<Longrightarrow> redis_get r' key' = redis_get r key'"
    and ok: "redis_set_state redis_set k r = Return () r'"
  shows "redis_get_state redis_get r' t sc ref =
    (if (t, sc, ref) = (ks_tenant_id k, ks_scope k, ks_scope_ref k) then Inr (Some (ks_armed_state k))
     else redis_get_state redis_get r t sc ref)"
proof -
  from ok have "redis_set (redis_key (ks_tenant_id k) (ks_scope k) (ks_scope_ref k))
      (KillSwitchArmedState_value (ks_armed_state k)) r = Return () r'"
    by (auto simp: redis_set_state_def split: outcome.splits)
  from read_back [OF this] no_other [OF this, of "redis_key t sc ref"] show ?thesis
    by (auto simp: redis_get_state_def redis_key_inj)
qed

section \<open>Laws of the evaluation\<close>

lemma blocking_iff: "blocking ss = TRIGGERED \<longleftrightarrow> (\<exists>s \<in> set ss. s \<noteq> None \<and> s \<noteq> Some ARMED)"
  by (induction ss) auto

lemma blocking_range: "blocking ss \<in> {ARMED, TRIGGERED}"
  by (induction ss) auto


text \<open>A switch that a client has triggered and written through blocks the whole tenant, engagement or
  operation it is for, whatever the store held before.\<close>

theorem triggered_switch_blocks:
  assumes "trigger t a r now k = Return () k'" and "memory_set_state k' s = Return () s'"
    and "case ks_scope k of PLATFORM_WIDE \<Rightarrow> ks_scope_ref k = to_uuid t
         | ENGAGEMENT \<Rightarrow> ks_scope_ref k = eng | OPERATION \<Rightarrow> op = Some (ks_scope_ref k)"
  shows "evaluate (memory_get_state s') to_uuid t eng op = TRIGGERED"
proof -
  have k': "ks_armed_state k' = TRIGGERED" "ks_tenant_id k' = t" "ks_scope k' = ks_scope k" "ks_scope_ref k' = ks_scope_ref k"
    using assms(1) by (auto simp: switch_eval split: if_splits)
  show ?thesis
    using memory.triggered_platform_blocks [OF assms(2) k'(1), where to_uuid = to_uuid]
      memory.triggered_engagement_blocks [OF assms(2) k'(1), where to_uuid = to_uuid]
      memory.triggered_operation_blocks [OF assms(2) k'(1), where to_uuid = to_uuid] assms(3)
    by (cases "ks_scope k") (simp_all add: k')
qed

text \<open>A released switch blocks at platform and at engagement level until it is re-armed, but a released
  operation switch does not block.\<close>

theorem released_operation_switch_permits:
  assumes "get_state t OPERATION i = Inr (Some RELEASED)"
    and "get_state t PLATFORM_WIDE (to_uuid t) = Inr None" and "get_state t ENGAGEMENT eng = Inr None"
  shows "evaluate get_state to_uuid t eng (Some i) = ARMED \<and>
    evaluate (\<lambda>t' sc r. if sc = ENGAGEMENT then Inr (Some RELEASED) else get_state t' sc r) to_uuid t eng (Some i) = TRIGGERED"
  using assms by (simp_all add: evaluate_def safe_get_def)

section \<open>Witnesses\<close>

definition sample_switch :: "KillSwitchScope \<Rightarrow> KillSwitchState" where
  "sample_switch scope = create_armed 3 (EntityId ''t'') scope 7 0"

definition admin :: Authority where "admin = \<lparr>au_operator_id = 11, au_role = ''redteam:admin''\<rparr>"

definition ciso :: Authority where "ciso = \<lparr>au_operator_id = 12, au_role = ''redteam:ciso''\<rparr>"

definition legal :: Authority where "legal = \<lparr>au_operator_id = 13, au_role = ''legal:oversight''\<rparr>"

definition stopped_platform :: KillSwitchState where
  "stopped_platform = final (trigger (EntityId ''t'') admin ''incident'' 5 (sample_switch PLATFORM_WIDE))"

lemmas sample_defs = sample_switch_def create_armed_def admin_def ciso_def legal_def stopped_platform_def

lemma strip_incident: "strip ''incident'' = ''incident''"
  by code_simp

lemma stopped_platform_ok: "switch_ok stopped_platform"
  using kill_switch_invariant [of "[Trigger (EntityId ''t'') admin ''incident'' 5]" 3 "EntityId ''t''" PLATFORM_WIDE 7 0]
  by (simp add: stopped_platform_def sample_switch_def)

lemma ciso_and_legal: "folded_role ciso = CISO_ROLE \<and> folded_role legal \<in> OVERSIGHT_ROLES"
  by code_simp


theorem triggering_operator_may_countersign_witness:
  "ks_armed_state (final (release (EntityId ''t'') ciso 9
     (Some \<lparr>au_operator_id = au_operator_id admin, au_role = ''legal:oversight''\<rparr>) stopped_platform)) = RELEASED"
  by (rule triggering_operator_may_countersign)
    (use ciso_and_legal in \<open>simp_all add: sample_defs switch_eval strip_incident OVERSIGHT_ROLES_def\<close>)

theorem redis_store_correct_witness:
  "redis_get_state (\<lambda>r key. Inr (r key)) [redis_key (EntityId ''t'') ENGAGEMENT 7 \<mapsto> ''Armed''] (EntityId ''t'') ENGAGEMENT 7
     = Inr (Some ARMED)"
proof -
  have "redis_get_state (\<lambda>r key. Inr (r key)) [redis_key (EntityId ''t'') ENGAGEMENT 7 \<mapsto> ''Armed''] (EntityId ''t'') ENGAGEMENT 7 =
      (if (EntityId ''t'', ENGAGEMENT, 7) = (ks_tenant_id (sample_switch ENGAGEMENT), ks_scope (sample_switch ENGAGEMENT),
           ks_scope_ref (sample_switch ENGAGEMENT)) then Inr (Some (ks_armed_state (sample_switch ENGAGEMENT)))
       else redis_get_state (\<lambda>r key. Inr (r key)) Map.empty (EntityId ''t'') ENGAGEMENT 7)"
    by (rule redis_store_correct [where redis_set = "\<lambda>key v r. Return () (r(key \<mapsto> v))"])
      (auto simp: redis_set_state_def sample_defs)
  then show ?thesis by (simp add: sample_defs)
qed

theorem triggered_switch_blocks_witness:
  "evaluate (memory_get_state (final (memory_set_state stopped_platform \<lparr>ms_states = [], ms_unavailable = False\<rparr>)))
     (\<lambda>_. 7) (EntityId ''t'') 20 None = TRIGGERED"
  by (rule triggered_switch_blocks [where k = "sample_switch PLATFORM_WIDE" and k' = stopped_platform and a = admin
        and r = "''incident''" and now = 5 and s = "\<lparr>ms_states = [], ms_unavailable = False\<rparr>"])
    (simp_all add: sample_defs switch_eval strip_incident memory_set_state_def)

theorem released_operation_switch_permits_witness:
  "evaluate (memory_get_state \<lparr>ms_states = [(memory_key (EntityId ''t'') OPERATION 8, RELEASED)], ms_unavailable = False\<rparr>)
     (\<lambda>_. 7) (EntityId ''t'') 20 (Some 8) = ARMED"
  by (rule conjunct1 [OF released_operation_switch_permits]) (simp_all add: memory_get_state_def memory_key_inj)

end
