(* ===== verification/Rate_Limit.thy ===== *)
theory Rate_Limit
  imports Execution_Values
begin

text \<open>
  Rate limiting: the policy of \<open>RateLimitBucket\<close> (\<open>execution/domain/aggregates/rate_limit_bucket.py\<close>),
  the in-memory store that counts (\<open>execution/infrastructure/redis/in_memory_rate_limit_store.py\<close>) and
  \<open>RateLimitEvaluationService\<close>. The clock \<open>time.time()\<close> is an argument, in microseconds, so that the
  comparison with the window is exact; the float of the source rounds to about a microsecond.
\<close>

section \<open>The bucket\<close>

record RateLimitBucket =
  rb_bucket_id :: uuid
  rb_tenant_id :: EntityId
  rb_target_id :: uuid
  rb_technique_category :: string
  rb_policy :: RateLimitPolicy
  rb_current_window_count :: int
  rb_window_start :: "datetime option"

definition destruct_hard_limit :: int where "destruct_hard_limit = 1"

definition decide_from_count :: "int \<Rightarrow> int \<Rightarrow> bool \<Rightarrow> bool \<Rightarrow> RateLimitDecision" where
  "decide_from_count count_after_increment max_executions is_destruct destruct_already_used =
     (if is_destruct then
        (if destruct_already_used then FORBIDDEN
         else if count_after_increment > destruct_hard_limit then FORBIDDEN else PERMITTED)
      else if count_after_increment > max_executions then THROTTLED else PERMITTED)"

definition bucket_key_parts :: "EntityId \<Rightarrow> uuid \<Rightarrow> string \<Rightarrow> string \<times> string \<times> string" where
  "bucket_key_parts tenant_id target_id technique_category =
     (entity_str tenant_id, uuid_str target_id, technique_category)"

definition destruct_nx_key :: "uuid \<Rightarrow> uuid \<Rightarrow> string" where
  "destruct_nx_key engagement_id target_id = ''destruct:'' @ uuid_str engagement_id @ '':'' @ uuid_str target_id"

section \<open>The in-memory store\<close>

record InMemoryRateLimitStore =
  rl_counts :: "(string \<times> string \<times> string, int \<times> datetime) dict"
  rl_destruct_keys :: "string set"

definition evaluate_and_consume ::
  "datetime \<Rightarrow> EntityId \<Rightarrow> uuid \<Rightarrow> string \<Rightarrow> RateLimitPolicy \<Rightarrow> uuid \<Rightarrow> bool
     \<Rightarrow> InMemoryRateLimitStore \<Rightarrow> RateLimitDecision \<times> InMemoryRateLimitStore" where
  "evaluate_and_consume now tenant_id target_id technique_category policy engagement_id is_destruct s =
     (if is_destruct then
        let nx_key = destruct_nx_key engagement_id target_id in
        if nx_key \<in> rl_destruct_keys s then (FORBIDDEN, s)
        else (PERMITTED, s\<lparr>rl_destruct_keys := insert nx_key (rl_destruct_keys s)\<rparr>)
      else
        let key = (entity_str tenant_id, uuid_str target_id, technique_category);
            (count0, window_start0) = dict_get (rl_counts s) key (0, now);
            (count1, window_start) =
              (if now - window_start0 \<ge> 1000000 * rp_window_duration_seconds policy then (0, now) else (count0, window_start0));
            count = count1 + 1
        in (decide_from_count count (rp_max_executions policy) False False,
            s\<lparr>rl_counts := dict_set key (count, window_start) (rl_counts s)\<rparr>))"

section \<open>The service\<close>

text \<open>The store is an argument, as \<open>self._store\<close> is of the service.\<close>

type_synonym 's rate_limit_consume =
  "EntityId \<Rightarrow> uuid \<Rightarrow> string \<Rightarrow> RateLimitPolicy \<Rightarrow> uuid \<Rightarrow> bool \<Rightarrow> 's \<Rightarrow> RateLimitDecision \<times> 's"

definition evaluate ::
  "'s rate_limit_consume \<Rightarrow> EntityId \<Rightarrow> uuid \<Rightarrow> TechniqueRef \<Rightarrow> RateLimitPolicy \<Rightarrow> uuid
     \<Rightarrow> 's \<Rightarrow> (PyError, RateLimitDecision, 's) outcome" where
  "evaluate consume tenant_id target_id technique_ref policy engagement_id s =
     (let is_destruct = (tq_impact_ceiling technique_ref = DESTRUCT) in
      case (if is_destruct then make_RateLimitPolicy destruct_hard_limit (rp_window_duration_seconds policy)
              (tq_technique_category technique_ref) else Inr policy) of
        Inl e \<Rightarrow> Raise e s
      | Inr effective_policy \<Rightarrow>
          (case consume tenant_id target_id (tq_technique_category technique_ref) effective_policy engagement_id is_destruct s of
             (decision, s') \<Rightarrow> Return decision s'))"

text \<open>A request for one execution, and the requests of a sequence that are granted, one after the other
  on one store.\<close>

record request =
  rq_now :: datetime
  rq_tenant_id :: EntityId
  rq_target_id :: uuid
  rq_technique_ref :: TechniqueRef
  rq_policy :: RateLimitPolicy
  rq_engagement_id :: uuid

definition ask :: "request \<Rightarrow> InMemoryRateLimitStore \<Rightarrow> (PyError, RateLimitDecision, InMemoryRateLimitStore) outcome" where
  "ask q = evaluate (evaluate_and_consume (rq_now q)) (rq_tenant_id q) (rq_target_id q) (rq_technique_ref q)
     (rq_policy q) (rq_engagement_id q)"

fun permitted :: "('q \<Rightarrow> 's \<Rightarrow> ('e, 'r, 's) outcome) \<Rightarrow> ('r \<Rightarrow> bool) \<Rightarrow> 'q list \<Rightarrow> 's \<Rightarrow> 'q list" where
  "permitted do_ask yes [] s = []"
| "permitted do_ask yes (q # qs) s =
     (case do_ask q s of
        Return r s' \<Rightarrow> if yes r then q # permitted do_ask yes qs s' else permitted do_ask yes qs s'
      | Raise e s' \<Rightarrow> permitted do_ask yes qs s')"

section \<open>Destruct actions\<close>

abbreviation is_destruct :: "request \<Rightarrow> bool" where
  "is_destruct q \<equiv> tq_impact_ceiling (rq_technique_ref q) = DESTRUCT"

abbreviation destruct_slot :: "request \<Rightarrow> uuid \<times> uuid" where
  "destruct_slot q \<equiv> (rq_engagement_id q, rq_target_id q)"

lemma filter_distinct_map: "distinct (map f xs) \<Longrightarrow> length (filter (\<lambda>x. f x = y) xs) \<le> 1"
  by (induction xs) (auto simp: filter_empty_conv image_iff)

text \<open>What makes a store safe for Destruct actions: a slot is never given back, and a Destruct request is
  permitted only for a slot that was free and is taken afterwards.\<close>

locale destruct_store =
  fixes do_ask :: "'q \<Rightarrow> 's \<Rightarrow> ('e, 'r, 's) outcome"
    and yes :: "'r \<Rightarrow> bool"
    and destruct :: "'q \<Rightarrow> bool"
    and slot :: "'q \<Rightarrow> 'k"
    and taken :: "'s \<Rightarrow> 'k set"
  assumes taken_grows: "taken s \<subseteq> taken (final (do_ask q s))"
    and destruct_permitted: "do_ask q s = Return r s' \<Longrightarrow> yes r \<Longrightarrow> destruct q \<Longrightarrow> slot q \<notin> taken s \<and> slot q \<in> taken s'"
begin

lemma taken_stays_forbidden:
  "x \<in> taken s \<Longrightarrow> q \<in> set (permitted do_ask yes qs s) \<Longrightarrow> destruct q \<Longrightarrow> slot q \<noteq> x"
proof (induction qs arbitrary: s)
  case (Cons p qs)
  have stays: "x \<in> taken (final (do_ask p s))" using Cons.prems(1) taken_grows by blast
  show ?case
    using Cons.IH [of "final (do_ask p s)"] Cons.prems stays destruct_permitted [of p s]
    by (auto split: outcome.splits if_splits)
qed simp

lemma destruct_distinct: "distinct (map slot (filter destruct (permitted do_ask yes qs s)))"
proof (induction qs arbitrary: s)
  case (Cons p qs)
  show ?case
    using Cons.IH [of "final (do_ask p s)"] destruct_permitted [of p s]
      taken_stays_forbidden [of "slot p" "final (do_ask p s)" _ qs]
    by (fastforce split: outcome.splits if_splits)
qed simp

lemma destruct_once: "length (filter (\<lambda>q. destruct q \<and> slot q = k) (permitted do_ask yes qs s)) \<le> 1"
proof -
  have "length (filter (\<lambda>q. slot q = k) (filter destruct (permitted do_ask yes qs s))) \<le> 1"
    by (rule filter_distinct_map) (rule destruct_distinct)
  then show ?thesis by (simp add: conj_commute)
qed

end

lemma destruct_nx_key_inj: "destruct_nx_key a b = destruct_nx_key c d \<longleftrightarrow> (a, b) = (c, d)"
  by (auto simp: destruct_nx_key_def append_eq_append_conv)

definition destruct_taken :: "InMemoryRateLimitStore \<Rightarrow> (uuid \<times> uuid) set" where
  "destruct_taken s = {(e, t). destruct_nx_key e t \<in> rl_destruct_keys s}"

lemma ask_destruct_keys:
  "final (ask q s) = s \<or> rl_destruct_keys (final (ask q s)) =
     (if is_destruct q then insert (destruct_nx_key (rq_engagement_id q) (rq_target_id q)) (rl_destruct_keys s)
      else rl_destruct_keys s)"
  by (auto simp: ask_def evaluate_def evaluate_and_consume_def Let_def split: sum.splits prod.splits)

lemma ask_destruct_permitted:
  "ask q s = Return PERMITTED s' \<Longrightarrow> is_destruct q \<Longrightarrow>
   destruct_nx_key (rq_engagement_id q) (rq_target_id q) \<notin> rl_destruct_keys s \<and>
   rl_destruct_keys s' = insert (destruct_nx_key (rq_engagement_id q) (rq_target_id q)) (rl_destruct_keys s)"
  by (auto simp: ask_def evaluate_def evaluate_and_consume_def Let_def split: sum.splits prod.splits if_splits)

interpretation memory: destruct_store ask "\<lambda>d. d = PERMITTED" is_destruct destruct_slot destruct_taken
proof
  show "destruct_taken s \<subseteq> destruct_taken (final (ask q s))" for s q
    using ask_destruct_keys [of q s] by (auto simp: destruct_taken_def split: if_splits)
  show "ask q s = Return r s' \<Longrightarrow> r = PERMITTED \<Longrightarrow> is_destruct q \<Longrightarrow>
      destruct_slot q \<notin> destruct_taken s \<and> destruct_slot q \<in> destruct_taken s'" for q s r s'
    using ask_destruct_permitted [of q s s'] by (auto simp: destruct_taken_def)
qed

text \<open>Whatever the requests, their order and their times, at most one Destruct action is permitted
  for an engagement and a target.\<close>

theorem destruct_at_most_once:
  "length (filter (\<lambda>q. is_destruct q \<and> rq_engagement_id q = e \<and> rq_target_id q = t)
     (permitted ask (\<lambda>d. d = PERMITTED) qs s)) \<le> 1"
  using memory.destruct_once [of "(e, t)" qs s] by simp

section \<open>Windows\<close>

text \<open>The requests that share a counter, and the times at which they were permitted.\<close>

abbreviation counter_key :: "request \<Rightarrow> string \<times> string \<times> string" where
  "counter_key q \<equiv> (entity_str (rq_tenant_id q), uuid_str (rq_target_id q), tq_technique_category (rq_technique_ref q))"

definition counted :: "string \<times> string \<times> string \<Rightarrow> request \<Rightarrow> bool" where
  "counted key q \<longleftrightarrow> \<not> is_destruct q \<and> counter_key q = key"

lemma ask_counts_other:
  "\<not> counted key q \<Longrightarrow> map_of (rl_counts (final (ask q s))) key = map_of (rl_counts s) key"
  by (auto simp: counted_def ask_def evaluate_def evaluate_and_consume_def Let_def map_of_dict_set
    split: sum.splits prod.splits if_splits)

text \<open>One counted request, by the window it finds: none, an expired one or an open one.\<close>

abbreviation window_of :: "RateLimitPolicy \<Rightarrow> int" where
  "window_of p \<equiv> 1000000 * rp_window_duration_seconds p"

definition next_window :: "RateLimitPolicy \<Rightarrow> datetime \<Rightarrow> (int \<times> datetime) option \<Rightarrow> int \<times> datetime" where
  "next_window p now w = (case w of None \<Rightarrow> (1, now)
     | Some (c, ws) \<Rightarrow> if now - ws \<ge> window_of p then (1, now) else (c + 1, ws))"

lemma ask_counted:
  assumes "counted key q"
  shows "\<exists>s'. ask q s = Return (if fst (next_window (rq_policy q) (rq_now q) (map_of (rl_counts s) key)) > rp_max_executions (rq_policy q)
      then THROTTLED else PERMITTED) s' \<and>
    map_of (rl_counts s') key = Some (next_window (rq_policy q) (rq_now q) (map_of (rl_counts s) key))"
  using assms by (auto simp: counted_def ask_def evaluate_def evaluate_and_consume_def decide_from_count_def dict_get_def
    next_window_def Let_def map_of_dict_set split: option.splits)

text \<open>The history a window stands for: \<open>P\<close> are the times permitted so far. Permitted requests since the
  window opened are at most the smaller of its count and the limit; those of the interval of one window's length before
  it opened are at most the limit.\<close>

abbreviation times_in :: "(int \<Rightarrow> bool) \<Rightarrow> int list \<Rightarrow> int" where
  "times_in I P \<equiv> int (length (filter I P))"

definition open_window_ok :: "int \<Rightarrow> int \<Rightarrow> int list \<Rightarrow> int \<times> datetime \<Rightarrow> bool" where
  "open_window_ok m W P = (\<lambda>(c, ws). times_in (\<lambda>t. ws \<le> t) P \<le> min c m \<and> (\<forall>t \<in> set P. t < ws + W) \<and>
     (\<forall>a > ws - W. times_in (\<lambda>t. a \<le> t \<and> t < ws) P \<le> m))"

definition window_ok :: "int \<Rightarrow> int \<Rightarrow> int list \<Rightarrow> (int \<times> datetime) option \<Rightarrow> bool" where
  "window_ok m W P w \<longleftrightarrow> (\<forall>a. times_in (\<lambda>t. a \<le> t \<and> t < a + W) P \<le> 2 * m) \<and>
     (case w of None \<Rightarrow> P = [] | Some cw \<Rightarrow> open_window_ok m W P cw)"

lemma length_filter_mono: "(\<And>x. x \<in> set xs \<Longrightarrow> A x \<Longrightarrow> B x) \<Longrightarrow> length (filter A xs) \<le> length (filter B xs)"
  by (induction xs) (auto simp: le_SucI)

lemma length_filter_cover:
  "(\<And>x. x \<in> set xs \<Longrightarrow> A x \<Longrightarrow> B x \<or> C x) \<Longrightarrow> length (filter A xs) \<le> length (filter B xs) + length (filter C xs)"
  by (induction xs) (auto simp: le_SucI)

lemma next_open_window_ok:
  assumes ok: "window_ok m W P w" and m: "1 \<le> m" and W: "0 < W"
    and p: "m = rp_max_executions p" "W = window_of p"
    and now: "\<forall>c ws. w = Some (c, ws) \<longrightarrow> ws \<le> now"
  shows "open_window_ok m W (if fst (next_window p now w) > m then P else P @ [now]) (next_window p now w)"
proof (cases w)
  case None
  then show ?thesis using ok m W p by (simp add: window_ok_def open_window_ok_def next_window_def)
next
  case (Some cw)
  obtain c ws where cw: "cw = (c, ws)" by fastforce
  with ok Some have inv: "times_in (\<lambda>t. ws \<le> t) P \<le> min c m" "\<forall>t \<in> set P. t < ws + W"
      "\<forall>a > ws - W. times_in (\<lambda>t. a \<le> t \<and> t < ws) P \<le> m"
    by (simp_all add: window_ok_def open_window_ok_def)
  show ?thesis
  proof (cases "now - ws \<ge> W")
    case True
    then have old: "\<forall>t \<in> set P. t < now" using inv(2) by fastforce
    have "times_in (\<lambda>t. a \<le> t \<and> t < now) P \<le> m" if "now - W < a" for a
    proof -
      have "length (filter (\<lambda>t. a \<le> t \<and> t < now) P) \<le> length (filter (\<lambda>t. ws \<le> t) P)"
        by (rule length_filter_mono) (use that True in auto)
      then show ?thesis using inv(1) by linarith
    qed
    moreover have "filter (\<lambda>t. now \<le> t) P = []" using old by (auto simp: filter_empty_conv)
    ultimately show ?thesis
      using True old m W p Some cw by (auto simp: open_window_ok_def next_window_def)
  next
    case False
    then show ?thesis using inv now p Some cw by (auto simp: open_window_ok_def next_window_def)
  qed
qed

lemma window_ok_step:
  assumes ok: "window_ok m W P w" and m: "1 \<le> m" and W: "0 < W"
    and p: "m = rp_max_executions p" "W = window_of p"
    and now: "\<forall>c ws. w = Some (c, ws) \<longrightarrow> ws \<le> now"
  shows "window_ok m W (if fst (next_window p now w) > m then P else P @ [now]) (Some (next_window p now w))"
proof -
  define P' where "P' = (if fst (next_window p now w) > m then P else P @ [now])"
  obtain c' ws' where nw: "next_window p now w = (c', ws')" by fastforce
  have win: "open_window_ok m W P' (c', ws')"
    using next_open_window_ok [OF assms] by (simp add: P'_def nw)
  have "ws' \<le> now" using now nw by (auto simp: next_window_def split: option.splits prod.splits if_splits)
  have "times_in (\<lambda>t. a \<le> t \<and> t < a + W) P' \<le> 2 * m" for a
  proof (cases "a \<le> now \<and> now < a + W")
    case True
    have "length (filter (\<lambda>t. a \<le> t \<and> t < a + W) P') \<le>
        length (filter (\<lambda>t. a \<le> t \<and> t < ws') P') + length (filter (\<lambda>t. ws' \<le> t) P')"
      by (rule length_filter_cover) auto
    moreover have "times_in (\<lambda>t. a \<le> t \<and> t < ws') P' \<le> m" "times_in (\<lambda>t. ws' \<le> t) P' \<le> m"
      using win True \<open>ws' \<le> now\<close> by (auto simp: open_window_ok_def)
    ultimately show ?thesis by linarith
  next
    case False
    then show ?thesis using ok by (auto simp: P'_def window_ok_def)
  qed
  then show ?thesis using win by (simp add: window_ok_def P'_def nw)
qed

definition obeys :: "string \<times> string \<times> string \<Rightarrow> RateLimitPolicy \<Rightarrow> request list \<Rightarrow> bool" where
  "obeys key p qs \<longleftrightarrow> sorted (map rq_now qs) \<and> (\<forall>q \<in> set qs. counted key q \<longrightarrow> rq_policy q = p)"

definition permitted_times :: "string \<times> string \<times> string \<Rightarrow> request list \<Rightarrow> InMemoryRateLimitStore \<Rightarrow> int list" where
  "permitted_times key qs s = map rq_now (filter (counted key) (permitted ask (\<lambda>d. d = PERMITTED) qs s))"

lemma window_history:
  assumes "1 \<le> rp_max_executions p" and "0 < rp_window_duration_seconds p"
  shows "obeys key p qs \<Longrightarrow> window_ok (rp_max_executions p) (window_of p) P (map_of (rl_counts s) key) \<Longrightarrow>
    (\<forall>c ws. map_of (rl_counts s) key = Some (c, ws) \<longrightarrow> (\<forall>q \<in> set qs. ws \<le> rq_now q)) \<Longrightarrow>
    times_in (\<lambda>t. a \<le> t \<and> t < a + window_of p) (P @ permitted_times key qs s) \<le> 2 * rp_max_executions p"
proof (induction qs arbitrary: P s)
  case Nil
  then show ?case by (simp add: permitted_times_def window_ok_def)
next
  case (Cons q qs)
  let ?m = "rp_max_executions p" and ?W = "window_of p"
  have rest: "obeys key p qs" and sorted: "\<forall>r \<in> set qs. rq_now q \<le> rq_now r"
    using Cons.prems(1) by (auto simp: obeys_def)
  show ?case
  proof (cases "counted key q")
    case False
    then have same: "map_of (rl_counts (final (ask q s))) key = map_of (rl_counts s) key" by (rule ask_counts_other)
    have "permitted_times key (q # qs) s = permitted_times key qs (final (ask q s))"
      using False by (cases "ask q s") (auto simp: permitted_times_def split: RateLimitDecision.splits)
    with Cons.IH [OF rest, of P "final (ask q s)"] Cons.prems same show ?thesis by simp
  next
    case True
    then have pol: "rq_policy q = p" using Cons.prems(1) by (simp add: obeys_def)
    define w where "w = next_window p (rq_now q) (map_of (rl_counts s) key)"
    define P' where "P' = (if fst w > ?m then P else P @ [rq_now q])"
    obtain s' where s': "ask q s = Return (if fst w > ?m then THROTTLED else PERMITTED) s'"
        "map_of (rl_counts s') key = Some w"
      using ask_counted [OF True, of s] pol by (auto simp: w_def)
    have "window_ok ?m ?W P' (map_of (rl_counts s') key)"
      unfolding s' P'_def w_def by (rule window_ok_step) (use Cons.prems assms in auto)
    moreover have "\<forall>r \<in> set qs. snd w \<le> rq_now r"
      using sorted Cons.prems(3) by (fastforce simp: w_def next_window_def split: option.splits prod.splits if_splits)
    ultimately have "times_in (\<lambda>t. a \<le> t \<and> t < a + ?W) (P' @ permitted_times key qs s') \<le> 2 * ?m"
      using Cons.IH [OF rest, of P' s'] s'(2) by (cases w) simp
    moreover have "P' @ permitted_times key qs s' = P @ permitted_times key (q # qs) s"
      using True s'(1) by (auto simp: P'_def permitted_times_def)
    ultimately show ?thesis by simp
  qed
qed

text \<open>C34: the rate limit bounds every stretch of time, not only the store's own windows: of the requests
  on one counter (tenant, target and technique category) under one policy, in the order of the clock and
  mixed with any others, at most twice the limit are permitted within any interval as long as the window.\<close>

theorem rate_limit_window_bound:
  assumes "1 \<le> rp_max_executions p" and "1 \<le> rp_window_duration_seconds p"
    and "sorted (map rq_now qs)" and "\<And>q. q \<in> set qs \<Longrightarrow> counted key q \<Longrightarrow> rq_policy q = p"
  shows "int (length (filter (\<lambda>q. counted key q \<and> a \<le> rq_now q \<and> rq_now q < a + 1000000 * rp_window_duration_seconds p)
    (permitted ask (\<lambda>d. d = PERMITTED) qs \<lparr>rl_counts = [], rl_destruct_keys = D\<rparr>))) \<le> 2 * rp_max_executions p"
proof -
  let ?s = "\<lparr>rl_counts = [], rl_destruct_keys = D\<rparr>"
  have "times_in (\<lambda>t. a \<le> t \<and> t < a + window_of p) ([] @ permitted_times key qs ?s) \<le> 2 * rp_max_executions p"
    using assms by (intro window_history) (simp_all add: obeys_def window_ok_def)
  moreover have "length (filter (\<lambda>t. a \<le> t \<and> t < a + window_of p) (permitted_times key qs ?s)) =
      length (filter (\<lambda>q. counted key q \<and> a \<le> rq_now q \<and> rq_now q < a + window_of p) (permitted ask (\<lambda>d. d = PERMITTED) qs ?s))"
    unfolding permitted_times_def filter_map length_map filter_filter comp_def
    by (intro arg_cong [where f = length] filter_cong) auto
  ultimately show ?thesis by simp
qed

section \<open>Witnesses\<close>

definition sample_policy :: RateLimitPolicy where
  "sample_policy = \<lparr>rp_max_executions = 1, rp_window_duration_seconds = 60, rp_technique_category = ''scan''\<rparr>"

definition sample_request :: "ImpactCeiling \<Rightarrow> datetime \<Rightarrow> request" where
  "sample_request ceiling now = \<lparr>rq_now = now, rq_tenant_id = EntityId ''t'', rq_target_id = 4,
     rq_technique_ref = \<lparr>tq_technique_id = ''T1'', tq_technique_category = ''scan'', tq_impact_ceiling = ceiling\<rparr>,
     rq_policy = sample_policy, rq_engagement_id = 5\<rparr>"

theorem rate_limit_window_bound_witness:
  "int (length (filter (\<lambda>q. counted (''t'', uuid_str 4, ''scan'') q \<and> 0 \<le> rq_now q \<and> rq_now q < 60000000)
     (permitted ask (\<lambda>d. d = PERMITTED) [sample_request PROBE 0, sample_request PROBE 1] \<lparr>rl_counts = [], rl_destruct_keys = {}\<rparr>))) \<le> 2"
proof -
  have "int (length (filter (\<lambda>q. counted (''t'', uuid_str 4, ''scan'') q \<and> 0 \<le> rq_now q \<and>
      rq_now q < 0 + 1000000 * rp_window_duration_seconds sample_policy)
     (permitted ask (\<lambda>d. d = PERMITTED) [sample_request PROBE 0, sample_request PROBE 1] \<lparr>rl_counts = [], rl_destruct_keys = {}\<rparr>)))
     \<le> 2 * rp_max_executions sample_policy"
    by (rule rate_limit_window_bound) (auto simp: sample_request_def sample_policy_def)
  then show ?thesis by (simp only: sample_policy_def RateLimitPolicy.select_convs) simp
qed

end
