(* ===== verification/Worker.thy ===== *)
theory Worker
  imports Execution_Values
begin

text \<open>
  \<open>ExecutionWorker\<close> (\<open>execution/domain/aggregates/execution_worker.py\<close>), the query that finds available
  workers (\<open>pg_execution_worker_repository.py\<close>) and the services that verify and select a worker
  (\<open>worker_capability_verification_service.py\<close>, \<open>worker_assignment_service.py\<close>).
\<close>

section \<open>The aggregate\<close>

record ExecutionWorker =
  wk_worker_id :: uuid
  wk_tenant_id :: EntityId
  wk_worker_type :: WorkerType
  wk_capabilities :: "string set"
  wk_trust_level :: WorkerTrustLevel
  wk_health_status :: WorkerHealthStatus
  wk_network_zone :: string
  wk_manifest_hash :: string
  wk_signer_operator_id :: uuid
  wk_registered_at :: datetime
  wk_created_at :: datetime
  wk_updated_at :: datetime
  wk_version :: int
  wk_last_heartbeat_at :: "datetime option"
  wk_decommissioned_at :: "datetime option"
  wk_pending_events :: "PipelineEvent event list"

type_synonym worker_step = "(DomainException, ExecutionWorker) step"

definition pop_events :: "ExecutionWorker \<Rightarrow> PipelineEvent event list \<times> ExecutionWorker" where
  "pop_events w = (wk_pending_events w, w\<lparr>wk_pending_events := []\<rparr>)"

definition emit :: "datetime \<Rightarrow> (ExecutionWorker \<Rightarrow> PipelineEvent) \<Rightarrow> worker_step" where
  "emit now payload = assign (\<lambda>w. w\<lparr>wk_pending_events := wk_pending_events w @
     [\<lparr>ev_occurred_at = now, ev_tenant_id = wk_tenant_id w, ev_aggregate_id = uuid_str (wk_worker_id w),
       ev_aggregate_type = ''ExecutionWorker'', ev_payload = payload w\<rparr>]\<rparr>)"

definition mutate :: "datetime \<Rightarrow> worker_step" where
  "mutate now = assign (\<lambda>w. w\<lparr>wk_updated_at := now, wk_version := wk_version w + 1\<rparr>)"

definition assert_tenant :: "EntityId \<Rightarrow> worker_step" where
  "assert_tenant tenant_id =
     raise_if (\<lambda>w. tenant_id \<noteq> wk_tenant_id w) (\<lambda>w. TenantMismatch (wk_tenant_id w) tenant_id)"

definition register ::
  "uuid \<Rightarrow> EntityId \<Rightarrow> WorkerType \<Rightarrow> string \<Rightarrow> SignedCapabilityManifest option \<Rightarrow> datetime \<Rightarrow> DomainException + ExecutionWorker" where
  "register worker_id tenant_id worker_type network_zone manifest now =
     (case manifest of
        None \<Rightarrow> Inl SignedManifestRequired
      | Some m \<Rightarrow>
          if strip network_zone = [] then Inl (InvalidArgument ''network_zone'' ''must not be empty'')
          else Inr (final (emit now (\<lambda>w. ExecutionWorkerRegistered (WorkerType_value worker_type) (mf_trust_level m)
                 (strip network_zone) (manifest_hash m) (uuid_str (mf_signer_operator_id m)))
               \<lparr>wk_worker_id = worker_id, wk_tenant_id = tenant_id, wk_worker_type = worker_type,
                wk_capabilities = mf_techniques m, wk_trust_level = mf_trust_level m, wk_health_status = HEALTHY,
                wk_network_zone = strip network_zone, wk_manifest_hash = manifest_hash m,
                wk_signer_operator_id = mf_signer_operator_id m, wk_registered_at = now, wk_created_at = now,
                wk_updated_at = now, wk_version = 0, wk_last_heartbeat_at = Some now, wk_decommissioned_at = None,
                wk_pending_events = []\<rparr>)))"

definition record_heartbeat :: "EntityId \<Rightarrow> WorkerHealthStatus \<Rightarrow> datetime \<Rightarrow> worker_step" where
  "record_heartbeat tenant_id health_status now = steps [
     assert_tenant tenant_id,
     raise_if (\<lambda>w. wk_health_status w = DECOMMISSIONED) (\<lambda>w. WorkerDecommissioned (uuid_str (wk_worker_id w))),
     with_value wk_health_status (\<lambda>previous. [
       assign (\<lambda>w. w\<lparr>wk_health_status := health_status\<rparr>),
       assign (\<lambda>w. w\<lparr>wk_last_heartbeat_at := Some now\<rparr>),
       mutate now,
       emit now (\<lambda>_. ExecutionWorkerHeartbeatReceived health_status now),
       if_else (\<lambda>_. health_status \<in> {DEGRADED, WorkerHealthStatus.UNAVAILABLE} \<and> previous = HEALTHY)
         [emit now (\<lambda>_. ExecutionWorkerHealthDegraded previous health_status now)] []])]"

definition decommission :: "EntityId \<Rightarrow> uuid \<Rightarrow> datetime \<Rightarrow> worker_step" where
  "decommission tenant_id authority_ref now = steps [
     assert_tenant tenant_id,
     raise_if (\<lambda>w. wk_health_status w = DECOMMISSIONED) (\<lambda>w. WorkerDecommissioned (uuid_str (wk_worker_id w))),
     assign (\<lambda>w. w\<lparr>wk_health_status := DECOMMISSIONED\<rparr>),
     assign (\<lambda>w. w\<lparr>wk_decommissioned_at := Some now\<rparr>),
     mutate now,
     emit now (\<lambda>_. ExecutionWorkerDecommissioned (uuid_str authority_ref) now)]"

definition assert_can_execute :: "TechniqueRef \<Rightarrow> worker_step" where
  "assert_can_execute technique = steps [
     raise_if (\<lambda>w. wk_health_status w = DECOMMISSIONED) (\<lambda>w. WorkerDecommissioned (uuid_str (wk_worker_id w))),
     raise_if (\<lambda>w. tq_technique_id technique \<notin> wk_capabilities w)
       (\<lambda>w. WorkerCapabilityInsufficient (uuid_str (wk_worker_id w)) (tq_technique_id technique)),
     raise_if (\<lambda>w. \<not> trust_allows_impact (wk_trust_level w) (tq_impact_ceiling technique))
       (\<lambda>w. WorkerTrustInsufficient (uuid_str (wk_worker_id w)) (WorkerTrustLevel_value (wk_trust_level w))
          (ImpactCeiling_value (tq_impact_ceiling technique)))]"

definition assign_action :: "EntityId \<Rightarrow> string \<Rightarrow> TechniqueRef \<Rightarrow> datetime \<Rightarrow> worker_step" where
  "assign_action tenant_id action_id technique now = steps [
     assert_tenant tenant_id,
     assert_can_execute technique,
     emit now (\<lambda>w. ExecutionAssigned action_id (uuid_str (wk_worker_id w)) (tq_technique_id technique))]"

definition report_execution_completed :: "EntityId \<Rightarrow> string \<Rightarrow> string \<Rightarrow> datetime \<Rightarrow> worker_step" where
  "report_execution_completed tenant_id action_id outcome now = steps [
     assert_tenant tenant_id,
     emit now (\<lambda>w. ExecutionCompleted action_id (uuid_str (wk_worker_id w)) outcome)]"

definition is_available :: "ExecutionWorker \<Rightarrow> bool" where
  "is_available w \<longleftrightarrow> wk_health_status w \<in> {HEALTHY, DEGRADED}"

datatype worker_call =
    Record_Heartbeat EntityId WorkerHealthStatus datetime
  | Decommission EntityId uuid datetime
  | Assign_Action EntityId string TechniqueRef datetime
  | Report_Execution_Completed EntityId string string datetime

primrec exec_worker :: "worker_call \<Rightarrow> worker_step" where
  "exec_worker (Record_Heartbeat t h now) = record_heartbeat t h now"
| "exec_worker (Decommission t a now) = decommission t a now"
| "exec_worker (Assign_Action t i tq now) = assign_action t i tq now"
| "exec_worker (Report_Execution_Completed t i r now) = report_execution_completed t i r now"

primrec worker_caller :: "worker_call \<Rightarrow> EntityId option" where
  "worker_caller (Record_Heartbeat t h now) = Some t"
| "worker_caller (Decommission t a now) = Some t"
| "worker_caller (Assign_Action t i tq now) = Some t"
| "worker_caller (Report_Execution_Completed t i r now) = Some t"

section \<open>Verification and selection\<close>

definition verify :: "ExecutionWorker \<Rightarrow> TechniqueRef \<Rightarrow> bool" where
  "verify worker technique =
     (case assert_can_execute technique worker of
        Raise _ _ \<Rightarrow> False
      | Return _ _ \<Rightarrow>
          if tq_technique_id technique \<notin> wk_capabilities worker then False
          else trust_allows_impact (wk_trust_level worker) (tq_impact_ceiling technique))"

text \<open>The rows of the workers' table, in the order the database gives them, are an argument.\<close>

definition find_available_by_capability ::
  "ExecutionWorker list \<Rightarrow> EntityId \<Rightarrow> string \<Rightarrow> string option \<Rightarrow> ExecutionWorker list" where
  "find_available_by_capability rows tenant_id technique_id network_zone =
     (let stmt = filter (\<lambda>w. wk_tenant_id w = tenant_id \<and> is_available w) rows;
          stmt' = (case network_zone of None \<Rightarrow> stmt | Some z \<Rightarrow> filter (\<lambda>w. wk_network_zone w = z) stmt)
      in filter (\<lambda>w. technique_id \<in> wk_capabilities w) stmt')"

fun first_suitable :: "TechniqueRef \<Rightarrow> ExecutionWorker list \<Rightarrow> DomainException + ExecutionWorker" where
  "first_suitable technique [] = Inl (WorkerCapabilityInsufficient ''none'' (tq_technique_id technique))"
| "first_suitable technique (worker # ws) =
     (if verify worker technique \<and> is_available worker then Inr worker else first_suitable technique ws)"

definition select_worker ::
  "(EntityId \<Rightarrow> string \<Rightarrow> string option \<Rightarrow> ExecutionWorker list) \<Rightarrow> EntityId \<Rightarrow> TechniqueRef \<Rightarrow> string option
     \<Rightarrow> ExecutionWorker option \<Rightarrow> DomainException + ExecutionWorker" where
  "select_worker find_workers tenant_id technique network_zone preferred =
     (case preferred of
        Some p \<Rightarrow>
          if \<not> verify p technique then Inl (WorkerCapabilityInsufficient (uuid_str (wk_worker_id p)) (tq_technique_id technique))
          else if \<not> is_available p then Inl (WorkerCapabilityInsufficient (uuid_str (wk_worker_id p)) (tq_technique_id technique))
          else Inr p
      | None \<Rightarrow> first_suitable technique (find_workers tenant_id (tq_technique_id technique) network_zone))"

section \<open>Laws\<close>

lemmas worker_eval = record_heartbeat_def decommission_def assign_action_def report_execution_completed_def
  assert_can_execute_def emit_def mutate_def assert_tenant_def step_simps

lemma worker_tenant: "wk_tenant_id (final (exec_worker c w)) = wk_tenant_id w"
  by (cases c) (simp_all add: worker_eval)

lemma worker_version: "wk_version w \<le> wk_version (final (exec_worker c w))"
  by (cases c) (simp_all add: worker_eval)

lemma worker_events: "\<exists>es. wk_pending_events (final (exec_worker c w)) = wk_pending_events w @ es"
  by (cases c) (simp_all add: worker_eval)

lemma worker_foreign: "worker_caller c = Some t \<Longrightarrow> t \<noteq> wk_tenant_id w \<Longrightarrow> \<exists>e. exec_worker c w = Raise e w"
  by (cases c) (simp_all add: worker_eval)

definition worker_moves :: "WorkerHealthStatus \<Rightarrow> WorkerHealthStatus set" where
  "worker_moves h = (if h = DECOMMISSIONED then {} else UNIV)"

lemma worker_status:
  "wk_health_status (final (exec_worker c w)) = wk_health_status w \<or>
   wk_health_status (final (exec_worker c w)) \<in> worker_moves (wk_health_status w)"
  by (cases c) (simp_all add: worker_eval worker_moves_def)

interpretation worker: aggregate_root exec_worker wk_tenant_id wk_version wk_pending_events
  by unfold_locales (fact worker_tenant worker_version worker_events)+

interpretation worker: tenant_guarded exec_worker wk_tenant_id wk_version wk_pending_events worker_caller
  by unfold_locales (fact worker_foreign)

interpretation worker: status_machine exec_worker wk_health_status worker_moves
  by unfold_locales (fact worker_status)

lemma verify_iff:
  "verify w tq \<longleftrightarrow> wk_health_status w \<noteq> DECOMMISSIONED \<and> tq_technique_id tq \<in> wk_capabilities w \<and>
     (wk_trust_level w = LOW_TRUST \<longrightarrow> tq_impact_ceiling tq < EXPLOIT)"
  by (auto simp: verify_def worker_eval trust_allows_impact_iff)

definition can_run :: "ExecutionWorker \<Rightarrow> TechniqueRef \<Rightarrow> bool" where
  "can_run w tq \<longleftrightarrow> is_available w \<and> tq_technique_id tq \<in> wk_capabilities w \<and>
     (wk_trust_level w = LOW_TRUST \<longrightarrow> tq_impact_ceiling tq < EXPLOIT)"

lemma suitable_iff: "verify w tq \<and> is_available w \<longleftrightarrow> can_run w tq"
  by (auto simp: verify_iff can_run_def is_available_def)

lemma first_suitable_correct:
  "case first_suitable tq ws of
     Inr w \<Rightarrow> w \<in> set ws \<and> can_run w tq
   | Inl e \<Rightarrow> e = WorkerCapabilityInsufficient ''none'' (tq_technique_id tq) \<and> (\<forall>w \<in> set ws. \<not> can_run w tq)"
  by (induction ws) (auto simp: suitable_iff split: sum.splits)

text \<open>What a registered worker may do never changes, and every assignment it ever took was of a technique
  of its signed manifest.\<close>

definition worker_ok :: "SignedCapabilityManifest \<Rightarrow> string \<Rightarrow> ExecutionWorker \<Rightarrow> bool" where
  "worker_ok m zone w \<longleftrightarrow> wk_capabilities w = mf_techniques m \<and> wk_trust_level w = mf_trust_level m \<and>
     wk_manifest_hash w = manifest_hash m \<and> wk_signer_operator_id w = mf_signer_operator_id m \<and> wk_network_zone w = zone \<and>
     (\<forall>e \<in> set (wk_pending_events w). \<forall>a i tq. ev_payload e = ExecutionAssigned a i tq \<longrightarrow> tq \<in> mf_techniques m)"

lemma exec_worker_ok: "keeps (worker_ok m zone) (exec_worker c)"
proof -
  have "worker_ok m zone (final (exec_worker c w))" if "worker_ok m zone w" for w
    using that by (cases c) (auto simp: worker_eval worker_ok_def)
  then show ?thesis by (simp add: keeps_def)
qed

text \<open>Under every sequence of calls a registered worker keeps the capabilities, trust level, signer and
  manifest hash of the manifest it was registered with, and every action assigned to it was of a technique that
  the manifest declares.\<close>

theorem worker_capabilities_immutable:
  assumes "register i t ty zone (Some m) now = Inr w"
  shows "let w' = history exec_worker cs w in
    wk_capabilities w' = mf_techniques m \<and> wk_trust_level w' = mf_trust_level m \<and>
    wk_manifest_hash w' = manifest_hash m \<and> wk_signer_operator_id w' = mf_signer_operator_id m \<and>
    wk_network_zone w' = strip zone \<and> wk_tenant_id w' = t \<and>
    (\<forall>e \<in> set (wk_pending_events w'). \<forall>a j tq. ev_payload e = ExecutionAssigned a j tq \<longrightarrow> tq \<in> mf_techniques m)"
proof -
  have "worker_ok m (strip zone) w" "wk_tenant_id w = t"
    using assms by (auto simp: register_def emit_def assign_def worker_ok_def split: if_splits)
  moreover have "worker_ok m (strip zone) (history exec_worker cs w)"
    by (rule history_keeps [OF exec_worker_ok]) fact
  ultimately show ?thesis by (simp add: worker_ok_def worker.history_tenant Let_def)
qed

definition assignments :: "ExecutionWorker \<Rightarrow> PipelineEvent event list" where
  "assignments w = filter (\<lambda>e. case ev_payload e of ExecutionAssigned _ _ _ \<Rightarrow> True | _ \<Rightarrow> False) (wk_pending_events w)"

lemma decommissioned_assignments:
  "keeps (\<lambda>w. wk_health_status w = DECOMMISSIONED \<and> assignments w = es) (exec_worker c)"
  unfolding keeps_def assignments_def by (cases c) (auto simp: worker_eval)

text \<open>An action can be assigned to a worker exactly when the caller is of its tenant, the worker is not
  decommissioned, has the technique among its capabilities, and is not a low-trust worker asked for Exploit or more;
  once decommissioned a worker stays so under every sequence of calls and takes no further assignment.\<close>

theorem assignment_and_decommissioning:
  "(returned (assign_action t a tq now w) \<longleftrightarrow> t = wk_tenant_id w \<and> wk_health_status w \<noteq> DECOMMISSIONED \<and>
      tq_technique_id tq \<in> wk_capabilities w \<and> (wk_trust_level w = LOW_TRUST \<longrightarrow> tq_impact_ceiling tq < EXPLOIT)) \<and>
   (wk_health_status w = DECOMMISSIONED \<longrightarrow>
      wk_health_status (history exec_worker cs w) = DECOMMISSIONED \<and> assignments (history exec_worker cs w) = assignments w)"
proof
  show "returned (assign_action t a tq now w) \<longleftrightarrow> t = wk_tenant_id w \<and> wk_health_status w \<noteq> DECOMMISSIONED \<and>
      tq_technique_id tq \<in> wk_capabilities w \<and> (wk_trust_level w = LOW_TRUST \<longrightarrow> tq_impact_ceiling tq < EXPLOIT)"
    by (auto simp: worker_eval trust_allows_impact_iff)
  show "wk_health_status w = DECOMMISSIONED \<longrightarrow>
      wk_health_status (history exec_worker cs w) = DECOMMISSIONED \<and> assignments (history exec_worker cs w) = assignments w"
  proof
    assume "wk_health_status w = DECOMMISSIONED"
    show "wk_health_status (history exec_worker cs w) = DECOMMISSIONED \<and> assignments (history exec_worker cs w) = assignments w"
      by (rule history_keeps [OF decommissioned_assignments]) (simp add: \<open>wk_health_status w = DECOMMISSIONED\<close>)
  qed
qed

text \<open>Selecting a worker from the table is sound and complete: the worker returned is a row of the
  caller's tenant, in the zone asked for, available, with the technique among its capabilities and not a low-trust worker asked
  for Exploit or more; and the selection raises exactly when no row is such a worker.\<close>

theorem select_worker_correct:
  "case select_worker (find_available_by_capability rows) t tq zone None of
     Inr w \<Rightarrow> w \<in> set rows \<and> wk_tenant_id w = t \<and> (\<forall>z. zone = Some z \<longrightarrow> wk_network_zone w = z) \<and> can_run w tq
   | Inl e \<Rightarrow> e = WorkerCapabilityInsufficient ''none'' (tq_technique_id tq) \<and>
       \<not> (\<exists>w \<in> set rows. wk_tenant_id w = t \<and> (\<forall>z. zone = Some z \<longrightarrow> wk_network_zone w = z) \<and> can_run w tq)"
proof -
  let ?ws = "find_available_by_capability rows t (tq_technique_id tq) zone"
  have "w \<in> set ?ws \<and> can_run w tq \<longleftrightarrow>
      w \<in> set rows \<and> wk_tenant_id w = t \<and> (\<forall>z. zone = Some z \<longrightarrow> wk_network_zone w = z) \<and> can_run w tq" for w
    by (auto simp: find_available_by_capability_def Let_def can_run_def split: option.splits)
  then show ?thesis
    using first_suitable_correct [of tq ?ws] by (auto simp: select_worker_def split: sum.splits)
qed

text \<open>A heartbeat that reports the status Decommissioned retires the worker for good, without an
  authority, without the time of the decommissioning and without the event that announces it.\<close>

theorem heartbeat_can_decommission:
  assumes "wk_health_status w \<noteq> DECOMMISSIONED" and "wk_decommissioned_at w = None"
  shows "\<exists>w'. record_heartbeat (wk_tenant_id w) DECOMMISSIONED now w = Return () w' \<and>
    wk_health_status (history exec_worker cs w') = DECOMMISSIONED \<and> wk_decommissioned_at w' = None \<and>
    map ev_payload (wk_pending_events w') = map ev_payload (wk_pending_events w) @ [ExecutionWorkerHeartbeatReceived DECOMMISSIONED now]"
proof -
  obtain w' where "record_heartbeat (wk_tenant_id w) DECOMMISSIONED now w = Return () w'"
    and w': "wk_health_status w' = DECOMMISSIONED" "wk_decommissioned_at w' = None"
      "map ev_payload (wk_pending_events w') = map ev_payload (wk_pending_events w) @ [ExecutionWorkerHeartbeatReceived DECOMMISSIONED now]"
    using assms by (simp add: worker_eval)
  moreover have "wk_health_status (history exec_worker cs w') = DECOMMISSIONED"
    using worker.sink_history [of w' cs] w' by (simp add: worker_moves_def)
  ultimately show ?thesis by blast
qed

section \<open>Witnesses\<close>

definition sample_manifest :: SignedCapabilityManifest where
  "sample_manifest = \<lparr>mf_techniques = {''T1''}, mf_trust_level = LOW_TRUST, mf_signer_operator_id = 9,
     mf_signature = ''sig'', mf_signed_at = 0\<rparr>"

definition sample_worker :: ExecutionWorker where
  "sample_worker = projr (register 3 (EntityId ''t'') CLOUD_AGENT ''dmz'' (Some sample_manifest) 5)"

lemma strip_dmz: "strip ''dmz'' = ''dmz''"
  by code_simp

lemma sample_registered: "register 3 (EntityId ''t'') CLOUD_AGENT ''dmz'' (Some sample_manifest) 5 = Inr sample_worker"
  by (simp add: sample_worker_def register_def strip_dmz)

theorem worker_capabilities_immutable_witness:
  "wk_capabilities (history exec_worker [Record_Heartbeat (EntityId ''t'') DEGRADED 6] sample_worker) = {''T1''}"
  using worker_capabilities_immutable [OF sample_registered, of "[Record_Heartbeat (EntityId ''t'') DEGRADED 6]"]
  unfolding Let_def by (simp add: sample_manifest_def)

theorem assignment_and_decommissioning_witness:
  "wk_health_status (history exec_worker [Record_Heartbeat (EntityId ''t'') HEALTHY 8]
     (sample_worker\<lparr>wk_health_status := DECOMMISSIONED\<rparr>)) = DECOMMISSIONED"
  using assignment_and_decommissioning [where w = "sample_worker\<lparr>wk_health_status := DECOMMISSIONED\<rparr>"
      and cs = "[Record_Heartbeat (EntityId ''t'') HEALTHY 8]"] by simp

theorem select_worker_correct_witness:
  "select_worker (find_available_by_capability []) (EntityId ''t'')
     \<lparr>tq_technique_id = ''T1'', tq_technique_category = ''scan'', tq_impact_ceiling = PROBE\<rparr> (Some ''dmz'') None
   = Inl (WorkerCapabilityInsufficient ''none'' ''T1'')"
  using select_worker_correct [where rows = "[]" and t = "EntityId ''t''" and zone = "Some ''dmz''"
      and tq = "\<lparr>tq_technique_id = ''T1'', tq_technique_category = ''scan'', tq_impact_ceiling = PROBE\<rparr>"]
  by (simp split: sum.splits)

theorem heartbeat_can_decommission_witness:
  "\<exists>w'. record_heartbeat (EntityId ''t'') DECOMMISSIONED 7 sample_worker = Return () w' \<and> wk_decommissioned_at w' = None"
proof -
  have "wk_health_status sample_worker \<noteq> DECOMMISSIONED" "wk_decommissioned_at sample_worker = None"
      "wk_tenant_id sample_worker = EntityId ''t''"
    by (simp_all add: sample_worker_def register_def emit_def assign_def strip_dmz)
  then show ?thesis using heartbeat_can_decommission [of sample_worker 7 "[]"] by auto
qed

end
