(* ===== verification/Hash_Text.thy ===== *)
theory Hash_Text
  imports Execution_Values
begin

text \<open>
  What a hash binds. The hashes of the execution context are taken over fields joined with \<open>|\<close>. A field of fixed
  width, or one without the separator at the end of the text, can be read back. SHA-256 itself has collisions, so what
  is proved of a hash is that the hashed texts are equal or that they are, both at hand, a collision.
\<close>

lemma first_field: "a @ c # b = a' @ c # b' \<Longrightarrow> c \<notin> set a \<Longrightarrow> c \<notin> set a' \<Longrightarrow> a = a' \<and> b = b'"
proof (induction a arbitrary: a')
  case Nil
  then show ?case by (cases a') auto
next
  case (Cons x a)
  then show ?case by (cases a') auto
qed

lemma last_field:
  assumes "a @ c # b = a' @ c # b'" and "c \<notin> set b" and "c \<notin> set b'"
  shows "a = a' \<and> b = b'"
proof -
  from assms(1) have "rev (a @ c # b) = rev (a' @ c # b')" by (rule arg_cong)
  then have "rev b @ c # rev a = rev b' @ c # rev a'" by simp
  from first_field [OF this] assms(2,3) show ?thesis by simp
qed

lemma fixed_field: "a @ b = a' @ b' \<Longrightarrow> length a = length a' \<Longrightarrow> a = a' \<and> b = b'"
  by simp

lemma set_str_int: "set (str_int i) \<subseteq> insert (CHR ''-'') {c. digit_value c \<noteq> None}"
  using str_nat_digits by (auto simp: str_int_def)

lemma set_pad_left: "set (pad_left k s) \<subseteq> insert (CHR ''0'') (set s)"
  by (auto simp: pad_left_def)

lemma no_bar_str_int: "CHR ''|'' \<notin> set (str_int i)"
  using set_str_int [of i] by (auto simp: digit_value_def Let_def split: if_splits)

lemma no_bar_pad: "CHR ''|'' \<notin> set (pad_left k (str_int i))"
  using set_pad_left no_bar_str_int by fastforce

lemma no_bar_isoformat: "CHR ''|'' \<notin> set (isoformat t)"
  by (simp add: isoformat_def Let_def no_bar_pad split: prod.splits)

lemma no_bar_sha256: "CHR ''|'' \<notin> set (sha256_hex s)"
  using set_sha256_hex [of s] by auto

lemma no_bar_uuid: "CHR ''|'' \<notin> set (uuid_str u)"
proof -
  have "CHR ''|'' \<notin> set (hex_fixed 32 (uint u))" using set_hex_fixed [of 32 "uint u"] by auto
  then show ?thesis unfolding uuid_str_def Let_def by (auto dest: in_set_takeD in_set_dropD)
qed

text \<open>The instant \<open>isoformat\<close> prints can be read back from its text within the years 1 to 9999, which is the range
  of \<open>datetime\<close>; the theorems below speak of the printed text.\<close>

lemma action_hash_fields:
  assumes "uuid_str i @ ''|'' @ uuid_str tg @ ''|'' @ tq @ ''|'' @ h @ ''|'' @ t =
      uuid_str i' @ ''|'' @ uuid_str tg' @ ''|'' @ tq' @ ''|'' @ h' @ ''|'' @ t'"
    and "CHR ''|'' \<notin> set h" "CHR ''|'' \<notin> set h'" "CHR ''|'' \<notin> set t" "CHR ''|'' \<notin> set t'"
  shows "i = i' \<and> tg = tg' \<and> tq = tq' \<and> h = h' \<and> t = t'"
proof -
  from assms(1) have i: "i = i'" and r1: "uuid_str tg @ ''|'' @ tq @ ''|'' @ h @ ''|'' @ t = uuid_str tg' @ ''|'' @ tq' @ ''|'' @ h' @ ''|'' @ t'"
    by (simp_all add: append_eq_append_conv)
  from r1 have tg: "tg = tg'" and r2: "tq @ ''|'' @ h @ ''|'' @ t = tq' @ ''|'' @ h' @ ''|'' @ t'"
    by (simp_all add: append_eq_append_conv)
  from r2 have "(tq @ ''|'' @ h) @ CHR ''|'' # t = (tq' @ ''|'' @ h') @ CHR ''|'' # t'" by simp
  from last_field [OF this assms(4,5)] have r3: "tq @ CHR ''|'' # h = tq' @ CHR ''|'' # h'" and t: "t = t'" by simp_all
  from last_field [OF r3 assms(2,3)] i tg t show ?thesis by simp
qed

end
