(* ===== verification/Attack_Action.thy ===== *)
theory Attack_Action
  imports Hash_Text
begin

text \<open>
  \<open>AttackAction\<close> (\<open>execution/domain/aggregates/attack_action.py\<close>), the forensic record of one execution of a
  technique, created only from an authorization token, and \<open>ExecutionTimeoutService\<close>
  (\<open>execution/domain/services/execution_timeout_service.py\<close>), with the technique port an argument.
\<close>

section \<open>The aggregate\<close>

primrec ALLOWED :: "AttackActionState \<Rightarrow> AttackActionState set" where
  "ALLOWED AUTHORIZED = {EXECUTING, ABORTED, AttackActionState.FAILED}"
| "ALLOWED EXECUTING = {COMPLETED, AttackActionState.FAILED, ABORTED, TIMED_OUT}"
| "ALLOWED COMPLETED = {}"
| "ALLOWED AttackActionState.FAILED = {}"
| "ALLOWED ABORTED = {}"
| "ALLOWED TIMED_OUT = {}"

record AttackAction =
  aa_action_id :: uuid
  aa_tenant_id :: EntityId
  aa_engagement_id :: uuid
  aa_operation_id :: uuid
  aa_step_ref :: ExecutionStepRef
  aa_target_ref :: TargetRef
  aa_technique_ref :: TechniqueRef
  aa_operator_ref :: OperatorRef
  aa_worker_ref :: "WorkerRef option"
  aa_action_input :: ActionInput
  aa_input_hash :: string
  aa_action_hash :: string
  aa_state :: AttackActionState
  aa_safety_check :: SafetyCheckResult
  aa_execution_timestamp :: datetime
  aa_created_at :: datetime
  aa_updated_at :: datetime
  aa_version :: int
  aa_completion_timestamp :: "datetime option"
  aa_output_ref :: "ActionOutputRef option"
  aa_failure_reason :: "string option"
  aa_pending_events :: "PipelineEvent event list"

type_synonym action_step = "(DomainException, AttackAction) step"

definition pop_events :: "AttackAction \<Rightarrow> PipelineEvent event list \<times> AttackAction" where
  "pop_events a = (aa_pending_events a, a\<lparr>aa_pending_events := []\<rparr>)"

definition emit :: "datetime \<Rightarrow> (AttackAction \<Rightarrow> PipelineEvent) \<Rightarrow> action_step" where
  "emit now payload = assign (\<lambda>a. a\<lparr>aa_pending_events := aa_pending_events a @
     [\<lparr>ev_occurred_at = now, ev_tenant_id = aa_tenant_id a, ev_aggregate_id = uuid_str (aa_action_id a),
       ev_aggregate_type = ''AttackAction'', ev_payload = payload a\<rparr>]\<rparr>)"

definition mutate :: "datetime \<Rightarrow> action_step" where
  "mutate now = assign (\<lambda>a. a\<lparr>aa_updated_at := now, aa_version := aa_version a + 1\<rparr>)"

definition assert_tenant :: "EntityId \<Rightarrow> action_step" where
  "assert_tenant tenant_id =
     raise_if (\<lambda>a. tenant_id \<noteq> aa_tenant_id a) (\<lambda>a. TenantMismatch (aa_tenant_id a) tenant_id)"

definition assert_not_sealed :: action_step where
  "assert_not_sealed = raise_if (\<lambda>a. is_terminal_action_state (aa_state a))
     (\<lambda>a. AggregateSealed (uuid_str (aa_action_id a)) (AttackActionState_value (aa_state a)))"

definition transition :: "AttackActionState \<Rightarrow> action_step" where
  "transition to_state = steps [
     assert_not_sealed,
     raise_if (\<lambda>a. to_state \<notin> ALLOWED (aa_state a))
       (\<lambda>a. InvalidStateTransition (AttackActionState_value (aa_state a)) (AttackActionState_value to_state)
          (Some (uuid_str (aa_action_id a)))),
     assign (\<lambda>a. a\<lparr>aa_state := to_state\<rparr>)]"

definition create_authorized ::
  "uuid \<Rightarrow> AuthorizationToken option \<Rightarrow> ActionInput \<Rightarrow> datetime \<Rightarrow> DomainException + AttackAction" where
  "create_authorized action_id token action_input now =
     (case token of
        None \<Rightarrow> Inl (AuthorizationRequired ''AttackAction requires AuthorizationToken'')
      | Some tk \<Rightarrow> let safety = tk_safety tk in
          if KillSwitchArmedState_value (sc_kill_switch_state safety) \<noteq> ''Armed'' then
            Inl (AuthorizationRequired ''Kill switch was not Armed at authorization'')
          else if ScopeVerificationStatus_value (sc_scope_status safety) \<noteq> ''Verified'' then
            Inl (AuthorizationRequired ''Scope was not Verified at authorization'')
          else if RateLimitDecision_value (sc_rate_limit_decision safety) \<noteq> ''Permitted'' then
            Inl (AuthorizationRequired ''Rate limit was not Permitted at authorization'')
          else if \<not> sc_window_permitted safety then Inl (AuthorizationRequired ''Execution window not permitted'')
          else if \<not> sc_worker_capability_ok safety then Inl (AuthorizationRequired ''Worker capability check failed'')
          else
            let inp_hash = input_hash action_input;
                action_hash = ActionHash_compute action_id (tk_target_ref tk) (tk_technique_ref tk) inp_hash now
            in Inr (final (emit now (\<lambda>a. AttackActionAuthorized (uuid_str (tk_engagement_id tk)) (uuid_str (tk_operation_id tk))
                 (uuid_str (st_step_id (tk_step_ref tk))) (uuid_str (tk_target_ref tk)) (tq_technique_id (tk_technique_ref tk))
                 (uuid_str (tk_operator_ref tk)) action_hash)
               \<lparr>aa_action_id = action_id, aa_tenant_id = tk_tenant_id tk, aa_engagement_id = tk_engagement_id tk,
                aa_operation_id = tk_operation_id tk, aa_step_ref = tk_step_ref tk, aa_target_ref = tk_target_ref tk,
                aa_technique_ref = tk_technique_ref tk, aa_operator_ref = tk_operator_ref tk, aa_worker_ref = tk_worker_ref tk,
                aa_action_input = action_input, aa_input_hash = inp_hash, aa_action_hash = action_hash,
                aa_state = AUTHORIZED, aa_safety_check = safety, aa_execution_timestamp = now, aa_created_at = now,
                aa_updated_at = now, aa_version = 0, aa_completion_timestamp = None, aa_output_ref = None,
                aa_failure_reason = None, aa_pending_events = []\<rparr>)))"

definition start :: "EntityId \<Rightarrow> datetime \<Rightarrow> action_step" where
  "start tenant_id now = steps [
     assert_tenant tenant_id,
     transition EXECUTING,
     mutate now,
     emit now (\<lambda>a. AttackActionStarted (uuid_str (aa_engagement_id a)) (uuid_str (aa_operation_id a))
       (map_option uuid_str (aa_worker_ref a)) (aa_execution_timestamp a))]"

definition complete :: "EntityId \<Rightarrow> datetime \<Rightarrow> ActionOutputRef option \<Rightarrow> action_step" where
  "complete tenant_id now output_ref = steps [
     assert_tenant tenant_id,
     transition COMPLETED,
     assign (\<lambda>a. a\<lparr>aa_completion_timestamp := Some now\<rparr>),
     if_else (\<lambda>_. output_ref \<noteq> None) [assign (\<lambda>a. a\<lparr>aa_output_ref := output_ref\<rparr>)] [],
     mutate now,
     emit now (\<lambda>a. AttackActionCompleted (uuid_str (aa_engagement_id a)) (uuid_str (aa_operation_id a)) now
       (map_option ao_output_hash output_ref))]"

definition fail :: "EntityId \<Rightarrow> string \<Rightarrow> datetime \<Rightarrow> action_step" where
  "fail tenant_id reason now = steps [
     assert_tenant tenant_id,
     transition AttackActionState.FAILED,
     assign (\<lambda>a. a\<lparr>aa_completion_timestamp := Some now\<rparr>),
     assign (\<lambda>a. a\<lparr>aa_failure_reason := Some reason\<rparr>),
     mutate now,
     emit now (\<lambda>a. AttackActionFailed (uuid_str (aa_engagement_id a)) (uuid_str (aa_operation_id a)) reason now)]"

definition abort :: "EntityId \<Rightarrow> string \<Rightarrow> string \<Rightarrow> datetime \<Rightarrow> action_step" where
  "abort tenant_id reason authority_ref now = steps [
     assert_tenant tenant_id,
     transition ABORTED,
     assign (\<lambda>a. a\<lparr>aa_completion_timestamp := Some now\<rparr>),
     assign (\<lambda>a. a\<lparr>aa_failure_reason := Some reason\<rparr>),
     mutate now,
     emit now (\<lambda>a. AttackActionAborted (uuid_str (aa_engagement_id a)) (uuid_str (aa_operation_id a)) reason authority_ref now)]"

definition timeout_reason :: "int \<Rightarrow> string" where
  "timeout_reason max_duration_seconds = ''Timed out after '' @ str_int max_duration_seconds @ ''s''"

definition mark_timed_out :: "EntityId \<Rightarrow> int \<Rightarrow> datetime \<Rightarrow> action_step" where
  "mark_timed_out tenant_id max_duration_seconds now = steps [
     assert_tenant tenant_id,
     transition TIMED_OUT,
     assign (\<lambda>a. a\<lparr>aa_completion_timestamp := Some now\<rparr>),
     assign (\<lambda>a. a\<lparr>aa_failure_reason := Some (timeout_reason max_duration_seconds)\<rparr>),
     mutate now,
     emit now (\<lambda>a. AttackActionTimedOut (uuid_str (aa_engagement_id a)) (uuid_str (aa_operation_id a)) now max_duration_seconds)]"

definition record_output_ref :: "EntityId \<Rightarrow> ActionOutputRef \<Rightarrow> datetime \<Rightarrow> action_step" where
  "record_output_ref tenant_id output_ref now = steps [
     assert_tenant tenant_id,
     raise_if (\<lambda>a. is_terminal_action_state (aa_state a) \<and> aa_state a \<noteq> COMPLETED)
       (\<lambda>a. AggregateSealed (uuid_str (aa_action_id a)) (AttackActionState_value (aa_state a))),
     assign (\<lambda>a. a\<lparr>aa_output_ref := Some output_ref\<rparr>),
     mutate now]"

definition expected_hash :: "AttackAction \<Rightarrow> string" where
  "expected_hash a = ActionHash_compute (aa_action_id a) (aa_target_ref a) (aa_technique_ref a) (aa_input_hash a)
     (aa_execution_timestamp a)"

definition verify_integrity :: "datetime \<Rightarrow> AttackAction \<Rightarrow> (DomainException, bool, AttackAction) outcome" where
  "verify_integrity now a =
     (if expected_hash a \<noteq> aa_action_hash a then
        and_return (emit now (\<lambda>a. AttackActionTamperDetected (uuid_str (aa_engagement_id a)) (uuid_str (aa_operation_id a))
          (expected_hash a) (aa_action_hash a))) False a
      else Return True a)"

definition is_terminal :: "AttackAction \<Rightarrow> bool" where
  "is_terminal a = is_terminal_action_state (aa_state a)"

section \<open>Timeouts\<close>

definition is_timed_out :: "AttackAction \<Rightarrow> datetime \<Rightarrow> int \<Rightarrow> bool" where
  "is_timed_out action now max_duration =
     (if is_terminal action then False else now - aa_execution_timestamp action > max_duration)"

definition timeout_action ::
  "(uuid \<Rightarrow> string \<Rightarrow> ('e, 'p) step) \<Rightarrow> EntityId \<Rightarrow> int \<Rightarrow> datetime \<Rightarrow> (DomainException + 'e, AttackAction \<times> 'p) step" where
  "timeout_action signal_abort tenant_id max_duration_seconds now = (\<lambda>(a, p).
     case mark_timed_out tenant_id max_duration_seconds now a of
       Raise e a' \<Rightarrow> Raise (Inl e) (a', p)
     | Return _ a' \<Rightarrow>
         (case signal_abort (aa_action_id a') (timeout_reason max_duration_seconds) p of
            Raise e p' \<Rightarrow> Raise (Inr e) (a', p')
          | Return _ p' \<Rightarrow> Return () (a', p')))"

section \<open>Calls\<close>

datatype action_call =
    Start EntityId datetime
  | Complete EntityId datetime "ActionOutputRef option"
  | Fail EntityId string datetime
  | Abort EntityId string string datetime
  | Mark_Timed_Out EntityId int datetime
  | Record_Output_Ref EntityId ActionOutputRef datetime
  | Verify_Integrity datetime

primrec exec_action :: "action_call \<Rightarrow> action_step" where
  "exec_action (Start t now) = start t now"
| "exec_action (Complete t now r) = complete t now r"
| "exec_action (Fail t r now) = fail t r now"
| "exec_action (Abort t r au now) = abort t r au now"
| "exec_action (Mark_Timed_Out t m now) = mark_timed_out t m now"
| "exec_action (Record_Output_Ref t r now) = record_output_ref t r now"
| "exec_action (Verify_Integrity now) = ignore_result (verify_integrity now)"

primrec action_caller :: "action_call \<Rightarrow> EntityId option" where
  "action_caller (Start t now) = Some t"
| "action_caller (Complete t now r) = Some t"
| "action_caller (Fail t r now) = Some t"
| "action_caller (Abort t r au now) = Some t"
| "action_caller (Mark_Timed_Out t m now) = Some t"
| "action_caller (Record_Output_Ref t r now) = Some t"
| "action_caller (Verify_Integrity now) = None"

section \<open>Laws\<close>

lemmas action_eval = start_def complete_def fail_def abort_def mark_timed_out_def record_output_ref_def verify_integrity_def
  and_return_def assign_def transition_def assert_not_sealed_def emit_def mutate_def assert_tenant_def step_simps

lemma action_tenant: "aa_tenant_id (final (exec_action c a)) = aa_tenant_id a"
  by (cases c) (simp_all add: action_eval)

lemma action_version: "aa_version a \<le> aa_version (final (exec_action c a))"
  by (cases c) (simp_all add: action_eval)

lemma action_events: "\<exists>es. aa_pending_events (final (exec_action c a)) = aa_pending_events a @ es"
  by (cases c) (simp_all add: action_eval)

lemma action_foreign: "action_caller c = Some t \<Longrightarrow> t \<noteq> aa_tenant_id a \<Longrightarrow> \<exists>e. exec_action c a = Raise e a"
  by (cases c) (simp_all add: action_eval)

lemma action_moves:
  "aa_state (final (exec_action c a)) = aa_state a \<or> aa_state (final (exec_action c a)) \<in> ALLOWED (aa_state a)"
  by (cases c) (simp_all add: action_eval)

interpretation action: aggregate_root exec_action aa_tenant_id aa_version aa_pending_events
  by unfold_locales (fact action_tenant action_version action_events)+

interpretation action: tenant_guarded exec_action aa_tenant_id aa_version aa_pending_events action_caller
  by unfold_locales (fact action_foreign)

interpretation action: status_machine exec_action aa_state ALLOWED
  by unfold_locales (fact action_moves)

lemma ALLOWED_terminal: "ALLOWED s = {} \<longleftrightarrow> is_terminal_action_state s"
  by (cases s) (simp_all add: is_terminal_action_state_def)

text \<open>The part of an action that no call changes: who, what, on whose authority, and the two hashes.\<close>

definition identity_part where
  "identity_part a = (aa_action_id a, aa_tenant_id a, aa_engagement_id a, aa_operation_id a, aa_step_ref a, aa_target_ref a,
     aa_technique_ref a, aa_operator_ref a, aa_worker_ref a, aa_action_input a, aa_input_hash a, aa_action_hash a,
     aa_safety_check a, aa_execution_timestamp a, aa_created_at a)"

lemma exec_action_identity: "identity_part (final (exec_action c a)) = identity_part a"
  by (cases c) (simp_all add: action_eval identity_part_def)

lemma history_identity: "identity_part (history exec_action cs a) = identity_part a"
  by (induction cs arbitrary: a) (simp_all add: exec_action_identity)

definition passed :: "SafetyCheckResult \<Rightarrow> bool" where
  "passed s \<longleftrightarrow> sc_kill_switch_state s = ARMED \<and> sc_scope_status s = ScopeVerificationStatus.VERIFIED \<and>
     sc_rate_limit_decision s = PERMITTED \<and> sc_window_permitted s \<and> sc_worker_capability_ok s"

lemma value_checks:
  "KillSwitchArmedState_value s = ''Armed'' \<longleftrightarrow> s = ARMED"
  "ScopeVerificationStatus_value v = ''Verified'' \<longleftrightarrow> v = ScopeVerificationStatus.VERIFIED"
  "RateLimitDecision_value d = ''Permitted'' \<longleftrightarrow> d = PERMITTED"
  by ((cases s; simp), (cases v; simp), (cases d; simp))

lemma create_authorized_iff:
  "(\<exists>a. create_authorized i token inp now = Inr a) \<longleftrightarrow> (\<exists>tk. token = Some tk \<and> passed (tk_safety tk))"
  by (auto simp: create_authorized_def passed_def value_checks Let_def split: option.splits)

lemma created_identity:
  assumes "create_authorized i (Some tk) inp now = Inr a"
  shows "identity_part a = (i, tk_tenant_id tk, tk_engagement_id tk, tk_operation_id tk, tk_step_ref tk, tk_target_ref tk,
      tk_technique_ref tk, tk_operator_ref tk, tk_worker_ref tk, inp, input_hash inp,
      ActionHash_compute i (tk_target_ref tk) (tk_technique_ref tk) (input_hash inp) now, tk_safety tk, now, now)"
  using assms by (auto simp: create_authorized_def identity_part_def emit_def assign_def Let_def split: if_splits)

lemma created_state: "create_authorized i token inp now = Inr a \<Longrightarrow> aa_state a = AUTHORIZED"
  by (auto simp: create_authorized_def emit_def assign_def Let_def split: if_splits option.splits)

text \<open>C35: an action exists only for a token whose five safety checks all passed, it carries the token's tenant,
  engagement, target, technique, operator and worker and the hash of its own input, none of which any sequence of calls changes,
  and its integrity check succeeds after every sequence of calls.\<close>

theorem attack_action_provenance:
  assumes "create_authorized i token inp now = Inr a"
  shows "\<exists>tk. token = Some tk \<and> passed (tk_safety tk) \<and>
    identity_part (history exec_action cs a) =
      (i, tk_tenant_id tk, tk_engagement_id tk, tk_operation_id tk, tk_step_ref tk, tk_target_ref tk,
       tk_technique_ref tk, tk_operator_ref tk, tk_worker_ref tk, inp, input_hash inp,
       ActionHash_compute i (tk_target_ref tk) (tk_technique_ref tk) (input_hash inp) now, tk_safety tk, now, now) \<and>
    verify_integrity later (history exec_action cs a) = Return True (history exec_action cs a)"
proof -
  obtain tk where tk: "token = Some tk" "passed (tk_safety tk)"
    using assms create_authorized_iff [of i token inp now] by blast
  have id: "identity_part (history exec_action cs a) =
      (i, tk_tenant_id tk, tk_engagement_id tk, tk_operation_id tk, tk_step_ref tk, tk_target_ref tk,
       tk_technique_ref tk, tk_operator_ref tk, tk_worker_ref tk, inp, input_hash inp,
       ActionHash_compute i (tk_target_ref tk) (tk_technique_ref tk) (input_hash inp) now, tk_safety tk, now, now)"
    using created_identity assms tk by (simp add: history_identity)
  moreover from id have "verify_integrity later (history exec_action cs a) = Return True (history exec_action cs a)"
    by (simp add: verify_integrity_def expected_hash_def identity_part_def)
  ultimately show ?thesis using tk by blast
qed

text \<open>The sealed part of an action in a terminal state. The reference to the output of a completed action is not
  part of it.\<close>

definition sealed_part where
  "sealed_part a = (aa_state a, aa_completion_timestamp a, aa_failure_reason a,
     if aa_state a = COMPLETED then None else aa_output_ref a)"

lemma exec_action_sealed:
  "is_terminal_action_state (aa_state a) \<Longrightarrow> sealed_part (final (exec_action c a)) = sealed_part a"
  by (cases c; cases "aa_state a") (simp_all add: action_eval sealed_part_def is_terminal_action_state_def)

lemma terminal_history:
  "is_terminal_action_state (aa_state a) \<Longrightarrow> sealed_part (history exec_action cs a) = sealed_part a"
proof (induction cs arbitrary: a)
  case (Cons c cs)
  have "sealed_part (final (exec_action c a)) = sealed_part a" by (rule exec_action_sealed) fact
  moreover from this have "aa_state (final (exec_action c a)) = aa_state a" by (simp add: sealed_part_def)
  ultimately show ?case using Cons by simp
qed simp

text \<open>The states of an action follow the table: authorized, then executing, then one of the terminal states; an
  action in a terminal state keeps its state, completion time and failure reason under every sequence of calls, and, unless
  it completed, its output reference.\<close>

theorem terminal_action_sealed:
  "(aa_state a, aa_state (history exec_action cs a)) \<in> {(s, s'). s' \<in> ALLOWED s}\<^sup>* \<and>
   (is_terminal a \<longrightarrow> aa_state (history exec_action cs a) = aa_state a \<and>
      aa_completion_timestamp (history exec_action cs a) = aa_completion_timestamp a \<and>
      aa_failure_reason (history exec_action cs a) = aa_failure_reason a \<and>
      (aa_state a \<noteq> COMPLETED \<longrightarrow> aa_output_ref (history exec_action cs a) = aa_output_ref a))"
  using action.history_path [of a cs] terminal_history [of a cs]
  by (auto simp: is_terminal_def sealed_part_def split: if_splits)

text \<open>The record of a completed action is not sealed with respect to its output: its output reference, hash
  included, can be replaced by any other, and the integrity check still succeeds.\<close>

theorem completed_output_replaceable:
  assumes "aa_state a = COMPLETED" and "verify_integrity now a = Return True a"
  shows "\<exists>b. record_output_ref (aa_tenant_id a) out now a = Return () b \<and> aa_output_ref b = Some out \<and>
    aa_state b = COMPLETED \<and> aa_pending_events b = aa_pending_events a \<and> verify_integrity now b = Return True b"
  using assms by (auto simp: action_eval expected_hash_def split: if_splits)

text \<open>What the action hash is taken over.\<close>

definition action_text :: "AttackAction \<Rightarrow> string" where
  "action_text a = uuid_str (aa_action_id a) @ ''|'' @ uuid_str (aa_target_ref a) @ ''|'' @ tq_technique_id (aa_technique_ref a) @ ''|'' @
     aa_input_hash a @ ''|'' @ isoformat (aa_execution_timestamp a)"

lemma expected_hash_text: "expected_hash a = sha256_hex (action_text a)"
  by (simp add: expected_hash_def ActionHash_compute_def action_text_def)

lemma action_text_fields:
  assumes "action_text a = action_text b" and "length (aa_input_hash a) = 64" and "length (aa_input_hash b) = 64"
  shows "aa_action_id a = aa_action_id b \<and> aa_target_ref a = aa_target_ref b \<and>
    tq_technique_id (aa_technique_ref a) = tq_technique_id (aa_technique_ref b) \<and> aa_input_hash a = aa_input_hash b \<and>
    isoformat (aa_execution_timestamp a) = isoformat (aa_execution_timestamp b)"
proof -
  from assms(1) have i: "aa_action_id a = aa_action_id b" and
    r1: "uuid_str (aa_target_ref a) @ ''|'' @ tq_technique_id (aa_technique_ref a) @ ''|'' @ aa_input_hash a @ ''|'' @
       isoformat (aa_execution_timestamp a) =
      uuid_str (aa_target_ref b) @ ''|'' @ tq_technique_id (aa_technique_ref b) @ ''|'' @ aa_input_hash b @ ''|'' @
       isoformat (aa_execution_timestamp b)"
    by (simp_all add: action_text_def append_eq_append_conv)
  from r1 have tg: "aa_target_ref a = aa_target_ref b" and
    "(tq_technique_id (aa_technique_ref a) @ ''|'' @ aa_input_hash a) @ CHR ''|'' # isoformat (aa_execution_timestamp a) =
     (tq_technique_id (aa_technique_ref b) @ ''|'' @ aa_input_hash b) @ CHR ''|'' # isoformat (aa_execution_timestamp b)"
    by (simp_all add: append_eq_append_conv)
  from last_field [OF this(2) no_bar_isoformat no_bar_isoformat]
  have "(tq_technique_id (aa_technique_ref a) @ ''|'') @ aa_input_hash a = (tq_technique_id (aa_technique_ref b) @ ''|'') @ aa_input_hash b"
    and t: "isoformat (aa_execution_timestamp a) = isoformat (aa_execution_timestamp b)" by simp_all
  then have "tq_technique_id (aa_technique_ref a) = tq_technique_id (aa_technique_ref b) \<and> aa_input_hash a = aa_input_hash b"
    using assms(2,3) by (subst (asm) append_eq_append_conv) simp_all
  with i tg t show ?thesis by simp
qed

text \<open>What the integrity check protects. If a record with the action hash of a genuine action passes the check, then
  its identifier, target, technique, input hash and printed execution time are those of the genuine action, or the two hashed
  texts are a collision of SHA-256.\<close>

theorem integrity_check_protects:
  assumes "create_authorized i (Some tk) inp now = Inr a" and "aa_action_hash b = aa_action_hash a"
    and "length (aa_input_hash b) = 64" and "verify_integrity later b = Return True b"
  shows "aa_action_id b = i \<and> aa_target_ref b = tk_target_ref tk \<and>
      tq_technique_id (aa_technique_ref b) = tq_technique_id (tk_technique_ref tk) \<and> aa_input_hash b = input_hash inp \<and>
      isoformat (aa_execution_timestamp b) = isoformat now \<or>
    action_text b \<noteq> action_text a \<and> sha256_hex (action_text b) = sha256_hex (action_text a)"
proof (cases "action_text b = action_text a")
  case True
  have a: "aa_action_id a = i" "aa_target_ref a = tk_target_ref tk" "aa_technique_ref a = tk_technique_ref tk"
      "aa_input_hash a = input_hash inp" "aa_execution_timestamp a = now"
    using created_identity [OF assms(1)] by (simp_all add: identity_part_def)
  from action_text_fields [OF True assms(3)] show ?thesis by (simp add: a input_hash_def)
next
  case False
  have "aa_action_hash a = expected_hash a"
    using created_identity [OF assms(1)] by (simp add: identity_part_def expected_hash_def)
  moreover have "expected_hash b = aa_action_hash b"
    using assms(4) by (auto simp: verify_integrity_def and_return_def emit_def assign_def split: if_splits)
  ultimately show ?thesis using False assms(2) by (simp add: expected_hash_text)
qed

text \<open>The check reads the stored hash of the input and not the input: altered parameters pass it.\<close>

theorem altered_input_passes:
  assumes "verify_integrity now a = Return True a"
  shows "verify_integrity now (a\<lparr>aa_action_input := inp\<rparr>) = Return True (a\<lparr>aa_action_input := inp\<rparr>)"
  using assms by (auto simp: verify_integrity_def and_return_def emit_def assign_def expected_hash_def split: if_splits)

text \<open>An action that has run longer than allowed can be timed out exactly while it is executing: timing it out then
  ends it and signals the abort to the technique port, while an authorized action that was never started counts as timed out
  but cannot be ended this way.\<close>

theorem timeout_only_when_executing:
  assumes "is_timed_out a now d" and "t = aa_tenant_id a"
  shows "(returned (mark_timed_out t m now a) \<longleftrightarrow> aa_state a = EXECUTING) \<and>
    (aa_state a \<noteq> EXECUTING \<longrightarrow> final (timeout_action signal_abort t m now (a, p)) = (a, p)) \<and>
    (\<forall>p'. aa_state a = EXECUTING \<and> signal_abort (aa_action_id a) (timeout_reason m) p = Return () p' \<longrightarrow>
      (\<exists>b. timeout_action signal_abort t m now (a, p) = Return () (b, p') \<and> aa_state b = TIMED_OUT \<and>
        aa_failure_reason b = Some (timeout_reason m)))"
  using assms
  by (cases "aa_state a") (simp_all add: action_eval is_terminal_action_state_def timeout_action_def)

section \<open>Witnesses\<close>

definition sample_token :: AuthorizationToken where
  "sample_token = \<lparr>tk_token_id = ''k'', tk_tenant_id = EntityId ''t'', tk_engagement_id = 5, tk_operation_id = 6,
     tk_step_ref = \<lparr>st_step_id = 7, st_operation_id = 6, st_engagement_id = 5\<rparr>, tk_target_ref = 8,
     tk_technique_ref = \<lparr>tq_technique_id = ''T1'', tq_technique_category = ''scan'', tq_impact_ceiling = PROBE\<rparr>,
     tk_operator_ref = 9, tk_worker_ref = None,
     tk_safety = \<lparr>sc_kill_switch_state = ARMED, sc_scope_status = ScopeVerificationStatus.VERIFIED,
       sc_rate_limit_decision = PERMITTED, sc_window_permitted = True, sc_worker_capability_ok = True\<rparr>,
     tk_issued_at = 0, tk_scope_hash = ''h'', tk_engagement_version = 1\<rparr>"

definition sample_action :: AttackAction where
  "sample_action = projr (create_authorized 3 (Some sample_token) [] 0)"

lemma sample_created: "create_authorized 3 (Some sample_token) [] 0 = Inr sample_action"
  by (simp add: sample_action_def create_authorized_def sample_token_def Let_def)

lemma sample_hash: "aa_action_hash sample_action = expected_hash sample_action"
  using created_identity [OF sample_created] by (simp add: identity_part_def expected_hash_def)

definition running_action :: AttackAction where
  "running_action = sample_action\<lparr>aa_state := EXECUTING, aa_tenant_id := EntityId ''t'', aa_execution_timestamp := 0\<rparr>"

definition done_action :: AttackAction where
  "done_action = sample_action\<lparr>aa_state := COMPLETED\<rparr>"

lemma done_verified: "verify_integrity 9 done_action = Return True done_action"
  using sample_hash by (simp add: verify_integrity_def done_action_def expected_hash_def)

theorem attack_action_provenance_witness:
  "verify_integrity 9 (history exec_action [Start (EntityId ''t'') 1] sample_action) =
     Return True (history exec_action [Start (EntityId ''t'') 1] sample_action)"
  using attack_action_provenance [OF sample_created, where cs = "[Start (EntityId ''t'') 1]" and later = 9]
  by (elim exE conjE)

theorem terminal_action_sealed_witness:
  "aa_state (history exec_action [Start (EntityId ''t'') 1, Fail (EntityId ''t'') ''x'' 2] done_action) = COMPLETED"
  using terminal_action_sealed [where a = done_action and cs = "[Start (EntityId ''t'') 1, Fail (EntityId ''t'') ''x'' 2]"]
  by (simp add: is_terminal_def is_terminal_action_state_def done_action_def)

theorem completed_output_replaceable_witness:
  "\<exists>b. record_output_ref (aa_tenant_id done_action) \<lparr>ao_output_hash = ''h'', ao_storage_ref = ''s''\<rparr> 9 done_action = Return () b \<and>
     aa_output_ref b = Some \<lparr>ao_output_hash = ''h'', ao_storage_ref = ''s''\<rparr>"
  using completed_output_replaceable [of done_action 9 "\<lparr>ao_output_hash = ''h'', ao_storage_ref = ''s''\<rparr>"] done_verified
  by (auto simp: done_action_def)

theorem integrity_check_protects_witness:
  "aa_target_ref done_action = 8 \<and> aa_input_hash done_action = aa_input_hash sample_action"
proof -
  have "length (aa_input_hash done_action) = 64" "aa_action_hash done_action = aa_action_hash sample_action"
    using created_identity [OF sample_created] by (simp_all add: identity_part_def done_action_def input_hash_def)
  moreover have "action_text done_action = action_text sample_action" by (simp add: action_text_def done_action_def)
  ultimately show ?thesis
    using integrity_check_protects [OF sample_created _ _ done_verified] created_identity [OF sample_created]
    by (simp add: sample_token_def identity_part_def)
qed

theorem timeout_only_when_executing_witness:
  "returned (mark_timed_out (EntityId ''t'') 1 90 running_action)"
proof -
  have "is_timed_out running_action 90 10" "EntityId ''t'' = aa_tenant_id running_action"
    by (simp_all add: running_action_def is_timed_out_def is_terminal_def is_terminal_action_state_def)
  from conjunct1 [OF timeout_only_when_executing [OF this]] show ?thesis by (simp add: running_action_def)
qed

end
