(* ===== verification/Authorization.thy ===== *)
theory Authorization
  imports Kill_Switch Rate_Limit Worker Attack_Action
begin

text \<open>
  The safety gate: \<open>ScopeVerificationService\<close>, \<open>ExecutionWindowService\<close> and \<open>ExecutionAuthorizationService\<close>
  (\<open>execution/domain/services\<close>), which runs five checks in a fixed order and issues the token that an attack action is
  created from. The kill-switch store, the engagement scope port and the rate-limit store are the fields of \<open>gate\<close>.
  The gate refines the specification "the first check that fails decides".
\<close>

section \<open>Scope and window\<close>

definition scope_verify ::
  "(uuid \<Rightarrow> EntityId \<Rightarrow> 'e + ScopeSnapshot) \<Rightarrow> EntityId \<Rightarrow> uuid \<Rightarrow> TargetRef \<Rightarrow> TechniqueRef \<Rightarrow> string option \<Rightarrow> int option
     \<Rightarrow> 'e + ScopeVerificationStatus \<times> ScopeSnapshot" where
  "scope_verify get_scope_snapshot tenant_id engagement_id target_ref technique_ref presented_scope_hash presented_engagement_version =
     (case get_scope_snapshot engagement_id tenant_id of
        Inl e \<Rightarrow> Inl e
      | Inr snapshot \<Rightarrow> Inr (
          (if sn_degraded snapshot \<and> sn_authorized_target_ids snapshot = {} then ScopeVerificationStatus.FAILED
           else if target_ref \<notin> sn_authorized_target_ids snapshot then ScopeVerificationStatus.FAILED
           else if sn_allowed_techniques snapshot \<noteq> {} \<and> tq_technique_id technique_ref \<notin> sn_allowed_techniques snapshot
             then ScopeVerificationStatus.FAILED
           else if presented_scope_hash \<noteq> None \<and> presented_scope_hash \<noteq> Some (sn_scope_hash snapshot)
             then ScopeVerificationStatus.FAILED
           else if presented_engagement_version \<noteq> None \<and> presented_engagement_version \<noteq> Some (sn_engagement_version snapshot)
             then ScopeVerificationStatus.FAILED
           else if sn_scope_hash snapshot = [] then ScopeVerificationStatus.FAILED
           else ScopeVerificationStatus.VERIFIED), snapshot))"

definition is_within_window :: "datetime \<Rightarrow> datetime option \<Rightarrow> datetime option \<Rightarrow> bool" where
  "is_within_window now window_start window_end =
     (if (case window_start of None \<Rightarrow> False | Some s \<Rightarrow> now < s) then False
      else \<not> (case window_end of None \<Rightarrow> False | Some e \<Rightarrow> now > e))"

section \<open>The gate\<close>

record ('s, 'k, 'e) gate =
  gt_get_state :: "EntityId \<Rightarrow> KillSwitchScope \<Rightarrow> uuid \<Rightarrow> 'k + KillSwitchArmedState option"
  gt_to_uuid :: "EntityId \<Rightarrow> uuid"
  gt_get_scope_snapshot :: "uuid \<Rightarrow> EntityId \<Rightarrow> 'e + ScopeSnapshot"
  gt_evaluate_and_consume :: "'s rate_limit_consume"

record authorize_args =
  az_tenant_id :: EntityId
  az_engagement_id :: uuid
  az_operation_id :: uuid
  az_step_ref :: ExecutionStepRef
  az_target_ref :: TargetRef
  az_technique_ref :: TechniqueRef
  az_operator_ref :: OperatorRef
  az_rate_limit_policy :: RateLimitPolicy
  az_now :: datetime
  az_worker :: "ExecutionWorker option"
  az_worker_ref :: "WorkerRef option"
  az_presented_scope_hash :: "string option"
  az_presented_engagement_version :: "int option"

record AuthorizationResult =
  ar_token :: "AuthorizationToken option"
  ar_failure_reason :: "AuthorizationFailureReason option"

definition permitted_result :: "AuthorizationResult \<Rightarrow> bool" where
  "permitted_result r \<longleftrightarrow> ar_token r \<noteq> None"

definition denied :: "AuthorizationFailureReason \<Rightarrow> AuthorizationResult" where
  "denied reason = \<lparr>ar_token = None, ar_failure_reason = Some reason\<rparr>"

definition issue_token :: "string \<Rightarrow> authorize_args \<Rightarrow> ScopeSnapshot \<Rightarrow> AuthorizationToken" where
  "issue_token token_id az snapshot =
     \<lparr>tk_token_id = token_id, tk_tenant_id = az_tenant_id az, tk_engagement_id = az_engagement_id az,
      tk_operation_id = az_operation_id az, tk_step_ref = az_step_ref az, tk_target_ref = az_target_ref az,
      tk_technique_ref = az_technique_ref az, tk_operator_ref = az_operator_ref az,
      tk_worker_ref = (case az_worker az of Some w \<Rightarrow> Some (wk_worker_id w) | None \<Rightarrow> az_worker_ref az),
      tk_safety = \<lparr>sc_kill_switch_state = ARMED, sc_scope_status = ScopeVerificationStatus.VERIFIED,
        sc_rate_limit_decision = PERMITTED, sc_window_permitted = True, sc_worker_capability_ok = True\<rparr>,
      tk_issued_at = az_now az, tk_scope_hash = sn_scope_hash snapshot, tk_engagement_version = sn_engagement_version snapshot\<rparr>"

definition authorize ::
  "('s, 'k, 'e) gate \<Rightarrow> string \<Rightarrow> authorize_args \<Rightarrow> 's \<Rightarrow> ('e + PyError, AuthorizationResult, 's) outcome" where
  "authorize g token_id az s =
     (if Kill_Switch.evaluate (gt_get_state g) (gt_to_uuid g) (az_tenant_id az) (az_engagement_id az) (Some (az_operation_id az)) \<noteq> ARMED
      then Return (denied AuthorizationFailureReason.KILL_SWITCH_TRIGGERED) s
      else
      (case scope_verify (gt_get_scope_snapshot g) (az_tenant_id az) (az_engagement_id az) (az_target_ref az) (az_technique_ref az)
              (az_presented_scope_hash az) (az_presented_engagement_version az) of
         Inl e \<Rightarrow> Raise (Inl e) s
       | Inr (scope_status, snapshot) \<Rightarrow>
           if scope_status \<noteq> ScopeVerificationStatus.VERIFIED then Return (denied SCOPE_VIOLATION) s
           else
           (case Rate_Limit.evaluate (gt_evaluate_and_consume g) (az_tenant_id az) (az_target_ref az) (az_technique_ref az)
                   (az_rate_limit_policy az) (az_engagement_id az) s of
              Raise e s' \<Rightarrow> Raise (Inr e) s'
            | Return rl_decision s' \<Rightarrow>
                if rl_decision = THROTTLED then Return (denied RATE_LIMIT_THROTTLED) s'
                else if rl_decision = FORBIDDEN then Return (denied RATE_LIMIT_FORBIDDEN) s'
                else if \<not> is_within_window (az_now az) (sn_window_start snapshot) (sn_window_end snapshot)
                  then Return (denied OUTSIDE_EXECUTION_WINDOW) s'
                else
                (case az_worker az of
                   Some worker \<Rightarrow>
                     if \<not> verify worker (az_technique_ref az) then
                       Return (denied (if \<not> is_available worker then WORKER_UNAVAILABLE else WORKER_CAPABILITY_INSUFFICIENT)) s'
                     else Return \<lparr>ar_token = Some (issue_token token_id az snapshot), ar_failure_reason = None\<rparr> s'
                 | None \<Rightarrow> Return \<lparr>ar_token = Some (issue_token token_id az snapshot), ar_failure_reason = None\<rparr> s'))))"

definition authorize_or_raise ::
  "('s, 'k, 'e) gate \<Rightarrow> string \<Rightarrow> authorize_args \<Rightarrow> 's \<Rightarrow> (('e + PyError) + DomainException, AuthorizationToken, 's) outcome" where
  "authorize_or_raise g token_id az s =
     (case authorize g token_id az s of
        Raise e s' \<Rightarrow> Raise (Inl e) s'
      | Return r s' \<Rightarrow>
          (case ar_token r of
             Some tk \<Rightarrow> Return tk s'
           | None \<Rightarrow> Raise (Inr (case ar_failure_reason r of
                 Some reason \<Rightarrow> AuthorizationDenied (AuthorizationFailureReason_value reason) (AuthorizationFailureReason_value reason)
               | None \<Rightarrow> AuthorizationDenied ''denied'' ''unknown'')) s'))"

section \<open>Specification\<close>

definition in_scope :: "ScopeSnapshot \<Rightarrow> authorize_args \<Rightarrow> bool" where
  "in_scope sn az \<longleftrightarrow> az_target_ref az \<in> sn_authorized_target_ids sn \<and>
     (sn_allowed_techniques sn = {} \<or> tq_technique_id (az_technique_ref az) \<in> sn_allowed_techniques sn) \<and>
     az_presented_scope_hash az \<in> {None, Some (sn_scope_hash sn)} \<and>
     az_presented_engagement_version az \<in> {None, Some (sn_engagement_version sn)} \<and> sn_scope_hash sn \<noteq> []"

definition in_window :: "ScopeSnapshot \<Rightarrow> datetime \<Rightarrow> bool" where
  "in_window sn now \<longleftrightarrow> (\<forall>s. sn_window_start sn = Some s \<longrightarrow> s \<le> now) \<and> (\<forall>e. sn_window_end sn = Some e \<longrightarrow> now \<le> e)"

definition switch_armed :: "('s, 'k, 'e) gate \<Rightarrow> authorize_args \<Rightarrow> bool" where
  "switch_armed g az \<longleftrightarrow> Kill_Switch.evaluate (gt_get_state g) (gt_to_uuid g) (az_tenant_id az) (az_engagement_id az)
     (Some (az_operation_id az)) = ARMED"

definition rate_evaluation :: "('s, 'k, 'e) gate \<Rightarrow> authorize_args \<Rightarrow> 's \<Rightarrow> (PyError, RateLimitDecision, 's) outcome" where
  "rate_evaluation g az = Rate_Limit.evaluate (gt_evaluate_and_consume g) (az_tenant_id az) (az_target_ref az) (az_technique_ref az)
     (az_rate_limit_policy az) (az_engagement_id az)"

text \<open>The five checks in their order, each with the reason it gives when it fails.\<close>

definition checks :: "('s, 'k, 'e) gate \<Rightarrow> authorize_args \<Rightarrow> ScopeSnapshot \<Rightarrow> RateLimitDecision \<Rightarrow> (bool \<times> AuthorizationFailureReason) list" where
  "checks g az sn decision =
     [(switch_armed g az, AuthorizationFailureReason.KILL_SWITCH_TRIGGERED),
      (in_scope sn az, SCOPE_VIOLATION),
      (decision = PERMITTED, if decision = THROTTLED then RATE_LIMIT_THROTTLED else RATE_LIMIT_FORBIDDEN),
      (in_window sn (az_now az), OUTSIDE_EXECUTION_WINDOW),
      (\<forall>w. az_worker az = Some w \<longrightarrow> verify w (az_technique_ref az),
       if \<exists>w. az_worker az = Some w \<and> \<not> is_available w then WORKER_UNAVAILABLE else WORKER_CAPABILITY_INSUFFICIENT)]"

definition first_failure :: "(bool \<times> AuthorizationFailureReason) list \<Rightarrow> AuthorizationFailureReason option" where
  "first_failure cs = map_option snd (find (\<lambda>(ok, _). \<not> ok) cs)"

definition gate_result :: "string \<Rightarrow> authorize_args \<Rightarrow> ScopeSnapshot \<Rightarrow> AuthorizationFailureReason option \<Rightarrow> AuthorizationResult" where
  "gate_result token_id az sn failure =
     (case failure of Some reason \<Rightarrow> denied reason
      | None \<Rightarrow> \<lparr>ar_token = Some (issue_token token_id az sn), ar_failure_reason = None\<rparr>)"

section \<open>Laws\<close>

definition scope_of :: "('s, 'k, 'e) gate \<Rightarrow> authorize_args \<Rightarrow> 'e + ScopeVerificationStatus \<times> ScopeSnapshot" where
  "scope_of g az = scope_verify (gt_get_scope_snapshot g) (az_tenant_id az) (az_engagement_id az) (az_target_ref az)
     (az_technique_ref az) (az_presented_scope_hash az) (az_presented_engagement_version az)"

lemma scope_of_eq:
  "gt_get_scope_snapshot g (az_engagement_id az) (az_tenant_id az) = Inr sn \<Longrightarrow>
   scope_of g az = Inr (if in_scope sn az then ScopeVerificationStatus.VERIFIED else ScopeVerificationStatus.FAILED, sn)"
  by (auto simp: scope_of_def scope_verify_def in_scope_def)

lemma scope_of_raise:
  "gt_get_scope_snapshot g (az_engagement_id az) (az_tenant_id az) = Inl e \<Longrightarrow> scope_of g az = Inl e"
  by (simp add: scope_of_def scope_verify_def)

text \<open>\<open>authorize\<close> over the names of the specification.\<close>

lemmas authorize_unfold = authorize_def [folded switch_armed_def scope_of_def, folded rate_evaluation_def]

lemma is_within_window_iff: "is_within_window now (sn_window_start sn) (sn_window_end sn) \<longleftrightarrow> in_window sn now"
  by (auto simp: is_within_window_def in_window_def split: option.splits)

text \<open>C3: the safety gate refines "the first check that fails decides": with the engagement's scope snapshot and the
  rate-limit decision at hand, authorize denies with the reason of the first of the five checks that fails (kill switch, scope, rate
  limit, window, worker), and otherwise issues a token with the requested subject. The rate limit is consumed exactly when the
  kill switch is armed and the target is in scope.\<close>

theorem authorize_refines_first_failure:
  assumes "gt_get_scope_snapshot g (az_engagement_id az) (az_tenant_id az) = Inr sn"
    and "rate_evaluation g az s = Return d s'"
  shows "authorize g i az s =
    Return (gate_result i az sn (first_failure (checks g az sn d)))
      (if switch_armed g az \<and> in_scope sn az then s' else s)"
proof (cases "switch_armed g az \<and> in_scope sn az")
  case False
  then show ?thesis
    by (auto simp: authorize_unfold scope_of_eq [OF assms(1)] checks_def first_failure_def gate_result_def)
next
  case True
  then show ?thesis
    by (cases d; cases "az_worker az")
      (simp_all add: authorize_unfold scope_of_eq [OF assms(1)] assms(2) is_within_window_iff checks_def first_failure_def
        gate_result_def)
qed

lemma authorize_token:
  assumes "authorize g i az s = Return r s'" and "ar_token r = Some tk"
  shows "\<exists>sn. gt_get_scope_snapshot g (az_engagement_id az) (az_tenant_id az) = Inr sn \<and> switch_armed g az \<and> in_scope sn az \<and>
    rate_evaluation g az s = Return PERMITTED s' \<and> in_window sn (az_now az) \<and>
    (\<forall>w. az_worker az = Some w \<longrightarrow> verify w (az_technique_ref az)) \<and> tk = issue_token i az sn"
proof -
  obtain sn where sn: "gt_get_scope_snapshot g (az_engagement_id az) (az_tenant_id az) = Inr sn"
    using assms by (cases "gt_get_scope_snapshot g (az_engagement_id az) (az_tenant_id az)")
      (auto simp: authorize_unfold scope_of_raise denied_def split: if_splits)
  then show ?thesis
    using assms
    by (auto simp: authorize_unfold scope_of_eq denied_def is_within_window_iff
      split: if_splits outcome.splits option.splits; metis RateLimitDecision.exhaust)
qed


section \<open>Destruct actions through the gate\<close>

text \<open>Calls of the gate over the in-memory rate-limit store: the clock of the store, the identifier of a token and the
  arguments.\<close>

definition memory_gate ::
  "(EntityId \<Rightarrow> KillSwitchScope \<Rightarrow> uuid \<Rightarrow> 'k + KillSwitchArmedState option) \<Rightarrow> (EntityId \<Rightarrow> uuid) \<Rightarrow> (uuid \<Rightarrow> EntityId \<Rightarrow> 'e + ScopeSnapshot)
     \<Rightarrow> datetime \<Rightarrow> (InMemoryRateLimitStore, 'k, 'e) gate" where
  "memory_gate get_state to_uuid get_scope_snapshot clock =
     \<lparr>gt_get_state = get_state, gt_to_uuid = to_uuid, gt_get_scope_snapshot = get_scope_snapshot,
      gt_evaluate_and_consume = evaluate_and_consume clock\<rparr>"

definition gate_call ::
  "(EntityId \<Rightarrow> KillSwitchScope \<Rightarrow> uuid \<Rightarrow> 'k + KillSwitchArmedState option) \<Rightarrow> (EntityId \<Rightarrow> uuid) \<Rightarrow> (uuid \<Rightarrow> EntityId \<Rightarrow> 'e + ScopeSnapshot)
     \<Rightarrow> datetime \<times> string \<times> authorize_args \<Rightarrow> InMemoryRateLimitStore \<Rightarrow> ('e + PyError, AuthorizationResult, InMemoryRateLimitStore) outcome" where
  "gate_call get_state to_uuid get_scope_snapshot = (\<lambda>(clock, token_id, az).
     authorize (memory_gate get_state to_uuid get_scope_snapshot clock) token_id az)"

abbreviation destruct_request :: "datetime \<times> string \<times> authorize_args \<Rightarrow> bool" where
  "destruct_request \<equiv> \<lambda>(clock, token_id, az). tq_impact_ceiling (az_technique_ref az) = DESTRUCT"

abbreviation request_slot :: "datetime \<times> string \<times> authorize_args \<Rightarrow> uuid \<times> uuid" where
  "request_slot \<equiv> \<lambda>(clock, token_id, az). (az_engagement_id az, az_target_ref az)"

text \<open>The rate-limit evaluation of the gate is a request of the previous theory.\<close>

definition request_of :: "datetime \<Rightarrow> authorize_args \<Rightarrow> request" where
  "request_of clock az = \<lparr>rq_now = clock, rq_tenant_id = az_tenant_id az, rq_target_id = az_target_ref az,
     rq_technique_ref = az_technique_ref az, rq_policy = az_rate_limit_policy az, rq_engagement_id = az_engagement_id az\<rparr>"

lemma rate_evaluation_memory: "rate_evaluation (memory_gate ks tu sc clock) az = ask (request_of clock az)"
  by (simp add: rate_evaluation_def memory_gate_def ask_def request_of_def fun_eq_iff)

lemma authorize_final:
  "final (authorize g i az s) = s \<or> final (authorize g i az s) = final (rate_evaluation g az s)"
  by (cases "gt_get_scope_snapshot g (az_engagement_id az) (az_tenant_id az)"; cases "rate_evaluation g az s")
    (auto simp: authorize_unfold scope_of_raise scope_of_eq split: option.splits)

interpretation gate: destruct_store "gate_call ks tu sc" permitted_result destruct_request request_slot destruct_taken
  for ks :: "EntityId \<Rightarrow> KillSwitchScope \<Rightarrow> uuid \<Rightarrow> 'k + KillSwitchArmedState option"
    and tu and sc :: "uuid \<Rightarrow> EntityId \<Rightarrow> 'e + ScopeSnapshot"
proof
  show "destruct_taken s \<subseteq> destruct_taken (final (gate_call ks tu sc q s))" for s q
  proof -
    obtain clock i az where q: "q = (clock, i, az)" by (cases q) auto
    have "destruct_taken s \<subseteq> destruct_taken (final (ask (request_of clock az) s))" by (rule memory.taken_grows)
    then show ?thesis
      using authorize_final [of "memory_gate ks tu sc clock" i az s]
      by (auto simp: gate_call_def q rate_evaluation_memory)
  qed
  show "gate_call ks tu sc q s = Return r s' \<Longrightarrow> permitted_result r \<Longrightarrow> destruct_request q \<Longrightarrow>
      request_slot q \<notin> destruct_taken s \<and> request_slot q \<in> destruct_taken s'" for q s r s'
  proof -
    obtain clock i az where q: "q = (clock, i, az)" by (cases q) auto
    assume "gate_call ks tu sc q s = Return r s'" "permitted_result r" "destruct_request q"
    moreover from this obtain tk where "ar_token r = Some tk" by (auto simp: permitted_result_def)
    ultimately show ?thesis
      using authorize_token [of "memory_gate ks tu sc clock" i az s r s' tk]
        memory.destruct_permitted [of "request_of clock az" s PERMITTED s']
      by (auto simp: gate_call_def q rate_evaluation_memory request_of_def)
  qed
qed


section \<open>Where the gate is weaker than its checks say\<close>

text \<open>A request denied because it is outside the execution window has consumed the rate limit all the same. For a
  Destruct technique that is final: no later request for the engagement and target gets a token.\<close>

theorem window_denial_burns_destruct_slot:
  assumes "switch_armed (memory_gate ks tu sc clock) az"
    and "sc (az_engagement_id az) (az_tenant_id az) = Inr sn" and "in_scope sn az"
    and "tq_impact_ceiling (az_technique_ref az) = DESTRUCT" and "strip (tq_technique_category (az_technique_ref az)) \<noteq> []"
    and "1 \<le> rp_window_duration_seconds (az_rate_limit_policy az)"
    and "(az_engagement_id az, az_target_ref az) \<notin> destruct_taken s" and "\<not> in_window sn (az_now az)"
  shows "\<exists>s'. gate_call ks tu sc (clock, i, az) s = Return (denied OUTSIDE_EXECUTION_WINDOW) s' \<and>
    (\<forall>q \<in> set (permitted (gate_call ks tu sc) permitted_result qs s').
       destruct_request q \<longrightarrow> request_slot q \<noteq> (az_engagement_id az, az_target_ref az))"
proof -
  let ?g = "memory_gate ks tu sc clock"
  obtain s' where s': "rate_evaluation ?g az s = Return PERMITTED s'"
      "(az_engagement_id az, az_target_ref az) \<in> destruct_taken s'"
    using assms(4-7) by (auto simp: rate_evaluation_memory ask_def request_of_def Rate_Limit.evaluate_def evaluate_and_consume_def
      make_RateLimitPolicy_def destruct_hard_limit_def destruct_taken_def Let_def)
  have "gt_get_scope_snapshot ?g (az_engagement_id az) (az_tenant_id az) = Inr sn"
    using assms(2) by (simp add: memory_gate_def)
  then have "gate_call ks tu sc (clock, i, az) s = Return (denied OUTSIDE_EXECUTION_WINDOW) s'"
    using assms(1,3,8) s'(1) by (simp add: gate_call_def authorize_unfold scope_of_eq is_within_window_iff)
  then show ?thesis using gate.taken_stays_forbidden [OF s'(2)] by blast
qed

text \<open>The worker check does not ask whether the worker is available: with the other checks passed, a worker whose last
  heartbeat reported it as unavailable gets a token for every technique it is capable of and trusted with, while the selection of a
  worker refuses it.\<close>

theorem unavailable_worker_authorized:
  assumes "gt_get_scope_snapshot g (az_engagement_id az) (az_tenant_id az) = Inr sn"
    and "switch_armed g az" and "in_scope sn az" and "in_window sn (az_now az)"
    and "rate_evaluation g az s = Return PERMITTED s'" and "az_worker az = Some w"
    and "wk_health_status w = WorkerHealthStatus.UNAVAILABLE" and "tq_technique_id (az_technique_ref az) \<in> wk_capabilities w"
    and "wk_trust_level w \<noteq> LOW_TRUST"
  shows "\<exists>r tk. authorize g i az s = Return r s' \<and> ar_token r = Some tk \<and> tk_worker_ref tk = Some (wk_worker_id w) \<and>
    (\<exists>e. select_worker find_workers (az_tenant_id az) (az_technique_ref az) zone (Some w) = Inl e)"
  using assms
  by (simp add: authorize_unfold scope_of_eq is_within_window_iff verify_iff issue_token_def select_worker_def is_available_def)

section \<open>Witnesses\<close>

definition sample_args :: "ImpactCeiling \<Rightarrow> datetime \<Rightarrow> authorize_args" where
  "sample_args ceiling now = \<lparr>az_tenant_id = EntityId ''t'', az_engagement_id = 5, az_operation_id = 6,
     az_step_ref = \<lparr>st_step_id = 7, st_operation_id = 6, st_engagement_id = 5\<rparr>, az_target_ref = 8,
     az_technique_ref = \<lparr>tq_technique_id = ''T1'', tq_technique_category = ''scan'', tq_impact_ceiling = ceiling\<rparr>,
     az_operator_ref = 9, az_rate_limit_policy = \<lparr>rp_max_executions = 1, rp_window_duration_seconds = 60, rp_technique_category = ''scan''\<rparr>,
     az_now = now, az_worker = None, az_worker_ref = None, az_presented_scope_hash = None, az_presented_engagement_version = None\<rparr>"

definition sample_scope :: ScopeSnapshot where
  "sample_scope = \<lparr>sn_engagement_id = 5, sn_tenant_id = EntityId ''t'', sn_authorized_target_ids = {8}, sn_scope_hash = ''h'',
     sn_engagement_version = 1, sn_state = ''Active'', sn_window_start = Some 100, sn_window_end = Some 200,
     sn_allowed_techniques = {}, sn_kill_switch_field_hint = None, sn_degraded = False\<rparr>"

definition no_switches :: "EntityId \<Rightarrow> KillSwitchScope \<Rightarrow> uuid \<Rightarrow> StoreError + KillSwitchArmedState option" where
  "no_switches t sc r = Inr None"

definition one_scope :: "uuid \<Rightarrow> EntityId \<Rightarrow> StoreError + ScopeSnapshot" where
  "one_scope e t = Inr sample_scope"

definition empty_store :: InMemoryRateLimitStore where
  "empty_store = \<lparr>rl_counts = [], rl_destruct_keys = {}\<rparr>"

abbreviation sample_gate :: "(InMemoryRateLimitStore, StoreError, StoreError) gate" where
  "sample_gate \<equiv> memory_gate no_switches (\<lambda>_. 1) one_scope 0"

lemmas sample_simps = sample_args_def sample_scope_def no_switches_def one_scope_def empty_store_def memory_gate_def

lemma strip_scan: "strip ''scan'' = ''scan''"
  by code_simp

lemma sample_armed: "switch_armed sample_gate (sample_args c now)"
  by (simp add: switch_armed_def Kill_Switch.evaluate_def safe_get_def sample_simps)

lemma sample_in_scope: "in_scope sample_scope (sample_args c now)"
  by (simp add: in_scope_def sample_simps)

lemma sample_rate: "\<exists>s'. rate_evaluation sample_gate (sample_args DESTRUCT now) empty_store = Return PERMITTED s'"
  by (simp add: rate_evaluation_def Rate_Limit.evaluate_def evaluate_and_consume_def make_RateLimitPolicy_def
    destruct_hard_limit_def strip_scan sample_simps)

lemma sample_snapshot: "gt_get_scope_snapshot sample_gate e t = Inr sample_scope"
  by (simp add: memory_gate_def one_scope_def)

theorem authorize_refines_first_failure_witness:
  "\<exists>s'. authorize sample_gate ''k'' (sample_args DESTRUCT 50) empty_store = Return (denied OUTSIDE_EXECUTION_WINDOW) s'"
proof -
  obtain s' where "rate_evaluation sample_gate (sample_args DESTRUCT 50) empty_store = Return PERMITTED s'"
    using sample_rate by blast
  from authorize_refines_first_failure [OF sample_snapshot this] show ?thesis
    by (simp add: checks_def first_failure_def gate_result_def sample_armed sample_in_scope)
      (simp add: in_window_def sample_scope_def sample_args_def)
qed


theorem window_denial_burns_destruct_slot_witness:
  "\<exists>s'. gate_call no_switches (\<lambda>_. 1) one_scope (0, ''k'', sample_args DESTRUCT 50) empty_store = Return (denied OUTSIDE_EXECUTION_WINDOW) s'"
  using window_denial_burns_destruct_slot [where ks = no_switches and tu = "\<lambda>_. 1" and sc = one_scope and clock = 0
      and az = "sample_args DESTRUCT 50" and sn = sample_scope and s = empty_store and i = "''k''" and qs = "[]"]
    sample_armed [of DESTRUCT 50] sample_in_scope [of DESTRUCT 50]
  by (simp add: one_scope_def strip_scan in_window_def destruct_taken_def empty_store_def)
    (simp add: sample_args_def sample_scope_def strip_scan)

definition lost_worker :: ExecutionWorker where
  "lost_worker = \<lparr>wk_worker_id = 3, wk_tenant_id = EntityId ''t'', wk_worker_type = CLOUD_AGENT, wk_capabilities = {''T1''},
     wk_trust_level = HIGH_TRUST, wk_health_status = WorkerHealthStatus.UNAVAILABLE, wk_network_zone = ''z'', wk_manifest_hash = [],
     wk_signer_operator_id = 1, wk_registered_at = 0, wk_created_at = 0, wk_updated_at = 0, wk_version = 0,
     wk_last_heartbeat_at = None, wk_decommissioned_at = None, wk_pending_events = []\<rparr>"

theorem unavailable_worker_authorized_witness:
  "\<exists>r s' tk. authorize sample_gate ''k'' ((sample_args DESTRUCT 150)\<lparr>az_worker := Some lost_worker\<rparr>) empty_store = Return r s' \<and>
     ar_token r = Some tk \<and> tk_worker_ref tk = Some 3"
proof -
  let ?az = "(sample_args DESTRUCT 150)\<lparr>az_worker := Some lost_worker\<rparr>"
  have same: "switch_armed g ?az = switch_armed g (sample_args DESTRUCT 150)"
    "in_scope sample_scope ?az = in_scope sample_scope (sample_args DESTRUCT 150)"
    "rate_evaluation g ?az = rate_evaluation g (sample_args DESTRUCT 150)"
    for g :: "(InMemoryRateLimitStore, StoreError, StoreError) gate"
    by (simp_all add: switch_armed_def in_scope_def rate_evaluation_def)
  obtain s' where rate: "rate_evaluation sample_gate (sample_args DESTRUCT 150) empty_store = Return PERMITTED s'"
    using sample_rate by blast
  have "\<exists>r tk. authorize sample_gate ''k'' ?az empty_store = Return r s' \<and> ar_token r = Some tk \<and>
      tk_worker_ref tk = Some (wk_worker_id lost_worker) \<and>
      (\<exists>e. select_worker (\<lambda>_ _ _. []) (az_tenant_id ?az) (az_technique_ref ?az) None (Some lost_worker) = Inl e)"
    by (rule unavailable_worker_authorized [where sn = sample_scope])
      (simp_all add: same sample_snapshot sample_armed sample_in_scope rate,
       simp_all add: in_window_def sample_scope_def sample_args_def lost_worker_def)
  then show ?thesis by (auto simp: lost_worker_def)
qed

end
