(* ===== verification/Journal.thy ===== *)
theory Journal
  imports Hash_Text
begin

text \<open>
  \<open>ExecutionJournal\<close> (\<open>execution/domain/aggregates/execution_journal.py\<close>) and its entries
  (\<open>execution/domain/entities/journal_entry.py\<close>): the hash-chained audit log of an engagement. Shown: every journal
  built by appends verifies, entries are never changed or removed by a call, the last hash of a verified chain determines
  everything the hashes cover, and what they do not cover.
\<close>

section \<open>Entries\<close>

record JournalEntry =
  je_entry_id :: uuid
  je_entry_type :: JournalEntryType
  je_sequence_number :: int
  je_entry_hash :: string
  je_previous_entry_hash :: string
  je_content :: string
  je_attribution :: "uuid option"
  je_system_attribution :: "string option"
  je_occurred_at :: datetime
  je_corrects_ref :: "uuid option"

definition compute_entry_hash :: "string \<Rightarrow> string \<Rightarrow> string" where
  "compute_entry_hash previous_entry_hash entry_content = sha256_hex (previous_entry_hash @ entry_content)"

definition attr_text :: "JournalEntry \<Rightarrow> string" where
  "attr_text e = (case je_attribution e of Some op \<Rightarrow> uuid_str op
     | None \<Rightarrow> (case je_system_attribution e of None \<Rightarrow> ''system'' | Some s \<Rightarrow> if s = [] then ''system'' else s))"

definition content_for_hash :: "JournalEntry \<Rightarrow> string" where
  "content_for_hash e = JournalEntryType_value (je_entry_type e) @ ''|'' @ str_int (je_sequence_number e) @ ''|'' @
     je_content e @ ''|'' @ attr_text e @ ''|'' @ isoformat (je_occurred_at e)"

section \<open>The journal\<close>

record ExecutionJournal =
  jn_journal_id :: uuid
  jn_tenant_id :: EntityId
  jn_engagement_id :: uuid
  jn_created_at :: datetime
  jn_updated_at :: datetime
  jn_version :: int
  jn_entries :: "JournalEntry list"
  jn_pending_events :: "SafetyEvent event list"

type_synonym journal_step = "(DomainException, ExecutionJournal) step"

definition GENESIS_HASH :: string where "GENESIS_HASH = replicate 64 (CHR ''0'')"

definition pop_events :: "ExecutionJournal \<Rightarrow> SafetyEvent event list \<times> ExecutionJournal" where
  "pop_events j = (jn_pending_events j, j\<lparr>jn_pending_events := []\<rparr>)"

definition emit :: "datetime \<Rightarrow> (ExecutionJournal \<Rightarrow> SafetyEvent) \<Rightarrow> journal_step" where
  "emit now payload = assign (\<lambda>j. j\<lparr>jn_pending_events := jn_pending_events j @
     [\<lparr>ev_occurred_at = now, ev_tenant_id = jn_tenant_id j, ev_aggregate_id = uuid_str (jn_journal_id j),
       ev_aggregate_type = ''ExecutionJournal'', ev_payload = payload j\<rparr>]\<rparr>)"

definition mutate :: "datetime \<Rightarrow> journal_step" where
  "mutate now = assign (\<lambda>j. j\<lparr>jn_updated_at := now, jn_version := jn_version j + 1\<rparr>)"

definition assert_tenant :: "EntityId \<Rightarrow> journal_step" where
  "assert_tenant tenant_id =
     raise_if (\<lambda>j. tenant_id \<noteq> jn_tenant_id j) (\<lambda>j. TenantMismatch (jn_tenant_id j) tenant_id)"

definition create :: "uuid \<Rightarrow> EntityId \<Rightarrow> uuid \<Rightarrow> datetime \<Rightarrow> ExecutionJournal" where
  "create journal_id tenant_id engagement_id now =
     final (emit now (\<lambda>_. JournalCreated (uuid_str engagement_id))
       \<lparr>jn_journal_id = journal_id, jn_tenant_id = tenant_id, jn_engagement_id = engagement_id, jn_created_at = now,
        jn_updated_at = now, jn_version = 0, jn_entries = [], jn_pending_events = []\<rparr>)"

definition head_hash :: "JournalEntry list \<Rightarrow> string" where
  "head_hash es = (if es = [] then GENESIS_HASH else je_entry_hash (last es))"

definition new_entry ::
  "uuid \<Rightarrow> JournalEntryType \<Rightarrow> string \<Rightarrow> datetime \<Rightarrow> uuid option \<Rightarrow> string option \<Rightarrow> uuid option \<Rightarrow> JournalEntry list \<Rightarrow> JournalEntry" where
  "new_entry entry_id entry_type content now attribution system_attribution corrects_ref es =
     (let previous_hash = head_hash es;
          provisional = \<lparr>je_entry_id = entry_id, je_entry_type = entry_type, je_sequence_number = int (length es) + 1,
            je_entry_hash = [], je_previous_entry_hash = previous_hash, je_content = content, je_attribution = attribution,
            je_system_attribution = system_attribution, je_occurred_at = now, je_corrects_ref = corrects_ref\<rparr>
      in provisional\<lparr>je_entry_hash := compute_entry_hash previous_hash (content_for_hash provisional)\<rparr>)"

definition append_entry ::
  "uuid \<Rightarrow> EntityId \<Rightarrow> JournalEntryType \<Rightarrow> string \<Rightarrow> datetime \<Rightarrow> uuid option \<Rightarrow> string option \<Rightarrow> uuid option
     \<Rightarrow> ExecutionJournal \<Rightarrow> (DomainException, JournalEntry, ExecutionJournal) outcome" where
  "append_entry entry_id tenant_id entry_type content now attribution system_attribution corrects_ref j =
     (let entry = new_entry entry_id entry_type content now attribution system_attribution corrects_ref (jn_entries j) in
      and_return (steps [
        assert_tenant tenant_id,
        assign (\<lambda>j. j\<lparr>jn_entries := jn_entries j @ [entry]\<rparr>),
        mutate now,
        emit now (\<lambda>j. JournalEntryAppended (uuid_str (jn_journal_id j)) (uuid_str entry_id) (JournalEntryType_value entry_type)
          (je_sequence_number entry) (je_entry_hash entry))]) entry j)"

fun index_of :: "'a \<Rightarrow> 'a list \<Rightarrow> int" where
  "index_of x [] = 0"
| "index_of x (y # ys) = (if x = y then 0 else 1 + index_of x ys)"

text \<open>The loop of \<open>verify_chain_integrity\<close>: \<open>None\<close> when it runs to the end, otherwise the sequence number and the text
  of the report it stops with. \<open>list.index\<close> compares the entries by all their fields.\<close>

fun broken_at :: "JournalEntry list \<Rightarrow> string \<Rightarrow> JournalEntry list \<Rightarrow> (int \<times> string) option" where
  "broken_at entries previous [] = None"
| "broken_at entries previous (entry # rest) =
     (if je_previous_entry_hash entry \<noteq> previous then
        Some (je_sequence_number entry, ''previous_entry_hash mismatch at sequence '' @ str_int (je_sequence_number entry))
      else if je_entry_hash entry \<noteq> compute_entry_hash (je_previous_entry_hash entry) (content_for_hash entry) then
        Some (je_sequence_number entry, ''entry_hash mismatch at sequence '' @ str_int (je_sequence_number entry))
      else if je_sequence_number entry \<noteq> index_of entry entries + 1 then
        Some (je_sequence_number entry, ''sequence gap/disorder at '' @ str_int (je_sequence_number entry))
      else broken_at entries (je_entry_hash entry) rest)"

definition emit_integrity_failed :: "ChainIntegrityReport \<Rightarrow> datetime \<Rightarrow> journal_step" where
  "emit_integrity_failed report now = emit now (\<lambda>j. JournalChainIntegrityFailed (uuid_str (jn_journal_id j))
     (uuid_str (jn_engagement_id j)) (cr_broken_at_sequence report) (cr_detail report))"

definition verify_chain_integrity ::
  "datetime \<Rightarrow> ExecutionJournal \<Rightarrow> (DomainException, ChainIntegrityReport, ExecutionJournal) outcome" where
  "verify_chain_integrity now j =
     (case broken_at (jn_entries j) GENESIS_HASH (jn_entries j) of
        Some (sequence, detail) \<Rightarrow>
          let report = \<lparr>cr_status = BROKEN, cr_journal_id = uuid_str (jn_journal_id j), cr_entry_count = int (length (jn_entries j)),
                cr_broken_at_sequence = Some sequence, cr_detail = detail\<rparr>
          in and_return (emit_integrity_failed report now) report j
      | None \<Rightarrow> Return \<lparr>cr_status = ChainIntegrityStatus.VERIFIED, cr_journal_id = uuid_str (jn_journal_id j),
          cr_entry_count = int (length (jn_entries j)), cr_broken_at_sequence = None, cr_detail = []\<rparr> j)"

datatype journal_call =
    Append_Entry uuid EntityId JournalEntryType string datetime "uuid option" "string option" "uuid option"
  | Verify_Chain datetime

primrec exec_journal :: "journal_call \<Rightarrow> journal_step" where
  "exec_journal (Append_Entry i t ty c now a s r) = ignore_result (append_entry i t ty c now a s r)"
| "exec_journal (Verify_Chain now) = ignore_result (verify_chain_integrity now)"

primrec journal_caller :: "journal_call \<Rightarrow> EntityId option" where
  "journal_caller (Append_Entry i t ty c now a s r) = Some t"
| "journal_caller (Verify_Chain now) = None"

section \<open>Laws\<close>

lemmas journal_eval = append_entry_def verify_chain_integrity_def emit_integrity_failed_def emit_def mutate_def
  assert_tenant_def and_return_def assign_def ignore_result_def Let_def step_simps

lemma journal_tenant: "jn_tenant_id (final (exec_journal c j)) = jn_tenant_id j"
  by (cases c) (simp_all add: journal_eval split: option.splits)

lemma journal_version: "jn_version j \<le> jn_version (final (exec_journal c j))"
  by (cases c) (simp_all add: journal_eval split: option.splits)

lemma journal_events: "\<exists>es. jn_pending_events (final (exec_journal c j)) = jn_pending_events j @ es"
  by (cases c) (simp_all add: journal_eval split: option.splits)

lemma journal_foreign: "journal_caller c = Some t \<Longrightarrow> t \<noteq> jn_tenant_id j \<Longrightarrow> \<exists>e. exec_journal c j = Raise e j"
  by (cases c) (simp_all add: journal_eval)

interpretation journal: aggregate_root exec_journal jn_tenant_id jn_version jn_pending_events
  by unfold_locales (fact journal_tenant journal_version journal_events)+

interpretation journal: tenant_guarded exec_journal jn_tenant_id jn_version jn_pending_events journal_caller
  by unfold_locales (fact journal_foreign)

lemma exec_journal_entries: "\<exists>es. jn_entries (final (exec_journal c j)) = jn_entries j @ es"
  by (cases c) (simp_all add: journal_eval split: option.splits)

subsection \<open>Chains\<close>

text \<open>\<open>chained prev n es\<close>: the entries are linked from the hash \<open>prev\<close> on, each with its own hash, and numbered from
  \<open>n\<close>.\<close>

fun chained :: "string \<Rightarrow> int \<Rightarrow> JournalEntry list \<Rightarrow> bool" where
  "chained prev n [] = True"
| "chained prev n (e # es) \<longleftrightarrow> je_previous_entry_hash e = prev \<and>
     compute_entry_hash prev (content_for_hash e) = je_entry_hash e \<and> je_sequence_number e = n \<and>
     chained (je_entry_hash e) (n + 1) es"

lemma chained_append:
  "chained prev n (es @ [e]) \<longleftrightarrow> chained prev n es \<and>
     (let p = if es = [] then prev else je_entry_hash (last es) in
      je_previous_entry_hash e = p \<and> je_entry_hash e = compute_entry_hash p (content_for_hash e) \<and>
      je_sequence_number e = n + int (length es))"
  by (induction es arbitrary: prev n) (auto simp: Let_def)

lemma chained_sequence: "chained prev n es \<Longrightarrow> map je_sequence_number es = map (\<lambda>i. n + int i) [0..<length es]"
proof (induction es arbitrary: prev n)
  case (Cons e es)
  have "map (\<lambda>i. n + int i) [0..<Suc (length es)] = n # map (\<lambda>i. n + 1 + int i) [0..<length es]"
    by (subst upt_conv_Cons) (simp_all add: map_Suc_upt [symmetric] comp_def del: upt_Suc)
  moreover have "je_sequence_number e = n" "chained (je_entry_hash e) (n + 1) es" using Cons.prems by simp_all
  ultimately show ?case using Cons.IH by (simp del: upt_Suc)
qed simp

lemma index_of_notin: "x \<notin> set ys \<Longrightarrow> index_of x (ys @ x # zs) = int (length ys)"
  by (induction ys) auto

lemma broken_at_chained:
  assumes "distinct (map je_sequence_number entries)" and "entries = pre @ es"
    and "chained prev (int (length pre) + 1) es"
  shows "broken_at entries prev es = None"
  using assms(2,3)
proof (induction es arbitrary: pre prev)
  case (Cons e es)
  have "e \<notin> set pre" using assms(1) Cons.prems(1) by auto
  then have "index_of e entries = int (length pre)" using Cons.prems(1) index_of_notin by simp
  moreover have "broken_at entries (je_entry_hash e) es = None"
    using Cons.prems by (intro Cons.IH [of "pre @ [e]"]) (simp_all add: add.commute)
  ultimately show ?case using Cons.prems by simp
qed simp

lemma chained_verified: "chained GENESIS_HASH 1 es \<Longrightarrow> broken_at es GENESIS_HASH es = None"
proof (rule broken_at_chained [where pre = "[]"])
  assume "chained GENESIS_HASH 1 es"
  then have "map je_sequence_number es = map (\<lambda>i. 1 + int i) [0..<length es]" by (rule chained_sequence)
  then show "distinct (map je_sequence_number es)" by (simp add: distinct_map inj_on_def)
qed simp_all

lemma new_entry_fields:
  "je_previous_entry_hash (new_entry i ty c now a s r es) = head_hash es"
  "je_sequence_number (new_entry i ty c now a s r es) = int (length es) + 1"
  "je_entry_hash (new_entry i ty c now a s r es) =
     compute_entry_hash (head_hash es) (content_for_hash (new_entry i ty c now a s r es))"
  by (simp_all add: new_entry_def Let_def content_for_hash_def attr_text_def split: option.splits)

lemma new_entry_chained: "chained GENESIS_HASH 1 es \<Longrightarrow> chained GENESIS_HASH 1 (es @ [new_entry i ty c now a s r es])"
  by (simp add: chained_append new_entry_fields head_hash_def Let_def)

lemma exec_journal_chained: "keeps (\<lambda>j. chained GENESIS_HASH 1 (jn_entries j)) (exec_journal c)"
  unfolding keeps_def by (cases c) (simp_all add: journal_eval new_entry_chained split: option.splits)

lemma history_chained: "chained GENESIS_HASH 1 (jn_entries (history exec_journal cs (create i t en now)))"
  by (rule history_keeps [OF exec_journal_chained]) (simp add: create_def emit_def assign_def)

text \<open>Every journal that was built by calls alone verifies, and verifying it changes nothing; no call changes or
  removes an entry, it can only append; and the entries are numbered from one on.\<close>

theorem journal_chain_verified:
  "let j = history exec_journal cs (create i t en now) in
     verify_chain_integrity later j =
       Return \<lparr>cr_status = ChainIntegrityStatus.VERIFIED, cr_journal_id = uuid_str (jn_journal_id j),
         cr_entry_count = int (length (jn_entries j)), cr_broken_at_sequence = None, cr_detail = []\<rparr> j \<and>
     (\<exists>es. jn_entries (history exec_journal ds j) = jn_entries j @ es) \<and>
     map je_sequence_number (jn_entries j) = map (\<lambda>k. 1 + int k) [0..<length (jn_entries j)]"
proof -
  define j where "j = history exec_journal cs (create i t en now)"
  have chain: "chained GENESIS_HASH 1 (jn_entries j)" unfolding j_def by (rule history_chained)
  have "\<exists>es. jn_entries (history exec_journal ds k) = jn_entries k @ es" for k
  proof (induction ds arbitrary: k)
    case (Cons c ds)
    from exec_journal_entries [of c k] Cons.IH [of "final (exec_journal c k)"] show ?case by auto
  qed simp
  then show ?thesis
    using chained_verified [OF chain] chained_sequence [OF chain]
    unfolding j_def [symmetric] by (simp add: verify_chain_integrity_def)
qed

subsection \<open>What the last hash determines\<close>

fun linked :: "string \<Rightarrow> JournalEntry list \<Rightarrow> bool" where
  "linked prev [] = True"
| "linked prev (e # es) \<longleftrightarrow> je_previous_entry_hash e = prev \<and>
     compute_entry_hash prev (content_for_hash e) = je_entry_hash e \<and> linked (je_entry_hash e) es"

lemma broken_at_linked: "broken_at entries prev es = None \<Longrightarrow> linked prev es"
  by (induction es arbitrary: prev) (auto split: if_splits)

lemma linked_append:
  "linked prev (es @ [e]) \<longleftrightarrow> linked prev es \<and>
     (let p = if es = [] then prev else je_entry_hash (last es) in
      je_previous_entry_hash e = p \<and> je_entry_hash e = compute_entry_hash p (content_for_hash e))"
  by (induction es arbitrary: prev) (auto simp: Let_def)

lemma linked_snoc:
  "linked GENESIS_HASH (es @ [e]) \<longleftrightarrow> linked GENESIS_HASH es \<and> je_previous_entry_hash e = head_hash es \<and>
     je_entry_hash e = compute_entry_hash (head_hash es) (content_for_hash e)"
  by (simp add: linked_append head_hash_def Let_def)

lemma linked_head_length: "linked GENESIS_HASH es \<Longrightarrow> length (head_hash es) = 64"
  by (cases es rule: rev_cases)
    (simp add: head_hash_def GENESIS_HASH_def, simp add: linked_snoc compute_entry_hash_def head_hash_def)

definition hashed_text :: "JournalEntry \<Rightarrow> string" where
  "hashed_text e = je_previous_entry_hash e @ content_for_hash e"

definition colliding :: "JournalEntry list \<Rightarrow> JournalEntry list \<Rightarrow> bool" where
  "colliding es fs \<longleftrightarrow>
     (\<exists>e \<in> set es. \<exists>f \<in> set fs. hashed_text e \<noteq> hashed_text f \<and> sha256_hex (hashed_text e) = sha256_hex (hashed_text f)) \<or>
     (\<exists>e \<in> set es \<union> set fs. sha256_hex (hashed_text e) = GENESIS_HASH)"

lemma head_hash_determines:
  "linked GENESIS_HASH es \<Longrightarrow> linked GENESIS_HASH fs \<Longrightarrow> head_hash es = head_hash fs \<Longrightarrow>
   map content_for_hash es = map content_for_hash fs \<or> colliding es fs"
proof (induction es arbitrary: fs rule: rev_induct)
  case Nil
  then show ?case
    by (cases fs rule: rev_cases)
      (auto simp: linked_snoc colliding_def hashed_text_def compute_entry_hash_def head_hash_def)
next
  case (snoc e es)
  show ?case
  proof (cases fs rule: rev_cases)
    case Nil
    with snoc.prems show ?thesis
      by (auto simp: linked_snoc colliding_def hashed_text_def compute_entry_hash_def head_hash_def)
  next
    case (snoc fs' f)
    have links: "linked GENESIS_HASH es" "je_previous_entry_hash e = head_hash es"
        "linked GENESIS_HASH fs'" "je_previous_entry_hash f = head_hash fs'"
      and same: "sha256_hex (hashed_text e) = sha256_hex (hashed_text f)"
      using snoc.prems snoc by (simp_all add: linked_snoc hashed_text_def compute_entry_hash_def head_hash_def [of "_ @ [_]"])
    show ?thesis
    proof (cases "hashed_text e = hashed_text f")
      case False
      with same snoc show ?thesis by (auto simp: colliding_def)
    next
      case True
      then have "head_hash es = head_hash fs'" "content_for_hash e = content_for_hash f"
        using links linked_head_length [OF links(1)] linked_head_length [OF links(3)]
        by (simp_all add: hashed_text_def append_eq_append_conv)
      with snoc.IH [OF links(1,3)] snoc show ?thesis by (auto simp: colliding_def)
    qed
  qed
qed

lemma str_int_inj: "str_int a = str_int b \<Longrightarrow> a = b"
proof -
  have nat_inj: "str_nat m = str_nat n \<Longrightarrow> m = n" for m n
    by (metis parse_nat_str_nat option.inject)
  have minus: "CHR ''-'' # s \<noteq> str_nat n" for s n
    using str_nat_digits [of n] digit_value_Some [of "CHR ''-''"] by (metis list.set_intros(1) option.exhaust)
  assume "str_int a = str_int b"
  then show "a = b"
    using nat_inj [of "nat a" "nat b"] nat_inj [of "nat (- a)" "nat (- b)"] minus [symmetric]
    by (simp add: str_int_def minus split: if_splits)
qed

lemma JournalEntryType_value_inj: "JournalEntryType_value a = JournalEntryType_value b \<longleftrightarrow> a = b"
  by (cases a; cases b) simp_all

lemma no_bar_entry_type: "CHR ''|'' \<notin> set (JournalEntryType_value ty)"
  by (cases ty) simp_all

text \<open>What can be read back from the hashed text of an entry.\<close>

definition hashed_fields :: "JournalEntry \<Rightarrow> JournalEntryType \<times> int \<times> string \<times> string" where
  "hashed_fields e = (je_entry_type e, je_sequence_number e, je_content e @ ''|'' @ attr_text e, isoformat (je_occurred_at e))"

lemma content_for_hash_fields: "content_for_hash e = content_for_hash f \<Longrightarrow> hashed_fields e = hashed_fields f"
proof -
  assume eq: "content_for_hash e = content_for_hash f"
  then have "JournalEntryType_value (je_entry_type e) @ CHR ''|'' # str_int (je_sequence_number e) @ CHR ''|'' #
      je_content e @ CHR ''|'' # attr_text e @ CHR ''|'' # isoformat (je_occurred_at e) =
    JournalEntryType_value (je_entry_type f) @ CHR ''|'' # str_int (je_sequence_number f) @ CHR ''|'' #
      je_content f @ CHR ''|'' # attr_text f @ CHR ''|'' # isoformat (je_occurred_at f)"
    by (simp add: content_for_hash_def)
  from first_field [OF this no_bar_entry_type no_bar_entry_type]
  have ty: "je_entry_type e = je_entry_type f" and
    r1: "str_int (je_sequence_number e) @ CHR ''|'' # je_content e @ CHR ''|'' # attr_text e @ CHR ''|'' # isoformat (je_occurred_at e) =
      str_int (je_sequence_number f) @ CHR ''|'' # je_content f @ CHR ''|'' # attr_text f @ CHR ''|'' # isoformat (je_occurred_at f)"
    by (simp_all add: JournalEntryType_value_inj)
  from first_field [OF r1 no_bar_str_int no_bar_str_int]
  have seq: "je_sequence_number e = je_sequence_number f" and
    "(je_content e @ ''|'' @ attr_text e) @ CHR ''|'' # isoformat (je_occurred_at e) =
     (je_content f @ ''|'' @ attr_text f) @ CHR ''|'' # isoformat (je_occurred_at f)"
    by (auto dest: str_int_inj)
  from last_field [OF this(2) no_bar_isoformat no_bar_isoformat] ty seq show ?thesis by (simp add: hashed_fields_def)
qed


subsection \<open>What the chain does not protect\<close>

lemma chained_map:
  "(\<And>e. content_for_hash (f e) = content_for_hash e \<and> je_previous_entry_hash (f e) = je_previous_entry_hash e \<and>
      je_entry_hash (f e) = je_entry_hash e \<and> je_sequence_number (f e) = je_sequence_number e) \<Longrightarrow>
   chained prev n es \<Longrightarrow> chained prev n (map f es)"
  by (induction es arbitrary: prev n) auto

lemma chained_take: "chained prev n es \<Longrightarrow> chained prev n (take m es)"
proof (induction es arbitrary: prev n m)
  case (Cons e es)
  then show ?case by (cases m) simp_all
qed simp

text \<open>The hashes cover neither the identifier of an entry nor the reference of a correction, and nothing anchors the
  end of the chain: a journal with these fields overwritten and any number of its latest entries cut off still verifies.\<close>

theorem journal_references_and_end_unprotected:
  "let j = history exec_journal cs (create i t en now);
       k = j\<lparr>jn_entries := take m (map (\<lambda>e. e\<lparr>je_entry_id := f e, je_corrects_ref := g e\<rparr>) (jn_entries j))\<rparr>
   in \<exists>r. verify_chain_integrity later k = Return r k \<and> cr_status r = ChainIntegrityStatus.VERIFIED"
proof -
  define j where "j = history exec_journal cs (create i t en now)"
  define es where "es = take m (map (\<lambda>e. e\<lparr>je_entry_id := f e, je_corrects_ref := g e\<rparr>) (jn_entries j))"
  have "chained GENESIS_HASH 1 es"
    unfolding es_def j_def
    by (intro chained_take chained_map history_chained) (simp add: content_for_hash_def attr_text_def split: option.splits)
  from chained_verified [OF this] show ?thesis
    unfolding Let_def j_def [symmetric] es_def [symmetric] by (simp add: verify_chain_integrity_def)
qed

text \<open>The separator may occur in a content and in a system attribution, so text can be moved from one to the other without
  a change of the hash.\<close>

theorem attribution_ambiguous:
  assumes "je_attribution e = None" and "je_system_attribution e = Some (x @ ''|'' @ y)" and "y \<noteq> []"
  shows "content_for_hash (e\<lparr>je_content := je_content e @ ''|'' @ x, je_system_attribution := Some y\<rparr>) = content_for_hash e"
  using assms by (simp add: content_for_hash_def attr_text_def)

section \<open>Witnesses\<close>

definition sample_journal :: ExecutionJournal where
  "sample_journal = history exec_journal [Append_Entry 9 (EntityId ''t'') ACTION_STARTED ''scan'' 1 None (Some ''sys'') None]
     (create 3 (EntityId ''t'') 5 0)"

lemma sample_verified: "verify_chain_integrity now (sample_journal\<lparr>jn_version := v\<rparr>) =
    Return \<lparr>cr_status = ChainIntegrityStatus.VERIFIED, cr_journal_id = uuid_str (jn_journal_id sample_journal),
      cr_entry_count = int (length (jn_entries sample_journal)), cr_broken_at_sequence = None, cr_detail = []\<rparr>
      (sample_journal\<lparr>jn_version := v\<rparr>)"
proof -
  have "broken_at (jn_entries sample_journal) GENESIS_HASH (jn_entries sample_journal) = None"
    unfolding sample_journal_def by (rule chained_verified [OF history_chained])
  then show ?thesis by (simp add: verify_chain_integrity_def)
qed


end
