(* ===== verification/Service_Base.thy ===== *)
theory Service_Base
  imports Authorization Journal Use_Case
begin

text \<open>
  What the use cases of \<open>execution/application\<close> share: the application exceptions (\<open>application/exceptions.py\<close>), the
  validators (\<open>application/_validation.py\<close>), the unit of work and its repositories
  (\<open>application/ports/i_unit_of_work.py\<close>, \<open>domain/repositories/i_repositories.py\<close>), the payload port's answer and the world a use
  case works on.

  A use case is a function from the world to an outcome: it returns or raises, in both cases with the world it leaves.
  \<open>wd_db\<close> is the committed database, \<open>wd_session\<close> what the open unit of work sees, and leaving the unit of work drops what
  was not committed. The kill-switch store, the rate-limit store and the ports are not part of the transaction.
  \<open>wd_calls\<close> lists the calls of the technique port and \<open>wd_published\<close> the batches handed to the event publisher, whose
  failures \<open>_publish\<close> swallows. Clocks and generated identifiers are the argument \<open>fresh\<close>.
\<close>

section \<open>Exceptions\<close>

text \<open>What can leave a use case: an application exception, or a failure it passes on: an exception of the domain, a Python
  error, or an error of a collaborator outside the context (database, ports), of type \<open>'x\<close>.\<close>

datatype 'x failure = DomainError DomainException | PythonError PyError | ExternalError 'x

datatype 'x service_error = Application ApplicationException | Failure "'x failure"

abbreviation Domain :: "DomainException \<Rightarrow> 'x service_error" where
  "Domain \<equiv> \<lambda>e. Failure (DomainError e)"

abbreviation Python :: "PyError \<Rightarrow> 'x service_error" where
  "Python \<equiv> \<lambda>e. Failure (PythonError e)"

abbreviation External :: "'x \<Rightarrow> 'x service_error" where
  "External \<equiv> \<lambda>e. Failure (ExternalError e)"

section \<open>Enumerations\<close>

definition KillSwitchScope_of :: "string \<Rightarrow> PyError + KillSwitchScope" where
  "KillSwitchScope_of = enum_of ''KillSwitchScope'' KillSwitchScope_value [ENGAGEMENT, OPERATION, PLATFORM_WIDE]"

definition ImpactCeiling_of :: "string \<Rightarrow> PyError + ImpactCeiling" where
  "ImpactCeiling_of = enum_of ''ImpactCeiling'' ImpactCeiling_value [OBSERVE, PROBE, EXPLOIT, DESTRUCT]"

definition JournalEntryType_of :: "string \<Rightarrow> PyError + JournalEntryType" where
  "JournalEntryType_of = enum_of ''JournalEntryType'' JournalEntryType_value
     [ACTION_STARTED, ACTION_COMPLETED, ACTION_FAILED, ACTION_ABORTED, JournalEntryType.KILL_SWITCH_TRIGGERED,
      SAFETY_CHECK_FAILED, SCOPE_VIOLATION_ATTEMPTED, HUMAN_APPROVAL_REQUIRED, APPROVAL_GRANTED, APPROVAL_DENIED,
      ROLLBACK_INITIATED, ROLLBACK_COMPLETED, CORRECTION_ENTRY]"

definition WorkerType_of :: "string \<Rightarrow> PyError + WorkerType" where
  "WorkerType_of = enum_of ''WorkerType'' WorkerType_value
     [CLOUD_AGENT, EDGE_AGENT, CONTAINER_AGENT, LOCAL_OPERATOR_AGENT, SCHEDULED_AGENT]"

definition WorkerTrustLevel_of :: "string \<Rightarrow> PyError + WorkerTrustLevel" where
  "WorkerTrustLevel_of = enum_of ''WorkerTrustLevel'' WorkerTrustLevel_value [HIGH_TRUST, STANDARD_TRUST, LOW_TRUST]"

primrec WorkerHealthStatus_value :: "WorkerHealthStatus \<Rightarrow> string" where
  "WorkerHealthStatus_value HEALTHY = ''Healthy''"
| "WorkerHealthStatus_value DEGRADED = ''Degraded''"
| "WorkerHealthStatus_value WorkerHealthStatus.UNAVAILABLE = ''Unavailable''"
| "WorkerHealthStatus_value DECOMMISSIONED = ''Decommissioned''"

definition WorkerHealthStatus_of :: "string \<Rightarrow> PyError + WorkerHealthStatus" where
  "WorkerHealthStatus_of = enum_of ''WorkerHealthStatus'' WorkerHealthStatus_value
     [HEALTHY, DEGRADED, WorkerHealthStatus.UNAVAILABLE, DECOMMISSIONED]"

section \<open>Validators\<close>

definition validate_uuid :: "EntityId + uuid \<Rightarrow> string \<Rightarrow> ApplicationException + unit" where
  "validate_uuid value field =
     (case value of
        Inl _ \<Rightarrow> Inr ()
      | Inr u \<Rightarrow> if uint u = 0 then Inl (ApplicationValidationError field ''must be a valid non-nil UUID'') else Inr ())"

definition validate_str :: "string \<Rightarrow> string \<Rightarrow> nat \<Rightarrow> ApplicationException + unit" where
  "validate_str value field max_len =
     (if length value = 0 then Inl (ApplicationValidationError field ''must not be empty'')
      else if length value > max_len then
        Inl (ApplicationValidationError field (''must be at most '' @ str_nat max_len @ '' characters''))
      else Inr ())"

definition validate_limit :: "int \<Rightarrow> ApplicationException + int" where
  "validate_limit value =
     (if value < 1 then Inl (ApplicationValidationError ''limit'' ''must be 1-1000'') else Inr (max 1 (min value 1000)))"

definition validate_offset :: "int \<Rightarrow> ApplicationException + int" where
  "validate_offset value =
     (if value < 0 then Inl (ApplicationValidationError ''offset'' ''must be >= 0'') else Inr value)"

section \<open>Repositories and ports\<close>

text \<open>A save answers with the version it has given the aggregate.\<close>

record ('d, 'x) repositories =
  rp_find_switch_by_scope :: "EntityId \<Rightarrow> KillSwitchScope \<Rightarrow> uuid \<Rightarrow> 'd \<Rightarrow> 'x failure + KillSwitchState option"
  rp_save_switch :: "KillSwitchState \<Rightarrow> 'd \<Rightarrow> ('x failure, int, 'd) outcome"
  rp_find_journal_by_engagement :: "uuid \<Rightarrow> EntityId \<Rightarrow> 'd \<Rightarrow> 'x failure + ExecutionJournal option"
  rp_save_journal :: "ExecutionJournal \<Rightarrow> 'd \<Rightarrow> ('x failure, int, 'd) outcome"
  rp_find_action_by_id :: "uuid \<Rightarrow> EntityId \<Rightarrow> 'd \<Rightarrow> 'x failure + AttackAction option"
  rp_find_non_terminal_by_step :: "uuid \<Rightarrow> EntityId \<Rightarrow> 'd \<Rightarrow> 'x failure + AttackAction option"
  rp_find_actions_by_operation :: "uuid \<Rightarrow> EntityId \<Rightarrow> int \<Rightarrow> int \<Rightarrow> 'd \<Rightarrow> 'x failure + AttackAction list"
  rp_save_action :: "AttackAction \<Rightarrow> 'd \<Rightarrow> ('x failure, int, 'd) outcome"
  rp_find_worker_by_id :: "uuid \<Rightarrow> EntityId \<Rightarrow> 'd \<Rightarrow> 'x failure + ExecutionWorker option"
  rp_list_available_workers :: "EntityId \<Rightarrow> int \<Rightarrow> int \<Rightarrow> 'd \<Rightarrow> 'x failure + ExecutionWorker list"
  rp_save_worker :: "ExecutionWorker \<Rightarrow> 'd \<Rightarrow> ('x failure, int, 'd) outcome"
  rp_commit :: "'d \<Rightarrow> 'x failure + 'd"

record PayloadDispatchCheck =
  pd_approved :: bool
  pd_hash_ok :: bool
  pd_failure_reason :: "string option"

datatype port_call =
    Dispatch uuid WorkerRef ActionInput "uuid option" "string option"
  | Signal_Abort uuid string

datatype ExecutionEvent = Safety "SafetyEvent event" | Pipeline "PipelineEvent event"

text \<open>The collaborators of the constructor: \<open>sv_gate\<close> is the authorization service over the present content of the
  kill-switch store, with the reading of the rate-limit store's clock.\<close>

record ('d, 'k, 'r, 'p, 'q, 'x) service =
  sv_repositories :: "('d, 'x) repositories"
  sv_gate :: "'k \<Rightarrow> datetime \<Rightarrow> ('r, 'q, 'x) gate"
  sv_kill_switch_store_sync :: "(KillSwitchState \<Rightarrow> ('x, 'k) step) option"
  sv_payload_query :: "(EntityId \<Rightarrow> uuid \<Rightarrow> string option \<Rightarrow> 'p \<Rightarrow> ('x, PayloadDispatchCheck, 'p) outcome) option"
  sv_dispatch :: "uuid \<Rightarrow> WorkerRef \<Rightarrow> ActionInput \<Rightarrow> uuid option \<Rightarrow> string option \<Rightarrow> ('x, 'p) step"
  sv_signal_abort :: "uuid \<Rightarrow> string \<Rightarrow> ('x, 'p) step"

record ('d, 'k, 'r, 'p) world =
  wd_db :: 'd
  wd_session :: 'd
  wd_switch_store :: 'k
  wd_rate_store :: 'r
  wd_ports :: 'p
  wd_calls :: "port_call list"
  wd_published :: "ExecutionEvent list list"

record fresh =
  fr_now :: datetime
  fr_clock :: datetime
  fr_kill_switch_id :: uuid
  fr_journal_id :: uuid
  fr_entry_id :: uuid
  fr_action_id :: uuid
  fr_worker_id :: uuid
  fr_token_id :: string

type_synonym ('d, 'k, 'r, 'p, 'x, 'a) use_case =
  "('d, 'k, 'r, 'p) world \<Rightarrow> ('x service_error, 'a, ('d, 'k, 'r, 'p) world) outcome"

section \<open>The unit of work\<close>

definition in_uow :: "('d, 'k, 'r, 'p, 'x, 'a) use_case \<Rightarrow> ('d, 'k, 'r, 'p, 'x, 'a) use_case" where
  "in_uow body w =
     (case body (w\<lparr>wd_session := wd_db w\<rparr>) of
        Raise e w' \<Rightarrow> Raise e (w'\<lparr>wd_session := wd_db w'\<rparr>)
      | Return a w' \<Rightarrow> Return a (w'\<lparr>wd_session := wd_db w'\<rparr>))"

definition load :: "('d \<Rightarrow> 'x failure + 'a) \<Rightarrow> ('d, 'k, 'r, 'p, 'x, 'a) use_case" where
  "load query w = attempt Failure (query (wd_session w)) w"

definition save :: "('d \<Rightarrow> ('x failure, 'a, 'd) outcome) \<Rightarrow> ('d, 'k, 'r, 'p, 'x, 'a) use_case" where
  "save write = on_part wd_session (\<lambda>d w. w\<lparr>wd_session := d\<rparr>) Failure write"

definition save_switch ::
  "('d, 'k, 'r, 'p, 'q, 'x) service \<Rightarrow> KillSwitchState \<Rightarrow> ('d, 'k, 'r, 'p, 'x, KillSwitchState) use_case" where
  "save_switch sv k = and_then (save (rp_save_switch (sv_repositories sv) k)) (\<lambda>version. give (k\<lparr>ks_version := version\<rparr>))"

definition save_journal ::
  "('d, 'k, 'r, 'p, 'q, 'x) service \<Rightarrow> ExecutionJournal \<Rightarrow> ('d, 'k, 'r, 'p, 'x, ExecutionJournal) use_case" where
  "save_journal sv j = and_then (save (rp_save_journal (sv_repositories sv) j)) (\<lambda>version. give (j\<lparr>jn_version := version\<rparr>))"

definition save_action ::
  "('d, 'k, 'r, 'p, 'q, 'x) service \<Rightarrow> AttackAction \<Rightarrow> ('d, 'k, 'r, 'p, 'x, AttackAction) use_case" where
  "save_action sv a = and_then (save (rp_save_action (sv_repositories sv) a)) (\<lambda>version. give (a\<lparr>aa_version := version\<rparr>))"

definition save_worker ::
  "('d, 'k, 'r, 'p, 'q, 'x) service \<Rightarrow> ExecutionWorker \<Rightarrow> ('d, 'k, 'r, 'p, 'x, ExecutionWorker) use_case" where
  "save_worker sv v = and_then (save (rp_save_worker (sv_repositories sv) v)) (\<lambda>version. give (v\<lparr>wk_version := version\<rparr>))"

definition commit :: "('d, 'k, 'r, 'p, 'q, 'x) service \<Rightarrow> ('d, 'k, 'r, 'p, 'x, unit) use_case" where
  "commit sv w =
     (case rp_commit (sv_repositories sv) (wd_session w) of
        Inl e \<Rightarrow> Raise (Failure e) w
      | Inr d \<Rightarrow> Return () (w\<lparr>wd_db := d, wd_session := d\<rparr>))"

text \<open>\<open>_publish\<close> hands over the events of the aggregates in their order.\<close>

definition publish :: "ExecutionEvent list \<Rightarrow> ('d, 'k, 'r, 'p, 'x, unit) use_case" where
  "publish events w = Return () (w\<lparr>wd_published := wd_published w @ [events]\<rparr>)"

definition switch_events :: "KillSwitchState \<Rightarrow> ExecutionEvent list" where
  "switch_events k = map Safety (fst (Kill_Switch.pop_events k))"

definition journal_events_of :: "ExecutionJournal \<Rightarrow> ExecutionEvent list" where
  "journal_events_of j = map Safety (fst (Journal.pop_events j))"

definition action_events_of :: "AttackAction \<Rightarrow> ExecutionEvent list" where
  "action_events_of a = map Pipeline (fst (Attack_Action.pop_events a))"

definition worker_events_of :: "ExecutionWorker \<Rightarrow> ExecutionEvent list" where
  "worker_events_of v = map Pipeline (fst (Worker.pop_events v))"

section \<open>Triples\<close>

lemma triple_load:
  "(\<And>a w. query (wd_session w) = Inr a \<Longrightarrow> P w \<Longrightarrow> Q a w) \<Longrightarrow> (\<And>e w. query (wd_session w) = Inl e \<Longrightarrow> P w \<Longrightarrow> R (Failure e) w) \<Longrightarrow>
   triple P (load query) Q R"
  by (simp add: triple_def load_def attempt_def split: sum.splits)

lemma triple_save:
  "(\<And>a d w. write (wd_session w) = Return a d \<Longrightarrow> P w \<Longrightarrow> Q a (w\<lparr>wd_session := d\<rparr>)) \<Longrightarrow>
   (\<And>e d w. write (wd_session w) = Raise e d \<Longrightarrow> P w \<Longrightarrow> R (Failure e) (w\<lparr>wd_session := d\<rparr>)) \<Longrightarrow> triple P (save write) Q R"
  unfolding save_def by (rule triple_on_part) simp_all

lemma triple_commit:
  "(\<And>d w. rp_commit (sv_repositories sv) (wd_session w) = Inr d \<Longrightarrow> P w \<Longrightarrow> Q () (w\<lparr>wd_db := d, wd_session := d\<rparr>)) \<Longrightarrow>
   (\<And>e w. rp_commit (sv_repositories sv) (wd_session w) = Inl e \<Longrightarrow> P w \<Longrightarrow> R (Failure e) w) \<Longrightarrow> triple P (commit sv) Q R"
  by (simp add: triple_def commit_def split: sum.splits)

lemma triple_publish: "(\<And>w. P w \<Longrightarrow> Q () (w\<lparr>wd_published := wd_published w @ [es]\<rparr>)) \<Longrightarrow> triple P (publish es) Q R"
  by (simp add: triple_def publish_def)

lemma triple_in_uow:
  "triple (\<lambda>w. \<exists>v. P v \<and> w = v\<lparr>wd_session := wd_db v\<rparr>) m (\<lambda>a w. Q a (w\<lparr>wd_session := wd_db w\<rparr>)) (\<lambda>e w. R e (w\<lparr>wd_session := wd_db w\<rparr>)) \<Longrightarrow>
   triple P (in_uow m) Q R"
  by (fastforce simp: triple_def in_uow_def split: outcome.splits)


end
