(* ===== verification/Execution_Service.thy ===== *)
theory Execution_Service
  imports Service_Base
begin

text \<open>
  \<open>ExecutionApplicationService\<close> (\<open>execution/application/services/execution_application_service.py\<close>): every use case with its
  commands, queries (\<open>application/commands\<close>, \<open>application/queries\<close>) and answers (\<open>application/dtos\<close>). The definitions follow
  the order of the code: validators, unit of work, loads, calls on aggregates, saves, port calls, commit, publication.
\<close>

section \<open>Commands\<close>

record TriggerKillSwitch =
  tr_tenant_id :: EntityId
  tr_scope :: string
  tr_scope_ref :: uuid
  tr_authority_operator_id :: uuid
  tr_authority_role :: string
  tr_reason :: string

record ReleaseKillSwitch =
  rl_tenant_id :: EntityId
  rl_scope :: string
  rl_scope_ref :: uuid
  rl_releasing_operator_id :: uuid
  rl_releasing_role :: string
  rl_countersigning_operator_id :: "uuid option"
  rl_countersigning_role :: "string option"

record ReArmKillSwitch =
  ra_tenant_id :: EntityId
  ra_scope :: string
  ra_scope_ref :: uuid
  ra_authority_operator_id :: uuid
  ra_authority_role :: string

record AppendJournalEntry =
  ap_tenant_id :: EntityId
  ap_engagement_id :: uuid
  ap_entry_type :: string
  ap_content :: string
  ap_attribution_operator_id :: "uuid option"
  ap_system_attribution :: "string option"

record AuthorizeAndStartAttackAction =
  as_tenant_id :: EntityId
  as_engagement_id :: uuid
  as_operation_id :: uuid
  as_step_id :: uuid
  as_target_id :: uuid
  as_technique_id :: string
  as_technique_category :: string
  as_impact_ceiling :: string
  as_operator_id :: uuid
  as_worker_id :: "uuid option"
  as_action_parameters :: ActionInput
  as_rate_limit_max :: int
  as_rate_limit_window_seconds :: int
  as_presented_scope_hash :: "string option"
  as_presented_engagement_version :: "int option"
  as_network_zone :: "string option"
  as_payload_id :: "uuid option"
  as_expected_payload_hash :: "string option"

record RegisterExecutionWorker =
  rw_tenant_id :: EntityId
  rw_worker_type :: string
  rw_network_zone :: string
  rw_techniques :: "string list"
  rw_trust_level :: string
  rw_signer_operator_id :: uuid
  rw_signature :: string

text \<open>The remaining commands and queries have two to four fields and are passed as arguments.\<close>

section \<open>Answers\<close>

record KillSwitchDTO =
  kd_kill_switch_id :: string
  kd_tenant_id :: string
  kd_scope :: string
  kd_scope_ref :: string
  kd_armed_state :: string
  kd_trigger_authority :: "string option"
  kd_trigger_reason :: "string option"
  kd_trigger_hash :: "string option"
  kd_release_authority :: "string option"
  kd_version :: int
  kd_created_at :: string
  kd_updated_at :: string

record JournalEntryDTO =
  ed_entry_id :: string
  ed_entry_type :: string
  ed_sequence_number :: int
  ed_entry_hash :: string
  ed_previous_entry_hash :: string
  ed_content :: string
  ed_occurred_at :: string

record JournalDTO =
  jd_journal_id :: string
  jd_tenant_id :: string
  jd_engagement_id :: string
  jd_entry_count :: int
  jd_entries :: "JournalEntryDTO list"
  jd_version :: int
  jd_created_at :: string
  jd_updated_at :: string

record ChainIntegrityReportDTO =
  cd_status :: string
  cd_journal_id :: string
  cd_entry_count :: int
  cd_broken_at_sequence :: "int option"
  cd_detail :: string

record AttackActionDTO =
  ad_action_id :: string
  ad_tenant_id :: string
  ad_engagement_id :: string
  ad_operation_id :: string
  ad_step_id :: string
  ad_target_id :: string
  ad_technique_id :: string
  ad_impact_ceiling :: string
  ad_state :: string
  ad_action_hash :: string
  ad_worker_id :: "string option"
  ad_operator_id :: string
  ad_execution_timestamp :: string
  ad_completion_timestamp :: "string option"
  ad_output_hash :: "string option"
  ad_version :: int

record ExecutionWorkerDTO =
  xd_worker_id :: string
  xd_tenant_id :: string
  xd_worker_type :: string
  xd_trust_level :: string
  xd_health_status :: string
  xd_network_zone :: string
  xd_capabilities :: "string list"
  xd_manifest_hash :: string
  xd_last_heartbeat_at :: "string option"
  xd_version :: int

definition kill_switch_dto :: "KillSwitchState \<Rightarrow> KillSwitchDTO" where
  "kill_switch_dto k =
     \<lparr>kd_kill_switch_id = uuid_str (ks_kill_switch_id k), kd_tenant_id = entity_str (ks_tenant_id k),
      kd_scope = KillSwitchScope_value (ks_scope k), kd_scope_ref = uuid_str (ks_scope_ref k),
      kd_armed_state = KillSwitchArmedState_value (ks_armed_state k),
      kd_trigger_authority = map_option (\<lambda>a. uuid_str (au_operator_id a)) (ks_trigger_authority k),
      kd_trigger_reason = ks_trigger_reason k, kd_trigger_hash = ks_trigger_hash k,
      kd_release_authority = map_option (\<lambda>a. uuid_str (au_operator_id a)) (ks_release_authority k),
      kd_version = ks_version k, kd_created_at = isoformat (ks_created_at k), kd_updated_at = isoformat (ks_updated_at k)\<rparr>"

definition journal_entry_dto :: "JournalEntry \<Rightarrow> JournalEntryDTO" where
  "journal_entry_dto e =
     \<lparr>ed_entry_id = uuid_str (je_entry_id e), ed_entry_type = JournalEntryType_value (je_entry_type e),
      ed_sequence_number = je_sequence_number e, ed_entry_hash = je_entry_hash e,
      ed_previous_entry_hash = je_previous_entry_hash e, ed_content = je_content e,
      ed_occurred_at = isoformat (je_occurred_at e)\<rparr>"

definition journal_dto :: "ExecutionJournal \<Rightarrow> JournalDTO" where
  "journal_dto j =
     \<lparr>jd_journal_id = uuid_str (jn_journal_id j), jd_tenant_id = entity_str (jn_tenant_id j),
      jd_engagement_id = uuid_str (jn_engagement_id j), jd_entry_count = int (length (jn_entries j)),
      jd_entries = map journal_entry_dto (jn_entries j), jd_version = jn_version j,
      jd_created_at = isoformat (jn_created_at j), jd_updated_at = isoformat (jn_updated_at j)\<rparr>"

definition attack_action_dto :: "AttackAction \<Rightarrow> AttackActionDTO" where
  "attack_action_dto a =
     \<lparr>ad_action_id = uuid_str (aa_action_id a), ad_tenant_id = entity_str (aa_tenant_id a),
      ad_engagement_id = uuid_str (aa_engagement_id a), ad_operation_id = uuid_str (aa_operation_id a),
      ad_step_id = uuid_str (st_step_id (aa_step_ref a)), ad_target_id = uuid_str (aa_target_ref a),
      ad_technique_id = tq_technique_id (aa_technique_ref a),
      ad_impact_ceiling = ImpactCeiling_value (tq_impact_ceiling (aa_technique_ref a)),
      ad_state = AttackActionState_value (aa_state a), ad_action_hash = aa_action_hash a,
      ad_worker_id = map_option uuid_str (aa_worker_ref a), ad_operator_id = uuid_str (aa_operator_ref a),
      ad_execution_timestamp = isoformat (aa_execution_timestamp a),
      ad_completion_timestamp = map_option isoformat (aa_completion_timestamp a),
      ad_output_hash = map_option ao_output_hash (aa_output_ref a), ad_version = aa_version a\<rparr>"

definition worker_dto :: "ExecutionWorker \<Rightarrow> ExecutionWorkerDTO" where
  "worker_dto v =
     \<lparr>xd_worker_id = uuid_str (wk_worker_id v), xd_tenant_id = entity_str (wk_tenant_id v),
      xd_worker_type = WorkerType_value (wk_worker_type v), xd_trust_level = WorkerTrustLevel_value (wk_trust_level v),
      xd_health_status = WorkerHealthStatus_value (wk_health_status v), xd_network_zone = wk_network_zone v,
      xd_capabilities = sorted_list_of_set (wk_capabilities v), xd_manifest_hash = wk_manifest_hash v,
      xd_last_heartbeat_at = map_option isoformat (wk_last_heartbeat_at v), xd_version = wk_version v\<rparr>"

section \<open>Helpers\<close>

definition parse_scope :: "string \<Rightarrow> ApplicationException + KillSwitchScope" where
  "parse_scope scope =
     (case KillSwitchScope_of scope of
        Inr s \<Rightarrow> Inr s
      | Inl _ \<Rightarrow> Inl (ApplicationValidationError ''scope'' (''invalid scope: '' @ scope)))"

definition payload_failure_reason :: "PayloadDispatchCheck \<Rightarrow> AuthorizationFailureReason option" where
  "payload_failure_reason check =
     (if pd_approved check \<and> pd_hash_ok check then None
      else if pd_failure_reason check = Some (AuthorizationFailureReason_value PAYLOAD_REVOKED) then Some PAYLOAD_REVOKED
      else if pd_failure_reason check = Some (AuthorizationFailureReason_value PAYLOAD_HASH_MISMATCH)
        then Some PAYLOAD_HASH_MISMATCH
      else if \<not> pd_hash_ok check then Some PAYLOAD_HASH_MISMATCH
      else Some PAYLOAD_NOT_APPROVED)"

definition sync_kill_switch_store ::
  "('d, 'k, 'r, 'p, 'q, 'x) service \<Rightarrow> KillSwitchState \<Rightarrow> ('d, 'k, 'r, 'p, 'x, unit) use_case" where
  "sync_kill_switch_store sv k =
     (case sv_kill_switch_store_sync sv of
        None \<Rightarrow> give ()
      | Some sync \<Rightarrow> on_part wd_switch_store (\<lambda>s w. w\<lparr>wd_switch_store := s\<rparr>) External (sync k))"

text \<open>Load the journal of an engagement or create it, append one entry, save it.\<close>

definition journal_append ::
  "('d, 'k, 'r, 'p, 'q, 'x) service \<Rightarrow> fresh \<Rightarrow> EntityId \<Rightarrow> uuid \<Rightarrow> JournalEntryType \<Rightarrow> string \<Rightarrow> uuid option \<Rightarrow> string option
     \<Rightarrow> ('d, 'k, 'r, 'p, 'x, ExecutionJournal) use_case" where
  "journal_append sv fr tenant engagement entry_type content attribution system_attribution =
     and_then (load (rp_find_journal_by_engagement (sv_repositories sv) engagement tenant)) (\<lambda>found.
     and_then (give (case found of Some j \<Rightarrow> j | None \<Rightarrow> Journal.create (fr_journal_id fr) tenant engagement (fr_now fr))) (\<lambda>journal.
     and_then (on_aggregate Domain (append_entry (fr_entry_id fr) tenant entry_type content (fr_now fr) attribution
       system_attribution None journal)) (\<lambda>journal.
     save_journal sv journal)))"

definition journal_kill_switch ::
  "('d, 'k, 'r, 'p, 'q, 'x) service \<Rightarrow> fresh \<Rightarrow> EntityId \<Rightarrow> KillSwitchScope \<Rightarrow> uuid \<Rightarrow> string \<Rightarrow> uuid
     \<Rightarrow> ('d, 'k, 'r, 'p, 'x, unit) use_case" where
  "journal_kill_switch sv fr tenant scope scope_ref reason attribution =
     (if scope \<noteq> ENGAGEMENT then give ()
      else
        and_then (attempt Python (non_nil ''EngagementId'' scope_ref)) (\<lambda>engagement.
        and_then (journal_append sv fr tenant engagement JournalEntryType.KILL_SWITCH_TRIGGERED
          (''scope='' @ KillSwitchScope_value scope @ '' ref='' @ uuid_str scope_ref @ '' reason='' @ reason) (Some attribution) None) (\<lambda>_.
        give ())))"

definition failure_entry_type :: "AuthorizationFailureReason option \<Rightarrow> JournalEntryType" where
  "failure_entry_type failure =
     (if failure = Some SCOPE_VIOLATION then SCOPE_VIOLATION_ATTEMPTED
      else if failure \<in> {Some RATE_LIMIT_THROTTLED, Some RATE_LIMIT_FORBIDDEN} then SAFETY_CHECK_FAILED
      else SAFETY_CHECK_FAILED)"

definition failure_content :: "AuthorizationFailureReason option \<Rightarrow> AuthorizeAndStartAttackAction \<Rightarrow> string" where
  "failure_content failure cmd =
     ''failure='' @ (case failure of Some f \<Rightarrow> AuthorizationFailureReason_value f | None \<Rightarrow> ''unknown'') @
     '' step='' @ uuid_str (as_step_id cmd) @ '' target='' @ uuid_str (as_target_id cmd) @
     '' technique='' @ as_technique_id cmd"

text \<open>\<open>OperatorId(cmd.operator_id)\<close> has succeeded before every call of this helper.\<close>

definition journal_authorization_failure ::
  "('d, 'k, 'r, 'p, 'q, 'x) service \<Rightarrow> fresh \<Rightarrow> EntityId \<Rightarrow> uuid \<Rightarrow> AuthorizationFailureReason option
     \<Rightarrow> AuthorizeAndStartAttackAction \<Rightarrow> ('d, 'k, 'r, 'p, 'x, unit) use_case" where
  "journal_authorization_failure sv fr tenant engagement failure cmd =
     and_then (journal_append sv fr tenant engagement (failure_entry_type failure) (failure_content failure cmd)
       (Some (as_operator_id cmd)) None) (\<lambda>_. give ())"

section \<open>Kill switches\<close>

text \<open>The text of the two exceptions that \<open>release_kill_switch\<close> translates.\<close>

definition release_error :: "DomainException \<Rightarrow> 'x service_error" where
  "release_error e =
     (case e of
        SameOperatorReleaseForbidden operator_id \<Rightarrow> Application (ApplicationAuthorizationError
          (''Kill switch cannot be released by the same operator who triggered it: '' @ operator_id) None)
      | PlatformWideReleaseAuthorizationInsufficient reason \<Rightarrow> Application (ApplicationAuthorizationError
          (''Platform-wide kill switch release rejected: '' @ reason) None)
      | _ \<Rightarrow> Domain e)"

definition no_kill_switch :: "KillSwitchScope \<Rightarrow> uuid \<Rightarrow> 'x service_error" where
  "no_kill_switch scope scope_ref =
     Application (ApplicationNotFoundError ''KillSwitch'' (KillSwitchScope_value scope @ '':'' @ uuid_str scope_ref))"

definition trigger_kill_switch ::
  "('d, 'k, 'r, 'p, 'q, 'x) service \<Rightarrow> fresh \<Rightarrow> TriggerKillSwitch \<Rightarrow> ('d, 'k, 'r, 'p, 'x, KillSwitchDTO) use_case" where
  "trigger_kill_switch sv fr cmd =
     and_then (attempt Application (validate_uuid (Inl (tr_tenant_id cmd)) ''tenant_id'')) (\<lambda>_.
     and_then (attempt Application (validate_uuid (Inr (tr_scope_ref cmd)) ''scope_ref'')) (\<lambda>_.
     and_then (attempt Application (validate_uuid (Inr (tr_authority_operator_id cmd)) ''authority_operator_id'')) (\<lambda>_.
     and_then (attempt Application (validate_str (tr_reason cmd) ''reason'' 2048)) (\<lambda>_.
     and_then (attempt Application (parse_scope (tr_scope cmd))) (\<lambda>scope.
     in_uow (
       and_then (load (rp_find_switch_by_scope (sv_repositories sv) (tr_tenant_id cmd) scope (tr_scope_ref cmd))) (\<lambda>found.
       and_then (give (case found of Some k \<Rightarrow> k
         | None \<Rightarrow> create_armed (fr_kill_switch_id fr) (tr_tenant_id cmd) scope (tr_scope_ref cmd) (fr_now fr))) (\<lambda>ks.
       and_then (attempt Python (non_nil ''OperatorId'' (tr_authority_operator_id cmd))) (\<lambda>operator.
       and_then (attempt Python (make_TriggerAuthority operator (tr_authority_role cmd))) (\<lambda>authority.
       and_then (attempt Python (make_TriggerReason (tr_reason cmd))) (\<lambda>reason.
       and_then (on_aggregate Domain (trigger (tr_tenant_id cmd) authority reason (fr_now fr) ks)) (\<lambda>ks.
       and_then (save_switch sv ks) (\<lambda>ks.
       and_then (sync_kill_switch_store sv ks) (\<lambda>_.
       and_then (journal_kill_switch sv fr (tr_tenant_id cmd) scope (tr_scope_ref cmd) (tr_reason cmd) operator) (\<lambda>_.
       and_then (commit sv) (\<lambda>_.
       and_then (publish (switch_events ks)) (\<lambda>_.
       give (kill_switch_dto ks))))))))))))))))))"

definition countersign_of :: "ReleaseKillSwitch \<Rightarrow> ('d, 'k, 'r, 'p, 'x, Authority option) use_case" where
  "countersign_of cmd =
     (case rl_countersigning_operator_id cmd of
        None \<Rightarrow> give None
      | Some operator_id \<Rightarrow>
          (case rl_countersigning_role cmd of
             None \<Rightarrow> throw (Application (ApplicationValidationError ''countersigning_role'' ''required when countersigning_operator_id set''))
           | Some role \<Rightarrow>
               if role = [] then
                 throw (Application (ApplicationValidationError ''countersigning_role'' ''required when countersigning_operator_id set''))
               else
                 and_then (attempt Python (non_nil ''OperatorId'' operator_id)) (\<lambda>operator.
                 and_then (attempt Python (make_ReleaseAuthority operator role)) (\<lambda>authority.
                 give (Some authority)))))"

definition release_kill_switch ::
  "('d, 'k, 'r, 'p, 'q, 'x) service \<Rightarrow> fresh \<Rightarrow> ReleaseKillSwitch \<Rightarrow> ('d, 'k, 'r, 'p, 'x, KillSwitchDTO) use_case" where
  "release_kill_switch sv fr cmd =
     and_then (attempt Application (validate_uuid (Inl (rl_tenant_id cmd)) ''tenant_id'')) (\<lambda>_.
     and_then (attempt Application (validate_uuid (Inr (rl_scope_ref cmd)) ''scope_ref'')) (\<lambda>_.
     and_then (attempt Application (validate_uuid (Inr (rl_releasing_operator_id cmd)) ''releasing_operator_id'')) (\<lambda>_.
     and_then (attempt Application (parse_scope (rl_scope cmd))) (\<lambda>scope.
     and_then (countersign_of cmd) (\<lambda>countersign.
     in_uow (
       and_then (load (rp_find_switch_by_scope (sv_repositories sv) (rl_tenant_id cmd) scope (rl_scope_ref cmd))) (\<lambda>found.
       and_then (found_or (no_kill_switch scope (rl_scope_ref cmd)) found) (\<lambda>ks.
       and_then (attempt Python (non_nil ''OperatorId'' (rl_releasing_operator_id cmd))) (\<lambda>operator.
       and_then (attempt Python (make_ReleaseAuthority operator (rl_releasing_role cmd))) (\<lambda>authority.
       and_then (on_aggregate release_error (release (rl_tenant_id cmd) authority (fr_now fr) countersign ks)) (\<lambda>ks.
       and_then (save_switch sv ks) (\<lambda>ks.
       and_then (sync_kill_switch_store sv ks) (\<lambda>_.
       and_then (commit sv) (\<lambda>_.
       and_then (publish (switch_events ks)) (\<lambda>_.
       give (kill_switch_dto ks))))))))))))))))"

definition re_arm_kill_switch ::
  "('d, 'k, 'r, 'p, 'q, 'x) service \<Rightarrow> fresh \<Rightarrow> ReArmKillSwitch \<Rightarrow> ('d, 'k, 'r, 'p, 'x, KillSwitchDTO) use_case" where
  "re_arm_kill_switch sv fr cmd =
     and_then (attempt Application (validate_uuid (Inl (ra_tenant_id cmd)) ''tenant_id'')) (\<lambda>_.
     and_then (attempt Application (validate_uuid (Inr (ra_scope_ref cmd)) ''scope_ref'')) (\<lambda>_.
     and_then (attempt Application (parse_scope (ra_scope cmd))) (\<lambda>scope.
     in_uow (
       and_then (load (rp_find_switch_by_scope (sv_repositories sv) (ra_tenant_id cmd) scope (ra_scope_ref cmd))) (\<lambda>found.
       and_then (found_or (no_kill_switch scope (ra_scope_ref cmd)) found) (\<lambda>ks.
       and_then (attempt Python (non_nil ''OperatorId'' (ra_authority_operator_id cmd))) (\<lambda>operator.
       and_then (attempt Python (make_TriggerAuthority operator (ra_authority_role cmd))) (\<lambda>authority.
       and_then (on_aggregate Domain (re_arm (ra_tenant_id cmd) authority (fr_now fr) ks)) (\<lambda>ks.
       and_then (save_switch sv ks) (\<lambda>ks.
       and_then (sync_kill_switch_store sv ks) (\<lambda>_.
       and_then (commit sv) (\<lambda>_.
       and_then (publish (switch_events ks)) (\<lambda>_.
       give (kill_switch_dto ks))))))))))))))"

definition get_kill_switch ::
  "('d, 'k, 'r, 'p, 'q, 'x) service \<Rightarrow> EntityId \<Rightarrow> string \<Rightarrow> uuid \<Rightarrow> ('d, 'k, 'r, 'p, 'x, KillSwitchDTO) use_case" where
  "get_kill_switch sv tenant scope_text scope_ref =
     and_then (attempt Application (validate_uuid (Inl tenant) ''tenant_id'')) (\<lambda>_.
     and_then (attempt Application (parse_scope scope_text)) (\<lambda>scope.
     in_uow (
       and_then (load (rp_find_switch_by_scope (sv_repositories sv) tenant scope scope_ref)) (\<lambda>found.
       and_then (found_or (no_kill_switch scope scope_ref) found) (\<lambda>ks.
       give (kill_switch_dto ks))))))"

section \<open>Journals\<close>

definition no_journal :: "uuid \<Rightarrow> 'x service_error" where
  "no_journal engagement_id = Application (ApplicationNotFoundError ''ExecutionJournal'' (uuid_str engagement_id))"

definition create_journal ::
  "('d, 'k, 'r, 'p, 'q, 'x) service \<Rightarrow> fresh \<Rightarrow> EntityId \<Rightarrow> uuid \<Rightarrow> ('d, 'k, 'r, 'p, 'x, JournalDTO) use_case" where
  "create_journal sv fr tenant engagement_id =
     and_then (attempt Application (validate_uuid (Inl tenant) ''tenant_id'')) (\<lambda>_.
     and_then (attempt Application (validate_uuid (Inr engagement_id) ''engagement_id'')) (\<lambda>_.
     and_then (attempt Python (non_nil ''EngagementId'' engagement_id)) (\<lambda>engagement.
     in_uow (
       and_then (load (rp_find_journal_by_engagement (sv_repositories sv) engagement tenant)) (\<lambda>existing.
       and_then (if existing \<noteq> None
         then throw (Application (ApplicationConflictError (''Journal already exists for engagement '' @ uuid_str engagement_id)))
         else give ()) (\<lambda>_.
       and_then (save_journal sv (Journal.create (fr_journal_id fr) tenant engagement (fr_now fr))) (\<lambda>journal.
       and_then (commit sv) (\<lambda>_.
       and_then (publish (journal_events_of journal)) (\<lambda>_.
       give (journal_dto journal))))))))))"

definition ensure_journal_for_engagement ::
  "('d, 'k, 'r, 'p, 'q, 'x) service \<Rightarrow> fresh \<Rightarrow> EntityId \<Rightarrow> uuid \<Rightarrow> ('d, 'k, 'r, 'p, 'x, ExecutionJournal) use_case" where
  "ensure_journal_for_engagement sv fr tenant engagement =
     in_uow (
       and_then (load (rp_find_journal_by_engagement (sv_repositories sv) engagement tenant)) (\<lambda>existing.
       case existing of
         Some journal \<Rightarrow> give journal
       | None \<Rightarrow>
           and_then (save_journal sv (Journal.create (fr_journal_id fr) tenant engagement (fr_now fr))) (\<lambda>journal.
           and_then (commit sv) (\<lambda>_.
           and_then (publish (journal_events_of journal)) (\<lambda>_.
           give journal)))))"

definition append_journal_entry ::
  "('d, 'k, 'r, 'p, 'q, 'x) service \<Rightarrow> fresh \<Rightarrow> AppendJournalEntry \<Rightarrow> ('d, 'k, 'r, 'p, 'x, JournalEntryDTO) use_case" where
  "append_journal_entry sv fr cmd =
     and_then (attempt Application (validate_uuid (Inl (ap_tenant_id cmd)) ''tenant_id'')) (\<lambda>_.
     and_then (attempt Application (validate_uuid (Inr (ap_engagement_id cmd)) ''engagement_id'')) (\<lambda>_.
     and_then (attempt Application (validate_str (ap_content cmd) ''content'' 8192)) (\<lambda>_.
     and_then (attempt Python (non_nil ''EngagementId'' (ap_engagement_id cmd))) (\<lambda>engagement.
     and_then (attempt Python (JournalEntryType_of (ap_entry_type cmd))) (\<lambda>entry_type.
     and_then (case ap_attribution_operator_id cmd of None \<Rightarrow> give None
       | Some u \<Rightarrow> and_then (attempt Python (non_nil ''OperatorId'' u)) (\<lambda>u. give (Some u))) (\<lambda>attribution.
     in_uow (
       and_then (journal_append sv fr (ap_tenant_id cmd) engagement entry_type (ap_content cmd) attribution (ap_system_attribution cmd)) (\<lambda>journal.
       and_then (commit sv) (\<lambda>_.
       and_then (publish (journal_events_of journal)) (\<lambda>_.
       give (journal_entry_dto (last (jn_entries journal)))))))))))))"

definition get_journal ::
  "('d, 'k, 'r, 'p, 'q, 'x) service \<Rightarrow> EntityId \<Rightarrow> uuid \<Rightarrow> ('d, 'k, 'r, 'p, 'x, JournalDTO) use_case" where
  "get_journal sv tenant engagement_id =
     and_then (attempt Application (validate_uuid (Inl tenant) ''tenant_id'')) (\<lambda>_.
     and_then (attempt Python (non_nil ''EngagementId'' engagement_id)) (\<lambda>engagement.
     in_uow (
       and_then (load (rp_find_journal_by_engagement (sv_repositories sv) engagement tenant)) (\<lambda>found.
       and_then (found_or (no_journal engagement_id) found) (\<lambda>journal.
       give (journal_dto journal))))))"

definition query_journal_integrity ::
  "('d, 'k, 'r, 'p, 'q, 'x) service \<Rightarrow> fresh \<Rightarrow> EntityId \<Rightarrow> uuid \<Rightarrow> ('d, 'k, 'r, 'p, 'x, ChainIntegrityReportDTO) use_case" where
  "query_journal_integrity sv fr tenant engagement_id =
     and_then (attempt Application (validate_uuid (Inl tenant) ''tenant_id'')) (\<lambda>_.
     and_then (attempt Python (non_nil ''EngagementId'' engagement_id)) (\<lambda>engagement.
     in_uow (
       and_then (load (rp_find_journal_by_engagement (sv_repositories sv) engagement tenant)) (\<lambda>found.
       and_then (found_or (no_journal engagement_id) found) (\<lambda>journal.
       case verify_chain_integrity (fr_now fr) journal of
         Raise e _ \<Rightarrow> throw (Domain e)
       | Return report journal \<Rightarrow>
           and_then (save_journal sv journal) (\<lambda>journal.
           and_then (commit sv) (\<lambda>_.
           and_then (publish (journal_events_of journal)) (\<lambda>_.
           give \<lparr>cd_status = (case cr_status report of ChainIntegrityStatus.VERIFIED \<Rightarrow> ''Verified'' | BROKEN \<Rightarrow> ''Broken''),
                 cd_journal_id = cr_journal_id report, cd_entry_count = cr_entry_count report,
                 cd_broken_at_sequence = cr_broken_at_sequence report, cd_detail = cr_detail report\<rparr>))))))))"

section \<open>Attack actions\<close>

text \<open>The two payload checks, the denial and the dispatch of \<open>authorize_and_start_attack_action\<close>.\<close>

definition check_payload ::
  "('d, 'k, 'r, 'p, 'q, 'x) service \<Rightarrow> AuthorizeAndStartAttackAction
     \<Rightarrow> ('d, 'k, 'r, 'p, 'x, AuthorizationFailureReason option) use_case" where
  "check_payload sv cmd =
     (case (as_payload_id cmd, sv_payload_query sv) of
        (Some payload_id, Some verify_for_dispatch) \<Rightarrow>
          and_then (on_part wd_ports (\<lambda>p w. w\<lparr>wd_ports := p\<rparr>) External
            (verify_for_dispatch (as_tenant_id cmd) payload_id (as_expected_payload_hash cmd))) (\<lambda>check.
          give (payload_failure_reason check))
      | _ \<Rightarrow> give None)"

definition deny ::
  "('d, 'k, 'r, 'p, 'q, 'x) service \<Rightarrow> fresh \<Rightarrow> EntityId \<Rightarrow> uuid \<Rightarrow> AuthorizationFailureReason option
     \<Rightarrow> AuthorizeAndStartAttackAction \<Rightarrow> string \<Rightarrow> ('d, 'k, 'r, 'p, 'x, 'a) use_case" where
  "deny sv fr tenant engagement failure cmd message =
     and_then (journal_authorization_failure sv fr tenant engagement failure cmd) (\<lambda>_.
     and_then (load (rp_find_journal_by_engagement (sv_repositories sv) engagement tenant)) (\<lambda>journal.
     and_then (commit sv) (\<lambda>_.
     and_then (case journal of Some j \<Rightarrow> publish (journal_events_of j) | None \<Rightarrow> give ()) (\<lambda>_.
     throw (Application (ApplicationAuthorizationError
       (message @ '': '' @ (case failure of Some f \<Rightarrow> AuthorizationFailureReason_value f | None \<Rightarrow> ''None''))
       (map_option AuthorizationFailureReason_value failure)))))))"

definition dispatch_to ::
  "('d, 'k, 'r, 'p, 'q, 'x) service \<Rightarrow> uuid \<Rightarrow> WorkerRef \<Rightarrow> ActionInput \<Rightarrow> uuid option \<Rightarrow> string option
     \<Rightarrow> ('d, 'k, 'r, 'p, 'x, unit) use_case" where
  "dispatch_to sv action_id worker_ref action_input payload_id expected_payload_hash w =
     on_part wd_ports (\<lambda>p w. w\<lparr>wd_ports := p\<rparr>) External
       (sv_dispatch sv action_id worker_ref action_input payload_id expected_payload_hash)
       (w\<lparr>wd_calls := wd_calls w @ [Dispatch action_id worker_ref action_input payload_id expected_payload_hash]\<rparr>)"

definition signal_abort_to ::
  "('d, 'k, 'r, 'p, 'q, 'x) service \<Rightarrow> uuid \<Rightarrow> string \<Rightarrow> ('d, 'k, 'r, 'p, 'x, unit) use_case" where
  "signal_abort_to sv action_id reason w =
     on_part wd_ports (\<lambda>p w. w\<lparr>wd_ports := p\<rparr>) External (sv_signal_abort sv action_id reason)
       (w\<lparr>wd_calls := wd_calls w @ [Signal_Abort action_id reason]\<rparr>)"

definition run_gate ::
  "('d, 'k, 'r, 'p, 'q, 'x) service \<Rightarrow> fresh \<Rightarrow> authorize_args \<Rightarrow> ('d, 'k, 'r, 'p, 'x, AuthorizationResult) use_case" where
  "run_gate sv fr az w =
     on_part wd_rate_store (\<lambda>r w. w\<lparr>wd_rate_store := r\<rparr>) (case_sum External Python)
       (authorize (sv_gate sv (wd_switch_store w) (fr_clock fr)) (fr_token_id fr) az) w"

text \<open>The arguments of the gate, from the command and the loaded worker.\<close>

definition gate_args ::
  "AuthorizeAndStartAttackAction \<Rightarrow> fresh \<Rightarrow> TechniqueRef \<Rightarrow> RateLimitPolicy \<Rightarrow> ExecutionWorker option \<Rightarrow> authorize_args" where
  "gate_args cmd fr technique policy worker =
     \<lparr>az_tenant_id = as_tenant_id cmd, az_engagement_id = as_engagement_id cmd, az_operation_id = as_operation_id cmd,
      az_step_ref = \<lparr>st_step_id = as_step_id cmd, st_operation_id = as_operation_id cmd, st_engagement_id = as_engagement_id cmd\<rparr>,
      az_target_ref = as_target_id cmd, az_technique_ref = technique, az_operator_ref = as_operator_id cmd,
      az_rate_limit_policy = policy, az_now = fr_now fr, az_worker = worker, az_worker_ref = None,
      az_presented_scope_hash = as_presented_scope_hash cmd,
      az_presented_engagement_version = as_presented_engagement_version cmd\<rparr>"

text \<open>The worker branch: assignment, save, second payload check, dispatch; its answer is the saved worker.\<close>

definition hand_to_worker ::
  "('d, 'k, 'r, 'p, 'q, 'x) service \<Rightarrow> fresh \<Rightarrow> AuthorizeAndStartAttackAction \<Rightarrow> TechniqueRef \<Rightarrow> AttackAction \<Rightarrow> ExecutionWorker
     \<Rightarrow> ('d, 'k, 'r, 'p, 'x, ExecutionWorker) use_case" where
  "hand_to_worker sv fr cmd technique action worker =
     and_then (on_aggregate Domain (assign_action (as_tenant_id cmd) (uuid_str (aa_action_id action)) technique (fr_now fr) worker)) (\<lambda>worker.
     and_then (save_worker sv worker) (\<lambda>worker.
     and_then (check_payload sv cmd) (\<lambda>recheck_failure.
     and_then (if recheck_failure \<noteq> None
       then deny sv fr (as_tenant_id cmd) (as_engagement_id cmd) recheck_failure cmd ''Dispatch denied'' else give ()) (\<lambda>_.
     and_then (dispatch_to sv (aa_action_id action) (wk_worker_id worker) (as_action_parameters cmd) (as_payload_id cmd)
       (as_expected_payload_hash cmd)) (\<lambda>_.
     give worker)))))"

definition find_worker ::
  "('d, 'k, 'r, 'p, 'q, 'x) service \<Rightarrow> uuid option \<Rightarrow> EntityId \<Rightarrow> ('d, 'k, 'r, 'p, 'x, ExecutionWorker option) use_case" where
  "find_worker sv worker_id tenant =
     (case worker_id of
        None \<Rightarrow> give None
      | Some i \<Rightarrow>
          and_then (attempt Python (non_nil ''ExecutionWorkerId'' i)) (\<lambda>i.
          and_then (load (rp_find_worker_by_id (sv_repositories sv) i tenant)) (\<lambda>found.
          and_then (found_or (Application (ApplicationNotFoundError ''ExecutionWorker'' (uuid_str i))) found) (\<lambda>v. give (Some v)))))"

definition start_action ::
  "('d, 'k, 'r, 'p, 'q, 'x) service \<Rightarrow> fresh \<Rightarrow> AuthorizeAndStartAttackAction \<Rightarrow> TechniqueRef \<Rightarrow> ExecutionWorker option
     \<Rightarrow> AuthorizationToken option \<Rightarrow> ('d, 'k, 'r, 'p, 'x, AttackActionDTO) use_case" where
  "start_action sv fr cmd technique worker token =
     and_then (attempt Domain (create_authorized (fr_action_id fr) token (as_action_parameters cmd) (fr_now fr))) (\<lambda>action.
     and_then (on_aggregate Domain (start (as_tenant_id cmd) (fr_now fr) action)) (\<lambda>action.
     and_then (case worker of None \<Rightarrow> give None
       | Some v \<Rightarrow> and_then (hand_to_worker sv fr cmd technique action v) (\<lambda>v. give (Some v))) (\<lambda>worker.
     and_then (journal_append sv fr (as_tenant_id cmd) (as_engagement_id cmd) ACTION_STARTED
       (''action='' @ uuid_str (aa_action_id action) @ '' step='' @ uuid_str (as_step_id cmd) @ '' technique='' @ as_technique_id cmd)
       (Some (as_operator_id cmd)) None) (\<lambda>journal.
     and_then (save_action sv action) (\<lambda>action.
     and_then (commit sv) (\<lambda>_.
     and_then (publish (action_events_of action @ journal_events_of journal @
       (case worker of None \<Rightarrow> [] | Some v \<Rightarrow> worker_events_of v))) (\<lambda>_.
     give (attack_action_dto action))))))))"

definition authorize_and_start_attack_action ::
  "('d, 'k, 'r, 'p, 'q, 'x) service \<Rightarrow> fresh \<Rightarrow> AuthorizeAndStartAttackAction \<Rightarrow> ('d, 'k, 'r, 'p, 'x, AttackActionDTO) use_case" where
  "authorize_and_start_attack_action sv fr cmd =
     and_then (attempt Application (validate_uuid (Inl (as_tenant_id cmd)) ''tenant_id'')) (\<lambda>_.
     and_then (attempt Application (validate_uuid (Inr (as_engagement_id cmd)) ''engagement_id'')) (\<lambda>_.
     and_then (attempt Application (validate_uuid (Inr (as_operation_id cmd)) ''operation_id'')) (\<lambda>_.
     and_then (attempt Application (validate_uuid (Inr (as_step_id cmd)) ''step_id'')) (\<lambda>_.
     and_then (attempt Application (validate_uuid (Inr (as_target_id cmd)) ''target_id'')) (\<lambda>_.
     and_then (attempt Application (validate_str (as_technique_id cmd) ''technique_id'' 256)) (\<lambda>_.
     in_uow (
       and_then (load (rp_find_non_terminal_by_step (sv_repositories sv) (as_step_id cmd) (as_tenant_id cmd))) (\<lambda>existing.
       case existing of
         Some action \<Rightarrow> give (attack_action_dto action)
       | None \<Rightarrow>
           and_then (attempt Python (ImpactCeiling_of (as_impact_ceiling cmd))) (\<lambda>ceiling.
           and_then (attempt Python (make_TechniqueRef (as_technique_id cmd) (as_technique_category cmd) ceiling)) (\<lambda>technique.
           and_then (attempt Python (non_nil ''OperatorId'' (as_operator_id cmd))) (\<lambda>_.
           and_then (attempt Python (make_RateLimitPolicy (as_rate_limit_max cmd) (as_rate_limit_window_seconds cmd)
             (as_technique_category cmd))) (\<lambda>policy.
           and_then (find_worker sv (as_worker_id cmd) (as_tenant_id cmd)) (\<lambda>worker.
           and_then (check_payload sv cmd) (\<lambda>payload_failure.
           if payload_failure \<noteq> None
           then deny sv fr (as_tenant_id cmd) (as_engagement_id cmd) payload_failure cmd ''Authorization denied''
           else
             and_then (run_gate sv fr (gate_args cmd fr technique policy worker)) (\<lambda>result.
             if \<not> permitted_result result
             then deny sv fr (as_tenant_id cmd) (as_engagement_id cmd) (ar_failure_reason result) cmd ''Authorization denied''
             else start_action sv fr cmd technique worker (ar_token result))))))))))))))))"

definition no_action :: "uuid \<Rightarrow> 'x service_error" where
  "no_action action_id = Application (ApplicationNotFoundError ''AttackAction'' (uuid_str action_id))"

text \<open>The journal entry of a finished action is appended only where the engagement already has a journal; only then is the
  attribution built.\<close>

definition journal_if_present ::
  "('d, 'k, 'r, 'p, 'q, 'x) service \<Rightarrow> fresh \<Rightarrow> EntityId \<Rightarrow> uuid \<Rightarrow> JournalEntryType \<Rightarrow> string \<Rightarrow> PyError + uuid option \<Rightarrow> string option
     \<Rightarrow> ('d, 'k, 'r, 'p, 'x, ExecutionJournal option) use_case" where
  "journal_if_present sv fr tenant engagement entry_type content attribution system_attribution =
     and_then (load (rp_find_journal_by_engagement (sv_repositories sv) engagement tenant)) (\<lambda>found.
     case found of
       None \<Rightarrow> give None
     | Some journal \<Rightarrow>
         and_then (attempt Python attribution) (\<lambda>attribution.
         and_then (on_aggregate Domain (append_entry (fr_entry_id fr) tenant entry_type content (fr_now fr) attribution
           system_attribution None journal)) (\<lambda>journal.
         and_then (save_journal sv journal) (\<lambda>journal.
         give (Some journal)))))"

definition finish_action ::
  "('d, 'k, 'r, 'p, 'q, 'x) service \<Rightarrow> AttackAction \<Rightarrow> ExecutionJournal option \<Rightarrow> ('d, 'k, 'r, 'p, 'x, AttackActionDTO) use_case" where
  "finish_action sv action journal =
     and_then (save_action sv action) (\<lambda>action.
     and_then (commit sv) (\<lambda>_.
     and_then (publish (action_events_of action @ (case journal of None \<Rightarrow> [] | Some j \<Rightarrow> journal_events_of j))) (\<lambda>_.
     give (attack_action_dto action))))"

definition find_action ::
  "('d, 'k, 'r, 'p, 'q, 'x) service \<Rightarrow> uuid \<Rightarrow> EntityId \<Rightarrow> ('d, 'k, 'r, 'p, 'x, AttackAction) use_case" where
  "find_action sv action_id tenant =
     and_then (attempt Python (non_nil ''AttackActionId'' action_id)) (\<lambda>i.
     and_then (load (rp_find_action_by_id (sv_repositories sv) i tenant)) (found_or (no_action action_id)))"

definition abort_attack_action ::
  "('d, 'k, 'r, 'p, 'q, 'x) service \<Rightarrow> fresh \<Rightarrow> EntityId \<Rightarrow> uuid \<Rightarrow> string \<Rightarrow> uuid \<Rightarrow> ('d, 'k, 'r, 'p, 'x, AttackActionDTO) use_case" where
  "abort_attack_action sv fr tenant action_id abort_reason authority_operator_id =
     and_then (attempt Application (validate_uuid (Inl tenant) ''tenant_id'')) (\<lambda>_.
     and_then (attempt Application (validate_uuid (Inr action_id) ''action_id'')) (\<lambda>_.
     and_then (attempt Application (validate_str abort_reason ''abort_reason'' 2048)) (\<lambda>_.
     in_uow (
       and_then (find_action sv action_id tenant) (\<lambda>action.
       and_then (on_aggregate Domain (abort tenant abort_reason (uuid_str authority_operator_id) (fr_now fr) action)) (\<lambda>action.
       and_then (signal_abort_to sv (aa_action_id action) abort_reason) (\<lambda>_.
       and_then (journal_if_present sv fr tenant (aa_engagement_id action) ACTION_ABORTED
         (''action='' @ uuid_str (aa_action_id action) @ '' reason='' @ abort_reason)
         (map_sum id Some (non_nil ''OperatorId'' authority_operator_id)) None) (\<lambda>journal.
       finish_action sv action journal))))))))"

definition output_ref_of :: "string option \<Rightarrow> string option \<Rightarrow> PyError + ActionOutputRef option" where
  "output_ref_of output_hash output_storage_ref =
     (case (output_hash, output_storage_ref) of
        (Some h, Some r) \<Rightarrow> if h = [] \<or> r = [] then Inr None else map_sum id Some (make_ActionOutputRef h r)
      | _ \<Rightarrow> Inr None)"

definition complete_attack_action ::
  "('d, 'k, 'r, 'p, 'q, 'x) service \<Rightarrow> fresh \<Rightarrow> EntityId \<Rightarrow> uuid \<Rightarrow> string option \<Rightarrow> string option
     \<Rightarrow> ('d, 'k, 'r, 'p, 'x, AttackActionDTO) use_case" where
  "complete_attack_action sv fr tenant action_id output_hash output_storage_ref =
     and_then (attempt Application (validate_uuid (Inl tenant) ''tenant_id'')) (\<lambda>_.
     and_then (attempt Python (output_ref_of output_hash output_storage_ref)) (\<lambda>output_ref.
     in_uow (
       and_then (find_action sv action_id tenant) (\<lambda>action.
       and_then (on_aggregate Domain (complete tenant (fr_now fr) output_ref action)) (\<lambda>action.
       and_then (journal_if_present sv fr tenant (aa_engagement_id action) ACTION_COMPLETED
         (''action='' @ uuid_str (aa_action_id action)) (Inr None) (Some ''worker'')) (\<lambda>journal.
       finish_action sv action journal))))))"

definition fail_attack_action ::
  "('d, 'k, 'r, 'p, 'q, 'x) service \<Rightarrow> fresh \<Rightarrow> EntityId \<Rightarrow> uuid \<Rightarrow> string \<Rightarrow> ('d, 'k, 'r, 'p, 'x, AttackActionDTO) use_case" where
  "fail_attack_action sv fr tenant action_id failure_reason =
     and_then (attempt Application (validate_uuid (Inl tenant) ''tenant_id'')) (\<lambda>_.
     and_then (attempt Application (validate_str failure_reason ''failure_reason'' 2048)) (\<lambda>_.
     in_uow (
       and_then (find_action sv action_id tenant) (\<lambda>action.
       and_then (on_aggregate Domain (fail tenant failure_reason (fr_now fr) action)) (\<lambda>action.
       and_then (journal_if_present sv fr tenant (aa_engagement_id action) ACTION_FAILED
         (''action='' @ uuid_str (aa_action_id action) @ '' reason='' @ failure_reason) (Inr None) (Some ''worker'')) (\<lambda>journal.
       finish_action sv action journal))))))"

definition record_action_output ::
  "('d, 'k, 'r, 'p, 'q, 'x) service \<Rightarrow> fresh \<Rightarrow> EntityId \<Rightarrow> uuid \<Rightarrow> string \<Rightarrow> string \<Rightarrow> ('d, 'k, 'r, 'p, 'x, AttackActionDTO) use_case" where
  "record_action_output sv fr tenant action_id output_hash output_storage_ref =
     and_then (attempt Application (validate_uuid (Inl tenant) ''tenant_id'')) (\<lambda>_.
     and_then (attempt Application (validate_str output_hash ''output_hash'' 64)) (\<lambda>_.
     and_then (attempt Application (validate_str output_storage_ref ''output_storage_ref'' 512)) (\<lambda>_.
     in_uow (
       and_then (find_action sv action_id tenant) (\<lambda>action.
       and_then (attempt Python (make_ActionOutputRef output_hash output_storage_ref)) (\<lambda>output_ref.
       and_then (on_aggregate Domain (record_output_ref tenant output_ref (fr_now fr) action)) (\<lambda>action.
       finish_action sv action None)))))))"

definition get_attack_action ::
  "('d, 'k, 'r, 'p, 'q, 'x) service \<Rightarrow> fresh \<Rightarrow> EntityId \<Rightarrow> uuid \<Rightarrow> ('d, 'k, 'r, 'p, 'x, AttackActionDTO) use_case" where
  "get_attack_action sv fr tenant action_id =
     in_uow (
       and_then (find_action sv action_id tenant) (\<lambda>action.
       case verify_integrity (fr_now fr) action of
         Raise e _ \<Rightarrow> throw (Domain e)
       | Return ok action \<Rightarrow> if \<not> ok then finish_action sv action None else give (attack_action_dto action)))"

definition list_attack_actions_by_operation ::
  "('d, 'k, 'r, 'p, 'q, 'x) service \<Rightarrow> EntityId \<Rightarrow> uuid \<Rightarrow> int \<Rightarrow> int \<Rightarrow> ('d, 'k, 'r, 'p, 'x, AttackActionDTO list) use_case" where
  "list_attack_actions_by_operation sv tenant operation_id limit offset =
     and_then (attempt Application (validate_limit limit)) (\<lambda>limit.
     and_then (attempt Application (validate_offset offset)) (\<lambda>offset.
     in_uow (
       and_then (attempt Python (non_nil ''OperationId'' operation_id)) (\<lambda>operation.
       and_then (load (rp_find_actions_by_operation (sv_repositories sv) operation tenant limit offset)) (\<lambda>actions.
       give (map attack_action_dto actions))))))"

section \<open>Workers\<close>

definition store_worker ::
  "('d, 'k, 'r, 'p, 'q, 'x) service \<Rightarrow> ExecutionWorker \<Rightarrow> ('d, 'k, 'r, 'p, 'x, ExecutionWorkerDTO) use_case" where
  "store_worker sv worker =
     and_then (save_worker sv worker) (\<lambda>worker.
     and_then (commit sv) (\<lambda>_.
     and_then (publish (worker_events_of worker)) (\<lambda>_.
     give (worker_dto worker))))"

definition register_execution_worker ::
  "('d, 'k, 'r, 'p, 'q, 'x) service \<Rightarrow> fresh \<Rightarrow> RegisterExecutionWorker \<Rightarrow> ('d, 'k, 'r, 'p, 'x, ExecutionWorkerDTO) use_case" where
  "register_execution_worker sv fr cmd =
     and_then (attempt Application (validate_uuid (Inl (rw_tenant_id cmd)) ''tenant_id'')) (\<lambda>_.
     and_then (attempt Application (validate_uuid (Inr (rw_signer_operator_id cmd)) ''signer_operator_id'')) (\<lambda>_.
     and_then (attempt Application (validate_str (rw_signature cmd) ''signature'' 4096)) (\<lambda>_.
     and_then (attempt Application (validate_str (rw_network_zone cmd) ''network_zone'' 128)) (\<lambda>_.
     and_then (if rw_techniques cmd = [] then throw (Application (ApplicationValidationError ''techniques'' ''must not be empty''))
       else give ()) (\<lambda>_.
     and_then (attempt Python (WorkerTrustLevel_of (rw_trust_level cmd))) (\<lambda>trust_level.
     and_then (attempt Python (non_nil ''OperatorId'' (rw_signer_operator_id cmd))) (\<lambda>signer.
     and_then (attempt Python (make_SignedCapabilityManifest (set (rw_techniques cmd)) trust_level signer (rw_signature cmd) (fr_now fr))) (\<lambda>manifest.
     and_then (attempt Python (WorkerType_of (rw_worker_type cmd))) (\<lambda>worker_type.
     and_then (attempt Domain (register (fr_worker_id fr) (rw_tenant_id cmd) worker_type (rw_network_zone cmd) (Some manifest) (fr_now fr))) (\<lambda>worker.
     in_uow (store_worker sv worker)))))))))))"

definition load_worker ::
  "('d, 'k, 'r, 'p, 'q, 'x) service \<Rightarrow> uuid \<Rightarrow> EntityId \<Rightarrow> ('d, 'k, 'r, 'p, 'x, ExecutionWorker) use_case" where
  "load_worker sv worker_id tenant =
     and_then (attempt Python (non_nil ''ExecutionWorkerId'' worker_id)) (\<lambda>i.
     and_then (load (rp_find_worker_by_id (sv_repositories sv) i tenant))
       (found_or (Application (ApplicationNotFoundError ''ExecutionWorker'' (uuid_str worker_id)))))"

definition decommission_execution_worker ::
  "('d, 'k, 'r, 'p, 'q, 'x) service \<Rightarrow> fresh \<Rightarrow> EntityId \<Rightarrow> uuid \<Rightarrow> uuid \<Rightarrow> ('d, 'k, 'r, 'p, 'x, ExecutionWorkerDTO) use_case" where
  "decommission_execution_worker sv fr tenant worker_id authority_operator_id =
     in_uow (
       and_then (load_worker sv worker_id tenant) (\<lambda>worker.
       and_then (attempt Python (non_nil ''OperatorId'' authority_operator_id)) (\<lambda>authority.
       and_then (on_aggregate Domain (decommission tenant authority (fr_now fr) worker)) (\<lambda>worker.
       store_worker sv worker))))"

definition record_worker_heartbeat ::
  "('d, 'k, 'r, 'p, 'q, 'x) service \<Rightarrow> fresh \<Rightarrow> EntityId \<Rightarrow> uuid \<Rightarrow> string \<Rightarrow> ('d, 'k, 'r, 'p, 'x, ExecutionWorkerDTO) use_case" where
  "record_worker_heartbeat sv fr tenant worker_id health_status =
     in_uow (
       and_then (load_worker sv worker_id tenant) (\<lambda>worker.
       and_then (attempt Python (WorkerHealthStatus_of health_status)) (\<lambda>health.
       and_then (on_aggregate Domain (record_heartbeat tenant health (fr_now fr) worker)) (\<lambda>worker.
       store_worker sv worker))))"

definition get_execution_worker ::
  "('d, 'k, 'r, 'p, 'q, 'x) service \<Rightarrow> EntityId \<Rightarrow> uuid \<Rightarrow> ('d, 'k, 'r, 'p, 'x, ExecutionWorkerDTO) use_case" where
  "get_execution_worker sv tenant worker_id =
     in_uow (and_then (load_worker sv worker_id tenant) (\<lambda>worker. give (worker_dto worker)))"

definition list_available_workers ::
  "('d, 'k, 'r, 'p, 'q, 'x) service \<Rightarrow> EntityId \<Rightarrow> int \<Rightarrow> int \<Rightarrow> ('d, 'k, 'r, 'p, 'x, ExecutionWorkerDTO list) use_case" where
  "list_available_workers sv tenant limit offset =
     and_then (attempt Application (validate_limit limit)) (\<lambda>limit.
     and_then (attempt Application (validate_offset offset)) (\<lambda>offset.
     in_uow (
       and_then (load (rp_list_available_workers (sv_repositories sv) tenant limit offset)) (\<lambda>workers.
       give (map worker_dto workers)))))"

section \<open>Calls\<close>

datatype service_call =
    Trigger_Kill_Switch TriggerKillSwitch
  | Release_Kill_Switch ReleaseKillSwitch
  | Re_Arm_Kill_Switch ReArmKillSwitch
  | Get_Kill_Switch EntityId string uuid
  | Create_Journal EntityId uuid
  | Ensure_Journal EntityId uuid
  | Append_Journal_Entry AppendJournalEntry
  | Get_Journal EntityId uuid
  | Query_Journal_Integrity EntityId uuid
  | Authorize_And_Start AuthorizeAndStartAttackAction
  | Abort_Attack_Action EntityId uuid string uuid
  | Complete_Attack_Action EntityId uuid "string option" "string option"
  | Fail_Attack_Action EntityId uuid string
  | Record_Action_Output EntityId uuid string string
  | Get_Attack_Action EntityId uuid
  | List_Attack_Actions EntityId uuid int int
  | Register_Execution_Worker RegisterExecutionWorker
  | Decommission_Execution_Worker EntityId uuid uuid
  | Record_Worker_Heartbeat EntityId uuid string
  | Get_Execution_Worker EntityId uuid
  | List_Available_Workers EntityId int int

fun exec_service ::
  "('d, 'k, 'r, 'p, 'q, 'x) service \<Rightarrow> fresh \<times> service_call \<Rightarrow> ('d, 'k, 'r, 'p, 'x, unit) use_case" where
  "exec_service sv (fr, Trigger_Kill_Switch cmd) = ignore_result (trigger_kill_switch sv fr cmd)"
| "exec_service sv (fr, Release_Kill_Switch cmd) = ignore_result (release_kill_switch sv fr cmd)"
| "exec_service sv (fr, Re_Arm_Kill_Switch cmd) = ignore_result (re_arm_kill_switch sv fr cmd)"
| "exec_service sv (fr, Get_Kill_Switch t sc ref) = ignore_result (get_kill_switch sv t sc ref)"
| "exec_service sv (fr, Create_Journal t e) = ignore_result (create_journal sv fr t e)"
| "exec_service sv (fr, Ensure_Journal t e) = ignore_result (ensure_journal_for_engagement sv fr t e)"
| "exec_service sv (fr, Append_Journal_Entry cmd) = ignore_result (append_journal_entry sv fr cmd)"
| "exec_service sv (fr, Get_Journal t e) = ignore_result (get_journal sv t e)"
| "exec_service sv (fr, Query_Journal_Integrity t e) = ignore_result (query_journal_integrity sv fr t e)"
| "exec_service sv (fr, Authorize_And_Start cmd) = ignore_result (authorize_and_start_attack_action sv fr cmd)"
| "exec_service sv (fr, Abort_Attack_Action t i r op) = ignore_result (abort_attack_action sv fr t i r op)"
| "exec_service sv (fr, Complete_Attack_Action t i h r) = ignore_result (complete_attack_action sv fr t i h r)"
| "exec_service sv (fr, Fail_Attack_Action t i r) = ignore_result (fail_attack_action sv fr t i r)"
| "exec_service sv (fr, Record_Action_Output t i h r) = ignore_result (record_action_output sv fr t i h r)"
| "exec_service sv (fr, Get_Attack_Action t i) = ignore_result (get_attack_action sv fr t i)"
| "exec_service sv (fr, List_Attack_Actions t i l k) = ignore_result (list_attack_actions_by_operation sv t i l k)"
| "exec_service sv (fr, Register_Execution_Worker cmd) = ignore_result (register_execution_worker sv fr cmd)"
| "exec_service sv (fr, Decommission_Execution_Worker t i op) = ignore_result (decommission_execution_worker sv fr t i op)"
| "exec_service sv (fr, Record_Worker_Heartbeat t i h) = ignore_result (record_worker_heartbeat sv fr t i h)"
| "exec_service sv (fr, Get_Execution_Worker t i) = ignore_result (get_execution_worker sv t i)"
| "exec_service sv (fr, List_Available_Workers t l k) = ignore_result (list_available_workers sv t l k)"

end
