(* ===== verification/Service_Laws.thy ===== *)
theory Service_Laws
  imports Execution_Service
begin

text \<open>
  Laws of the use cases of \<open>Execution_Service\<close>, over arbitrary repositories and ports: a use case that raises leaves the
  database as it was, except for the journal entry of a denial; a technique is dispatched only after every check; and what
  the order of the effects means where a later step fails.
\<close>

section \<open>Rollback\<close>

text \<open>Where \<open>m\<close> raises, the committed database is the one it started with, or the error is one of \<open>E\<close> (\<open>ends E m\<close>); where it
  returns, the committed database is the same, too (\<open>stays E m\<close>).\<close>

definition ends :: "'x service_error set \<Rightarrow> ('d, 'k, 'r, 'p, 'x, 'a) use_case \<Rightarrow> bool" where
  "ends E m \<longleftrightarrow> (\<forall>w e w'. m w = Raise e w' \<longrightarrow> wd_db w' = wd_db w \<or> e \<in> E)"

definition stays :: "'x service_error set \<Rightarrow> ('d, 'k, 'r, 'p, 'x, 'a) use_case \<Rightarrow> bool" where
  "stays E m \<longleftrightarrow> ends E m \<and> (\<forall>w a w'. m w = Return a w' \<longrightarrow> wd_db w' = wd_db w)"

definition denials :: "'x service_error set" where
  "denials = {Application (ApplicationAuthorizationError m c) |m c. True}"

named_theorems stays_intros

lemma stays_give [stays_intros]: "stays E (give a)"
  by (simp add: stays_def ends_def give_def)

lemma stays_throw [stays_intros]: "stays E (throw e)"
  by (simp add: stays_def ends_def throw_def)

lemma stays_attempt [stays_intros]: "stays E (attempt err v)"
  by (simp add: stays_def ends_def attempt_def split: sum.splits)

lemma stays_on_aggregate [stays_intros]: "stays E (on_aggregate err r)"
  by (simp add: stays_def ends_def on_aggregate_def split: outcome.splits)

lemma stays_found_or [stays_intros]: "stays E (found_or e r)"
  by (simp add: stays_def ends_def found_or_def give_def throw_def split: option.splits)

lemma stays_on_part: "(\<And>v w. wd_db (put v w) = wd_db w) \<Longrightarrow> stays E (on_part get put err m)"
  by (simp add: stays_def ends_def on_part_def split: outcome.splits)

lemma stays_load [stays_intros]: "stays E (load q)"
  by (simp add: stays_def ends_def load_def attempt_def split: sum.splits)

lemma stays_save [stays_intros]: "stays E (save f)"
  unfolding save_def by (rule stays_on_part) simp

lemma stays_saves [stays_intros]:
  "stays E (save_switch sv k)" "stays E (save_journal sv j)" "stays E (save_action sv a)" "stays E (save_worker sv v)"
  unfolding save_switch_def save_journal_def save_action_def save_worker_def
  by (simp_all add: stays_def ends_def and_then_def save_def on_part_def give_def split: outcome.splits)

lemma stays_publish [stays_intros]: "stays E (publish es)"
  by (simp add: stays_def ends_def publish_def)

lemma ends_and_then:
  assumes "stays E m" and "\<And>a. ends E (f a)"
  shows "ends E (and_then m f)"
  unfolding ends_def
proof (intro allI impI)
  fix w e w'
  assume r: "and_then m f w = Raise e w'"
  show "wd_db w' = wd_db w \<or> e \<in> E"
  proof (cases "m w")
    case (Raise e' v)
    then show ?thesis using assms(1) r by (auto simp: and_then_def stays_def ends_def)
  next
    case (Return a v)
    then have "wd_db v = wd_db w" using assms(1) by (simp add: stays_def)
    moreover have "f a v = Raise e w'" using Return r by (simp add: and_then_def)
    ultimately show ?thesis using assms(2) [of a] unfolding ends_def by metis
  qed
qed

lemma stays_and_then [stays_intros]:
  assumes "stays E m" and "\<And>a. stays E (f a)"
  shows "stays E (and_then m f)"
proof -
  have "ends E (and_then m f)"
    using assms(1) by (rule ends_and_then) (use assms(2) in \<open>simp add: stays_def\<close>)
  moreover have "wd_db w' = wd_db w" if "and_then m f w = Return b w'" for w b w'
  proof (cases "m w")
    case (Return a v)
    then have "wd_db v = wd_db w" using assms(1) by (simp add: stays_def)
    moreover have "f a v = Return b w'" using Return that by (simp add: and_then_def)
    ultimately show ?thesis using assms(2) [of a] by (simp add: stays_def)
  qed (use that in \<open>simp add: and_then_def\<close>)
  ultimately show ?thesis by (simp add: stays_def)
qed

lemma stays_if [stays_intros]: "stays E m \<Longrightarrow> stays E n \<Longrightarrow> stays E (if c then m else n)"
  by simp

lemma stays_case_option [stays_intros]: "stays E m \<Longrightarrow> (\<And>a. stays E (f a)) \<Longrightarrow> stays E (case r of None \<Rightarrow> m | Some a \<Rightarrow> f a)"
  by (cases r) simp_all

lemma stays_sync [stays_intros]: "stays E (sync_kill_switch_store sv k)"
  unfolding sync_kill_switch_store_def by (intro stays_intros stays_on_part) simp

lemma stays_ports [stays_intros]: "stays E (on_part wd_ports (\<lambda>p w. w\<lparr>wd_ports := p\<rparr>) err m)"
  by (rule stays_on_part) simp

lemma stays_check_payload [stays_intros]: "stays E (check_payload sv cmd)"
  unfolding check_payload_def by (auto intro!: stays_intros split: option.splits)

lemma stays_dispatch [stays_intros]: "stays E (dispatch_to sv i v inp pid h)"
  by (simp add: stays_def ends_def dispatch_to_def on_part_def split: outcome.splits)

lemma stays_signal_abort [stays_intros]: "stays E (signal_abort_to sv i r)"
  by (simp add: stays_def ends_def signal_abort_to_def on_part_def split: outcome.splits)

lemma stays_run_gate [stays_intros]: "stays E (run_gate sv fr az)"
  by (simp add: stays_def ends_def run_gate_def on_part_def split: outcome.splits)

lemma stays_journal_append [stays_intros]: "stays E (journal_append sv fr t en ty c a s)"
  unfolding journal_append_def by (intro stays_intros)

lemma stays_journal_if_present [stays_intros]: "stays E (journal_if_present sv fr t en ty c a s)"
  unfolding journal_if_present_def by (intro stays_intros)

lemma stays_journal_kill_switch [stays_intros]: "stays E (journal_kill_switch sv fr t sc ref r op)"
  unfolding journal_kill_switch_def by (intro stays_intros)

lemma stays_finds [stays_intros]:
  "stays E (find_worker sv i t)" "stays E (find_action sv j t)" "stays E (load_worker sv j t)" "stays E (countersign_of cmd)"
  unfolding find_worker_def find_action_def load_worker_def countersign_of_def by (intro stays_intros)+

text \<open>From the commit on nothing raises, but for the denial.\<close>

lemma ends_stays: "stays E m \<Longrightarrow> ends E m"
  by (simp add: stays_def)

lemma ends_commit: "(\<And>w e w'. f () w = Raise e w' \<Longrightarrow> e \<in> E) \<Longrightarrow> ends E (and_then (commit sv) f)"
  by (auto simp: ends_def and_then_def commit_def split: sum.splits)

lemma ends_published: "ends E (and_then (commit sv) (\<lambda>_. and_then (publish es) (\<lambda>_. give x)))"
  by (rule ends_commit) (simp add: and_then_def publish_def give_def)

lemma ends_in_uow: "ends E m \<Longrightarrow> ends E (in_uow m)"
  by (fastforce simp: ends_def in_uow_def split: outcome.splits)

lemma ends_if: "ends E m \<Longrightarrow> ends E n \<Longrightarrow> ends E (if c then m else n)"
  by simp

lemma ends_case_option: "ends E m \<Longrightarrow> (\<And>a. ends E (f a)) \<Longrightarrow> ends E (case r of None \<Rightarrow> m | Some a \<Rightarrow> f a)"
  by (cases r) simp_all

lemma ends_case_outcome:
  "(\<And>e t. ends E (f e t)) \<Longrightarrow> (\<And>a t. ends E (g a t)) \<Longrightarrow> ends E (case r of Raise e t \<Rightarrow> f e t | Return a t \<Rightarrow> g a t)"
  by (cases r) simp_all

lemma ends_mono: "ends {} m \<Longrightarrow> ends E m"
  by (auto simp: ends_def)

lemma ends_ignore_result: "ends E m \<Longrightarrow> ends E (ignore_result m)"
  by (auto simp: ends_def ignore_result_def split: outcome.splits)

lemmas ends_intros = ends_published ends_in_uow ends_if ends_case_option ends_case_outcome ends_and_then

lemma ends_finish [intro]: "ends E (finish_action sv a j)" "ends E (store_worker sv v)"
  unfolding finish_action_def store_worker_def by (intro ends_intros stays_intros)+

lemma ends_deny: "ends denials (deny sv fr t en f cmd msg)"
  unfolding deny_def journal_authorization_failure_def
  by (intro ends_and_then stays_intros ends_commit)
    (auto simp: and_then_def publish_def give_def throw_def denials_def split: option.splits)

lemma deny_raises: "deny sv fr t en f cmd msg w \<noteq> Return a w'"
  by (simp add: deny_def and_then_def publish_def give_def throw_def split: outcome.splits option.splits)

lemma stays_deny: "stays denials (deny sv fr t en f cmd msg)"
  by (simp add: stays_def ends_deny deny_raises)

lemma ends_start_action: "ends denials (start_action sv fr cmd tq v tk)"
  unfolding start_action_def hand_to_worker_def
  by (intro ends_published ends_and_then stays_intros stays_deny)

lemma ends_authorize: "ends denials (authorize_and_start_attack_action sv fr cmd)"
  unfolding authorize_and_start_attack_action_def
  by (intro ends_in_uow ends_and_then ends_if ends_case_option ends_start_action ends_deny ends_stays [OF stays_give] stays_intros)

lemma ends_switches:
  "ends E (trigger_kill_switch sv fr tcmd)" "ends E (release_kill_switch sv fr rcmd)" "ends E (re_arm_kill_switch sv fr acmd)"
  "ends E (get_kill_switch sv t sc ref)"
  unfolding trigger_kill_switch_def release_kill_switch_def re_arm_kill_switch_def get_kill_switch_def
  by (intro ends_intros ends_stays [OF stays_give] stays_intros)+

lemma ends_journals:
  "ends E (create_journal sv fr t en)" "ends E (ensure_journal_for_engagement sv fr t en)" "ends E (append_journal_entry sv fr jcmd)"
  "ends E (get_journal sv t en)" "ends E (query_journal_integrity sv fr t en)"
  unfolding create_journal_def ensure_journal_for_engagement_def append_journal_entry_def get_journal_def query_journal_integrity_def
  by (intro ends_intros ends_stays [OF stays_give] ends_stays [OF stays_throw] stays_intros)+

lemma ends_actions:
  "ends E (abort_attack_action sv fr t i r op)" "ends E (complete_attack_action sv fr t i h ref)" "ends E (fail_attack_action sv fr t i r)"
  "ends E (record_action_output sv fr t i out ref')" "ends E (get_attack_action sv fr t i)" "ends E (list_attack_actions_by_operation sv t i l k)"
  unfolding abort_attack_action_def complete_attack_action_def fail_attack_action_def record_action_output_def get_attack_action_def
    list_attack_actions_by_operation_def
  by (intro ends_finish ends_intros ends_stays [OF stays_give] ends_stays [OF stays_throw] stays_intros)+

lemma ends_workers:
  "ends E (register_execution_worker sv fr wcmd)" "ends E (decommission_execution_worker sv fr t i op)"
  "ends E (record_worker_heartbeat sv fr t i h)" "ends E (get_execution_worker sv t i)" "ends E (list_available_workers sv t l k)"
  unfolding register_execution_worker_def decommission_execution_worker_def record_worker_heartbeat_def get_execution_worker_def
    list_available_workers_def
  by (intro ends_finish ends_intros ends_stays [OF stays_give] stays_intros)+

section \<open>Dispatch\<close>

text \<open>The part of the world that neither the database nor the publisher holds.\<close>

definition outside :: "('d, 'k, 'r, 'p) world \<Rightarrow> port_call list \<times> 'k \<times> 'r \<times> 'p" where
  "outside w = (wd_calls w, wd_switch_store w, wd_rate_store w, wd_ports w)"

definition internal :: "('d, 'k, 'r, 'p, 'x, 'a) use_case \<Rightarrow> bool" where
  "internal m \<longleftrightarrow> (\<forall>w. outside (final (m w)) = outside w)"

named_theorems internal_intros

lemma internal_basic [internal_intros]:
  "internal (give a)" "internal (throw e)" "internal (attempt err v)" "internal (on_aggregate err r)" "internal (load q)"
  "internal (save f)" "internal (commit sv)" "internal (publish es)"
  by (simp_all add: internal_def outside_def give_def throw_def attempt_def on_aggregate_def load_def save_def on_part_def commit_def
    publish_def split: sum.splits outcome.splits)

lemma internal_and_then [internal_intros]:
  assumes "internal m" and "\<And>a. internal (f a)"
  shows "internal (and_then m f)"
  unfolding internal_def
proof
  fix w
  have "outside (final (m w)) = outside w" using assms(1) by (simp add: internal_def)
  then show "outside (final (and_then m f w)) = outside w"
    using assms(2) by (cases "m w") (simp_all add: and_then_def internal_def)
qed

lemma internal_case_option [internal_intros]:
  "internal m \<Longrightarrow> (\<And>a. internal (f a)) \<Longrightarrow> internal (case r of None \<Rightarrow> m | Some a \<Rightarrow> f a)"
  by (cases r) simp_all

lemma internal_found_or [internal_intros]: "internal (found_or e r)"
  unfolding found_or_def by (intro internal_intros)

lemma internal_saves [internal_intros]:
  "internal (save_switch sv k)" "internal (save_journal sv j)" "internal (save_action sv a)" "internal (save_worker sv v)"
  unfolding save_switch_def save_journal_def save_action_def save_worker_def by (intro internal_intros)+

lemma internal_parts [internal_intros]:
  "internal (find_worker sv i t)" "internal (journal_append sv fr t en ty c a s)" "internal (deny sv fr t en f cmd msg)"
  unfolding find_worker_def journal_append_def deny_def journal_authorization_failure_def by (intro internal_intros)+

lemma triple_internal:
  assumes "internal m" and "\<And>e w. outside w = u \<Longrightarrow> R e w"
  shows "triple (\<lambda>w. outside w = u) m (\<lambda>_ w. outside w = u) R"
proof -
  have "outside w = u \<Longrightarrow> outside (final (m w)) = u" for w using assms(1) by (simp add: internal_def)
  then show ?thesis using assms(2) by (fastforce simp: triple_def split: outcome.splits)
qed

text \<open>The payload port approved the payload, and its hash, when asked in the state \<open>p\<close>, leaving the port in the state \<open>p'\<close>.\<close>

definition payload_approved :: "('d, 'k, 'r, 'p, 'q, 'x) service \<Rightarrow> AuthorizeAndStartAttackAction \<Rightarrow> 'p \<Rightarrow> 'p \<Rightarrow> bool" where
  "payload_approved sv cmd p p' =
     (case (as_payload_id cmd, sv_payload_query sv) of
        (Some i, Some q) \<Rightarrow> (\<exists>check. q (as_tenant_id cmd) i (as_expected_payload_hash cmd) p = Return check p' \<and> pd_approved check \<and> pd_hash_ok check)
      | _ \<Rightarrow> p' = p)"

text \<open>The gate of the service, over the present content of the kill-switch store and the rate-limit store, passes all five checks
  for the command and the worker.\<close>

definition gate_passed ::
  "('d, 'k, 'r, 'p, 'q, 'x) service \<Rightarrow> fresh \<Rightarrow> AuthorizeAndStartAttackAction \<Rightarrow> TechniqueRef \<Rightarrow> RateLimitPolicy \<Rightarrow> ExecutionWorker option
     \<Rightarrow> 'k \<Rightarrow> 'r \<Rightarrow> bool" where
  "gate_passed sv fr cmd technique policy worker k r \<longleftrightarrow>
     (let g = sv_gate sv k (fr_clock fr); az = gate_args cmd fr technique policy worker in
      \<exists>sn r'. gt_get_scope_snapshot g (as_engagement_id cmd) (as_tenant_id cmd) = Inr sn \<and> switch_armed g az \<and> in_scope sn az \<and>
        rate_evaluation g az r = Return PERMITTED r' \<and> in_window sn (fr_now fr) \<and> (\<forall>v. worker = Some v \<longrightarrow> verify v technique))"

lemma payload_failure_None: "payload_failure_reason check = None \<longleftrightarrow> pd_approved check \<and> pd_hash_ok check"
  by (simp add: payload_failure_reason_def)

lemma triple_check_payload:
  assumes "\<And>e w. wd_calls w = cs \<Longrightarrow> R e w"
  shows "triple (\<lambda>w. outside w = (cs, k, r, p)) (check_payload sv cmd)
    (\<lambda>failure w. \<exists>p'. outside w = (cs, k, r, p') \<and> (failure = None \<longrightarrow> payload_approved sv cmd p p')) R"
  using assms
  by (cases "as_payload_id cmd"; cases "sv_payload_query sv")
    (auto simp: triple_def check_payload_def outside_def give_def payload_approved_def and_then_def on_part_def payload_failure_None
      split: outcome.splits)

lemma triple_run_gate:
  assumes "\<And>e w. wd_calls w = cs \<Longrightarrow> R e w"
  shows "triple (\<lambda>w. outside w = (cs, k, r, p)) (run_gate sv fr (gate_args cmd fr technique policy worker))
    (\<lambda>result w. \<exists>r'. outside w = (cs, k, r', p) \<and> (permitted_result result \<longrightarrow> gate_passed sv fr cmd technique policy worker k r)) R"
proof -
  have gate: "gate_passed sv fr cmd technique policy worker k r"
    if run: "authorize (sv_gate sv k (fr_clock fr)) (fr_token_id fr) (gate_args cmd fr technique policy worker) r = Return result r'"
      and ok: "permitted_result result" for result r'
  proof -
    obtain tk where "ar_token result = Some tk" using ok by (auto simp: permitted_result_def)
    from authorize_token [OF run this] show ?thesis
      by (auto simp: gate_passed_def Let_def gate_args_def)
  qed
  show ?thesis
    using assms gate by (auto simp: triple_def run_gate_def on_part_def outside_def split: outcome.splits)
qed

text \<open>What a call of the port by the use case must rest on, and the worker branch.\<close>

definition dispatched ::
  "('d, 'k, 'r, 'p, 'q, 'x) service \<Rightarrow> fresh \<Rightarrow> AuthorizeAndStartAttackAction \<Rightarrow> port_call list \<Rightarrow> 'k \<Rightarrow> 'r \<Rightarrow> 'p \<Rightarrow> port_call list \<Rightarrow> bool" where
  "dispatched sv fr cmd cs k r p cs' \<longleftrightarrow> cs' = cs \<or>
     (\<exists>technique policy v p' p''. cs' = cs @ [Dispatch (fr_action_id fr) (wk_worker_id v) (as_action_parameters cmd) (as_payload_id cmd)
          (as_expected_payload_hash cmd)] \<and>
        gate_passed sv fr cmd technique policy (Some v) k r \<and> payload_approved sv cmd p p' \<and> payload_approved sv cmd p' p'')"

lemma dispatched_refl [simp]: "dispatched sv fr cmd cs k r p cs"
  by (simp add: dispatched_def)

lemma assign_action_id: "assign_action t i tq now v = Return u v' \<Longrightarrow> wk_worker_id v' = wk_worker_id v"
  by (auto simp: worker_eval split: if_splits)

lemma start_id: "start t now a = Return u a' \<Longrightarrow> aa_action_id a' = aa_action_id a"
  by (auto simp: action_eval split: if_splits)

lemma triple_save_worker:
  assumes "\<And>e w. outside w = u \<Longrightarrow> R e w"
  shows "triple (\<lambda>w. outside w = u) (save_worker sv v) (\<lambda>v' w. outside w = u \<and> wk_worker_id v' = wk_worker_id v) R"
  unfolding save_worker_def
  by (rule triple_and_then [OF triple_internal triple_give]) (auto intro: internal_intros assms)

lemma triple_deny:
  assumes "\<And>e w. outside w = u \<Longrightarrow> R e w"
  shows "triple (\<lambda>w. outside w = u) (deny sv fr t en f cmd msg) Q R"
proof -
  have "triple (\<lambda>w. outside w = u) (deny sv fr t en f cmd msg) (\<lambda>_ w. outside w = u) R"
    by (rule triple_internal) (intro internal_intros, fact assms)
  then show ?thesis by (auto simp: triple_def deny_raises split: outcome.splits)
qed

lemma triple_dispatch_to:
  assumes "\<And>w. wd_calls w = cs @ [Dispatch i v inp pid h] \<Longrightarrow> Q () w" and "\<And>e w. wd_calls w = cs @ [Dispatch i v inp pid h] \<Longrightarrow> R e w"
  shows "triple (\<lambda>w. outside w = (cs, k, r, p)) (dispatch_to sv i v inp pid h) Q R"
  using assms by (auto simp: triple_def dispatch_to_def on_part_def outside_def split: outcome.splits)

lemma triple_hand_to_worker:
  fixes sv :: "('d, 'k, 'r, 'p, 'q, 'x) service"
  assumes gate: "gate_passed sv fr cmd technique policy (Some v) k r0" "payload_approved sv cmd p0 p" "aa_action_id a = fr_action_id fr"
  shows "triple (\<lambda>w. outside w = (cs, k, r, p)) (hand_to_worker sv fr cmd technique a v)
    (\<lambda>_ w. dispatched sv fr cmd cs k r0 p0 (wd_calls w)) (\<lambda>_ w. dispatched sv fr cmd cs k r0 p0 (wd_calls w))"
    (is "triple ?P ?m (\<lambda>_. ?Q) (\<lambda>_. ?Q)")
proof -
  have quiet: "?Q w" if "wd_calls w = cs" for w :: "('d, 'k, 'r, 'p) world" using that by simp
  have sent: "?Q w" if "wd_calls w = cs @ [Dispatch (aa_action_id a) (wk_worker_id v') (as_action_parameters cmd)
      (as_payload_id cmd) (as_expected_payload_hash cmd)]" and "wk_worker_id v' = wk_worker_id v" and "payload_approved sv cmd p p'"
    for w :: "('d, 'k, 'r, 'p) world" and v' p'
    using that gate unfolding dispatched_def by metis
  have out: "?Q w" if "outside w = (cs, k', r', p')" for w :: "('d, 'k, 'r, 'p) world" and k' r' p'
    using that by (simp add: outside_def)
  have assigned: "triple ?P (on_aggregate Domain (assign_action t i technique now v)) (\<lambda>v' w. ?P w \<and> wk_worker_id v' = wk_worker_id v) (\<lambda>_. ?Q)"
    for t i now by (rule triple_on_aggregate) (auto simp: assign_action_id intro: out)
  have saved: "triple ?P (save_worker sv v') (\<lambda>v'' w. ?P w \<and> wk_worker_id v'' = wk_worker_id v') (\<lambda>_. ?Q)" for v'
    by (rule triple_save_worker) (rule out)
  have checked: "triple (\<lambda>w. \<exists>p'. outside w = (cs, k, r, p') \<and> (f = None \<longrightarrow> payload_approved sv cmd p p'))
      (if f \<noteq> None then deny sv fr t en f cmd msg else give ())
      (\<lambda>_ w. \<exists>p'. outside w = (cs, k, r, p') \<and> payload_approved sv cmd p p') (\<lambda>_. ?Q)" for f t en msg
    by (rule triple_ex, rule triple_pure, rule triple_if) (auto intro!: triple_deny triple_give out)
  have sending: "triple (\<lambda>w. \<exists>p'. outside w = (cs, k, r, p') \<and> payload_approved sv cmd p p')
      (dispatch_to sv (aa_action_id a) (wk_worker_id v') (as_action_parameters cmd) (as_payload_id cmd) (as_expected_payload_hash cmd))
      (\<lambda>_. ?Q) (\<lambda>_. ?Q)" if "wk_worker_id v' = wk_worker_id v" for v'
    by (rule triple_ex, rule triple_pure, rule triple_dispatch_to) (use that in \<open>blast intro: sent\<close>)+
  show ?thesis
    unfolding hand_to_worker_def
  proof (rule triple_and_then [OF assigned], rule triple_pure, rule triple_and_then [OF saved], rule triple_pure,
      rule triple_and_then [OF triple_check_payload], rule quiet, assumption, rule triple_and_then [OF checked])
    fix v' v'' f u
    assume "wk_worker_id v' = wk_worker_id v" "wk_worker_id v'' = wk_worker_id v'"
    then have "wk_worker_id v'' = wk_worker_id v" by simp
    from triple_and_then [OF sending [OF this] triple_give]
    show "triple (\<lambda>w. \<exists>p'. outside w = (cs, k, r, p') \<and> payload_approved sv cmd p p')
      (and_then (dispatch_to sv (aa_action_id a) (wk_worker_id v'') (as_action_parameters cmd) (as_payload_id cmd)
        (as_expected_payload_hash cmd)) (\<lambda>_. give v'')) (\<lambda>_. ?Q) (\<lambda>_. ?Q)" .
  qed
qed

lemma triple_internal_calls:
  assumes "internal m"
  shows "triple (\<lambda>w. S (wd_calls w)) m (\<lambda>_ w. S (wd_calls w)) (\<lambda>_ w. S (wd_calls w))"
proof -
  have "wd_calls (final (m w)) = wd_calls w" for w using assms by (simp add: internal_def outside_def)
  then show ?thesis by (auto simp: triple_def split: outcome.splits) (metis outcome.sel)+
qed

lemma created_id: "create_authorized i token inp now = Inr a \<Longrightarrow> aa_action_id a = i"
  using created_identity by (cases token) (auto simp: create_authorized_def identity_part_def)

lemma triple_start_action:
  fixes sv :: "('d, 'k, 'r, 'p, 'q, 'x) service"
  assumes gate: "gate_passed sv fr cmd technique policy worker k r0" "payload_approved sv cmd p0 p"
  shows "triple (\<lambda>w. outside w = (cs, k, r, p)) (start_action sv fr cmd technique worker token)
    (\<lambda>_ w. dispatched sv fr cmd cs k r0 p0 (wd_calls w)) (\<lambda>_ w. dispatched sv fr cmd cs k r0 p0 (wd_calls w))"
    (is "triple ?P ?m (\<lambda>_. ?Q) (\<lambda>_. ?Q)")
proof -
  have out: "?Q w" if "outside w = (cs, k', r', p')" for w :: "('d, 'k, 'r, 'p) world" and k' r' p'
    using that by (simp add: outside_def)
  have created: "triple ?P (attempt Domain (create_authorized (fr_action_id fr) token inp now))
      (\<lambda>a w. ?P w \<and> aa_action_id a = fr_action_id fr) (\<lambda>_. ?Q)" for inp now
    by (rule triple_attempt) (auto simp: created_id intro: out)
  have started: "triple ?P (on_aggregate Domain (start t now a)) (\<lambda>a' w. ?P w \<and> aa_action_id a' = aa_action_id a) (\<lambda>_. ?Q)" for t now a
    by (rule triple_on_aggregate) (auto simp: start_id intro: out)
  have handed: "triple ?P (case worker of None \<Rightarrow> give None
       | Some v \<Rightarrow> and_then (hand_to_worker sv fr cmd technique a v) (\<lambda>v. give (Some v))) (\<lambda>_. ?Q) (\<lambda>_. ?Q)"
    if "aa_action_id a = fr_action_id fr" for a
  proof (cases worker)
    case None
    then show ?thesis by (auto intro!: triple_give out)
  next
    case (Some v)
    then show ?thesis
      using triple_and_then [OF triple_hand_to_worker triple_give, OF _ gate(2) that] gate(1) by simp
  qed
  show ?thesis
    unfolding start_action_def
    by (rule triple_and_then [OF created], rule triple_pure, rule triple_and_then [OF started], rule triple_pure,
        rule triple_and_then [OF handed], simp, rule triple_internal_calls, intro internal_intros)
qed

lemma outside_session [simp]: "outside (w\<lparr>wd_session := d\<rparr>) = outside w"
  by (simp add: outside_def)

lemma triple_in_uow_outside:
  assumes "triple (\<lambda>w. outside w = u) m (\<lambda>_ w. S (wd_calls w)) (\<lambda>_ w. S (wd_calls w))"
  shows "triple (\<lambda>w. outside w = u) (in_uow m) (\<lambda>_ w. S (wd_calls w)) (\<lambda>_ w. S (wd_calls w))"
  by (rule triple_in_uow, rule triple_weaken [OF assms]) auto

lemma dispatch_checked:
  "dispatched sv fr cmd (wd_calls w) (wd_switch_store w) (wd_rate_store w) (wd_ports w)
     (wd_calls (final (authorize_and_start_attack_action sv fr cmd w)))"
proof -
  obtain cs k r p where w: "outside w = (cs, k, r, p)" by (cases "outside w")
  let ?P = "\<lambda>v. outside v = (cs, k, r, p)" and ?Q = "\<lambda>v. dispatched sv fr cmd cs k r p (wd_calls v)"
  have out: "?Q v" if "outside v = (cs, k', r', p')" for v :: "('a, 'b, 'c, 'd) world" and k' r' p'
    using that by (simp add: outside_def)
  have internal: "triple ?P m (\<lambda>_. ?P) (\<lambda>_. ?Q)" if "internal m" for m :: "('a, 'b, 'c, 'd, 'f, 'g) use_case"
    using that by (rule triple_internal) (rule out)
  have gated: "triple (\<lambda>v. \<exists>p'. outside v = (cs, k, r, p') \<and> (failure = None \<longrightarrow> payload_approved sv cmd p p'))
      (if failure \<noteq> None then deny sv fr t en failure cmd msg
       else and_then (run_gate sv fr (gate_args cmd fr technique policy worker)) (\<lambda>result.
         if \<not> permitted_result result then deny sv fr t en (ar_failure_reason result) cmd msg
         else start_action sv fr cmd technique worker (ar_token result))) (\<lambda>_. ?Q) (\<lambda>_. ?Q)"
    for failure technique policy worker t en msg
  proof (rule triple_ex, rule triple_pure, rule triple_if)
    fix p'
    show "triple (\<lambda>v. outside v = (cs, k, r, p')) (deny sv fr t en failure cmd msg) (\<lambda>_. ?Q) (\<lambda>_. ?Q)"
      by (rule triple_deny) (rule out)
    assume "failure = None \<longrightarrow> payload_approved sv cmd p p'" "\<not> failure \<noteq> None"
    then have approved: "payload_approved sv cmd p p'" by simp
    show "triple (\<lambda>v. outside v = (cs, k, r, p')) (and_then (run_gate sv fr (gate_args cmd fr technique policy worker)) (\<lambda>result.
         if \<not> permitted_result result then deny sv fr t en (ar_failure_reason result) cmd msg
         else start_action sv fr cmd technique worker (ar_token result))) (\<lambda>_. ?Q) (\<lambda>_. ?Q)"
      by (rule triple_and_then [OF triple_run_gate], simp, rule triple_ex, rule triple_pure, rule triple_if)
        (auto intro!: triple_deny out triple_start_action approved)
  qed
  have "triple ?P (authorize_and_start_attack_action sv fr cmd) (\<lambda>_. ?Q) (\<lambda>_. ?Q)"
    unfolding authorize_and_start_attack_action_def
    by ((rule triple_and_then [OF internal], intro internal_intros)+, rule triple_in_uow_outside,
        rule triple_and_then [OF internal], intro internal_intros, rule triple_case_option,
        (rule triple_and_then [OF internal], intro internal_intros)+, rule triple_and_then [OF triple_check_payload], simp, rule gated,
        rule triple_give, rule out)
  from triple_final [OF this w] w show ?thesis by (simp add: outside_def)
qed


section \<open>Denials\<close>

text \<open>Only a denial raises an authorization error in \<open>authorize_and_start_attack_action\<close>.\<close>

definition recorded :: "('d, 'k, 'r, 'p, 'q, 'x) service \<Rightarrow> fresh \<Rightarrow> AuthorizeAndStartAttackAction \<Rightarrow> string option \<Rightarrow> 'd \<Rightarrow> bool" where
  "recorded sv fr cmd check db \<longleftrightarrow>
     (\<exists>reason journal es d n d'. check = Some (AuthorizationFailureReason_value reason) \<and>
        jn_entries journal = es @ [new_entry (fr_entry_id fr) (failure_entry_type (Some reason)) (failure_content (Some reason) cmd)
          (fr_now fr) (Some (as_operator_id cmd)) None None es] \<and>
        rp_save_journal (sv_repositories sv) journal d = Return n d' \<and> rp_commit (sv_repositories sv) d' = Inr db)"

definition records :: "('d, 'k, 'r, 'p, 'q, 'x) service \<Rightarrow> fresh \<Rightarrow> AuthorizeAndStartAttackAction \<Rightarrow> ('d, 'k, 'r, 'p, 'x, 'a) use_case \<Rightarrow> bool" where
  "records sv fr cmd m \<longleftrightarrow>
     (\<forall>w message check w'. m w = Raise (Application (ApplicationAuthorizationError message check)) w' \<longrightarrow> recorded sv fr cmd check (wd_db w'))"

named_theorems records_intros

lemma records_basic [records_intros]:
  "records sv fr cmd (give a)" "records sv fr cmd (attempt Python v)" "records sv fr cmd (attempt Domain u)"
  "records sv fr cmd (on_aggregate Domain r)" "records sv fr cmd (load q)" "records sv fr cmd (save f)" "records sv fr cmd (commit sv')"
  "records sv fr cmd (publish es)" "records sv fr cmd (on_part get put External n)"
  by (simp_all add: records_def give_def attempt_def on_aggregate_def load_def save_def on_part_def commit_def publish_def
    split: sum.splits outcome.splits)

lemma records_validators [records_intros]:
  "records sv fr cmd (attempt Application (validate_uuid v field))" "records sv fr cmd (attempt Application (validate_str str field n))"
  by (simp_all add: records_def attempt_def validate_uuid_def validate_str_def split: sum.splits)

lemma records_and_then [records_intros]:
  "records sv fr cmd m \<Longrightarrow> (\<And>a. records sv fr cmd (f a)) \<Longrightarrow> records sv fr cmd (and_then m f)"
  by (auto simp: records_def and_then_def split: outcome.splits)

lemma records_found_or: "(\<And>m c. e \<noteq> Application (ApplicationAuthorizationError m c)) \<Longrightarrow> records sv fr cmd (found_or e r)"
  by (simp add: records_def found_or_def give_def throw_def split: option.splits)

lemma records_case_option [records_intros]:
  "records sv fr cmd m \<Longrightarrow> (\<And>a. r = Some a \<Longrightarrow> records sv fr cmd (f a)) \<Longrightarrow> records sv fr cmd (case r of None \<Rightarrow> m | Some a \<Rightarrow> f a)"
  by (cases r) simp_all

lemma records_saves [records_intros]:
  "records sv fr cmd (save_journal sv' j)" "records sv fr cmd (save_action sv' a)" "records sv fr cmd (save_worker sv' v)"
  unfolding save_journal_def save_action_def save_worker_def by (intro records_intros)+

lemma records_parts [records_intros]:
  "records sv fr cmd (find_worker sv' i t)" "records sv fr cmd (journal_append sv' fr' t en ty c a s)"
  "records sv fr cmd (check_payload sv' cmd')" "records sv fr cmd (dispatch_to sv' j v inp pid h)" "records sv fr cmd (run_gate sv' fr' az)"
  subgoal unfolding find_worker_def by (intro records_intros records_found_or) simp
  subgoal unfolding journal_append_def by (intro records_intros)
  subgoal unfolding check_payload_def by (auto intro!: records_intros split: option.splits)
  subgoal by (simp add: records_def dispatch_to_def on_part_def split: outcome.splits)
  subgoal by (simp add: records_def run_gate_def on_part_def split: outcome.splits sum.splits)
  done

text \<open>The denial itself.\<close>

lemma append_entry_entries:
  "append_entry i t ty c now a s ref j = Return e j' \<Longrightarrow> jn_entries j' = jn_entries j @ [new_entry i ty c now a s ref (jn_entries j)]"
  by (auto simp: journal_eval split: if_splits)

lemma records_deny: "records sv fr cmd (deny sv fr t en (Some reason) cmd msg)"
  unfolding records_def
proof (intro allI impI)
  fix w message check w'
  assume "deny sv fr t en (Some reason) cmd msg w = Raise (Application (ApplicationAuthorizationError message check)) w'"
  then obtain j' j n d' d found where check: "check = Some (AuthorizationFailureReason_value reason)"
      and j: "append_entry (fr_entry_id fr) t (failure_entry_type (Some reason)) (failure_content (Some reason) cmd) (fr_now fr)
        (Some (as_operator_id cmd)) None None j = Return found j'"
      and saved: "rp_save_journal (sv_repositories sv) j' d = Return n d'"
      and db: "rp_commit (sv_repositories sv) d' = Inr (wd_db w')"
    by (auto simp: deny_def journal_authorization_failure_def journal_append_def and_then_def load_def attempt_def give_def
        on_aggregate_def save_journal_def save_def on_part_def commit_def publish_def throw_def
      split: outcome.splits sum.splits option.splits)
  from append_entry_entries [OF j] check saved db show "recorded sv fr cmd check (wd_db w')" unfolding recorded_def by blast
qed

lemma authorize_denied: "authorize g i az s = Return r s' \<Longrightarrow> \<not> permitted_result r \<Longrightarrow> \<exists>reason. ar_failure_reason r = Some reason"
  by (auto simp: authorize_unfold denied_def permitted_result_def split: if_splits outcome.splits option.splits sum.splits prod.splits)

lemma records_gate:
  assumes "\<And>reason. records sv fr cmd (f (Some reason))" and "\<And>tk. records sv fr cmd (g tk)"
  shows "records sv fr cmd (and_then (run_gate sv fr' az) (\<lambda>result. if \<not> permitted_result result then f (ar_failure_reason result) else g (ar_token result)))"
  unfolding records_def
proof (intro allI impI)
  fix w message check w'
  assume r: "and_then (run_gate sv fr' az) (\<lambda>result. if \<not> permitted_result result then f (ar_failure_reason result) else g (ar_token result)) w =
    Raise (Application (ApplicationAuthorizationError message check)) w'"
  then obtain result v where v: "run_gate sv fr' az w = Return result v"
    using records_parts(5) by (cases "run_gate sv fr' az w")
      (auto simp: and_then_def run_gate_def on_part_def split: outcome.splits sum.splits)
  show "recorded sv fr cmd check (wd_db w')"
  proof (cases "permitted_result result")
    case True
    then show ?thesis using r v assms(2) by (auto simp: and_then_def records_def)
  next
    case False
    then obtain reason where "ar_failure_reason result = Some reason"
      using v by (auto simp: run_gate_def on_part_def dest!: authorize_denied split: outcome.splits)
    then show ?thesis using r v assms(1) False by (auto simp: and_then_def records_def)
  qed
qed

lemma records_in_uow: "records sv fr cmd m \<Longrightarrow> records sv fr cmd (in_uow m)"
  by (fastforce simp: records_def in_uow_def split: outcome.splits)

lemma records_deny_if:
  "records sv fr cmd m \<Longrightarrow> records sv fr cmd (if f \<noteq> None then deny sv fr t en f cmd msg else m)"
  by (cases f) (simp_all add: records_deny)

lemma records_start_action: "records sv fr cmd (start_action sv fr cmd tq v tk)"
  unfolding start_action_def hand_to_worker_def by (intro records_intros records_deny_if)

end
