(* ===== verification/Kill_Switch_Service.thy ===== *)
theory Kill_Switch_Service
  imports Service_Laws
begin

text \<open>
  The service as \<open>ExecutionContainer\<close> (\<open>execution/infrastructure/container.py\<close>) wires it: the in-memory kill-switch and rate-limit
  stores, the in-memory technique dispatcher (\<open>infrastructure/technique/in_memory_dispatcher.py\<close>) and the degraded adapters
  (\<open>infrastructure/acl/degraded_adapters.py\<close>). Shown: a triggered kill switch stops every dispatch it covers until it is released or
  re-armed, over every sequence of calls of the service; and the kill-switch store is written before the commit.
\<close>

section \<open>The container\<close>

record in_memory_ports =
  ip_dispatched :: "(string \<times> string \<times> string option \<times> string option) list"
  ip_aborted :: "(string \<times> string) list"
  ip_payload_calls :: "(EntityId \<times> uuid \<times> string option) list"

definition dispatch :: "uuid \<Rightarrow> WorkerRef \<Rightarrow> ActionInput \<Rightarrow> uuid option \<Rightarrow> string option \<Rightarrow> ('x, in_memory_ports) step" where
  "dispatch action_id worker_ref action_input payload_id expected_payload_hash =
     assign (\<lambda>p. p\<lparr>ip_dispatched := ip_dispatched p @
       [(uuid_str action_id, uuid_str worker_ref, map_option uuid_str payload_id, expected_payload_hash)]\<rparr>)"

definition signal_abort :: "uuid \<Rightarrow> string \<Rightarrow> ('x, in_memory_ports) step" where
  "signal_abort action_id reason = assign (\<lambda>p. p\<lparr>ip_aborted := ip_aborted p @ [(uuid_str action_id, reason)]\<rparr>)"

definition verify_for_dispatch ::
  "EntityId \<Rightarrow> uuid \<Rightarrow> string option \<Rightarrow> in_memory_ports \<Rightarrow> ('x, PayloadDispatchCheck, in_memory_ports) outcome" where
  "verify_for_dispatch tenant_id payload_id expected p =
     (let p' = p\<lparr>ip_payload_calls := ip_payload_calls p @ [(tenant_id, payload_id, expected)]\<rparr> in
      if uint payload_id = 0 then Return \<lparr>pd_approved = True, pd_hash_ok = True, pd_failure_reason = None\<rparr> p'
      else Return \<lparr>pd_approved = True, pd_hash_ok = True, pd_failure_reason = None\<rparr> p')"

definition degraded_scope_snapshot :: "uuid \<Rightarrow> EntityId \<Rightarrow> 'x + ScopeSnapshot" where
  "degraded_scope_snapshot engagement_id tenant_id =
     Inr \<lparr>sn_engagement_id = engagement_id, sn_tenant_id = tenant_id, sn_authorized_target_ids = {}, sn_scope_hash = [],
       sn_engagement_version = 0, sn_state = ''Unknown'', sn_window_start = None, sn_window_end = None,
       sn_allowed_techniques = {}, sn_kill_switch_field_hint = None, sn_degraded = True\<rparr>"

text \<open>The repositories over the database, \<open>EntityId.to_uuid\<close> and the engagement's scope port are arguments; errors of the
  in-memory store are the left summand.\<close>

definition execution_container ::
  "('d, StoreError + 'y) repositories \<Rightarrow> (EntityId \<Rightarrow> uuid) \<Rightarrow> (uuid \<Rightarrow> EntityId \<Rightarrow> (StoreError + 'y) + ScopeSnapshot)
     \<Rightarrow> ('d, InMemoryKillSwitchStore, InMemoryRateLimitStore, in_memory_ports, StoreError, StoreError + 'y) service" where
  "execution_container repositories to_uuid engagement_scope =
     \<lparr>sv_repositories = repositories,
      sv_gate = (\<lambda>store clock. memory_gate (memory_get_state store) to_uuid engagement_scope clock),
      sv_kill_switch_store_sync = Some (\<lambda>k s. case memory_set_state k s of Raise e t \<Rightarrow> Raise (Inl e) t | Return _ t \<Rightarrow> Return () t),
      sv_payload_query = Some verify_for_dispatch,
      sv_dispatch = dispatch, sv_signal_abort = signal_abort\<rparr>"

text \<open>With the degraded scope adapter nothing is ever in scope.\<close>

lemma degraded_scope_denies: "degraded_scope_snapshot en t = Inr sn \<Longrightarrow> \<not> in_scope sn az"
  by (auto simp: degraded_scope_snapshot_def in_scope_def)

section \<open>The kill-switch store through the use cases\<close>

text \<open>What a step keeps of the kill-switch store.\<close>

definition keeps_store :: "('k \<Rightarrow> bool) \<Rightarrow> ('d, 'k, 'r, 'p, 'x, 'a) use_case \<Rightarrow> bool" where
  "keeps_store S = keeps (\<lambda>w. S (wd_switch_store w))"

named_theorems store_intros

lemma keeps_store_basic [store_intros]:
  "keeps_store S (give a)" "keeps_store S (throw e)" "keeps_store S (attempt err v)" "keeps_store S (on_aggregate err r)"
  "keeps_store S (load q)" "keeps_store S (save f)" "keeps_store S (commit sv)" "keeps_store S (publish es)" "keeps_store S (found_or e r')"
  "keeps_store S (dispatch_to sv i v' inp pid h)" "keeps_store S (signal_abort_to sv i rs)" "keeps_store S (run_gate sv fr az)"
  by (simp_all add: keeps_store_def keeps_def give_def throw_def attempt_def on_aggregate_def load_def save_def on_part_def commit_def
    publish_def found_or_def dispatch_to_def signal_abort_to_def run_gate_def split: sum.splits outcome.splits option.splits)

lemma keeps_store_ports [store_intros]: "keeps_store S (on_part wd_ports (\<lambda>p w. w\<lparr>wd_ports := p\<rparr>) err m)"
  by (simp add: keeps_store_def keeps_def on_part_def split: outcome.splits)

lemma keeps_store_and_then [store_intros]:
  assumes "keeps_store S m" and "\<And>a. keeps_store S (f a)"
  shows "keeps_store S (and_then m f)"
proof -
  have "S (wd_switch_store (final (and_then m f w)))" if "S (wd_switch_store w)" for w
  proof -
    have "S (wd_switch_store (final (m w)))" using assms(1) that by (simp add: keeps_store_def keeps_def)
    then show ?thesis using assms(2) by (cases "m w") (simp_all add: and_then_def keeps_store_def keeps_def)
  qed
  then show ?thesis by (simp add: keeps_store_def keeps_def)
qed

lemma keeps_store_if [store_intros]: "keeps_store S m \<Longrightarrow> keeps_store S n \<Longrightarrow> keeps_store S (if c then m else n)"
  by simp

lemma keeps_store_cases [store_intros]:
  "keeps_store S m \<Longrightarrow> (\<And>a. keeps_store S (f a)) \<Longrightarrow> keeps_store S (case r of None \<Rightarrow> m | Some a \<Rightarrow> f a)"
  "(\<And>e t. keeps_store S (f' e t)) \<Longrightarrow> (\<And>a t. keeps_store S (g' a t)) \<Longrightarrow> keeps_store S (case r' of Raise e t \<Rightarrow> f' e t | Return a t \<Rightarrow> g' a t)"
  by (cases r, simp_all) (cases r', simp_all)

lemma keeps_store_in_uow [store_intros]:
  assumes "keeps_store S m"
  shows "keeps_store S (in_uow m)"
proof -
  have "S (wd_switch_store (final (in_uow m w)))" if "S (wd_switch_store w)" for w
  proof -
    have "S (wd_switch_store (final (m (w\<lparr>wd_session := wd_db w\<rparr>))))" using assms that by (simp add: keeps_store_def keeps_def)
    then show ?thesis by (cases "m (w\<lparr>wd_session := wd_db w\<rparr>)") (simp_all add: in_uow_def)
  qed
  then show ?thesis by (simp add: keeps_store_def keeps_def)
qed

lemma keeps_store_saves [store_intros]:
  "keeps_store S (save_switch sv k)" "keeps_store S (save_journal sv j)" "keeps_store S (save_action sv a)" "keeps_store S (save_worker sv v)"
  unfolding save_switch_def save_journal_def save_action_def save_worker_def by (intro store_intros)+

lemma keeps_store_parts [store_intros]:
  "keeps_store S (journal_append sv fr t en ty c a s)" "keeps_store S (journal_if_present sv fr t en ty c u s)"
  "keeps_store S (find_worker sv i t)" "keeps_store S (find_action sv i' t)" "keeps_store S (load_worker sv i' t)"
  unfolding journal_append_def journal_if_present_def find_worker_def find_action_def load_worker_def by (intro store_intros)+

lemma keeps_store_check_payload [store_intros]: "keeps_store S (check_payload sv cmd)"
  unfolding check_payload_def by (auto intro!: store_intros split: option.splits)

lemma keeps_store_deny [store_intros]: "keeps_store S (deny sv fr t en f cmd msg)"
  unfolding deny_def journal_authorization_failure_def by (intro store_intros)

lemma keeps_store_ends [store_intros]: "keeps_store S (finish_action sv a j)" "keeps_store S (store_worker sv v)"
  unfolding finish_action_def store_worker_def by (intro store_intros)+

text \<open>Only the three kill-switch commands write the store.\<close>

primrec writes_store :: "service_call \<Rightarrow> bool" where
  "writes_store (Trigger_Kill_Switch cmd) = True"
| "writes_store (Release_Kill_Switch cmd) = True"
| "writes_store (Re_Arm_Kill_Switch cmd) = True"
| "writes_store (Get_Kill_Switch t sc ref) = False"
| "writes_store (Create_Journal t e) = False"
| "writes_store (Ensure_Journal t e) = False"
| "writes_store (Append_Journal_Entry jcmd) = False"
| "writes_store (Get_Journal t e) = False"
| "writes_store (Query_Journal_Integrity t e) = False"
| "writes_store (Authorize_And_Start acmd) = False"
| "writes_store (Abort_Attack_Action t i r op) = False"
| "writes_store (Complete_Attack_Action t i h ref') = False"
| "writes_store (Fail_Attack_Action t i r) = False"
| "writes_store (Record_Action_Output t i h' r) = False"
| "writes_store (Get_Attack_Action t i) = False"
| "writes_store (List_Attack_Actions t i l k) = False"
| "writes_store (Register_Execution_Worker wcmd) = False"
| "writes_store (Decommission_Execution_Worker t i op) = False"
| "writes_store (Record_Worker_Heartbeat t i h'') = False"
| "writes_store (Get_Execution_Worker t i) = False"
| "writes_store (List_Available_Workers t l k) = False"

lemma ignore_result_keeps_store: "keeps_store S (ignore_result m) = keeps_store S m"
  by (simp add: keeps_store_def)

lemma queries_keep_store [store_intros]:
  "keeps_store S (get_kill_switch sv t sc ref)" "keeps_store S (get_journal sv t en)" "keeps_store S (list_attack_actions_by_operation sv t i l n)"
  "keeps_store S (get_execution_worker sv t i)" "keeps_store S (list_available_workers sv t l n)"
  unfolding get_kill_switch_def get_journal_def list_attack_actions_by_operation_def get_execution_worker_def list_available_workers_def
  by (intro store_intros)+

lemma journals_keep_store [store_intros]:
  "keeps_store S (create_journal sv fr t en)" "keeps_store S (ensure_journal_for_engagement sv fr t en)"
  "keeps_store S (append_journal_entry sv fr jcmd)" "keeps_store S (query_journal_integrity sv fr t en)"
  unfolding create_journal_def ensure_journal_for_engagement_def append_journal_entry_def query_journal_integrity_def
  by (intro store_intros)+

lemma actions_keep_store [store_intros]:
  "keeps_store S (abort_attack_action sv fr t i r op)" "keeps_store S (complete_attack_action sv fr t i h ref)"
  "keeps_store S (fail_attack_action sv fr t i r)" "keeps_store S (record_action_output sv fr t i h' ref')"
  "keeps_store S (get_attack_action sv fr t i)"
  unfolding abort_attack_action_def complete_attack_action_def fail_attack_action_def record_action_output_def get_attack_action_def
  by (intro store_intros)+

lemma workers_keep_store [store_intros]:
  "keeps_store S (register_execution_worker sv fr wcmd)" "keeps_store S (decommission_execution_worker sv fr t i op)"
  "keeps_store S (record_worker_heartbeat sv fr t i h)"
  unfolding register_execution_worker_def decommission_execution_worker_def record_worker_heartbeat_def by (intro store_intros)+

lemma authorize_keeps_store [store_intros]: "keeps_store S (authorize_and_start_attack_action sv fr cmd)"
  unfolding authorize_and_start_attack_action_def start_action_def hand_to_worker_def by (intro store_intros)

lemma exec_service_keeps_store: "\<not> writes_store c \<Longrightarrow> keeps_store S (exec_service sv (fr, c))"
  by (cases c) (simp_all only: exec_service.simps ignore_result_keeps_store writes_store.simps, (intro store_intros | simp)+)

section \<open>A triggered switch\<close>

definition stopped :: "EntityId \<Rightarrow> KillSwitchScope \<Rightarrow> uuid \<Rightarrow> InMemoryKillSwitchStore \<Rightarrow> bool" where
  "stopped t sc ref s \<longleftrightarrow> safe_get (memory_get_state s) t sc ref = Some TRIGGERED"

definition triggered_for :: "EntityId \<Rightarrow> KillSwitchScope \<Rightarrow> uuid \<Rightarrow> KillSwitchState \<Rightarrow> bool" where
  "triggered_for t sc ref k \<longleftrightarrow> ks_armed_state k = TRIGGERED \<and> ks_tenant_id k = t \<and> ks_scope k = sc \<and> ks_scope_ref k = ref"

lemma trigger_effect:
  "trigger t a r now k = Return u k' \<Longrightarrow> triggered_for (ks_tenant_id k) (ks_scope k) (ks_scope_ref k) k'"
  by (auto simp: switch_eval triggered_for_def split: if_splits)

lemma memory_set_state_stops:
  "memory_set_state k s = Return u s' \<Longrightarrow> triggered_for t sc ref k \<Longrightarrow> stopped t sc ref s'"
  by (auto simp: memory_set_state_def step_simps stopped_def safe_get_def memory_get_state_def map_of_dict_set triggered_for_def
    split: if_splits)

lemma memory_set_state_keeps_stopped:
  "ks_armed_state k = TRIGGERED \<Longrightarrow> stopped t sc ref s \<Longrightarrow> stopped t sc ref (final (memory_set_state k s))"
  by (auto simp: memory_set_state_def step_simps stopped_def safe_get_def memory_get_state_def map_of_dict_set split: if_splits)

lemma sync_container:
  "sync_kill_switch_store (execution_container rp tu sc) k w =
     (case memory_set_state k (wd_switch_store w) of
        Raise e s \<Rightarrow> Raise (External (Inl e)) (w\<lparr>wd_switch_store := s\<rparr>)
      | Return _ s \<Rightarrow> Return () (w\<lparr>wd_switch_store := s\<rparr>))"
  by (simp add: sync_kill_switch_store_def execution_container_def on_part_def split: outcome.splits)

text \<open>A trigger never reopens anything.\<close>

lemma keeps_storeI:
  assumes "triple (\<lambda>w. S (wd_switch_store w)) m (\<lambda>_ w. S (wd_switch_store w)) (\<lambda>_ w. S (wd_switch_store w))"
  shows "keeps_store S m"
  unfolding keeps_store_def keeps_def using triple_final [OF assms] by blast

lemma keeps_storeD:
  assumes "keeps_store S m" and "\<And>s. S s \<Longrightarrow> C s"
  shows "triple (\<lambda>w. S (wd_switch_store w)) m (\<lambda>_ w. S (wd_switch_store w)) (\<lambda>_ w. C (wd_switch_store w))"
  by (rule triple_finalI) (use assms in \<open>simp_all add: keeps_store_def keeps_def\<close>)

lemma triple_in_uow_store:
  assumes "triple (\<lambda>w. A (wd_switch_store w)) m (\<lambda>_ w. B (wd_switch_store w)) (\<lambda>_ w. C (wd_switch_store w))"
  shows "triple (\<lambda>w. A (wd_switch_store w)) (in_uow m) (\<lambda>_ w. B (wd_switch_store w)) (\<lambda>_ w. C (wd_switch_store w))"
  by (rule triple_in_uow, rule triple_weaken [OF assms]) auto

text \<open>What \<open>trigger_kill_switch\<close> does to the store, for facts \<open>A\<close> before, \<open>B\<close> where it returns and \<open>C\<close> where it raises, and a fact \<open>G\<close>
  of the switch it writes.\<close>

lemma trigger_triple:
  assumes A: "\<And>s. A s \<Longrightarrow> C s" and B: "\<And>s. B s \<Longrightarrow> C s"
    and returns: "\<And>k s s'. G k \<Longrightarrow> A s \<Longrightarrow> memory_set_state k s = Return () s' \<Longrightarrow> B s'"
    and raises: "\<And>k s e s'. A s \<Longrightarrow> memory_set_state k s = Raise e s' \<Longrightarrow> C s'"
    and G: "\<And>scope found d a r k n. parse_scope (tr_scope cmd) = Inr scope \<Longrightarrow>
      rp_find_switch_by_scope rp (tr_tenant_id cmd) scope (tr_scope_ref cmd) d = Inr found \<Longrightarrow>
      trigger (tr_tenant_id cmd) a r (fr_now fr) (case found of Some k \<Rightarrow> k
        | None \<Rightarrow> create_armed (fr_kill_switch_id fr) (tr_tenant_id cmd) scope (tr_scope_ref cmd) (fr_now fr)) = Return () k \<Longrightarrow>
      G (k\<lparr>ks_version := n\<rparr>)"
  shows "triple (\<lambda>w. A (wd_switch_store w)) (trigger_kill_switch (execution_container rp tu snap) fr cmd)
    (\<lambda>_ w. B (wd_switch_store w)) (\<lambda>_ w. C (wd_switch_store w))"
proof -
  let ?A = "\<lambda>w. A (wd_switch_store w)" and ?B = "\<lambda>w. B (wd_switch_store w)" and ?C = "\<lambda>w. C (wd_switch_store w)"
  let ?sv = "execution_container rp tu snap"
  have quiet: "triple ?A m (\<lambda>_. ?A) (\<lambda>_. ?C)" if "keeps_store A m" for m
    using that by (rule keeps_storeD) (rule A)
  have tail: "triple ?B m (\<lambda>_. ?B) (\<lambda>_. ?C)" if "keeps_store B m" for m
    using that by (rule keeps_storeD) (rule B)
  have validated: "triple ?A (attempt err v) (\<lambda>_. ?A) (\<lambda>_. ?C)" for err v
    by (rule triple_attempt) (auto intro: A)
  have parsed: "triple ?A (attempt Application (parse_scope (tr_scope cmd))) (\<lambda>scope w. ?A w \<and> parse_scope (tr_scope cmd) = Inr scope) (\<lambda>_. ?C)"
    by (rule triple_attempt) (auto intro: A)
  have loaded: "triple ?A (load q) (\<lambda>found w. ?A w \<and> (\<exists>d. q d = Inr found)) (\<lambda>_. ?C)" for q
    by (rule triple_load) (auto intro: A)
  have chosen: "triple ?A (give k) (\<lambda>k' w. ?A w \<and> k' = k) (\<lambda>_. ?C)" for k :: KillSwitchState
    by (rule triple_give) simp
  have called: "triple ?A (on_aggregate Domain (trigger t a r now k)) (\<lambda>k' w. ?A w \<and> trigger t a r now k = Return () k') (\<lambda>_. ?C)" for t a r now k
    by (rule triple_on_aggregate) (auto intro: A)
  have saved: "triple ?A (save_switch ?sv k) (\<lambda>k' w. ?A w \<and> (\<exists>n. k' = k\<lparr>ks_version := n\<rparr>)) (\<lambda>_. ?C)" for k
    unfolding save_switch_def by (rule triple_and_then [OF quiet triple_give]) (auto intro: store_intros)
  have synced: "triple ?A (sync_kill_switch_store ?sv k) (\<lambda>_. ?B) (\<lambda>_. ?C)" if "G k" for k
    using that by (auto simp: triple_def sync_container intro: returns raises split: outcome.splits)
  have written: "triple ?A (and_then (save_switch ?sv k) (\<lambda>k. and_then (sync_kill_switch_store ?sv k) (\<lambda>_.
      and_then (journal_kill_switch ?sv fr t scope ref r op) (\<lambda>_. and_then (commit ?sv) (\<lambda>_. and_then (publish (switch_events k)) (\<lambda>_.
      give (kill_switch_dto k))))))) (\<lambda>_. ?B) (\<lambda>_. ?C)" if "\<And>n. G (k\<lparr>ks_version := n\<rparr>)" for k t scope ref r op
    by (rule triple_and_then [OF saved], rule triple_pure, rule triple_and_then [OF synced], use that in blast,
        rule tail, unfold journal_kill_switch_def, intro store_intros)
  show ?thesis
    unfolding trigger_kill_switch_def
  proof (rule triple_and_then [OF validated], rule triple_and_then [OF validated], rule triple_and_then [OF validated],
      rule triple_and_then [OF validated], rule triple_and_then [OF parsed], rule triple_pure,
      rule triple_in_uow_store, rule triple_and_then [OF loaded], rule triple_pure, rule triple_and_then [OF chosen], rule triple_pure,
      rule triple_and_then [OF validated], rule triple_and_then [OF validated], rule triple_and_then [OF validated], rule triple_and_then [OF called], rule triple_pure, rule written)
    fix scope found k operator a r k' n
    assume "\<exists>d. rp_find_switch_by_scope (sv_repositories ?sv) (tr_tenant_id cmd) scope (tr_scope_ref cmd) d = Inr found"
    then obtain d where d: "rp_find_switch_by_scope rp (tr_tenant_id cmd) scope (tr_scope_ref cmd) d = Inr found"
      by (auto simp: execution_container_def)
    assume "parse_scope (tr_scope cmd) = Inr scope"
      and "k = (case found of None \<Rightarrow> create_armed (fr_kill_switch_id fr) (tr_tenant_id cmd) scope (tr_scope_ref cmd) (fr_now fr) | Some k \<Rightarrow> k)"
      and "trigger (tr_tenant_id cmd) a r (fr_now fr) k = Return () k'"
    then show "G (k'\<lparr>ks_version := n\<rparr>)" using G [OF _ d] by simp
  qed
qed

lemma trigger_keeps_stopped: "keeps_store (stopped t sc ref) (trigger_kill_switch (execution_container rp tu snap) fr cmd)"
proof (rule keeps_storeI, rule trigger_triple [where G = "\<lambda>k. ks_armed_state k = TRIGGERED"])
  fix k s e s'
  show "ks_armed_state k = TRIGGERED \<Longrightarrow> stopped t sc ref s \<Longrightarrow> memory_set_state k s = Return () s' \<Longrightarrow> stopped t sc ref s'"
    using memory_set_state_keeps_stopped [of k t sc ref s] by simp
  show "stopped t sc ref s \<Longrightarrow> memory_set_state k s = Raise e s' \<Longrightarrow> stopped t sc ref s'"
    by (auto simp: memory_set_state_def step_simps split: if_splits)
qed (auto simp: triggered_for_def dest: trigger_effect)

text \<open>The lookup by scope answers with a switch of that tenant and scope.\<close>

definition finds_by_scope :: "('d, 'x) repositories \<Rightarrow> EntityId \<Rightarrow> bool" where
  "finds_by_scope rp t \<longleftrightarrow> (\<forall>sc ref d k. rp_find_switch_by_scope rp t sc ref d = Inr (Some k) \<longrightarrow>
     ks_tenant_id k = t \<and> ks_scope k = sc \<and> ks_scope_ref k = ref)"

lemma trigger_stops:
  assumes "finds_by_scope rp (tr_tenant_id cmd)" and "trigger_kill_switch (execution_container rp tu snap) fr cmd w = Return dto w'"
    and "parse_scope (tr_scope cmd) = Inr sc"
  shows "stopped (tr_tenant_id cmd) sc (tr_scope_ref cmd) (wd_switch_store w')"
proof -
  have "triple (\<lambda>w. True) (trigger_kill_switch (execution_container rp tu snap) fr cmd)
      (\<lambda>_ w. stopped (tr_tenant_id cmd) sc (tr_scope_ref cmd) (wd_switch_store w)) (\<lambda>_ w. True)"
  proof (rule trigger_triple [where A = "\<lambda>_. True" and C = "\<lambda>_. True" and G = "triggered_for (tr_tenant_id cmd) sc (tr_scope_ref cmd)"])
    fix scope found d a r k n
    assume "parse_scope (tr_scope cmd) = Inr scope"
      and f: "rp_find_switch_by_scope rp (tr_tenant_id cmd) scope (tr_scope_ref cmd) d = Inr found"
      and k: "trigger (tr_tenant_id cmd) a r (fr_now fr) (case found of Some k \<Rightarrow> k
        | None \<Rightarrow> create_armed (fr_kill_switch_id fr) (tr_tenant_id cmd) scope (tr_scope_ref cmd) (fr_now fr)) = Return () k"
    then have "scope = sc" using assms(3) by simp
    then show "triggered_for (tr_tenant_id cmd) sc (tr_scope_ref cmd) (k\<lparr>ks_version := n\<rparr>)"
      using trigger_effect [OF k] f assms(1)
      by (cases found) (auto simp: triggered_for_def create_armed_def finds_by_scope_def)
  qed (auto intro: memory_set_state_stops)
  from triple_return [OF this _ assms(2)] show ?thesis by simp
qed

subsection \<open>What it covers\<close>

definition covers :: "(EntityId \<Rightarrow> uuid) \<Rightarrow> KillSwitchScope \<Rightarrow> uuid \<Rightarrow> AuthorizeAndStartAttackAction \<Rightarrow> bool" where
  "covers to_uuid sc ref cmd =
     (case sc of PLATFORM_WIDE \<Rightarrow> ref = to_uuid (as_tenant_id cmd) | ENGAGEMENT \<Rightarrow> ref = as_engagement_id cmd
      | OPERATION \<Rightarrow> ref = as_operation_id cmd)"

lemma stopped_blocks:
  assumes "stopped (as_tenant_id cmd) sc ref s" and "covers tu sc ref cmd"
  shows "\<not> gate_passed (execution_container rp tu snap) fr cmd tq policy worker s r"
proof -
  have "Kill_Switch.evaluate (memory_get_state s) tu (as_tenant_id cmd) (as_engagement_id cmd) (Some (as_operation_id cmd)) \<noteq> ARMED"
    using assms by (cases sc) (simp_all add: stopped_def covers_def Kill_Switch.evaluate_def Let_def)
  then show ?thesis
    by (simp add: gate_passed_def Let_def execution_container_def memory_gate_def switch_armed_def gate_args_def)
qed

definition reopens :: "service_call \<Rightarrow> bool" where
  "reopens c \<longleftrightarrow> (\<exists>cmd. c = Release_Kill_Switch cmd) \<or> (\<exists>cmd. c = Re_Arm_Kill_Switch cmd)"

lemma exec_keeps_stopped:
  assumes "\<not> reopens c"
  shows "keeps_store (stopped t sc ref) (exec_service (execution_container rp tu snap) (fr, c))"
proof (cases "writes_store c")
  case True
  then obtain cmd where "c = Trigger_Kill_Switch cmd" using assms by (cases c) (auto simp: reopens_def)
  then show ?thesis by (simp add: ignore_result_keeps_store trigger_keeps_stopped)
qed (rule exec_service_keeps_store)

lemma history_keeps_stopped:
  assumes "\<forall>(fr, c) \<in> set cs. \<not> reopens c" and "stopped t sc ref (wd_switch_store w)"
  shows "stopped t sc ref (wd_switch_store (history (exec_service (execution_container rp tu snap)) cs w))"
  using assms
proof (induction cs arbitrary: w)
  case (Cons a cs)
  obtain fr c where a: "a = (fr, c)" by (cases a)
  have "stopped t sc ref (wd_switch_store (final (exec_service (execution_container rp tu snap) a w)))"
    using exec_keeps_stopped [of c t sc ref rp tu snap fr] Cons.prems by (simp add: a keeps_store_def keeps_def)
  then show ?case using Cons by simp
qed simp

end
