(* ===== verification/Repositories.thy ===== *)
theory Repositories
  imports Kill_Switch_Service Tables
begin

text \<open>
  The PostgreSQL repositories of the execution context (\<open>execution/infrastructure/persistence\<close>): the tables
  (\<open>models/execution_models.py\<close>), the four repositories and the unit of work that hands them out. The database engine is an argument,
  \<open>engine\<close>: what a SELECT, INSERT, UPDATE and DELETE on a table do, the commit, the conversions between an \<open>EntityId\<close> and a UUID
  column, Python's comparison of the two, and the normal form in which a JSON column is read back. What the code relies on of it is
  \<open>engine_laws\<close>.

  The advisory lock that \<open>PgExecutionJournalRepository.save\<close> takes first orders concurrent transactions and has no effect on one
  transaction; it is not modelled.
\<close>

section \<open>Rows\<close>

record KillSwitchStateModel =
  km_id :: uuid
  km_tenant_id :: uuid
  km_scope :: string
  km_scope_ref :: uuid
  km_armed_state :: string
  km_trigger_authority_id :: "uuid option"
  km_trigger_authority_role :: "string option"
  km_trigger_reason :: "string option"
  km_trigger_timestamp :: "datetime option"
  km_trigger_hash :: "string option"
  km_release_authority_id :: "uuid option"
  km_release_authority_role :: "string option"
  km_release_countersign_id :: "uuid option"
  km_release_countersign_role :: "string option"
  km_release_timestamp :: "datetime option"
  km_created_at :: datetime
  km_updated_at :: datetime
  km_row_version :: int

record ExecutionJournalModel =
  jm_id :: uuid
  jm_tenant_id :: uuid
  jm_engagement_id :: uuid
  jm_created_at :: datetime
  jm_updated_at :: datetime
  jm_row_version :: int

record JournalEntryModel =
  em_id :: uuid
  em_tenant_id :: uuid
  em_journal_id :: uuid
  em_entry_type :: string
  em_sequence_number :: int
  em_entry_hash :: string
  em_previous_entry_hash :: string
  em_content :: string
  em_attribution_operator_id :: "uuid option"
  em_system_attribution :: "string option"
  em_corrects_ref :: "uuid option"
  em_occurred_at :: datetime

record AttackActionModel =
  am_id :: uuid
  am_execution_timestamp :: datetime
  am_tenant_id :: uuid
  am_engagement_id :: uuid
  am_operation_id :: uuid
  am_step_id :: uuid
  am_target_id :: uuid
  am_technique_id :: string
  am_technique_category :: string
  am_impact_ceiling :: string
  am_operator_id :: uuid
  am_worker_id :: "uuid option"
  am_state :: string
  am_action_hash :: string
  am_input_hash :: string
  am_action_input_json :: "(string \<times> json) list"
  am_safety_check_json :: "(string \<times> json) list"
  am_completion_timestamp :: "datetime option"
  am_output_hash :: "string option"
  am_output_storage_ref :: "string option"
  am_failure_reason :: "string option"
  am_created_at :: datetime
  am_updated_at :: datetime
  am_row_version :: int

record ExecutionWorkerModel =
  wm_id :: uuid
  wm_tenant_id :: uuid
  wm_worker_type :: string
  wm_trust_level :: string
  wm_health_status :: string
  wm_network_zone :: string
  wm_capabilities_json :: "json list"
  wm_manifest_hash :: string
  wm_signer_operator_id :: uuid
  wm_registered_at :: datetime
  wm_last_heartbeat_at :: "datetime option"
  wm_decommissioned_at :: "datetime option"
  wm_created_at :: datetime
  wm_updated_at :: datetime
  wm_row_version :: int

section \<open>The engine\<close>

record ('s, 'j, 'e, 'a, 'w) database =
  db_switches :: 's
  db_journals :: 'j
  db_entries :: 'e
  db_actions :: 'a
  db_workers :: 'w

record ('s, 'j, 'e, 'a, 'w, 'x) engine =
  en_switches :: "(KillSwitchStateModel, 's) table"
  en_journals :: "(ExecutionJournalModel, 'j) table"
  en_entries :: "(JournalEntryModel, 'e) table"
  en_actions :: "(AttackActionModel, 'a) table"
  en_workers :: "(ExecutionWorkerModel, 'w) table"
  en_multiple_results :: 'x
  en_commit :: "('s, 'j, 'e, 'a, 'w) database \<Rightarrow> 'x + ('s, 'j, 'e, 'a, 'w) database"
  en_uuid_of :: "EntityId \<Rightarrow> uuid"
  en_from_uuid :: "uuid \<Rightarrow> EntityId"
  en_differs :: "uuid \<Rightarrow> EntityId \<Rightarrow> bool"
  en_jsonb :: "(string \<times> json) list \<Rightarrow> (string \<times> json) list"

definition engine_laws :: "('s, 'j, 'e, 'a, 'w, 'x) engine \<Rightarrow> bool" where
  "engine_laws en \<longleftrightarrow> table_laws (en_switches en) \<and> table_laws (en_journals en) \<and> table_laws (en_entries en) \<and>
     table_laws (en_actions en) \<and> table_laws (en_workers en) \<and>
     (\<forall>d d'. en_commit en d = Inr d' \<longrightarrow> d' = d) \<and> (\<forall>u. en_uuid_of en (en_from_uuid en u) = u) \<and>
     (\<forall>kvs. json_same (JObject kvs) (JObject (en_jsonb en kvs)))"

definition to_failure :: "PyError + 'a \<Rightarrow> 'x failure + 'a" where
  "to_failure = map_sum PythonError id"

section \<open>Kill switches\<close>

definition kill_switch_to_model :: "('s, 'j, 'e, 'a, 'w, 'x) engine \<Rightarrow> KillSwitchState \<Rightarrow> KillSwitchStateModel" where
  "kill_switch_to_model en k =
     \<lparr>km_id = ks_kill_switch_id k, km_tenant_id = en_uuid_of en (ks_tenant_id k), km_scope = KillSwitchScope_value (ks_scope k),
      km_scope_ref = ks_scope_ref k, km_armed_state = KillSwitchArmedState_value (ks_armed_state k),
      km_trigger_authority_id = map_option au_operator_id (ks_trigger_authority k),
      km_trigger_authority_role = map_option au_role (ks_trigger_authority k),
      km_trigger_reason = ks_trigger_reason k, km_trigger_timestamp = ks_trigger_timestamp k, km_trigger_hash = ks_trigger_hash k,
      km_release_authority_id = map_option au_operator_id (ks_release_authority k),
      km_release_authority_role = map_option au_role (ks_release_authority k),
      km_release_countersign_id = map_option au_operator_id (ks_release_countersign_authority k),
      km_release_countersign_role = map_option au_role (ks_release_countersign_authority k),
      km_release_timestamp = ks_release_timestamp k, km_created_at = ks_created_at k, km_updated_at = ks_updated_at k,
      km_row_version = ks_version k\<rparr>"

text \<open>The columns an UPDATE sets.\<close>

definition kill_switch_update :: "KillSwitchState \<Rightarrow> int \<Rightarrow> KillSwitchStateModel \<Rightarrow> KillSwitchStateModel" where
  "kill_switch_update k version m =
     m\<lparr>km_armed_state := KillSwitchArmedState_value (ks_armed_state k),
       km_trigger_authority_id := map_option au_operator_id (ks_trigger_authority k),
       km_trigger_authority_role := map_option au_role (ks_trigger_authority k),
       km_trigger_reason := ks_trigger_reason k, km_trigger_timestamp := ks_trigger_timestamp k, km_trigger_hash := ks_trigger_hash k,
       km_release_authority_id := map_option au_operator_id (ks_release_authority k),
       km_release_authority_role := map_option au_role (ks_release_authority k),
       km_release_countersign_id := map_option au_operator_id (ks_release_countersign_authority k),
       km_release_countersign_role := map_option au_role (ks_release_countersign_authority k),
       km_release_timestamp := ks_release_timestamp k, km_updated_at := ks_updated_at k, km_row_version := version\<rparr>"

definition authority_of :: "(uuid \<Rightarrow> string \<Rightarrow> PyError + Authority) \<Rightarrow> uuid option \<Rightarrow> string option \<Rightarrow> PyError + Authority option" where
  "authority_of construct operator_id role =
     (case operator_id of
        None \<Rightarrow> Inr None
      | Some i \<Rightarrow> if truthy role then sum_bind (non_nil ''OperatorId'' i) (\<lambda>op. sum_bind (construct op (the role)) (\<lambda>a. Inr (Some a)))
          else Inr None)"

definition kill_switch_to_domain :: "('s, 'j, 'e, 'a, 'w, 'x) engine \<Rightarrow> KillSwitchStateModel \<Rightarrow> PyError + KillSwitchState" where
  "kill_switch_to_domain en m =
     sum_bind (authority_of make_TriggerAuthority (km_trigger_authority_id m) (km_trigger_authority_role m)) (\<lambda>trigger_auth.
     sum_bind (authority_of make_ReleaseAuthority (km_release_authority_id m) (km_release_authority_role m)) (\<lambda>release_auth.
     sum_bind (authority_of make_ReleaseAuthority (km_release_countersign_id m) (km_release_countersign_role m)) (\<lambda>countersign.
     sum_bind (non_nil ''KillSwitchId'' (km_id m)) (\<lambda>kill_switch_id.
     sum_bind (KillSwitchScope_of (km_scope m)) (\<lambda>scope.
     sum_bind (enum_of ''KillSwitchArmedState'' KillSwitchArmedState_value [ARMED, TRIGGERED, RELEASED] (km_armed_state m)) (\<lambda>armed_state.
     sum_bind (when_truthy (km_trigger_reason m) make_TriggerReason) (\<lambda>trigger_reason.
     sum_bind (when_truthy (km_trigger_hash m) make_TriggerHash) (\<lambda>trigger_hash.
     Inr \<lparr>ks_kill_switch_id = kill_switch_id, ks_tenant_id = en_from_uuid en (km_tenant_id m), ks_scope = scope,
       ks_scope_ref = km_scope_ref m, ks_armed_state = armed_state, ks_created_at = km_created_at m, ks_updated_at = km_updated_at m,
       ks_version = km_row_version m, ks_trigger_authority = trigger_auth, ks_trigger_reason = trigger_reason,
       ks_trigger_timestamp = km_trigger_timestamp m, ks_trigger_hash = trigger_hash, ks_release_authority = release_auth,
       ks_release_countersign_authority = countersign, ks_release_timestamp = km_release_timestamp m, ks_pending_events = []\<rparr>))))))))"

definition save_kill_switch ::
  "('s, 'j, 'e, 'a, 'w, 'x) engine \<Rightarrow> KillSwitchState \<Rightarrow> ('s, 'j, 'e, 'a, 'w) database \<Rightarrow> ('x failure, int, ('s, 'j, 'e, 'a, 'w) database) outcome" where
  "save_kill_switch en k d =
     (case session_get (en_switches en) (\<lambda>m. km_id m = ks_kill_switch_id k) (db_switches d) of
        None \<Rightarrow> Return 1 (d\<lparr>db_switches := tb_add (en_switches en) (kill_switch_to_model en k\<lparr>km_row_version := 1\<rparr>) (db_switches d)\<rparr>)
      | Some existing \<Rightarrow>
          if en_differs en (km_tenant_id existing) (ks_tenant_id k)
          then Raise (DomainError (OptimisticLockConflict (uuid_str (ks_kill_switch_id k)) (ks_version k) (- 1))) d
          else
            let expected = ks_version k;
                (rowcount, t) = tb_update (en_switches en) (\<lambda>m. km_id m = ks_kill_switch_id k \<and> km_row_version m = expected)
                  (kill_switch_update k (expected + 1)) (db_switches d)
            in if rowcount = 0
               then Raise (DomainError (OptimisticLockConflict (uuid_str (ks_kill_switch_id k)) expected (km_row_version existing))) (d\<lparr>db_switches := t\<rparr>)
               else Return (expected + 1) (d\<lparr>db_switches := t\<rparr>))"

definition find_kill_switch_by_id ::
  "('s, 'j, 'e, 'a, 'w, 'x) engine \<Rightarrow> uuid \<Rightarrow> EntityId \<Rightarrow> ('s, 'j, 'e, 'a, 'w) database \<Rightarrow> 'x failure + KillSwitchState option" where
  "find_kill_switch_by_id en kill_switch_id tenant_id d =
     (case session_get (en_switches en) (\<lambda>m. km_id m = kill_switch_id) (db_switches d) of
        None \<Rightarrow> Inr None
      | Some m \<Rightarrow> if en_differs en (km_tenant_id m) tenant_id then Inr None
          else to_failure (map_sum id Some (kill_switch_to_domain en m)))"

definition find_by_scope ::
  "('s, 'j, 'e, 'a, 'w, 'x) engine \<Rightarrow> EntityId \<Rightarrow> KillSwitchScope \<Rightarrow> uuid \<Rightarrow> ('s, 'j, 'e, 'a, 'w) database
     \<Rightarrow> 'x failure + KillSwitchState option" where
  "find_by_scope en tenant_id scope scope_ref d =
     sum_bind (scalar_one_or_none (ExternalError (en_multiple_results en)) (tb_select (en_switches en) (\<lambda>m. km_tenant_id m = en_uuid_of en tenant_id \<and>
       km_scope m = KillSwitchScope_value scope \<and> km_scope_ref m = scope_ref) (db_switches d))) (\<lambda>found.
     if_some found (\<lambda>m. to_failure (kill_switch_to_domain en m)))"

definition find_platform_wide ::
  "('s, 'j, 'e, 'a, 'w, 'x) engine \<Rightarrow> (EntityId \<Rightarrow> uuid) \<Rightarrow> EntityId \<Rightarrow> ('s, 'j, 'e, 'a, 'w) database \<Rightarrow> 'x failure + KillSwitchState option" where
  "find_platform_wide en to_uuid tenant_id = find_by_scope en tenant_id PLATFORM_WIDE (to_uuid tenant_id)"

section \<open>Journals\<close>

definition entry_to_model :: "('s, 'j, 'e, 'a, 'w, 'x) engine \<Rightarrow> ExecutionJournal \<Rightarrow> JournalEntry \<Rightarrow> JournalEntryModel" where
  "entry_to_model en j e =
     \<lparr>em_id = je_entry_id e, em_tenant_id = en_uuid_of en (jn_tenant_id j), em_journal_id = jn_journal_id j,
      em_entry_type = JournalEntryType_value (je_entry_type e), em_sequence_number = je_sequence_number e,
      em_entry_hash = je_entry_hash e, em_previous_entry_hash = je_previous_entry_hash e, em_content = je_content e,
      em_attribution_operator_id = je_attribution e, em_system_attribution = je_system_attribution e,
      em_corrects_ref = je_corrects_ref e, em_occurred_at = je_occurred_at e\<rparr>"

definition add_entries ::
  "('s, 'j, 'e, 'a, 'w, 'x) engine \<Rightarrow> ExecutionJournal \<Rightarrow> ('s, 'j, 'e, 'a, 'w) database \<Rightarrow> ('s, 'j, 'e, 'a, 'w) database" where
  "add_entries en j d =
     d\<lparr>db_entries := fold (\<lambda>e t. tb_add (en_entries en) (entry_to_model en j e) t) (jn_entries j) (db_entries d)\<rparr>"

definition save_journal_row ::
  "('s, 'j, 'e, 'a, 'w, 'x) engine \<Rightarrow> ExecutionJournal \<Rightarrow> ('s, 'j, 'e, 'a, 'w) database \<Rightarrow> ('x failure, int, ('s, 'j, 'e, 'a, 'w) database) outcome" where
  "save_journal_row en j d =
     (case session_get (en_journals en) (\<lambda>m. jm_id m = jn_journal_id j) (db_journals d) of
        None \<Rightarrow> Return 1 (add_entries en j (d\<lparr>db_journals := tb_add (en_journals en)
          \<lparr>jm_id = jn_journal_id j, jm_tenant_id = en_uuid_of en (jn_tenant_id j), jm_engagement_id = jn_engagement_id j,
           jm_created_at = jn_created_at j, jm_updated_at = jn_updated_at j, jm_row_version = 1\<rparr> (db_journals d)\<rparr>))
      | Some existing \<Rightarrow>
          if en_differs en (jm_tenant_id existing) (jn_tenant_id j)
          then Raise (DomainError (OptimisticLockConflict (uuid_str (jn_journal_id j)) (jn_version j) (- 1))) d
          else
            let expected = jn_version j;
                (rowcount, t) = tb_update (en_journals en) (\<lambda>m. jm_id m = jn_journal_id j \<and> jm_row_version m = expected)
                  (\<lambda>m. m\<lparr>jm_updated_at := jn_updated_at j, jm_row_version := expected + 1\<rparr>) (db_journals d)
            in if rowcount = 0
               then Raise (DomainError (OptimisticLockConflict (uuid_str (jn_journal_id j)) expected (jm_row_version existing))) (d\<lparr>db_journals := t\<rparr>)
               else Return (expected + 1) (add_entries en j (d\<lparr>db_journals := t,
                 db_entries := tb_delete (en_entries en) (\<lambda>m. em_journal_id m = jn_journal_id j) (db_entries d)\<rparr>)))"

definition entry_to_domain :: "JournalEntryModel \<Rightarrow> PyError + JournalEntry" where
  "entry_to_domain m =
     sum_bind (non_nil ''JournalEntryId'' (em_id m)) (\<lambda>entry_id.
     sum_bind (JournalEntryType_of (em_entry_type m)) (\<lambda>entry_type.
     sum_bind (if_some (em_attribution_operator_id m) (non_nil ''OperatorId'')) (\<lambda>attribution.
     sum_bind (if_some (em_corrects_ref m) (non_nil ''JournalEntryId'')) (\<lambda>corrects_ref.
     Inr \<lparr>je_entry_id = entry_id, je_entry_type = entry_type, je_sequence_number = em_sequence_number m,
       je_entry_hash = em_entry_hash m, je_previous_entry_hash = em_previous_entry_hash m, je_content = em_content m,
       je_attribution = attribution, je_system_attribution = em_system_attribution m, je_occurred_at = em_occurred_at m,
       je_corrects_ref = corrects_ref\<rparr>))))"

text \<open>\<open>ORDER BY sequence_number\<close> sorts what the SELECT found.\<close>

definition load_journal ::
  "('s, 'j, 'e, 'a, 'w, 'x) engine \<Rightarrow> ('s, 'j, 'e, 'a, 'w) database \<Rightarrow> ExecutionJournalModel \<Rightarrow> PyError + ExecutionJournal" where
  "load_journal en d m =
     sum_bind (sum_map entry_to_domain (sort_key em_sequence_number
       (tb_select (en_entries en) (\<lambda>r. em_journal_id r = jm_id m) (db_entries d)))) (\<lambda>entries.
     sum_bind (non_nil ''ExecutionJournalId'' (jm_id m)) (\<lambda>journal_id.
     sum_bind (non_nil ''EngagementId'' (jm_engagement_id m)) (\<lambda>engagement_id.
     Inr \<lparr>jn_journal_id = journal_id, jn_tenant_id = en_from_uuid en (jm_tenant_id m), jn_engagement_id = engagement_id,
       jn_created_at = jm_created_at m, jn_updated_at = jm_updated_at m, jn_version = jm_row_version m, jn_entries = entries,
       jn_pending_events = []\<rparr>)))"

definition find_journal_by_id ::
  "('s, 'j, 'e, 'a, 'w, 'x) engine \<Rightarrow> uuid \<Rightarrow> EntityId \<Rightarrow> ('s, 'j, 'e, 'a, 'w) database \<Rightarrow> 'x failure + ExecutionJournal option" where
  "find_journal_by_id en journal_id tenant_id d =
     (case session_get (en_journals en) (\<lambda>m. jm_id m = journal_id) (db_journals d) of
        None \<Rightarrow> Inr None
      | Some m \<Rightarrow> if en_differs en (jm_tenant_id m) tenant_id then Inr None else to_failure (map_sum id Some (load_journal en d m)))"

definition find_by_engagement ::
  "('s, 'j, 'e, 'a, 'w, 'x) engine \<Rightarrow> uuid \<Rightarrow> EntityId \<Rightarrow> ('s, 'j, 'e, 'a, 'w) database \<Rightarrow> 'x failure + ExecutionJournal option" where
  "find_by_engagement en engagement_id tenant_id d =
     sum_bind (scalar_one_or_none (ExternalError (en_multiple_results en)) (tb_select (en_journals en)
       (\<lambda>m. jm_tenant_id m = en_uuid_of en tenant_id \<and> jm_engagement_id m = engagement_id) (db_journals d))) (\<lambda>found.
     if_some found (\<lambda>m. to_failure (load_journal en d m)))"

section \<open>Attack actions\<close>

definition safety_json :: "SafetyCheckResult \<Rightarrow> (string \<times> json) list" where
  "safety_json s =
     [(''kill_switch_state'', JStr (KillSwitchArmedState_value (sc_kill_switch_state s))),
      (''scope_status'', JStr (ScopeVerificationStatus_value (sc_scope_status s))),
      (''rate_limit_decision'', JStr (RateLimitDecision_value (sc_rate_limit_decision s))),
      (''window_permitted'', JBool (sc_window_permitted s)),
      (''worker_capability_ok'', JBool (sc_worker_capability_ok s))]"

definition action_to_model :: "('s, 'j, 'e, 'a, 'w, 'x) engine \<Rightarrow> AttackAction \<Rightarrow> AttackActionModel" where
  "action_to_model en a =
     \<lparr>am_id = aa_action_id a, am_execution_timestamp = aa_execution_timestamp a, am_tenant_id = en_uuid_of en (aa_tenant_id a),
      am_engagement_id = aa_engagement_id a, am_operation_id = aa_operation_id a, am_step_id = st_step_id (aa_step_ref a),
      am_target_id = aa_target_ref a, am_technique_id = tq_technique_id (aa_technique_ref a),
      am_technique_category = tq_technique_category (aa_technique_ref a),
      am_impact_ceiling = ImpactCeiling_value (tq_impact_ceiling (aa_technique_ref a)), am_operator_id = aa_operator_ref a,
      am_worker_id = aa_worker_ref a, am_state = AttackActionState_value (aa_state a), am_action_hash = aa_action_hash a,
      am_input_hash = aa_input_hash a, am_action_input_json = en_jsonb en (aa_action_input a),
      am_safety_check_json = en_jsonb en (safety_json (aa_safety_check a)), am_completion_timestamp = aa_completion_timestamp a,
      am_output_hash = map_option ao_output_hash (aa_output_ref a), am_output_storage_ref = map_option ao_storage_ref (aa_output_ref a),
      am_failure_reason = aa_failure_reason a, am_created_at = aa_created_at a, am_updated_at = aa_updated_at a,
      am_row_version = aa_version a\<rparr>"

definition action_update :: "AttackAction \<Rightarrow> int \<Rightarrow> AttackActionModel \<Rightarrow> AttackActionModel" where
  "action_update a version m =
     m\<lparr>am_state := AttackActionState_value (aa_state a), am_worker_id := aa_worker_ref a,
       am_completion_timestamp := aa_completion_timestamp a, am_output_hash := map_option ao_output_hash (aa_output_ref a),
       am_output_storage_ref := map_option ao_storage_ref (aa_output_ref a), am_failure_reason := aa_failure_reason a,
       am_updated_at := aa_updated_at a, am_row_version := version\<rparr>"

definition save_attack_action ::
  "('s, 'j, 'e, 'a, 'w, 'x) engine \<Rightarrow> AttackAction \<Rightarrow> ('s, 'j, 'e, 'a, 'w) database \<Rightarrow> ('x failure, int, ('s, 'j, 'e, 'a, 'w) database) outcome" where
  "save_attack_action en a d =
     (case scalar_one_or_none (ExternalError (en_multiple_results en)) (tb_select (en_actions en)
             (\<lambda>m. am_id m = aa_action_id a \<and> am_execution_timestamp m = aa_execution_timestamp a) (db_actions d)) of
        Inl e \<Rightarrow> Raise e d
      | Inr None \<Rightarrow> Return 1 (d\<lparr>db_actions := tb_add (en_actions en) (action_to_model en a\<lparr>am_row_version := 1\<rparr>) (db_actions d)\<rparr>)
      | Inr (Some existing) \<Rightarrow>
          if en_differs en (am_tenant_id existing) (aa_tenant_id a)
          then Raise (DomainError (OptimisticLockConflict (uuid_str (aa_action_id a)) (aa_version a) (- 1))) d
          else
            let expected = aa_version a;
                (rowcount, t) = tb_update (en_actions en) (\<lambda>m. am_id m = aa_action_id a \<and>
                  am_execution_timestamp m = aa_execution_timestamp a \<and> am_row_version m = expected)
                  (action_update a (expected + 1)) (db_actions d)
            in if rowcount = 0
               then Raise (DomainError (OptimisticLockConflict (uuid_str (aa_action_id a)) expected (am_row_version existing))) (d\<lparr>db_actions := t\<rparr>)
               else Return (expected + 1) (d\<lparr>db_actions := t\<rparr>))"

definition safety_of_json :: "(string \<times> json) list \<Rightarrow> PyError + SafetyCheckResult" where
  "safety_of_json safety =
     sum_bind (json_key safety ''kill_switch_state'') (\<lambda>v.
     sum_bind (json_enum ''KillSwitchArmedState'' KillSwitchArmedState_value [ARMED, TRIGGERED, RELEASED] v) (\<lambda>switch_state.
     sum_bind (json_key safety ''scope_status'') (\<lambda>v.
     sum_bind (json_enum ''ScopeVerificationStatus'' ScopeVerificationStatus_value
       [ScopeVerificationStatus.VERIFIED, ScopeVerificationStatus.FAILED, ScopeVerificationStatus.UNAVAILABLE] v) (\<lambda>scope_status.
     sum_bind (json_key safety ''rate_limit_decision'') (\<lambda>v.
     sum_bind (json_enum ''RateLimitDecision'' RateLimitDecision_value [PERMITTED, THROTTLED, FORBIDDEN] v) (\<lambda>decision.
     sum_bind (json_key safety ''window_permitted'') (\<lambda>window.
     sum_bind (json_key safety ''worker_capability_ok'') (\<lambda>capability.
     Inr \<lparr>sc_kill_switch_state = switch_state, sc_scope_status = scope_status, sc_rate_limit_decision = decision,
       sc_window_permitted = json_truth window, sc_worker_capability_ok = json_truth capability\<rparr>))))))))"

definition output_of_columns :: "string option \<Rightarrow> string option \<Rightarrow> PyError + ActionOutputRef option" where
  "output_of_columns output_hash storage_ref =
     (if truthy output_hash \<and> truthy storage_ref
      then sum_bind (make_ActionOutputRef (the output_hash) (the storage_ref)) (\<lambda>r. Inr (Some r)) else Inr None)"

definition action_to_domain :: "('s, 'j, 'e, 'a, 'w, 'x) engine \<Rightarrow> AttackActionModel \<Rightarrow> PyError + AttackAction" where
  "action_to_domain en m =
     sum_bind (output_of_columns (am_output_hash m) (am_output_storage_ref m)) (\<lambda>output.
     sum_bind (non_nil ''AttackActionId'' (am_id m)) (\<lambda>action_id.
     sum_bind (non_nil ''EngagementId'' (am_engagement_id m)) (\<lambda>engagement_id.
     sum_bind (non_nil ''OperationId'' (am_operation_id m)) (\<lambda>operation_id.
     sum_bind (non_nil ''ExecutionStepId'' (am_step_id m)) (\<lambda>step_id.
     sum_bind (non_nil ''TargetId'' (am_target_id m)) (\<lambda>target_id.
     sum_bind (ImpactCeiling_of (am_impact_ceiling m)) (\<lambda>ceiling.
     sum_bind (make_TechniqueRef (am_technique_id m) (am_technique_category m) ceiling) (\<lambda>technique_ref.
     sum_bind (non_nil ''OperatorId'' (am_operator_id m)) (\<lambda>operator_id.
     sum_bind (if_some (am_worker_id m) (non_nil ''ExecutionWorkerId'')) (\<lambda>worker_ref.
     sum_bind (make_ActionHash (am_action_hash m)) (\<lambda>action_hash.
     sum_bind (enum_of ''AttackActionState'' AttackActionState_value
       [AUTHORIZED, EXECUTING, COMPLETED, AttackActionState.FAILED, ABORTED, TIMED_OUT] (am_state m)) (\<lambda>state.
     sum_bind (safety_of_json (am_safety_check_json m)) (\<lambda>safety_check.
     Inr \<lparr>aa_action_id = action_id, aa_tenant_id = en_from_uuid en (am_tenant_id m), aa_engagement_id = engagement_id,
       aa_operation_id = operation_id,
       aa_step_ref = \<lparr>st_step_id = step_id, st_operation_id = operation_id, st_engagement_id = engagement_id\<rparr>,
       aa_target_ref = target_id, aa_technique_ref = technique_ref, aa_operator_ref = operator_id, aa_worker_ref = worker_ref,
       aa_action_input = am_action_input_json m, aa_input_hash = am_input_hash m, aa_action_hash = action_hash, aa_state = state,
       aa_safety_check = safety_check, aa_execution_timestamp = am_execution_timestamp m, aa_created_at = am_created_at m,
       aa_updated_at = am_updated_at m, aa_version = am_row_version m, aa_completion_timestamp = am_completion_timestamp m,
       aa_output_ref = output, aa_failure_reason = am_failure_reason m, aa_pending_events = []\<rparr>)))))))))))))"

definition TERMINAL :: "string set" where
  "TERMINAL = AttackActionState_value ` {COMPLETED, AttackActionState.FAILED, ABORTED, TIMED_OUT}"

definition find_action_by_id ::
  "('s, 'j, 'e, 'a, 'w, 'x) engine \<Rightarrow> uuid \<Rightarrow> EntityId \<Rightarrow> ('s, 'j, 'e, 'a, 'w) database \<Rightarrow> 'x failure + AttackAction option" where
  "find_action_by_id en action_id tenant_id d =
     sum_bind (scalar_one_or_none (ExternalError (en_multiple_results en)) (tb_select (en_actions en)
       (\<lambda>m. am_id m = action_id \<and> am_tenant_id m = en_uuid_of en tenant_id) (db_actions d))) (\<lambda>found.
     if_some found (\<lambda>m. to_failure (action_to_domain en m)))"

text \<open>\<open>ORDER BY execution_timestamp DESC\<close>, then \<open>OFFSET\<close> and \<open>LIMIT\<close>.\<close>

definition find_by_operation ::
  "('s, 'j, 'e, 'a, 'w, 'x) engine \<Rightarrow> uuid \<Rightarrow> EntityId \<Rightarrow> int \<Rightarrow> int \<Rightarrow> ('s, 'j, 'e, 'a, 'w) database \<Rightarrow> 'x failure + AttackAction list" where
  "find_by_operation en operation_id tenant_id limit offset d =
     to_failure (sum_map (action_to_domain en) (take (nat limit) (drop (nat offset)
       (sort_key (\<lambda>m. - am_execution_timestamp m) (tb_select (en_actions en)
         (\<lambda>m. am_tenant_id m = en_uuid_of en tenant_id \<and> am_operation_id m = operation_id) (db_actions d))))))"

definition find_non_terminal_by_step ::
  "('s, 'j, 'e, 'a, 'w, 'x) engine \<Rightarrow> uuid \<Rightarrow> EntityId \<Rightarrow> ('s, 'j, 'e, 'a, 'w) database \<Rightarrow> 'x failure + AttackAction option" where
  "find_non_terminal_by_step en step_id tenant_id d =
     sum_bind (scalar_one_or_none (ExternalError (en_multiple_results en)) (tb_select (en_actions en)
       (\<lambda>m. am_tenant_id m = en_uuid_of en tenant_id \<and> am_step_id m = step_id \<and> am_state m \<notin> TERMINAL) (db_actions d))) (\<lambda>found.
     if_some found (\<lambda>m. to_failure (action_to_domain en m)))"

definition find_in_flight_by_engagement ::
  "('s, 'j, 'e, 'a, 'w, 'x) engine \<Rightarrow> uuid \<Rightarrow> EntityId \<Rightarrow> ('s, 'j, 'e, 'a, 'w) database \<Rightarrow> 'x failure + AttackAction list" where
  "find_in_flight_by_engagement en engagement_id tenant_id d =
     to_failure (sum_map (action_to_domain en) (tb_select (en_actions en)
       (\<lambda>m. am_tenant_id m = en_uuid_of en tenant_id \<and> am_engagement_id m = engagement_id \<and> am_state m \<notin> TERMINAL) (db_actions d)))"

section \<open>Workers\<close>

definition worker_to_model :: "('s, 'j, 'e, 'a, 'w, 'x) engine \<Rightarrow> ExecutionWorker \<Rightarrow> ExecutionWorkerModel" where
  "worker_to_model en v =
     \<lparr>wm_id = wk_worker_id v, wm_tenant_id = en_uuid_of en (wk_tenant_id v), wm_worker_type = WorkerType_value (wk_worker_type v),
      wm_trust_level = WorkerTrustLevel_value (wk_trust_level v), wm_health_status = WorkerHealthStatus_value (wk_health_status v),
      wm_network_zone = wk_network_zone v, wm_capabilities_json = map JStr (sorted_list_of_set (wk_capabilities v)),
      wm_manifest_hash = wk_manifest_hash v, wm_signer_operator_id = wk_signer_operator_id v, wm_registered_at = wk_registered_at v,
      wm_last_heartbeat_at = wk_last_heartbeat_at v, wm_decommissioned_at = wk_decommissioned_at v, wm_created_at = wk_created_at v,
      wm_updated_at = wk_updated_at v, wm_row_version = wk_version v\<rparr>"

definition worker_update :: "ExecutionWorker \<Rightarrow> int \<Rightarrow> ExecutionWorkerModel \<Rightarrow> ExecutionWorkerModel" where
  "worker_update v version m =
     m\<lparr>wm_health_status := WorkerHealthStatus_value (wk_health_status v), wm_last_heartbeat_at := wk_last_heartbeat_at v,
       wm_decommissioned_at := wk_decommissioned_at v, wm_updated_at := wk_updated_at v, wm_row_version := version\<rparr>"

definition worker_to_domain :: "('s, 'j, 'e, 'a, 'w, 'x) engine \<Rightarrow> ExecutionWorkerModel \<Rightarrow> PyError + ExecutionWorker" where
  "worker_to_domain en m =
     sum_bind (non_nil ''ExecutionWorkerId'' (wm_id m)) (\<lambda>worker_id.
     sum_bind (WorkerType_of (wm_worker_type m)) (\<lambda>worker_type.
     sum_bind (WorkerTrustLevel_of (wm_trust_level m)) (\<lambda>trust_level.
     sum_bind (WorkerHealthStatus_of (wm_health_status m)) (\<lambda>health_status.
     sum_bind (non_nil ''OperatorId'' (wm_signer_operator_id m)) (\<lambda>signer.
     Inr \<lparr>wk_worker_id = worker_id, wk_tenant_id = en_from_uuid en (wm_tenant_id m), wk_worker_type = worker_type,
       wk_capabilities = json_str ` set (wm_capabilities_json m), wk_trust_level = trust_level, wk_health_status = health_status,
       wk_network_zone = wm_network_zone m, wk_manifest_hash = wm_manifest_hash m, wk_signer_operator_id = signer,
       wk_registered_at = wm_registered_at m, wk_created_at = wm_created_at m, wk_updated_at = wm_updated_at m,
       wk_version = wm_row_version m, wk_last_heartbeat_at = wm_last_heartbeat_at m, wk_decommissioned_at = wm_decommissioned_at m,
       wk_pending_events = []\<rparr>)))))"

definition save_execution_worker ::
  "('s, 'j, 'e, 'a, 'w, 'x) engine \<Rightarrow> ExecutionWorker \<Rightarrow> ('s, 'j, 'e, 'a, 'w) database \<Rightarrow> ('x failure, int, ('s, 'j, 'e, 'a, 'w) database) outcome" where
  "save_execution_worker en v d =
     (case session_get (en_workers en) (\<lambda>m. wm_id m = wk_worker_id v) (db_workers d) of
        None \<Rightarrow> Return 1 (d\<lparr>db_workers := tb_add (en_workers en) (worker_to_model en v\<lparr>wm_row_version := 1\<rparr>) (db_workers d)\<rparr>)
      | Some existing \<Rightarrow>
          if en_differs en (wm_tenant_id existing) (wk_tenant_id v)
          then Raise (DomainError (OptimisticLockConflict (uuid_str (wk_worker_id v)) (wk_version v) (- 1))) d
          else
            let expected = wk_version v;
                (rowcount, t) = tb_update (en_workers en) (\<lambda>m. wm_id m = wk_worker_id v \<and> wm_row_version m = expected)
                  (worker_update v (expected + 1)) (db_workers d)
            in if rowcount = 0
               then Raise (DomainError (OptimisticLockConflict (uuid_str (wk_worker_id v)) expected (wm_row_version existing))) (d\<lparr>db_workers := t\<rparr>)
               else Return (expected + 1) (d\<lparr>db_workers := t\<rparr>))"

definition find_worker_by_id ::
  "('s, 'j, 'e, 'a, 'w, 'x) engine \<Rightarrow> uuid \<Rightarrow> EntityId \<Rightarrow> ('s, 'j, 'e, 'a, 'w) database \<Rightarrow> 'x failure + ExecutionWorker option" where
  "find_worker_by_id en worker_id tenant_id d =
     (case session_get (en_workers en) (\<lambda>m. wm_id m = worker_id) (db_workers d) of
        None \<Rightarrow> Inr None
      | Some m \<Rightarrow> if en_differs en (wm_tenant_id m) tenant_id then Inr None else to_failure (map_sum id Some (worker_to_domain en m)))"

definition AVAILABLE :: "string set" where
  "AVAILABLE = WorkerHealthStatus_value ` {HEALTHY, DEGRADED}"

definition find_available_workers ::
  "('s, 'j, 'e, 'a, 'w, 'x) engine \<Rightarrow> EntityId \<Rightarrow> string \<Rightarrow> string option \<Rightarrow> ('s, 'j, 'e, 'a, 'w) database \<Rightarrow> 'x failure + ExecutionWorker list" where
  "find_available_workers en tenant_id technique_id network_zone d =
     sum_bind (to_failure (sum_map (worker_to_domain en) (tb_select (en_workers en)
       (\<lambda>m. wm_tenant_id m = en_uuid_of en tenant_id \<and> wm_health_status m \<in> AVAILABLE \<and>
          (case network_zone of None \<Rightarrow> True | Some z \<Rightarrow> wm_network_zone m = z)) (db_workers d)))) (\<lambda>workers.
     Inr (filter (\<lambda>v. technique_id \<in> wk_capabilities v) workers))"

definition list_available ::
  "('s, 'j, 'e, 'a, 'w, 'x) engine \<Rightarrow> EntityId \<Rightarrow> int \<Rightarrow> int \<Rightarrow> ('s, 'j, 'e, 'a, 'w) database \<Rightarrow> 'x failure + ExecutionWorker list" where
  "list_available en tenant_id limit offset d =
     to_failure (sum_map (worker_to_domain en) (take (nat limit) (drop (nat offset) (tb_select (en_workers en)
       (\<lambda>m. wm_tenant_id m = en_uuid_of en tenant_id \<and> wm_health_status m \<in> AVAILABLE) (db_workers d)))))"

section \<open>The unit of work\<close>

text \<open>\<open>ExecutionUnitOfWork.__aenter__\<close> gives the four repositories one session; \<open>commit\<close> is the session's.\<close>

definition pg_repositories ::
  "('s, 'j, 'e, 'a, 'w, 'x) engine \<Rightarrow> (('s, 'j, 'e, 'a, 'w) database, 'x) repositories" where
  "pg_repositories en =
     \<lparr>rp_find_switch_by_scope = find_by_scope en, rp_save_switch = save_kill_switch en,
      rp_find_journal_by_engagement = find_by_engagement en, rp_save_journal = save_journal_row en,
      rp_find_action_by_id = find_action_by_id en, rp_find_non_terminal_by_step = find_non_terminal_by_step en,
      rp_find_actions_by_operation = find_by_operation en, rp_save_action = save_attack_action en,
      rp_find_worker_by_id = find_worker_by_id en, rp_list_available_workers = list_available en,
      rp_save_worker = save_execution_worker en,
      rp_commit = (\<lambda>d. map_sum ExternalError id (en_commit en d))\<rparr>"

end
