(* ===== verification/Store_Invariant.thy ===== *)
theory Store_Invariant
  imports Kill_Switch_Service
begin

text \<open>
  What the use cases rely on of the repositories, as the locale \<open>execution_store\<close>: a property \<open>ok\<close> of the database under which loaded
  journals are intact chains and loaded actions are genuine, kept by saving such journals and actions. Under this contract every
  sequence of calls of the service keeps \<open>ok\<close> of the committed database.
\<close>

section \<open>Intact journals and genuine actions\<close>

definition intact :: "ExecutionJournal \<Rightarrow> bool" where
  "intact j \<longleftrightarrow> chained GENESIS_HASH 1 (jn_entries j)"

text \<open>All five safety checks of the action passed and its hash is the hash of its identity.\<close>

definition genuine :: "AttackAction \<Rightarrow> bool" where
  "genuine a \<longleftrightarrow> passed (aa_safety_check a) \<and> aa_action_hash a = expected_hash a"

lemma intact_create: "intact (Journal.create i t en now)"
  by (simp add: intact_def Journal.create_def Journal.emit_def assign_def)

lemma intact_append: "append_entry i t ty c now a s ref j = Return e j' \<Longrightarrow> intact j \<Longrightarrow> intact j'"
  by (simp add: intact_def append_entry_entries new_entry_chained)

lemma intact_verify: "verify_chain_integrity now j = Return r j' \<Longrightarrow> intact j \<Longrightarrow> intact j'"
  using chained_verified by (auto simp: intact_def verify_chain_integrity_def)

lemma genuine_identity: "identity_part b = identity_part a \<Longrightarrow> genuine a \<Longrightarrow> genuine b"
  by (simp add: genuine_def identity_part_def expected_hash_def)

lemma genuine_call: "exec_action c a = Return u b \<Longrightarrow> genuine a \<Longrightarrow> genuine b"
  using exec_action_identity [of c a] genuine_identity by fastforce

lemma genuine_calls:
  "start t now a = Return u b \<Longrightarrow> genuine a \<Longrightarrow> genuine b"
  "complete t now out a = Return u b \<Longrightarrow> genuine a \<Longrightarrow> genuine b"
  "fail t r now a = Return u b \<Longrightarrow> genuine a \<Longrightarrow> genuine b"
  "abort t r au now a = Return u b \<Longrightarrow> genuine a \<Longrightarrow> genuine b"
  "record_output_ref t ref now a = Return u b \<Longrightarrow> genuine a \<Longrightarrow> genuine b"
  using genuine_call [of "Start t now"] genuine_call [of "Complete t now out"] genuine_call [of "Fail t r now"]
    genuine_call [of "Abort t r au now"] genuine_call [of "Record_Output_Ref t ref now"] by simp_all

lemma genuine_verify: "verify_integrity now a = Return r b \<Longrightarrow> genuine a \<Longrightarrow> genuine b"
  by (auto simp: genuine_def verify_integrity_def and_return_def)

lemma genuine_created: "create_authorized i token inp now = Inr a \<Longrightarrow> genuine a"
proof -
  assume c: "create_authorized i token inp now = Inr a"
  then obtain tk where tk: "token = Some tk" "passed (tk_safety tk)" using create_authorized_iff by blast
  with created_identity [of i tk inp now a] c show ?thesis
    by (simp add: genuine_def identity_part_def expected_hash_def)
qed

lemma genuine_version [simp]: "genuine (a\<lparr>aa_version := n\<rparr>) = genuine a"
  by (simp add: genuine_def expected_hash_def)

lemma intact_version [simp]: "intact (j\<lparr>jn_version := n\<rparr>) = intact j"
  by (simp add: intact_def)

section \<open>The contract\<close>

locale execution_store =
  fixes sv :: "('d, 'k, 'r, 'p, 'q, 'x) service" and ok :: "'d \<Rightarrow> bool"
  assumes found_journal: "ok d \<Longrightarrow> rp_find_journal_by_engagement (sv_repositories sv) en t d = Inr (Some j) \<Longrightarrow> intact j"
    and found_action: "ok d \<Longrightarrow> rp_find_action_by_id (sv_repositories sv) i t d = Inr (Some a) \<Longrightarrow> genuine a"
    and saved_journal: "ok d \<Longrightarrow> intact j \<Longrightarrow> ok (final (rp_save_journal (sv_repositories sv) j d))"
    and saved_action: "ok d \<Longrightarrow> genuine a \<Longrightarrow> ok (final (rp_save_action (sv_repositories sv) a d))"
    and saved_switch: "ok d \<Longrightarrow> ok (final (rp_save_switch (sv_repositories sv) k d))"
    and saved_worker: "ok d \<Longrightarrow> ok (final (rp_save_worker (sv_repositories sv) v d))"
    and committed: "ok d \<Longrightarrow> rp_commit (sv_repositories sv) d = Inr d' \<Longrightarrow> ok d'"
begin

text \<open>\<open>safe V m\<close>: started with a good database and session, \<open>m\<close> ends with both good, and where it returns, with a value of \<open>V\<close>.\<close>

definition safe :: "('a \<Rightarrow> bool) \<Rightarrow> ('d, 'k, 'r, 'p, 'x, 'a) use_case \<Rightarrow> bool" where
  "safe V m \<longleftrightarrow> triple (\<lambda>w. ok (wd_db w) \<and> ok (wd_session w)) m (\<lambda>a w. ok (wd_db w) \<and> ok (wd_session w) \<and> V a) (\<lambda>_ w. ok (wd_db w) \<and> ok (wd_session w))"

lemma safe_and_then: "safe V m \<Longrightarrow> (\<And>a. V a \<Longrightarrow> safe U (f a)) \<Longrightarrow> safe U (and_then m f)"
  unfolding safe_def by (rule triple_and_then, assumption) (auto simp: triple_def)

lemma safe_weaken: "safe V m \<Longrightarrow> (\<And>a. V a \<Longrightarrow> U a) \<Longrightarrow> safe U m"
  unfolding safe_def by (rule triple_weaken, assumption) auto

lemma safe_any: "safe V m \<Longrightarrow> safe (\<lambda>_. True) m"
  by (rule safe_weaken, assumption) simp

lemma safe_give: "V a \<Longrightarrow> safe V (give a)"
  unfolding safe_def by (rule triple_give) simp

lemma safe_throw: "safe V (throw e)"
  unfolding safe_def by (rule triple_throw) simp

lemma safe_attempt: "(\<And>a. v = Inr a \<Longrightarrow> V a) \<Longrightarrow> safe V (attempt err v)"
  unfolding safe_def by (rule triple_attempt) simp_all

lemma safe_on_aggregate: "(\<And>u g. r = Return u g \<Longrightarrow> V g) \<Longrightarrow> safe V (on_aggregate err r)"
  unfolding safe_def by (rule triple_on_aggregate) simp_all

lemma safe_found_or: "(\<And>a. r = Some a \<Longrightarrow> V a) \<Longrightarrow> safe V (found_or e r)"
  unfolding safe_def by (rule triple_found_or) simp_all

lemma safe_load: "(\<And>a d. ok d \<Longrightarrow> q d = Inr a \<Longrightarrow> V a) \<Longrightarrow> safe V (load q)"
  unfolding safe_def by (rule triple_load) auto

lemma safe_save:
  assumes "\<And>d. ok d \<Longrightarrow> ok (final (f d))"
  shows "safe (\<lambda>_. True) (save f)"
  unfolding safe_def
proof (rule triple_save)
  fix a e d and w :: "('d, 'k, 'r, 'p) world"
  assume w: "ok (wd_db w) \<and> ok (wd_session w)"
  show "f (wd_session w) = Return a d \<Longrightarrow> ok (wd_db (w\<lparr>wd_session := d\<rparr>)) \<and> ok (wd_session (w\<lparr>wd_session := d\<rparr>)) \<and> True"
    using assms [of "wd_session w"] w by simp
  show "f (wd_session w) = Raise e d \<Longrightarrow> ok (wd_db (w\<lparr>wd_session := d\<rparr>)) \<and> ok (wd_session (w\<lparr>wd_session := d\<rparr>))"
    using assms [of "wd_session w"] w by simp
qed

lemma safe_commit: "safe (\<lambda>_. True) (commit sv)"
  unfolding safe_def by (rule triple_commit) (auto intro: committed)

lemma safe_publish: "safe (\<lambda>_. True) (publish es)"
  unfolding safe_def by (rule triple_publish) simp

lemma safe_if: "safe V m \<Longrightarrow> safe V n \<Longrightarrow> safe V (if c then m else n)"
  by simp

lemma safe_case_option: "safe V m \<Longrightarrow> (\<And>a. r = Some a \<Longrightarrow> safe V (f a)) \<Longrightarrow> safe V (case r of None \<Rightarrow> m | Some a \<Rightarrow> f a)"
  by (cases r) simp_all

lemma safe_outside:
  assumes "\<And>w. wd_db (final (m w)) = wd_db w \<and> wd_session (final (m w)) = wd_session w"
  shows "safe (\<lambda>_. True) m"
proof -
  have "triple (\<lambda>w. ok (wd_db w) \<and> ok (wd_session w)) m (\<lambda>_ w. ok (wd_db w) \<and> ok (wd_session w)) (\<lambda>_ w. ok (wd_db w) \<and> ok (wd_session w))"
    by (rule triple_finalI) (simp_all add: assms)
  then show ?thesis by (simp add: safe_def)
qed

lemma safe_in_uow: "safe V m \<Longrightarrow> safe V (in_uow m)"
  unfolding safe_def by (rule triple_in_uow, rule triple_weaken, assumption) auto

lemma safe_ignore_result:
  assumes "safe V m"
  shows "safe (\<lambda>_. True) (ignore_result m)"
proof -
  have "triple (\<lambda>w. ok (wd_db w) \<and> ok (wd_session w)) m (\<lambda>_ w. ok (wd_db w) \<and> ok (wd_session w)) (\<lambda>_ w. ok (wd_db w) \<and> ok (wd_session w))"
    using safe_any [OF assms] by (simp add: safe_def)
  from triple_ignore_result [OF this] show ?thesis by (simp add: safe_def)
qed

subsection \<open>The parts of the use cases\<close>

lemma safe_saves:
  "safe (\<lambda>_. True) (save_switch sv k)" "safe (\<lambda>_. True) (save_worker sv v)" "genuine a \<Longrightarrow> safe (\<lambda>_. True) (save_action sv a)"
  "intact j \<Longrightarrow> safe (\<lambda>_. True) (save_journal sv j)"
  unfolding save_switch_def save_worker_def save_action_def save_journal_def
  by (rule safe_and_then [OF safe_save safe_give]; blast intro: saved_switch saved_worker saved_action saved_journal)+

lemma safe_store_and_ports:
  "safe (\<lambda>_. True) (sync_kill_switch_store sv k)" "safe (\<lambda>_. True) (dispatch_to sv i v inp pid h)"
  "safe (\<lambda>_. True) (signal_abort_to sv i r)" "safe (\<lambda>_. True) (run_gate sv fr az)" "safe (\<lambda>_. True) (check_payload sv cmd)"
  by (rule safe_outside; simp add: sync_kill_switch_store_def dispatch_to_def signal_abort_to_def run_gate_def check_payload_def on_part_def
    and_then_def give_def split: outcome.splits option.splits)+

lemma safe_load_journal: "safe (\<lambda>r. \<forall>j. r = Some j \<longrightarrow> intact j) (load (rp_find_journal_by_engagement (sv_repositories sv) en t))"
  by (rule safe_load) (auto intro: found_journal)

lemma safe_journal_append: "safe (\<lambda>_. True) (journal_append sv fr t en ty c a s)"
  unfolding journal_append_def
  by (rule safe_and_then [OF safe_load_journal], rule safe_and_then [OF safe_give [where V = intact]],
      simp add: intact_create split: option.splits, rule safe_and_then [OF safe_on_aggregate [where V = intact]],
      blast intro: intact_append, rule safe_saves(4), assumption)

lemma safe_journal_if_present: "safe (\<lambda>_. True) (journal_if_present sv fr t en ty c a s)"
  unfolding journal_if_present_def
  by (rule safe_and_then [OF safe_load_journal], rule safe_case_option, rule safe_give, simp,
      rule safe_and_then [OF safe_attempt [where V = "\<lambda>_. True"]], simp,
      rule safe_and_then [OF safe_on_aggregate [where V = intact]], blast intro: intact_append,
      rule safe_and_then [OF safe_saves(4)], assumption, rule safe_give, simp)

lemma safe_find_action: "safe genuine (find_action sv i t)"
  unfolding find_action_def
  by (rule safe_and_then [OF safe_attempt [where V = "\<lambda>_. True"]], simp,
      rule safe_and_then [OF safe_load [where V = "\<lambda>r. \<forall>a. r = Some a \<longrightarrow> genuine a"]], blast intro: found_action,
      rule safe_found_or, simp)

lemma safe_finish_action: "genuine a \<Longrightarrow> safe (\<lambda>_. True) (finish_action sv a j)"
  unfolding finish_action_def
  by (rule safe_and_then [OF safe_saves(3)], assumption, rule safe_and_then [OF safe_commit], rule safe_and_then [OF safe_publish], rule safe_give, simp)

text \<open>Steps of which only the database matters.\<close>

lemma safe_then: "safe (\<lambda>_. True) m \<Longrightarrow> (\<And>a. safe U (f a)) \<Longrightarrow> safe U (and_then m f)"
  by (rule safe_and_then)

lemma safe_basic:
  "safe (\<lambda>_. True) (give a)" "safe (\<lambda>_. True) (throw e)" "safe (\<lambda>_. True) (attempt err v)" "safe (\<lambda>_. True) (on_aggregate err' r)"
  "safe (\<lambda>_. True) (found_or e' r')" "safe (\<lambda>_. True) (load q)"
  by (simp_all add: safe_give safe_throw safe_attempt safe_on_aggregate safe_found_or safe_load)

lemma safe_finds:
  "safe (\<lambda>_. True) (find_worker sv i t)" "safe (\<lambda>_. True) (load_worker sv i' t)" "safe (\<lambda>_. True) (countersign_of cmd)"
  unfolding find_worker_def load_worker_def countersign_of_def by (intro safe_then safe_basic safe_case_option safe_if)+

lemmas safe_intros = safe_then safe_basic safe_case_option safe_if safe_in_uow safe_commit safe_publish safe_saves(1,2)
  safe_store_and_ports safe_journal_append safe_finds

lemma safe_switches:
  "safe (\<lambda>_. True) (trigger_kill_switch sv fr tcmd)" "safe (\<lambda>_. True) (release_kill_switch sv fr rcmd)"
  "safe (\<lambda>_. True) (re_arm_kill_switch sv fr acmd)" "safe (\<lambda>_. True) (get_kill_switch sv t sc ref)"
  unfolding trigger_kill_switch_def release_kill_switch_def re_arm_kill_switch_def get_kill_switch_def journal_kill_switch_def
  by (intro safe_intros)+

lemma safe_workers:
  "safe (\<lambda>_. True) (register_execution_worker sv fr wcmd)" "safe (\<lambda>_. True) (decommission_execution_worker sv fr t i op)"
  "safe (\<lambda>_. True) (record_worker_heartbeat sv fr t i h)" "safe (\<lambda>_. True) (get_execution_worker sv t i)"
  "safe (\<lambda>_. True) (list_available_workers sv t l n)"
  unfolding register_execution_worker_def decommission_execution_worker_def record_worker_heartbeat_def get_execution_worker_def
    list_available_workers_def store_worker_def
  by (intro safe_intros)+

lemma safe_journals:
  "safe (\<lambda>_. True) (create_journal sv fr t en)" "safe (\<lambda>_. True) (ensure_journal_for_engagement sv fr t en)"
  "safe (\<lambda>_. True) (append_journal_entry sv fr jcmd)" "safe (\<lambda>_. True) (get_journal sv t en)"
  unfolding create_journal_def ensure_journal_for_engagement_def append_journal_entry_def get_journal_def
  by (intro safe_intros safe_saves(4) intact_create)+

lemma safe_query_journal_integrity: "safe (\<lambda>_. True) (query_journal_integrity sv fr t en)"
proof -
  have "safe (\<lambda>_. True) (case verify_chain_integrity now j of Raise e _ \<Rightarrow> throw (Domain e) | Return report j \<Rightarrow>
      and_then (save_journal sv j) (\<lambda>j. and_then (commit sv) (\<lambda>_. and_then (publish (journal_events_of j)) (\<lambda>_. give (f report)))))"
    if "intact j" for now j f
    using intact_verify [OF _ that]
    by (cases "verify_chain_integrity now j") (auto intro!: safe_intros safe_saves(4))
  then show ?thesis
    unfolding query_journal_integrity_def
    by (intro safe_then safe_basic safe_in_uow safe_and_then [OF safe_load_journal]
        safe_and_then [OF safe_found_or [where V = intact]]) auto
qed

lemma safe_finishing:
  assumes "\<And>a u b. genuine a \<Longrightarrow> f a = Return u b \<Longrightarrow> genuine b" and "\<And>b. safe (\<lambda>_. True) (m b)"
  shows "safe (\<lambda>_. True) (and_then (find_action sv i t) (\<lambda>a. and_then (on_aggregate Domain (f a)) (\<lambda>b. and_then (m b) (\<lambda>x. finish_action sv b (g x)))))"
  by (rule safe_and_then [OF safe_find_action], rule safe_and_then [OF safe_on_aggregate [where V = genuine]], blast intro: assms(1),
      rule safe_then [OF assms(2)], rule safe_finish_action, assumption)

lemma safe_finishes:
  "safe (\<lambda>_. True) (complete_attack_action sv fr t i h ref)" "safe (\<lambda>_. True) (fail_attack_action sv fr t i r)"
  unfolding complete_attack_action_def fail_attack_action_def
  by (intro safe_then safe_basic safe_in_uow safe_finishing [where g = "\<lambda>x. x"] safe_journal_if_present;
      auto intro: genuine_calls)+

lemma safe_abort: "safe (\<lambda>_. True) (abort_attack_action sv fr t i r op)"
  unfolding abort_attack_action_def
  by ((rule safe_then [OF safe_basic(3)])+, rule safe_in_uow, rule safe_and_then [OF safe_find_action],
      rule safe_and_then [OF safe_on_aggregate [where V = genuine]], erule (1) genuine_calls(4),
      intro safe_then safe_store_and_ports safe_journal_if_present safe_finish_action)

lemma safe_record_output: "safe (\<lambda>_. True) (record_action_output sv fr t i h ref)"
  unfolding record_action_output_def
  by ((rule safe_then [OF safe_basic(3)])+, rule safe_in_uow, rule safe_and_then [OF safe_find_action], rule safe_then [OF safe_basic(3)],
      rule safe_and_then [OF safe_on_aggregate [where V = genuine]], erule (1) genuine_calls(5), rule safe_finish_action)

lemma safe_get_action: "safe (\<lambda>_. True) (get_attack_action sv fr t i)"
proof -
  have "safe (\<lambda>_. True) (case verify_integrity now a of Raise e _ \<Rightarrow> throw (Domain e)
      | Return good a \<Rightarrow> if \<not> good then finish_action sv a None else give (attack_action_dto a))" if "genuine a" for now a
    using genuine_verify [OF _ that]
    by (cases "verify_integrity now a") (auto intro!: safe_basic safe_finish_action)
  then show ?thesis
    unfolding get_attack_action_def by (intro safe_in_uow, rule safe_and_then [OF safe_find_action]) blast
qed

lemma safe_list_actions: "safe (\<lambda>_. True) (list_attack_actions_by_operation sv t i l n)"
  unfolding list_attack_actions_by_operation_def by (intro safe_intros)

lemma safe_deny: "safe (\<lambda>_. True) (deny sv fr t en f cmd msg)"
  unfolding deny_def journal_authorization_failure_def by (intro safe_intros)

lemma safe_hand_to_worker: "safe (\<lambda>_. True) (hand_to_worker sv fr cmd tq a v)"
  unfolding hand_to_worker_def by (intro safe_intros safe_deny)

lemma safe_start_action: "safe (\<lambda>_. True) (start_action sv fr cmd tq v tk)"
  unfolding start_action_def
  by (rule safe_and_then [OF safe_attempt [where V = genuine]], blast intro: genuine_created,
      rule safe_and_then [OF safe_on_aggregate [where V = genuine]], erule (1) genuine_calls(1),
      intro safe_intros safe_hand_to_worker safe_saves(3))

lemma safe_authorize: "safe (\<lambda>_. True) (authorize_and_start_attack_action sv fr cmd)"
  unfolding authorize_and_start_attack_action_def by (intro safe_intros safe_deny safe_start_action)

lemma safe_exec_service: "safe (\<lambda>_. True) (exec_service sv c)"
proof -
  obtain fr k where c: "c = (fr, k)" by (cases c)
  show ?thesis
    unfolding c
    by (cases k; simp only: exec_service.simps; rule safe_ignore_result [where V = "\<lambda>_. True"]; intro safe_switches safe_workers safe_journals safe_query_journal_integrity safe_authorize safe_abort
          safe_finishes safe_record_output safe_get_action safe_list_actions)
qed

text \<open>The committed database stays good under every sequence of calls.\<close>

lemma history_ok:
  assumes "ok (wd_db w)" and "ok (wd_session w)"
  shows "ok (wd_db (history (exec_service sv) cs w))"
proof -
  have "ok (wd_db (history (exec_service sv) cs w)) \<and> ok (wd_session (history (exec_service sv) cs w))"
    by (rule history_keeps [where P = "\<lambda>w. ok (wd_db w) \<and> ok (wd_session w)"])
      (use assms safe_exec_service in \<open>auto simp: keeps_def safe_def dest!: triple_final\<close>)
  then show ?thesis by simp
qed

end

end
