(* ===== verification/Repository_Laws.thy ===== *)
theory Repository_Laws
  imports Repositories Store_Invariant
begin

text \<open>
  Laws of the PostgreSQL repositories, for every engine that satisfies \<open>engine_laws\<close> (locale \<open>pg_engine\<close>): reading back what was
  written gives the aggregate, journals stay intact chains and actions genuine under every sequence of calls of the service, and
  what the version check of the repositories lets through.
\<close>

section \<open>Enumerations\<close>

lemma enum_values [simp]:
  "KillSwitchScope_of (KillSwitchScope_value sc) = Inr sc"
  "enum_of ''KillSwitchArmedState'' KillSwitchArmedState_value [ARMED, TRIGGERED, RELEASED] (KillSwitchArmedState_value ar) = Inr ar"
  "ImpactCeiling_of (ImpactCeiling_value ic) = Inr ic"
  "JournalEntryType_of (JournalEntryType_value ty) = Inr ty"
  "WorkerType_of (WorkerType_value wt) = Inr wt"
  "WorkerTrustLevel_of (WorkerTrustLevel_value trust) = Inr trust"
  "WorkerHealthStatus_of (WorkerHealthStatus_value hs) = Inr hs"
  "enum_of ''AttackActionState'' AttackActionState_value
     [AUTHORIZED, EXECUTING, COMPLETED, AttackActionState.FAILED, ABORTED, TIMED_OUT] (AttackActionState_value st) = Inr st"
  "enum_of ''ScopeVerificationStatus'' ScopeVerificationStatus_value
     [ScopeVerificationStatus.VERIFIED, ScopeVerificationStatus.FAILED, ScopeVerificationStatus.UNAVAILABLE] (ScopeVerificationStatus_value ss) = Inr ss"
  "enum_of ''RateLimitDecision'' RateLimitDecision_value [PERMITTED, THROTTLED, FORBIDDEN] (RateLimitDecision_value rd) = Inr rd"
  subgoal by (cases sc) (simp_all add: KillSwitchScope_of_def enum_of_def)
  subgoal by (cases ar) (simp_all add: enum_of_def)
  subgoal by (cases ic) (simp_all add: ImpactCeiling_of_def enum_of_def)
  subgoal by (cases ty) (simp_all add: JournalEntryType_of_def enum_of_def)
  subgoal by (cases wt) (simp_all add: WorkerType_of_def enum_of_def)
  subgoal by (cases trust) (simp_all add: WorkerTrustLevel_of_def enum_of_def)
  subgoal by (cases hs) (simp_all add: WorkerHealthStatus_of_def enum_of_def)
  subgoal by (cases st) (simp_all add: enum_of_def)
  subgoal by (cases ss) (simp_all add: enum_of_def)
  subgoal by (cases rd) (simp_all add: enum_of_def)
  done

lemma non_nil_Inr: "non_nil c u = Inr v \<longleftrightarrow> uint u \<noteq> 0 \<and> v = u"
  by (auto simp: non_nil_def)

section \<open>Reading back\<close>

text \<open>The conditions of the value objects and identifiers of an aggregate.\<close>

definition ids_ok :: "uuid list \<Rightarrow> bool" where
  "ids_ok us \<longleftrightarrow> (\<forall>u \<in> set us. uint u \<noteq> 0)"

definition authority_ok :: "Authority option \<Rightarrow> bool" where
  "authority_ok a \<longleftrightarrow> (\<forall>x. a = Some x \<longrightarrow> uint (au_operator_id x) \<noteq> 0 \<and> strip (au_role x) \<noteq> [])"

definition switch_storable :: "KillSwitchState \<Rightarrow> bool" where
  "switch_storable k \<longleftrightarrow> uint (ks_kill_switch_id k) \<noteq> 0 \<and> authority_ok (ks_trigger_authority k) \<and> authority_ok (ks_release_authority k) \<and>
     authority_ok (ks_release_countersign_authority k) \<and>
     (\<forall>r. ks_trigger_reason k = Some r \<longrightarrow> make_TriggerReason r = Inr r) \<and> (\<forall>h. ks_trigger_hash k = Some h \<longrightarrow> length h = 64)"

definition action_storable :: "AttackAction \<Rightarrow> bool" where
  "action_storable a \<longleftrightarrow> ids_ok [aa_action_id a, aa_engagement_id a, aa_operation_id a, st_step_id (aa_step_ref a), aa_target_ref a, aa_operator_ref a] \<and>
     (\<forall>v. aa_worker_ref a = Some v \<longrightarrow> uint v \<noteq> 0) \<and>
     aa_step_ref a = \<lparr>st_step_id = st_step_id (aa_step_ref a), st_operation_id = aa_operation_id a, st_engagement_id = aa_engagement_id a\<rparr> \<and>
     strip (tq_technique_id (aa_technique_ref a)) \<noteq> [] \<and> strip (tq_technique_category (aa_technique_ref a)) \<noteq> [] \<and>
     length (aa_action_hash a) = 64 \<and>
     (\<forall>r. aa_output_ref a = Some r \<longrightarrow> length (ao_output_hash r) = 64 \<and> strip (ao_storage_ref r) \<noteq> [])"

definition worker_storable :: "ExecutionWorker \<Rightarrow> bool" where
  "worker_storable v \<longleftrightarrow> ids_ok [wk_worker_id v, wk_signer_operator_id v] \<and> finite (wk_capabilities v)"

lemma strip_nonempty: "strip s \<noteq> [] \<Longrightarrow> s \<noteq> []"
  by (auto simp: strip_def)

lemma authority_round_trip:
  assumes "authority_ok a"
  shows "authority_of make_TriggerAuthority (map_option au_operator_id a) (map_option au_role a) = Inr a"
    "authority_of make_ReleaseAuthority (map_option au_operator_id a) (map_option au_role a) = Inr a"
  using assms
  by (cases a; auto simp: authority_of_def authority_ok_def truthy_def non_nil_def make_TriggerAuthority_def make_ReleaseAuthority_def
    dest: strip_nonempty)+

lemma switch_round_trip:
  assumes "en_from_uuid en (en_uuid_of en (ks_tenant_id k)) = ks_tenant_id k" and "switch_storable k"
  shows "kill_switch_to_domain en (kill_switch_to_model en k\<lparr>km_row_version := n\<rparr>) = Inr (k\<lparr>ks_version := n, ks_pending_events := []\<rparr>)"
proof -
  have reason: "when_truthy (ks_trigger_reason k) make_TriggerReason = Inr (ks_trigger_reason k)"
    using assms(2) by (cases "ks_trigger_reason k") (auto simp: switch_storable_def when_truthy_def truthy_def make_TriggerReason_def Let_def split: if_splits)
  have hash: "when_truthy (ks_trigger_hash k) make_TriggerHash = Inr (ks_trigger_hash k)"
    using assms(2) by (cases "ks_trigger_hash k") (auto simp: switch_storable_def when_truthy_def truthy_def make_TriggerHash_def)
  show ?thesis
    using assms by (simp add: kill_switch_to_domain_def kill_switch_to_model_def switch_storable_def authority_round_trip reason hash non_nil_def)
qed

lemma safety_round_trip: "map_of kvs = map_of (safety_json s) \<Longrightarrow> safety_of_json kvs = Inr s"
  by (simp add: safety_of_json_def json_key_def safety_json_def json_enum_def)

lemma action_round_trip:
  assumes "en_from_uuid en (en_uuid_of en (aa_tenant_id a)) = aa_tenant_id a" and "\<And>s. map_of (en_jsonb en (safety_json s)) = map_of (safety_json s)"
    and "action_storable a"
  shows "action_to_domain en (action_to_model en a\<lparr>am_row_version := n\<rparr>) =
    Inr (a\<lparr>aa_action_input := en_jsonb en (aa_action_input a), aa_version := n, aa_pending_events := []\<rparr>)"
proof -
  have out: "output_of_columns (map_option ao_output_hash (aa_output_ref a)) (map_option ao_storage_ref (aa_output_ref a)) = Inr (aa_output_ref a)"
    using assms(3) strip_nonempty
    by (cases "aa_output_ref a") (auto simp: action_storable_def output_of_columns_def truthy_def make_ActionOutputRef_def)
  have worker: "if_some (aa_worker_ref a) (non_nil c) = Inr (aa_worker_ref a)" for c
    using assms(3) by (cases "aa_worker_ref a") (simp_all add: action_storable_def non_nil_def)
  have step: "\<lparr>st_step_id = st_step_id (aa_step_ref a), st_operation_id = aa_operation_id a, st_engagement_id = aa_engagement_id a\<rparr> = aa_step_ref a"
    using assms(3) by (simp add: action_storable_def)
  show ?thesis
    using assms
    by (simp add: action_to_domain_def action_to_model_def out worker step safety_round_trip action_storable_def ids_ok_def non_nil_def
      make_TechniqueRef_def make_ActionHash_def)
qed

lemma worker_round_trip:
  assumes "en_from_uuid en (en_uuid_of en (wk_tenant_id v)) = wk_tenant_id v" and "worker_storable v"
  shows "worker_to_domain en (worker_to_model en v\<lparr>wm_row_version := n\<rparr>) = Inr (v\<lparr>wk_version := n, wk_pending_events := []\<rparr>)"
proof -
  have "json_str ` JStr ` wk_capabilities v = wk_capabilities v" by (simp add: image_comp json_str_def)
  then show ?thesis
    using assms by (simp add: worker_to_domain_def worker_to_model_def worker_storable_def ids_ok_def non_nil_def)
qed

section \<open>Tables\<close>

lemma to_failure_Inr: "to_failure v = Inr a \<longleftrightarrow> v = Inr a"
  by (cases v) (simp_all add: to_failure_def)

lemma scalar_found:
  "sum_bind (scalar_one_or_none x rs) (\<lambda>found. if_some found (\<lambda>m. to_failure (f m))) = Inr (Some a) \<longleftrightarrow> (\<exists>m. rs = [m] \<and> f m = Inr a)"
  by (cases "scalar_one_or_none x rs"; cases rs; cases "tl rs")
    (auto simp: scalar_one_or_none_def sum_bind_Inr to_failure_Inr split: list.splits)

section \<open>The version check\<close>

text \<open>What a repository with an optimistic lock promises of \<open>save\<close>: \<open>held g d\<close> are the versions of the rows with the key of \<open>g\<close>.\<close>

locale optimistic_repository =
  fixes save :: "'g \<Rightarrow> 'd \<Rightarrow> ('x failure, int, 'd) outcome" and version :: "'g \<Rightarrow> int" and held :: "'g \<Rightarrow> 'd \<Rightarrow> int multiset"
  assumes first: "held g d = {#} \<Longrightarrow> \<exists>d'. save g d = Return 1 d' \<and> held g d' = {#1#}"
    and conflict: "held g d = {#v#} \<Longrightarrow> version g \<noteq> v \<Longrightarrow>
      \<exists>i actual d'. save g d = Raise (DomainError (OptimisticLockConflict i (version g) actual)) d'"
begin

text \<open>An aggregate that was loaded and whose version a call has raised since is never saved.\<close>

lemma mutated_conflicts:
  assumes "held g d = {#v#}" and "v < version g"
  shows "\<exists>i actual d'. save g d = Raise (DomainError (OptimisticLockConflict i (version g) actual)) d'"
  using assms conflict [of g d v] by simp

lemma unchanged_only:
  assumes "held g d = {#v#}" and "save g d = Return n d'"
  shows "version g = v"
  using assms conflict [of g d v] by force

end

text \<open>The four repositories, over an engine that satisfies the laws.\<close>

locale pg_engine =
  fixes en :: "('s, 'j, 'e, 'a, 'w, 'x) engine"
  assumes laws: "engine_laws en"
begin

lemma tables:
  "table_laws (en_switches en)" "table_laws (en_journals en)" "table_laws (en_entries en)" "table_laws (en_actions en)"
  "table_laws (en_workers en)"
  using laws by (simp_all add: engine_laws_def)

lemma conversions:
  "en_uuid_of en (en_from_uuid en u) = u" "map_of (en_jsonb en (safety_json s)) = map_of (safety_json s)" "en_commit en d = Inr d' \<Longrightarrow> d' = d"
  subgoal using laws by (simp add: engine_laws_def)
  subgoal by (rule json_same_flat) (use laws in \<open>auto simp: engine_laws_def safety_json_def json_scalar_def\<close>)
  subgoal using laws by (simp add: engine_laws_def)
  done

end

definition switch_versions :: "('s, 'j, 'e, 'a, 'w, 'x) engine \<Rightarrow> KillSwitchState \<Rightarrow> ('s, 'j, 'e, 'a, 'w) database \<Rightarrow> int multiset" where
  "switch_versions en k d = image_mset km_row_version {#m \<in># rows (en_switches en) (db_switches d). km_id m = ks_kill_switch_id k#}"

definition journal_versions :: "('s, 'j, 'e, 'a, 'w, 'x) engine \<Rightarrow> ExecutionJournal \<Rightarrow> ('s, 'j, 'e, 'a, 'w) database \<Rightarrow> int multiset" where
  "journal_versions en j d = image_mset jm_row_version {#m \<in># rows (en_journals en) (db_journals d). jm_id m = jn_journal_id j#}"

definition action_versions :: "('s, 'j, 'e, 'a, 'w, 'x) engine \<Rightarrow> AttackAction \<Rightarrow> ('s, 'j, 'e, 'a, 'w) database \<Rightarrow> int multiset" where
  "action_versions en a d = image_mset am_row_version {#m \<in># rows (en_actions en) (db_actions d).
     am_id m = aa_action_id a \<and> am_execution_timestamp m = aa_execution_timestamp a#}"

definition worker_versions :: "('s, 'j, 'e, 'a, 'w, 'x) engine \<Rightarrow> ExecutionWorker \<Rightarrow> ('s, 'j, 'e, 'a, 'w) database \<Rightarrow> int multiset" where
  "worker_versions en v d = image_mset wm_row_version {#m \<in># rows (en_workers en) (db_workers d). wm_id m = wk_worker_id v#}"

context pg_engine
begin

lemma switch_repository: "optimistic_repository (save_kill_switch en) ks_version (switch_versions en)"
proof
  fix k :: KillSwitchState and d
  assume "switch_versions en k d = {#}"
  from held_none [OF tables(1) this [unfolded switch_versions_def]]
  show "\<exists>d'. save_kill_switch en k d = Return 1 d' \<and> switch_versions en k d' = {#1#}"
    by (simp add: save_kill_switch_def session_get_def kill_switch_to_model_def switch_versions_def table_add [OF tables(1)])
next
  fix k :: KillSwitchState and d n
  let ?key = "\<lambda>m. km_id m = ks_kill_switch_id k"
  assume held: "switch_versions en k d = {#n#}" and n: "ks_version k \<noteq> n"
  obtain r where r: "tb_select (en_switches en) ?key (db_switches d) = [r]" "filter_mset ?key (rows (en_switches en) (db_switches d)) = {#r#}" "km_row_version r = n"
    by (rule held_one [OF tables(1) held [unfolded switch_versions_def]])
  from no_row_updated [where f = km_row_version and n = "ks_version k" and g = "kill_switch_update k (ks_version k + 1)", OF tables(1) r(2)] r(3) n
  show "\<exists>i actual d'. save_kill_switch en k d = Raise (DomainError (OptimisticLockConflict i (ks_version k) actual)) d'"
    by (auto simp: save_kill_switch_def session_get_def scalar_one_or_none_def r(1) Let_def)
qed

lemma journal_repository: "optimistic_repository (save_journal_row en) jn_version (journal_versions en)"
proof
  fix j :: ExecutionJournal and d
  assume "journal_versions en j d = {#}"
  from held_none [OF tables(2) this [unfolded journal_versions_def]]
  show "\<exists>d'. save_journal_row en j d = Return 1 d' \<and> journal_versions en j d' = {#1#}"
    by (simp add: save_journal_row_def session_get_def add_entries_def journal_versions_def table_add [OF tables(2)])
next
  fix j :: ExecutionJournal and d n
  let ?key = "\<lambda>m. jm_id m = jn_journal_id j"
  assume held: "journal_versions en j d = {#n#}" and n: "jn_version j \<noteq> n"
  obtain r where r: "tb_select (en_journals en) ?key (db_journals d) = [r]" "filter_mset ?key (rows (en_journals en) (db_journals d)) = {#r#}" "jm_row_version r = n"
    by (rule held_one [OF tables(2) held [unfolded journal_versions_def]])
  from no_row_updated [where f = jm_row_version and n = "jn_version j" and g = "\<lambda>m. m\<lparr>jm_updated_at := jn_updated_at j, jm_row_version := jn_version j + 1\<rparr>", OF tables(2) r(2)] r(3) n
  show "\<exists>i actual d'. save_journal_row en j d = Raise (DomainError (OptimisticLockConflict i (jn_version j) actual)) d'"
    by (auto simp: save_journal_row_def session_get_def scalar_one_or_none_def r(1) Let_def)
qed

lemma action_repository: "optimistic_repository (save_attack_action en) aa_version (action_versions en)"
proof
  fix a :: AttackAction and d
  assume "action_versions en a d = {#}"
  from held_none [OF tables(4) this [unfolded action_versions_def]]
  show "\<exists>d'. save_attack_action en a d = Return 1 d' \<and> action_versions en a d' = {#1#}"
    by (simp add: save_attack_action_def scalar_one_or_none_def action_to_model_def action_versions_def table_add [OF tables(4)])
next
  fix a :: AttackAction and d n
  let ?key = "\<lambda>m. am_id m = aa_action_id a \<and> am_execution_timestamp m = aa_execution_timestamp a"
  assume held: "action_versions en a d = {#n#}" and n: "aa_version a \<noteq> n"
  obtain r where r: "tb_select (en_actions en) ?key (db_actions d) = [r]" "filter_mset ?key (rows (en_actions en) (db_actions d)) = {#r#}" "am_row_version r = n"
    by (rule held_one [OF tables(4) held [unfolded action_versions_def]])
  from no_row_updated [where f = am_row_version and n = "aa_version a" and g = "action_update a (aa_version a + 1)", OF tables(4) r(2)] r(3) n
  show "\<exists>i actual d'. save_attack_action en a d = Raise (DomainError (OptimisticLockConflict i (aa_version a) actual)) d'"
    by (auto simp: save_attack_action_def conj_assoc session_get_def scalar_one_or_none_def r(1) Let_def)
qed

lemma worker_repository: "optimistic_repository (save_execution_worker en) wk_version (worker_versions en)"
proof
  fix v :: ExecutionWorker and d
  assume "worker_versions en v d = {#}"
  from held_none [OF tables(5) this [unfolded worker_versions_def]]
  show "\<exists>d'. save_execution_worker en v d = Return 1 d' \<and> worker_versions en v d' = {#1#}"
    by (simp add: save_execution_worker_def session_get_def worker_to_model_def worker_versions_def table_add [OF tables(5)])
next
  fix v :: ExecutionWorker and d n
  let ?key = "\<lambda>m. wm_id m = wk_worker_id v"
  assume held: "worker_versions en v d = {#n#}" and n: "wk_version v \<noteq> n"
  obtain r where r: "tb_select (en_workers en) ?key (db_workers d) = [r]" "filter_mset ?key (rows (en_workers en) (db_workers d)) = {#r#}" "wm_row_version r = n"
    by (rule held_one [OF tables(5) held [unfolded worker_versions_def]])
  from no_row_updated [where f = wm_row_version and n = "wk_version v" and g = "worker_update v (wk_version v + 1)", OF tables(5) r(2)] r(3) n
  show "\<exists>i actual d'. save_execution_worker en v d = Raise (DomainError (OptimisticLockConflict i (wk_version v) actual)) d'"
    by (auto simp: save_execution_worker_def session_get_def scalar_one_or_none_def r(1) Let_def)
qed

end

sublocale pg_engine \<subseteq> switches: optimistic_repository "save_kill_switch en" ks_version "switch_versions en"
  by (rule switch_repository)

sublocale pg_engine \<subseteq> journals: optimistic_repository "save_journal_row en" jn_version "journal_versions en"
  by (rule journal_repository)

sublocale pg_engine \<subseteq> actions: optimistic_repository "save_attack_action en" aa_version "action_versions en"
  by (rule action_repository)

sublocale pg_engine \<subseteq> workers: optimistic_repository "save_execution_worker en" wk_version "worker_versions en"
  by (rule worker_repository)

section \<open>Journals and actions in the tables\<close>

text \<open>The entries of the journal \<open>i\<close> are an intact chain, in any order; an action row holds passed safety checks and the hash of its
  own identity.\<close>

definition entries_intact :: "('s, 'j, 'e, 'a, 'w, 'x) engine \<Rightarrow> ('s, 'j, 'e, 'a, 'w) database \<Rightarrow> uuid \<Rightarrow> bool" where
  "entries_intact en d i \<longleftrightarrow> (\<exists>j. intact j \<and> jn_journal_id j = i \<and>
     {#r \<in># rows (en_entries en) (db_entries d). em_journal_id r = i#} = mset (map (entry_to_model en j) (jn_entries j)))"

definition row_genuine :: "AttackActionModel \<Rightarrow> bool" where
  "row_genuine m \<longleftrightarrow> (\<forall>s. safety_of_json (am_safety_check_json m) = Inr s \<longrightarrow> passed s) \<and>
     (\<forall>c tq. ImpactCeiling_of (am_impact_ceiling m) = Inr c \<longrightarrow> make_TechniqueRef (am_technique_id m) (am_technique_category m) c = Inr tq \<longrightarrow>
       am_action_hash m = ActionHash_compute (am_id m) (am_target_id m) tq (am_input_hash m) (am_execution_timestamp m))"

definition store_ok :: "('s, 'j, 'e, 'a, 'w, 'x) engine \<Rightarrow> ('s, 'j, 'e, 'a, 'w) database \<Rightarrow> bool" where
  "store_ok en d \<longleftrightarrow>
     (\<forall>m \<in># rows (en_journals en) (db_journals d). entries_intact en d (jm_id m)) \<and>
     (\<forall>r \<in># rows (en_entries en) (db_entries d). em_journal_id r \<in> jm_id ` set_mset (rows (en_journals en) (db_journals d))) \<and>
     (\<forall>m \<in># rows (en_actions en) (db_actions d). row_genuine m)"

lemma entry_read_back: "entry_to_domain (entry_to_model en j e) = Inr e' \<Longrightarrow> e' = e"
  by (auto simp: entry_to_domain_def entry_to_model_def sum_bind_Inr if_some_def non_nil_Inr split: option.splits)

lemma entries_read_back:
  assumes "sum_map entry_to_domain (map (entry_to_model en j) es) = Inr es'"
  shows "es' = es"
  using assms unfolding sum_map_Inr
  by (induction es arbitrary: es') (auto simp: list_all2_Cons1 dest: entry_read_back)

lemma chained_sorted: "chained GENESIS_HASH 1 es \<Longrightarrow> sorted (map je_sequence_number es) \<and> distinct (map je_sequence_number es)"
  using chained_sequence [of GENESIS_HASH 1 es] by (simp add: sorted_map_mono monoI mono_on_def distinct_map inj_on_def)

lemma entries_sorted:
  assumes "intact j" and "mset rs = mset (map (entry_to_model en j) (jn_entries j))"
  shows "sort_key em_sequence_number rs = map (entry_to_model en j) (jn_entries j)"
proof (rule sort_key_inj_key_eq [OF assms(2)])
  have seq: "map em_sequence_number (map (entry_to_model en j) (jn_entries j)) = map je_sequence_number (jn_entries j)"
    by (simp add: entry_to_model_def)
  note sd = chained_sorted [OF assms(1) [unfolded intact_def], folded seq]
  show "sorted (map em_sequence_number (map (entry_to_model en j) (jn_entries j)))" using sd by blast
  have "set rs = set (map (entry_to_model en j) (jn_entries j))" using assms(2) by (metis set_mset_mset)
  then show "inj_on em_sequence_number (set rs)" using sd by (metis distinct_map)
qed

lemma read_genuine: "row_genuine m \<Longrightarrow> action_to_domain en m = Inr a \<Longrightarrow> genuine a"
  by (auto simp: row_genuine_def genuine_def expected_hash_def action_to_domain_def sum_bind_Inr non_nil_Inr make_ActionHash_def split: if_splits)

lemma written_genuine:
  assumes "genuine a" and "map_of (en_jsonb en (safety_json (aa_safety_check a))) = map_of (safety_json (aa_safety_check a))"
  shows "row_genuine (action_to_model en a\<lparr>am_row_version := n\<rparr>)"
proof -
  have tq: "tq = aa_technique_ref a" if "make_TechniqueRef (tq_technique_id (aa_technique_ref a)) (tq_technique_category (aa_technique_ref a))
      (tq_impact_ceiling (aa_technique_ref a)) = Inr tq" for tq
    using that by (cases "aa_technique_ref a") (simp add: make_TechniqueRef_def split: if_splits)
  show ?thesis
    using assms by (auto simp: row_genuine_def genuine_def expected_hash_def action_to_model_def safety_round_trip dest: tq)
qed

lemma updated_genuine: "row_genuine (action_update a n m) = row_genuine m"
  by (simp add: row_genuine_def action_update_def)

context pg_engine
begin

lemma loaded_intact:
  assumes "entries_intact en d (jm_id m)" and "load_journal en d m = Inr j"
  shows "intact j"
proof -
  from assms(1) obtain k where k: "intact k" "mset (tb_select (en_entries en) (\<lambda>r. em_journal_id r = jm_id m) (db_entries d)) =
      mset (map (entry_to_model en k) (jn_entries k))"
    unfolding entries_intact_def using table_select [OF tables(3)] by metis
  from assms(2) have "sum_map entry_to_domain (map (entry_to_model en k) (jn_entries k)) = Inr (jn_entries j)"
    by (auto simp: load_journal_def sum_bind_Inr entries_sorted [OF k])
  from entries_read_back [OF this] k(1) show ?thesis by (simp add: intact_def)
qed

lemma find_journal_intact:
  assumes "store_ok en d" and "find_by_engagement en e t d = Inr (Some j)"
  shows "intact j"
proof -
  from assms(2) obtain m where m: "tb_select (en_journals en) (\<lambda>m. jm_tenant_id m = en_uuid_of en t \<and> jm_engagement_id m = e) (db_journals d) = [m]"
      "load_journal en d m = Inr j"
    unfolding find_by_engagement_def scalar_found by blast
  have "m \<in># rows (en_journals en) (db_journals d)"
    using select_set [OF tables(2), of _ "db_journals d"] m(1) by (metis (mono_tags, lifting) list.set_intros(1) mem_Collect_eq)
  with assms(1) have "entries_intact en d (jm_id m)" by (simp add: store_ok_def)
  then show ?thesis using m(2) by (rule loaded_intact)
qed

lemma find_action_genuine:
  assumes "store_ok en d" and "find_action_by_id en i t d = Inr (Some a)"
  shows "genuine a"
proof -
  from assms(2) obtain m where m: "tb_select (en_actions en) (\<lambda>m. am_id m = i \<and> am_tenant_id m = en_uuid_of en t) (db_actions d) = [m]"
      "action_to_domain en m = Inr a"
    unfolding find_action_by_id_def scalar_found by blast
  have "m \<in># rows (en_actions en) (db_actions d)"
    using select_set [OF tables(4), of _ "db_actions d"] m(1) by (metis (mono_tags, lifting) list.set_intros(1) mem_Collect_eq)
  with assms(1) have "row_genuine m" by (simp add: store_ok_def)
  then show ?thesis by (rule read_genuine [OF _ m(2)])
qed

lemma add_entries_rows:
  "rows (en_entries en) (fold (\<lambda>e t. tb_add (en_entries en) (f e) t) es t) = rows (en_entries en) t + mset (map f es)"
  by (induction es arbitrary: t) (simp_all add: table_add [OF tables(3)])

lemma entries_intact_other:
  assumes "entries_intact en d i"
    and "{#r \<in># rows (en_entries en) (db_entries d'). em_journal_id r = i#} = {#r \<in># rows (en_entries en) (db_entries d). em_journal_id r = i#}"
  shows "entries_intact en d' i"
  using assms by (simp add: entries_intact_def)

lemma entries_intact_new:
  assumes "intact j" and "{#r \<in># rows (en_entries en) (db_entries d'). em_journal_id r = jn_journal_id j#} = mset (map (entry_to_model en j) (jn_entries j))"
  shows "entries_intact en d' (jn_journal_id j)"
  using assms unfolding entries_intact_def by blast

lemma own_entries: "{#r \<in># mset (map (entry_to_model en j) es). em_journal_id r = i#} = (if i = jn_journal_id j then mset (map (entry_to_model en j) es) else {#})"
proof -
  have "em_journal_id (entry_to_model en j e) = jn_journal_id j" for e by (simp add: entry_to_model_def)
  then show ?thesis by (induction es) auto
qed

text \<open>The tables after the entries of \<open>j\<close> have been replaced and its row added or updated.\<close>

lemma replaced_ok:
  assumes "store_ok en d" and "intact j"
    and "rows (en_entries en) (db_entries d') =
      {#r \<in># rows (en_entries en) (db_entries d). em_journal_id r \<noteq> jn_journal_id j#} + mset (map (entry_to_model en j) (jn_entries j))"
    and "jm_id ` set_mset (rows (en_journals en) (db_journals d')) = insert (jn_journal_id j) (jm_id ` set_mset (rows (en_journals en) (db_journals d)))"
    and "db_actions d' = db_actions d"
  shows "store_ok en d'"
proof -
  have here: "{#r \<in># rows (en_entries en) (db_entries d'). em_journal_id r = i#} =
      (if i = jn_journal_id j then mset (map (entry_to_model en j) (jn_entries j)) else {#r \<in># rows (en_entries en) (db_entries d). em_journal_id r = i#})" for i
    unfolding assms(3) filter_union_mset own_entries filter_filter_mset by (auto intro: filter_mset_cong simp: filter_mset_eq_empty)
  have "entries_intact en d' i" if "i \<in> jm_id ` set_mset (rows (en_journals en) (db_journals d'))" for i
  proof (cases "i = jn_journal_id j")
    case True
    then show ?thesis using entries_intact_new [OF assms(2)] here by simp
  next
    case False
    with that have "i \<in> jm_id ` set_mset (rows (en_journals en) (db_journals d))" unfolding assms(4) by simp
    with assms(1) have "entries_intact en d i" by (auto simp: store_ok_def)
    then show ?thesis by (rule entries_intact_other) (simp add: here False)
  qed
  moreover have "em_journal_id r \<in> jm_id ` set_mset (rows (en_journals en) (db_journals d'))"
    if "r \<in># rows (en_entries en) (db_entries d')" for r
  proof -
    have "r \<in># rows (en_entries en) (db_entries d) \<or> em_journal_id r = jn_journal_id j"
      using that unfolding assms(3) by (auto simp: entry_to_model_def)
    then show ?thesis using assms(1) unfolding store_ok_def assms(4) by blast
  qed
  ultimately show ?thesis using assms(1) unfolding store_ok_def assms(5) by blast
qed

lemma save_journal_ok:
  assumes "store_ok en d" and "intact j"
  shows "store_ok en (final (save_journal_row en j d))"
proof (cases "session_get (en_journals en) (\<lambda>m. jm_id m = jn_journal_id j) (db_journals d)")
  case None
  then have fresh: "jm_id m \<noteq> jn_journal_id j" if "m \<in># rows (en_journals en) (db_journals d)" for m
    using session_get_None [OF tables(2)] that by blast
  with assms(1) have "em_journal_id r \<noteq> jn_journal_id j" if "r \<in># rows (en_entries en) (db_entries d)" for r
    using that unfolding store_ok_def by fastforce
  then have none: "{#r \<in># rows (en_entries en) (db_entries d). em_journal_id r \<noteq> jn_journal_id j#} = rows (en_entries en) (db_entries d)"
    by (simp add: filter_mset_eq_conv)
  show ?thesis
    by (rule replaced_ok [OF assms]) (simp_all add: save_journal_row_def None add_entries_def add_entries_rows none table_add [OF tables(2)])
next
  case (Some m)
  let ?own = "\<lambda>m. jm_id m = jn_journal_id j"
  have m: "jn_journal_id j \<in> jm_id ` set_mset (rows (en_journals en) (db_journals d))"
    using session_get_Some [OF tables(2) Some] by (metis image_eqI)
  obtain n t where u: "tb_update (en_journals en) (\<lambda>m. ?own m \<and> jm_row_version m = jn_version j)
      (\<lambda>m. m\<lparr>jm_updated_at := jn_updated_at j, jm_row_version := jn_version j + 1\<rparr>) (db_journals d) = (n, t)" by fastforce
  then have t: "rows (en_journals en) t = image_mset (\<lambda>m. if ?own m \<and> jm_row_version m = jn_version j
      then m\<lparr>jm_updated_at := jn_updated_at j, jm_row_version := jn_version j + 1\<rparr> else m) (rows (en_journals en) (db_journals d))"
    using table_update [OF tables(2)] by blast
  have ids: "jm_id ` set_mset (rows (en_journals en) t) = jm_id ` set_mset (rows (en_journals en) (db_journals d))"
    unfolding t set_image_mset image_image by (rule image_cong) simp_all
  consider "en_differs en (jm_tenant_id m) (jn_tenant_id j)" | "\<not> en_differs en (jm_tenant_id m) (jn_tenant_id j)" "n = 0"
    | "\<not> en_differs en (jm_tenant_id m) (jn_tenant_id j)" "n \<noteq> 0" by blast
  then show ?thesis
  proof cases
    case 1
    then show ?thesis using assms(1) by (simp add: save_journal_row_def Some)
  next
    case 2
    then have "rows (en_journals en) t = rows (en_journals en) (db_journals d)" using update_none [OF tables(2)] u by blast
    with 2 show ?thesis using assms(1) by (simp add: save_journal_row_def Some u store_ok_def entries_intact_def)
  next
    case 3
    show ?thesis
      by (rule replaced_ok [OF assms])
        (use 3 ids m in \<open>auto simp: save_journal_row_def Some u add_entries_def add_entries_rows table_delete [OF tables(3)]\<close>)
  qed
qed

lemma save_action_ok:
  assumes "store_ok en d" and "genuine a"
  shows "store_ok en (final (save_attack_action en a d))"
proof -
  have keep: "store_ok en (d\<lparr>db_actions := t\<rparr>)" if "\<And>m. m \<in># rows (en_actions en) t \<Longrightarrow> row_genuine m" for t
    using assms(1) that by (simp add: store_ok_def entries_intact_def)
  have new: "store_ok en (d\<lparr>db_actions := tb_add (en_actions en) (action_to_model en a\<lparr>am_row_version := 1\<rparr>) (db_actions d)\<rparr>)"
    using assms by (intro keep) (auto simp: table_add [OF tables(4)] written_genuine conversions(2) store_ok_def)
  have old: "store_ok en (d\<lparr>db_actions := t\<rparr>)" if "tb_update (en_actions en) p (action_update a n) (db_actions d) = (c, t)" for p n c t
    using table_update [OF tables(4) that] assms(1) by (intro keep) (auto simp: updated_genuine store_ok_def)
  show ?thesis
    using assms(1) by (auto simp: save_attack_action_def new Let_def dest: old split: sum.splits option.splits prod.splits)
qed

lemma save_others_ok:
  "store_ok en d \<Longrightarrow> store_ok en (final (save_kill_switch en k d))" "store_ok en d \<Longrightarrow> store_ok en (final (save_execution_worker en v d))"
  by (auto simp: save_kill_switch_def save_execution_worker_def store_ok_def entries_intact_def Let_def split: option.splits prod.splits)

lemma commit_ok: "store_ok en d \<Longrightarrow> map_sum ExternalError id (en_commit en d) = Inr d' \<Longrightarrow> store_ok en d'"
  using conversions(3) [of d] by (cases "en_commit en d") auto

end

text \<open>A service whose repositories are the PostgreSQL ones.\<close>

locale pg_service = pg_engine en for en :: "('s, 'j, 'e, 'a, 'w, 'x) engine" +
  fixes sv :: "(('s, 'j, 'e, 'a, 'w) database, 'k, 'r, 'p, 'q, 'x) service"
  assumes repositories: "sv_repositories sv = pg_repositories en"

sublocale pg_service \<subseteq> store: execution_store sv "store_ok en"
  by unfold_locales
    (auto simp: repositories pg_repositories_def save_journal_ok save_action_ok save_others_ok intro: find_journal_intact find_action_genuine
      commit_ok)

end
