(* ===== verification/Lost_Updates.thy ===== *)
theory Lost_Updates
  imports Repository_Laws
begin

text \<open>
  What the version check of the PostgreSQL repositories means for the use cases. A mutator of an aggregate increments its version
  (\<open>_mutate\<close>) and \<open>save\<close> looks for a row that still has the aggregate's present version, so the update of an aggregate that was
  loaded and changed finds no row. Shown for every use case that changes a stored switch, action or worker: it never returns.
\<close>

section \<open>Mutators raise the version\<close>

lemma switch_mutators:
  "release t a now c k = Return u k' \<Longrightarrow> ks_kill_switch_id k' = ks_kill_switch_id k \<and> ks_version k' = ks_version k + 1"
  "re_arm t a now k = Return u k' \<Longrightarrow> ks_kill_switch_id k' = ks_kill_switch_id k \<and> ks_version k' = ks_version k + 1"
  unfolding release_def re_arm_def Kill_Switch.assert_tenant_def Kill_Switch.transition_def Kill_Switch.mutate_def Kill_Switch.emit_def
  by (auto simp: step_simps split: if_splits)

lemma worker_mutators:
  "decommission t op now v = Return u v' \<Longrightarrow> wk_worker_id v' = wk_worker_id v \<and> wk_version v' = wk_version v + 1"
  "record_heartbeat t h now v = Return u v' \<Longrightarrow> wk_worker_id v' = wk_worker_id v \<and> wk_version v' = wk_version v + 1"
  unfolding decommission_def record_heartbeat_def Worker.assert_tenant_def Worker.mutate_def Worker.emit_def
  by (auto simp: step_simps split: if_splits)

definition raised_action :: "AttackAction \<Rightarrow> AttackAction \<Rightarrow> bool" where
  "raised_action a b \<longleftrightarrow> aa_action_id b = aa_action_id a \<and> aa_execution_timestamp b = aa_execution_timestamp a \<and> aa_version b = aa_version a + 1"

lemma action_mutators:
  "complete t now out a = Return u b \<Longrightarrow> raised_action a b"
  "fail t r now a = Return u b \<Longrightarrow> raised_action a b"
  "abort t r au now a = Return u b \<Longrightarrow> raised_action a b"
  "record_output_ref t ref now a = Return u b \<Longrightarrow> raised_action a b"
  unfolding complete_def fail_def abort_def record_output_ref_def Attack_Action.assert_tenant_def assert_not_sealed_def
    Attack_Action.transition_def Attack_Action.mutate_def Attack_Action.emit_def raised_action_def
  by (auto simp: step_simps split: if_splits)

lemma append_mutator: "append_entry i t ty c now a s r j = Return e j' \<Longrightarrow> jn_journal_id j' = jn_journal_id j \<and> jn_version j' = jn_version j + 1"
  by (auto simp: append_entry_def Journal.assert_tenant_def Journal.mutate_def Journal.emit_def and_return_def step_simps Let_def
    split: if_splits outcome.splits)

section \<open>Loaded aggregates\<close>

text \<open>The primary keys of the tables.\<close>

definition keys_unique :: "('s, 'j, 'e, 'a, 'w, 'x) engine \<Rightarrow> ('s, 'j, 'e, 'a, 'w) database \<Rightarrow> bool" where
  "keys_unique en d \<longleftrightarrow>
     (\<forall>i. size {#m \<in># rows (en_switches en) (db_switches d). km_id m = i#} \<le> 1) \<and>
     (\<forall>i. size {#m \<in># rows (en_journals en) (db_journals d). jm_id m = i#} \<le> 1) \<and>
     (\<forall>i t. size {#m \<in># rows (en_actions en) (db_actions d). am_id m = i \<and> am_execution_timestamp m = t#} \<le> 1) \<and>
     (\<forall>i. size {#m \<in># rows (en_workers en) (db_workers d). wm_id m = i#} \<le> 1)"

lemma only_row:
  assumes "m \<in># M" and "p m" and "size (filter_mset p M) \<le> 1"
  shows "filter_mset p M = {#m#}"
proof -
  have "m \<in># filter_mset p M" using assms(1,2) by simp
  then obtain N where N: "filter_mset p M = add_mset m N" by (metis mset_add)
  with assms(3) have "N = {#}" by simp
  with N show ?thesis by simp
qed

lemma read_keys:
  "kill_switch_to_domain en m = Inr k \<Longrightarrow> km_id m = ks_kill_switch_id k \<and> km_row_version m = ks_version k"
  "load_journal en d jm = Inr j \<Longrightarrow> jm_id jm = jn_journal_id j \<and> jm_row_version jm = jn_version j"
  "action_to_domain en am = Inr a \<Longrightarrow> am_id am = aa_action_id a \<and> am_execution_timestamp am = aa_execution_timestamp a \<and> am_row_version am = aa_version a"
  "worker_to_domain en wm = Inr v \<Longrightarrow> wm_id wm = wk_worker_id v \<and> wm_row_version wm = wk_version v"
  by (auto simp: kill_switch_to_domain_def load_journal_def action_to_domain_def worker_to_domain_def sum_bind_Inr non_nil_Inr)

lemma to_failure_Some: "to_failure (map_sum id Some r) = Inr (Some a) \<longleftrightarrow> r = Inr a"
  by (cases r) (simp_all add: to_failure_def)

lemma selected_row: "table_laws tb \<Longrightarrow> tb_select tb p t = [m] \<Longrightarrow> m \<in># rows tb t"
  using select_set [of tb p t] by auto

context pg_engine
begin

lemma loaded_switch:
  assumes "find_by_scope en t sc ref d = Inr (Some k)" and "keys_unique en d"
  shows "switch_versions en k d = {#ks_version k#}"
proof -
  from assms(1) obtain p m where m: "tb_select (en_switches en) p (db_switches d) = [m]" "kill_switch_to_domain en m = Inr k"
    unfolding find_by_scope_def scalar_found by blast
  from only_row [OF selected_row [OF tables(1) m(1)], of "\<lambda>m. km_id m = ks_kill_switch_id k"] assms(2) read_keys(1) [OF m(2)]
  show ?thesis by (simp add: switch_versions_def keys_unique_def)
qed

lemma loaded_journal:
  assumes "find_by_engagement en e t d = Inr (Some j)" and "keys_unique en d"
  shows "journal_versions en j d = {#jn_version j#}"
proof -
  from assms(1) obtain p m where m: "tb_select (en_journals en) p (db_journals d) = [m]" "load_journal en d m = Inr j"
    unfolding find_by_engagement_def scalar_found by blast
  from only_row [OF selected_row [OF tables(2) m(1)], of "\<lambda>m. jm_id m = jn_journal_id j"] assms(2) read_keys(2) [OF m(2)]
  show ?thesis by (simp add: journal_versions_def keys_unique_def)
qed

lemma loaded_action:
  assumes "find_action_by_id en i t d = Inr (Some a)" and "keys_unique en d"
  shows "action_versions en a d = {#aa_version a#}"
proof -
  from assms(1) obtain p m where m: "tb_select (en_actions en) p (db_actions d) = [m]" "action_to_domain en m = Inr a"
    unfolding find_action_by_id_def scalar_found by blast
  from only_row [OF selected_row [OF tables(4) m(1)], of "\<lambda>m. am_id m = aa_action_id a \<and> am_execution_timestamp m = aa_execution_timestamp a"]
    assms(2) read_keys(3) [OF m(2)]
  show ?thesis by (simp add: action_versions_def keys_unique_def)
qed

lemma loaded_worker:
  assumes "find_worker_by_id en i t d = Inr (Some v)" and "keys_unique en d"
  shows "worker_versions en v d = {#wk_version v#}"
proof -
  from assms(1) obtain m where m: "session_get (en_workers en) (\<lambda>m. wm_id m = i) (db_workers d) = Some m" "worker_to_domain en m = Inr v"
    by (auto simp: find_worker_by_id_def to_failure_Some split: option.splits if_splits)
  from only_row [of m "rows (en_workers en) (db_workers d)" "\<lambda>m. wm_id m = wk_worker_id v"] session_get_Some [OF tables(5) m(1)] assms(2)
    read_keys(4) [OF m(2)]
  show ?thesis by (simp add: worker_versions_def keys_unique_def)
qed

end

section \<open>Use cases that never return\<close>

definition hopeless :: "('s \<Rightarrow> bool) \<Rightarrow> ('s \<Rightarrow> ('e, 'a, 's) outcome) \<Rightarrow> bool" where
  "hopeless P m \<longleftrightarrow> triple P m (\<lambda>_ _. False) (\<lambda>_ _. True)"

lemma hopeless_raises: "hopeless P m \<Longrightarrow> P s \<Longrightarrow> \<exists>e t. m s = Raise e t"
  by (cases "m s") (auto simp: hopeless_def triple_def split: outcome.splits)

lemma hopeless_then: "triple P m M (\<lambda>_ _. True) \<Longrightarrow> (\<And>a. hopeless (M a) (f a)) \<Longrightarrow> hopeless P (and_then m f)"
  unfolding hopeless_def by (rule triple_and_then)

lemma hopeless_first: "hopeless P m \<Longrightarrow> hopeless P (and_then m f)"
  unfolding hopeless_def by (rule triple_and_then [where M = "\<lambda>_ _. False"]) (auto simp: triple_def)

lemma hopeless_pure: "(\<And>a. v = Inr a \<Longrightarrow> hopeless P (f a)) \<Longrightarrow> hopeless P (and_then (attempt err v) f)"
  by (rule hopeless_then [where M = "\<lambda>a s. v = Inr a \<and> P s"], rule triple_attempt) (auto simp: hopeless_def triple_def)

lemma hopeless_give: "hopeless P (f a) \<Longrightarrow> hopeless P (and_then (give a) f)"
  by (simp add: hopeless_def triple_def and_then_def give_def)

lemma hopeless_in_uow: "hopeless (\<lambda>w. P (wd_session w)) m \<Longrightarrow> hopeless (\<lambda>w. P (wd_db w)) (in_uow m)"
  unfolding hopeless_def by (rule triple_in_uow) (auto simp: triple_def)

lemma hopeless_load:
  assumes "\<And>a. hopeless (\<lambda>w. P (wd_session w) \<and> q (wd_session w) = Inr a) (f a)"
  shows "hopeless (\<lambda>w. P (wd_session w)) (and_then (load q) f)"
  by (rule hopeless_then [OF triple_load assms]) auto

lemma hopeless_found:
  assumes "\<And>a. r = Some a \<Longrightarrow> hopeless P (f a)"
  shows "hopeless P (and_then (found_or e r) f)"
  using assms by (cases r) (auto simp: hopeless_def triple_def and_then_def found_or_def give_def throw_def)

lemma hopeless_aggregate:
  assumes "\<And>u g. r = Return u g \<Longrightarrow> hopeless P (f g)"
  shows "hopeless P (and_then (on_aggregate err r) f)"
  using assms by (cases r) (auto simp: hopeless_def triple_def and_then_def on_aggregate_def)

lemma hopeless_weaken: "hopeless Q m \<Longrightarrow> (\<And>s. P s \<Longrightarrow> Q s) \<Longrightarrow> hopeless P m"
  by (auto simp: hopeless_def triple_def)

lemma hopeless_save:
  assumes "\<And>w. P w \<Longrightarrow> \<exists>e d. f (wd_session w) = Raise e d"
  shows "hopeless P (save f)"
  unfolding hopeless_def by (rule triple_save) (use assms in fastforce)+

lemma journal_row_actions: "db_actions (final (save_journal_row en j d)) = db_actions d"
  by (simp add: save_journal_row_def add_entries_def Let_def split: option.splits prod.splits)

lemma stateless_countersign: "triple P (countersign_of cmd) (\<lambda>_. P) (\<lambda>_ _. True)"
  by (auto simp: triple_def countersign_of_def and_then_def attempt_def give_def throw_def split: option.splits sum.splits outcome.splits)

context pg_service
begin

lemma saves:
  "rp_save_switch (sv_repositories sv) = save_kill_switch en" "rp_save_journal (sv_repositories sv) = save_journal_row en"
  "rp_save_action (sv_repositories sv) = save_attack_action en" "rp_save_worker (sv_repositories sv) = save_execution_worker en"
  "rp_find_switch_by_scope (sv_repositories sv) = find_by_scope en"
  "rp_find_journal_by_engagement (sv_repositories sv) = find_by_engagement en"
  "rp_find_action_by_id (sv_repositories sv) = find_action_by_id en" "rp_find_worker_by_id (sv_repositories sv) = find_worker_by_id en"
  by (simp_all add: repositories pg_repositories_def)

lemma hopeless_save_switch:
  "n < ks_version k \<Longrightarrow> hopeless (\<lambda>w. switch_versions en k (wd_session w) = {#n#}) (and_then (save_switch sv k) f)"
  unfolding save_switch_def saves by (intro hopeless_first hopeless_save) (use switches.mutated_conflicts in blast)

lemma hopeless_save_journal:
  "n < jn_version j \<Longrightarrow> hopeless (\<lambda>w. journal_versions en j (wd_session w) = {#n#}) (save_journal sv j)"
  unfolding save_journal_def saves by (intro hopeless_first hopeless_save) (use journals.mutated_conflicts in blast)

lemma hopeless_finish_action:
  "n < aa_version a \<Longrightarrow> hopeless (\<lambda>w. action_versions en a (wd_session w) = {#n#}) (finish_action sv a j)"
  unfolding finish_action_def save_action_def saves by (intro hopeless_first hopeless_save) (use actions.mutated_conflicts in blast)

lemma hopeless_store_worker:
  "n < wk_version v \<Longrightarrow> hopeless (\<lambda>w. worker_versions en v (wd_session w) = {#n#}) (store_worker sv v)"
  unfolding store_worker_def save_worker_def saves by (intro hopeless_first hopeless_save) (use workers.mutated_conflicts in blast)

lemma hopeless_after_switch:
  assumes "ks_kill_switch_id k' = ks_kill_switch_id k \<and> ks_version k' = ks_version k + 1"
  shows "hopeless (\<lambda>w. keys_unique en (wd_session w) \<and> find_by_scope en t sc ref (wd_session w) = Inr (Some k)) (and_then (save_switch sv k') f)"
  by (rule hopeless_weaken [OF hopeless_save_switch [of "ks_version k"]]) (use assms loaded_switch in \<open>auto simp: switch_versions_def\<close>)

lemma hopeless_release: "hopeless (\<lambda>w. keys_unique en (wd_db w)) (release_kill_switch sv fr rcmd)"
  unfolding release_kill_switch_def saves
  by (rule hopeless_pure, rule hopeless_pure, rule hopeless_pure, rule hopeless_pure, rule hopeless_then [OF stateless_countersign],
      rule hopeless_in_uow, rule hopeless_load, rule hopeless_found, rule hopeless_pure, rule hopeless_pure, rule hopeless_aggregate,
      simp only:, rule hopeless_after_switch, rule switch_mutators(1), assumption)

lemma hopeless_re_arm: "hopeless (\<lambda>w. keys_unique en (wd_db w)) (re_arm_kill_switch sv fr acmd)"
  unfolding re_arm_kill_switch_def saves
  by (rule hopeless_pure, rule hopeless_pure, rule hopeless_pure, rule hopeless_in_uow, rule hopeless_load, rule hopeless_found,
      rule hopeless_pure, rule hopeless_pure, rule hopeless_aggregate, simp only:, rule hopeless_after_switch, rule switch_mutators(2), assumption)

lemma hopeless_after_worker:
  assumes "wk_worker_id v' = wk_worker_id v \<and> wk_version v' = wk_version v + 1"
  shows "hopeless (\<lambda>w. keys_unique en (wd_session w) \<and> find_worker_by_id en i t (wd_session w) = Inr (Some v)) (store_worker sv v')"
  by (rule hopeless_weaken [OF hopeless_store_worker [of "wk_version v"]]) (use assms loaded_worker in \<open>auto simp: worker_versions_def\<close>)

lemma hopeless_load_worker:
  assumes "\<And>v. hopeless (\<lambda>w. keys_unique en (wd_session w) \<and> find_worker_by_id en i t (wd_session w) = Inr (Some v)) (f v)"
  shows "hopeless (\<lambda>w. keys_unique en (wd_db w)) (in_uow (and_then (load_worker sv i t) f))"
proof (rule hopeless_in_uow, rule hopeless_then [OF _ assms])
  show "triple (\<lambda>w. keys_unique en (wd_session w)) (load_worker sv i t)
      (\<lambda>v w. keys_unique en (wd_session w) \<and> find_worker_by_id en i t (wd_session w) = Inr (Some v)) (\<lambda>_ _. True)"
    by (auto simp: load_worker_def saves triple_def and_then_def attempt_def load_def found_or_def give_def throw_def non_nil_Inr
      split: sum.splits option.splits)
qed

lemma hopeless_workers:
  "hopeless (\<lambda>w. keys_unique en (wd_db w)) (decommission_execution_worker sv fr t i op)"
  "hopeless (\<lambda>w. keys_unique en (wd_db w)) (record_worker_heartbeat sv fr t i h)"
  unfolding decommission_execution_worker_def record_worker_heartbeat_def
  by (rule hopeless_load_worker, rule hopeless_pure, rule hopeless_aggregate, rule hopeless_after_worker, erule worker_mutators)+

lemma hopeless_after_action:
  assumes "raised_action a b"
  shows "hopeless (\<lambda>w. action_versions en a (wd_session w) = {#aa_version a#}) (finish_action sv b j)"
  by (rule hopeless_weaken [OF hopeless_finish_action [of "aa_version a"]]) (use assms in \<open>auto simp: action_versions_def raised_action_def\<close>)

lemma hopeless_find_action:
  assumes "\<And>a. hopeless (\<lambda>w. action_versions en a (wd_session w) = {#aa_version a#}) (f a)"
  shows "hopeless (\<lambda>w. keys_unique en (wd_db w)) (in_uow (and_then (find_action sv i t) f))"
proof (rule hopeless_in_uow, rule hopeless_then [OF _ assms])
  show "triple (\<lambda>w. keys_unique en (wd_session w)) (find_action sv i t) (\<lambda>a w. action_versions en a (wd_session w) = {#aa_version a#}) (\<lambda>_ _. True)"
    by (auto simp: find_action_def saves triple_def and_then_def attempt_def load_def found_or_def give_def throw_def intro: loaded_action
      split: sum.splits option.splits)
qed

text \<open>The journal entry of a finished action leaves the table of actions alone.\<close>

lemma journal_keeps_actions:
  "triple (\<lambda>w. action_versions en a (wd_session w) = V) (journal_if_present sv fr t e ty c at s) (\<lambda>_ w. action_versions en a (wd_session w) = V) (\<lambda>_ _. True)"
proof -
  let ?P = "\<lambda>w. action_versions en a (wd_session w) = V"
  have save: "triple ?P (save_journal sv j) (\<lambda>_. ?P) (\<lambda>_ _. True)" for j
  proof -
    have "db_actions d' = db_actions d" if "save_journal_row en j d = Return n d'" for d n d'
      using journal_row_actions [of en j d] that by simp
    then show ?thesis unfolding save_journal_def saves
      by (intro triple_and_then [OF triple_save triple_give]) (auto simp: action_versions_def)
  qed
  show ?thesis
    unfolding journal_if_present_def
    by (rule triple_and_then [OF triple_load [where Q = "\<lambda>_. ?P"]], assumption, simp, rule triple_case_option, rule triple_give, assumption,
        rule triple_and_then [OF triple_attempt [where Q = "\<lambda>_. ?P"]], assumption, simp,
        rule triple_and_then [OF triple_on_aggregate [where Q = "\<lambda>_. ?P"]], assumption, simp, rule triple_and_then [OF save triple_give])
qed

lemma abort_keeps_actions:
  "triple (\<lambda>w. action_versions en a (wd_session w) = V) (signal_abort_to sv i r) (\<lambda>_ w. action_versions en a (wd_session w) = V) (\<lambda>_ _. True)"
  by (simp add: triple_def signal_abort_to_def on_part_def split: outcome.splits)

lemma hopeless_actions:
  "hopeless (\<lambda>w. keys_unique en (wd_db w)) (complete_attack_action sv fr t i h ref)"
  "hopeless (\<lambda>w. keys_unique en (wd_db w)) (fail_attack_action sv fr t i r)"
  "hopeless (\<lambda>w. keys_unique en (wd_db w)) (abort_attack_action sv fr t i r op)"
  "hopeless (\<lambda>w. keys_unique en (wd_db w)) (record_action_output sv fr t i h' ref')"
  unfolding complete_attack_action_def fail_attack_action_def abort_attack_action_def record_action_output_def
  subgoal
    by (rule hopeless_pure, rule hopeless_pure, rule hopeless_find_action, rule hopeless_aggregate,
        rule hopeless_then [OF journal_keeps_actions], rule hopeless_after_action, rule action_mutators)
  subgoal
    by (rule hopeless_pure, rule hopeless_pure, rule hopeless_find_action, rule hopeless_aggregate,
        rule hopeless_then [OF journal_keeps_actions], rule hopeless_after_action, rule action_mutators)
  subgoal
    by (rule hopeless_pure, rule hopeless_pure, rule hopeless_pure, rule hopeless_find_action, rule hopeless_aggregate,
        rule hopeless_then [OF abort_keeps_actions], rule hopeless_then [OF journal_keeps_actions], rule hopeless_after_action, rule action_mutators)
  subgoal
    by (rule hopeless_pure, rule hopeless_pure, rule hopeless_pure, rule hopeless_find_action, rule hopeless_pure, rule hopeless_aggregate,
        rule hopeless_after_action, rule action_mutators)
  done

lemma hopeless_journal_append:
  "hopeless (\<lambda>w. keys_unique en (wd_session w) \<and> (\<exists>j. find_by_engagement en e t (wd_session w) = Inr (Some j)))
     (journal_append sv fr t e ty c a s)"
  unfolding journal_append_def saves
proof (rule hopeless_load)
  fix found
  show "hopeless (\<lambda>w. (keys_unique en (wd_session w) \<and> (\<exists>j. find_by_engagement en e t (wd_session w) = Inr (Some j))) \<and>
      find_by_engagement en e t (wd_session w) = Inr found)
    (and_then (give (case found of None \<Rightarrow> Journal.create (fr_journal_id fr) t e (fr_now fr) | Some j \<Rightarrow> j))
      (\<lambda>journal. and_then (on_aggregate Domain (append_entry (fr_entry_id fr) t ty c (fr_now fr) a s None journal)) (save_journal sv)))"
  proof (cases found)
    case None
    then show ?thesis by (auto simp: hopeless_def triple_def)
  next
    case (Some j)
    have "hopeless (\<lambda>w. journal_versions en j (wd_session w) = {#jn_version j#}) (save_journal sv j')"
      if "append_entry (fr_entry_id fr) t ty c (fr_now fr) a s None j = Return u j'" for u j'
      using append_mutator [OF that]
      by (intro hopeless_weaken [OF hopeless_save_journal [of "jn_version j"]]) (auto simp: journal_versions_def)
    then have "hopeless (\<lambda>w. journal_versions en j (wd_session w) = {#jn_version j#})
        (and_then (on_aggregate Domain (append_entry (fr_entry_id fr) t ty c (fr_now fr) a s None j)) (save_journal sv))"
      by (rule hopeless_aggregate)
    then show ?thesis
      unfolding Some
      by (intro hopeless_give) (simp, erule hopeless_weaken, auto intro: loaded_journal)
  qed
qed

lemma hopeless_append_entry:
  "hopeless (\<lambda>w. keys_unique en (wd_db w) \<and> (\<exists>j. find_by_engagement en (ap_engagement_id cmd) (ap_tenant_id cmd) (wd_db w) = Inr (Some j)))
     (append_journal_entry sv fr cmd)"
proof -
  have attribution: "triple P (case r of None \<Rightarrow> give None | Some u \<Rightarrow> and_then (attempt Python (non_nil c u)) (\<lambda>u. give (Some u))) (\<lambda>_. P) (\<lambda>_ _. True)"
    for P c r
    by (auto simp: triple_def and_then_def attempt_def give_def split: option.splits sum.splits)
  show ?thesis
    unfolding append_journal_entry_def
    by (rule hopeless_pure, rule hopeless_pure, rule hopeless_pure, rule hopeless_pure, rule hopeless_pure,
        rule hopeless_then [OF attribution], rule hopeless_in_uow, rule hopeless_first, simp only: non_nil_Inr, rule hopeless_journal_append)
qed

end

section \<open>Updates\<close>

text \<open>The calls that change an aggregate that is already stored.\<close>

fun updates :: "service_call \<Rightarrow> bool" where
  "updates (Release_Kill_Switch cmd) = True"
| "updates (Re_Arm_Kill_Switch cmd) = True"
| "updates (Abort_Attack_Action t i r op) = True"
| "updates (Complete_Attack_Action t i h r) = True"
| "updates (Fail_Attack_Action t i r) = True"
| "updates (Record_Action_Output t i h r) = True"
| "updates (Decommission_Execution_Worker t i op) = True"
| "updates (Record_Worker_Heartbeat t i h) = True"
| "updates _ = False"

lemma hopeless_ignore_result: "hopeless P m \<Longrightarrow> hopeless P (ignore_result m)"
  unfolding hopeless_def by (rule triple_ignore_result)

context pg_service
begin

lemma updates_hopeless: "updates c \<Longrightarrow> hopeless (\<lambda>w. keys_unique en (wd_db w)) (exec_service sv (fr, c))"
  by (cases c) (simp_all add: hopeless_ignore_result hopeless_release hopeless_re_arm hopeless_actions hopeless_workers)

lemma updates_raise:
  assumes "keys_unique en (wd_db w)"
  shows "updates c \<Longrightarrow> \<exists>e w'. exec_service sv (fr, c) w = Raise e w'"
    "find_by_engagement en (ap_engagement_id cmd) (ap_tenant_id cmd) (wd_db w) = Inr (Some j) \<Longrightarrow>
      \<exists>e w'. append_journal_entry sv fr cmd w = Raise e w'"
  using hopeless_raises [OF updates_hopeless] hopeless_raises [OF hopeless_append_entry] assms by blast+

end

end
