(* ===== verification/Round_Trip.thy ===== *)
theory Round_Trip
  imports Lost_Updates
begin

text \<open>
  Writing an aggregate for the first time and reading it back through the repositories.
\<close>

section \<open>New aggregates\<close>

text \<open>An aggregate whose values satisfy the conditions of their constructors and that no row of the tables has the keys of.\<close>

definition canonical :: "('s, 'j, 'e, 'a, 'w, 'x) engine \<Rightarrow> EntityId \<Rightarrow> bool" where
  "canonical en t \<longleftrightarrow> en_from_uuid en (en_uuid_of en t) = t \<and> \<not> en_differs en (en_uuid_of en t) t"

definition new_switch :: "('s, 'j, 'e, 'a, 'w, 'x) engine \<Rightarrow> KillSwitchState \<Rightarrow> ('s, 'j, 'e, 'a, 'w) database \<Rightarrow> bool" where
  "new_switch en k d \<longleftrightarrow> canonical en (ks_tenant_id k) \<and> switch_storable k \<and>
     (\<forall>m \<in># rows (en_switches en) (db_switches d). km_id m \<noteq> ks_kill_switch_id k \<and>
        \<not> (km_tenant_id m = en_uuid_of en (ks_tenant_id k) \<and> km_scope m = KillSwitchScope_value (ks_scope k) \<and> km_scope_ref m = ks_scope_ref k))"

definition entry_storable :: "JournalEntry \<Rightarrow> bool" where
  "entry_storable e \<longleftrightarrow> uint (je_entry_id e) \<noteq> 0 \<and> (\<forall>u. je_attribution e = Some u \<longrightarrow> uint u \<noteq> 0) \<and> (\<forall>u. je_corrects_ref e = Some u \<longrightarrow> uint u \<noteq> 0)"

definition new_journal :: "('s, 'j, 'e, 'a, 'w, 'x) engine \<Rightarrow> ExecutionJournal \<Rightarrow> ('s, 'j, 'e, 'a, 'w) database \<Rightarrow> bool" where
  "new_journal en j d \<longleftrightarrow> canonical en (jn_tenant_id j) \<and> ids_ok [jn_journal_id j, jn_engagement_id j] \<and> intact j \<and>
     list_all entry_storable (jn_entries j) \<and>
     (\<forall>m \<in># rows (en_journals en) (db_journals d). jm_id m \<noteq> jn_journal_id j \<and>
        \<not> (jm_tenant_id m = en_uuid_of en (jn_tenant_id j) \<and> jm_engagement_id m = jn_engagement_id j)) \<and>
     (\<forall>m \<in># rows (en_entries en) (db_entries d). em_journal_id m \<noteq> jn_journal_id j)"

definition new_action :: "('s, 'j, 'e, 'a, 'w, 'x) engine \<Rightarrow> AttackAction \<Rightarrow> ('s, 'j, 'e, 'a, 'w) database \<Rightarrow> bool" where
  "new_action en a d \<longleftrightarrow> canonical en (aa_tenant_id a) \<and> action_storable a \<and>
     (\<forall>m \<in># rows (en_actions en) (db_actions d). am_id m \<noteq> aa_action_id a)"

definition new_worker :: "('s, 'j, 'e, 'a, 'w, 'x) engine \<Rightarrow> ExecutionWorker \<Rightarrow> ('s, 'j, 'e, 'a, 'w) database \<Rightarrow> bool" where
  "new_worker en v d \<longleftrightarrow> canonical en (wk_tenant_id v) \<and> worker_storable v \<and>
     (\<forall>m \<in># rows (en_workers en) (db_workers d). wm_id m \<noteq> wk_worker_id v)"

section \<open>Reading them back\<close>

lemma select_none: "table_laws tb \<Longrightarrow> (\<And>m. m \<in># rows tb t \<Longrightarrow> \<not> p m) \<Longrightarrow> tb_select tb p t = []"
  using select_set [of tb p t] by (cases "tb_select tb p t") auto

lemma select_added:
  assumes "table_laws tb" and "\<And>m. m \<in># rows tb t \<Longrightarrow> \<not> p m" and "p r"
  shows "tb_select tb p (tb_add tb r t) = [r]"
proof -
  have "filter_mset p (rows tb t) = {#}" using assms(2) by (simp add: filter_mset_eq_empty)
  with assms(3) have "mset (tb_select tb p (tb_add tb r t)) = {#r#}"
    by (simp add: table_select [OF assms(1)] table_add [OF assms(1)])
  then show ?thesis by simp
qed

lemma scalar_single: "scalar_one_or_none x [r] = Inr (Some r)"
  by (simp add: scalar_one_or_none_def)

lemma entries_back:
  assumes "list_all entry_storable es"
  shows "sum_map entry_to_domain (map (entry_to_model en j) es) = Inr es"
proof -
  have one: "entry_to_domain (entry_to_model en j e) = Inr e" if "entry_storable e" for e
    using that by (cases "je_attribution e"; cases "je_corrects_ref e") (auto simp: entry_storable_def entry_to_domain_def entry_to_model_def non_nil_def)
  show ?thesis using assms by (induction es) (simp_all add: one)
qed

context pg_engine
begin

lemma switch_back:
  assumes "new_switch en k d"
  shows "\<exists>d'. save_kill_switch en k d = Return 1 d' \<and>
    find_by_scope en (ks_tenant_id k) (ks_scope k) (ks_scope_ref k) d' = Inr (Some (k\<lparr>ks_version := 1, ks_pending_events := []\<rparr>))"
proof -
  let ?m = "kill_switch_to_model en k\<lparr>km_row_version := 1\<rparr>"
  have none: "tb_select (en_switches en) (\<lambda>m. km_id m = ks_kill_switch_id k) (db_switches d) = []"
    using assms by (intro select_none [OF tables(1)]) (simp add: new_switch_def)
  have one: "tb_select (en_switches en) (\<lambda>m. km_tenant_id m = en_uuid_of en (ks_tenant_id k) \<and> km_scope m = KillSwitchScope_value (ks_scope k) \<and>
      km_scope_ref m = ks_scope_ref k) (tb_add (en_switches en) ?m (db_switches d)) = [?m]"
    using assms by (intro select_added [OF tables(1)]) (auto simp: new_switch_def kill_switch_to_model_def)
  have "kill_switch_to_domain en ?m = Inr (k\<lparr>ks_version := 1, ks_pending_events := []\<rparr>)"
    using assms by (intro switch_round_trip) (simp_all add: new_switch_def canonical_def)
  with none one show ?thesis
    by (simp add: save_kill_switch_def session_get_def find_by_scope_def scalar_single to_failure_def)
qed

lemma action_back:
  assumes "new_action en a d"
  shows "\<exists>d'. save_attack_action en a d = Return 1 d' \<and> find_action_by_id en (aa_action_id a) (aa_tenant_id a) d' =
    Inr (Some (a\<lparr>aa_action_input := en_jsonb en (aa_action_input a), aa_version := 1, aa_pending_events := []\<rparr>))"
proof -
  let ?m = "action_to_model en a\<lparr>am_row_version := 1\<rparr>"
  have none: "tb_select (en_actions en) (\<lambda>m. am_id m = aa_action_id a \<and> am_execution_timestamp m = aa_execution_timestamp a) (db_actions d) = []"
    using assms by (intro select_none [OF tables(4)]) (simp add: new_action_def)
  have one: "tb_select (en_actions en) (\<lambda>m. am_id m = aa_action_id a \<and> am_tenant_id m = en_uuid_of en (aa_tenant_id a))
      (tb_add (en_actions en) ?m (db_actions d)) = [?m]"
    using assms by (intro select_added [OF tables(4)]) (auto simp: new_action_def action_to_model_def)
  have "action_to_domain en ?m = Inr (a\<lparr>aa_action_input := en_jsonb en (aa_action_input a), aa_version := 1, aa_pending_events := []\<rparr>)"
    using assms by (intro action_round_trip) (simp_all add: new_action_def canonical_def conversions)
  with none one show ?thesis
    by (simp add: save_attack_action_def scalar_one_or_none_def find_action_by_id_def to_failure_def)
qed

lemma worker_back:
  assumes "new_worker en v d"
  shows "\<exists>d'. save_execution_worker en v d = Return 1 d' \<and>
    find_worker_by_id en (wk_worker_id v) (wk_tenant_id v) d' = Inr (Some (v\<lparr>wk_version := 1, wk_pending_events := []\<rparr>))"
proof -
  let ?m = "worker_to_model en v\<lparr>wm_row_version := 1\<rparr>"
  have none: "tb_select (en_workers en) (\<lambda>m. wm_id m = wk_worker_id v) (db_workers d) = []"
    using assms by (intro select_none [OF tables(5)]) (simp add: new_worker_def)
  have one: "tb_select (en_workers en) (\<lambda>m. wm_id m = wk_worker_id v) (tb_add (en_workers en) ?m (db_workers d)) = [?m]"
    using assms by (intro select_added [OF tables(5)]) (auto simp: new_worker_def worker_to_model_def)
  have "worker_to_domain en ?m = Inr (v\<lparr>wk_version := 1, wk_pending_events := []\<rparr>)"
    using assms by (intro worker_round_trip) (simp_all add: new_worker_def canonical_def)
  moreover have "\<not> en_differs en (wm_tenant_id ?m) (wk_tenant_id v)"
    using assms by (simp add: new_worker_def canonical_def worker_to_model_def)
  ultimately show ?thesis using none one
    by (simp add: save_execution_worker_def session_get_def find_worker_by_id_def to_failure_def)
qed

lemma journal_back:
  assumes "new_journal en j d"
  shows "\<exists>d'. save_journal_row en j d = Return 1 d' \<and>
    find_by_engagement en (jn_engagement_id j) (jn_tenant_id j) d' = Inr (Some (j\<lparr>jn_version := 1, jn_pending_events := []\<rparr>))"
proof -
  let ?m = "\<lparr>jm_id = jn_journal_id j, jm_tenant_id = en_uuid_of en (jn_tenant_id j), jm_engagement_id = jn_engagement_id j,
    jm_created_at = jn_created_at j, jm_updated_at = jn_updated_at j, jm_row_version = 1\<rparr>"
  let ?d = "add_entries en j (d\<lparr>db_journals := tb_add (en_journals en) ?m (db_journals d)\<rparr>)"
  have none: "tb_select (en_journals en) (\<lambda>m. jm_id m = jn_journal_id j) (db_journals d) = []"
    using assms by (intro select_none [OF tables(2)]) (simp add: new_journal_def)
  have one: "tb_select (en_journals en) (\<lambda>m. jm_tenant_id m = en_uuid_of en (jn_tenant_id j) \<and> jm_engagement_id m = jn_engagement_id j)
      (db_journals ?d) = [?m]"
    using assms select_added [OF tables(2), of "db_journals d" _ ?m] by (simp add: new_journal_def add_entries_def)
  have old: "{#r \<in># rows (en_entries en) (db_entries d). em_journal_id r = jn_journal_id j#} = {#}"
    using assms by (simp add: new_journal_def filter_mset_eq_empty)
  have "mset (tb_select (en_entries en) (\<lambda>r. em_journal_id r = jn_journal_id j) (db_entries ?d)) = mset (map (entry_to_model en j) (jn_entries j))"
    unfolding table_select [OF tables(3)] by (simp add: add_entries_def add_entries_rows old own_entries del: mset_map)
  then have "sort_key em_sequence_number (tb_select (en_entries en) (\<lambda>r. em_journal_id r = jn_journal_id j) (db_entries ?d)) =
      map (entry_to_model en j) (jn_entries j)"
    using assms by (intro entries_sorted) (simp_all add: new_journal_def)
  then have "load_journal en ?d ?m = Inr (j\<lparr>jn_version := 1, jn_pending_events := []\<rparr>)"
    using assms by (simp add: load_journal_def entries_back new_journal_def canonical_def ids_ok_def non_nil_def)
  with none one show ?thesis
    by (simp add: save_journal_row_def session_get_def find_by_engagement_def scalar_single to_failure_def)
qed

text \<open>A switch found by its scope is a switch of that tenant and scope.\<close>

lemma found_by_scope:
  assumes "canonical en t" and "find_by_scope en t sc ref d = Inr (Some k)"
  shows "ks_tenant_id k = t \<and> ks_scope k = sc \<and> ks_scope_ref k = ref"
proof -
  let ?p = "\<lambda>m. km_tenant_id m = en_uuid_of en t \<and> km_scope m = KillSwitchScope_value sc \<and> km_scope_ref m = ref"
  from assms(2) obtain m where m: "tb_select (en_switches en) ?p (db_switches d) = [m]" "kill_switch_to_domain en m = Inr k"
    unfolding find_by_scope_def scalar_found by blast
  have "?p m" using select_set [OF tables(1), of ?p "db_switches d"] unfolding m(1) by auto
  with m(2) assms(1) show ?thesis by (auto simp: kill_switch_to_domain_def sum_bind_Inr canonical_def)
qed

lemma pg_finds_by_scope: "canonical en t \<Longrightarrow> finds_by_scope (pg_repositories en) t"
  using found_by_scope by (simp add: finds_by_scope_def pg_repositories_def)

end

end
