(* ===== verification/Execution_Properties.thy ===== *)
theory Execution_Properties
  imports Round_Trip
begin

text \<open>
  The properties of the execution service as a whole, over its container and over the PostgreSQL repositories, with an engine of list
  tables on which they are evaluated.
\<close>

section \<open>An engine of list tables\<close>

definition list_engine ::
  "(KillSwitchStateModel list, ExecutionJournalModel list, JournalEntryModel list, AttackActionModel list, ExecutionWorkerModel list, StoreError + unit) engine" where
  "list_engine = \<lparr>en_switches = list_table, en_journals = list_table, en_entries = list_table, en_actions = list_table, en_workers = list_table,
     en_multiple_results = Inr (), en_commit = Inr, en_uuid_of = of_digits, en_from_uuid = digits_of,
     en_differs = (\<lambda>u t. u \<noteq> of_digits t), en_jsonb = (\<lambda>kvs. kvs)\<rparr>"

lemma list_engine_laws: "engine_laws list_engine"
  by (simp add: engine_laws_def list_engine_def list_table_laws json_same_refl)

interpretation list_tables: pg_engine list_engine
  by unfold_locales (rule list_engine_laws)

type_synonym list_database =
  "(KillSwitchStateModel list, ExecutionJournalModel list, JournalEntryModel list, AttackActionModel list, ExecutionWorkerModel list) database"

definition empty_database :: list_database where
  "empty_database = \<lparr>db_switches = [], db_journals = [], db_entries = [], db_actions = [], db_workers = []\<rparr>"

text \<open>The service as the container builds it, over these tables.\<close>

definition list_service :: "(list_database, InMemoryKillSwitchStore, InMemoryRateLimitStore, in_memory_ports, StoreError, StoreError + unit) service" where
  "list_service = execution_container (pg_repositories list_engine) of_digits degraded_scope_snapshot"

interpretation list_service: pg_service list_engine list_service
  by unfold_locales (simp add: list_service_def execution_container_def)

definition world_of :: "list_database \<Rightarrow> (list_database, InMemoryKillSwitchStore, InMemoryRateLimitStore, in_memory_ports) world" where
  "world_of d = \<lparr>wd_db = d, wd_session = d, wd_switch_store = \<lparr>ms_states = [], ms_unavailable = False\<rparr>, wd_rate_store = empty_store,
     wd_ports = \<lparr>ip_dispatched = [], ip_aborted = [], ip_payload_calls = []\<rparr>, wd_calls = [], wd_published = []\<rparr>"

definition sample_fresh :: fresh where
  "sample_fresh = \<lparr>fr_now = 100, fr_clock = 100, fr_kill_switch_id = 11, fr_journal_id = 12, fr_entry_id = 13, fr_action_id = 14,
     fr_worker_id = 15, fr_token_id = ''token''\<rparr>"

section \<open>The kill switch\<close>

text \<open>C1: the kill switch stops the platform end to end. Once \<open>trigger_kill_switch\<close> has returned, no later call of
  \<open>authorize_and_start_attack_action\<close> for the tenant, engagement or operation the switch is for makes any call of the technique port,
  whatever other calls of the service come in between and whatever they raise, as long as none of them releases or re-arms a switch.\<close>

theorem kill_switch_stops_dispatch:
  assumes "finds_by_scope rp (tr_tenant_id tcmd)"
    and "trigger_kill_switch (execution_container rp tu snap) fr tcmd w = Return dto w'"
    and "parse_scope (tr_scope tcmd) = Inr sc"
    and "as_tenant_id cmd = tr_tenant_id tcmd" and "covers tu sc (tr_scope_ref tcmd) cmd"
    and "\<forall>(fr, c) \<in> set cs. \<not> reopens c"
  shows "let v = history (exec_service (execution_container rp tu snap)) cs w' in
    wd_calls (final (authorize_and_start_attack_action (execution_container rp tu snap) fr' cmd v)) = wd_calls v"
proof -
  let ?sv = "execution_container rp tu snap"
  define v where "v = history (exec_service ?sv) cs w'"
  have "stopped (tr_tenant_id tcmd) sc (tr_scope_ref tcmd) (wd_switch_store v)"
    unfolding v_def by (rule history_keeps_stopped [OF assms(6) trigger_stops [OF assms(1-3)]])
  then have "\<not> gate_passed ?sv fr' cmd tq policy worker (wd_switch_store v) r" for tq policy worker r
    using stopped_blocks assms(4,5) by metis
  with dispatch_checked [of ?sv fr' cmd v] show ?thesis
    unfolding v_def [symmetric] Let_def by (auto simp: dispatched_def)
qed


definition stop_operation :: TriggerKillSwitch where
  "stop_operation = \<lparr>tr_tenant_id = digits_of 5, tr_scope = ''Operation'', tr_scope_ref = 8, tr_authority_operator_id = 3,
     tr_authority_role = ''admin'', tr_reason = ''incident''\<rparr>"

definition attack_command :: AuthorizeAndStartAttackAction where
  "attack_command = \<lparr>as_tenant_id = digits_of 5, as_engagement_id = 7, as_operation_id = 8, as_step_id = 9, as_target_id = 10,
     as_technique_id = ''T1'', as_technique_category = ''scan'', as_impact_ceiling = ''Observe'', as_operator_id = 3, as_worker_id = None,
     as_action_parameters = [], as_rate_limit_max = 5, as_rate_limit_window_seconds = 60, as_presented_scope_hash = None,
     as_presented_engagement_version = None, as_network_zone = None, as_payload_id = None, as_expected_payload_hash = None\<rparr>"

lemmas service_eval = and_then_def attempt_def give_def throw_def on_aggregate_def on_part_def found_or_def in_uow_def load_def save_def
  commit_def publish_def validate_uuid_def validate_str_def non_nil_def enum_of_def list_service_def execution_container_def
  pg_repositories_def list_engine_def list_table_def session_get_def scalar_one_or_none_def world_of_def empty_database_def sample_fresh_def

lemma strip_admin: "strip ''admin'' = ''admin''"
  by code_simp

lemma parse_operation: "parse_scope ''Operation'' = Inr OPERATION"
  by (simp add: parse_scope_def KillSwitchScope_of_def enum_of_def)

lemma operation_stopped: "\<exists>dto w'. trigger_kill_switch list_service sample_fresh stop_operation (world_of empty_database) = Return dto w'"
  by (simp add: trigger_kill_switch_def stop_operation_def service_eval parse_operation find_by_scope_def make_TriggerAuthority_def make_TriggerReason_def
    strip_admin strip_incident switch_eval create_armed_def save_switch_def save_kill_switch_def sync_kill_switch_store_def memory_set_state_def
    journal_kill_switch_def)

theorem kill_switch_stops_dispatch_witness:
  "\<exists>dto w'. trigger_kill_switch list_service sample_fresh stop_operation (world_of empty_database) = Return dto w' \<and>
     wd_calls (final (authorize_and_start_attack_action list_service sample_fresh attack_command
       (history (exec_service list_service) [(sample_fresh, Create_Journal (digits_of 5) 7)] w'))) =
     wd_calls (history (exec_service list_service) [(sample_fresh, Create_Journal (digits_of 5) 7)] w')"
proof -
  obtain dto w' where w': "trigger_kill_switch list_service sample_fresh stop_operation (world_of empty_database) = Return dto w'"
    using operation_stopped by blast
  have "canonical list_engine (tr_tenant_id stop_operation)" by (simp add: canonical_def list_engine_def stop_operation_def)
  from kill_switch_stops_dispatch [OF list_tables.pg_finds_by_scope [OF this] w' [unfolded list_service_def], of OPERATION attack_command
      "[(sample_fresh, Create_Journal (digits_of 5) 7)]" sample_fresh]
  have "wd_calls (final (authorize_and_start_attack_action list_service sample_fresh attack_command
       (history (exec_service list_service) [(sample_fresh, Create_Journal (digits_of 5) 7)] w'))) =
     wd_calls (history (exec_service list_service) [(sample_fresh, Create_Journal (digits_of 5) 7)] w')"
    unfolding Let_def list_service_def [symmetric]
    by (auto simp: stop_operation_def attack_command_def parse_operation covers_def reopens_def)
  with w' show ?thesis by blast
qed

section \<open>Transactions\<close>

text \<open>C25: every use case is one transaction: whenever a call raises, the committed database is the one before the call. The only
  exception is the denial of an attack action, which commits the journal entry of the denial and then raises an authorization
  error.\<close>

theorem failed_use_case_rolls_back:
  assumes "exec_service sv (fr, c) w = Raise e w'"
  shows "wd_db w' = wd_db w \<or>
    (\<exists>cmd message check. c = Authorize_And_Start cmd \<and> e = Application (ApplicationAuthorizationError message check))"
proof (cases "\<exists>cmd. c = Authorize_And_Start cmd")
  case True
  then obtain cmd where c: "c = Authorize_And_Start cmd" by blast
  have "ends denials (exec_service sv (fr, c))" by (simp add: c ends_ignore_result ends_authorize)
  with assms c show ?thesis by (auto simp: ends_def denials_def)
next
  case False
  then have "ends {} (exec_service sv (fr, c))"
    by (cases c) (simp_all add: ends_ignore_result ends_switches ends_journals ends_actions ends_workers)
  with assms show ?thesis by (auto simp: ends_def)
qed

theorem failed_use_case_rolls_back_witness:
  "\<exists>e w'. exec_service list_service (sample_fresh, Get_Kill_Switch (digits_of 5) ''Operation'' 8) (world_of empty_database) = Raise e w' \<and>
     wd_db w' = empty_database"
proof -
  have "\<exists>e w'. get_kill_switch list_service (digits_of 5) ''Operation'' 8 (world_of empty_database) = Raise e w'"
    by (simp add: get_kill_switch_def service_eval parse_operation find_by_scope_def)
  then obtain e w' where w': "exec_service list_service (sample_fresh, Get_Kill_Switch (digits_of 5) ''Operation'' 8) (world_of empty_database) = Raise e w'"
    by (auto simp: ignore_result_def)
  from failed_use_case_rolls_back [OF w'] have "wd_db w' = empty_database" by (simp add: world_of_def)
  with w' show ?thesis by blast
qed

text \<open>C24: a denial leaves evidence. Whenever \<open>authorize_and_start_attack_action\<close> raises an authorization error, the error carries the
  reason of the denial, and the database that is committed at the end holds the save of the engagement's journal with an entry
  for that reason, step, target and technique appended to its chain, attributed to the operator.\<close>

theorem denial_is_journaled:
  assumes "authorize_and_start_attack_action sv fr cmd w = Raise (Application (ApplicationAuthorizationError message check)) w'"
  shows "\<exists>reason journal es d n d'. check = Some (AuthorizationFailureReason_value reason) \<and>
    jn_entries journal = es @ [new_entry (fr_entry_id fr) (failure_entry_type (Some reason)) (failure_content (Some reason) cmd)
      (fr_now fr) (Some (as_operator_id cmd)) None None es] \<and>
    rp_save_journal (sv_repositories sv) journal d = Return n d' \<and> rp_commit (sv_repositories sv) d' = Inr (wd_db w')"
proof -
  have "records sv fr cmd (authorize_and_start_attack_action sv fr cmd)"
    unfolding authorize_and_start_attack_action_def
    by (intro records_intros records_in_uow records_deny_if records_gate records_deny records_start_action)
  with assms show ?thesis unfolding records_def recorded_def by blast
qed

lemma degraded_gate_denies:
  "authorize (memory_gate (memory_get_state \<lparr>ms_states = [], ms_unavailable = False\<rparr>) of_digits degraded_scope_snapshot c) i az s =
     Return (denied SCOPE_VIOLATION) s" (is "authorize ?g i az s = _")
proof -
  obtain sn where sn: "gt_get_scope_snapshot ?g (az_engagement_id az) (az_tenant_id az) = Inr sn" "\<not> in_scope sn az"
    by (simp add: memory_gate_def) (use degraded_scope_denies in \<open>auto simp: degraded_scope_snapshot_def in_scope_def\<close>)
  have "switch_armed ?g az" by (simp add: switch_armed_def memory_gate_def Kill_Switch.evaluate_def safe_get_def memory_get_state_def)
  with sn(2) show ?thesis by (simp add: authorize_unfold scope_of_eq [OF sn(1)])
qed

lemma strip_T1: "strip ''T1'' = ''T1''"
  by code_simp

lemma attack_denied:
  "\<exists>message check w'. authorize_and_start_attack_action list_service sample_fresh attack_command (world_of empty_database) =
     Raise (Application (ApplicationAuthorizationError message check)) w'"
proof -
  have ceiling: "ImpactCeiling_of ''Observe'' = Inr OBSERVE" by (simp add: ImpactCeiling_of_def enum_of_def)
  show ?thesis
    by (simp add: authorize_and_start_attack_action_def attack_command_def ceiling service_eval find_non_terminal_by_step_def make_TechniqueRef_def
      make_RateLimitPolicy_def strip_scan strip_T1 find_worker_def check_payload_def run_gate_def gate_args_def degraded_gate_denies permitted_result_def denied_def
      deny_def journal_authorization_failure_def journal_append_def find_by_engagement_def Journal.create_def journal_eval save_journal_def
      save_journal_row_def add_entries_def load_journal_def entry_to_model_def entry_to_domain_def new_entry_def Let_def failure_content_def to_failure_def)
qed

theorem denial_is_journaled_witness:
  "\<exists>message check w' reason (journal :: ExecutionJournal) es.
     authorize_and_start_attack_action list_service sample_fresh attack_command (world_of empty_database) =
       Raise (Application (ApplicationAuthorizationError message check)) w' \<and> check = Some (AuthorizationFailureReason_value reason) \<and>
     jn_entries journal = es @ [new_entry 13 (failure_entry_type (Some reason)) (failure_content (Some reason) attack_command) 100 (Some 3) None None es]"
proof -
  obtain message check w' where w': "authorize_and_start_attack_action list_service sample_fresh attack_command (world_of empty_database) =
      Raise (Application (ApplicationAuthorizationError message check)) w'"
    using attack_denied by blast
  have fields: "fr_entry_id sample_fresh = 13" "fr_now sample_fresh = 100" "as_operator_id attack_command = 3"
    by (simp_all add: sample_fresh_def attack_command_def)
  from denial_is_journaled [OF w', unfolded fields] w' show ?thesis by blast
qed

section \<open>The database\<close>

context pg_service
begin

lemma stored_history_ok:
  "store_ok en (wd_db w) \<Longrightarrow> store_ok en (wd_session w) \<Longrightarrow> store_ok en (wd_db (history (exec_service sv) cs w))"
  by (rule store.history_ok)

end

text \<open>C23: on the PostgreSQL repositories, whatever calls of the service are made, in whatever order and whatever they raise, every
  journal that can be read from the database is an intact hash chain that its own check verifies, and every attack action that can be
  read carries passed safety checks and a hash that its own check confirms.\<close>

theorem stored_evidence_stays_genuine:
  assumes "engine_laws en" and "sv_repositories sv = pg_repositories en" and "store_ok en (wd_db w)" and "store_ok en (wd_session w)"
  shows "let d = wd_db (history (exec_service sv) cs w) in store_ok en d \<and>
    (\<forall>e t j now. find_by_engagement en e t d = Inr (Some j) \<longrightarrow>
       (\<exists>report. verify_chain_integrity now j = Return report j \<and> cr_status report = ChainIntegrityStatus.VERIFIED)) \<and>
    (\<forall>i t a now. find_action_by_id en i t d = Inr (Some a) \<longrightarrow> passed (aa_safety_check a) \<and> verify_integrity now a = Return True a)"
proof -
  from assms(1,2) have pg: "pg_service en sv" by unfold_locales
  have ok: "store_ok en (wd_db (history (exec_service sv) cs w))"
    by (rule pg_service.stored_history_ok [OF pg assms(3,4)])
  show ?thesis
    unfolding Let_def
  proof (intro conjI allI impI ok)
    fix e t j now
    assume "find_by_engagement en e t (wd_db (history (exec_service sv) cs w)) = Inr (Some j)"
    then have "intact j" by (rule pg_engine.find_journal_intact [OF pg_service.axioms(1) [OF pg] ok])
    then show "\<exists>report. verify_chain_integrity now j = Return report j \<and> cr_status report = ChainIntegrityStatus.VERIFIED"
      by (simp add: intact_def verify_chain_integrity_def chained_verified)
  next
    fix i t a now
    assume "find_action_by_id en i t (wd_db (history (exec_service sv) cs w)) = Inr (Some a)"
    then have "genuine a" by (rule pg_engine.find_action_genuine [OF pg_service.axioms(1) [OF pg] ok])
    then show "passed (aa_safety_check a)" "verify_integrity now a = Return True a"
      by (simp_all add: genuine_def verify_integrity_def)
  qed
qed

theorem stored_evidence_stays_genuine_witness:
  "store_ok list_engine (wd_db (history (exec_service list_service)
     [(sample_fresh, Create_Journal (digits_of 5) 7), (sample_fresh, Query_Journal_Integrity (digits_of 5) 7)] (world_of empty_database)))"
proof -
  have "store_ok list_engine empty_database" by (simp add: store_ok_def list_engine_def empty_database_def)
  then have start: "store_ok list_engine (wd_db (world_of empty_database))" "store_ok list_engine (wd_session (world_of empty_database))"
    by (simp_all add: world_of_def)
  show ?thesis
    using stored_evidence_stays_genuine [OF list_engine_laws list_service.repositories start] unfolding Let_def by blast
qed


definition one_worker :: list_database where
  "one_worker = empty_database\<lparr>db_workers := [worker_to_model list_engine (lost_worker\<lparr>wk_tenant_id := digits_of 5, wk_version := 1\<rparr>)]\<rparr>"


text \<open>An aggregate that is saved for the first time reads back as it was, with version 1 and no pending events; the input of an
  action reads back in the normal form of a JSON column.\<close>

theorem first_save_reads_back:
  assumes "engine_laws en"
  shows "(new_switch en k d \<longrightarrow> (\<exists>d'. save_kill_switch en k d = Return 1 d' \<and>
      find_by_scope en (ks_tenant_id k) (ks_scope k) (ks_scope_ref k) d' = Inr (Some (k\<lparr>ks_version := 1, ks_pending_events := []\<rparr>)))) \<and>
    (new_journal en j d \<longrightarrow> (\<exists>d'. save_journal_row en j d = Return 1 d' \<and>
      find_by_engagement en (jn_engagement_id j) (jn_tenant_id j) d' = Inr (Some (j\<lparr>jn_version := 1, jn_pending_events := []\<rparr>)))) \<and>
    (new_action en a d \<longrightarrow> (\<exists>d'. save_attack_action en a d = Return 1 d' \<and> find_action_by_id en (aa_action_id a) (aa_tenant_id a) d' =
      Inr (Some (a\<lparr>aa_action_input := en_jsonb en (aa_action_input a), aa_version := 1, aa_pending_events := []\<rparr>)))) \<and>
    (new_worker en v d \<longrightarrow> (\<exists>d'. save_execution_worker en v d = Return 1 d' \<and>
      find_worker_by_id en (wk_worker_id v) (wk_tenant_id v) d' = Inr (Some (v\<lparr>wk_version := 1, wk_pending_events := []\<rparr>))))"
proof -
  from assms have pg: "pg_engine en" by unfold_locales
  show ?thesis
    using pg_engine.switch_back [OF pg] pg_engine.journal_back [OF pg] pg_engine.action_back [OF pg] pg_engine.worker_back [OF pg] by simp
qed

theorem first_save_reads_back_witness:
  "\<exists>d'. save_kill_switch list_engine (create_armed 11 (digits_of 5) ENGAGEMENT 7 0) empty_database = Return 1 d' \<and>
     find_by_scope list_engine (digits_of 5) ENGAGEMENT 7 d' = Inr (Some ((create_armed 11 (digits_of 5) ENGAGEMENT 7 0)\<lparr>ks_version := 1\<rparr>))"
proof -
  have "new_switch list_engine (create_armed 11 (digits_of 5) ENGAGEMENT 7 0) empty_database"
    by (simp add: new_switch_def canonical_def switch_storable_def authority_ok_def create_armed_def empty_database_def list_engine_def)
  then show ?thesis
    using first_save_reads_back [OF list_engine_laws, of "create_armed 11 (digits_of 5) ENGAGEMENT 7 0" empty_database]
    by (simp add: create_armed_def)
qed

end
