(* ===== verification/TaskGraph_Service.thy ===== *)
theory TaskGraph_Service
  imports Order_Resolver Tables
begin

text \<open>
  The application service of \<open>taskgraph\<close> (\<open>taskgraph/application\<close>) and the in-memory security graph
  (\<open>taskgraph/infrastructure/acl/degraded_adapters.py\<close>): one definition per use case. The repository and the security graph are
  arguments (\<open>graph_repository\<close>, \<open>security_graph\<close>). Commands carry the types that their classes declare, UUIDs and entity identifiers;
  the coercion of other values in \<open>_as_uuid\<close> and \<open>_as_entity_id\<close> is not modelled.

  The validator and the resolver of the service have no state. The clock and generated identifiers are the argument \<open>fresh\<close>.
\<close>

section \<open>Ports\<close>

type_synonym 'x graph_error = "(TaskGraphDomainException, 'x) use_case_error"

text \<open>\<open>gr_save\<close> takes the identifiers that the repository generates for the rows of dependencies.\<close>

record ('s, 'x) graph_repository =
  gr_save :: "(nat \<Rightarrow> uuid) \<Rightarrow> TaskGraph \<Rightarrow> 's \<Rightarrow> ('x graph_error, unit, 's) outcome"
  gr_find_by_id :: "uuid \<Rightarrow> EntityId \<Rightarrow> 's \<Rightarrow> 'x graph_error + TaskGraph option"
  gr_commit :: "'s \<Rightarrow> 'x + 's"

record ('p, 'x) security_graph =
  sg_upsert_task_graph_node :: "string \<Rightarrow> string \<Rightarrow> string \<Rightarrow> ('x, 'p) step"
  sg_upsert_campaign_task_node :: "string \<Rightarrow> string \<Rightarrow> string \<Rightarrow> string \<Rightarrow> ('x, 'p) step"
  sg_upsert_graph_contains_edge :: "string \<Rightarrow> string \<Rightarrow> string \<Rightarrow> int \<Rightarrow> ('x, 'p) step"
  sg_upsert_task_depends_on_edge :: "string \<Rightarrow> string \<Rightarrow> string \<Rightarrow> string \<Rightarrow> ('x, 'p) step"

record ('s, 'p, 'x) graph_service =
  gs_repository :: "('s, 'x) graph_repository"
  gs_graph_port :: "('p, 'x) security_graph option"

record graph_fresh =
  gf_now :: datetime
  gf_graph_id :: uuid
  gf_task_id :: uuid
  gf_row_ids :: "nat \<Rightarrow> uuid"

type_synonym ('s, 'p, 'x, 'a) graph_use_case = "('s, 'p, TaskGraphEvent event, TaskGraphDomainException, 'x, 'a) transacted"

section \<open>Commands and results\<close>

record CreateTaskGraphCommand =
  cg_tenant_id :: EntityId
  cg_name :: string
  cg_description :: string
  cg_engagement_window_seconds :: int

record AddTaskCommand =
  at_tenant_id :: EntityId
  at_graph_id :: uuid
  at_task_type :: string
  at_name :: string
  at_criticality :: string
  at_timeout_seconds :: int
  at_technique_id :: "string option"
  at_technique_name :: "string option"
  at_technique_parameters :: "(string, string) dict option"
  at_human_approval_timeout_seconds :: "int option"
  at_human_approval_required_role :: "string option"
  at_human_approval_default_on_timeout :: "string option"
  at_human_approval_timeout_justification :: "string option"
  at_barrier_task_group_id :: "string option"
  at_rollback_task_ref_id :: "uuid option"
  at_rollback_technique_id :: "string option"
  at_rollback_not_possible :: bool
  at_rollback_not_possible_reason :: "string option"
  at_task_group_id :: "string option"

record AddDependencyCommand =
  ad_tenant_id :: EntityId
  ad_graph_id :: uuid
  ad_predecessor_task_id :: uuid
  ad_successor_task_id :: uuid
  ad_predicate :: string
  ad_objective_ref :: "string option"

record SignTaskGraphCommand =
  sn_tenant_id :: EntityId
  sn_graph_id :: uuid
  sn_signed_by :: string
  sn_signature :: string

record TaskGraphDTO =
  gd_graph_id :: uuid
  gd_tenant_id :: EntityId
  gd_name :: string
  gd_description :: string
  gd_state :: string
  gd_version_str :: string
  gd_task_count :: int
  gd_dependency_count :: int
  gd_engagement_window_seconds :: int
  gd_signed_by :: "string option"
  gd_signed_at :: "datetime option"
  gd_created_at :: datetime
  gd_updated_at :: datetime

record TaskDTO =
  kd_task_id :: uuid
  kd_task_type :: string
  kd_name :: string
  kd_criticality :: string
  kd_timeout_seconds :: int
  kd_task_group_id :: "string option"

record ValidationResultDTO =
  vd_is_valid :: bool
  vd_errors :: "string list"

record ExecutionOrderDTO =
  od_layers :: "string list list"
  od_critical_path_duration_seconds :: int

definition graph_to_dto :: "TaskGraph \<Rightarrow> TaskGraphDTO" where
  "graph_to_dto g =
     \<lparr>gd_graph_id = tg_graph_id g, gd_tenant_id = tg_tenant_id g, gd_name = tg_name g, gd_description = tg_description g,
      gd_state = TaskGraphState_value (tg_state g), gd_version_str = TaskGraphVersion_str (tg_version g),
      gd_task_count = int (length (tg_tasks g)), gd_dependency_count = int (length (tg_dependencies g)),
      gd_engagement_window_seconds = tg_engagement_window_seconds g, gd_signed_by = tg_signed_by g, gd_signed_at = tg_signed_at g,
      gd_created_at = tg_created_at g, gd_updated_at = tg_updated_at g\<rparr>"

text \<open>A \<open>TaskGroupId\<close> has no truth value of its own, so \<open>if task.task_group_id\<close> asks whether there is one.\<close>

definition task_to_dto :: "CampaignTask \<Rightarrow> TaskDTO" where
  "task_to_dto t =
     \<lparr>kd_task_id = ct_task_id t, kd_task_type = TaskType_value (ct_task_type t), kd_name = ct_name t,
      kd_criticality = TaskCriticality_value (ct_criticality t), kd_timeout_seconds = ct_timeout_seconds t,
      kd_task_group_id = ct_task_group_id t\<rparr>"

section \<open>Validation of inputs\<close>

definition invalid :: "string \<Rightarrow> string \<Rightarrow> 'x graph_error" where
  "invalid field reason = ApplicationFailure (ApplicationValidationError field reason)"

definition validate_uuid :: "uuid \<Rightarrow> string \<Rightarrow> 'x graph_error + unit" where
  "validate_uuid value field = (if uint value = 0 then Inl (invalid field ''must be a valid non-nil UUID'') else Inr ())"

definition validate_str :: "string \<Rightarrow> string \<Rightarrow> nat \<Rightarrow> 'x graph_error + unit" where
  "validate_str value field max_len =
     (if strip value = [] then Inl (invalid field ''must not be empty'')
      else if length value > max_len then Inl (invalid field (''must be at most '' @ str_nat max_len @ '' characters''))
      else Inr ())"

definition as_uuid :: "string \<Rightarrow> uuid \<Rightarrow> 'x graph_error + uuid" where
  "as_uuid field value = sum_bind (validate_uuid value field) (\<lambda>_. Inr value)"

definition as_str :: "string \<Rightarrow> string \<Rightarrow> nat \<Rightarrow> 'x graph_error + string" where
  "as_str field value max_len = sum_bind (validate_str value field max_len) (\<lambda>_. Inr (strip value))"

text \<open>A constructor of the domain that raises \<open>ValueError\<close> inside a use case.\<close>

definition python :: "PyError + 'a \<Rightarrow> 'x graph_error + 'a" where
  "python = map_sum PythonFailure id"

definition require :: "bool \<Rightarrow> 'e \<Rightarrow> 'e + unit" where
  "require c e = (if c then Inr () else Inl e)"

definition enum_or_invalid :: "string \<Rightarrow> ('a \<Rightarrow> string) \<Rightarrow> 'a list \<Rightarrow> string \<Rightarrow> 'x graph_error + 'a" where
  "enum_or_invalid field value members v =
     (case find (\<lambda>m. value m = v) members of
        Some m \<Rightarrow> Inr m
      | None \<Rightarrow> Inl (invalid field (''invalid: '' @ v)))"

definition parse_task_type :: "string \<Rightarrow> 'x graph_error + TaskType" where
  "parse_task_type = enum_or_invalid ''task_type'' TaskType_value
     [OPERATION_TASK, WAIT_TASK, HUMAN_APPROVAL_TASK, EVALUATION_CHECKPOINT, ROLLBACK_TASK, BARRIER_TASK]"

definition parse_criticality :: "string \<Rightarrow> 'x graph_error + TaskCriticality" where
  "parse_criticality = enum_or_invalid ''criticality'' TaskCriticality_value [OPTIONAL, REQUIRED, CRITICAL_PATH]"

definition parse_predicate :: "string \<Rightarrow> 'x graph_error + DependencyPredicate" where
  "parse_predicate = enum_or_invalid ''predicate'' DependencyPredicate_value
     [ALWAYS_EXECUTE, EXECUTE_ON_SUCCESS, EXECUTE_ON_FAILURE, EXECUTE_IF_OBJECTIVE_MET, EXECUTE_IF_OBJECTIVE_FAILED,
      EXECUTE_IF_DETECTION_FIRED, EXECUTE_IF_DETECTION_SILENT]"

section \<open>The parts of a task\<close>

definition operation_template_of :: "AddTaskCommand \<Rightarrow> TaskType \<Rightarrow> 'x graph_error + TaskOperationTemplate option" where
  "operation_template_of cmd task_type =
     (if task_type = OPERATION_TASK then
        sum_bind (require (truthy (at_technique_id cmd)) (invalid ''technique_id'' ''required for OperationTask'')) (\<lambda>_.
        sum_bind (python (make_TaskOperationTemplate (the (at_technique_id cmd)) (case at_technique_name cmd of None \<Rightarrow> [] | Some n \<Rightarrow> n)
          (case at_technique_parameters cmd of None \<Rightarrow> [] | Some d \<Rightarrow> d) (at_timeout_seconds cmd))) (\<lambda>t.
        Inr (Some t)))
      else Inr None)"

definition human_approval_config_of :: "AddTaskCommand \<Rightarrow> TaskType \<Rightarrow> 'x graph_error + HumanApprovalTaskConfig option" where
  "human_approval_config_of cmd task_type =
     (if task_type = HUMAN_APPROVAL_TASK then
        sum_bind (require (at_human_approval_timeout_seconds cmd \<noteq> None)
          (invalid ''human_approval_timeout_seconds'' ''required for HumanApprovalTask'')) (\<lambda>_.
        sum_bind (require (truthy (at_human_approval_required_role cmd))
          (invalid ''human_approval_required_role'' ''required for HumanApprovalTask'')) (\<lambda>_.
        sum_bind (python (make_HumanApprovalTaskConfig (the (at_human_approval_timeout_seconds cmd)) (the (at_human_approval_required_role cmd))
          (if truthy (at_human_approval_default_on_timeout cmd) then the (at_human_approval_default_on_timeout cmd) else ''abort'')
          (at_human_approval_timeout_justification cmd))) (\<lambda>c.
        Inr (Some c))))
      else Inr None)"

definition barrier_policy_of :: "AddTaskCommand \<Rightarrow> TaskType \<Rightarrow> 'x graph_error + BarrierPolicy option" where
  "barrier_policy_of cmd task_type =
     (if task_type = BARRIER_TASK then
        sum_bind (require (truthy (at_barrier_task_group_id cmd)) (invalid ''barrier_task_group_id'' ''required for BarrierTask'')) (\<lambda>_.
        sum_bind (python (make_BarrierPolicy (the (at_barrier_task_group_id cmd)))) (\<lambda>p. Inr (Some p)))
      else Inr None)"

definition task_id_of :: "string \<Rightarrow> uuid \<Rightarrow> 'x graph_error + uuid" where
  "task_id_of field value = sum_bind (as_uuid field value) (\<lambda>u. python (CampaignTaskId u))"

definition rollback_task_ref_of :: "AddTaskCommand \<Rightarrow> TaskType \<Rightarrow> 'x graph_error + uuid option" where
  "rollback_task_ref_of cmd task_type =
     (if task_type = ROLLBACK_TASK then
        (case at_rollback_task_ref_id cmd of
           None \<Rightarrow> Inl (invalid ''rollback_task_ref_id'' ''required for RollbackTask'')
         | Some i \<Rightarrow> sum_bind (task_id_of ''rollback_task_ref_id'' i) (\<lambda>r. Inr (Some r)))
      else Inr None)"

definition rollback_config_of :: "AddTaskCommand \<Rightarrow> RollbackConfiguration option" where
  "rollback_config_of cmd =
     (if truthy (at_rollback_technique_id cmd)
      then Some \<lparr>rb_rollback_technique_id = the (at_rollback_technique_id cmd), rb_rollback_parameters = [],
        rb_rollback_not_possible = at_rollback_not_possible cmd, rb_rollback_not_possible_reason = at_rollback_not_possible_reason cmd\<rparr>
      else None)"

text \<open>Everything \<open>add_task\<close> does before it opens the unit of work.\<close>

definition build_task :: "graph_fresh \<Rightarrow> AddTaskCommand \<Rightarrow> 'x graph_error + CampaignTask" where
  "build_task fresh cmd =
     sum_bind (parse_task_type (at_task_type cmd)) (\<lambda>task_type.
     sum_bind (parse_criticality (at_criticality cmd)) (\<lambda>criticality.
     sum_bind (require (0 < at_timeout_seconds cmd) (invalid ''timeout_seconds'' ''must be positive'')) (\<lambda>_.
     sum_bind (operation_template_of cmd task_type) (\<lambda>operation_template.
     sum_bind (human_approval_config_of cmd task_type) (\<lambda>human_approval_config.
     sum_bind (barrier_policy_of cmd task_type) (\<lambda>barrier_policy.
     sum_bind (rollback_task_ref_of cmd task_type) (\<lambda>rollback_task_ref.
     sum_bind (when_truthy (at_task_group_id cmd) (\<lambda>g. python (TaskGroupId g))) (\<lambda>task_group_id.
     sum_bind (python (CampaignTaskId (gf_task_id fresh))) (\<lambda>task_id.
     sum_bind (as_str ''name'' (at_name cmd) 512) (\<lambda>name.
     Inr \<lparr>ct_task_id = task_id, ct_task_type = task_type, ct_name = name, ct_criticality = criticality,
       ct_timeout_seconds = at_timeout_seconds cmd, ct_operation_template = operation_template,
       ct_human_approval_config = human_approval_config, ct_barrier_policy = barrier_policy, ct_rollback_config = rollback_config_of cmd,
       ct_task_group_id = task_group_id, ct_rollback_task_ref = rollback_task_ref\<rparr>))))))))))"

section \<open>Use cases\<close>

definition graph_id_of :: "uuid \<Rightarrow> 'x graph_error + uuid" where
  "graph_id_of i = sum_bind (as_uuid ''graph_id'' i) (\<lambda>u. python (TaskGraphId u))"

definition load_graph :: "('s, 'p, 'x) graph_service \<Rightarrow> uuid \<Rightarrow> EntityId \<Rightarrow> ('s, 'p, 'x, TaskGraph) graph_use_case" where
  "load_graph sv graph_id tenant =
     and_then (attempt (\<lambda>e. e) (graph_id_of graph_id)) (\<lambda>gid.
     and_then (read_session (gr_find_by_id (gs_repository sv) gid tenant)) (\<lambda>found.
     found_or (ApplicationFailure (ApplicationNotFoundError ''TaskGraph'' (uuid_str gid))) found))"

definition save_graph :: "('s, 'p, 'x) graph_service \<Rightarrow> graph_fresh \<Rightarrow> TaskGraph \<Rightarrow> ('s, 'p, 'x, unit) graph_use_case" where
  "save_graph sv fresh g =
     and_then (write_session (gr_save (gs_repository sv) (gf_row_ids fresh) g)) (\<lambda>_. commit_session (gr_commit (gs_repository sv)))"

text \<open>\<open>pop_events\<close> empties the queue of the object; the service does not use the object's queue again.\<close>

definition publish_graph :: "TaskGraph \<Rightarrow> ('s, 'p, 'x, unit) graph_use_case" where
  "publish_graph g = publish_all (fst (pop_events g))"

text \<open>Loading, one call on the aggregate, saving and committing: the body of the unit of work of the use cases that change a graph.\<close>

definition change_graph ::
  "('s, 'p, 'x) graph_service \<Rightarrow> graph_fresh \<Rightarrow> uuid \<Rightarrow> EntityId \<Rightarrow> graph_step \<Rightarrow> ('s, 'p, 'x, TaskGraph) graph_use_case" where
  "change_graph sv fresh graph_id tenant call =
     and_then (load_graph sv graph_id tenant) (\<lambda>g.
     and_then (on_aggregate DomainFailure (call g)) (\<lambda>g.
     and_then (save_graph sv fresh g) (\<lambda>_. give g)))"

definition update_graph ::
  "('s, 'p, 'x) graph_service \<Rightarrow> graph_fresh \<Rightarrow> uuid \<Rightarrow> EntityId \<Rightarrow> graph_step \<Rightarrow> ('s, 'p, 'x, TaskGraph) graph_use_case" where
  "update_graph sv fresh graph_id tenant call =
     and_then (within_uow (change_graph sv fresh graph_id tenant call)) (\<lambda>g.
     and_then (publish_graph g) (\<lambda>_. give g))"

definition create_task_graph ::
  "('s, 'p, 'x) graph_service \<Rightarrow> graph_fresh \<Rightarrow> CreateTaskGraphCommand \<Rightarrow> ('s, 'p, 'x, TaskGraphDTO) graph_use_case" where
  "create_task_graph sv fresh cmd =
     and_then (attempt (\<lambda>e. e) (as_str ''name'' (cg_name cmd) 512)) (\<lambda>name.
     and_then (attempt (\<lambda>e. e) (require (0 < cg_engagement_window_seconds cmd) (invalid ''engagement_window_seconds'' ''must be positive''))) (\<lambda>_.
     and_then (attempt PythonFailure (TaskGraphId (gf_graph_id fresh))) (\<lambda>graph_id.
     and_then (attempt DomainFailure (create graph_id (cg_tenant_id cmd) name (strip (cg_description cmd))
       (cg_engagement_window_seconds cmd) (gf_now fresh))) (\<lambda>g.
     and_then (within_uow (save_graph sv fresh g)) (\<lambda>_.
     and_then (publish_graph g) (\<lambda>_.
     give (graph_to_dto g)))))))"

definition add_task ::
  "('s, 'p, 'x) graph_service \<Rightarrow> graph_fresh \<Rightarrow> AddTaskCommand \<Rightarrow> ('s, 'p, 'x, TaskDTO) graph_use_case" where
  "add_task sv fresh cmd =
     and_then (attempt (\<lambda>e. e) (build_task fresh cmd)) (\<lambda>task.
     and_then (update_graph sv fresh (at_graph_id cmd) (at_tenant_id cmd)
       (TaskGraph_Model.add_task (at_tenant_id cmd) task (gf_now fresh))) (\<lambda>_.
     give (task_to_dto task)))"

definition add_dependency ::
  "('s, 'p, 'x) graph_service \<Rightarrow> graph_fresh \<Rightarrow> AddDependencyCommand \<Rightarrow> ('s, 'p, 'x, unit) graph_use_case" where
  "add_dependency sv fresh cmd =
     and_then (attempt (\<lambda>e. e) (parse_predicate (ad_predicate cmd))) (\<lambda>predicate.
     and_then (attempt PythonFailure (make_ConditionalBranchConfig predicate (ad_objective_ref cmd))) (\<lambda>condition.
     and_then (attempt (\<lambda>e. e) (task_id_of ''predecessor_task_id'' (ad_predecessor_task_id cmd))) (\<lambda>predecessor_id.
     and_then (attempt (\<lambda>e. e) (task_id_of ''successor_task_id'' (ad_successor_task_id cmd))) (\<lambda>successor_id.
     and_then (update_graph sv fresh (ad_graph_id cmd) (ad_tenant_id cmd)
       (TaskGraph_Model.add_dependency (ad_tenant_id cmd) predecessor_id successor_id condition (gf_now fresh))) (\<lambda>_.
     give ())))))"

text \<open>\<open>except TaskGraphValidationFailed\<close>.\<close>

definition catching_validation_failed ::
  "('s, 'p, 'x, ValidationResultDTO) graph_use_case \<Rightarrow> ('s, 'p, 'x, ValidationResultDTO) graph_use_case" where
  "catching_validation_failed m w =
     (case m w of
        Raise (DomainFailure (TaskGraphValidationFailed _ errors)) w' \<Rightarrow> Return \<lparr>vd_is_valid = False, vd_errors = errors\<rparr> w'
      | r \<Rightarrow> r)"

definition validate_task_graph ::
  "('s, 'p, 'x) graph_service \<Rightarrow> graph_fresh \<Rightarrow> EntityId \<Rightarrow> uuid \<Rightarrow> ('s, 'p, 'x, ValidationResultDTO) graph_use_case" where
  "validate_task_graph sv fresh tenant graph_id =
     within_uow (
     and_then (load_graph sv graph_id tenant) (\<lambda>g.
     catching_validation_failed (
     and_then (on_aggregate DomainFailure (validate tenant validate_graph (gf_now fresh) g)) (\<lambda>g.
     and_then (save_graph sv fresh g) (\<lambda>_.
     and_then (publish_graph g) (\<lambda>_.
     give \<lparr>vd_is_valid = True, vd_errors = []\<rparr>))))))"

fun in_sequence :: "('e, 's) step list \<Rightarrow> ('e, 's) step" where
  "in_sequence [] = give ()"
| "in_sequence (m # ms) = and_then m (\<lambda>_. in_sequence ms)"

definition task_writes :: "('p, 'x) security_graph \<Rightarrow> TaskGraph \<Rightarrow> nat \<times> CampaignTask \<Rightarrow> ('x, 'p) step list" where
  "task_writes port g = (\<lambda>(sequence, task).
     [sg_upsert_campaign_task_node port (entity_str (tg_tenant_id g)) (uuid_str (ct_task_id task)) (TaskType_value (ct_task_type task))
        (TaskCriticality_value (ct_criticality task)),
      sg_upsert_graph_contains_edge port (entity_str (tg_tenant_id g)) (uuid_str (tg_graph_id g)) (uuid_str (ct_task_id task)) (int sequence)])"

definition write_graph_ontology :: "('p, 'x) security_graph \<Rightarrow> TaskGraph \<Rightarrow> ('x, 'p) step" where
  "write_graph_ontology port g = in_sequence (
     [sg_upsert_task_graph_node port (entity_str (tg_tenant_id g)) (uuid_str (tg_graph_id g)) (TaskGraphVersion_str (tg_version g))] @
     concat (map (task_writes port g) (List.enumerate 0 (tg_tasks g))) @
     map (\<lambda>dep. sg_upsert_task_depends_on_edge port (entity_str (tg_tenant_id g)) (uuid_str (td_predecessor_id dep))
       (uuid_str (td_successor_id dep)) (DependencyPredicate_value (cb_predicate (td_condition dep)))) (tg_dependencies g))"

definition sign_task_graph ::
  "('s, 'p, 'x) graph_service \<Rightarrow> graph_fresh \<Rightarrow> SignTaskGraphCommand \<Rightarrow> ('s, 'p, 'x, unit) graph_use_case" where
  "sign_task_graph sv fresh cmd =
     and_then (attempt (\<lambda>e. e) (as_str ''signed_by'' (sn_signed_by cmd) 256)) (\<lambda>signed_by.
     and_then (attempt (\<lambda>e. e) (as_str ''signature'' (sn_signature cmd) 1024)) (\<lambda>signature.
     and_then (update_graph sv fresh (sn_graph_id cmd) (sn_tenant_id cmd)
       (sign (sn_tenant_id cmd) signed_by signature (gf_now fresh))) (\<lambda>g.
     (case gs_graph_port sv of None \<Rightarrow> give () | Some port \<Rightarrow> on_ports (write_graph_ontology port g)))))"

definition activate_task_graph ::
  "('s, 'p, 'x) graph_service \<Rightarrow> graph_fresh \<Rightarrow> EntityId \<Rightarrow> uuid \<Rightarrow> ('s, 'p, 'x, unit) graph_use_case" where
  "activate_task_graph sv fresh tenant graph_id =
     and_then (update_graph sv fresh graph_id tenant (activate tenant (gf_now fresh))) (\<lambda>_. give ())"

definition deprecate_task_graph ::
  "('s, 'p, 'x) graph_service \<Rightarrow> graph_fresh \<Rightarrow> EntityId \<Rightarrow> uuid \<Rightarrow> ('s, 'p, 'x, unit) graph_use_case" where
  "deprecate_task_graph sv fresh tenant graph_id =
     and_then (update_graph sv fresh graph_id tenant (deprecate tenant (gf_now fresh))) (\<lambda>_. give ())"

definition get_task_graph ::
  "('s, 'p, 'x) graph_service \<Rightarrow> EntityId \<Rightarrow> uuid \<Rightarrow> ('s, 'p, 'x, TaskGraphDTO option) graph_use_case" where
  "get_task_graph sv tenant graph_id =
     within_uow (
     and_then (attempt (\<lambda>e. e) (graph_id_of graph_id)) (\<lambda>gid.
     and_then (read_session (gr_find_by_id (gs_repository sv) gid tenant)) (\<lambda>found.
     give (map_option graph_to_dto found))))"

definition get_execution_order ::
  "('s, 'p, 'x) graph_service \<Rightarrow> EntityId \<Rightarrow> uuid \<Rightarrow> uuid option \<Rightarrow> ('s, 'p, 'x, ExecutionOrderDTO) graph_use_case" where
  "get_execution_order sv tenant graph_id start =
     and_then (within_uow (load_graph sv graph_id tenant)) (\<lambda>g.
     and_then (attempt (\<lambda>e. e) (if_some start (task_id_of ''start_task_id''))) (\<lambda>start_task_id.
     give \<lparr>od_layers = map (map uuid_str) (resolve g start_task_id),
       od_critical_path_duration_seconds = compute_critical_path_duration g\<rparr>))"

section \<open>The in-memory security graph\<close>

record task_graph_node =
  gn_tenant_id :: string
  gn_graph_id :: string
  gn_version :: string

record campaign_task_node =
  tn_tenant_id :: string
  tn_task_id :: string
  tn_task_type :: string
  tn_criticality :: string

record graph_contains_edge =
  ce_tenant_id :: string
  ce_graph_id :: string
  ce_task_id :: string
  ce_sequence :: int

record task_depends_edge =
  de_tenant_id :: string
  de_from_task_id :: string
  de_to_task_id :: string
  de_predicate :: string

record StubTaskGraphGraphWriteAdapter =
  wa_task_graph_nodes :: "task_graph_node list"
  wa_task_nodes :: "campaign_task_node list"
  wa_graph_contains_edges :: "graph_contains_edge list"
  wa_task_depends_edges :: "task_depends_edge list"

text \<open>Every upsert drops the elements with the key and appends the new one.\<close>

definition upsert :: "('a \<Rightarrow> 'k) \<Rightarrow> 'a \<Rightarrow> 'a list \<Rightarrow> 'a list" where
  "upsert key x xs = filter (\<lambda>y. key y \<noteq> key x) xs @ [x]"

definition graph_node_key :: "task_graph_node \<Rightarrow> string \<times> string" where
  "graph_node_key n = (gn_tenant_id n, gn_graph_id n)"

definition task_node_key :: "campaign_task_node \<Rightarrow> string \<times> string" where
  "task_node_key n = (tn_tenant_id n, tn_task_id n)"

definition contains_key :: "graph_contains_edge \<Rightarrow> string \<times> string \<times> string" where
  "contains_key e = (ce_tenant_id e, ce_graph_id e, ce_task_id e)"

definition depends_key :: "task_depends_edge \<Rightarrow> string \<times> string \<times> string" where
  "depends_key e = (de_tenant_id e, de_from_task_id e, de_to_task_id e)"

definition upsert_task_graph_node :: "string \<Rightarrow> string \<Rightarrow> string \<Rightarrow> ('x, StubTaskGraphGraphWriteAdapter) step" where
  "upsert_task_graph_node tenant_id graph_id version = assign (\<lambda>p. p\<lparr>wa_task_graph_nodes := upsert graph_node_key
     \<lparr>gn_tenant_id = tenant_id, gn_graph_id = graph_id, gn_version = version\<rparr> (wa_task_graph_nodes p)\<rparr>)"

definition upsert_campaign_task_node :: "string \<Rightarrow> string \<Rightarrow> string \<Rightarrow> string \<Rightarrow> ('x, StubTaskGraphGraphWriteAdapter) step" where
  "upsert_campaign_task_node tenant_id task_id task_type criticality = assign (\<lambda>p. p\<lparr>wa_task_nodes := upsert task_node_key
     \<lparr>tn_tenant_id = tenant_id, tn_task_id = task_id, tn_task_type = task_type, tn_criticality = criticality\<rparr> (wa_task_nodes p)\<rparr>)"

definition upsert_graph_contains_edge :: "string \<Rightarrow> string \<Rightarrow> string \<Rightarrow> int \<Rightarrow> ('x, StubTaskGraphGraphWriteAdapter) step" where
  "upsert_graph_contains_edge tenant_id graph_id task_id sequence = assign (\<lambda>p. p\<lparr>wa_graph_contains_edges := upsert contains_key
     \<lparr>ce_tenant_id = tenant_id, ce_graph_id = graph_id, ce_task_id = task_id, ce_sequence = sequence\<rparr> (wa_graph_contains_edges p)\<rparr>)"

definition upsert_task_depends_on_edge :: "string \<Rightarrow> string \<Rightarrow> string \<Rightarrow> string \<Rightarrow> ('x, StubTaskGraphGraphWriteAdapter) step" where
  "upsert_task_depends_on_edge tenant_id from_task_id to_task_id predicate = assign (\<lambda>p. p\<lparr>wa_task_depends_edges := upsert depends_key
     \<lparr>de_tenant_id = tenant_id, de_from_task_id = from_task_id, de_to_task_id = to_task_id, de_predicate = predicate\<rparr> (wa_task_depends_edges p)\<rparr>)"

definition StubAdapter :: "(StubTaskGraphGraphWriteAdapter, 'x) security_graph" where
  "StubAdapter = \<lparr>sg_upsert_task_graph_node = upsert_task_graph_node, sg_upsert_campaign_task_node = upsert_campaign_task_node,
     sg_upsert_graph_contains_edge = upsert_graph_contains_edge, sg_upsert_task_depends_on_edge = upsert_task_depends_on_edge\<rparr>"

text \<open>\<open>TaskGraphContainer\<close> without a port of its own.\<close>

definition TaskGraphContainer :: "('s, 'x) graph_repository \<Rightarrow> ('s, StubTaskGraphGraphWriteAdapter, 'x) graph_service" where
  "TaskGraphContainer repository = \<lparr>gs_repository = repository, gs_graph_port = Some StubAdapter\<rparr>"

end
