(* ===== verification/TaskGraph_Repository.thy ===== *)
theory TaskGraph_Repository
  imports TaskGraph_Service
begin

text \<open>
  The PostgreSQL repository of task graphs (\<open>taskgraph/infrastructure/persistence\<close>): its three tables, the JSON columns, \<open>save\<close> with
  its version check and the replacement of the child rows, and the queries. The database engine is an argument with the laws
  \<open>graph_engine_laws\<close>. The relationships \<open>tasks\<close> and \<open>dependencies\<close> have no \<open>order_by\<close>: they are read in the order in which the
  engine answers.

  \<open>ge_lazy_load\<close> is what reading a relationship that was never loaded raises: \<open>None\<close> where the session loads it on access, and the
  error of the driver where it cannot (an asynchronous session has no implicit loading).
\<close>

section \<open>Rows\<close>

type_synonym json_object = "(string \<times> json) list"

record TaskGraphModel =
  gm_id :: uuid
  gm_tenant_id :: uuid
  gm_name :: string
  gm_description :: string
  gm_state :: string
  gm_version_major :: int
  gm_version_minor :: int
  gm_version_patch :: int
  gm_engagement_window_seconds :: int
  gm_signed_by :: "string option"
  gm_signed_at :: "datetime option"
  gm_signature :: "string option"
  gm_created_at :: datetime
  gm_updated_at :: datetime
  gm_row_version :: int

record CampaignTaskModel =
  cm_id :: uuid
  cm_graph_id :: uuid
  cm_tenant_id :: uuid
  cm_task_type :: string
  cm_name :: string
  cm_criticality :: string
  cm_timeout_seconds :: int
  cm_operation_template_json :: "json_object option"
  cm_human_approval_config_json :: "json_object option"
  cm_barrier_policy_json :: "json_object option"
  cm_rollback_config_json :: "json_object option"
  cm_task_group_id :: "string option"
  cm_rollback_task_ref_id :: "uuid option"

record TaskDependencyModel =
  dm_id :: uuid
  dm_graph_id :: uuid
  dm_predecessor_id :: uuid
  dm_successor_id :: uuid
  dm_predicate :: string
  dm_objective_ref :: "string option"

section \<open>The engine\<close>

record ('g, 't, 'd) graph_database =
  gb_graphs :: 'g
  gb_tasks :: 't
  gb_dependencies :: 'd

record ('g, 't, 'd, 'x) graph_engine =
  ge_graphs :: "(TaskGraphModel, 'g) table"
  ge_tasks :: "(CampaignTaskModel, 't) table"
  ge_dependencies :: "(TaskDependencyModel, 'd) table"
  ge_multiple_results :: 'x
  ge_integrity_error :: 'x
  ge_lazy_load :: "'x option"
  ge_commit :: "('g, 't, 'd) graph_database \<Rightarrow> 'x + ('g, 't, 'd) graph_database"
  ge_uuid_of :: "EntityId \<Rightarrow> uuid"
  ge_from_uuid :: "uuid \<Rightarrow> EntityId"
  ge_jsonb :: "json_object \<Rightarrow> json_object"

definition graph_engine_laws :: "('g, 't, 'd, 'x) graph_engine \<Rightarrow> bool" where
  "graph_engine_laws en \<longleftrightarrow> table_laws (ge_graphs en) \<and> table_laws (ge_tasks en) \<and> table_laws (ge_dependencies en) \<and>
     (\<forall>d d'. ge_commit en d = Inr d' \<longrightarrow> d' = d) \<and> (\<forall>u. ge_uuid_of en (ge_from_uuid en u) = u) \<and>
     (\<forall>kvs. json_same (JObject kvs) (JObject (ge_jsonb en kvs)))"

section \<open>JSON columns\<close>

definition texts_to_json :: "(string, string) dict \<Rightarrow> json_object" where
  "texts_to_json = map (\<lambda>(k, v). (k, JStr v))"

text \<open>\<open>dict(data.get(...) or {})\<close>; the values are texts, as declared.\<close>

definition texts_of_json :: "json option \<Rightarrow> (string, string) dict" where
  "texts_of_json v = (case v of Some (JObject kvs) \<Rightarrow> map (\<lambda>(k, v). (k, json_str v)) kvs | _ \<Rightarrow> [])"

text \<open>An optional text in an object, and \<open>int\<close> of a value.\<close>

definition json_of_text :: "string option \<Rightarrow> json" where
  "json_of_text s = (case s of None \<Rightarrow> JNull | Some t \<Rightarrow> JStr t)"

definition text_of_json :: "json option \<Rightarrow> string option" where
  "text_of_json v = (case v of Some (JStr s) \<Rightarrow> Some s | _ \<Rightarrow> None)"

definition json_int :: "json \<Rightarrow> PyError + int" where
  "json_int v = (case v of
       JInt i \<Rightarrow> Inr i
     | JBool b \<Rightarrow> Inr (if b then 1 else 0)
     | JStr s \<Rightarrow> int_of s
     | _ \<Rightarrow> Inl (TypeError ''int() argument must be a string, a bytes-like object or a real number''))"

definition operation_template_to_json :: "TaskOperationTemplate \<Rightarrow> json_object" where
  "operation_template_to_json t =
     [(''technique_id'', JStr (ot_technique_id t)), (''technique_name'', JStr (ot_technique_name t)),
      (''parameters'', JObject (texts_to_json (ot_parameters t))), (''timeout_seconds'', JInt (ot_timeout_seconds t))]"

definition operation_template_from_json :: "json_object \<Rightarrow> PyError + TaskOperationTemplate" where
  "operation_template_from_json data =
     sum_bind (json_key data ''technique_id'') (\<lambda>technique_id.
     sum_bind (json_key data ''timeout_seconds'') (\<lambda>v.
     sum_bind (json_int v) (\<lambda>timeout_seconds.
     make_TaskOperationTemplate (json_str technique_id)
       (case map_of data ''technique_name'' of None \<Rightarrow> [] | Some n \<Rightarrow> json_str n) (texts_of_json (map_of data ''parameters'')) timeout_seconds)))"

definition human_approval_to_json :: "HumanApprovalTaskConfig \<Rightarrow> json_object" where
  "human_approval_to_json c =
     [(''gate_timeout_seconds'', JInt (ha_gate_timeout_seconds c)), (''required_approver_role'', JStr (ha_required_approver_role c)),
      (''default_on_timeout'', JStr (ha_default_on_timeout c)), (''timeout_justification'', json_of_text (ha_timeout_justification c))]"

definition human_approval_from_json :: "json_object \<Rightarrow> PyError + HumanApprovalTaskConfig" where
  "human_approval_from_json data =
     sum_bind (json_key data ''gate_timeout_seconds'') (\<lambda>v.
     sum_bind (json_int v) (\<lambda>gate_timeout_seconds.
     sum_bind (json_key data ''required_approver_role'') (\<lambda>role.
     make_HumanApprovalTaskConfig gate_timeout_seconds (json_str role)
       (case map_of data ''default_on_timeout'' of None \<Rightarrow> ''abort'' | Some d \<Rightarrow> json_str d) (text_of_json (map_of data ''timeout_justification'')))))"

definition barrier_policy_to_json :: "BarrierPolicy \<Rightarrow> json_object" where
  "barrier_policy_to_json p = [(''task_group_id'', JStr (bp_task_group_id p))]"

definition barrier_policy_from_json :: "json_object \<Rightarrow> PyError + BarrierPolicy" where
  "barrier_policy_from_json data = sum_bind (json_key data ''task_group_id'') (\<lambda>g. make_BarrierPolicy (json_str g))"

definition rollback_config_to_json :: "RollbackConfiguration \<Rightarrow> json_object" where
  "rollback_config_to_json c =
     [(''rollback_technique_id'', JStr (rb_rollback_technique_id c)), (''rollback_parameters'', JObject (texts_to_json (rb_rollback_parameters c))),
      (''rollback_not_possible'', JBool (rb_rollback_not_possible c)),
      (''rollback_not_possible_reason'', json_of_text (rb_rollback_not_possible_reason c))]"

definition rollback_config_from_json :: "json_object \<Rightarrow> PyError + RollbackConfiguration" where
  "rollback_config_from_json data =
     sum_bind (json_key data ''rollback_technique_id'') (\<lambda>technique_id.
     Inr \<lparr>rb_rollback_technique_id = json_str technique_id, rb_rollback_parameters = texts_of_json (map_of data ''rollback_parameters''),
       rb_rollback_not_possible = (case map_of data ''rollback_not_possible'' of None \<Rightarrow> False | Some b \<Rightarrow> json_truth b),
       rb_rollback_not_possible_reason = text_of_json (map_of data ''rollback_not_possible_reason'')\<rparr>)"

section \<open>Rows and aggregates\<close>

definition task_to_model :: "('g, 't, 'd, 'x) graph_engine \<Rightarrow> TaskGraph \<Rightarrow> CampaignTask \<Rightarrow> CampaignTaskModel" where
  "task_to_model en g t =
     \<lparr>cm_id = ct_task_id t, cm_graph_id = tg_graph_id g, cm_tenant_id = ge_uuid_of en (tg_tenant_id g),
      cm_task_type = TaskType_value (ct_task_type t), cm_name = ct_name t, cm_criticality = TaskCriticality_value (ct_criticality t),
      cm_timeout_seconds = ct_timeout_seconds t,
      cm_operation_template_json = map_option (\<lambda>x. ge_jsonb en (operation_template_to_json x)) (ct_operation_template t),
      cm_human_approval_config_json = map_option (\<lambda>x. ge_jsonb en (human_approval_to_json x)) (ct_human_approval_config t),
      cm_barrier_policy_json = map_option (\<lambda>x. ge_jsonb en (barrier_policy_to_json x)) (ct_barrier_policy t),
      cm_rollback_config_json = map_option (\<lambda>x. ge_jsonb en (rollback_config_to_json x)) (ct_rollback_config t),
      cm_task_group_id = ct_task_group_id t, cm_rollback_task_ref_id = ct_rollback_task_ref t\<rparr>"

definition dependency_to_model :: "TaskGraph \<Rightarrow> uuid \<times> TaskDependency \<Rightarrow> TaskDependencyModel" where
  "dependency_to_model g = (\<lambda>(i, d).
     \<lparr>dm_id = i, dm_graph_id = tg_graph_id g, dm_predecessor_id = td_predecessor_id d, dm_successor_id = td_successor_id d,
      dm_predicate = DependencyPredicate_value (cb_predicate (td_condition d)), dm_objective_ref = cb_objective_ref (td_condition d)\<rparr>)"

definition graph_to_model :: "('g, 't, 'd, 'x) graph_engine \<Rightarrow> TaskGraph \<Rightarrow> TaskGraphModel" where
  "graph_to_model en g =
     \<lparr>gm_id = tg_graph_id g, gm_tenant_id = ge_uuid_of en (tg_tenant_id g), gm_name = tg_name g, gm_description = tg_description g,
      gm_state = TaskGraphState_value (tg_state g), gm_version_major = tv_major (tg_version g), gm_version_minor = tv_minor (tg_version g),
      gm_version_patch = tv_patch (tg_version g), gm_engagement_window_seconds = tg_engagement_window_seconds g,
      gm_signed_by = tg_signed_by g, gm_signed_at = tg_signed_at g, gm_signature = tg_signature g, gm_created_at = tg_created_at g,
      gm_updated_at = tg_updated_at g, gm_row_version = tg_row_version g\<rparr>"

text \<open>The columns an UPDATE sets.\<close>

definition graph_update :: "TaskGraph \<Rightarrow> TaskGraphModel \<Rightarrow> TaskGraphModel" where
  "graph_update g m =
     m\<lparr>gm_name := tg_name g, gm_description := tg_description g, gm_state := TaskGraphState_value (tg_state g),
       gm_version_major := tv_major (tg_version g), gm_version_minor := tv_minor (tg_version g), gm_version_patch := tv_patch (tg_version g),
       gm_engagement_window_seconds := tg_engagement_window_seconds g, gm_signed_by := tg_signed_by g, gm_signed_at := tg_signed_at g,
       gm_signature := tg_signature g, gm_updated_at := tg_updated_at g, gm_row_version := tg_row_version g\<rparr>"

definition TaskType_of :: "string \<Rightarrow> PyError + TaskType" where
  "TaskType_of = enum_of ''TaskType'' TaskType_value
     [OPERATION_TASK, WAIT_TASK, HUMAN_APPROVAL_TASK, EVALUATION_CHECKPOINT, ROLLBACK_TASK, BARRIER_TASK]"

definition TaskCriticality_of :: "string \<Rightarrow> PyError + TaskCriticality" where
  "TaskCriticality_of = enum_of ''TaskCriticality'' TaskCriticality_value [OPTIONAL, REQUIRED, CRITICAL_PATH]"

definition DependencyPredicate_of :: "string \<Rightarrow> PyError + DependencyPredicate" where
  "DependencyPredicate_of = enum_of ''DependencyPredicate'' DependencyPredicate_value
     [ALWAYS_EXECUTE, EXECUTE_ON_SUCCESS, EXECUTE_ON_FAILURE, EXECUTE_IF_OBJECTIVE_MET, EXECUTE_IF_OBJECTIVE_FAILED,
      EXECUTE_IF_DETECTION_FIRED, EXECUTE_IF_DETECTION_SILENT]"

definition TaskGraphState_of :: "string \<Rightarrow> PyError + TaskGraphState" where
  "TaskGraphState_of = enum_of ''TaskGraphState'' TaskGraphState_value [DRAFT, VALIDATED, SIGNED, ACTIVE, DEPRECATED]"

definition task_to_domain :: "CampaignTaskModel \<Rightarrow> PyError + CampaignTask" where
  "task_to_domain t =
     sum_bind (CampaignTaskId (cm_id t)) (\<lambda>task_id.
     sum_bind (TaskType_of (cm_task_type t)) (\<lambda>task_type.
     sum_bind (TaskCriticality_of (cm_criticality t)) (\<lambda>criticality.
     sum_bind (if_some (cm_operation_template_json t) operation_template_from_json) (\<lambda>operation_template.
     sum_bind (if_some (cm_human_approval_config_json t) human_approval_from_json) (\<lambda>human_approval_config.
     sum_bind (if_some (cm_barrier_policy_json t) barrier_policy_from_json) (\<lambda>barrier_policy.
     sum_bind (if_some (cm_rollback_config_json t) rollback_config_from_json) (\<lambda>rollback_config.
     sum_bind (when_truthy (cm_task_group_id t) TaskGroupId) (\<lambda>task_group_id.
     sum_bind (if_some (cm_rollback_task_ref_id t) CampaignTaskId) (\<lambda>rollback_task_ref.
     Inr \<lparr>ct_task_id = task_id, ct_task_type = task_type, ct_name = cm_name t, ct_criticality = criticality,
       ct_timeout_seconds = cm_timeout_seconds t, ct_operation_template = operation_template,
       ct_human_approval_config = human_approval_config, ct_barrier_policy = barrier_policy, ct_rollback_config = rollback_config,
       ct_task_group_id = task_group_id, ct_rollback_task_ref = rollback_task_ref\<rparr>)))))))))"

definition dependency_to_domain :: "TaskDependencyModel \<Rightarrow> PyError + TaskDependency" where
  "dependency_to_domain d =
     sum_bind (CampaignTaskId (dm_predecessor_id d)) (\<lambda>predecessor_id.
     sum_bind (CampaignTaskId (dm_successor_id d)) (\<lambda>successor_id.
     sum_bind (DependencyPredicate_of (dm_predicate d)) (\<lambda>predicate.
     sum_bind (make_ConditionalBranchConfig predicate (dm_objective_ref d)) (\<lambda>condition.
     Inr \<lparr>td_predecessor_id = predecessor_id, td_successor_id = successor_id, td_condition = condition\<rparr>))))"

definition graph_to_domain :: "('g, 't, 'd, 'x) graph_engine \<Rightarrow> ('g, 't, 'd) graph_database \<Rightarrow> TaskGraphModel \<Rightarrow> PyError + TaskGraph" where
  "graph_to_domain en db row =
     sum_bind (sum_map task_to_domain (tb_select (ge_tasks en) (\<lambda>t. cm_graph_id t = gm_id row) (gb_tasks db))) (\<lambda>tasks.
     sum_bind (sum_map dependency_to_domain (tb_select (ge_dependencies en) (\<lambda>d. dm_graph_id d = gm_id row) (gb_dependencies db))) (\<lambda>dependencies.
     sum_bind (TaskGraphId (gm_id row)) (\<lambda>graph_id.
     sum_bind (TaskGraphState_of (gm_state row)) (\<lambda>state.
     sum_bind (make_TaskGraphVersion (gm_version_major row) (gm_version_minor row) (gm_version_patch row)) (\<lambda>version.
     Inr \<lparr>tg_graph_id = graph_id, tg_tenant_id = ge_from_uuid en (gm_tenant_id row), tg_name = gm_name row,
       tg_description = gm_description row, tg_state = state, tg_version = version, tg_tasks = tasks, tg_dependencies = dependencies,
       tg_engagement_window_seconds = gm_engagement_window_seconds row, tg_signed_by = gm_signed_by row, tg_signed_at = gm_signed_at row,
       tg_signature = gm_signature row, tg_created_at = gm_created_at row, tg_updated_at = gm_updated_at row,
       tg_row_version = gm_row_version row, tg_pending_events = []\<rparr>)))))"

section \<open>The repository\<close>

definition has_key :: "('g, 't, 'd, 'x) graph_engine \<Rightarrow> uuid \<Rightarrow> EntityId \<Rightarrow> TaskGraphModel \<Rightarrow> bool" where
  "has_key en graph_id tenant_id m \<longleftrightarrow> gm_id m = graph_id \<and> gm_tenant_id m = ge_uuid_of en tenant_id"

text \<open>\<open>_sync_children\<close>: the child rows of the graph are deleted and written anew. An INSERT with a primary key in use raises.\<close>

definition sync_children ::
  "('g, 't, 'd, 'x) graph_engine \<Rightarrow> (nat \<Rightarrow> uuid) \<Rightarrow> TaskGraph \<Rightarrow> ('g, 't, 'd) graph_database
     \<Rightarrow> ('x graph_error, unit, ('g, 't, 'd) graph_database) outcome" where
  "sync_children en ids g db =
     (case sum_bind (insert_all (ge_tasks en) cm_id (ge_integrity_error en) (map (task_to_model en g) (tg_tasks g))
          (tb_delete (ge_tasks en) (\<lambda>t. cm_graph_id t = tg_graph_id g) (gb_tasks db))) (\<lambda>tasks.
        sum_bind (insert_all (ge_dependencies en) dm_id (ge_integrity_error en)
          (map (dependency_to_model g) (zip (map ids [0..<length (tg_dependencies g)]) (tg_dependencies g)))
          (tb_delete (ge_dependencies en) (\<lambda>d. dm_graph_id d = tg_graph_id g) (gb_dependencies db))) (\<lambda>dependencies.
        Inr (db\<lparr>gb_tasks := tasks, gb_dependencies := dependencies\<rparr>))) of
        Inl e \<Rightarrow> Raise (ExternalFailure e) db
      | Inr db' \<Rightarrow> Return () db')"

definition add_graph ::
  "('g, 't, 'd, 'x) graph_engine \<Rightarrow> (nat \<Rightarrow> uuid) \<Rightarrow> TaskGraph \<Rightarrow> ('g, 't, 'd) graph_database
     \<Rightarrow> ('x graph_error, unit, ('g, 't, 'd) graph_database) outcome" where
  "add_graph en ids g db =
     (case insert_row (ge_graphs en) gm_id (ge_integrity_error en) (graph_to_model en g) (gb_graphs db) of
        Inl e \<Rightarrow> Raise (ExternalFailure e) db
      | Inr t \<Rightarrow>
          (case ge_lazy_load en of
             Some e \<Rightarrow> Raise (ExternalFailure e) (db\<lparr>gb_graphs := t\<rparr>)
           | None \<Rightarrow> sync_children en ids g (db\<lparr>gb_graphs := t\<rparr>)))"

definition update_row ::
  "('g, 't, 'd, 'x) graph_engine \<Rightarrow> (nat \<Rightarrow> uuid) \<Rightarrow> TaskGraph \<Rightarrow> ('g, 't, 'd) graph_database
     \<Rightarrow> ('x graph_error, unit, ('g, 't, 'd) graph_database) outcome" where
  "update_row en ids g db =
     (let key = has_key en (tg_graph_id g) (tg_tenant_id g);
          expected = (if tg_row_version g - 1 < 1 then 1 else tg_row_version g - 1);
          (updated, t) = tb_update (ge_graphs en) (\<lambda>m. key m \<and> gm_row_version m = expected) (graph_update g) (gb_graphs db);
          db' = db\<lparr>gb_graphs := t\<rparr>
      in if updated = 0 then
           (case scalar_one_or_none (ge_multiple_results en) (tb_select (ge_graphs en) key t) of
              Inl e \<Rightarrow> Raise (ExternalFailure e) db'
            | Inr actual \<Rightarrow> Raise (DomainFailure (OptimisticLockConflict (uuid_str (tg_graph_id g)) expected
                (case actual of None \<Rightarrow> 0 | Some m \<Rightarrow> gm_row_version m))) db')
         else if updated = 1 then sync_children en ids g db'
         else Raise (ExternalFailure (ge_multiple_results en)) db')"

definition save ::
  "('g, 't, 'd, 'x) graph_engine \<Rightarrow> (nat \<Rightarrow> uuid) \<Rightarrow> TaskGraph \<Rightarrow> ('g, 't, 'd) graph_database
     \<Rightarrow> ('x graph_error, unit, ('g, 't, 'd) graph_database) outcome" where
  "save en ids g db =
     (case scalar_one_or_none (ge_multiple_results en) (tb_select (ge_graphs en) (has_key en (tg_graph_id g) (tg_tenant_id g)) (gb_graphs db)) of
        Inl e \<Rightarrow> Raise (ExternalFailure e) db
      | Inr None \<Rightarrow> add_graph en ids g db
      | Inr (Some _) \<Rightarrow> update_row en ids g db)"

definition one_graph ::
  "('g, 't, 'd, 'x) graph_engine \<Rightarrow> (TaskGraphModel \<Rightarrow> bool) \<Rightarrow> ('g, 't, 'd) graph_database \<Rightarrow> 'x graph_error + TaskGraph option" where
  "one_graph en p db =
     sum_bind (map_sum ExternalFailure id (scalar_one_or_none (ge_multiple_results en) (tb_select (ge_graphs en) p (gb_graphs db)))) (\<lambda>found.
     if_some found (\<lambda>row. python (graph_to_domain en db row)))"

definition find_by_id ::
  "('g, 't, 'd, 'x) graph_engine \<Rightarrow> uuid \<Rightarrow> EntityId \<Rightarrow> ('g, 't, 'd) graph_database \<Rightarrow> 'x graph_error + TaskGraph option" where
  "find_by_id en graph_id tenant_id = one_graph en (has_key en graph_id tenant_id)"

definition find_signed_version ::
  "('g, 't, 'd, 'x) graph_engine \<Rightarrow> uuid \<Rightarrow> TaskGraphVersion \<Rightarrow> EntityId \<Rightarrow> ('g, 't, 'd) graph_database \<Rightarrow> 'x graph_error + TaskGraph option" where
  "find_signed_version en graph_id version tenant_id = one_graph en (\<lambda>m. has_key en graph_id tenant_id m \<and>
     gm_version_major m = tv_major version \<and> gm_version_minor m = tv_minor version \<and> gm_version_patch m = tv_patch version \<and>
     gm_state m \<in> set [TaskGraphState_value SIGNED, TaskGraphState_value ACTIVE, TaskGraphState_value DEPRECATED])"

definition find_active_by_tenant ::
  "('g, 't, 'd, 'x) graph_engine \<Rightarrow> EntityId \<Rightarrow> ('g, 't, 'd) graph_database \<Rightarrow> 'x graph_error + TaskGraph list" where
  "find_active_by_tenant en tenant_id db =
     python (sum_map (graph_to_domain en db) (tb_select (ge_graphs en)
       (\<lambda>m. gm_tenant_id m = ge_uuid_of en tenant_id \<and> gm_state m = TaskGraphState_value ACTIVE) (gb_graphs db)))"

definition pg_graph_repository :: "('g, 't, 'd, 'x) graph_engine \<Rightarrow> (('g, 't, 'd) graph_database, 'x) graph_repository" where
  "pg_graph_repository en = \<lparr>gr_save = save en, gr_find_by_id = find_by_id en, gr_commit = ge_commit en\<rparr>"

end
