(* ===== verification/TaskGraph_Store.thy ===== *)
theory TaskGraph_Store
  imports TaskGraph_Repository
begin

text \<open>
  What the use cases of \<open>taskgraph\<close> do to the stored graphs. \<open>graph_effect\<close> is the specification of one use case on the database:
  nothing, a new graph, or one call of the aggregate on a stored graph; \<open>perform_effect\<close> shows that every use case implements it, for
  every repository. \<open>graph_store\<close> is the contract of a repository; what it gives of whole sequences of use cases is proved in it.
\<close>

section \<open>Content\<close>

text \<open>What the database keeps of a graph: everything but the order of tasks, dependencies and parameters and the queued events.\<close>

definition template_content :: "TaskOperationTemplate \<Rightarrow> TaskOperationTemplate \<times> (string \<rightharpoonup> string)" where
  "template_content t = (t\<lparr>ot_parameters := []\<rparr>, map_of (ot_parameters t))"

definition rollback_content :: "RollbackConfiguration \<Rightarrow> RollbackConfiguration \<times> (string \<rightharpoonup> string)" where
  "rollback_content c = (c\<lparr>rb_rollback_parameters := []\<rparr>, map_of (rb_rollback_parameters c))"

definition task_content where
  "task_content t = (t\<lparr>ct_operation_template := None, ct_rollback_config := None\<rparr>,
     map_option template_content (ct_operation_template t), map_option rollback_content (ct_rollback_config t))"

definition graph_content where
  "graph_content g = (g\<lparr>tg_tasks := [], tg_dependencies := [], tg_pending_events := []\<rparr>,
     image_mset task_content (mset (tg_tasks g)), mset (tg_dependencies g))"

text \<open>What a signature seals of it.\<close>

definition sealed_content where
  "sealed_content g = (tg_graph_id g, tg_tenant_id g, image_mset task_content (mset (tg_tasks g)), mset (tg_dependencies g),
     tg_signed_by g, tg_signed_at g, tg_signature g, tg_version g)"

lemma content_fields:
  assumes "graph_content g = graph_content h"
  shows "tg_graph_id g = tg_graph_id h" "tg_tenant_id g = tg_tenant_id h" "tg_state g = tg_state h"
    "tg_row_version g = tg_row_version h" "sealed_content g = sealed_content h" "lifecycle_ok g = lifecycle_ok h" "graph_to_dto g = graph_to_dto h"
    "tg_created_at g = tg_created_at h"
proof -
  have e: "g\<lparr>tg_tasks := [], tg_dependencies := [], tg_pending_events := []\<rparr> = h\<lparr>tg_tasks := [], tg_dependencies := [], tg_pending_events := []\<rparr>"
    and m: "image_mset task_content (mset (tg_tasks g)) = image_mset task_content (mset (tg_tasks h))" "mset (tg_dependencies g) = mset (tg_dependencies h)"
    using assms by (simp_all add: graph_content_def)
  have f: "tg_graph_id g = tg_graph_id h \<and> tg_tenant_id g = tg_tenant_id h \<and> tg_state g = tg_state h \<and> tg_row_version g = tg_row_version h \<and>
    tg_signed_by g = tg_signed_by h \<and> tg_signed_at g = tg_signed_at h \<and> tg_signature g = tg_signature h \<and> tg_version g = tg_version h \<and>
    tg_engagement_window_seconds g = tg_engagement_window_seconds h \<and> tg_name g = tg_name h \<and> tg_description g = tg_description h \<and>
    tg_created_at g = tg_created_at h \<and> tg_updated_at g = tg_updated_at h"
    using e by (cases g; cases h) simp
  have l: "length (tg_tasks g) = length (tg_tasks h)" "length (tg_dependencies g) = length (tg_dependencies h)"
    using m by (metis size_image_mset size_mset)+
  show "tg_graph_id g = tg_graph_id h" "tg_tenant_id g = tg_tenant_id h" "tg_state g = tg_state h" "tg_row_version g = tg_row_version h"
    "sealed_content g = sealed_content h" "lifecycle_ok g = lifecycle_ok h" "graph_to_dto g = graph_to_dto h"
    "tg_created_at g = tg_created_at h"
    using f m l by (simp_all add: sealed_content_def lifecycle_ok_def graph_to_dto_def)
qed

lemma task_content_fields:
  "task_content t = task_content u \<Longrightarrow> ct_task_id t = ct_task_id u \<and> ct_name t = ct_name u"
  by (cases t; cases u) (simp add: task_content_def)

definition content_id where
  "content_id c = ct_task_id (fst c)"

lemma content_id: "content_id (task_content t) = ct_task_id t"
  by (simp add: content_id_def task_content_def)

lemma content_ids:
  assumes "image_mset task_content (mset ts) = image_mset task_content (mset us)"
  shows "mset (map ct_task_id ts) = mset (map ct_task_id us)"
proof -
  have "image_mset content_id (image_mset task_content (mset ts)) = image_mset content_id (image_mset task_content (mset us))"
    using assms by simp
  then show ?thesis by (simp add: multiset.map_comp comp_def content_id)
qed

lemma topology_ok_content:
  assumes "image_mset task_content (mset ts) = image_mset task_content (mset us)" and "mset ds = mset es" and "topology_ok ts ds"
  shows "topology_ok us es"
proof -
  have ids: "mset (map ct_task_id ts) = mset (map ct_task_id us)" by (rule content_ids [OF assms(1)])
  then have set: "ct_task_id ` set ts = ct_task_id ` set us" by (metis list.set_map mset_eq_setD)
  have "distinct (map ct_task_id us)" using assms(3) ids by (metis mset_eq_imp_distinct_iff topology_ok_def)
  moreover have "set es = set ds" using assms(2) by (metis mset_eq_setD)
  moreover have "task_content ` set us = task_content ` set ts" using assms(1) by (metis set_image_mset set_mset_mset)
  then have "strip (ct_name u) \<noteq> []" if "u \<in> set us" for u
    using assms(3) that task_content_fields unfolding topology_ok_def by (metis (no_types, lifting) imageE image_eqI)
  ultimately show ?thesis using assms(3) by (simp add: topology_ok_def set)
qed

lemma graph_ok_content: "graph_content g = graph_content h \<Longrightarrow> graph_ok g \<Longrightarrow> graph_ok h"
  using content_fields(6) [of g h] topology_ok_content [of "tg_tasks g" "tg_tasks h" "tg_dependencies g" "tg_dependencies h"]
  by (simp add: graph_ok_def graph_content_def)

section \<open>What can be read back\<close>

definition task_storable :: "CampaignTask \<Rightarrow> bool" where
  "task_storable t \<longleftrightarrow> uint (ct_task_id t) \<noteq> 0 \<and>
     (\<forall>o'. ct_operation_template t = Some o' \<longrightarrow> strip (ot_technique_id o') \<noteq> [] \<and> 0 < ot_timeout_seconds o') \<and>
     (\<forall>c. ct_human_approval_config t = Some c \<longrightarrow> make_HumanApprovalTaskConfig (ha_gate_timeout_seconds c) (ha_required_approver_role c)
        (ha_default_on_timeout c) (ha_timeout_justification c) = Inr c) \<and>
     (\<forall>p. ct_barrier_policy t = Some p \<longrightarrow> strip (bp_task_group_id p) \<noteq> []) \<and>
     (\<forall>i. ct_task_group_id t = Some i \<longrightarrow> strip i \<noteq> []) \<and> (\<forall>i. ct_rollback_task_ref t = Some i \<longrightarrow> uint i \<noteq> 0)"

definition condition_storable :: "ConditionalBranchConfig \<Rightarrow> bool" where
  "condition_storable c \<longleftrightarrow> make_ConditionalBranchConfig (cb_predicate c) (cb_objective_ref c) = Inr c"

definition dependency_storable :: "TaskDependency \<Rightarrow> bool" where
  "dependency_storable d \<longleftrightarrow> uint (td_predecessor_id d) \<noteq> 0 \<and> uint (td_successor_id d) \<noteq> 0 \<and> condition_storable (td_condition d)"

definition storable :: "TaskGraph \<Rightarrow> bool" where
  "storable g \<longleftrightarrow> uint (tg_graph_id g) \<noteq> 0 \<and> 0 \<le> tv_major (tg_version g) \<and> 0 \<le> tv_minor (tg_version g) \<and> 0 \<le> tv_patch (tg_version g) \<and>
     1 \<le> tg_row_version g \<and> (\<forall>t \<in> set (tg_tasks g). task_storable t) \<and> (\<forall>d \<in> set (tg_dependencies g). dependency_storable d)"

primrec call_storable :: "graph_call \<Rightarrow> bool" where
  "call_storable (Add_Task t x now) \<longleftrightarrow> task_storable x"
| "call_storable (Remove_Task t i now) \<longleftrightarrow> True"
| "call_storable (Add_Dependency t p s c now) \<longleftrightarrow> uint p \<noteq> 0 \<and> uint s \<noteq> 0 \<and> condition_storable c"
| "call_storable (Validate t now) \<longleftrightarrow> True"
| "call_storable (Sign t by sig now) \<longleftrightarrow> True"
| "call_storable (Activate t now) \<longleftrightarrow> True"
| "call_storable (Deprecate t now) \<longleftrightarrow> True"

lemma exec_graph_storable: "call_storable c \<Longrightarrow> storable g \<Longrightarrow> storable (final (exec_graph v c g))"
  by (cases c) (auto simp: graph_call_simps storable_def dependency_storable_def dest: subsetD [OF set_remove_first])

lemma create_storable: "create i t n d w now = Inr g \<Longrightarrow> uint i \<noteq> 0 \<Longrightarrow> storable g"
  by (auto simp: create_def emit_def assign_def storable_def split: if_splits)

lemma create_key: "create i t n d w now = Inr g \<Longrightarrow> tg_graph_id g = i \<and> tg_tenant_id g = t"
  by (auto simp: create_def emit_def assign_def split: if_splits)

lemma exec_graph_key:
  "tg_graph_id (final (exec_graph v c g)) = tg_graph_id g" "tg_tenant_id (final (exec_graph v c g)) = tg_tenant_id g"
  by (cases c; simp add: graph_call_simps)+

lemma exec_graph_created: "tg_created_at (final (exec_graph v c g)) = tg_created_at g"
  by (cases c) (simp_all add: graph_call_simps)

lemma python_Inr: "python v = Inr a \<longleftrightarrow> v = Inr a"
  by (cases v) (simp_all add: python_def)

lemma require_Inr: "require c e = Inr u \<longleftrightarrow> c"
  by (simp add: require_def)

lemma operation_template_storable:
  "operation_template_of cmd ty = Inr (Some x) \<Longrightarrow> strip (ot_technique_id x) \<noteq> [] \<and> 0 < ot_timeout_seconds x"
  by (auto simp: operation_template_of_def sum_bind_Inr python_Inr make_TaskOperationTemplate_def split: if_splits)

lemma human_approval_config_storable:
  "human_approval_config_of cmd ty = Inr (Some c) \<Longrightarrow> make_HumanApprovalTaskConfig (ha_gate_timeout_seconds c) (ha_required_approver_role c)
     (ha_default_on_timeout c) (ha_timeout_justification c) = Inr c"
  by (auto simp: human_approval_config_of_def sum_bind_Inr python_Inr make_HumanApprovalTaskConfig_def split: if_splits)

lemma barrier_policy_storable: "barrier_policy_of cmd ty = Inr (Some p) \<Longrightarrow> strip (bp_task_group_id p) \<noteq> []"
  by (auto simp: barrier_policy_of_def sum_bind_Inr python_Inr make_BarrierPolicy_def split: if_splits)

lemma task_id_of_Inr: "task_id_of f i = Inr j \<longleftrightarrow> uint i \<noteq> 0 \<and> j = i"
  by (auto simp: task_id_of_def as_uuid_def sum_bind_Inr python_Inr validate_uuid_def CampaignTaskId_def)

lemma rollback_task_ref_storable: "rollback_task_ref_of cmd ty = Inr (Some i) \<Longrightarrow> uint i \<noteq> 0"
  by (auto simp: rollback_task_ref_of_def sum_bind_Inr task_id_of_Inr split: if_splits option.splits)

lemma task_group_storable: "when_truthy x (\<lambda>g. python (TaskGroupId g)) = Inr (Some g) \<Longrightarrow> strip g \<noteq> []"
  by (cases x) (auto simp: when_truthy_def sum_bind_Inr python_Inr TaskGroupId_def split: if_splits)

lemma build_task_storable:
  assumes "build_task fresh cmd = (Inr t :: 'x graph_error + CampaignTask)"
  shows "task_storable t"
proof -
  from assms obtain ty cr ot ha bp rt tg i n where parts:
    "operation_template_of cmd ty = (Inr ot :: 'x graph_error + _)" "human_approval_config_of cmd ty = (Inr ha :: 'x graph_error + _)"
    "barrier_policy_of cmd ty = (Inr bp :: 'x graph_error + _)" "rollback_task_ref_of cmd ty = (Inr rt :: 'x graph_error + _)"
    "when_truthy (at_task_group_id cmd) (\<lambda>g. python (TaskGroupId g)) = (Inr tg :: 'x graph_error + _)"
    "CampaignTaskId (gf_task_id fresh) = Inr i"
    and t: "t = \<lparr>ct_task_id = i, ct_task_type = ty, ct_name = n, ct_criticality = cr, ct_timeout_seconds = at_timeout_seconds cmd,
      ct_operation_template = ot, ct_human_approval_config = ha, ct_barrier_policy = bp, ct_rollback_config = rollback_config_of cmd,
      ct_task_group_id = tg, ct_rollback_task_ref = rt\<rparr>"
    unfolding build_task_def sum_bind_Inr python_Inr by (elim exE conjE) (simp only: sum.inject, blast)
  have "uint i \<noteq> 0" using parts(6) by (simp add: CampaignTaskId_def split: if_splits)
  with parts show ?thesis
    unfolding t task_storable_def
    by (auto dest: operation_template_storable human_approval_config_storable barrier_policy_storable rollback_task_ref_storable task_group_storable)
qed

section \<open>Requests\<close>

datatype graph_request =
    Request_Graph graph_fresh CreateTaskGraphCommand
  | Request_Task graph_fresh AddTaskCommand
  | Request_Dependency graph_fresh AddDependencyCommand
  | Request_Validation graph_fresh EntityId uuid
  | Request_Signature graph_fresh SignTaskGraphCommand
  | Request_Activation graph_fresh EntityId uuid
  | Request_Deprecation graph_fresh EntityId uuid
  | Query_Graph EntityId uuid
  | Query_Order EntityId uuid "uuid option"

primrec perform :: "('s, 'p, 'x) graph_service \<Rightarrow> graph_request \<Rightarrow> ('s, 'p, 'x, unit) graph_use_case" where
  "perform sv (Request_Graph fr cmd) = ignore_result (create_task_graph sv fr cmd)"
| "perform sv (Request_Task fr cmd) = ignore_result (add_task sv fr cmd)"
| "perform sv (Request_Dependency fr cmd) = ignore_result (add_dependency sv fr cmd)"
| "perform sv (Request_Validation fr t i) = ignore_result (validate_task_graph sv fr t i)"
| "perform sv (Request_Signature fr cmd) = sign_task_graph sv fr cmd"
| "perform sv (Request_Activation fr t i) = activate_task_graph sv fr t i"
| "perform sv (Request_Deprecation fr t i) = deprecate_task_graph sv fr t i"
| "perform sv (Query_Graph t i) = ignore_result (get_task_graph sv t i)"
| "perform sv (Query_Order t i start) = ignore_result (get_execution_order sv t i start)"

primrec requester :: "graph_request \<Rightarrow> EntityId" where
  "requester (Request_Graph fr cmd) = cg_tenant_id cmd"
| "requester (Request_Task fr cmd) = at_tenant_id cmd"
| "requester (Request_Dependency fr cmd) = ad_tenant_id cmd"
| "requester (Request_Validation fr t i) = t"
| "requester (Request_Signature fr cmd) = sn_tenant_id cmd"
| "requester (Request_Activation fr t i) = t"
| "requester (Request_Deprecation fr t i) = t"
| "requester (Query_Graph t i) = t"
| "requester (Query_Order t i start) = t"

text \<open>A generated graph identifier is one that the tenant does not use yet.\<close>

primrec unused_id :: "('s, 'x) graph_repository \<Rightarrow> 's \<Rightarrow> graph_request \<Rightarrow> bool" where
  "unused_id repo d (Request_Graph fr cmd) \<longleftrightarrow> gr_find_by_id repo (gf_graph_id fr) (cg_tenant_id cmd) d = Inr None"
| "unused_id repo d (Request_Task fr cmd) \<longleftrightarrow> True"
| "unused_id repo d (Request_Dependency fr cmd) \<longleftrightarrow> True"
| "unused_id repo d (Request_Validation fr t i) \<longleftrightarrow> True"
| "unused_id repo d (Request_Signature fr cmd) \<longleftrightarrow> True"
| "unused_id repo d (Request_Activation fr t i) \<longleftrightarrow> True"
| "unused_id repo d (Request_Deprecation fr t i) \<longleftrightarrow> True"
| "unused_id repo d (Query_Graph t i) \<longleftrightarrow> True"
| "unused_id repo d (Query_Order t i start) \<longleftrightarrow> True"

text \<open>Sequences of requests of tenants with genuine identifiers, any of which may raise.\<close>

inductive graph_runs ::
  "('s, 'p, 'x) graph_service \<Rightarrow> (EntityId \<Rightarrow> bool) \<Rightarrow> ('s, 'p, TaskGraphEvent event) transaction \<Rightarrow> ('s, 'p, TaskGraphEvent event) transaction \<Rightarrow> bool"
  for sv genuine u where
  run_start: "graph_runs sv genuine u u"
| run_request: "graph_runs sv genuine u v \<Longrightarrow> genuine (requester r) \<Longrightarrow> unused_id (gs_repository sv) (tx_db v) r \<Longrightarrow>
    graph_runs sv genuine u (final (perform sv r v))"

section \<open>The effect of a use case\<close>

inductive graph_effect :: "('s, 'x) graph_repository \<Rightarrow> EntityId \<Rightarrow> 's \<Rightarrow> 's \<Rightarrow> bool" for repo t where
  effect_nothing: "graph_effect repo t d d"
| effect_create: "gr_find_by_id repo i t d = Inr None \<Longrightarrow> create i t n ds w now = Inr g \<Longrightarrow> uint i \<noteq> 0 \<Longrightarrow>
    gr_save repo ids g d = Return () d1 \<Longrightarrow> gr_commit repo d1 = Inr d' \<Longrightarrow> graph_effect repo t d d'"
| effect_call: "gr_find_by_id repo i t d = Inr (Some g) \<Longrightarrow> graph_caller c = Some t \<Longrightarrow> call_storable c \<Longrightarrow>
    exec_graph validate_graph c g = Return () g' \<Longrightarrow> gr_save repo ids g' d = Return () d1 \<Longrightarrow> gr_commit repo d1 = Inr d' \<Longrightarrow>
    graph_effect repo t d d'"

lemmas transacted_defs = and_then_def attempt_def give_def on_aggregate_def found_or_def throw_def read_session_def write_session_def
  commit_session_def on_part_def within_uow_def publish_all_def on_ports_def publish_graph_def

lemma publish_graph_db [simp]: "tx_db (final (publish_graph g w)) = tx_db w"
  by (simp add: publish_graph_def quiet_steps)

lemma attempt_db:
  "tx_db (final (and_then (attempt err v) f w)) = (case v of Inl _ \<Rightarrow> tx_db w | Inr a \<Rightarrow> tx_db (final (f a w)))"
  by (simp add: and_then_def attempt_def split: sum.splits)

lemma graph_id_of_Inr: "graph_id_of i = Inr j \<longleftrightarrow> uint i \<noteq> 0 \<and> j = i"
  by (auto simp: graph_id_of_def as_uuid_def sum_bind_Inr python_Inr validate_uuid_def TaskGraphId_def)

lemma load_graph_eq:
  "load_graph sv i t w =
     (if uint i = 0 then Raise (invalid ''graph_id'' ''must be a valid non-nil UUID'') w
      else (case gr_find_by_id (gs_repository sv) i t (tx_session w) of
        Inl e \<Rightarrow> Raise e w
      | Inr None \<Rightarrow> Raise (ApplicationFailure (ApplicationNotFoundError ''TaskGraph'' (uuid_str i))) w
      | Inr (Some g) \<Rightarrow> Return g w))"
  by (simp add: load_graph_def graph_id_of_def as_uuid_def validate_uuid_def python_def TaskGraphId_def transacted_defs
    split: sum.splits option.splits)

lemma load_graph_world:
  "load_graph sv i t w = Raise e v \<Longrightarrow> v = w"
  "load_graph sv i t w = Return g v \<Longrightarrow> v = w \<and> gr_find_by_id (gs_repository sv) i t (tx_session w) = Inr (Some g)"
  by (auto simp: load_graph_eq split: if_splits sum.splits option.splits)

definition stored :: "('s, 'x) graph_repository \<Rightarrow> TaskGraph \<Rightarrow> 's \<Rightarrow> 's \<Rightarrow> bool" where
  "stored repo g d d' \<longleftrightarrow> (\<exists>ids d1. gr_save repo ids g d = Return () d1 \<and> gr_commit repo d1 = Inr d')"

lemma save_graph_db:
  "tx_db (final (save_graph sv fr g w)) = tx_db w \<or> stored (gs_repository sv) g (tx_session w) (tx_db (final (save_graph sv fr g w)))"
  by (simp add: save_graph_def transacted_defs stored_def split: outcome.splits sum.splits) blast

lemma update_graph_db:
  fixes sv :: "('s, 'p, 'x) graph_service"
  shows "tx_db (final (update_graph sv fr i t call w)) = tx_db w \<or>
    (\<exists>g g'. gr_find_by_id (gs_repository sv) i t (tx_db w) = Inr (Some g) \<and> call g = Return () g' \<and>
      stored (gs_repository sv) g' (tx_db w) (tx_db (final (update_graph sv fr i t call w))))"
proof -
  let ?w = "w\<lparr>tx_session := tx_db w\<rparr>"
  have db: "tx_db (final (update_graph sv fr i t call w)) = tx_db (final (change_graph sv fr i t call ?w))"
    unfolding update_graph_def
    by (subst and_then_db) (simp_all add: and_then_db quiet_steps within_uow_db)
  have load: "load_graph sv i t ?w = Raise e ?w \<Longrightarrow> tx_db (final (change_graph sv fr i t call ?w)) = tx_db w" for e
    by (simp add: change_graph_def and_then_def)
  have call: "tx_db (final (change_graph sv fr i t call ?w)) =
      (case call g of Raise e _ \<Rightarrow> tx_db w | Return _ g' \<Rightarrow> tx_db (final (save_graph sv fr g' ?w)))"
    if "load_graph sv i t ?w = Return g ?w" for g
    using that by (simp add: change_graph_def and_then_def on_aggregate_def give_def split: outcome.splits)
  show ?thesis
    unfolding db
    using save_graph_db [of sv fr _ ?w] load call
    by (fastforce simp: load_graph_eq split: if_splits sum.splits option.splits outcome.splits)
qed

lemma effect_callI:
  assumes "d' = d \<or> (\<exists>g g'. gr_find_by_id repo i t d = Inr (Some g) \<and> exec_graph validate_graph c g = Return () g' \<and> stored repo g' d d')"
    and "graph_caller c = Some t" and "call_storable c"
  shows "graph_effect repo t d d'"
  using assms by (auto simp: stored_def intro: graph_effect.intros)

lemma attempt_effect:
  "(\<And>a. v = Inr a \<Longrightarrow> graph_effect repo t (tx_db w) (tx_db (final (f a w)))) \<Longrightarrow>
   graph_effect repo t (tx_db w) (tx_db (final (and_then (attempt err v) f w)))"
  by (cases v) (simp_all add: attempt_db effect_nothing)

lemma create_effect:
  assumes "gr_find_by_id (gs_repository sv) (gf_graph_id fr) (cg_tenant_id cmd) (tx_db w) = Inr None"
  shows "graph_effect (gs_repository sv) (cg_tenant_id cmd) (tx_db w) (tx_db (final (create_task_graph sv fr cmd w)))"
  unfolding create_task_graph_def
proof (intro attempt_effect)
  fix n u i g
  assume "TaskGraphId (gf_graph_id fr) = Inr i"
    and new: "create i (cg_tenant_id cmd) n (strip (cg_description cmd)) (cg_engagement_window_seconds cmd) (gf_now fr) = Inr g"
  then have i: "uint i \<noteq> 0" "i = gf_graph_id fr" by (auto simp: TaskGraphId_def split: if_splits)
  have saved: "tx_db (final (and_then (within_uow (save_graph sv fr g)) (\<lambda>_. and_then (publish_graph g) (\<lambda>_. give (graph_to_dto g))) w)) =
      tx_db (final (save_graph sv fr g (w\<lparr>tx_session := tx_db w\<rparr>)))"
    by (subst and_then_db) (simp_all add: and_then_db quiet_steps within_uow_db)
  from save_graph_db [of sv fr g "w\<lparr>tx_session := tx_db w\<rparr>"] new i assms
  show "graph_effect (gs_repository sv) (cg_tenant_id cmd) (tx_db w)
      (tx_db (final (and_then (within_uow (save_graph sv fr g)) (\<lambda>_. and_then (publish_graph g) (\<lambda>_. give (graph_to_dto g))) w)))"
    unfolding saved by (auto simp: stored_def intro: graph_effect.intros)
qed

text \<open>Publication and the writes of the security graph come after the commit.\<close>

lemma update_then_effect:
  assumes "\<And>g w. tx_db (final (f g w)) = tx_db w" and "call = exec_graph validate_graph c" and "graph_caller c = Some t" and "call_storable c"
  shows "graph_effect (gs_repository sv) t (tx_db w) (tx_db (final (and_then (update_graph sv fr i t call) f w)))"
  unfolding and_then_db [of f, OF assms(1)] using effect_callI [OF update_graph_db assms(3,4)] assms(2) by simp

lemma add_task_effect: "graph_effect (gs_repository sv) (at_tenant_id cmd) (tx_db w) (tx_db (final (add_task sv fr cmd w)))"
  unfolding add_task_def
  by (intro attempt_effect update_then_effect [where c = "Add_Task (at_tenant_id cmd) _ (gf_now fr)"])
    (auto simp: quiet_steps intro: build_task_storable)

lemma add_dependency_effect: "graph_effect (gs_repository sv) (ad_tenant_id cmd) (tx_db w) (tx_db (final (add_dependency sv fr cmd w)))"
  unfolding add_dependency_def
  by (intro attempt_effect update_then_effect [where c = "Add_Dependency (ad_tenant_id cmd) _ _ _ (gf_now fr)"])
    (auto simp: quiet_steps task_id_of_Inr condition_storable_def make_ConditionalBranchConfig_def split: if_splits)

lemma sign_effect: "graph_effect (gs_repository sv) (sn_tenant_id cmd) (tx_db w) (tx_db (final (sign_task_graph sv fr cmd w)))"
  unfolding sign_task_graph_def
  by (intro attempt_effect update_then_effect [where c = "Sign (sn_tenant_id cmd) _ _ (gf_now fr)"])
    (auto simp: quiet_steps split: option.splits)

lemma activate_effect: "graph_effect (gs_repository sv) t (tx_db w) (tx_db (final (activate_task_graph sv fr t i w)))"
  unfolding activate_task_graph_def
  by (rule update_then_effect [where c = "Activate t (gf_now fr)"]) (simp_all add: quiet_steps)

lemma deprecate_effect: "graph_effect (gs_repository sv) t (tx_db w) (tx_db (final (deprecate_task_graph sv fr t i w)))"
  unfolding deprecate_task_graph_def
  by (rule update_then_effect [where c = "Deprecate t (gf_now fr)"]) (simp_all add: quiet_steps)

lemma catching_db: "tx_db (final (catching_validation_failed m w)) = tx_db (final (m w))"
  by (simp add: catching_validation_failed_def split: outcome.splits use_case_error.splits TaskGraphDomainException.splits)

lemma validate_effect:
  fixes sv :: "('s, 'p, 'x) graph_service"
  shows "graph_effect (gs_repository sv) t (tx_db w) (tx_db (final (validate_task_graph sv fr t i w)))"
proof -
  let ?w = "w\<lparr>tx_session := tx_db w\<rparr>"
  let ?body = "\<lambda>g. and_then (on_aggregate DomainFailure (validate t validate_graph (gf_now fr) g)) (\<lambda>g.
    and_then (save_graph sv fr g) (\<lambda>_. and_then (publish_graph g) (\<lambda>_. give \<lparr>vd_is_valid = True, vd_errors = []\<rparr>)))"
  have body: "tx_db (final (?body g ?w)) = (case validate t validate_graph (gf_now fr) g of Raise _ _ \<Rightarrow> tx_db w
      | Return _ g' \<Rightarrow> tx_db (final (save_graph sv fr g' ?w)))" for g
    by (cases "validate t validate_graph (gf_now fr) g") (simp_all add: and_then_def [of "on_aggregate _ _"] on_aggregate_def and_then_db quiet_steps)
  have db: "tx_db (final (validate_task_graph sv fr t i w)) =
      tx_db (final (and_then (load_graph sv i t) (\<lambda>g. catching_validation_failed (?body g)) ?w))"
    unfolding validate_task_graph_def within_uow_db ..
  show ?thesis
  proof (cases "load_graph sv i t ?w")
    case (Raise e v)
    have "v = ?w" by (rule load_graph_world(1) [OF Raise])
    then show ?thesis unfolding db and_then_def [of "load_graph sv i t"] Raise outcome.case by (simp add: effect_nothing)
  next
    case (Return g v)
    have "v = ?w" and found: "gr_find_by_id (gs_repository sv) i t (tx_db w) = Inr (Some g)"
      using load_graph_world(2) [OF Return] by simp_all
    then show ?thesis
      unfolding db and_then_def [of "load_graph sv i t"] Return outcome.case catching_db
      using save_graph_db [of sv fr _ ?w] body
      by (intro effect_callI [where c = "Validate t (gf_now fr)"]) (auto split: outcome.splits)
  qed
qed

lemma query_db:
  "tx_db (final (get_task_graph sv t i w)) = tx_db w" "tx_db (final (get_execution_order sv t i start w)) = tx_db w"
  by (simp_all add: get_task_graph_def get_execution_order_def and_then_db quiet_steps load_graph_def within_uow_db)

text \<open>Every use case implements the specification, over every repository.\<close>

lemma perform_effect:
  assumes "unused_id (gs_repository sv) (tx_db w) r"
  shows "graph_effect (gs_repository sv) (requester r) (tx_db w) (tx_db (final (perform sv r w)))"
  using assms
  by (cases r) (simp_all add: ignore_result_final query_db effect_nothing create_effect add_task_effect add_dependency_effect
    validate_effect sign_effect activate_effect deprecate_effect)

section \<open>The contract of a repository\<close>

text \<open>\<open>view\<close> is the abstract database: a map from graph identifiers and tenants to contents.\<close>

locale graph_store =
  fixes repo :: "('s, 'x) graph_repository" and valid :: "'s \<Rightarrow> bool" and genuine :: "EntityId \<Rightarrow> bool"
    and view :: "'s \<Rightarrow> uuid \<Rightarrow> EntityId \<Rightarrow> (TaskGraph \<times> _ multiset \<times> TaskDependency multiset) option"
  assumes find: "valid d \<Longrightarrow> genuine t \<Longrightarrow> \<exists>r. gr_find_by_id repo i t d = Inr r \<and> view d i t = map_option graph_content r \<and>
      (\<forall>g. r = Some g \<longrightarrow> storable g \<and> tg_pending_events g = [] \<and> tg_graph_id g = i \<and> tg_tenant_id g = t)"
    and save: "valid d \<Longrightarrow> storable g \<Longrightarrow> genuine (tg_tenant_id g) \<Longrightarrow>
      (\<forall>h. view d (tg_graph_id g) (tg_tenant_id g) = Some (graph_content h) \<longrightarrow> tg_created_at h = tg_created_at g) \<Longrightarrow>
      gr_save repo ids g d = Return () d' \<Longrightarrow> valid d' \<and> (\<forall>i t. genuine t \<longrightarrow> view d' i t =
        (if i = tg_graph_id g \<and> t = tg_tenant_id g then Some (graph_content g) else view d i t))"
    and commit: "gr_commit repo d = Inr d' \<Longrightarrow> d' = d"
begin

lemma stored_view:
  assumes "stored repo g d d'" and "valid d" and "storable g" and "genuine (tg_tenant_id g)"
    and "\<And>h. view d (tg_graph_id g) (tg_tenant_id g) = Some (graph_content h) \<Longrightarrow> tg_created_at h = tg_created_at g"
  shows "valid d'" and "genuine t \<Longrightarrow> view d' i t = (if i = tg_graph_id g \<and> t = tg_tenant_id g then Some (graph_content g) else view d i t)"
  using assms save commit unfolding stored_def by blast+

text \<open>One use case on the abstract database.\<close>

lemma effect_cases:
  assumes "graph_effect repo t d d'" and "valid d" and "genuine t"
  obtains "d' = d"
  | i g where "valid d'" and "view d i t = None" and "graph_ok g" and "tg_row_version g = 1"
      and "\<And>j s. genuine s \<Longrightarrow> view d' j s = (if j = i \<and> s = t then Some (graph_content g) else view d j s)"
  | i g c where "valid d'" and "view d i t = Some (graph_content g)"
      and "\<And>j s. genuine s \<Longrightarrow> view d' j s = (if j = i \<and> s = t then Some (graph_content (final (exec_graph validate_graph c g))) else view d j s)"
  using assms(1)
proof cases
  case effect_nothing
  then show thesis by (rule that(1))
next
  case (effect_create i n ds w now g ids d1)
  then have g: "storable g" "tg_graph_id g = i" "tg_tenant_id g = t" "graph_ok g"
    using create_storable create_key create_ok [OF effect_create(2)] by blast+
  have "stored repo g d d'" using effect_create by (auto simp: stored_def)
  moreover have none: "view d i t = None" using find [OF assms(2,3), of i] effect_create(1) by auto
  ultimately have "valid d'" "\<And>j s. genuine s \<Longrightarrow> view d' j s = (if j = i \<and> s = t then Some (graph_content g) else view d j s)"
    using stored_view [OF _ assms(2) g(1)] g assms(3) by simp_all
  moreover have "tg_row_version g = 1" using effect_create(2) by (auto simp: create_def emit_def assign_def split: if_splits)
  moreover note none
  ultimately show thesis using that(2) g(4) by blast
next
  case (effect_call i g c g' ids d1)
  have found: "view d i t = Some (graph_content g)" "storable g" "tg_graph_id g = i" "tg_tenant_id g = t"
    using find [OF assms(2,3), of i] effect_call(1) by auto
  have g': "g' = final (exec_graph validate_graph c g)" using effect_call(4) by simp
  have key: "storable g'" "tg_graph_id g' = i" "tg_tenant_id g' = t"
    unfolding g' using found(2-4) effect_call(3) by (simp_all add: exec_graph_storable exec_graph_key)
  have "stored repo g' d d'" using effect_call by (auto simp: stored_def)
  moreover have "tg_created_at h = tg_created_at g'" if "view d (tg_graph_id g') (tg_tenant_id g') = Some (graph_content h)" for h
    using that found(1) content_fields(8) [of h g] exec_graph_created [of validate_graph c g] unfolding g' [symmetric] key(2,3) by simp
  ultimately have "valid d'" "\<And>j s. genuine s \<Longrightarrow> view d' j s = (if j = i \<and> s = t then Some (graph_content g') else view d j s)"
    using stored_view [OF _ assms(2) key(1)] key(2,3) assms(3) by simp_all
  then show thesis using that(3) found(1) g' by blast
qed

definition fine :: "'s \<Rightarrow> bool" where
  "fine d \<longleftrightarrow> valid d \<and> (\<forall>i t g. genuine t \<longrightarrow> view d i t = Some (graph_content g) \<longrightarrow> graph_ok g)"

lemma fine_update:
  assumes "fine d" and "valid d'" and "graph_ok g"
    and "\<And>j s. genuine s \<Longrightarrow> view d' j s = (if j = i \<and> s = t then Some (graph_content g) else view d j s)"
  shows "fine d'"
proof -
  have "graph_ok h" if "genuine s" "view d' j s = Some (graph_content h)" for j s h
  proof (cases "j = i \<and> s = t")
    case True
    then have "graph_content g = graph_content h" using that assms(4) by simp
    then show ?thesis using assms(3) by (rule graph_ok_content)
  next
    case False
    then have "view d j s = Some (graph_content h)" using that assms(4) [of s j] by metis
    then show ?thesis using that(1) assms(1) unfolding fine_def by blast
  qed
  then show ?thesis using assms(2) unfolding fine_def by blast
qed

lemma effect_fine:
  assumes "graph_effect repo t d d'" and "genuine t" and "fine d"
  shows "fine d'"
proof -
  have v: "valid d" using assms(3) by (simp add: fine_def)
  show ?thesis
  proof (rule effect_cases [OF assms(1) v assms(2)])
    fix i g c
    assume d: "view d i t = Some (graph_content g)" "valid d'"
      "\<And>j s. genuine s \<Longrightarrow> view d' j s = (if j = i \<and> s = t then Some (graph_content (final (exec_graph validate_graph c g))) else view d j s)"
    have "graph_ok g" using d(1) assms(2,3) unfolding fine_def by blast
    then have "graph_ok (final (exec_graph validate_graph c g))" using exec_graph_ok by (simp add: keeps_def)
    then show "fine d'" using d(3) by (rule fine_update [OF assms(3) d(2)])
  next
    fix i g
    assume d: "valid d'" "graph_ok g" "\<And>j s. genuine s \<Longrightarrow> view d' j s = (if j = i \<and> s = t then Some (graph_content g) else view d j s)"
    show "fine d'" using d(3) by (rule fine_update [OF assms(3) d(1,2)])
  qed (use assms(3) in simp)
qed

lemma sealed_step:
  assumes "graph_content g = graph_content h" and "tg_state g \<in> IMMUTABLE_STATES"
  shows "sealed_content (final (exec_graph v c h)) = sealed_content g" and "tg_state (final (exec_graph v c h)) \<in> IMMUTABLE_STATES"
proof -
  have h: "tg_state h \<in> IMMUTABLE_STATES" "sealed_content g = sealed_content h"
    using assms content_fields [OF assms(1)] by simp_all
  from exec_graph_sealed [OF h(1), of v c] exec_graph_key [of v c h]
  show "sealed_content (final (exec_graph v c h)) = sealed_content g"
    unfolding h(2) by (simp add: sealed_content_def sealed_part_def topology_def)
  show "tg_state (final (exec_graph v c h)) \<in> IMMUTABLE_STATES" by (rule exec_graph_sealed(2) [OF h(1)])
qed

lemma effect_sealed:
  assumes "graph_effect repo t d d'" and "genuine t" and "valid d" and "genuine s"
    and "view d i s = Some (graph_content g)" and "tg_state g \<in> IMMUTABLE_STATES"
  shows "\<exists>g'. view d' i s = Some (graph_content g') \<and> sealed_content g' = sealed_content g \<and> tg_state g' \<in> IMMUTABLE_STATES"
  using assms(1,3,2)
proof (rule effect_cases)
  fix j h c
  assume h: "view d j t = Some (graph_content h)"
    and d: "\<And>k r. genuine r \<Longrightarrow> view d' k r = (if k = j \<and> r = t then Some (graph_content (final (exec_graph validate_graph c h))) else view d k r)"
  show ?thesis
  proof (cases "i = j \<and> s = t")
    case True
    then have "graph_content g = graph_content h" using h assms(5) by simp
    from sealed_step [OF this assms(6)] True d [OF assms(4)] show ?thesis by auto
  qed (use d [OF assms(4)] assms(5,6) in auto)
qed (use assms(4-6) in auto)

lemma effect_foreign:
  assumes "graph_effect repo t d d'" and "genuine t" and "valid d" and "genuine s" and "s \<noteq> t"
  shows "view d' i s = view d i s"
  using assms(1,3,2) by (rule effect_cases) (use assms(4,5) in auto)

section \<open>Sequences of use cases\<close>

lemma runs_fine: "graph_runs sv genuine u v \<Longrightarrow> gs_repository sv = repo \<Longrightarrow> fine (tx_db u) \<Longrightarrow> fine (tx_db v)"
  by (induction rule: graph_runs.induct) (auto dest: perform_effect intro: effect_fine)

lemma runs_sealed:
  assumes "graph_runs sv genuine u v" and "gs_repository sv = repo" and "fine (tx_db u)" and "genuine s"
    and "view (tx_db u) i s = Some (graph_content g)" and "tg_state g \<in> IMMUTABLE_STATES"
  shows "\<exists>g'. view (tx_db v) i s = Some (graph_content g') \<and> sealed_content g' = sealed_content g \<and> tg_state g' \<in> IMMUTABLE_STATES"
  using assms(1)
proof (induction rule: graph_runs.induct)
  case run_start
  show ?case using assms(5,6) by blast
next
  case (run_request v r)
  have "valid (tx_db v)" using runs_fine [OF run_request.hyps(1) assms(2,3)] by (simp add: fine_def)
  moreover have "graph_effect repo (requester r) (tx_db v) (tx_db (final (perform sv r v)))"
    using perform_effect [OF run_request.hyps(3)] assms(2) by simp
  ultimately show ?case using run_request.IH run_request.hyps(2) effect_sealed assms(4) by metis
qed

lemma runs_foreign:
  assumes "graph_runs sv (\<lambda>t. genuine t \<and> t \<noteq> s) u v" and "gs_repository sv = repo" and "valid (tx_db u)" and "genuine s"
  shows "valid (tx_db v) \<and> view (tx_db v) i s = view (tx_db u) i s"
  using assms(1)
proof (induction rule: graph_runs.induct)
  case (run_request v r)
  have effect: "graph_effect repo (requester r) (tx_db v) (tx_db (final (perform sv r v)))"
    using perform_effect [OF run_request.hyps(3)] assms(2) by simp
  have "valid (tx_db (final (perform sv r v)))"
    by (rule effect_cases [OF effect]) (use run_request in auto)
  moreover have "view (tx_db (final (perform sv r v))) i s = view (tx_db v) i s"
    by (rule effect_foreign [OF effect]) (use run_request assms(4) in auto)
  ultimately show ?case using run_request.IH by simp
qed (use assms(3) in simp)

end

end
