(* ===== verification/TaskGraph_Storage.thy ===== *)
theory TaskGraph_Storage
  imports TaskGraph_Store
begin

text \<open>
  The PostgreSQL repository of task graphs satisfies the contract \<open>graph_store\<close>, over every engine with \<open>graph_engine_laws\<close>: the rows of a
  graph are read back as a graph with the same content, and a save changes the stored content of its own graph only.
\<close>

section \<open>JSON columns\<close>

lemma map_of_texts: "map_of (map (\<lambda>(k, v). (k, json_str v)) kvs) = map_option json_str \<circ> map_of kvs"
  by (induction kvs) auto

lemma texts_back:
  assumes "json_same (JObject (texts_to_json ps)) (JObject qs)"
  shows "map_of (texts_of_json (Some (JObject qs))) = map_of ps"
proof -
  have "map_of qs = map_of (texts_to_json ps)"
    by (rule json_same_flat [OF assms]) (auto simp: texts_to_json_def json_scalar_def)
  moreover have "map_option json_str (map_of (texts_to_json ps) k) = map_of ps k" for k
    unfolding texts_to_json_def by (induction ps) (auto simp: json_str_def)
  ultimately show ?thesis by (simp add: texts_of_json_def map_of_texts comp_def)
qed

lemma template_back:
  assumes "json_same (JObject (operation_template_to_json x)) (JObject js)" and "strip (ot_technique_id x) \<noteq> []" and "0 < ot_timeout_seconds x"
  shows "\<exists>y. operation_template_from_json js = Inr y \<and> template_content y = template_content x \<and>
    ot_technique_id y = ot_technique_id x \<and> ot_timeout_seconds y = ot_timeout_seconds x"
proof -
  obtain qs where "map_of js ''parameters'' = Some (JObject qs)" "json_same (JObject (texts_to_json (ot_parameters x))) (JObject qs)"
    using json_same_get_object [OF assms(1), of "''parameters''"] by (auto simp: operation_template_to_json_def)
  moreover have "map_of js ''technique_id'' = Some (JStr (ot_technique_id x))" "map_of js ''technique_name'' = Some (JStr (ot_technique_name x))"
    "map_of js ''timeout_seconds'' = Some (JInt (ot_timeout_seconds x))"
    using json_same_get [OF assms(1)] by (simp_all add: operation_template_to_json_def json_scalar_def)
  ultimately show ?thesis
    using assms(2,3)
    by (simp add: operation_template_from_json_def json_key_def json_int_def json_str_def make_TaskOperationTemplate_def template_content_def texts_back)
qed

lemma rollback_back:
  assumes "json_same (JObject (rollback_config_to_json x)) (JObject js)"
  shows "\<exists>y. rollback_config_from_json js = Inr y \<and> rollback_content y = rollback_content x"
proof -
  obtain qs where "map_of js ''rollback_parameters'' = Some (JObject qs)" "json_same (JObject (texts_to_json (rb_rollback_parameters x))) (JObject qs)"
    using json_same_get_object [OF assms(1), of "''rollback_parameters''"] by (auto simp: rollback_config_to_json_def)
  moreover have "map_of js ''rollback_technique_id'' = Some (JStr (rb_rollback_technique_id x))"
    "map_of js ''rollback_not_possible'' = Some (JBool (rb_rollback_not_possible x))"
    "map_of js ''rollback_not_possible_reason'' = Some (json_of_text (rb_rollback_not_possible_reason x))"
    using json_same_get [OF assms(1)] by (simp_all add: rollback_config_to_json_def json_scalar_def json_of_text_def split: option.splits)
  ultimately show ?thesis
    by (simp add: rollback_config_from_json_def json_key_def json_str_def rollback_content_def texts_back json_of_text_def text_of_json_def split: option.splits)
qed

lemma human_approval_back:
  assumes "json_same (JObject (human_approval_to_json c)) (JObject js)"
    and "make_HumanApprovalTaskConfig (ha_gate_timeout_seconds c) (ha_required_approver_role c) (ha_default_on_timeout c) (ha_timeout_justification c) = Inr c"
  shows "human_approval_from_json js = Inr c"
proof -
  have "map_of js ''gate_timeout_seconds'' = Some (JInt (ha_gate_timeout_seconds c))" "map_of js ''required_approver_role'' = Some (JStr (ha_required_approver_role c))"
    "map_of js ''default_on_timeout'' = Some (JStr (ha_default_on_timeout c))"
    "map_of js ''timeout_justification'' = Some (json_of_text (ha_timeout_justification c))"
    using json_same_get [OF assms(1)] by (simp_all add: human_approval_to_json_def json_scalar_def json_of_text_def split: option.splits)
  moreover have "text_of_json (Some (json_of_text x)) = x" for x by (simp add: text_of_json_def json_of_text_def split: option.splits)
  ultimately show ?thesis using assms(2) by (simp add: human_approval_from_json_def json_key_def json_int_def json_str_def)
qed

lemma barrier_back:
  assumes "json_same (JObject (barrier_policy_to_json p)) (JObject js)" and "strip (bp_task_group_id p) \<noteq> []"
  shows "barrier_policy_from_json js = Inr p"
proof -
  have "map_of js ''task_group_id'' = Some (JStr (bp_task_group_id p))"
    using json_same_get [OF assms(1)] by (simp add: barrier_policy_to_json_def json_scalar_def)
  then show ?thesis using assms(2) by (simp add: barrier_policy_from_json_def json_key_def json_str_def make_BarrierPolicy_def)
qed

section \<open>Rows\<close>

lemma graph_enums [simp]:
  "TaskType_of (TaskType_value ty) = Inr ty" "TaskCriticality_of (TaskCriticality_value cr) = Inr cr"
  "DependencyPredicate_of (DependencyPredicate_value dp) = Inr dp" "TaskGraphState_of (TaskGraphState_value gs) = Inr gs"
  subgoal by (cases ty) (simp_all add: TaskType_of_def enum_of_def)
  subgoal by (cases cr) (simp_all add: TaskCriticality_of_def enum_of_def)
  subgoal by (cases dp) (simp_all add: DependencyPredicate_of_def enum_of_def)
  subgoal by (cases gs) (simp_all add: TaskGraphState_of_def enum_of_def)
  done

lemma task_back:
  assumes json: "\<And>kvs. json_same (JObject kvs) (JObject (ge_jsonb en kvs))" and "task_storable t"
  shows "\<exists>u. task_to_domain (task_to_model en g t) = Inr u \<and> task_content u = task_content t \<and> task_storable u"
proof -
  obtain ot where ot: "if_some (map_option (\<lambda>x. ge_jsonb en (operation_template_to_json x)) (ct_operation_template t)) operation_template_from_json = Inr ot"
    "map_option template_content ot = map_option template_content (ct_operation_template t)"
    "\<forall>x. ot = Some x \<longrightarrow> strip (ot_technique_id x) \<noteq> [] \<and> 0 < ot_timeout_seconds x"
  proof (cases "ct_operation_template t")
    case (Some x)
    with assms(2) template_back [OF json, of x] obtain y where "operation_template_from_json (ge_jsonb en (operation_template_to_json x)) = Inr y"
      "template_content y = template_content x" "ot_technique_id y = ot_technique_id x" "ot_timeout_seconds y = ot_timeout_seconds x"
      "strip (ot_technique_id x) \<noteq> []" "0 < ot_timeout_seconds x" by (auto simp: task_storable_def)
    then show thesis using Some by (intro that [of "Some y"]) simp_all
  qed simp
  obtain rc where rc: "if_some (map_option (\<lambda>x. ge_jsonb en (rollback_config_to_json x)) (ct_rollback_config t)) rollback_config_from_json = Inr rc"
    "map_option rollback_content rc = map_option rollback_content (ct_rollback_config t)"
  proof (cases "ct_rollback_config t")
    case (Some x)
    with rollback_back [OF json, of x] obtain y where "rollback_config_from_json (ge_jsonb en (rollback_config_to_json x)) = Inr y"
      "rollback_content y = rollback_content x" by blast
    then show thesis using Some by (intro that [of "Some y"]) simp_all
  qed simp
  have ha: "if_some (map_option (\<lambda>x. ge_jsonb en (human_approval_to_json x)) (ct_human_approval_config t)) human_approval_from_json = Inr (ct_human_approval_config t)"
    using assms(2) human_approval_back [OF json] by (cases "ct_human_approval_config t") (simp_all add: task_storable_def)
  have bp: "if_some (map_option (\<lambda>x. ge_jsonb en (barrier_policy_to_json x)) (ct_barrier_policy t)) barrier_policy_from_json = Inr (ct_barrier_policy t)"
    using assms(2) barrier_back [OF json] by (cases "ct_barrier_policy t") (simp_all add: task_storable_def)
  have tg: "when_truthy (ct_task_group_id t) TaskGroupId = Inr (ct_task_group_id t)"
    using assms(2) by (cases "ct_task_group_id t") (auto simp: task_storable_def when_truthy_def truthy_def TaskGroupId_def)
  have rt: "if_some (ct_rollback_task_ref t) CampaignTaskId = Inr (ct_rollback_task_ref t)"
    using assms(2) by (cases "ct_rollback_task_ref t") (simp_all add: task_storable_def CampaignTaskId_def)
  have id: "CampaignTaskId (ct_task_id t) = Inr (ct_task_id t)" using assms(2) by (simp add: task_storable_def CampaignTaskId_def)
  let ?u = "t\<lparr>ct_operation_template := ot, ct_rollback_config := rc\<rparr>"
  have "task_to_domain (task_to_model en g t) = Inr ?u"
    by (simp add: task_to_domain_def task_to_model_def ot(1) rc(1) ha bp tg rt id)
  moreover have "task_content ?u = task_content t" using ot(2) rc(2) by (simp add: task_content_def)
  moreover have "task_storable ?u" using assms(2) ot(3) by (simp add: task_storable_def)
  ultimately show ?thesis by blast
qed

lemma dependency_back:
  "dependency_storable d \<Longrightarrow> dependency_to_domain (dependency_to_model g (i, d)) = Inr d"
  by (simp add: dependency_to_domain_def dependency_to_model_def dependency_storable_def condition_storable_def CampaignTaskId_def)

section \<open>The rows of a graph\<close>

text \<open>Row \<open>m\<close> and its child rows are those of \<open>g\<close>. The identifiers of the dependency rows do not matter.\<close>

definition rows_of :: "('g, 't, 'd, 'x) graph_engine \<Rightarrow> ('g, 't, 'd) graph_database \<Rightarrow> TaskGraph \<Rightarrow> TaskGraphModel \<Rightarrow> bool" where
  "rows_of en db g m \<longleftrightarrow> m = graph_to_model en g \<and> ge_from_uuid en (ge_uuid_of en (tg_tenant_id g)) = tg_tenant_id g \<and>
     {#r \<in># rows (ge_tasks en) (gb_tasks db). cm_graph_id r = tg_graph_id g#} = image_mset (task_to_model en g) (mset (tg_tasks g)) \<and>
     image_mset (\<lambda>r. r\<lparr>dm_id := 0\<rparr>) {#r \<in># rows (ge_dependencies en) (gb_dependencies db). dm_graph_id r = tg_graph_id g#} =
       image_mset (\<lambda>d. dependency_to_model g (0, d)) (mset (tg_dependencies g))"

definition graphs_valid :: "('g, 't, 'd, 'x) graph_engine \<Rightarrow> ('g, 't, 'd) graph_database \<Rightarrow> bool" where
  "graphs_valid en db \<longleftrightarrow> (\<forall>i. size {#m \<in># rows (ge_graphs en) (gb_graphs db). gm_id m = i#} \<le> 1) \<and>
     (\<forall>m \<in># rows (ge_graphs en) (gb_graphs db). \<exists>g. storable g \<and> rows_of en db g m)"

definition graphs_view where
  "graphs_view en db i t = (case find_by_id en i t db of Inr (Some g) \<Rightarrow> Some (graph_content g) | _ \<Rightarrow> None)"

definition canonical_tenant :: "('g, 't, 'd, 'x) graph_engine \<Rightarrow> EntityId \<Rightarrow> bool" where
  "canonical_tenant en t \<longleftrightarrow> ge_from_uuid en (ge_uuid_of en t) = t"

locale pg_graph_engine =
  fixes en :: "('g, 't, 'd, 'x) graph_engine"
  assumes laws: "graph_engine_laws en"
begin

lemma engine:
  "table_laws (ge_graphs en)" "table_laws (ge_tasks en)" "table_laws (ge_dependencies en)" "ge_uuid_of en (ge_from_uuid en u) = u"
  "json_same (JObject kvs) (JObject (ge_jsonb en kvs))" "ge_commit en d = Inr d' \<Longrightarrow> d' = d"
  using laws by (simp_all add: graph_engine_laws_def)

lemma tasks_back:
  assumes "rows_of en db g m" and "storable g"
  shows "\<exists>ts. sum_map task_to_domain (tb_select (ge_tasks en) (\<lambda>t. cm_graph_id t = tg_graph_id g) (gb_tasks db)) = Inr ts \<and>
    image_mset task_content (mset ts) = image_mset task_content (mset (tg_tasks g)) \<and> (\<forall>t \<in> set ts. task_storable t)"
proof -
  have "mset (tb_select (ge_tasks en) (\<lambda>t. cm_graph_id t = tg_graph_id g) (gb_tasks db)) = image_mset (task_to_model en g) (mset (tg_tasks g))"
    using assms(1) by (simp add: table_select [OF engine(2)] rows_of_def)
  from mset_map_perm [OF this] obtain zs where zs: "mset zs = mset (tg_tasks g)"
    "tb_select (ge_tasks en) (\<lambda>t. cm_graph_id t = tg_graph_id g) (gb_tasks db) = map (task_to_model en g) zs" by blast
  have ok: "\<forall>z \<in> set zs. task_storable z" using assms(2) zs(1) by (metis mset_eq_setD storable_def)
  have "\<exists>ts. sum_map (\<lambda>z. task_to_domain (task_to_model en g z)) zs = Inr ts \<and> list_all2 (\<lambda>z u. task_content u = task_content z \<and> task_storable u) zs ts"
    by (rule sum_map_exists) (use ok task_back [OF engine(5)] in blast)
  then obtain ts where ts: "sum_map task_to_domain (map (task_to_model en g) zs) = Inr ts"
    "list_all2 (\<lambda>z u. task_content u = task_content z \<and> task_storable u) zs ts" by (auto simp: sum_map_Inr list_all2_map1)
  have "map task_content ts = map task_content zs" using ts(2) by (induction rule: list_all2_induct) simp_all
  then have "image_mset task_content (mset ts) = image_mset task_content (mset zs)" by (metis mset_map)
  moreover have "\<forall>t \<in> set ts. task_storable t" using ts(2) by (induction rule: list_all2_induct) simp_all
  ultimately show ?thesis using ts(1) zs by simp
qed

lemma dependencies_back:
  assumes "rows_of en db g m" and "storable g"
  shows "\<exists>ds. sum_map dependency_to_domain (tb_select (ge_dependencies en) (\<lambda>d. dm_graph_id d = tg_graph_id g) (gb_dependencies db)) = Inr ds \<and>
    mset ds = mset (tg_dependencies g)"
proof -
  let ?rs = "tb_select (ge_dependencies en) (\<lambda>d. dm_graph_id d = tg_graph_id g) (gb_dependencies db)"
  have "mset (map (\<lambda>r. r\<lparr>dm_id := 0\<rparr>) ?rs) = image_mset (\<lambda>d. dependency_to_model g (0, d)) (mset (tg_dependencies g))"
    using assms(1) by (simp add: table_select [OF engine(3)] rows_of_def)
  from mset_map_perm [OF this] obtain zs where zs: "mset zs = mset (tg_dependencies g)"
    "map (\<lambda>r. r\<lparr>dm_id := 0\<rparr>) ?rs = map (\<lambda>d. dependency_to_model g (0, d)) zs" by blast
  have "\<forall>z \<in> set zs. dependency_storable z" using assms(2) zs(1) by (metis mset_eq_setD storable_def)
  then have "list_all2 (\<lambda>r z. dependency_to_domain r = Inr z) (map (\<lambda>d. dependency_to_model g (0, d)) zs) zs"
    by (induction zs) (simp_all add: dependency_back)
  then have "list_all2 (\<lambda>r z. dependency_to_domain (r\<lparr>dm_id := 0\<rparr>) = Inr z) ?rs zs"
    unfolding zs(2) [symmetric] list_all2_map1 .
  then have "sum_map dependency_to_domain ?rs = Inr zs" by (simp add: sum_map_Inr dependency_to_domain_def)
  with zs(1) show ?thesis by blast
qed

lemma graph_back:
  assumes "rows_of en db g m" and "storable g"
  shows "\<exists>h. graph_to_domain en db m = Inr h \<and> graph_content h = graph_content g \<and> storable h \<and> tg_pending_events h = []"
proof -
  obtain ts where ts: "sum_map task_to_domain (tb_select (ge_tasks en) (\<lambda>t. cm_graph_id t = tg_graph_id g) (gb_tasks db)) = Inr ts"
    "image_mset task_content (mset ts) = image_mset task_content (mset (tg_tasks g))" "\<forall>t \<in> set ts. task_storable t"
    using tasks_back [OF assms] by blast
  obtain ds where ds: "sum_map dependency_to_domain (tb_select (ge_dependencies en) (\<lambda>d. dm_graph_id d = tg_graph_id g) (gb_dependencies db)) = Inr ds"
    "mset ds = mset (tg_dependencies g)" using dependencies_back [OF assms] by blast
  have m: "m = graph_to_model en g" "ge_from_uuid en (ge_uuid_of en (tg_tenant_id g)) = tg_tenant_id g" using assms(1) by (simp_all add: rows_of_def)
  let ?h = "g\<lparr>tg_tasks := ts, tg_dependencies := ds, tg_pending_events := []\<rparr>"
  have ok: "TaskGraphId (tg_graph_id g) = Inr (tg_graph_id g)"
    "make_TaskGraphVersion (tv_major (tg_version g)) (tv_minor (tg_version g)) (tv_patch (tg_version g)) = Inr (tg_version g)"
    using assms(2) by (simp_all add: storable_def TaskGraphId_def make_TaskGraphVersion_def)
  have "graph_to_domain en db m = Inr ?h"
    using m(2) by (simp add: graph_to_domain_def m(1) graph_to_model_def ts(1) ds(1) ok)
  moreover have "graph_content ?h = graph_content g" using ts(2) ds(2) by (simp add: graph_content_def)
  moreover have "storable ?h" using assms(2) ts(3) mset_eq_setD [OF ds(2)] by (simp add: storable_def)
  ultimately show ?thesis by (intro exI [of _ ?h]) simp
qed

lemma select_key:
  assumes "graphs_valid en db"
  shows "tb_select (ge_graphs en) (has_key en i t) (gb_graphs db) = [] \<or>
    (\<exists>m. tb_select (ge_graphs en) (has_key en i t) (gb_graphs db) = [m] \<and> m \<in># rows (ge_graphs en) (gb_graphs db) \<and> has_key en i t m)"
proof -
  let ?s = "tb_select (ge_graphs en) (has_key en i t) (gb_graphs db)"
  have "{#m \<in># rows (ge_graphs en) (gb_graphs db). has_key en i t m#} \<subseteq># {#m \<in># rows (ge_graphs en) (gb_graphs db). gm_id m = i#}"
    unfolding has_key_def filter_filter_mset [symmetric] conj_commute [of "gm_id _ = i"]
    by (rule multiset_filter_mono [OF multiset_filter_subset])
  then have "size (mset ?s) \<le> 1"
    unfolding table_select [OF engine(1)] by (rule order_trans [OF size_mset_mono]) (use assms in \<open>simp add: graphs_valid_def\<close>)
  then consider "?s = []" | m where "?s = [m]" by (cases ?s) auto
  then show ?thesis
  proof cases
    case (2 m)
    then have "m \<in> set ?s" by simp
    then show ?thesis using 2 unfolding select_set [OF engine(1)] by blast
  qed simp
qed

lemma key_tenant:
  assumes "canonical_tenant en t" and "canonical_tenant en s" and "ge_uuid_of en t = ge_uuid_of en s"
  shows "t = s"
  using assms unfolding canonical_tenant_def by metis

lemma find_of_rows:
  assumes "tb_select (ge_graphs en) (has_key en i t) (gb_graphs db) = [m]" and "rows_of en db g m" and "storable g"
  shows "\<exists>h. find_by_id en i t db = Inr (Some h) \<and> graph_content h = graph_content g \<and> storable h \<and> tg_pending_events h = []"
  using graph_back [OF assms(2,3)] assms(1)
  by (auto simp: find_by_id_def one_graph_def scalar_one_or_none_def python_def)

lemma rows_key:
  assumes "rows_of en db g m" and "has_key en i t m" and "canonical_tenant en t"
  shows "tg_graph_id g = i" and "tg_tenant_id g = t"
proof -
  have "gm_id m = tg_graph_id g" "gm_tenant_id m = ge_uuid_of en (tg_tenant_id g)" "canonical_tenant en (tg_tenant_id g)"
    using assms(1) by (simp_all add: rows_of_def graph_to_model_def canonical_tenant_def)
  with assms(2) key_tenant [OF _ assms(3)] show "tg_graph_id g = i" "tg_tenant_id g = t" unfolding has_key_def by simp_all
qed

lemma find_law:
  assumes "graphs_valid en db" and "canonical_tenant en t"
  shows "\<exists>r. find_by_id en i t db = Inr r \<and> graphs_view en db i t = map_option graph_content r \<and>
      (\<forall>g. r = Some g \<longrightarrow> storable g \<and> tg_pending_events g = [] \<and> tg_graph_id g = i \<and> tg_tenant_id g = t)"
  using select_key [OF assms(1), of i t]
proof (elim disjE exE conjE)
  assume "tb_select (ge_graphs en) (has_key en i t) (gb_graphs db) = []"
  then have "find_by_id en i t db = Inr None" by (simp add: find_by_id_def one_graph_def scalar_one_or_none_def)
  then show ?thesis by (simp add: graphs_view_def)
next
  fix m
  assume m: "tb_select (ge_graphs en) (has_key en i t) (gb_graphs db) = [m]" "m \<in># rows (ge_graphs en) (gb_graphs db)" "has_key en i t m"
  from m(2) assms(1) obtain g where g: "storable g" "rows_of en db g m" by (auto simp: graphs_valid_def)
  from find_of_rows [OF m(1) g(2,1)] obtain h where h: "find_by_id en i t db = Inr (Some h)" "graph_content h = graph_content g"
    "storable h" "tg_pending_events h = []" by blast
  moreover have "tg_graph_id h = i" "tg_tenant_id h = t" using content_fields(1,2) [OF h(2)] rows_key [OF g(2) m(3) assms(2)] by simp_all
  ultimately show ?thesis by (simp add: graphs_view_def)
qed

section \<open>Saving\<close>

lemma sync_rows:
  assumes "sync_children en ids g db = Return () db'"
  shows "gb_graphs db' = gb_graphs db"
    and "rows (ge_tasks en) (gb_tasks db') = {#r \<in># rows (ge_tasks en) (gb_tasks db). cm_graph_id r \<noteq> tg_graph_id g#} + mset (map (task_to_model en g) (tg_tasks g))"
    and "rows (ge_dependencies en) (gb_dependencies db') = {#r \<in># rows (ge_dependencies en) (gb_dependencies db). dm_graph_id r \<noteq> tg_graph_id g#} +
      mset (map (dependency_to_model g) (zip (map ids [0..<length (tg_dependencies g)]) (tg_dependencies g)))"
proof -
  from assms obtain ts ds where
    t: "insert_all (ge_tasks en) cm_id (ge_integrity_error en) (map (task_to_model en g) (tg_tasks g))
          (tb_delete (ge_tasks en) (\<lambda>t. cm_graph_id t = tg_graph_id g) (gb_tasks db)) = Inr ts"
    and d: "insert_all (ge_dependencies en) dm_id (ge_integrity_error en)
          (map (dependency_to_model g) (zip (map ids [0..<length (tg_dependencies g)]) (tg_dependencies g)))
          (tb_delete (ge_dependencies en) (\<lambda>d. dm_graph_id d = tg_graph_id g) (gb_dependencies db)) = Inr ds"
    and db': "db' = db\<lparr>gb_tasks := ts, gb_dependencies := ds\<rparr>"
    by (auto simp: sync_children_def sum_bind_def split: sum.splits)
  show "gb_graphs db' = gb_graphs db" by (simp add: db')
  show "rows (ge_tasks en) (gb_tasks db') = {#r \<in># rows (ge_tasks en) (gb_tasks db). cm_graph_id r \<noteq> tg_graph_id g#} + mset (map (task_to_model en g) (tg_tasks g))"
    using insert_all_Inr [OF engine(2) t] by (simp add: db' table_delete [OF engine(2)])
  show "rows (ge_dependencies en) (gb_dependencies db') = {#r \<in># rows (ge_dependencies en) (gb_dependencies db). dm_graph_id r \<noteq> tg_graph_id g#} +
      mset (map (dependency_to_model g) (zip (map ids [0..<length (tg_dependencies g)]) (tg_dependencies g)))"
    using insert_all_Inr [OF engine(3) d] by (simp add: db' table_delete [OF engine(3)])
qed

lemma sync_children_rows:
  assumes "sync_children en ids g db = Return () db'"
  shows "{#r \<in># rows (ge_tasks en) (gb_tasks db'). cm_graph_id r = i#} =
      (if i = tg_graph_id g then image_mset (task_to_model en g) (mset (tg_tasks g)) else {#r \<in># rows (ge_tasks en) (gb_tasks db). cm_graph_id r = i#})"
    and "{#r \<in># rows (ge_dependencies en) (gb_dependencies db'). dm_graph_id r = i#} =
      (if i = tg_graph_id g then mset (map (dependency_to_model g) (zip (map ids [0..<length (tg_dependencies g)]) (tg_dependencies g)))
       else {#r \<in># rows (ge_dependencies en) (gb_dependencies db). dm_graph_id r = i#})"
  unfolding sync_rows(2,3) [OF assms] mset_map [symmetric]
  by (rule keyed_replace; auto simp: task_to_model_def dependency_to_model_def)+

lemma sync_own:
  assumes "sync_children en ids g db = Return () db'" and "canonical_tenant en (tg_tenant_id g)"
  shows "rows_of en db' g (graph_to_model en g)"
proof -
  let ?deps = "map (dependency_to_model g) (zip (map ids [0..<length (tg_dependencies g)]) (tg_dependencies g))"
  have "map (\<lambda>r. r\<lparr>dm_id := 0\<rparr>) ?deps = map (\<lambda>d. dependency_to_model g (0, d)) (tg_dependencies g)"
    by (rule nth_equalityI) (simp_all add: dependency_to_model_def)
  then have "image_mset (\<lambda>r. r\<lparr>dm_id := 0\<rparr>) (mset ?deps) = image_mset (\<lambda>d. dependency_to_model g (0, d)) (mset (tg_dependencies g))"
    by (metis mset_map)
  then show ?thesis
    unfolding rows_of_def sync_children_rows [OF assms(1)] if_P [OF refl] using assms(2) by (simp add: canonical_tenant_def)
qed

lemma sync_other:
  assumes "sync_children en ids g db = Return () db'" and "rows_of en db h m" and "tg_graph_id h \<noteq> tg_graph_id g"
  shows "rows_of en db' h m"
  using assms(2) unfolding rows_of_def sync_children_rows [OF assms(1)] if_not_P [OF assms(3)] .

lemma other_rows:
  assumes "graphs_valid en db" and "m \<in># rows (ge_graphs en) (gb_graphs db)" and "gm_id m \<noteq> tg_graph_id g"
    and "gb_tasks db' = gb_tasks db" and "gb_dependencies db' = gb_dependencies db" and "sync_children en ids g db' = Return () db''"
  shows "\<exists>h. storable h \<and> rows_of en db h m \<and> rows_of en db'' h m"
proof -
  from assms(1,2) obtain h where h: "storable h" "rows_of en db h m" by (auto simp: graphs_valid_def)
  then have "rows_of en db' h m" using assms(4,5) by (simp add: rows_of_def)
  moreover have "tg_graph_id h \<noteq> tg_graph_id g" using h(2) assms(3) by (auto simp: rows_of_def graph_to_model_def)
  ultimately show ?thesis using sync_other [OF assms(6)] h by blast
qed

text \<open>Both branches of \<open>save\<close> leave the rows of the other graphs and one row of \<open>g\<close>.\<close>

lemma save_rows:
  assumes "graphs_valid en db" and "save en ids g db = Return () db'"
    and "\<And>h. graphs_view en db (tg_graph_id g) (tg_tenant_id g) = Some (graph_content h) \<Longrightarrow> tg_created_at h = tg_created_at g"
    and "canonical_tenant en (tg_tenant_id g)"
  shows "\<exists>d. gb_tasks d = gb_tasks db \<and> gb_dependencies d = gb_dependencies db \<and> sync_children en ids g d = Return () db' \<and>
    rows (ge_graphs en) (gb_graphs d) = add_mset (graph_to_model en g) {#m \<in># rows (ge_graphs en) (gb_graphs db). gm_id m \<noteq> tg_graph_id g#} \<and>
    (\<forall>m \<in># rows (ge_graphs en) (gb_graphs db). gm_id m = tg_graph_id g \<longrightarrow> gm_tenant_id m = ge_uuid_of en (tg_tenant_id g))"
  using select_key [OF assms(1), of "tg_graph_id g" "tg_tenant_id g"]
proof (elim disjE exE conjE)
  assume none: "tb_select (ge_graphs en) (has_key en (tg_graph_id g) (tg_tenant_id g)) (gb_graphs db) = []"
  with assms(2) have add: "add_graph en ids g db = Return () db'" by (simp add: save_def scalar_one_or_none_def)
  then have free: "\<forall>m \<in># rows (ge_graphs en) (gb_graphs db). gm_id m \<noteq> tg_graph_id g"
    and sync: "sync_children en ids g (db\<lparr>gb_graphs := tb_add (ge_graphs en) (graph_to_model en g) (gb_graphs db)\<rparr>) = Return () db'"
    by (auto simp: add_graph_def insert_row_def select_nil [OF engine(1)] graph_to_model_def split: if_splits option.splits)
  have "{#m \<in># rows (ge_graphs en) (gb_graphs db). gm_id m \<noteq> tg_graph_id g#} = rows (ge_graphs en) (gb_graphs db)"
    using free by (auto simp: filter_mset_eq_conv)
  with sync show ?thesis by (intro exI [of _ "db\<lparr>gb_graphs := tb_add (ge_graphs en) (graph_to_model en g) (gb_graphs db)\<rparr>"])
    (use free in \<open>simp add: table_add [OF engine(1)]\<close>)
next
  fix m
  assume m: "tb_select (ge_graphs en) (has_key en (tg_graph_id g) (tg_tenant_id g)) (gb_graphs db) = [m]"
    "m \<in># rows (ge_graphs en) (gb_graphs db)" "has_key en (tg_graph_id g) (tg_tenant_id g) m"
  let ?p = "\<lambda>m. has_key en (tg_graph_id g) (tg_tenant_id g) m \<and> gm_row_version m = (if tg_row_version g - 1 < 1 then 1 else tg_row_version g - 1)"
  obtain t where upd: "tb_update (ge_graphs en) ?p (graph_update g) (gb_graphs db) = (1, t)"
    and sync: "sync_children en ids g (db\<lparr>gb_graphs := t\<rparr>) = Return () db'"
    using assms(2) m(1)
    by (auto simp: save_def scalar_one_or_none_def update_row_def Let_def split: prod.splits if_splits sum.splits)
  obtain R where R: "rows (ge_graphs en) (gb_graphs db) = add_mset m R" using m(2) by (metis mset_add)
  have others: "\<forall>r \<in># R. gm_id r \<noteq> tg_graph_id g"
  proof
    fix r
    assume "r \<in># R"
    have "size {#q \<in># add_mset m R. gm_id q = tg_graph_id g#} \<le> 1" using assms(1) R by (simp add: graphs_valid_def)
    then have "{#q \<in># R. gm_id q = tg_graph_id g#} = {#}" using m(3) by (simp add: has_key_def)
    then show "gm_id r \<noteq> tg_graph_id g" unfolding filter_mset_eq_empty using \<open>r \<in># R\<close> by blast
  qed
  have "\<not> ?p r" if "r \<in># R" for r using others that by (auto simp: has_key_def)
  from update_one [OF engine(1) upd R this] have "rows (ge_graphs en) t = add_mset (graph_update g m) R" by blast
  moreover have "graph_update g m = graph_to_model en g"
  proof -
    from m(2) assms(1) obtain h where h: "storable h" "rows_of en db h m" by (auto simp: graphs_valid_def)
    from find_of_rows [OF m(1) h(2,1)] have "graphs_view en db (tg_graph_id g) (tg_tenant_id g) = Some (graph_content h)"
      by (auto simp: graphs_view_def)
    then have "tg_created_at h = tg_created_at g" by (rule assms(3))
    with rows_key [OF h(2) m(3) assms(4)] h(2) show ?thesis by (simp add: rows_of_def graph_to_model_def graph_update_def)
  qed
  moreover have "{#q \<in># add_mset m R. gm_id q \<noteq> tg_graph_id g#} = R"
    using m(3) others by (auto simp: has_key_def filter_mset_eq_conv)
  ultimately have "rows (ge_graphs en) t = add_mset (graph_to_model en g) {#q \<in># rows (ge_graphs en) (gb_graphs db). gm_id q \<noteq> tg_graph_id g#}"
    by (simp only: R)
  moreover have "\<forall>q \<in># rows (ge_graphs en) (gb_graphs db). gm_id q = tg_graph_id g \<longrightarrow> gm_tenant_id q = ge_uuid_of en (tg_tenant_id g)"
    unfolding R using others m(3) by (auto simp: has_key_def)
  ultimately show ?thesis using sync by (intro exI [of _ "db\<lparr>gb_graphs := t\<rparr>"]) simp
qed

lemma select_nil_view:
  assumes "tb_select (ge_graphs en) (has_key en i t) (gb_graphs db) = []"
  shows "graphs_view en db i t = None"
  using assms by (simp add: graphs_view_def find_by_id_def one_graph_def scalar_one_or_none_def)

lemma select_one_view:
  assumes "tb_select (ge_graphs en) (has_key en i t) (gb_graphs db) = [m]" and "rows_of en db g m" and "storable g"
  shows "graphs_view en db i t = Some (graph_content g)"
  using find_of_rows [OF assms] by (auto simp: graphs_view_def)

lemma save_law:
  assumes valid: "graphs_valid en db" and ok: "storable g" and own: "canonical_tenant en (tg_tenant_id g)"
    and created: "\<And>h. graphs_view en db (tg_graph_id g) (tg_tenant_id g) = Some (graph_content h) \<Longrightarrow> tg_created_at h = tg_created_at g"
    and save: "save en ids g db = Return () db'"
  shows "graphs_valid en db'"
    and "canonical_tenant en t \<Longrightarrow> graphs_view en db' i t =
      (if i = tg_graph_id g \<and> t = tg_tenant_id g then Some (graph_content g) else graphs_view en db i t)"
proof -
  let ?new = "graph_to_model en g"
  let ?old = "{#m \<in># rows (ge_graphs en) (gb_graphs db). gm_id m \<noteq> tg_graph_id g#}"
  obtain d where d: "gb_tasks d = gb_tasks db" "gb_dependencies d = gb_dependencies db" "sync_children en ids g d = Return () db'"
    "rows (ge_graphs en) (gb_graphs d) = add_mset ?new ?old"
    and tenant: "\<And>m. m \<in># rows (ge_graphs en) (gb_graphs db) \<Longrightarrow> gm_id m = tg_graph_id g \<Longrightarrow> gm_tenant_id m = ge_uuid_of en (tg_tenant_id g)"
    using save_rows [OF valid save created own] by blast
  have rows': "rows (ge_graphs en) (gb_graphs db') = add_mset ?new ?old" using d(4) sync_rows(1) [OF d(3)] by simp
  have key: "gm_id ?new = tg_graph_id g" "gm_tenant_id ?new = ge_uuid_of en (tg_tenant_id g)" by (simp_all add: graph_to_model_def)
  note own_rows = sync_own [OF d(3) own]
  note other = other_rows [OF valid _ _ d(1-3)]
  show "graphs_valid en db'"
    unfolding graphs_valid_def rows'
  proof (intro conjI allI ballI)
    fix j
    have "{#m \<in># ?old. gm_id m = j#} = (if j = tg_graph_id g then {#} else {#m \<in># rows (ge_graphs en) (gb_graphs db). gm_id m = j#})"
      using keyed_replace [where N = "{#}" and f = gm_id and i = "tg_graph_id g" and M = "rows (ge_graphs en) (gb_graphs db)" and j = j] by simp
    then show "size {#m \<in># add_mset ?new ?old. gm_id m = j#} \<le> 1"
      using valid key(1) by (simp add: graphs_valid_def)
  next
    fix m
    assume "m \<in># add_mset ?new ?old"
    then show "\<exists>h. storable h \<and> rows_of en db' h m" using own_rows ok other by auto
  qed
  show "graphs_view en db' i t = (if i = tg_graph_id g \<and> t = tg_tenant_id g then Some (graph_content g) else graphs_view en db i t)"
    if can: "canonical_tenant en t"
  proof (cases "i = tg_graph_id g")
    case True
    have "mset (tb_select (ge_graphs en) (has_key en i t) (gb_graphs db')) = (if t = tg_tenant_id g then {#?new#} else {#})"
      unfolding table_select [OF engine(1)] rows' using True key key_tenant [OF can own] by (auto simp: has_key_def filter_mset_eq_empty)
    moreover have "tb_select (ge_graphs en) (has_key en i t) (gb_graphs db) = []" if "t \<noteq> tg_tenant_id g"
      unfolding select_nil [OF engine(1)] using True tenant key_tenant [OF can own] that by (auto simp: has_key_def)
    ultimately show ?thesis
      using True select_one_view [OF _ own_rows ok, of i t] select_nil_view [of i t] by (cases "t = tg_tenant_id g") simp_all
  next
    case False
    have same: "mset (tb_select (ge_graphs en) (has_key en i t) (gb_graphs db')) = mset (tb_select (ge_graphs en) (has_key en i t) (gb_graphs db))"
      unfolding table_select [OF engine(1)] rows' using False key(1) by (auto simp: has_key_def filter_filter_mset intro!: filter_mset_cong)
    from select_key [OF valid, of i t] show ?thesis
    proof (elim disjE exE conjE)
      assume "tb_select (ge_graphs en) (has_key en i t) (gb_graphs db) = []"
      with same select_nil_view [of i t] False show ?thesis by simp
    next
      fix m
      assume m: "tb_select (ge_graphs en) (has_key en i t) (gb_graphs db) = [m]" "m \<in># rows (ge_graphs en) (gb_graphs db)" "has_key en i t m"
      then have "gm_id m \<noteq> tg_graph_id g" using False by (simp add: has_key_def)
      from other [OF m(2) this] obtain h where h: "storable h" "rows_of en db h m" "rows_of en db' h m" by blast
      have "tb_select (ge_graphs en) (has_key en i t) (gb_graphs db') = [m]" using same m(1) by simp
      from select_one_view [OF this h(3,1)] select_one_view [OF m(1) h(2,1)] False show ?thesis by simp
    qed
  qed
qed

end

sublocale pg_graph_engine \<subseteq> graph_store "pg_graph_repository en" "graphs_valid en" "canonical_tenant en" "graphs_view en"
proof unfold_locales
  fix d t i
  assume "graphs_valid en d" "canonical_tenant en t"
  then show "\<exists>r. gr_find_by_id (pg_graph_repository en) i t d = Inr r \<and> graphs_view en d i t = map_option graph_content r \<and>
      (\<forall>g. r = Some g \<longrightarrow> storable g \<and> tg_pending_events g = [] \<and> tg_graph_id g = i \<and> tg_tenant_id g = t)"
    using find_law by (simp add: pg_graph_repository_def)
next
  fix d g ids d'
  assume d: "graphs_valid en d" "storable g" "canonical_tenant en (tg_tenant_id g)"
    and created: "\<forall>h. graphs_view en d (tg_graph_id g) (tg_tenant_id g) = Some (graph_content h) \<longrightarrow> tg_created_at h = tg_created_at g"
    and "gr_save (pg_graph_repository en) ids g d = Return () d'"
  then have "save en ids g d = Return () d'" by (simp add: pg_graph_repository_def)
  note law = save_law [OF d created [rule_format] this]
  show "graphs_valid en d' \<and> (\<forall>i t. canonical_tenant en t \<longrightarrow> graphs_view en d' i t =
        (if i = tg_graph_id g \<and> t = tg_tenant_id g then Some (graph_content g) else graphs_view en d i t))"
    by (intro conjI allI impI law)
next
  fix d d'
  assume "gr_commit (pg_graph_repository en) d = Inr d'"
  then show "d' = d" using engine(6) by (simp add: pg_graph_repository_def)
qed

end
