(* ===== verification/TaskGraph_Properties.thy ===== *)
theory TaskGraph_Properties
  imports TaskGraph_Storage
begin

text \<open>
  The properties of the task-graph service over its PostgreSQL repository and the in-memory security graph, and an engine of list tables
  on which they are evaluated.
\<close>

section \<open>An engine of list tables\<close>

type_synonym list_graphs = "(TaskGraphModel list, CampaignTaskModel list, TaskDependencyModel list) graph_database"

definition list_graph_engine :: "(TaskGraphModel list, CampaignTaskModel list, TaskDependencyModel list, string) graph_engine" where
  "list_graph_engine = \<lparr>ge_graphs = list_table, ge_tasks = list_table, ge_dependencies = list_table,
     ge_multiple_results = ''MultipleResultsFound'', ge_integrity_error = ''IntegrityError'', ge_lazy_load = None, ge_commit = Inr,
     ge_uuid_of = of_digits, ge_from_uuid = digits_of, ge_jsonb = (\<lambda>kvs. kvs)\<rparr>"

lemma list_graph_engine_laws: "graph_engine_laws list_graph_engine"
  by (simp add: graph_engine_laws_def list_graph_engine_def list_table_laws json_same_refl)

interpretation list_graphs: pg_graph_engine list_graph_engine
  by unfold_locales (rule list_graph_engine_laws)

definition empty_graphs :: list_graphs where
  "empty_graphs = \<lparr>gb_graphs = [], gb_tasks = [], gb_dependencies = []\<rparr>"

definition empty_adapter :: StubTaskGraphGraphWriteAdapter where
  "empty_adapter = \<lparr>wa_task_graph_nodes = [], wa_task_nodes = [], wa_graph_contains_edges = [], wa_task_depends_edges = []\<rparr>"

definition list_graph_service :: "(list_graphs, StubTaskGraphGraphWriteAdapter, string) graph_service" where
  "list_graph_service = TaskGraphContainer (pg_graph_repository list_graph_engine)"

definition start_world :: "(list_graphs, StubTaskGraphGraphWriteAdapter, TaskGraphEvent event) transaction" where
  "start_world = \<lparr>tx_db = empty_graphs, tx_session = empty_graphs, tx_ports = empty_adapter, tx_published = []\<rparr>"

section \<open>Stored graphs\<close>

definition no_graphs :: "('g, 't, 'd, 'x) graph_engine \<Rightarrow> ('g, 't, 'd) graph_database \<Rightarrow> bool" where
  "no_graphs en db \<longleftrightarrow> rows (ge_graphs en) (gb_graphs db) = {#}"

context pg_graph_engine
begin

lemma no_graphs_valid: "no_graphs en db \<Longrightarrow> graphs_valid en db"
  by (simp add: no_graphs_def graphs_valid_def)

lemma no_graphs_find: "no_graphs en db \<Longrightarrow> find_by_id en i t db = Inr None"
proof -
  assume "no_graphs en db"
  then have "tb_select (ge_graphs en) (has_key en i t) (gb_graphs db) = []" by (simp add: select_nil [OF engine(1)] no_graphs_def)
  then show ?thesis by (simp add: find_by_id_def one_graph_def scalar_one_or_none_def)
qed

lemma no_graphs_fine: "no_graphs en db \<Longrightarrow> fine db"
  by (simp add: fine_def no_graphs_valid graphs_view_def no_graphs_find)

lemma found_view: "find_by_id en i t db = Inr (Some g) \<Longrightarrow> graphs_view en db i t = Some (graph_content g)"
  by (simp add: graphs_view_def)

lemma view_found:
  assumes "graphs_view en db i t = Some (graph_content g)"
  shows "\<exists>h. find_by_id en i t db = Inr (Some h) \<and> graph_content h = graph_content g"
  using assms by (auto simp: graphs_view_def split: sum.splits option.splits)

lemma found_ok:
  assumes "fine db" and "canonical_tenant en t" and "find_by_id en i t db = Inr (Some g)"
  shows "graph_ok g"
  using assms found_view unfolding fine_def by blast

lemma sealed_found:
  assumes "graph_runs sv (canonical_tenant en) v w" and "gs_repository sv = pg_graph_repository en" and "fine (tx_db v)" and "canonical_tenant en t"
    and "find_by_id en i t (tx_db v) = Inr (Some g)" and "tg_state g \<in> IMMUTABLE_STATES"
  shows "\<exists>h. find_by_id en i t (tx_db w) = Inr (Some h) \<and> sealed_content h = sealed_content g \<and> tg_state h \<in> IMMUTABLE_STATES"
proof -
  obtain g' where g': "graphs_view en (tx_db w) i t = Some (graph_content g')" "sealed_content g' = sealed_content g" "tg_state g' \<in> IMMUTABLE_STATES"
    using runs_sealed [OF assms(1-4) found_view [OF assms(5)] assms(6)] by blast
  from view_found [OF g'(1)] obtain h where h: "find_by_id en i t (tx_db w) = Inr (Some h)" "graph_content h = graph_content g'" by blast
  with g'(2,3) content_fields(3,5) [OF h(2)] show ?thesis by auto
qed

lemma reachable_fine:
  assumes "gs_repository sv = pg_graph_repository en" and "no_graphs en (tx_db u)" and "graph_runs sv (canonical_tenant en) u v"
  shows "fine (tx_db v)"
  by (rule runs_fine [OF assms(3,1) no_graphs_fine [OF assms(2)]])

lemmas reachable_sealed = sealed_found [OF _ _ reachable_fine]

lemma reachable_ok:
  assumes "gs_repository sv = pg_graph_repository en" and "no_graphs en (tx_db u)" and "graph_runs sv (canonical_tenant en) u v" and "canonical_tenant en t"
  shows "\<exists>r. find_by_id en i t (tx_db v) = Inr r \<and> (\<forall>g. r = Some g \<longrightarrow> graph_ok g \<and> tg_graph_id g = i \<and> tg_tenant_id g = t)"
proof -
  have fine: "fine (tx_db v)" by (rule reachable_fine [OF assms(1-3)])
  then have "graphs_valid en (tx_db v)" by (simp add: fine_def)
  from find_law [OF this assms(4), of i] found_ok [OF fine assms(4), of i] show ?thesis by auto
qed

lemma reachable_isolated:
  assumes "gs_repository sv = pg_graph_repository en" and "no_graphs en (tx_db u)" and "graph_runs sv (canonical_tenant en) u v"
    and "graph_runs sv (\<lambda>s. canonical_tenant en s \<and> s \<noteq> t) v w" and "canonical_tenant en t"
  shows "graphs_view en (tx_db w) i t = graphs_view en (tx_db v) i t"
  using runs_foreign [OF assms(4,1) _ assms(5)] reachable_fine [OF assms(1-3)] by (simp add: fine_def)

end

text \<open>The primary keys that a save inserts are not in use by other graphs.\<close>

definition ids_free :: "('g, 't, 'd, 'x) graph_engine \<Rightarrow> ('g, 't, 'd) graph_database \<Rightarrow> (nat \<Rightarrow> uuid) \<Rightarrow> TaskGraph \<Rightarrow> bool" where
  "ids_free en db ids g \<longleftrightarrow>
     (\<forall>r \<in># rows (ge_tasks en) (gb_tasks db). cm_graph_id r \<noteq> tg_graph_id g \<longrightarrow> cm_id r \<notin> set (task_ids g)) \<and>
     distinct (map ids [0..<length (tg_dependencies g)]) \<and>
     (\<forall>r \<in># rows (ge_dependencies en) (gb_dependencies db). dm_graph_id r \<noteq> tg_graph_id g \<longrightarrow> dm_id r \<notin> set (map ids [0..<length (tg_dependencies g)]))"

lemma exec_graph_one_version: "exec_graph v c g = Return () g' \<Longrightarrow> tg_row_version g' = tg_row_version g + 1"
  by (cases c) (auto simp: graph_call_simps split: if_splits)

lemma exec_graph_one_event: "exec_graph v c g = Return () g' \<Longrightarrow> \<exists>e. tg_pending_events g' = tg_pending_events g @ [e]"
  by (cases c) (auto simp: graph_call_simps split: if_splits)

context pg_graph_engine
begin

lemma sync_succeeds:
  assumes "distinct (task_ids g)" and "ids_free en db ids g"
  shows "\<exists>db'. sync_children en ids g db = Return () db'"
proof -
  let ?ts = "map (task_to_model en g) (tg_tasks g)"
  let ?ds = "map (dependency_to_model g) (zip (map ids [0..<length (tg_dependencies g)]) (tg_dependencies g))"
  have tid: "map cm_id ?ts = task_ids g" by (simp add: task_to_model_def task_ids_def)
  have did: "map dm_id ?ds = map ids [0..<length (tg_dependencies g)]" by (rule nth_equalityI) (simp_all add: dependency_to_model_def)
  have "\<exists>t'. insert_all (ge_tasks en) cm_id (ge_integrity_error en) ?ts (tb_delete (ge_tasks en) (\<lambda>t. cm_graph_id t = tg_graph_id g) (gb_tasks db)) = Inr t'"
  proof (rule insert_all_free [OF engine(2)])
    show "distinct (map cm_id ?ts)" unfolding tid by (rule assms(1))
    have "cm_id ` set ?ts = set (task_ids g)" using tid by (metis list.set_map)
    then show "\<forall>r \<in> set ?ts. \<forall>m \<in># rows (ge_tasks en) (tb_delete (ge_tasks en) (\<lambda>t. cm_graph_id t = tg_graph_id g) (gb_tasks db)). cm_id m \<noteq> cm_id r"
      using assms(2) unfolding table_delete [OF engine(2)] ids_free_def by force
  qed
  moreover have "\<exists>t'. insert_all (ge_dependencies en) dm_id (ge_integrity_error en) ?ds
      (tb_delete (ge_dependencies en) (\<lambda>d. dm_graph_id d = tg_graph_id g) (gb_dependencies db)) = Inr t'"
  proof (rule insert_all_free [OF engine(3)])
    show "distinct (map dm_id ?ds)" unfolding did using assms(2) by (simp add: ids_free_def)
    have "dm_id ` set ?ds = set (map ids [0..<length (tg_dependencies g)])" using did by (metis list.set_map)
    then show "\<forall>r \<in> set ?ds. \<forall>m \<in># rows (ge_dependencies en) (tb_delete (ge_dependencies en) (\<lambda>d. dm_graph_id d = tg_graph_id g) (gb_dependencies db)). dm_id m \<noteq> dm_id r"
      using assms(2) unfolding table_delete [OF engine(3)] ids_free_def by force
  qed
  ultimately show ?thesis by (auto simp: sync_children_def)
qed

lemma find_row:
  assumes "find_by_id en i t db = Inr (Some g)"
  obtains m where "tb_select (ge_graphs en) (has_key en i t) (gb_graphs db) = [m]" and "gm_row_version m = tg_row_version g"
    and "{#r \<in># rows (ge_graphs en) (gb_graphs db). has_key en i t r#} = {#m#}"
proof -
  from assms obtain m where m: "tb_select (ge_graphs en) (has_key en i t) (gb_graphs db) = [m]" "graph_to_domain en db m = Inr g"
    by (auto simp: find_by_id_def one_graph_def scalar_one_or_none_def sum_bind_Inr python_Inr split: list.splits)
  from m(2) have "gm_row_version m = tg_row_version g" by (auto simp: graph_to_domain_def sum_bind_Inr)
  moreover have "{#r \<in># rows (ge_graphs en) (gb_graphs db). has_key en i t r#} = {#m#}"
    using table_select [OF engine(1), of "has_key en i t" "gb_graphs db"] m(1) by simp
  ultimately show thesis using that m(1) by blast
qed

lemma save_newer:
  assumes "find_by_id en (tg_graph_id g') (tg_tenant_id g') db = Inr (Some g)" and "1 \<le> tg_row_version g"
    and "tg_row_version g' = tg_row_version g + 1" and "distinct (task_ids g')" and "ids_free en db ids g'"
  shows "\<exists>db'. save en ids g' db = Return () db'"
proof -
  obtain m where m: "tb_select (ge_graphs en) (has_key en (tg_graph_id g') (tg_tenant_id g')) (gb_graphs db) = [m]" "gm_row_version m = tg_row_version g"
    "{#r \<in># rows (ge_graphs en) (gb_graphs db). has_key en (tg_graph_id g') (tg_tenant_id g') r#} = {#m#}"
    by (rule find_row [OF assms(1)])
  let ?p = "\<lambda>r. has_key en (tg_graph_id g') (tg_tenant_id g') r \<and> gm_row_version r = tg_row_version g"
  obtain n t where upd: "tb_update (ge_graphs en) ?p (graph_update g') (gb_graphs db) = (n, t)" by fastforce
  have "{#r \<in># rows (ge_graphs en) (gb_graphs db). ?p r#} = {#r \<in># {#m#}. gm_row_version r = tg_row_version g#}"
    unfolding m(3) [symmetric] by (simp add: filter_filter_mset conj_commute)
  with table_update [OF engine(1) upd] m(2) have "n = 1" by simp
  moreover have "ids_free en (db\<lparr>gb_graphs := t\<rparr>) ids g'" using assms(5) by (simp add: ids_free_def)
  ultimately show ?thesis
    using sync_succeeds [OF assms(4)] assms(2,3) m(1) upd by (auto simp: save_def scalar_one_or_none_def update_row_def Let_def)
qed

lemma save_stale:
  assumes "find_by_id en (tg_graph_id g) (tg_tenant_id g) db = Inr (Some h)" and "2 \<le> tg_row_version g"
    and "tg_row_version g \<noteq> tg_row_version h + 1"
  shows "\<exists>db'. save en ids g db =
      Raise (DomainFailure (OptimisticLockConflict (uuid_str (tg_graph_id g)) (tg_row_version g - 1) (tg_row_version h))) db' \<and>
    rows (ge_graphs en) (gb_graphs db') = rows (ge_graphs en) (gb_graphs db) \<and> gb_tasks db' = gb_tasks db \<and> gb_dependencies db' = gb_dependencies db"
proof -
  obtain m where m: "tb_select (ge_graphs en) (has_key en (tg_graph_id g) (tg_tenant_id g)) (gb_graphs db) = [m]" "gm_row_version m = tg_row_version h"
    "{#r \<in># rows (ge_graphs en) (gb_graphs db). has_key en (tg_graph_id g) (tg_tenant_id g) r#} = {#m#}"
    by (rule find_row [OF assms(1)])
  have "gm_row_version m \<noteq> tg_row_version g - 1" using m(2) assms(3) by simp
  from no_row_updated [where f = gm_row_version, OF engine(1) m(3) this, of "graph_update g"] obtain t where
    upd: "tb_update (ge_graphs en) (\<lambda>r. has_key en (tg_graph_id g) (tg_tenant_id g) r \<and> gm_row_version r = tg_row_version g - 1) (graph_update g) (gb_graphs db) = (0, t)"
    by blast
  have rows: "rows (ge_graphs en) t = rows (ge_graphs en) (gb_graphs db)" by (rule update_none [OF engine(1) upd])
  have "mset (tb_select (ge_graphs en) (has_key en (tg_graph_id g) (tg_tenant_id g)) t) = {#m#}"
    unfolding table_select [OF engine(1)] rows by (rule m(3))
  then have "tb_select (ge_graphs en) (has_key en (tg_graph_id g) (tg_tenant_id g)) t = [m]" by simp
  with upd m(1,2) assms(2) rows show ?thesis by (simp add: save_def scalar_one_or_none_def update_row_def Let_def)
qed

lemma reachable_update:
  assumes "gs_repository sv = pg_graph_repository en" and "no_graphs en (tx_db u)" and "graph_runs sv (canonical_tenant en) u w" and "canonical_tenant en t"
    and "find_by_id en i t (tx_db w) = Inr (Some g)" and "exec_graph validate_graph c g = Return () g'" and "call_storable c"
    and "ids_free en (tx_db w) (gf_row_ids fr) g'" and "\<And>d. ge_commit en d = Inr d"
  shows "\<exists>w'. update_graph sv fr i t (exec_graph validate_graph c) w = Return g' w' \<and>
    graphs_view en (tx_db w') i t = Some (graph_content g') \<and> tx_published w' = tx_published w @ [tg_pending_events g']"
proof -
  have fine: "fine (tx_db w)" by (rule reachable_fine [OF assms(1-3)])
  then have valid: "graphs_valid en (tx_db w)" by (simp add: fine_def)
  have g: "storable g" "tg_pending_events g = []" "tg_graph_id g = i" "tg_tenant_id g = t"
    using find_law [OF valid assms(4), of i] assms(5) by auto
  have g': "g' = final (exec_graph validate_graph c g)" using assms(6) by simp
  have key: "tg_graph_id g' = i" "tg_tenant_id g' = t" "storable g'" "graph_ok g'" "tg_created_at g' = tg_created_at g"
    unfolding g' using g exec_graph_ok found_ok [OF fine assms(4,5)] assms(7)
    by (simp_all add: exec_graph_key exec_graph_storable exec_graph_created keeps_def)
  have "distinct (task_ids g')" using key(4) by (simp add: graph_ok_def topology_ok_def task_ids_def)
  moreover have "1 \<le> tg_row_version g" using g(1) by (simp add: storable_def)
  ultimately obtain d where d: "save en (gf_row_ids fr) g' (tx_db w) = Return () d"
    using save_newer [of g' "tx_db w" g "gf_row_ids fr"] assms(5,8) key(1,2) exec_graph_one_version [OF assms(6)] by auto
  have "tg_created_at h = tg_created_at g'" if "graphs_view en (tx_db w) (tg_graph_id g') (tg_tenant_id g') = Some (graph_content h)" for h
    using that found_view [OF assms(5)] content_fields(8) [of h g] key by simp
  then have view: "graphs_view en d i t = Some (graph_content g')"
    using save_law(2) [OF valid key(3) _ _ d, of t i] key(1,2) assms(4) by simp
  obtain e where e: "tg_pending_events g' = [e]" using exec_graph_one_event [OF assms(6)] g(2) by auto
  have "uint i \<noteq> 0" using g(1,3) by (simp add: storable_def)
  then have "update_graph sv fr i t (exec_graph validate_graph c) w = Return g' (w\<lparr>tx_db := d, tx_session := d, tx_published := tx_published w @ [[e]]\<rparr>)"
    using assms(1,5,6,9) d e
    by (simp add: update_graph_def change_graph_def load_graph_eq save_graph_def transacted_defs pg_graph_repository_def pop_events_def)
  with view e show ?thesis by simp
qed

end

context pg_graph_engine
begin

lemma lazy_save:
  assumes "ge_lazy_load en = Some e" and "no_graphs en db"
  shows "\<exists>x db'. save en ids g db = Raise x db'"
proof -
  have "tb_select (ge_graphs en) p (gb_graphs db) = []" for p using assms(2) by (simp add: select_nil [OF engine(1)] no_graphs_def)
  then show ?thesis using assms(1) by (simp add: save_def scalar_one_or_none_def add_graph_def insert_row_def)
qed

lemma lazy_runs:
  assumes "ge_lazy_load en = Some e" and "gs_repository sv = pg_graph_repository en" and "graph_runs sv P u v" and "no_graphs en (tx_db u)"
  shows "no_graphs en (tx_db v)"
  using assms(3,4)
proof (induction rule: graph_runs.induct)
  case (run_request v r)
  have "graph_effect (pg_graph_repository en) (requester r) (tx_db v) (tx_db (final (perform sv r v)))"
    using perform_effect [OF run_request.hyps(3)] assms(2) by simp
  moreover have none: "no_graphs en (tx_db v)" by (rule run_request.IH [OF run_request.prems])
  have "gr_save (pg_graph_repository en) ids g (tx_db v) \<noteq> Return () d" for ids g d
    using lazy_save [OF assms(1) none, of ids g] by (auto simp: pg_graph_repository_def)
  ultimately show ?case using none by (cases rule: graph_effect.cases) auto
qed

lemma lazy_create:
  assumes "ge_lazy_load en = Some e" and "gs_repository sv = pg_graph_repository en" and "no_graphs en (tx_db w)"
  shows "\<exists>x w'. create_task_graph sv fr cmd w = Raise x w'"
proof -
  have "\<exists>x w'. within_uow (save_graph sv fr g) w = Raise x w'" for g
    using lazy_save [OF assms(1,3), of "gf_row_ids fr" g] assms(2)
    by (auto simp: save_graph_def transacted_defs pg_graph_repository_def)
  then have "\<exists>x w'. and_then (within_uow (save_graph sv fr g)) f w = Raise x w'" for g f
    by (metis and_then_def outcome.simps(5))
  then show ?thesis by (auto simp: create_task_graph_def and_then_def [of "attempt _ _"] attempt_def split: sum.splits)
qed

lemma reachable_create:
  assumes "gs_repository sv = pg_graph_repository en" and "no_graphs en (tx_db u)" and "graph_runs sv (canonical_tenant en) u w"
    and "canonical_tenant en (cg_tenant_id cmd)" and "ge_lazy_load en = None" and "\<And>d. ge_commit en d = Inr d"
    and "\<forall>m \<in># rows (ge_graphs en) (gb_graphs (tx_db w)). gm_id m \<noteq> gf_graph_id fr" and "uint (gf_graph_id fr) \<noteq> 0"
    and "strip (cg_name cmd) \<noteq> []" and "length (cg_name cmd) \<le> 512" and "0 < cg_engagement_window_seconds cmd"
  shows "\<exists>dto w' w''. create_task_graph sv fr cmd w = Return dto w' \<and> get_task_graph sv (cg_tenant_id cmd) (gf_graph_id fr) w' = Return (Some dto) w''"
proof -
  let ?i = "gf_graph_id fr" and ?t = "cg_tenant_id cmd"
  obtain g where g: "create ?i ?t (strip (cg_name cmd)) (strip (cg_description cmd)) (cg_engagement_window_seconds cmd) (gf_now fr) = Inr g"
    using assms(9,11) by (simp add: create_def)
  have key: "tg_graph_id g = ?i" "tg_tenant_id g = ?t" "storable g" "tg_tasks g = []"
    using create_key [OF g] create_storable [OF g assms(8)] create_ok [OF g] by simp_all
  have deps: "tg_dependencies g = []" and events: "tg_pending_events g \<noteq> []" using g by (auto simp: create_def emit_def assign_def split: if_splits)
  have valid: "graphs_valid en (tx_db w)" using reachable_fine [OF assms(1-3)] by (simp add: fine_def)
  have none: "tb_select (ge_graphs en) (has_key en ?i ?t) (gb_graphs (tx_db w)) = []"
    and free: "tb_select (ge_graphs en) (\<lambda>m. gm_id m = ?i) (gb_graphs (tx_db w)) = []"
    using assms(7) by (simp_all add: select_nil [OF engine(1)] has_key_def)
  obtain d where d: "save en (gf_row_ids fr) g (tx_db w) = Return () d"
    using none free assms(5) key(4) deps
    by (simp add: save_def scalar_one_or_none_def add_graph_def insert_row_def sync_children_def graph_to_model_def key(1,2))
  have "graphs_view en (tx_db w) ?i ?t = None" using none by (rule select_nil_view)
  then have "graphs_view en d ?i ?t = Some (graph_content g)" and valid': "graphs_valid en d"
    using save_law(2) [OF valid key(3) _ _ d, of ?t ?i] save_law(1) [OF valid key(3) _ _ d] key(1,2) assms(4) by simp_all
  then obtain h where h: "find_by_id en ?i ?t d = Inr (Some h)" "graph_content h = graph_content g" using view_found by blast
  have id: "TaskGraphId ?i = Inr ?i" using assms(8) by (simp add: TaskGraphId_def)
  let ?w = "w\<lparr>tx_db := d, tx_session := d, tx_published := tx_published w @ [tg_pending_events g]\<rparr>"
  have "create_task_graph sv fr cmd w = Return (graph_to_dto g) ?w"
    using assms(1,6,9-11) d events
    by (simp add: create_task_graph_def as_str_def validate_str_def require_def id g save_graph_def transacted_defs pg_graph_repository_def pop_events_def)
  moreover have "get_task_graph sv ?t ?i ?w = Return (Some (graph_to_dto h)) ?w"
    using assms(1,8) h(1)
    by (simp add: get_task_graph_def graph_id_of_def as_uuid_def validate_uuid_def python_def id transacted_defs pg_graph_repository_def)
  ultimately show ?thesis using content_fields(7) [OF h(2)] by simp
qed

end

section \<open>The security graph\<close>

lemma upsert_keys: "key ` set (upsert key x xs) = insert (key x) (key ` set xs)"
  by (auto simp: upsert_def)

lemma fold_upsert_keys: "key ` set (fold (upsert key) xs ys) = key ` set xs \<union> key ` set ys"
  by (induction xs arbitrary: ys) (auto simp: upsert_keys)

lemma fold_upsert_other: "y \<in> set ys \<Longrightarrow> key y \<notin> key ` set xs \<Longrightarrow> y \<in> set (fold (upsert key) xs ys)"
  by (induction xs arbitrary: ys) (auto simp: upsert_def)

lemma fold_upsert_last: "distinct (map key xs) \<Longrightarrow> set xs \<subseteq> set (fold (upsert key) xs ys)"
proof (induction xs arbitrary: ys)
  case (Cons x xs)
  have "x \<in> set (upsert key x ys)" by (simp add: upsert_def)
  then have "x \<in> set (fold (upsert key) xs (upsert key x ys))" using Cons.prems by (intro fold_upsert_other) auto
  then show ?case using Cons by simp
qed simp

definition task_node :: "TaskGraph \<Rightarrow> CampaignTask \<Rightarrow> campaign_task_node" where
  "task_node g t = \<lparr>tn_tenant_id = entity_str (tg_tenant_id g), tn_task_id = uuid_str (ct_task_id t),
     tn_task_type = TaskType_value (ct_task_type t), tn_criticality = TaskCriticality_value (ct_criticality t)\<rparr>"

definition contains_edge :: "TaskGraph \<Rightarrow> nat \<times> CampaignTask \<Rightarrow> graph_contains_edge" where
  "contains_edge g = (\<lambda>(k, t). \<lparr>ce_tenant_id = entity_str (tg_tenant_id g), ce_graph_id = uuid_str (tg_graph_id g),
     ce_task_id = uuid_str (ct_task_id t), ce_sequence = int k\<rparr>)"

definition depends_edge :: "TaskGraph \<Rightarrow> TaskDependency \<Rightarrow> task_depends_edge" where
  "depends_edge g d = \<lparr>de_tenant_id = entity_str (tg_tenant_id g), de_from_task_id = uuid_str (td_predecessor_id d),
     de_to_task_id = uuid_str (td_successor_id d), de_predicate = DependencyPredicate_value (cb_predicate (td_condition d))\<rparr>"

definition graph_node :: "TaskGraph \<Rightarrow> task_graph_node" where
  "graph_node g = \<lparr>gn_tenant_id = entity_str (tg_tenant_id g), gn_graph_id = uuid_str (tg_graph_id g), gn_version = TaskGraphVersion_str (tg_version g)\<rparr>"

lemma in_sequence_append: "in_sequence (xs @ ys) p = and_then (in_sequence xs) (\<lambda>_. in_sequence ys) p"
  by (induction xs arbitrary: p) (simp_all add: and_then_def give_def split: outcome.splits)

lemma write_node:
  "sg_upsert_task_graph_node StubAdapter (entity_str (tg_tenant_id g)) (uuid_str (tg_graph_id g)) (TaskGraphVersion_str (tg_version g)) p =
     Return () (p\<lparr>wa_task_graph_nodes := upsert graph_node_key (graph_node g) (wa_task_graph_nodes p)\<rparr>)"
  by (simp add: StubAdapter_def upsert_task_graph_node_def assign_def graph_node_def)

lemma write_tasks:
  "in_sequence (concat (map (task_writes StubAdapter g) ts)) p = Return () (p\<lparr>wa_task_nodes := fold (upsert task_node_key) (map (task_node g \<circ> snd) ts) (wa_task_nodes p),
     wa_graph_contains_edges := fold (upsert contains_key) (map (contains_edge g) ts) (wa_graph_contains_edges p)\<rparr>)"
  by (induction ts arbitrary: p) (simp_all add: in_sequence_append and_then_def give_def task_writes_def StubAdapter_def upsert_campaign_task_node_def
    upsert_graph_contains_edge_def assign_def task_node_def contains_edge_def split: prod.splits)

lemma write_dependencies:
  "in_sequence (map (\<lambda>dep. sg_upsert_task_depends_on_edge StubAdapter (entity_str (tg_tenant_id g)) (uuid_str (td_predecessor_id dep))
      (uuid_str (td_successor_id dep)) (DependencyPredicate_value (cb_predicate (td_condition dep)))) ds) p =
    Return () (p\<lparr>wa_task_depends_edges := fold (upsert depends_key) (map (depends_edge g) ds) (wa_task_depends_edges p)\<rparr>)"
  by (induction ds arbitrary: p) (simp_all add: and_then_def give_def StubAdapter_def upsert_task_depends_on_edge_def assign_def depends_edge_def)

lemma write_graph_ontology_eq:
  "write_graph_ontology StubAdapter g p = Return ()
     \<lparr>wa_task_graph_nodes = upsert graph_node_key (graph_node g) (wa_task_graph_nodes p),
      wa_task_nodes = fold (upsert task_node_key) (map (task_node g) (tg_tasks g)) (wa_task_nodes p),
      wa_graph_contains_edges = fold (upsert contains_key) (map (contains_edge g) (List.enumerate 0 (tg_tasks g))) (wa_graph_contains_edges p),
      wa_task_depends_edges = fold (upsert depends_key) (map (depends_edge g) (tg_dependencies g)) (wa_task_depends_edges p)\<rparr>"
proof -
  have "map (task_node g \<circ> snd) (List.enumerate 0 (tg_tasks g)) = map (task_node g) (tg_tasks g)"
    by (metis map_map map_snd_enumerate)
  then show ?thesis
    by (simp add: write_graph_ontology_def in_sequence_append and_then_def write_node write_tasks write_dependencies give_def)
qed

text \<open>What the security graph holds of a graph: its node with its version, a node and an edge with its position for every task, and an edge
  for every pair of tasks that a dependency joins.\<close>

definition graph_written :: "TaskGraph \<Rightarrow> StubTaskGraphGraphWriteAdapter \<Rightarrow> bool" where
  "graph_written g p \<longleftrightarrow> graph_node g \<in> set (wa_task_graph_nodes p) \<and> set (map (task_node g) (tg_tasks g)) \<subseteq> set (wa_task_nodes p) \<and>
     set (map (contains_edge g) (List.enumerate 0 (tg_tasks g))) \<subseteq> set (wa_graph_contains_edges p) \<and>
     (\<forall>d \<in> set (tg_dependencies g). \<exists>e \<in> set (wa_task_depends_edges p). depends_key e = depends_key (depends_edge g d))"

lemma ontology_written:
  assumes "distinct (task_ids g)" and "write_graph_ontology StubAdapter g p = Return () p'"
  shows "graph_written g p'"
proof -
  have inj: "inj uuid_str" by (simp add: inj_on_def)
  have "map (task_node_key \<circ> task_node g) (tg_tasks g) = map (\<lambda>i. (entity_str (tg_tenant_id g), uuid_str i)) (task_ids g)"
    by (simp add: task_node_key_def task_node_def task_ids_def)
  then have nodes: "distinct (map task_node_key (map (task_node g) (tg_tasks g)))"
    using assms(1) inj by (simp add: distinct_map inj_on_def)
  have "map (ct_task_id \<circ> snd) (List.enumerate 0 (tg_tasks g)) = task_ids g"
    unfolding task_ids_def by (metis map_map map_snd_enumerate)
  moreover have "map contains_key (map (contains_edge g) (List.enumerate 0 (tg_tasks g))) =
      map (\<lambda>i. (entity_str (tg_tenant_id g), uuid_str (tg_graph_id g), uuid_str i)) (map (ct_task_id \<circ> snd) (List.enumerate 0 (tg_tasks g)))"
    by (simp add: contains_key_def contains_edge_def case_prod_unfold)
  ultimately have edges: "distinct (map contains_key (map (contains_edge g) (List.enumerate 0 (tg_tasks g))))"
    using assms(1) inj by (simp add: distinct_map inj_on_def del: map_map)
  have p': "graph_node g \<in> set (wa_task_graph_nodes p')"
    "wa_task_nodes p' = fold (upsert task_node_key) (map (task_node g) (tg_tasks g)) (wa_task_nodes p)"
    "wa_graph_contains_edges p' = fold (upsert contains_key) (map (contains_edge g) (List.enumerate 0 (tg_tasks g))) (wa_graph_contains_edges p)"
    "wa_task_depends_edges p' = fold (upsert depends_key) (map (depends_edge g) (tg_dependencies g)) (wa_task_depends_edges p)"
    using assms(2) by (auto simp: write_graph_ontology_eq upsert_def)
  note p'(1)
  moreover have "set (map (task_node g) (tg_tasks g)) \<subseteq> set (wa_task_nodes p')" unfolding p'(2) by (rule fold_upsert_last [OF nodes])
  moreover have "set (map (contains_edge g) (List.enumerate 0 (tg_tasks g))) \<subseteq> set (wa_graph_contains_edges p')"
    unfolding p'(3) by (rule fold_upsert_last [OF edges])
  moreover have "\<exists>e \<in> set (wa_task_depends_edges p'). depends_key e = depends_key (depends_edge g d)" if "d \<in> set (tg_dependencies g)" for d
  proof -
    have "depends_key (depends_edge g d) \<in> depends_key ` set (wa_task_depends_edges p')"
      unfolding p'(4) fold_upsert_keys using that by simp
    then show ?thesis by force
  qed
  ultimately show ?thesis by (simp add: graph_written_def)
qed

lemma storedI: "gr_save repo ids g d = Return () d1 \<Longrightarrow> gr_commit repo d1 = Inr d' \<Longrightarrow> stored repo g d d'"
  by (auto simp: stored_def)

lemma update_graph_returns:
  fixes sv :: "('s, 'p, 'x) graph_service"
  assumes "update_graph sv fr i t call w = Return g' v"
  shows "\<exists>g. gr_find_by_id (gs_repository sv) i t (tx_db w) = Inr (Some g) \<and> call g = Return () g' \<and>
    stored (gs_repository sv) g' (tx_db w) (tx_db v) \<and> tx_ports v = tx_ports w"
proof (cases "load_graph sv i t (w\<lparr>tx_session := tx_db w\<rparr>)")
  case (Raise e u)
  then show ?thesis using assms by (simp add: update_graph_def change_graph_def and_then_def within_uow_def)
next
  case (Return g u)
  then have u: "u = w\<lparr>tx_session := tx_db w\<rparr>" "gr_find_by_id (gs_repository sv) i t (tx_db w) = Inr (Some g)"
    using load_graph_world(2) [OF Return] by simp_all
  show ?thesis
  proof (cases "call g")
    case (Raise e h)
    then show ?thesis using assms Return by (simp add: update_graph_def change_graph_def and_then_def within_uow_def on_aggregate_def)
  next
    case (Return a h)
    then show ?thesis
      using assms \<open>load_graph sv i t (w\<lparr>tx_session := tx_db w\<rparr>) = Return g u\<close> u
      by (auto simp: update_graph_def change_graph_def save_graph_def transacted_defs intro: storedI split: outcome.splits sum.splits if_splits)
  qed
qed

lemma update_graph_raises:
  fixes sv :: "('s, 'p, 'x) graph_service"
  assumes "\<And>g. gr_find_by_id (gs_repository sv) i t (tx_db w) = Inr (Some g) \<Longrightarrow> \<exists>e. call g = Raise e g"
  shows "\<exists>e. update_graph sv fr i t call w = Raise e (w\<lparr>tx_session := tx_db w\<rparr>)"
proof (cases "load_graph sv i t (w\<lparr>tx_session := tx_db w\<rparr>)")
  case (Raise e u)
  then show ?thesis using load_graph_world(1) [OF Raise] by (simp add: update_graph_def change_graph_def and_then_def within_uow_def)
next
  case (Return g u)
  then have "u = w\<lparr>tx_session := tx_db w\<rparr>" "gr_find_by_id (gs_repository sv) i t (tx_db w) = Inr (Some g)"
    using load_graph_world(2) [OF Return] by simp_all
  then show ?thesis using assms [of g] Return by (auto simp: update_graph_def change_graph_def and_then_def within_uow_def on_aggregate_def)
qed

lemma and_then_raise: "m w = Raise e w' \<Longrightarrow> and_then m f w = Raise e w'"
  by (simp add: and_then_def)

text \<open>A step that raises and leaves database and ports alone.\<close>

lemma attempt_raises:
  "(\<And>a. \<exists>e w'. f a w = Raise e w' \<and> tx_db w' = tx_db w \<and> tx_ports w' = tx_ports w) \<Longrightarrow>
   \<exists>e w'. and_then (attempt err v) f w = Raise e w' \<and> tx_db w' = tx_db w \<and> tx_ports w' = tx_ports w"
  by (cases v) (simp_all add: and_then_def attempt_def)

lemma pg_graph_engineI: "graph_engine_laws en \<Longrightarrow> pg_graph_engine en"
  by unfold_locales

text \<open>C8: what a signature covers stays as it was signed. Starting from a database without graphs, after any sequence of requests to the
  service (of tenants with genuine identifiers, with generated graph identifiers that the tenant does not use yet, and whether or not
  they raise), a stored graph that is signed, active or deprecated has, after any further sequence of requests, the same tasks, the same
  dependencies, the same signer, signature, instant and version, up to the order in which the database answers, and it never becomes
  editable again.\<close>

theorem stored_signature_is_final:
  assumes "graph_engine_laws en" and "gs_repository sv = pg_graph_repository en" and "no_graphs en (tx_db u)"
    and "graph_runs sv (canonical_tenant en) u v" and "graph_runs sv (canonical_tenant en) v w" and "canonical_tenant en t"
    and "find_by_id en i t (tx_db v) = Inr (Some g)" and "tg_state g \<in> IMMUTABLE_STATES"
  shows "\<exists>h. find_by_id en i t (tx_db w) = Inr (Some h) \<and> sealed_content h = sealed_content g \<and> tg_state h \<in> IMMUTABLE_STATES"
  by (rule pg_graph_engine.reachable_sealed [OF pg_graph_engineI [OF assms(1)] assms(5,2,2,3,4,6-8)])

text \<open>C28: over the same sequences of requests the repository never fails to read a graph back, and every graph it returns satisfies the
  invariant of the aggregate and belongs to the tenant that asked.\<close>

theorem stored_graphs_are_well_formed:
  assumes "graph_engine_laws en" and "gs_repository sv = pg_graph_repository en" and "no_graphs en (tx_db u)"
    and "graph_runs sv (canonical_tenant en) u v" and "canonical_tenant en t"
  shows "\<exists>r. find_by_id en i t (tx_db v) = Inr r \<and> (\<forall>g. r = Some g \<longrightarrow> graph_ok g \<and> tg_graph_id g = i \<and> tg_tenant_id g = t)"
  by (rule pg_graph_engine.reachable_ok [OF pg_graph_engineI [OF assms(1)] assms(2-5)])

text \<open>C29: requests of other tenants change nothing of what a tenant's graphs contain.\<close>

theorem tenants_graphs_are_isolated:
  assumes "graph_engine_laws en" and "gs_repository sv = pg_graph_repository en" and "no_graphs en (tx_db u)"
    and "graph_runs sv (canonical_tenant en) u v" and "graph_runs sv (\<lambda>s. canonical_tenant en s \<and> s \<noteq> t) v w" and "canonical_tenant en t"
  shows "graphs_view en (tx_db w) i t = graphs_view en (tx_db v) i t"
  by (rule pg_graph_engine.reachable_isolated [OF pg_graph_engineI [OF assms(1)] assms(2-6)])


text \<open>A save that is not the successor of the stored version raises \<open>OptimisticLockConflict\<close> with the expected and the actual version
  and changes no row: of two writers that loaded the same version, the second fails.\<close>

theorem stale_save_conflicts:
  assumes "graph_engine_laws en" and "find_by_id en (tg_graph_id g) (tg_tenant_id g) db = Inr (Some h)" and "2 \<le> tg_row_version g"
    and "tg_row_version g \<noteq> tg_row_version h + 1"
  shows "\<exists>db'. save en ids g db =
      Raise (DomainFailure (OptimisticLockConflict (uuid_str (tg_graph_id g)) (tg_row_version g - 1) (tg_row_version h))) db' \<and>
    rows (ge_graphs en) (gb_graphs db') = rows (ge_graphs en) (gb_graphs db) \<and> gb_tasks db' = gb_tasks db \<and> gb_dependencies db' = gb_dependencies db"
  by (rule pg_graph_engine.save_stale [OF pg_graph_engineI [OF assms(1)] assms(2-4)])

text \<open>A new graph reads back. When the generated identifier is not in use, the input is valid, and the session can load a relationship
  on access, \<open>create_task_graph\<close> returns a DTO and \<open>get_task_graph\<close> then returns the same DTO.\<close>

theorem created_graph_reads_back:
  assumes "graph_engine_laws en" and "gs_repository sv = pg_graph_repository en" and "no_graphs en (tx_db u)"
    and "graph_runs sv (canonical_tenant en) u w" and "canonical_tenant en (cg_tenant_id cmd)"
    and "ge_lazy_load en = None" and "\<And>d. ge_commit en d = Inr d"
    and "\<forall>m \<in># rows (ge_graphs en) (gb_graphs (tx_db w)). gm_id m \<noteq> gf_graph_id fr" and "uint (gf_graph_id fr) \<noteq> 0"
    and "strip (cg_name cmd) \<noteq> []" and "length (cg_name cmd) \<le> 512" and "0 < cg_engagement_window_seconds cmd"
  shows "\<exists>dto w' w''. create_task_graph sv fr cmd w = Return dto w' \<and> get_task_graph sv (cg_tenant_id cmd) (gf_graph_id fr) w' = Return (Some dto) w''"
  by (rule pg_graph_engine.reachable_create [OF pg_graph_engineI [OF assms(1)] assms(2-12)])

text \<open>With a session that cannot load a relationship on access, no graph is ever stored: \<open>save\<close> reads the relationships of the row it has
  just added, so from an empty database every \<open>create_task_graph\<close> raises and every sequence of requests leaves it empty.\<close>

theorem no_graph_is_stored_without_lazy_loading:
  assumes "graph_engine_laws en" and "ge_lazy_load en = Some e" and "gs_repository sv = pg_graph_repository en" and "no_graphs en (tx_db u)"
    and "graph_runs sv (canonical_tenant en) u v"
  shows "no_graphs en (tx_db v) \<and> (\<exists>x w. create_task_graph sv fr cmd v = Raise x w)"
proof -
  note engine = pg_graph_engineI [OF assms(1)]
  have "no_graphs en (tx_db v)" by (rule pg_graph_engine.lazy_runs [OF engine assms(2,3,5,4)])
  with pg_graph_engine.lazy_create [OF engine assms(2,3) this] show ?thesis by blast
qed


text \<open>A graph that left the editable states is never signed a second time: the request raises and changes neither the database nor the
  security graph. So where the security graph fails after the commit of the first request, no later request writes the graph there.\<close>

theorem signing_is_not_repeated:
  fixes sv :: "('s, 'p, 'x) graph_service"
  assumes "gr_find_by_id (gs_repository sv) (sn_graph_id cmd) (sn_tenant_id cmd) (tx_db w) = Inr (Some g)" and "tg_state g \<in> IMMUTABLE_STATES"
  shows "\<exists>e w'. sign_task_graph sv fr cmd w = Raise e w' \<and> tx_db w' = tx_db w \<and> tx_ports w' = tx_ports w"
proof -
  have "\<exists>e. sign (sn_tenant_id cmd) by' sig now h = Raise e h" if "gr_find_by_id (gs_repository sv) (sn_graph_id cmd) (sn_tenant_id cmd) (tx_db w) = Inr (Some h)" for by' sig now h
    using that assms by (auto simp: graph_call_simps immutable_iff)
  then have "\<exists>e. update_graph sv fr (sn_graph_id cmd) (sn_tenant_id cmd) (sign (sn_tenant_id cmd) by' sig (gf_now fr)) w = Raise e (w\<lparr>tx_session := tx_db w\<rparr>)" for by' sig
    by (rule update_graph_raises)
  then have upd: "\<exists>e w'. and_then (update_graph sv fr (sn_graph_id cmd) (sn_tenant_id cmd) (sign (sn_tenant_id cmd) by' sig (gf_now fr))) f w = Raise e w' \<and>
      tx_db w' = tx_db w \<and> tx_ports w' = tx_ports w" for by' sig f
    using and_then_raise by (metis (no_types, lifting) transaction.select_convs(1,3) transaction.surjective transaction.update_convs(2))
  show ?thesis
    unfolding sign_task_graph_def by (intro attempt_raises upd)
qed

section \<open>Witnesses\<close>

definition sample_fresh :: "uuid \<Rightarrow> uuid \<Rightarrow> datetime \<Rightarrow> graph_fresh" where
  "sample_fresh g t now = \<lparr>gf_now = now, gf_graph_id = g, gf_task_id = t, gf_row_ids = (\<lambda>n. of_nat (100 + n))\<rparr>"

definition wait_command :: AddTaskCommand where
  "wait_command = \<lparr>at_tenant_id = digits_of 5, at_graph_id = 7, at_task_type = ''WaitTask'', at_name = ''wait'', at_criticality = ''Required'',
     at_timeout_seconds = 60, at_technique_id = None, at_technique_name = None, at_technique_parameters = None,
     at_human_approval_timeout_seconds = None, at_human_approval_required_role = None, at_human_approval_default_on_timeout = None,
     at_human_approval_timeout_justification = None, at_barrier_task_group_id = None, at_rollback_task_ref_id = None,
     at_rollback_technique_id = None, at_rollback_not_possible = False, at_rollback_not_possible_reason = None, at_task_group_id = None\<rparr>"

lemma strips: "strip ''wait'' = ''wait''" "strip ''op'' = ''op''" "strip ''sig'' = ''sig''" by code_simp+

lemmas graph_service_defs = list_graph_service_def TaskGraphContainer_def start_world_def empty_graphs_def empty_adapter_def sample_fresh_def
  pg_graph_repository_def list_graph_engine_def list_table_def transacted_defs save_graph_def load_graph_eq change_graph_def update_graph_def
  as_str_def validate_str_def require_def strips strip_g pop_events_def ignore_result_def
lemmas graph_storage_defs = save_def add_graph_def update_row_def sync_children_def insert_row_def scalar_one_or_none_def has_key_def
   graph_to_model_def task_to_model_def dependency_to_model_def graph_update_def find_by_id_def one_graph_def graph_to_domain_def task_to_domain_def
   when_truthy_def truthy_def python_def CampaignTaskId_def make_TaskGraphVersion_def TaskGraphId_def


definition create_command :: CreateTaskGraphCommand where
  "create_command = \<lparr>cg_tenant_id = digits_of 5, cg_name = ''g'', cg_description = [], cg_engagement_window_seconds = 3600\<rparr>"

definition sign_command :: SignTaskGraphCommand where
  "sign_command = \<lparr>sn_tenant_id = digits_of 5, sn_graph_id = 7, sn_signed_by = ''op'', sn_signature = ''sig''\<rparr>"

definition graph_row :: "TaskGraphState \<Rightarrow> (string \<times> datetime \<times> string) option \<Rightarrow> int \<Rightarrow> TaskGraphModel" where
  "graph_row state seal version = \<lparr>gm_id = 7, gm_tenant_id = 5, gm_name = ''g'', gm_description = [], gm_state = TaskGraphState_value state,
     gm_version_major = 1, gm_version_minor = 0, gm_version_patch = 0, gm_engagement_window_seconds = 3600,
     gm_signed_by = map_option fst seal, gm_signed_at = map_option (fst \<circ> snd) seal, gm_signature = map_option (snd \<circ> snd) seal,
     gm_created_at = 10, gm_updated_at = 9 + version, gm_row_version = version\<rparr>"

definition task_row :: CampaignTaskModel where
  "task_row = \<lparr>cm_id = 1, cm_graph_id = 7, cm_tenant_id = 5, cm_task_type = ''WaitTask'', cm_name = ''wait'', cm_criticality = ''Required'',
     cm_timeout_seconds = 60, cm_operation_template_json = None, cm_human_approval_config_json = None, cm_barrier_policy_json = None,
     cm_rollback_config_json = None, cm_task_group_id = None, cm_rollback_task_ref_id = None\<rparr>"

definition stage :: "TaskGraphState \<Rightarrow> (string \<times> datetime \<times> string) option \<Rightarrow> int \<Rightarrow> CampaignTaskModel list \<Rightarrow> list_graphs" where
  "stage state seal version tasks = \<lparr>gb_graphs = [graph_row state seal version], gb_tasks = tasks, gb_dependencies = []\<rparr>"

definition stage_graph :: "TaskGraphState \<Rightarrow> (string \<times> datetime \<times> string) option \<Rightarrow> int \<Rightarrow> CampaignTask list \<Rightarrow> TaskGraph" where
  "stage_graph state seal version tasks = \<lparr>tg_graph_id = 7, tg_tenant_id = digits_of 5, tg_name = ''g'', tg_description = [], tg_state = state,
     tg_version = \<lparr>tv_major = 1, tv_minor = 0, tv_patch = 0\<rparr>, tg_tasks = tasks, tg_dependencies = [], tg_engagement_window_seconds = 3600,
     tg_signed_by = map_option fst seal, tg_signed_at = map_option (fst \<circ> snd) seal, tg_signature = map_option (snd \<circ> snd) seal,
     tg_created_at = 10, tg_updated_at = 9 + version, tg_row_version = version, tg_pending_events = []\<rparr>"

lemmas stage_defs = stage_def graph_row_def task_row_def stage_graph_def sample_task_def

lemma stage_find:
  "find_by_id list_graph_engine 7 (digits_of 5) (stage st sg n []) = Inr (Some (stage_graph st sg n []))"
  "find_by_id list_graph_engine 7 (digits_of 5) (stage st sg n [task_row]) = Inr (Some (stage_graph st sg n [sample_task 1]))"
  using graph_enums(1) [of WAIT_TASK] graph_enums(2) [of REQUIRED]
  by (simp_all add: stage_defs graph_storage_defs list_graph_engine_def list_table_def if_some_def)

lemma stage_save:
  assumes "n = m + 1" and "1 \<le> m"
  shows "save list_graph_engine ids (stage_graph st sg n [sample_task 1]\<lparr>tg_pending_events := es\<rparr>) (stage st' sg' m []) = Return () (stage st sg n [task_row])"
    "save list_graph_engine ids (stage_graph st sg n [sample_task 1]\<lparr>tg_pending_events := es\<rparr>) (stage st' sg' m [task_row]) = Return () (stage st sg n [task_row])"
  using assms by (simp_all add: stage_defs graph_storage_defs list_graph_engine_def list_table_def)

lemma sample_selectors:
  "gf_now (sample_fresh g t now) = now" "at_tenant_id wait_command = digits_of 5" "at_graph_id wait_command = 7"
  by (simp_all add: sample_fresh_def wait_command_def)

lemma stage_repository:
  "gs_repository list_graph_service = pg_graph_repository list_graph_engine" "gs_graph_port list_graph_service = Some StubAdapter"
  by (simp_all add: list_graph_service_def TaskGraphContainer_def)

lemmas stage_simps = stage_repository pg_graph_repository_def stage_find stage_save list_graph_engine_def [THEN arg_cong [of _ _ ge_commit]]
  transacted_defs save_graph_def load_graph_eq change_graph_def update_graph_def sample_selectors ignore_result_final

lemma request_create:
  assumes "tx_db w = empty_graphs"
  shows "tx_db (final (perform list_graph_service (Request_Graph (sample_fresh 7 0 10) create_command) w)) = stage DRAFT None 1 []"
  using assms
  by (simp add: create_command_def create_task_graph_def create_def emit_def assign_def graph_service_defs graph_storage_defs stage_defs)

lemma request_task:
  assumes "tx_db w = stage DRAFT None 1 []"
  shows "tx_db (final (perform list_graph_service (Request_Task (sample_fresh 0 1 11) wait_command) w)) = stage DRAFT None 2 [task_row]"
proof -
  have build: "build_task (sample_fresh 0 1 11) wait_command = (Inr (sample_task 1) :: 'x graph_error + _)"
    by (simp add: build_task_def wait_command_def sample_fresh_def parse_task_type_def parse_criticality_def enum_or_invalid_def
      operation_template_of_def human_approval_config_of_def barrier_policy_of_def rollback_task_ref_of_def rollback_config_of_def
      require_def as_str_def validate_str_def strips sample_task_def when_truthy_def truthy_def python_def CampaignTaskId_def)
  have exec: "TaskGraph_Model.add_task (digits_of 5) (sample_task 1) 11 (stage_graph DRAFT None 1 []) =
    Return () (stage_graph DRAFT None 2 [sample_task 1]\<lparr>tg_pending_events := [\<lparr>ev_occurred_at = 11, ev_tenant_id = digits_of 5, ev_aggregate_id = uuid_str 7,
      ev_aggregate_type = ''TaskGraph'', ev_payload = TaskAdded (uuid_str 1) ''WaitTask'' ''Required''\<rparr>]\<rparr>)"
    by (simp add: graph_call_simps stage_graph_def sample_task_def task_ids_def IMMUTABLE_STATES_def strips)
  show ?thesis using assms
    by (simp add: add_task_def build exec stage_simps pop_events_def)
qed

lemma request_validation:
  assumes "tx_db w = stage DRAFT None 2 [task_row]"
  shows "tx_db (final (perform list_graph_service (Request_Validation (sample_fresh 0 0 12) (digits_of 5) 7) w)) = stage VALIDATED None 3 [task_row]"
proof -
  have "validate_graph (stage_graph DRAFT None 2 [sample_task 1]) = []" by code_simp
  then have exec: "validate (digits_of 5) validate_graph 12 (stage_graph DRAFT None 2 [sample_task 1]) =
    Return () (stage_graph VALIDATED None 3 [sample_task 1]\<lparr>tg_pending_events := [\<lparr>ev_occurred_at = 12, ev_tenant_id = digits_of 5, ev_aggregate_id = uuid_str 7,
      ev_aggregate_type = ''TaskGraph'', ev_payload = TaskGraphValidated 1 0\<rparr>]\<rparr>)"
    by (simp add: graph_call_simps stage_graph_def)
  show ?thesis using assms
    by (simp add: validate_task_graph_def exec stage_simps pop_events_def catching_validation_failed_def)
qed

lemma request_signature:
  assumes "tx_db w = stage VALIDATED None 3 [task_row]"
  shows "\<exists>w'. sign_task_graph list_graph_service (sample_fresh 0 0 13) sign_command w = Return () w' \<and> tx_db w' = stage SIGNED (Some (''op'', 13, ''sig'')) 4 [task_row]"
proof -
  have exec: "sign (digits_of 5) ''op'' ''sig'' 13 (stage_graph VALIDATED None 3 [sample_task 1]) =
    Return () (stage_graph SIGNED (Some (''op'', 13, ''sig'')) 4 [sample_task 1]\<lparr>tg_pending_events := [\<lparr>ev_occurred_at = 13, ev_tenant_id = digits_of 5, ev_aggregate_id = uuid_str 7,
      ev_aggregate_type = ''TaskGraph'', ev_payload = TaskGraphSigned ''op'' (TaskGraphVersion_str \<lparr>tv_major = 1, tv_minor = 0, tv_patch = 0\<rparr>)\<rparr>]\<rparr>)"
    by (simp add: graph_call_simps stage_graph_def strips)
  show ?thesis using assms
    by (simp add: sign_task_graph_def and_then_def [of "update_graph _ _ _ _ _"] exec stage_simps pop_events_def sign_command_def as_str_def validate_str_def
      strips write_graph_ontology_eq)
qed

lemma canonical_digits: "canonical_tenant list_graph_engine (digits_of u)"
  by (simp add: canonical_tenant_def list_graph_engine_def)

definition validated_world :: "(list_graphs, StubTaskGraphGraphWriteAdapter, TaskGraphEvent event) transaction" where
  "validated_world = final (perform list_graph_service (Request_Validation (sample_fresh 0 0 12) (digits_of 5) 7)
     (final (perform list_graph_service (Request_Task (sample_fresh 0 1 11) wait_command)
     (final (perform list_graph_service (Request_Graph (sample_fresh 7 0 10) create_command) start_world)))))"

definition signed_world :: "(list_graphs, StubTaskGraphGraphWriteAdapter, TaskGraphEvent event) transaction" where
  "signed_world = final (perform list_graph_service (Request_Signature (sample_fresh 0 0 13) sign_command) validated_world)"

lemma validated_world_db: "tx_db validated_world = stage VALIDATED None 3 [task_row]"
  unfolding validated_world_def by (intro request_validation request_task request_create) (simp add: start_world_def)

lemma start_world_empty: "no_graphs list_graph_engine (tx_db start_world)"
  by (simp add: no_graphs_def start_world_def empty_graphs_def list_graph_engine_def)

lemma signed_world_db: "tx_db signed_world = stage SIGNED (Some (''op'', 13, ''sig'')) 4 [task_row]"
  using request_signature [OF validated_world_db] by (auto simp: signed_world_def)

lemma signed_world_runs: "graph_runs list_graph_service (canonical_tenant list_graph_engine) start_world signed_world"
  unfolding signed_world_def validated_world_def
  by (intro run_request run_start) (simp_all add: canonical_digits sample_selectors create_command_def sign_command_def stage_repository
    pg_graph_repository_def list_graphs.no_graphs_find [OF start_world_empty])

lemma signed_world_find: "find_by_id list_graph_engine 7 (digits_of 5) (tx_db signed_world) = Inr (Some (stage_graph SIGNED (Some (''op'', 13, ''sig'')) 4 [sample_task 1]))"
  by (simp add: signed_world_db stage_find)

theorem stored_signature_is_final_witness:
  "\<exists>h. find_by_id list_graph_engine 7 (digits_of 5) (tx_db (final (perform list_graph_service (Request_Activation (sample_fresh 0 0 14) (digits_of 5) 7) signed_world))) = Inr (Some h) \<and>
    sealed_content h = sealed_content (stage_graph SIGNED (Some (''op'', 13, ''sig'')) 4 [sample_task 1]) \<and> tg_state h \<in> IMMUTABLE_STATES"
proof (rule stored_signature_is_final [OF list_graph_engine_laws stage_repository(1) start_world_empty signed_world_runs _ canonical_digits signed_world_find])
  show "graph_runs list_graph_service (canonical_tenant list_graph_engine) signed_world
      (final (perform list_graph_service (Request_Activation (sample_fresh 0 0 14) (digits_of 5) 7) signed_world))"
    by (intro run_request run_start) (simp_all add: canonical_digits)
  show "tg_state (stage_graph SIGNED (Some (''op'', 13, ''sig'')) 4 [sample_task 1]) \<in> IMMUTABLE_STATES" by (simp add: stage_graph_def immutable_iff)
qed

theorem stored_graphs_are_well_formed_witness:
  "graph_ok (stage_graph SIGNED (Some (''op'', 13, ''sig'')) 4 [sample_task 1])"
  using stored_graphs_are_well_formed [OF list_graph_engine_laws stage_repository(1) start_world_empty signed_world_runs canonical_digits [of 5], of 7] signed_world_find
  by auto

theorem tenants_graphs_are_isolated_witness:
  "graphs_view list_graph_engine (tx_db (final (perform list_graph_service (Request_Activation (sample_fresh 0 0 14) (digits_of 6) 7) signed_world))) 7 (digits_of 5) =
   graphs_view list_graph_engine (tx_db signed_world) 7 (digits_of 5)"
proof (rule tenants_graphs_are_isolated [OF list_graph_engine_laws stage_repository(1) start_world_empty signed_world_runs _ canonical_digits])
  have "digits_of 6 \<noteq> digits_of 5"
  proof
    assume "digits_of 6 = digits_of 5"
    then have "of_digits (digits_of 6) = of_digits (digits_of 5)" by simp
    then show False by simp
  qed
  then show "graph_runs list_graph_service (\<lambda>s. canonical_tenant list_graph_engine s \<and> s \<noteq> digits_of 5) signed_world
      (final (perform list_graph_service (Request_Activation (sample_fresh 0 0 14) (digits_of 6) 7) signed_world))"
    by (intro run_request run_start) (simp_all add: canonical_digits)
qed


theorem stale_save_conflicts_witness:
  "\<exists>db'. save list_graph_engine (\<lambda>_. 0) (stage_graph SIGNED (Some (''op'', 13, ''sig'')) 4 [sample_task 1]) (tx_db signed_world) =
     Raise (DomainFailure (OptimisticLockConflict (uuid_str 7) 3 4)) db'"
  using stale_save_conflicts [OF list_graph_engine_laws, of "stage_graph SIGNED (Some (''op'', 13, ''sig'')) 4 [sample_task 1]" "tx_db signed_world"] signed_world_find
  by (fastforce simp: stage_graph_def)

theorem created_graph_reads_back_witness:
  "\<exists>dto w' w''. create_task_graph list_graph_service (sample_fresh 8 0 20) create_command signed_world = Return dto w' \<and>
     get_task_graph list_graph_service (digits_of 5) 8 w' = Return (Some dto) w''"
  using created_graph_reads_back [OF list_graph_engine_laws stage_repository(1) start_world_empty signed_world_runs, of create_command "sample_fresh 8 0 20"]
  by (simp add: create_command_def canonical_tenant_def sample_fresh_def list_graph_engine_def signed_world_db stage_defs strip_g)

definition async_graph_engine :: "(TaskGraphModel list, CampaignTaskModel list, TaskDependencyModel list, string) graph_engine" where
  "async_graph_engine = list_graph_engine\<lparr>ge_lazy_load := Some ''MissingGreenlet''\<rparr>"

theorem no_graph_is_stored_without_lazy_loading_witness:
  "\<exists>x w. create_task_graph (TaskGraphContainer (pg_graph_repository async_graph_engine)) (sample_fresh 7 0 10) create_command start_world = Raise x w"
proof -
  have "graph_engine_laws async_graph_engine" "ge_lazy_load async_graph_engine = Some ''MissingGreenlet''"
    "gs_repository (TaskGraphContainer (pg_graph_repository async_graph_engine)) = pg_graph_repository async_graph_engine"
    "no_graphs async_graph_engine (tx_db start_world)"
    using list_graph_engine_laws start_world_empty
    by (simp_all add: async_graph_engine_def graph_engine_laws_def TaskGraphContainer_def no_graphs_def)
  from no_graph_is_stored_without_lazy_loading [OF this run_start] show ?thesis by blast
qed


theorem signing_is_not_repeated_witness:
  "\<exists>e w'. sign_task_graph list_graph_service (sample_fresh 0 0 15) sign_command signed_world = Raise e w' \<and> tx_db w' = tx_db signed_world"
  using signing_is_not_repeated [of list_graph_service sign_command signed_world, OF _, of "stage_graph SIGNED (Some (''op'', 13, ''sig'')) 4 [sample_task 1]"] signed_world_find
  by (fastforce simp: sign_command_def stage_repository pg_graph_repository_def stage_graph_def immutable_iff)

end
