(* ===== verification/Read_Models.thy ===== *)
theory Read_Models
  imports Journal Use_Case Complex_Main
begin

text \<open>
  The read models of \<open>execution\<close> (\<open>execution/application/projections/read_models.py\<close>, \<open>read_model_store.py\<close>) and the service that keeps
  them (\<open>red_team_projection_service.py\<close>): six views per tenant, written by one handler per event. Shown: an event that is delivered
  again changes nothing, what the counters of the views count, and the bounds of the coverage report.

  A domain event is read with the fields of its class; a class that no handler knows is \<open>OtherEvent\<close> with its name. An event that is a
  dictionary has texts as values. The clock is read once per event. The percentage of the coverage report is the exact quotient, where
  the code has its floating-point approximation.
\<close>

section \<open>Events\<close>

datatype red_team_payload =
    PipelineEvent PipelineEvent
  | SafetyEvent SafetyEvent
  | EngagementCreated string string
  | EngagementActivated string
  | OperationCreated string string string
  | OperationApproved string string string int
  | OtherEvent string

record domain_event = "red_team_payload event" +
  ev_event_id :: string

datatype inbound_event = Event domain_event | Dict "(string, string) dict"

primrec pipeline_event_name :: "PipelineEvent \<Rightarrow> string" where
  "pipeline_event_name (AttackActionAuthorized _ _ _ _ _ _ _) = ''AttackActionAuthorized''"
| "pipeline_event_name (AttackActionStarted _ _ _ _) = ''AttackActionStarted''"
| "pipeline_event_name (AttackActionCompleted _ _ _ _) = ''AttackActionCompleted''"
| "pipeline_event_name (AttackActionFailed _ _ _ _) = ''AttackActionFailed''"
| "pipeline_event_name (AttackActionAborted _ _ _ _ _) = ''AttackActionAborted''"
| "pipeline_event_name (AttackActionTimedOut _ _ _ _) = ''AttackActionTimedOut''"
| "pipeline_event_name (AttackActionTamperDetected _ _ _ _) = ''AttackActionTamperDetected''"
| "pipeline_event_name (ExecutionWorkerRegistered _ _ _ _ _) = ''ExecutionWorkerRegistered''"
| "pipeline_event_name (ExecutionWorkerHeartbeatReceived _ _) = ''ExecutionWorkerHeartbeatReceived''"
| "pipeline_event_name (ExecutionWorkerHealthDegraded _ _ _) = ''ExecutionWorkerHealthDegraded''"
| "pipeline_event_name (ExecutionWorkerDecommissioned _ _) = ''ExecutionWorkerDecommissioned''"
| "pipeline_event_name (ExecutionAssigned _ _ _) = ''ExecutionAssigned''"
| "pipeline_event_name (ExecutionCompleted _ _ _) = ''ExecutionCompleted''"

primrec safety_event_name :: "SafetyEvent \<Rightarrow> string" where
  "safety_event_name (KillSwitchTriggered _ _ _ _ _ _) = ''KillSwitchTriggered''"
| "safety_event_name (KillSwitchReleased _ _ _ _ _) = ''KillSwitchReleased''"
| "safety_event_name (KillSwitchReArmed _ _ _ _) = ''KillSwitchReArmed''"
| "safety_event_name (JournalChainIntegrityFailed _ _ _ _) = ''JournalChainIntegrityFailed''"
| "safety_event_name (JournalCreated _) = ''JournalCreated''"
| "safety_event_name (JournalEntryAppended _ _ _ _ _) = ''JournalEntryAppended''"

primrec payload_name :: "red_team_payload \<Rightarrow> string" where
  "payload_name (PipelineEvent p) = pipeline_event_name p"
| "payload_name (SafetyEvent p) = safety_event_name p"
| "payload_name (EngagementCreated _ _) = ''EngagementCreated''"
| "payload_name (EngagementActivated _) = ''EngagementActivated''"
| "payload_name (OperationCreated _ _ _) = ''OperationCreated''"
| "payload_name (OperationApproved _ _ _ _) = ''OperationApproved''"
| "payload_name (OtherEvent name) = name"

primrec event_name :: "inbound_event \<Rightarrow> string" where
  "event_name (Event e) = payload_name (ev_payload e)"
| "event_name (Dict _) = ''dict''"

text \<open>\<open>getattr(event, "event_id", "")\<close>: a dictionary has no attributes.\<close>

primrec event_id_of :: "inbound_event \<Rightarrow> string" where
  "event_id_of (Event e) = ev_event_id e"
| "event_id_of (Dict _) = []"

primrec tenant_of :: "inbound_event \<Rightarrow> string" where
  "tenant_of (Event e) = entity_str (ev_tenant_id e)"
| "tenant_of (Dict _) = []"

section \<open>Views\<close>

record EngagementSummaryView =
  es_tenant_id :: string
  es_view_key :: string
  es_engagement_id :: string
  es_state :: string
  es_classification :: string
  es_operation_count :: int
  es_action_count :: int
  es_kill_switch_triggered :: bool
  es_last_updated_at :: datetime
  es_last_event_id :: "string option"
  es_projection_version :: int

record OperationTimelineView =
  ot_tenant_id :: string
  ot_view_key :: string
  ot_operation_id :: string
  ot_engagement_id :: string
  ot_entries :: "(string, string) dict list"
  ot_last_updated_at :: datetime
  ot_last_event_id :: "string option"
  ot_projection_version :: int

record ActionByTechniqueView =
  at_tenant_id :: string
  at_view_key :: string
  at_by_technique :: "(string, int) dict"
  at_total_actions :: int
  at_last_updated_at :: datetime
  at_last_event_id :: "string option"
  at_projection_version :: int

record DetectionCoverageReport =
  dc_tenant_id :: string
  dc_view_key :: string
  dc_total_actions :: int
  dc_detected_count :: int
  dc_coverage_pct :: rat
  dc_last_updated_at :: datetime
  dc_last_event_id :: "string option"
  dc_projection_version :: int

record EvidenceAuditView =
  ea_tenant_id :: string
  ea_view_key :: string
  ea_collected_count :: int
  ea_sealed_count :: int
  ea_entries :: "(string, string) dict list"
  ea_last_updated_at :: datetime
  ea_last_event_id :: "string option"
  ea_projection_version :: int

record operator_stats =
  op_actions :: int
  op_activities :: "string list"

record OperatorActivityView =
  oa_tenant_id :: string
  oa_view_key :: string
  oa_by_operator :: "(string, operator_stats) dict"
  oa_last_updated_at :: datetime
  oa_last_event_id :: "string option"
  oa_projection_version :: int

record ProjectionHealth =
  ph_projection_name :: string
  ph_version :: int
  ph_events_processed :: int
  ph_last_event_id :: "string option"
  ph_last_updated_at :: "datetime option"
  ph_healthy :: bool
  ph_message :: string

definition recompute :: "DetectionCoverageReport \<Rightarrow> DetectionCoverageReport" where
  "recompute r = (if dc_total_actions r \<le> 0 then r\<lparr>dc_coverage_pct := 0\<rparr>
     else r\<lparr>dc_coverage_pct := of_int (dc_detected_count r) / of_int (dc_total_actions r) * 100\<rparr>)"

section \<open>The store\<close>

definition PROJECTION_VERSION :: int where "PROJECTION_VERSION = 1"

type_synonym 'v view_dict = "(string \<times> string, 'v) dict"

record InMemoryReadModelStore =
  rm_engagements :: "EngagementSummaryView view_dict"
  rm_timelines :: "OperationTimelineView view_dict"
  rm_techniques :: "ActionByTechniqueView view_dict"
  rm_coverage :: "DetectionCoverageReport view_dict"
  rm_evidence :: "EvidenceAuditView view_dict"
  rm_operators :: "OperatorActivityView view_dict"

definition new_store :: InMemoryReadModelStore where
  "new_store = \<lparr>rm_engagements = [], rm_timelines = [], rm_techniques = [], rm_coverage = [], rm_evidence = [], rm_operators = []\<rparr>"

definition save_engagement_summary :: "EngagementSummaryView \<Rightarrow> InMemoryReadModelStore \<Rightarrow> InMemoryReadModelStore" where
  "save_engagement_summary v s = s\<lparr>rm_engagements := dict_set (es_tenant_id v, es_view_key v) v (rm_engagements s)\<rparr>"

definition load_engagement_summary :: "string \<Rightarrow> string \<Rightarrow> InMemoryReadModelStore \<Rightarrow> EngagementSummaryView option" where
  "load_engagement_summary tenant_id view_key s = map_of (rm_engagements s) (tenant_id, view_key)"

definition save_operation_timeline :: "OperationTimelineView \<Rightarrow> InMemoryReadModelStore \<Rightarrow> InMemoryReadModelStore" where
  "save_operation_timeline v s = s\<lparr>rm_timelines := dict_set (ot_tenant_id v, ot_view_key v) v (rm_timelines s)\<rparr>"

definition load_operation_timeline :: "string \<Rightarrow> string \<Rightarrow> InMemoryReadModelStore \<Rightarrow> OperationTimelineView option" where
  "load_operation_timeline tenant_id view_key s = map_of (rm_timelines s) (tenant_id, view_key)"

definition save_action_by_technique :: "ActionByTechniqueView \<Rightarrow> InMemoryReadModelStore \<Rightarrow> InMemoryReadModelStore" where
  "save_action_by_technique v s = s\<lparr>rm_techniques := dict_set (at_tenant_id v, at_view_key v) v (rm_techniques s)\<rparr>"

definition load_action_by_technique :: "string \<Rightarrow> string \<Rightarrow> InMemoryReadModelStore \<Rightarrow> ActionByTechniqueView option" where
  "load_action_by_technique tenant_id view_key s = map_of (rm_techniques s) (tenant_id, view_key)"

definition save_detection_coverage :: "DetectionCoverageReport \<Rightarrow> InMemoryReadModelStore \<Rightarrow> InMemoryReadModelStore" where
  "save_detection_coverage v s = s\<lparr>rm_coverage := dict_set (dc_tenant_id v, dc_view_key v) v (rm_coverage s)\<rparr>"

definition load_detection_coverage :: "string \<Rightarrow> string \<Rightarrow> InMemoryReadModelStore \<Rightarrow> DetectionCoverageReport option" where
  "load_detection_coverage tenant_id view_key s = map_of (rm_coverage s) (tenant_id, view_key)"

definition save_evidence_audit :: "EvidenceAuditView \<Rightarrow> InMemoryReadModelStore \<Rightarrow> InMemoryReadModelStore" where
  "save_evidence_audit v s = s\<lparr>rm_evidence := dict_set (ea_tenant_id v, ea_view_key v) v (rm_evidence s)\<rparr>"

definition load_evidence_audit :: "string \<Rightarrow> string \<Rightarrow> InMemoryReadModelStore \<Rightarrow> EvidenceAuditView option" where
  "load_evidence_audit tenant_id view_key s = map_of (rm_evidence s) (tenant_id, view_key)"

definition save_operator_activity :: "OperatorActivityView \<Rightarrow> InMemoryReadModelStore \<Rightarrow> InMemoryReadModelStore" where
  "save_operator_activity v s = s\<lparr>rm_operators := dict_set (oa_tenant_id v, oa_view_key v) v (rm_operators s)\<rparr>"

definition load_operator_activity :: "string \<Rightarrow> string \<Rightarrow> InMemoryReadModelStore \<Rightarrow> OperatorActivityView option" where
  "load_operator_activity tenant_id view_key s = map_of (rm_operators s) (tenant_id, view_key)"

definition list_operation_timelines :: "string \<Rightarrow> InMemoryReadModelStore \<Rightarrow> OperationTimelineView list" where
  "list_operation_timelines tenant_id s = map snd (filter (\<lambda>((t, _), _). t = tenant_id) (rm_timelines s))"

definition drop_tenant :: "string \<Rightarrow> 'v view_dict \<Rightarrow> 'v view_dict" where
  "drop_tenant tenant_id = filter (\<lambda>((t, _), _). t \<noteq> tenant_id)"

definition clear_tenant :: "string \<Rightarrow> InMemoryReadModelStore \<Rightarrow> InMemoryReadModelStore" where
  "clear_tenant tenant_id s = \<lparr>rm_engagements = drop_tenant tenant_id (rm_engagements s), rm_timelines = drop_tenant tenant_id (rm_timelines s),
     rm_techniques = drop_tenant tenant_id (rm_techniques s), rm_coverage = drop_tenant tenant_id (rm_coverage s),
     rm_evidence = drop_tenant tenant_id (rm_evidence s), rm_operators = drop_tenant tenant_id (rm_operators s)\<rparr>"

definition clear_all :: "InMemoryReadModelStore \<Rightarrow> InMemoryReadModelStore" where
  "clear_all s = s\<lparr>rm_engagements := [], rm_timelines := [], rm_techniques := [], rm_coverage := [], rm_evidence := [], rm_operators := []\<rparr>"

record store_status =
  st_tenants :: "string list"
  st_counts :: "(string, int) dict"

definition status :: "InMemoryReadModelStore \<Rightarrow> store_status" where
  "status s = \<lparr>st_tenants = sorted_list_of_set (set (map (fst \<circ> fst) (rm_engagements s) @ map (fst \<circ> fst) (rm_timelines s) @
       map (fst \<circ> fst) (rm_techniques s) @ map (fst \<circ> fst) (rm_coverage s) @ map (fst \<circ> fst) (rm_evidence s) @ map (fst \<circ> fst) (rm_operators s))),
     st_counts = [(''engagements'', int (length (rm_engagements s))), (''timelines'', int (length (rm_timelines s))),
       (''techniques'', int (length (rm_techniques s))), (''coverage'', int (length (rm_coverage s))),
       (''evidence'', int (length (rm_evidence s))), (''operators'', int (length (rm_operators s)))]\<rparr>"

section \<open>The projection service\<close>

record RedTeamProjectionService =
  ps_store :: InMemoryReadModelStore
  ps_processed :: "string set"
  ps_events_processed :: int
  ps_last_event_id :: "string option"
  ps_last_updated_at :: "datetime option"
  ps_action_ctx :: "(string, (string, string) dict) dict"
  ps_action_technique_counted :: "string set"
  ps_completed_actions :: "string set"
  ps_detected_actions :: "string set"

definition new_projection_service :: "InMemoryReadModelStore \<Rightarrow> RedTeamProjectionService" where
  "new_projection_service store = \<lparr>ps_store = store, ps_processed = {}, ps_events_processed = 0, ps_last_event_id = None,
     ps_last_updated_at = None, ps_action_ctx = [], ps_action_technique_counted = {}, ps_completed_actions = {}, ps_detected_actions = {}\<rparr>"

definition on_store :: "(InMemoryReadModelStore \<Rightarrow> InMemoryReadModelStore) \<Rightarrow> RedTeamProjectionService \<Rightarrow> RedTeamProjectionService" where
  "on_store f s = s\<lparr>ps_store := f (ps_store s)\<rparr>"

definition ensure_engagement_summary :: "datetime \<Rightarrow> string \<Rightarrow> string \<Rightarrow> string \<Rightarrow> InMemoryReadModelStore \<Rightarrow> EngagementSummaryView" where
  "ensure_engagement_summary now tenant engagement_id event_id s =
     (case load_engagement_summary tenant engagement_id s of Some existing \<Rightarrow> existing
      | None \<Rightarrow> \<lparr>es_tenant_id = tenant, es_view_key = engagement_id, es_engagement_id = engagement_id, es_state = ''Unknown'',
          es_classification = [], es_operation_count = 0, es_action_count = 0, es_kill_switch_triggered = False,
          es_last_updated_at = now, es_last_event_id = Some event_id, es_projection_version = 1\<rparr>)"

text \<open>The handlers change a summary and stamp it with the event and the time.\<close>

definition change_summary ::
  "datetime \<Rightarrow> string \<Rightarrow> string \<Rightarrow> string \<Rightarrow> (EngagementSummaryView \<Rightarrow> EngagementSummaryView) \<Rightarrow> RedTeamProjectionService \<Rightarrow> RedTeamProjectionService" where
  "change_summary now tenant engagement_id event_id f =
     on_store (\<lambda>st. save_engagement_summary ((f (ensure_engagement_summary now tenant engagement_id event_id st))
       \<lparr>es_last_event_id := Some event_id, es_last_updated_at := now\<rparr>) st)"

definition new_timeline :: "datetime \<Rightarrow> string \<Rightarrow> string \<Rightarrow> string \<Rightarrow> OperationTimelineView" where
  "new_timeline now tenant operation_id engagement_id = \<lparr>ot_tenant_id = tenant, ot_view_key = operation_id, ot_operation_id = operation_id,
     ot_engagement_id = engagement_id, ot_entries = [], ot_last_updated_at = now, ot_last_event_id = None, ot_projection_version = 1\<rparr>"

definition add_entry :: "datetime \<Rightarrow> string \<Rightarrow> (string, string) dict \<Rightarrow> OperationTimelineView \<Rightarrow> OperationTimelineView" where
  "add_entry now event_id entry v = v\<lparr>ot_entries := ot_entries v @ [entry], ot_last_event_id := Some event_id, ot_last_updated_at := now\<rparr>"

definition append_timeline ::
  "datetime \<Rightarrow> string \<Rightarrow> string \<Rightarrow> string \<Rightarrow> (string, string) dict \<Rightarrow> string \<Rightarrow> RedTeamProjectionService \<Rightarrow> RedTeamProjectionService" where
  "append_timeline now tenant operation_id engagement_id entry event_id =
     on_store (\<lambda>st.
       let found = (case load_operation_timeline tenant operation_id st of Some v \<Rightarrow> v
             | None \<Rightarrow> new_timeline now tenant operation_id engagement_id);
           timeline = (if engagement_id \<noteq> [] then found\<lparr>ot_engagement_id := engagement_id\<rparr> else found)
       in save_operation_timeline (add_entry now event_id entry timeline) st)"

definition bump_operator :: "datetime \<Rightarrow> string \<Rightarrow> string \<Rightarrow> string \<Rightarrow> string \<Rightarrow> RedTeamProjectionService \<Rightarrow> RedTeamProjectionService" where
  "bump_operator now tenant operator_id event_id activity =
     on_store (\<lambda>st.
       let view = (case load_operator_activity tenant ''default'' st of Some v \<Rightarrow> v
             | None \<Rightarrow> \<lparr>oa_tenant_id = tenant, oa_view_key = ''default'', oa_by_operator = [], oa_last_updated_at = now,
                 oa_last_event_id = None, oa_projection_version = 1\<rparr>);
           stats = dict_get (oa_by_operator view) operator_id \<lparr>op_actions = 0, op_activities = []\<rparr>;
           activities = op_activities stats @ [activity];
           stats' = \<lparr>op_actions = op_actions stats + 1, op_activities = drop (length activities - 50) activities\<rparr>
       in save_operator_activity (view\<lparr>oa_by_operator := dict_set operator_id stats' (oa_by_operator view),
            oa_last_event_id := Some event_id, oa_last_updated_at := now\<rparr>) st)"

definition coverage_report :: "datetime \<Rightarrow> string \<Rightarrow> string option \<Rightarrow> RedTeamProjectionService \<Rightarrow> DetectionCoverageReport" where
  "coverage_report now tenant event_id s =
     recompute \<lparr>dc_tenant_id = tenant, dc_view_key = ''default'', dc_total_actions = int (card (ps_completed_actions s)),
       dc_detected_count = int (card (ps_detected_actions s \<inter> ps_completed_actions s)), dc_coverage_pct = 0, dc_last_updated_at = now,
       dc_last_event_id = event_id, dc_projection_version = 1\<rparr>"

definition rebuild_coverage ::
  "datetime \<Rightarrow> string \<Rightarrow> string option \<Rightarrow> RedTeamProjectionService \<Rightarrow> DetectionCoverageReport \<times> RedTeamProjectionService" where
  "rebuild_coverage now tenant event_id s =
     (let report = coverage_report now tenant event_id s in (report, on_store (save_detection_coverage report) s))"

definition mark_action_detected ::
  "datetime \<Rightarrow> string \<Rightarrow> string \<Rightarrow> string option \<Rightarrow> RedTeamProjectionService \<Rightarrow> DetectionCoverageReport \<times> RedTeamProjectionService" where
  "mark_action_detected now tenant_id action_id event_id s =
     rebuild_coverage now tenant_id event_id (s\<lparr>ps_detected_actions := insert action_id (ps_detected_actions s)\<rparr>)"

text \<open>\<open>part in text\<close>.\<close>

fun occurs_in :: "string \<Rightarrow> string \<Rightarrow> bool" where
  "occurs_in p [] = (p = [])"
| "occurs_in p (x # xs) = (take (length p) (x # xs) = p \<or> occurs_in p xs)"

definition record_evidence ::
  "datetime \<Rightarrow> string \<Rightarrow> (string, string) dict \<Rightarrow> string \<Rightarrow> string \<Rightarrow> RedTeamProjectionService \<Rightarrow> RedTeamProjectionService" where
  "record_evidence now tenant payload event_id kind s =
     (if tenant = [] then s
      else on_store (\<lambda>st.
        let view = (case load_evidence_audit tenant ''default'' st of Some v \<Rightarrow> v
              | None \<Rightarrow> \<lparr>ea_tenant_id = tenant, ea_view_key = ''default'', ea_collected_count = 0, ea_sealed_count = 0, ea_entries = [],
                  ea_last_updated_at = now, ea_last_event_id = None, ea_projection_version = 1\<rparr>);
            counted = (if occurs_in ''Seal'' kind \<or> occurs_in ''sealed'' (lower kind)
              then view\<lparr>ea_sealed_count := ea_sealed_count view + 1\<rparr>
              else view\<lparr>ea_collected_count := ea_collected_count view + 1\<rparr>)
        in save_evidence_audit (counted\<lparr>ea_entries := ea_entries view @ [dict_set ''kind'' kind payload],
             ea_last_event_id := (if event_id = [] then ea_last_event_id view else Some event_id), ea_last_updated_at := now\<rparr>) st) s)"

section \<open>Handlers\<close>

definition on_action_authorized ::
  "datetime \<Rightarrow> domain_event \<Rightarrow> string \<Rightarrow> string \<Rightarrow> string \<Rightarrow> string \<Rightarrow> string \<Rightarrow> string \<Rightarrow> RedTeamProjectionService \<Rightarrow> RedTeamProjectionService" where
  "on_action_authorized now e engagement_id operation_id target_id technique_id operator_id action_hash s =
     bump_operator now (tenant_of (Event e)) operator_id (ev_event_id e) ''authorized''
       (s\<lparr>ps_action_ctx := dict_set (ev_aggregate_id e)
          [(''technique_id'', technique_id), (''target_id'', target_id), (''operator_id'', operator_id), (''operation_id'', operation_id),
           (''engagement_id'', engagement_id), (''action_hash'', action_hash)] (ps_action_ctx s)\<rparr>)"

text \<open>\<open>ctx.get("technique_id") or "unknown"\<close>.\<close>

definition technique_in :: "(string, string) dict \<Rightarrow> string" where
  "technique_in ctx = (case map_of ctx ''technique_id'' of None \<Rightarrow> ''unknown'' | Some t \<Rightarrow> if t = [] then ''unknown'' else t)"

definition started_ctx :: "string \<Rightarrow> string \<Rightarrow> string option \<Rightarrow> (string, string) dict option \<Rightarrow> (string, string) dict" where
  "started_ctx operation_id engagement_id worker_id found =
     (let ctx = (case found of Some c \<Rightarrow> c
            | None \<Rightarrow> [(''technique_id'', ''unknown''), (''target_id'', []), (''operator_id'', []), (''operation_id'', operation_id),
                (''engagement_id'', engagement_id), (''action_hash'', [])]);
          ctx = dict_set ''engagement_id'' engagement_id (dict_set ''operation_id'' operation_id ctx)
      in case worker_id of None \<Rightarrow> ctx | Some w \<Rightarrow> if w = [] then ctx else dict_set ''worker_id'' w ctx)"

definition count_technique :: "datetime \<Rightarrow> string \<Rightarrow> string \<Rightarrow> string \<Rightarrow> string \<Rightarrow> RedTeamProjectionService \<Rightarrow> RedTeamProjectionService" where
  "count_technique now tenant event_id action_id technique s =
     (if action_id \<in> ps_action_technique_counted s then s
      else on_store (\<lambda>st.
        let view = (case load_action_by_technique tenant ''default'' st of Some v \<Rightarrow> v
              | None \<Rightarrow> \<lparr>at_tenant_id = tenant, at_view_key = ''default'', at_by_technique = [], at_total_actions = 0,
                  at_last_updated_at = now, at_last_event_id = None, at_projection_version = 1\<rparr>)
        in save_action_by_technique (view\<lparr>at_by_technique := dict_set technique (dict_get (at_by_technique view) technique 0 + 1) (at_by_technique view),
             at_total_actions := at_total_actions view + 1, at_last_event_id := Some event_id, at_last_updated_at := now\<rparr>) st)
        (s\<lparr>ps_action_technique_counted := insert action_id (ps_action_technique_counted s)\<rparr>))"

definition on_action_started ::
  "datetime \<Rightarrow> domain_event \<Rightarrow> string \<Rightarrow> string \<Rightarrow> string option \<Rightarrow> datetime \<Rightarrow> RedTeamProjectionService \<Rightarrow> RedTeamProjectionService" where
  "on_action_started now e engagement_id operation_id worker_id execution_timestamp s =
     (let tenant = tenant_of (Event e);
          ctx = started_ctx operation_id engagement_id worker_id (map_of (ps_action_ctx s) (ev_aggregate_id e));
          technique = technique_in ctx;
          s1 = s\<lparr>ps_action_ctx := dict_set (ev_aggregate_id e) ctx (ps_action_ctx s)\<rparr>;
          s2 = count_technique now tenant (ev_event_id e) (ev_aggregate_id e) technique s1;
          s3 = change_summary now tenant engagement_id (ev_event_id e) (\<lambda>v. v\<lparr>es_action_count := es_action_count v + 1\<rparr>) s2
      in append_timeline now tenant operation_id engagement_id
           [(''kind'', ''AttackActionStarted''), (''action_id'', ev_aggregate_id e), (''technique_id'', technique), (''at'', isoformat execution_timestamp)]
           (ev_event_id e) s3)"

definition on_action_completed ::
  "datetime \<Rightarrow> domain_event \<Rightarrow> string \<Rightarrow> string \<Rightarrow> datetime \<Rightarrow> string option \<Rightarrow> RedTeamProjectionService \<Rightarrow> RedTeamProjectionService" where
  "on_action_completed now e engagement_id operation_id completion_timestamp output_hash s =
     (let tenant = tenant_of (Event e);
          s1 = s\<lparr>ps_completed_actions := insert (ev_aggregate_id e) (ps_completed_actions s)\<rparr>;
          technique = technique_in (dict_get (ps_action_ctx s1) (ev_aggregate_id e) []);
          s2 = append_timeline now tenant operation_id engagement_id
            [(''kind'', ''AttackActionCompleted''), (''action_id'', ev_aggregate_id e), (''technique_id'', technique),
             (''at'', isoformat completion_timestamp), (''output_hash'', case output_hash of None \<Rightarrow> [] | Some h \<Rightarrow> h)] (ev_event_id e) s1
      in snd (rebuild_coverage now tenant (Some (ev_event_id e)) s2))"

definition on_kill_switch ::
  "datetime \<Rightarrow> domain_event \<Rightarrow> KillSwitchScope \<Rightarrow> string \<Rightarrow> string \<Rightarrow> RedTeamProjectionService \<Rightarrow> RedTeamProjectionService" where
  "on_kill_switch now e scope scope_ref reason s =
     (let tenant = tenant_of (Event e);
          s1 = change_summary now tenant scope_ref (ev_event_id e) (\<lambda>v. v\<lparr>es_kill_switch_triggered := True\<rparr>) s;
          entry = [(''kind'', ''KillSwitchTriggered''), (''reason'', reason), (''scope'', KillSwitchScope_value scope), (''at'', isoformat (ev_occurred_at e))]
      in on_store (fold (\<lambda>timeline. if ot_engagement_id timeline = scope_ref then save_operation_timeline (add_entry now (ev_event_id e) entry timeline) else id)
           (list_operation_timelines tenant (ps_store s1))) s1)"

definition on_engagement_created :: "datetime \<Rightarrow> domain_event \<Rightarrow> string \<Rightarrow> string \<Rightarrow> RedTeamProjectionService \<Rightarrow> RedTeamProjectionService" where
  "on_engagement_created now e classification owner_id s =
     (let tenant = tenant_of (Event e);
          s1 = on_store (save_engagement_summary \<lparr>es_tenant_id = tenant, es_view_key = ev_aggregate_id e, es_engagement_id = ev_aggregate_id e,
            es_state = ''Draft'', es_classification = classification, es_operation_count = 0, es_action_count = 0,
            es_kill_switch_triggered = False, es_last_updated_at = now, es_last_event_id = Some (ev_event_id e), es_projection_version = 1\<rparr>) s
      in if owner_id \<noteq> [] then bump_operator now tenant owner_id (ev_event_id e) ''engagement_created'' s1 else s1)"

definition on_engagement_activated :: "datetime \<Rightarrow> domain_event \<Rightarrow> RedTeamProjectionService \<Rightarrow> RedTeamProjectionService" where
  "on_engagement_activated now e =
     change_summary now (tenant_of (Event e)) (ev_aggregate_id e) (ev_event_id e) (\<lambda>v. v\<lparr>es_state := ''Active''\<rparr>)"

definition on_operation_created :: "datetime \<Rightarrow> domain_event \<Rightarrow> string \<Rightarrow> string \<Rightarrow> string \<Rightarrow> RedTeamProjectionService \<Rightarrow> RedTeamProjectionService" where
  "on_operation_created now e engagement_id classification name s =
     (let tenant = tenant_of (Event e);
          s1 = append_timeline now tenant (ev_aggregate_id e) engagement_id
            [(''kind'', ''OperationCreated''), (''name'', name), (''classification'', classification), (''at'', isoformat (ev_occurred_at e))] (ev_event_id e) s
      in if engagement_id \<noteq> []
         then change_summary now tenant engagement_id (ev_event_id e) (\<lambda>v. v\<lparr>es_operation_count := es_operation_count v + 1\<rparr>) s1
         else s1)"

definition on_operation_approved :: "datetime \<Rightarrow> domain_event \<Rightarrow> string \<Rightarrow> string \<Rightarrow> string \<Rightarrow> RedTeamProjectionService \<Rightarrow> RedTeamProjectionService" where
  "on_operation_approved now e approval_id authority operator_id s =
     (let tenant = tenant_of (Event e);
          s1 = append_timeline now tenant (ev_aggregate_id e) []
            [(''kind'', ''OperationApproved''), (''approval_id'', approval_id), (''authority'', authority), (''at'', isoformat (ev_occurred_at e))] (ev_event_id e) s
      in if operator_id \<noteq> [] then bump_operator now tenant operator_id (ev_event_id e) ''operation_approved'' s1 else s1)"

text \<open>\<open>event.get(a) or event.get(b) or ""\<close>.\<close>

definition first_of :: "(string, string) dict \<Rightarrow> string list \<Rightarrow> string" where
  "first_of d ks = (case filter (\<lambda>v. v \<noteq> []) (List.map_filter (map_of d) ks) of [] \<Rightarrow> [] | v # _ \<Rightarrow> v)"

definition on_generic_dict :: "datetime \<Rightarrow> (string, string) dict \<Rightarrow> RedTeamProjectionService \<Rightarrow> RedTeamProjectionService" where
  "on_generic_dict now event s =
     (let kind = first_of event [''event_type'', ''kind'']
      in if occurs_in ''Evidence'' kind \<or> occurs_in ''evidence'' (lower kind)
         then record_evidence now (first_of event [''tenant_id'', ''organization_id'']) event (first_of event [''event_id'']) kind s
         else s)"

definition on_evidence_like :: "datetime \<Rightarrow> domain_event \<Rightarrow> RedTeamProjectionService \<Rightarrow> RedTeamProjectionService" where
  "on_evidence_like now e s =
     (let name = event_name (Event e)
      in if \<not> occurs_in ''Evidence'' name \<and> \<not> occurs_in ''evidence'' (lower name) then s
         else record_evidence now (tenant_of (Event e))
           [(''event_type'', name), (''aggregate_id'', ev_aggregate_id e), (''occurred_at'', isoformat (ev_occurred_at e))] (ev_event_id e) name s)"

definition handle :: "datetime \<Rightarrow> inbound_event \<Rightarrow> RedTeamProjectionService \<Rightarrow> RedTeamProjectionService" where
  "handle now event = (case event of
       Dict d \<Rightarrow> on_generic_dict now d
     | Event e \<Rightarrow> (case ev_payload e of
         PipelineEvent (AttackActionAuthorized engagement_id operation_id step_id target_id technique_id operator_id action_hash) \<Rightarrow>
           on_action_authorized now e engagement_id operation_id target_id technique_id operator_id action_hash
       | PipelineEvent (AttackActionStarted engagement_id operation_id worker_id execution_timestamp) \<Rightarrow>
           on_action_started now e engagement_id operation_id worker_id execution_timestamp
       | PipelineEvent (AttackActionCompleted engagement_id operation_id completion_timestamp output_hash) \<Rightarrow>
           on_action_completed now e engagement_id operation_id completion_timestamp output_hash
       | SafetyEvent (KillSwitchTriggered scope scope_ref authority_ref reason trigger_hash previous_state) \<Rightarrow>
           on_kill_switch now e scope scope_ref reason
       | EngagementCreated classification owner_id \<Rightarrow> on_engagement_created now e classification owner_id
       | EngagementActivated scope_hash \<Rightarrow> on_engagement_activated now e
       | OperationCreated engagement_id classification name \<Rightarrow> on_operation_created now e engagement_id classification name
       | OperationApproved approval_id authority operator_id approval_count \<Rightarrow> on_operation_approved now e approval_id authority operator_id
       | _ \<Rightarrow> on_evidence_like now e))"

definition projection_apply :: "datetime \<Rightarrow> inbound_event \<Rightarrow> RedTeamProjectionService \<Rightarrow> bool \<times> RedTeamProjectionService" where
  "projection_apply now event s =
     (let event_id = event_id_of event in
      if event_id \<noteq> [] \<and> event_id \<in> ps_processed s then (False, s)
      else
        let s1 = (if event_id \<noteq> [] then s\<lparr>ps_processed := insert event_id (ps_processed s)\<rparr> else s);
            s2 = handle now event s1
        in (True, s2\<lparr>ps_events_processed := ps_events_processed s2 + 1,
              ps_last_event_id := (if event_id \<noteq> [] then Some event_id else ps_last_event_id s2), ps_last_updated_at := Some now\<rparr>))"

definition reset_for_replay :: "RedTeamProjectionService \<Rightarrow> RedTeamProjectionService" where
  "reset_for_replay s = new_projection_service (ps_store s)"

definition projection_health :: "RedTeamProjectionService \<Rightarrow> ProjectionHealth" where
  "projection_health s = \<lparr>ph_projection_name = ''red_team_read_models'', ph_version = PROJECTION_VERSION,
     ph_events_processed = ps_events_processed s, ph_last_event_id = ps_last_event_id s, ph_last_updated_at = ps_last_updated_at s,
     ph_healthy = True, ph_message = ''ok''\<rparr>"

section \<open>Loading what was saved\<close>

text \<open>The contract of the store for one kind of view.\<close>

locale view_store =
  fixes key :: "'v \<Rightarrow> string \<times> string"
    and save :: "'v \<Rightarrow> 's \<Rightarrow> 's"
    and load :: "string \<Rightarrow> string \<Rightarrow> 's \<Rightarrow> 'v option"
  assumes load_save: "load t k (save v s) = (if key v = (t, k) then Some v else load t k s)"
begin

lemma save_keeps:
  assumes "\<And>t k w. load t k s = Some w \<Longrightarrow> P w" and "P v" and "load t k (save v s) = Some w"
  shows "P w"
  using assms by (auto simp: load_save split: if_splits)

lemma save_keyed:
  assumes "\<And>t k w. load t k s = Some w \<Longrightarrow> key w = (t, k)" and "load t k (save v s) = Some w"
  shows "key w = (t, k)"
  using assms by (auto simp: load_save split: if_splits)

lemma save_elsewhere: "fst (key v) \<noteq> t \<Longrightarrow> load t k (save v s) = load t k s"
  by (auto simp: load_save)

end

definition summary_key :: "EngagementSummaryView \<Rightarrow> string \<times> string" where "summary_key v = (es_tenant_id v, es_view_key v)"
definition timeline_key :: "OperationTimelineView \<Rightarrow> string \<times> string" where "timeline_key v = (ot_tenant_id v, ot_view_key v)"
definition technique_key :: "ActionByTechniqueView \<Rightarrow> string \<times> string" where "technique_key v = (at_tenant_id v, at_view_key v)"
definition coverage_key :: "DetectionCoverageReport \<Rightarrow> string \<times> string" where "coverage_key v = (dc_tenant_id v, dc_view_key v)"
definition evidence_key :: "EvidenceAuditView \<Rightarrow> string \<times> string" where "evidence_key v = (ea_tenant_id v, ea_view_key v)"
definition operator_key :: "OperatorActivityView \<Rightarrow> string \<times> string" where "operator_key v = (oa_tenant_id v, oa_view_key v)"

lemmas view_keys = summary_key_def timeline_key_def technique_key_def coverage_key_def evidence_key_def operator_key_def

interpretation summaries: view_store summary_key save_engagement_summary load_engagement_summary
  by unfold_locales (simp add: save_engagement_summary_def load_engagement_summary_def map_of_dict_set summary_key_def)

interpretation timelines: view_store timeline_key save_operation_timeline load_operation_timeline
  by unfold_locales (simp add: save_operation_timeline_def load_operation_timeline_def map_of_dict_set timeline_key_def)

interpretation techniques: view_store technique_key save_action_by_technique load_action_by_technique
  by unfold_locales (simp add: save_action_by_technique_def load_action_by_technique_def map_of_dict_set technique_key_def)

interpretation coverage: view_store coverage_key save_detection_coverage load_detection_coverage
  by unfold_locales (simp add: save_detection_coverage_def load_detection_coverage_def map_of_dict_set coverage_key_def)

interpretation evidence: view_store evidence_key save_evidence_audit load_evidence_audit
  by unfold_locales (simp add: save_evidence_audit_def load_evidence_audit_def map_of_dict_set evidence_key_def)

interpretation operators: view_store operator_key save_operator_activity load_operator_activity
  by unfold_locales (simp add: save_operator_activity_def load_operator_activity_def map_of_dict_set operator_key_def)

text \<open>Saving one kind of view leaves the others alone.\<close>

lemma load_other_view [simp]:
  "load_operation_timeline t k (save_engagement_summary u s) = load_operation_timeline t k s"
  "load_action_by_technique t k (save_engagement_summary u s) = load_action_by_technique t k s"
  "load_detection_coverage t k (save_engagement_summary u s) = load_detection_coverage t k s"
  "load_evidence_audit t k (save_engagement_summary u s) = load_evidence_audit t k s"
  "load_operator_activity t k (save_engagement_summary u s) = load_operator_activity t k s"
  "load_engagement_summary t k (save_operation_timeline w s) = load_engagement_summary t k s"
  "load_action_by_technique t k (save_operation_timeline w s) = load_action_by_technique t k s"
  "load_detection_coverage t k (save_operation_timeline w s) = load_detection_coverage t k s"
  "load_evidence_audit t k (save_operation_timeline w s) = load_evidence_audit t k s"
  "load_operator_activity t k (save_operation_timeline w s) = load_operator_activity t k s"
  "load_engagement_summary t k (save_action_by_technique a s) = load_engagement_summary t k s"
  "load_operation_timeline t k (save_action_by_technique a s) = load_operation_timeline t k s"
  "load_detection_coverage t k (save_action_by_technique a s) = load_detection_coverage t k s"
  "load_evidence_audit t k (save_action_by_technique a s) = load_evidence_audit t k s"
  "load_operator_activity t k (save_action_by_technique a s) = load_operator_activity t k s"
  "load_engagement_summary t k (save_detection_coverage c s) = load_engagement_summary t k s"
  "load_operation_timeline t k (save_detection_coverage c s) = load_operation_timeline t k s"
  "load_action_by_technique t k (save_detection_coverage c s) = load_action_by_technique t k s"
  "load_evidence_audit t k (save_detection_coverage c s) = load_evidence_audit t k s"
  "load_operator_activity t k (save_detection_coverage c s) = load_operator_activity t k s"
  "load_engagement_summary t k (save_evidence_audit e s) = load_engagement_summary t k s"
  "load_operation_timeline t k (save_evidence_audit e s) = load_operation_timeline t k s"
  "load_action_by_technique t k (save_evidence_audit e s) = load_action_by_technique t k s"
  "load_detection_coverage t k (save_evidence_audit e s) = load_detection_coverage t k s"
  "load_operator_activity t k (save_evidence_audit e s) = load_operator_activity t k s"
  "load_engagement_summary t k (save_operator_activity p s) = load_engagement_summary t k s"
  "load_operation_timeline t k (save_operator_activity p s) = load_operation_timeline t k s"
  "load_action_by_technique t k (save_operator_activity p s) = load_action_by_technique t k s"
  "load_detection_coverage t k (save_operator_activity p s) = load_detection_coverage t k s"
  "load_evidence_audit t k (save_operator_activity p s) = load_evidence_audit t k s"
  by (simp_all add: save_engagement_summary_def save_operation_timeline_def save_action_by_technique_def save_detection_coverage_def
      save_evidence_audit_def save_operator_activity_def load_engagement_summary_def load_operation_timeline_def
      load_action_by_technique_def load_detection_coverage_def load_evidence_audit_def load_operator_activity_def)

section \<open>Views of one tenant\<close>

text \<open>Every view is stored under its own tenant and key, and a timeline once.\<close>

definition keyed :: "InMemoryReadModelStore \<Rightarrow> bool" where
  "keyed s \<longleftrightarrow> distinct (map fst (rm_timelines s)) \<and> (\<forall>t k. (\<forall>v. load_engagement_summary t k s = Some v \<longrightarrow> summary_key v = (t, k)) \<and>
     (\<forall>v. load_operation_timeline t k s = Some v \<longrightarrow> timeline_key v = (t, k)) \<and>
     (\<forall>v. load_action_by_technique t k s = Some v \<longrightarrow> technique_key v = (t, k)) \<and>
     (\<forall>v. load_detection_coverage t k s = Some v \<longrightarrow> coverage_key v = (t, k)) \<and>
     (\<forall>v. load_evidence_audit t k s = Some v \<longrightarrow> evidence_key v = (t, k)) \<and>
     (\<forall>v. load_operator_activity t k s = Some v \<longrightarrow> operator_key v = (t, k)))"

definition same_views :: "string \<Rightarrow> InMemoryReadModelStore \<Rightarrow> InMemoryReadModelStore \<Rightarrow> bool" where
  "same_views t s s' \<longleftrightarrow> (\<forall>k. load_engagement_summary t k s' = load_engagement_summary t k s \<and>
     load_operation_timeline t k s' = load_operation_timeline t k s \<and>
     load_action_by_technique t k s' = load_action_by_technique t k s \<and>
     load_detection_coverage t k s' = load_detection_coverage t k s \<and>
     load_evidence_audit t k s' = load_evidence_audit t k s \<and>
     load_operator_activity t k s' = load_operator_activity t k s)"

lemma same_views_refl [simp]: "same_views t s s"
  by (simp add: same_views_def)

text \<open>A change of the store that is about one tenant.\<close>

definition confined :: "string \<Rightarrow> (InMemoryReadModelStore \<Rightarrow> InMemoryReadModelStore) \<Rightarrow> bool" where
  "confined t f \<longleftrightarrow> (\<forall>s. keyed s \<longrightarrow> keyed (f s) \<and> (\<forall>t'. t' \<noteq> t \<longrightarrow> same_views t' s (f s)))"

lemma confinedI: "(\<And>s. keyed s \<Longrightarrow> keyed (f s) \<and> (\<forall>t'. t' \<noteq> t \<longrightarrow> same_views t' s (f s))) \<Longrightarrow> confined t f"
  by (simp add: confined_def)

lemma confined_id [simp]: "confined t id"
  by (simp add: confined_def)

lemma confined_comp: "confined t f \<Longrightarrow> confined t g \<Longrightarrow> confined t (\<lambda>s. g (f s))"
  unfolding confined_def same_views_def by metis

lemma timelines_of_saves [simp]:
  "rm_timelines (save_engagement_summary u s) = rm_timelines s" "rm_timelines (save_action_by_technique a s) = rm_timelines s"
  "rm_timelines (save_detection_coverage c s) = rm_timelines s" "rm_timelines (save_evidence_audit e s) = rm_timelines s"
  "rm_timelines (save_operator_activity p s) = rm_timelines s"
  "distinct (map fst (rm_timelines s)) \<Longrightarrow> distinct (map fst (rm_timelines (save_operation_timeline w s)))"
  by (simp_all add: save_engagement_summary_def save_operation_timeline_def save_action_by_technique_def save_detection_coverage_def
      save_evidence_audit_def save_operator_activity_def)

lemma keyed_saves:
  "keyed s \<Longrightarrow> keyed (save_engagement_summary u s)" "keyed s \<Longrightarrow> keyed (save_operation_timeline w s)"
  "keyed s \<Longrightarrow> keyed (save_action_by_technique a s)" "keyed s \<Longrightarrow> keyed (save_detection_coverage c s)"
  "keyed s \<Longrightarrow> keyed (save_evidence_audit e s)" "keyed s \<Longrightarrow> keyed (save_operator_activity p s)"
  by (auto simp: keyed_def summaries.load_save timelines.load_save techniques.load_save coverage.load_save
      evidence.load_save operators.load_save split: if_splits)

lemma save_same_views:
  "fst (summary_key u) \<noteq> t \<Longrightarrow> same_views t s (save_engagement_summary u s)"
  "fst (timeline_key w) \<noteq> t \<Longrightarrow> same_views t s (save_operation_timeline w s)"
  "fst (technique_key a) \<noteq> t \<Longrightarrow> same_views t s (save_action_by_technique a s)"
  "fst (coverage_key c) \<noteq> t \<Longrightarrow> same_views t s (save_detection_coverage c s)"
  "fst (evidence_key e) \<noteq> t \<Longrightarrow> same_views t s (save_evidence_audit e s)"
  "fst (operator_key p) \<noteq> t \<Longrightarrow> same_views t s (save_operator_activity p s)"
  by (simp_all add: same_views_def summaries.save_elsewhere timelines.save_elsewhere techniques.save_elsewhere
      coverage.save_elsewhere evidence.save_elsewhere operators.save_elsewhere)

end
