(* ===== verification/Read_Model_Laws.thy ===== *)
theory Read_Model_Laws
  imports Read_Models
begin

text \<open>
  What the handlers of the projection service keep: the bookkeeping that decides whether an event is new, the views of other tenants,
  and the counters of the views.
\<close>

section \<open>Bookkeeping\<close>

lemma on_store_frame [simp]:
  "ps_processed (on_store f s) = ps_processed s" "ps_detected_actions (on_store f s) = ps_detected_actions s"
  "ps_completed_actions (on_store f s) = ps_completed_actions s" "ps_action_technique_counted (on_store f s) = ps_action_technique_counted s"
  "ps_action_ctx (on_store f s) = ps_action_ctx s" "ps_store (on_store f s) = f (ps_store s)"
  by (simp_all add: on_store_def)

lemmas writers = change_summary_def append_timeline_def bump_operator_def record_evidence_def rebuild_coverage_def count_technique_def

lemmas handlers = on_action_authorized_def on_action_started_def on_action_completed_def on_kill_switch_def on_engagement_created_def
  on_engagement_activated_def on_operation_created_def on_operation_approved_def on_generic_dict_def on_evidence_like_def

lemma writers_frame [simp]:
  "ps_processed (change_summary n t g i f s) = ps_processed s" "ps_detected_actions (change_summary n t g i f s) = ps_detected_actions s"
  "ps_completed_actions (change_summary n t g i f s) = ps_completed_actions s" "ps_action_ctx (change_summary n t g i f s) = ps_action_ctx s"
  "ps_action_technique_counted (change_summary n t g i f s) = ps_action_technique_counted s"
  "ps_processed (append_timeline n t a g x i s) = ps_processed s" "ps_detected_actions (append_timeline n t a g x i s) = ps_detected_actions s"
  "ps_completed_actions (append_timeline n t a g x i s) = ps_completed_actions s" "ps_action_ctx (append_timeline n t a g x i s) = ps_action_ctx s"
  "ps_action_technique_counted (append_timeline n t a g x i s) = ps_action_technique_counted s"
  "ps_processed (bump_operator n t a i b s) = ps_processed s" "ps_detected_actions (bump_operator n t a i b s) = ps_detected_actions s"
  "ps_completed_actions (bump_operator n t a i b s) = ps_completed_actions s" "ps_action_ctx (bump_operator n t a i b s) = ps_action_ctx s"
  "ps_action_technique_counted (bump_operator n t a i b s) = ps_action_technique_counted s"
  "ps_processed (record_evidence n t p i b s) = ps_processed s" "ps_detected_actions (record_evidence n t p i b s) = ps_detected_actions s"
  "ps_completed_actions (record_evidence n t p i b s) = ps_completed_actions s" "ps_action_ctx (record_evidence n t p i b s) = ps_action_ctx s"
  "ps_action_technique_counted (record_evidence n t p i b s) = ps_action_technique_counted s"
  "ps_processed (snd (rebuild_coverage n t j s)) = ps_processed s" "ps_detected_actions (snd (rebuild_coverage n t j s)) = ps_detected_actions s"
  "ps_completed_actions (snd (rebuild_coverage n t j s)) = ps_completed_actions s" "ps_action_ctx (snd (rebuild_coverage n t j s)) = ps_action_ctx s"
  "ps_action_technique_counted (snd (rebuild_coverage n t j s)) = ps_action_technique_counted s"
  "ps_processed (count_technique n t i a q s) = ps_processed s" "ps_detected_actions (count_technique n t i a q s) = ps_detected_actions s"
  "ps_completed_actions (count_technique n t i a q s) = ps_completed_actions s" "ps_action_ctx (count_technique n t i a q s) = ps_action_ctx s"
  by (simp_all add: writers Let_def)

lemma handlers_processed:
  "ps_processed (on_action_authorized n e a b c d f g s) = ps_processed s" "ps_processed (on_action_started n e a b w x s) = ps_processed s"
  "ps_processed (on_action_completed n e a b x h s) = ps_processed s" "ps_processed (on_kill_switch n e k a b s) = ps_processed s"
  "ps_processed (on_engagement_created n e a b s) = ps_processed s" "ps_processed (on_engagement_activated n e s) = ps_processed s"
  "ps_processed (on_operation_created n e a b c s) = ps_processed s" "ps_processed (on_operation_approved n e a b c s) = ps_processed s"
  "ps_processed (on_generic_dict n p s) = ps_processed s" "ps_processed (on_evidence_like n e s) = ps_processed s"
  by (simp_all add: handlers Let_def)

lemma handlers_detected:
  "ps_detected_actions (on_action_authorized n e a b c d f g s) = ps_detected_actions s" "ps_detected_actions (on_action_started n e a b w x s) = ps_detected_actions s"
  "ps_detected_actions (on_action_completed n e a b x h s) = ps_detected_actions s" "ps_detected_actions (on_kill_switch n e k a b s) = ps_detected_actions s"
  "ps_detected_actions (on_engagement_created n e a b s) = ps_detected_actions s" "ps_detected_actions (on_engagement_activated n e s) = ps_detected_actions s"
  "ps_detected_actions (on_operation_created n e a b c s) = ps_detected_actions s" "ps_detected_actions (on_operation_approved n e a b c s) = ps_detected_actions s"
  "ps_detected_actions (on_generic_dict n p s) = ps_detected_actions s" "ps_detected_actions (on_evidence_like n e s) = ps_detected_actions s"
  by (simp_all add: handlers Let_def)

lemma handle_processed [simp]: "ps_processed (handle now event s) = ps_processed s"
  by (simp add: handle_def handlers_processed split: inbound_event.splits red_team_payload.splits PipelineEvent.splits SafetyEvent.splits)

lemma handle_detected [simp]: "ps_detected_actions (handle now event s) = ps_detected_actions s"
  by (simp add: handle_def handlers_detected split: inbound_event.splits red_team_payload.splits PipelineEvent.splits SafetyEvent.splits)

lemma apply_processed:
  "ps_processed (snd (projection_apply now event s)) = (if event_id_of event = [] then ps_processed s else insert (event_id_of event) (ps_processed s))"
  by (auto simp: projection_apply_def Let_def)

lemma apply_detected [simp]: "ps_detected_actions (snd (projection_apply now event s)) = ps_detected_actions s"
  by (simp add: projection_apply_def Let_def)

definition apply_all :: "(datetime \<times> inbound_event) list \<Rightarrow> RedTeamProjectionService \<Rightarrow> RedTeamProjectionService" where
  "apply_all = fold (\<lambda>(now, event) s. snd (projection_apply now event s))"

lemma apply_all_simps [simp]:
  "apply_all [] s = s" "apply_all (x # xs) s = apply_all xs (snd (projection_apply (fst x) (snd x) s))"
  "apply_all (xs @ ys) s = apply_all ys (apply_all xs s)"
  by (simp_all add: apply_all_def case_prod_unfold)

lemma apply_all_processed: "ps_processed s \<subseteq> ps_processed (apply_all xs s)"
proof (induction xs arbitrary: s)
  case (Cons x xs)
  show ?case using Cons [of "snd (projection_apply (fst x) (snd x) s)"] by (auto simp: apply_processed split: if_splits)
qed simp

lemma apply_seen: "event_id_of event \<noteq> [] \<Longrightarrow> event_id_of event \<in> ps_processed s \<Longrightarrow> projection_apply now event s = (False, s)"
  by (simp add: projection_apply_def Let_def)

lemma apply_all_detected [simp]: "ps_detected_actions (apply_all xs s) = ps_detected_actions s"
  by (induction xs arbitrary: s) simp_all

section \<open>The views of other tenants\<close>

definition touches :: "string \<Rightarrow> (RedTeamProjectionService \<Rightarrow> RedTeamProjectionService) \<Rightarrow> bool" where
  "touches t f \<longleftrightarrow> (\<forall>s. keyed (ps_store s) \<longrightarrow> keyed (ps_store (f s)) \<and> (\<forall>t'. t' \<noteq> t \<longrightarrow> same_views t' (ps_store s) (ps_store (f s))))"

lemma touches_on_store: "confined t g \<Longrightarrow> touches t (on_store g)"
  by (simp add: touches_def confined_def)

lemma touches_quiet: "(\<And>s. ps_store (f s) = ps_store s) \<Longrightarrow> touches t f"
  by (simp add: touches_def)

lemma touches_if: "(c \<Longrightarrow> touches t f) \<Longrightarrow> (\<not> c \<Longrightarrow> touches t g) \<Longrightarrow> touches t (\<lambda>s. if c then f s else g s)"
  by (cases c) simp_all

lemma touches_id [simp]: "touches t (\<lambda>s. s)"
  by (simp add: touches_def)

lemma keyed_found:
  "keyed s \<Longrightarrow> load_engagement_summary t k s = Some v1 \<Longrightarrow> es_tenant_id v1 = t \<and> es_view_key v1 = k"
  "keyed s \<Longrightarrow> load_operation_timeline t k s = Some v2 \<Longrightarrow> ot_tenant_id v2 = t \<and> ot_view_key v2 = k"
  "keyed s \<Longrightarrow> load_action_by_technique t k s = Some v3 \<Longrightarrow> at_tenant_id v3 = t \<and> at_view_key v3 = k"
  "keyed s \<Longrightarrow> load_evidence_audit t k s = Some v5 \<Longrightarrow> ea_tenant_id v5 = t \<and> ea_view_key v5 = k"
  "keyed s \<Longrightarrow> load_operator_activity t k s = Some v6 \<Longrightarrow> oa_tenant_id v6 = t \<and> oa_view_key v6 = k"
  by (simp_all add: keyed_def view_keys)

lemma ensure_tenant: "keyed s \<Longrightarrow> es_tenant_id (ensure_engagement_summary n t g i s) = t"
  by (auto simp: ensure_engagement_summary_def keyed_found split: option.splits)

lemma confined_summary: "(\<And>v. es_tenant_id (f v) = es_tenant_id v) \<Longrightarrow>
    confined t (\<lambda>st. save_engagement_summary ((f (ensure_engagement_summary n t g i st))\<lparr>es_last_event_id := j, es_last_updated_at := n\<rparr>) st)"
  by (rule confinedI) (simp add: keyed_saves save_same_views summary_key_def ensure_tenant)

lemma change_summary_touches: "(\<And>v. es_tenant_id (f v) = es_tenant_id v) \<Longrightarrow> touches t (change_summary n t g i f)"
  unfolding change_summary_def by (intro touches_on_store confined_summary)

lemma append_timeline_touches: "touches t (append_timeline n t a g x i)"
  unfolding append_timeline_def Let_def
  by (intro touches_on_store confinedI)
    (auto simp: keyed_saves add_entry_def new_timeline_def timeline_key_def keyed_found split: option.splits intro!: save_same_views)

lemma bump_operator_touches: "touches t (bump_operator n t a i b)"
  unfolding bump_operator_def Let_def
  by (intro touches_on_store confinedI)
    (auto simp: keyed_saves operator_key_def keyed_found split: option.splits intro!: save_same_views)

lemma record_evidence_touches: "touches t (record_evidence n t p i b)"
  unfolding record_evidence_def Let_def
  by (intro touches_if touches_id touches_on_store confinedI)
    (auto simp: keyed_saves evidence_key_def keyed_found split: option.splits if_splits intro!: save_same_views)

lemma rebuild_coverage_touches: "touches t (\<lambda>s. snd (rebuild_coverage n t j s))"
  by (auto simp: touches_def rebuild_coverage_def Let_def keyed_saves coverage_report_def recompute_def coverage_key_def intro!: save_same_views)

lemma count_technique_touches: "touches t (count_technique n t i a q)"
  unfolding touches_def
  by (auto simp: count_technique_def Let_def keyed_saves technique_key_def keyed_found split: option.splits intro!: save_same_views)

definition unmoved :: "string \<Rightarrow> InMemoryReadModelStore \<Rightarrow> RedTeamProjectionService \<Rightarrow> bool" where
  "unmoved t st s \<longleftrightarrow> (keyed st \<longrightarrow> keyed (ps_store s) \<and> (\<forall>t'. t' \<noteq> t \<longrightarrow> same_views t' st (ps_store s)))"

lemma unmoved_start: "unmoved t (ps_store s) s"
  by (simp add: unmoved_def)

lemma unmoved_step: "touches t f \<Longrightarrow> unmoved t st s \<Longrightarrow> unmoved t st (f s)"
  unfolding touches_def unmoved_def same_views_def by metis

lemma unmoved_bookkeeping:
  "unmoved t st (s\<lparr>ps_action_ctx := c\<rparr>) \<longleftrightarrow> unmoved t st s" "unmoved t st (s\<lparr>ps_completed_actions := d\<rparr>) \<longleftrightarrow> unmoved t st s"
  "unmoved t st (s\<lparr>ps_processed := p\<rparr>) \<longleftrightarrow> unmoved t st s"
  "unmoved t st (s\<lparr>ps_events_processed := n, ps_last_event_id := i, ps_last_updated_at := u\<rparr>) \<longleftrightarrow> unmoved t st s"
  by (simp_all add: unmoved_def)

lemmas writers_unmoved = append_timeline_touches [THEN unmoved_step] bump_operator_touches [THEN unmoved_step]
  record_evidence_touches [THEN unmoved_step] rebuild_coverage_touches [THEN unmoved_step] count_technique_touches [THEN unmoved_step]
  change_summary_touches [THEN unmoved_step]

lemma kill_switch_timelines_touch:
  "touches t (\<lambda>s. on_store (fold (\<lambda>v. if ot_engagement_id v = g then save_operation_timeline (add_entry n i x v) else id)
     (list_operation_timelines t (ps_store s))) s)"
proof -
  have step: "keyed (fold F vs st) \<and> (\<forall>t'. t' \<noteq> t \<longrightarrow> same_views t' st0 (fold F vs st))"
    if "keyed st" "\<forall>t'. t' \<noteq> t \<longrightarrow> same_views t' st0 st" "\<forall>v \<in> set vs. ot_tenant_id v = t"
      and F: "F = (\<lambda>v. if ot_engagement_id v = g then save_operation_timeline (add_entry n i x v) else id)" for F vs st st0
    using that(1-3)
  proof (induction vs arbitrary: st)
    case (Cons v vs)
    have "keyed (F v st)" using Cons.prems by (simp add: F keyed_saves)
    moreover have "\<forall>t'. t' \<noteq> t \<longrightarrow> same_views t' st0 (F v st)"
      using Cons.prems save_same_views(2) [of "add_entry n i x v" _ st] by (auto simp: F same_views_def timeline_key_def add_entry_def)
    ultimately show ?case using Cons by simp
  qed simp
  have own: "ot_tenant_id v = t" if keyed: "keyed st" and v: "v \<in> set (list_operation_timelines t st)" for st v
  proof -
    obtain k where "((t, k), v) \<in> set (rm_timelines st)" using v by (auto simp: list_operation_timelines_def)
    then have "load_operation_timeline t k st = Some v" using keyed by (simp add: keyed_def load_operation_timeline_def)
    then show ?thesis using keyed keyed_found(2) by blast
  qed
  show ?thesis unfolding touches_def on_store_frame by (intro allI impI step [OF _ _ _ refl]) (auto intro: own)
qed

lemma handlers_unmoved:
  "unmoved (tenant_of (Event e)) (ps_store s) (on_action_authorized n e a b c d f g s)"
  "unmoved (tenant_of (Event e)) (ps_store s) (on_action_started n e a b w x s)"
  "unmoved (tenant_of (Event e)) (ps_store s) (on_action_completed n e a b x h s)"
  "unmoved (tenant_of (Event e)) (ps_store s) (on_kill_switch n e k a b s)"
  "unmoved (tenant_of (Event e)) (ps_store s) (on_engagement_activated n e s)"
  "unmoved (tenant_of (Event e)) (ps_store s) (on_operation_created n e a b c s)"
  "unmoved (tenant_of (Event e)) (ps_store s) (on_operation_approved n e a b c s)"
  "unmoved (tenant_of (Event e)) (ps_store s) (on_evidence_like n e s)"
  unfolding handlers Let_def
  by (simp_all add: unmoved_bookkeeping unmoved_start writers_unmoved kill_switch_timelines_touch [THEN unmoved_step])

lemma engagement_created_unmoved: "unmoved (tenant_of (Event e)) (ps_store s) (on_engagement_created n e a b s)"
proof -
  have "touches (tenant_of (Event e)) (on_store (save_engagement_summary v))" if "es_tenant_id v = tenant_of (Event e)" for v
    using that by (intro touches_on_store confinedI) (simp add: keyed_saves save_same_views summary_key_def)
  then show ?thesis unfolding on_engagement_created_def Let_def
    by (simp add: unmoved_start writers_unmoved unmoved_step)
qed

lemma handle_touches: "unmoved (tenant_of (Event e)) (ps_store s) (handle now (Event e) s)"
  unfolding handle_def inbound_event.case
  by (simp only: handlers_unmoved engagement_created_unmoved simp_thms split: red_team_payload.split PipelineEvent.split SafetyEvent.split)

lemma apply_touches: "unmoved (tenant_of (Event e)) (ps_store s) (snd (projection_apply now (Event e) s))"
  using handle_touches [of e "s\<lparr>ps_processed := insert (event_id_of (Event e)) (ps_processed s)\<rparr>" now] handle_touches [of e s now]
  by (auto simp: projection_apply_def Let_def unmoved_bookkeeping unmoved_start)

section \<open>Counters\<close>

lemma sum_dict_set:
  "sum_list (map (\<lambda>e. f (snd e)) (dict_set k v d)) = sum_list (map (\<lambda>e. f (snd e)) d) - (case map_of d k of None \<Rightarrow> 0 | Some w \<Rightarrow> f w) + (f v :: int)"
  unfolding dict_set_def by (induction d) auto

definition stats_ok :: "operator_stats \<Rightarrow> bool" where
  "stats_ok st \<longleftrightarrow> 0 \<le> op_actions st \<and> length (op_activities st) = min 50 (nat (op_actions st))"

definition report_ok :: "DetectionCoverageReport \<Rightarrow> bool" where
  "report_ok r \<longleftrightarrow> 0 \<le> dc_detected_count r \<and> dc_detected_count r \<le> dc_total_actions r \<and> 0 \<le> dc_coverage_pct r \<and> dc_coverage_pct r \<le> 100 \<and>
     dc_coverage_pct r * of_int (dc_total_actions r) = 100 * of_int (dc_detected_count r)"

definition technique_view_ok :: "ActionByTechniqueView \<Rightarrow> bool" where
  "technique_view_ok v \<longleftrightarrow> sum_list (map snd (at_by_technique v)) = at_total_actions v"

definition activity_ok :: "OperatorActivityView \<Rightarrow> bool" where
  "activity_ok v \<longleftrightarrow> (\<forall>i st. map_of (oa_by_operator v) i = Some st \<longrightarrow> stats_ok st)"

definition store_ok :: "InMemoryReadModelStore \<Rightarrow> bool" where
  "store_ok s \<longleftrightarrow> (\<forall>t k. (\<forall>v. load_action_by_technique t k s = Some v \<longrightarrow> technique_view_ok v) \<and>
     (\<forall>v. load_operator_activity t k s = Some v \<longrightarrow> activity_ok v) \<and> (\<forall>v. load_detection_coverage t k s = Some v \<longrightarrow> report_ok v))"

definition started_total :: "InMemoryReadModelStore \<Rightarrow> int" where
  "started_total s = sum_list (map (\<lambda>e. at_total_actions (snd e)) (rm_techniques s))"

definition service_ok :: "RedTeamProjectionService \<Rightarrow> bool" where
  "service_ok s \<longleftrightarrow> keyed (ps_store s) \<and> store_ok (ps_store s) \<and> finite (ps_action_technique_counted s) \<and> finite (ps_completed_actions s) \<and>
     started_total (ps_store s) = int (card (ps_action_technique_counted s))"

lemma coverage_report_ok: "finite (ps_completed_actions s) \<Longrightarrow> report_ok (coverage_report n t i s)"
proof -
  assume fin: "finite (ps_completed_actions s)"
  then have le: "card (ps_detected_actions s \<inter> ps_completed_actions s) \<le> card (ps_completed_actions s)" by (simp add: card_mono)
  show ?thesis
  proof (cases "card (ps_completed_actions s) = 0")
    case True
    then show ?thesis using le by (simp add: report_ok_def coverage_report_def recompute_def)
  next
    case False
    then have "(of_nat (card (ps_detected_actions s \<inter> ps_completed_actions s)) :: rat) * 100 / of_nat (card (ps_completed_actions s)) \<le> 100"
      using le by (simp add: pos_divide_le_eq)
    with False le show ?thesis by (simp add: report_ok_def coverage_report_def recompute_def)
  qed
qed

lemma store_ok_saves:
  "store_ok s \<Longrightarrow> store_ok (save_engagement_summary u s)" "store_ok s \<Longrightarrow> store_ok (save_operation_timeline w s)"
  "store_ok s \<Longrightarrow> store_ok (save_evidence_audit e s)" "store_ok s \<Longrightarrow> technique_view_ok a \<Longrightarrow> store_ok (save_action_by_technique a s)"
  "store_ok s \<Longrightarrow> report_ok c \<Longrightarrow> store_ok (save_detection_coverage c s)" "store_ok s \<Longrightarrow> activity_ok p \<Longrightarrow> store_ok (save_operator_activity p s)"
  by (auto simp: store_ok_def techniques.load_save coverage.load_save operators.load_save)

lemma started_total_saves [simp]:
  "started_total (save_engagement_summary u s) = started_total s" "started_total (save_operation_timeline w s) = started_total s"
  "started_total (save_evidence_audit e s) = started_total s" "started_total (save_detection_coverage c s) = started_total s"
  "started_total (save_operator_activity p s) = started_total s"
  by (simp_all add: started_total_def save_engagement_summary_def save_operation_timeline_def save_detection_coverage_def
      save_evidence_audit_def save_operator_activity_def)

lemma bump_activity_ok: "activity_ok v \<Longrightarrow> activity_ok (v\<lparr>oa_by_operator := dict_set o'
    \<lparr>op_actions = op_actions (dict_get (oa_by_operator v) o' \<lparr>op_actions = 0, op_activities = []\<rparr>) + 1,
     op_activities = drop (length (op_activities (dict_get (oa_by_operator v) o' \<lparr>op_actions = 0, op_activities = []\<rparr>) @ [b]) - 50)
       (op_activities (dict_get (oa_by_operator v) o' \<lparr>op_actions = 0, op_activities = []\<rparr>) @ [b])\<rparr> (oa_by_operator v),
     oa_last_event_id := j, oa_last_updated_at := n\<rparr>)"
proof -
  assume v: "activity_ok v"
  define st where "st = dict_get (oa_by_operator v) o' \<lparr>op_actions = 0, op_activities = []\<rparr>"
  have "stats_ok st" using v by (auto simp: st_def dict_get_def activity_ok_def stats_ok_def split: option.splits)
  then have "stats_ok \<lparr>op_actions = op_actions st + 1, op_activities = drop (length (op_activities st @ [b]) - 50) (op_activities st @ [b])\<rparr>"
    by (simp add: stats_ok_def) linarith
  with v show ?thesis unfolding st_def [symmetric] by (simp add: activity_ok_def map_of_dict_set)
qed

lemma bump_operator_ok: "service_ok s \<Longrightarrow> service_ok (bump_operator n t a i b s)"
proof -
  assume s: "service_ok s"
  have "activity_ok (case load_operator_activity t ''default'' (ps_store s) of Some v \<Rightarrow> v | None \<Rightarrow> \<lparr>oa_tenant_id = t, oa_view_key = ''default'',
      oa_by_operator = [], oa_last_updated_at = n, oa_last_event_id = None, oa_projection_version = 1\<rparr>)"
    using s by (auto simp: service_ok_def store_ok_def activity_ok_def split: option.splits)
  from bump_activity_ok [OF this] s show ?thesis
    by (simp add: service_ok_def bump_operator_def Let_def keyed_saves store_ok_saves)
qed

lemma count_view_ok: "technique_view_ok v \<Longrightarrow> technique_view_ok (v\<lparr>at_by_technique := dict_set q (dict_get (at_by_technique v) q 0 + 1) (at_by_technique v),
    at_total_actions := at_total_actions v + 1, at_last_event_id := j, at_last_updated_at := n\<rparr>)"
  using sum_dict_set [of "\<lambda>x. x" q "dict_get (at_by_technique v) q 0 + 1" "at_by_technique v"]
  by (auto simp: technique_view_ok_def dict_get_def split: option.splits)

lemma count_technique_ok: "service_ok s \<Longrightarrow> service_ok (count_technique n t i a q s)"
proof (cases "a \<in> ps_action_technique_counted s")
  case False
  assume s: "service_ok s"
  let ?v = "case load_action_by_technique t ''default'' (ps_store s) of Some v \<Rightarrow> v | None \<Rightarrow> \<lparr>at_tenant_id = t, at_view_key = ''default'',
      at_by_technique = [], at_total_actions = 0, at_last_updated_at = n, at_last_event_id = None, at_projection_version = 1\<rparr>"
  let ?w = "?v\<lparr>at_by_technique := dict_set q (dict_get (at_by_technique ?v) q 0 + 1) (at_by_technique ?v),
      at_total_actions := at_total_actions ?v + 1, at_last_event_id := Some i, at_last_updated_at := n\<rparr>"
  have "technique_view_ok ?v" using s by (auto simp: service_ok_def store_ok_def technique_view_ok_def split: option.splits)
  then have w: "technique_view_ok ?w" by (rule count_view_ok)
  have key: "(at_tenant_id ?v, at_view_key ?v) = (t, ''default'')" using s by (auto simp: service_ok_def keyed_found split: option.splits)
  have "started_total (save_action_by_technique ?w (ps_store s)) = started_total (ps_store s) + 1"
    using key by (simp add: started_total_def save_action_by_technique_def sum_dict_set load_action_by_technique_def split: option.splits)
  then show ?thesis using s w False
    by (simp add: service_ok_def count_technique_def Let_def keyed_saves store_ok_saves)
qed (simp add: count_technique_def)

lemma quiet_writers_ok:
  "service_ok s \<Longrightarrow> service_ok (change_summary n t g i f s)"
  "service_ok s \<Longrightarrow> service_ok (append_timeline n t a g x i s)"
  "service_ok s \<Longrightarrow> service_ok (record_evidence n t p i b s)"
  "service_ok s \<Longrightarrow> service_ok (snd (rebuild_coverage n t j s))"
  "service_ok s \<Longrightarrow> service_ok (s\<lparr>ps_completed_actions := insert c (ps_completed_actions s)\<rparr>)"
  "service_ok s \<Longrightarrow> service_ok (s\<lparr>ps_action_ctx := d\<rparr>)"
  "service_ok s \<Longrightarrow> service_ok (s\<lparr>ps_processed := q\<rparr>)"
  "service_ok s \<Longrightarrow> service_ok (s\<lparr>ps_detected_actions := q\<rparr>)"
  "service_ok s \<Longrightarrow> service_ok (s\<lparr>ps_events_processed := m, ps_last_event_id := j, ps_last_updated_at := u\<rparr>)"
  "service_ok s \<Longrightarrow> service_ok (on_store (save_engagement_summary v) s)"
  by (simp_all add: service_ok_def change_summary_def append_timeline_def record_evidence_def rebuild_coverage_def Let_def keyed_saves
      store_ok_saves coverage_report_ok)

lemma kill_switch_timelines_ok:
  "service_ok s \<Longrightarrow> service_ok (on_store (fold (\<lambda>v. if c v then save_operation_timeline (h v) else id) vs) s)"
proof (induction vs arbitrary: s)
  case (Cons v vs)
  have "service_ok (on_store (save_operation_timeline (h v)) s)"
    using Cons.prems by (simp add: service_ok_def keyed_saves store_ok_saves)
  from Cons.IH [OF this] Cons.IH [OF Cons.prems] show ?case by (auto simp: on_store_def)
qed (simp add: on_store_def)

lemmas writers_ok = quiet_writers_ok kill_switch_timelines_ok bump_operator_ok count_technique_ok

lemma handlers_ok:
  assumes "service_ok s"
  shows "service_ok (on_action_authorized n e a b c d f g s)" "service_ok (on_action_started n e a b w x s)"
    "service_ok (on_action_completed n e a b x h s)" "service_ok (on_kill_switch n e k a b s)"
    "service_ok (on_engagement_created n e a b s)" "service_ok (on_engagement_activated n e s)"
    "service_ok (on_operation_created n e a b c s)" "service_ok (on_operation_approved n e a b c s)"
    "service_ok (on_generic_dict n p s)" "service_ok (on_evidence_like n e s)"
  unfolding handlers Let_def using assms by (simp_all add: writers_ok)

lemma handle_ok: "service_ok s \<Longrightarrow> service_ok (handle now event s)"
  unfolding handle_def
  by (simp add: handlers_ok split: inbound_event.split red_team_payload.split PipelineEvent.split SafetyEvent.split)

lemma apply_ok: "service_ok s \<Longrightarrow> service_ok (snd (projection_apply now event s))"
  by (simp add: projection_apply_def Let_def writers_ok handle_ok)

lemma apply_all_ok: "service_ok s \<Longrightarrow> service_ok (apply_all xs s)"
  by (induction xs arbitrary: s) (simp_all add: apply_ok)

lemma mark_ok: "service_ok s \<Longrightarrow> service_ok (snd (mark_action_detected n t a i s))"
  by (simp add: mark_action_detected_def writers_ok)

lemma new_service_ok: "service_ok (new_projection_service new_store)"
  by (simp add: service_ok_def new_projection_service_def new_store_def keyed_def store_ok_def started_total_def load_engagement_summary_def
      load_operation_timeline_def load_action_by_technique_def load_detection_coverage_def load_evidence_audit_def load_operator_activity_def)

section \<open>Completed actions\<close>

text \<open>The action that an event reports as completed.\<close>

definition completes :: "inbound_event \<Rightarrow> string set" where
  "completes event = (case event of Event e \<Rightarrow> (case ev_payload e of PipelineEvent (AttackActionCompleted _ _ _ _) \<Rightarrow> {ev_aggregate_id e} | _ \<Rightarrow> {}) | _ \<Rightarrow> {})"

lemma handlers_completed:
  "ps_completed_actions (on_action_authorized n e a b c d f g s) = ps_completed_actions s"
  "ps_completed_actions (on_action_started n e a b w x s) = ps_completed_actions s"
  "ps_completed_actions (on_action_completed n e a b x h s) = insert (ev_aggregate_id e) (ps_completed_actions s)"
  "ps_completed_actions (on_kill_switch n e k a b s) = ps_completed_actions s"
  "ps_completed_actions (on_engagement_created n e a b s) = ps_completed_actions s"
  "ps_completed_actions (on_engagement_activated n e s) = ps_completed_actions s"
  "ps_completed_actions (on_operation_created n e a b c s) = ps_completed_actions s"
  "ps_completed_actions (on_operation_approved n e a b c s) = ps_completed_actions s"
  "ps_completed_actions (on_generic_dict n p s) = ps_completed_actions s"
  "ps_completed_actions (on_evidence_like n e s) = ps_completed_actions s"
  by (simp_all add: handlers Let_def)

lemma handle_completed: "ps_completed_actions (handle now event s) = completes event \<union> ps_completed_actions s"
  by (simp add: handle_def completes_def handlers_completed split: inbound_event.split red_team_payload.split PipelineEvent.split SafetyEvent.split)

text \<open>Events that each carry an identifier of their own.\<close>

definition fresh_events :: "(datetime \<times> inbound_event) list \<Rightarrow> string set \<Rightarrow> bool" where
  "fresh_events xs seen \<longleftrightarrow> distinct (map (event_id_of \<circ> snd) xs) \<and> (\<forall>x \<in> set xs. event_id_of (snd x) \<noteq> [] \<and> event_id_of (snd x) \<notin> seen)"

lemma fresh_events_Cons: "fresh_events (x # xs) seen \<longleftrightarrow> event_id_of (snd x) \<noteq> [] \<and> event_id_of (snd x) \<notin> seen \<and>
    fresh_events xs (insert (event_id_of (snd x)) seen)"
  by (auto simp: fresh_events_def image_iff)

lemma apply_fresh:
  assumes "event_id_of event \<noteq> []" and "event_id_of event \<notin> ps_processed s"
  shows "fst (projection_apply now event s)" and "ps_completed_actions (snd (projection_apply now event s)) = completes event \<union> ps_completed_actions s"
    and "ps_store (snd (projection_apply now event s)) = ps_store (handle now event (s\<lparr>ps_processed := insert (event_id_of event) (ps_processed s)\<rparr>))"
  using assms by (simp_all add: projection_apply_def Let_def handle_completed)

lemma apply_all_completed:
  "fresh_events xs (ps_processed s) \<Longrightarrow> ps_completed_actions (apply_all xs s) = (\<Union>x \<in> set xs. completes (snd x)) \<union> ps_completed_actions s"
  by (induction xs arbitrary: s) (auto simp: fresh_events_Cons apply_fresh apply_processed)

lemma completion_report:
  "load_detection_coverage (tenant_of (Event e)) ''default'' (ps_store (on_action_completed n e a b x h s)) =
     Some (coverage_report n (tenant_of (Event e)) (Some (ev_event_id e)) (s\<lparr>ps_completed_actions := insert (ev_aggregate_id e) (ps_completed_actions s)\<rparr>))"
  by (simp add: on_action_completed_def Let_def rebuild_coverage_def coverage.load_save coverage_key_def coverage_report_def recompute_def)

end
