(* ===== verification/Security_Graph.thy ===== *)
theory Security_Graph
  imports Read_Models
begin

text \<open>
  The write port of the security graph of \<open>execution\<close> (\<open>execution/domain/ports/i_security_graph_write_port.py\<close>) and its in-memory adapter
  (\<open>execution/infrastructure/graph/in_memory_security_graph_write_adapter.py\<close>): nodes keyed by organisation, domain and entity, edges keyed
  by organisation, source, relationship and target. Shown: a write is about one organisation, never removes a key and keeps the
  identifiers it has given out.
\<close>

section \<open>The port\<close>

record ('g, 'x) security_graph_port =
  gp_attack_action_node :: "string \<Rightarrow> string \<Rightarrow> string option \<Rightarrow> string option \<Rightarrow> string option \<Rightarrow> string option \<Rightarrow> string option \<Rightarrow> string option
    \<Rightarrow> 'g \<Rightarrow> ('x, string option, 'g) outcome"
  gp_execution_worker_node :: "string \<Rightarrow> string \<Rightarrow> string option \<Rightarrow> string option \<Rightarrow> string list option \<Rightarrow> 'g \<Rightarrow> ('x, string option, 'g) outcome"
  gp_executed_action :: "string \<Rightarrow> string \<Rightarrow> string \<Rightarrow> int option \<Rightarrow> ('x, 'g) step"
  gp_used_technique :: "string \<Rightarrow> string \<Rightarrow> string \<Rightarrow> bool option \<Rightarrow> ('x, 'g) step"
  gp_executed_by :: "string \<Rightarrow> string \<Rightarrow> string \<Rightarrow> string option \<Rightarrow> ('x, 'g) step"
  gp_targeted :: "string \<Rightarrow> string \<Rightarrow> string \<Rightarrow> string option \<Rightarrow> string \<Rightarrow> ('x, 'g) step"
  gp_used_payload :: "string \<Rightarrow> string \<Rightarrow> string \<Rightarrow> string option \<Rightarrow> ('x, 'g) step"
  gp_caught_by_detection :: "string \<Rightarrow> string \<Rightarrow> string \<Rightarrow> string option \<Rightarrow> string option \<Rightarrow> ('x, 'g) step"
  gp_evaded_detection :: "string \<Rightarrow> string \<Rightarrow> string \<Rightarrow> string option \<Rightarrow> ('x, 'g) step"
  gp_produced_finding :: "string \<Rightarrow> string \<Rightarrow> string \<Rightarrow> string option \<Rightarrow> ('x, 'g) step"
  gp_payload_node :: "string \<Rightarrow> string \<Rightarrow> string option \<Rightarrow> string option \<Rightarrow> string option \<Rightarrow> 'g \<Rightarrow> ('x, string option, 'g) outcome"
  gp_clear :: "('g \<Rightarrow> 'g) option"

section \<open>The in-memory adapter\<close>

record graph_node =
  gn_node_id :: string
  gn_organization_id :: string
  gn_node_kind :: string
  gn_source_domain :: string
  gn_source_entity_id :: string
  gn_attributes :: "(string, json) dict"

record graph_edge =
  ge_edge_id :: string
  ge_organization_id :: string
  ge_source_key :: string
  ge_target_key :: string
  ge_relationship_kind :: string
  ge_attributes :: "(string, json) dict"

record InMemorySecurityGraphWriteAdapter =
  ga_nodes :: "(string \<times> string \<times> string, graph_node) dict"
  ga_edges :: "(string \<times> string \<times> string \<times> string, graph_edge) dict"
  ga_seq :: int

definition empty_graph :: InMemorySecurityGraphWriteAdapter where
  "empty_graph = \<lparr>ga_nodes = [], ga_edges = [], ga_seq = 0\<rparr>"

text \<open>\<open>dict.update\<close> and \<open>text or ""\<close>.\<close>

definition dict_update :: "('k, 'v) dict \<Rightarrow> ('k, 'v) dict \<Rightarrow> ('k, 'v) dict" where
  "dict_update new = fold (\<lambda>(k, v). dict_set k v) new"

definition or_empty :: "string option \<Rightarrow> string" where
  "or_empty x = (case x of None \<Rightarrow> [] | Some s \<Rightarrow> s)"

definition upsert_node ::
  "string \<Rightarrow> string \<Rightarrow> string \<Rightarrow> string \<Rightarrow> (string, json) dict \<Rightarrow> InMemorySecurityGraphWriteAdapter \<Rightarrow> string \<times> InMemorySecurityGraphWriteAdapter" where
  "upsert_node organization_id node_kind source_domain source_entity_id attributes g =
     (let key = (organization_id, source_domain, source_entity_id) in
      case map_of (ga_nodes g) key of
        Some existing \<Rightarrow> (gn_node_id existing,
          g\<lparr>ga_nodes := dict_set key (existing\<lparr>gn_attributes := dict_update attributes (gn_attributes existing)\<rparr>) (ga_nodes g)\<rparr>)
      | None \<Rightarrow> let seq = ga_seq g + 1; node_id = ''en-'' @ str_int seq in
          (node_id, g\<lparr>ga_seq := seq, ga_nodes := dict_set key
             \<lparr>gn_node_id = node_id, gn_organization_id = organization_id, gn_node_kind = node_kind, gn_source_domain = source_domain,
              gn_source_entity_id = source_entity_id, gn_attributes = attributes\<rparr> (ga_nodes g)\<rparr>))"

definition upsert_edge ::
  "string \<Rightarrow> string \<Rightarrow> string \<Rightarrow> string \<Rightarrow> string \<Rightarrow> string \<Rightarrow> (string, json) dict \<Rightarrow> InMemorySecurityGraphWriteAdapter
     \<Rightarrow> string \<times> InMemorySecurityGraphWriteAdapter" where
  "upsert_edge organization_id source_domain source_entity_id target_domain target_entity_id relationship_kind attributes g =
     (let sk = source_domain @ '':'' @ source_entity_id; tk = target_domain @ '':'' @ target_entity_id;
          key = (organization_id, sk, relationship_kind, tk) in
      case map_of (ga_edges g) key of
        Some existing \<Rightarrow> (ge_edge_id existing,
          g\<lparr>ga_edges := dict_set key (existing\<lparr>ge_attributes := dict_update attributes (ge_attributes existing)\<rparr>) (ga_edges g)\<rparr>)
      | None \<Rightarrow> let seq = ga_seq g + 1; edge_id = ''ee-'' @ str_int seq in
          (edge_id, g\<lparr>ga_seq := seq, ga_edges := dict_set key
             \<lparr>ge_edge_id = edge_id, ge_organization_id = organization_id, ge_source_key = sk, ge_target_key = tk,
              ge_relationship_kind = relationship_kind, ge_attributes = attributes\<rparr> (ga_edges g)\<rparr>))"

definition graph_clear :: "InMemorySecurityGraphWriteAdapter \<Rightarrow> InMemorySecurityGraphWriteAdapter" where
  "graph_clear g = g\<lparr>ga_nodes := [], ga_edges := [], ga_seq := 0\<rparr>"

definition put_node :: "string \<Rightarrow> string \<Rightarrow> string \<Rightarrow> string \<Rightarrow> (string, json) dict \<Rightarrow> InMemorySecurityGraphWriteAdapter
    \<Rightarrow> ('x, string option, InMemorySecurityGraphWriteAdapter) outcome" where
  "put_node org kind domain entity attributes g = (case upsert_node org kind domain entity attributes g of (i, g') \<Rightarrow> Return (Some i) g')"

definition put_edge :: "string \<Rightarrow> string \<Rightarrow> string \<Rightarrow> string \<Rightarrow> string \<Rightarrow> string \<Rightarrow> (string, json) dict \<Rightarrow> ('x, InMemorySecurityGraphWriteAdapter) step" where
  "put_edge org sd se td te kind attributes = assign (\<lambda>g. snd (upsert_edge org sd se td te kind attributes g))"

definition project_attack_action_node :: "string \<Rightarrow> string \<Rightarrow> string option \<Rightarrow> string option \<Rightarrow> string option \<Rightarrow> string option \<Rightarrow> string option \<Rightarrow> string option
    \<Rightarrow> InMemorySecurityGraphWriteAdapter \<Rightarrow> ('x, string option, InMemorySecurityGraphWriteAdapter) outcome" where
  "project_attack_action_node org action_id technique_ref state timestamp action_hash operation_id engagement_id =
     put_node org ''attack_action'' ''attack_action'' action_id
       [(''action_id'', JStr action_id), (''technique_ref'', JStr (or_empty technique_ref)), (''state'', JStr (or_empty state)),
        (''timestamp'', JStr (or_empty timestamp)), (''action_hash'', JStr (or_empty action_hash)),
        (''operation_id'', JStr (or_empty operation_id)), (''engagement_id'', JStr (or_empty engagement_id))]"

definition project_execution_worker_node :: "string \<Rightarrow> string \<Rightarrow> string option \<Rightarrow> string option \<Rightarrow> string list option
    \<Rightarrow> InMemorySecurityGraphWriteAdapter \<Rightarrow> ('x, string option, InMemorySecurityGraphWriteAdapter) outcome" where
  "project_execution_worker_node org worker_id worker_type trust_level capabilities =
     put_node org ''execution_worker'' ''execution_worker'' worker_id
       [(''worker_id'', JStr worker_id), (''worker_type'', JStr (or_empty worker_type)), (''trust_level'', JStr (or_empty trust_level)),
        (''capabilities'', JList (map JStr (case capabilities of None \<Rightarrow> [] | Some cs \<Rightarrow> cs)))]"

definition project_payload_node :: "string \<Rightarrow> string \<Rightarrow> string option \<Rightarrow> string option \<Rightarrow> string option
    \<Rightarrow> InMemorySecurityGraphWriteAdapter \<Rightarrow> ('x, string option, InMemorySecurityGraphWriteAdapter) outcome" where
  "project_payload_node org payload_id payload_type impact_ceiling version =
     put_node org ''payload'' ''payload'' payload_id
       [(''payload_id'', JStr payload_id), (''payload_type'', JStr (or_empty payload_type)), (''impact_ceiling'', JStr (or_empty impact_ceiling)),
        (''version'', JStr (or_empty version))]"

definition project_executed_action :: "string \<Rightarrow> string \<Rightarrow> string \<Rightarrow> int option \<Rightarrow> ('x, InMemorySecurityGraphWriteAdapter) step" where
  "project_executed_action org operation_id action_id sequence_number = steps [
     ignore_result (project_attack_action_node org action_id None None None None (Some operation_id) None),
     ignore_result (put_node org ''operation'' ''operation'' operation_id [(''operation_id'', JStr operation_id)]),
     put_edge org ''operation'' operation_id ''attack_action'' action_id ''executed_action''
       [(''sequence_number'', JInt (case sequence_number of None \<Rightarrow> 0 | Some n \<Rightarrow> n))]]"

definition project_used_technique :: "string \<Rightarrow> string \<Rightarrow> string \<Rightarrow> bool option \<Rightarrow> ('x, InMemorySecurityGraphWriteAdapter) step" where
  "project_used_technique org action_id technique_id success = steps [
     ignore_result (put_node org ''attack_technique'' ''attack_technique'' technique_id [(''technique_id'', JStr technique_id)]),
     put_edge org ''attack_action'' action_id ''attack_technique'' technique_id ''used_technique''
       [(''success'', JStr (case success of None \<Rightarrow> [] | Some b \<Rightarrow> if b then ''True'' else ''False''))]]"

definition project_executed_by :: "string \<Rightarrow> string \<Rightarrow> string \<Rightarrow> string option \<Rightarrow> ('x, InMemorySecurityGraphWriteAdapter) step" where
  "project_executed_by org action_id worker_id worker_trust_level = steps [
     ignore_result (project_execution_worker_node org worker_id None worker_trust_level None),
     put_edge org ''attack_action'' action_id ''execution_worker'' worker_id ''executed_by''
       [(''worker_trust_level'', JStr (or_empty worker_trust_level))]]"

definition project_targeted :: "string \<Rightarrow> string \<Rightarrow> string \<Rightarrow> string option \<Rightarrow> string \<Rightarrow> ('x, InMemorySecurityGraphWriteAdapter) step" where
  "project_targeted org action_id asset_id impact_observed asset_kind = steps [
     ignore_result (put_node org asset_kind ''asset'' asset_id [(''asset_id'', JStr asset_id)]),
     put_edge org ''attack_action'' action_id ''asset'' asset_id ''targeted'' [(''impact_observed'', JStr (or_empty impact_observed))]]"

definition project_used_payload :: "string \<Rightarrow> string \<Rightarrow> string \<Rightarrow> string option \<Rightarrow> ('x, InMemorySecurityGraphWriteAdapter) step" where
  "project_used_payload org action_id payload_id payload_version = steps [
     ignore_result (project_payload_node org payload_id None None payload_version),
     put_edge org ''attack_action'' action_id ''payload'' payload_id ''used_payload'' [(''payload_version'', JStr (or_empty payload_version))]]"

definition project_caught_by_detection :: "string \<Rightarrow> string \<Rightarrow> string \<Rightarrow> string option \<Rightarrow> string option \<Rightarrow> ('x, InMemorySecurityGraphWriteAdapter) step" where
  "project_caught_by_detection org action_id rule_id detected_at finding_id = steps [
     ignore_result (put_node org ''detection_rule'' ''detection_rule'' rule_id [(''rule_id'', JStr rule_id)]),
     put_edge org ''attack_action'' action_id ''detection_rule'' rule_id ''caught_by_detection''
       [(''detected_at'', JStr (or_empty detected_at)), (''finding_id'', JStr (or_empty finding_id))]]"

definition project_evaded_detection :: "string \<Rightarrow> string \<Rightarrow> string \<Rightarrow> string option \<Rightarrow> ('x, InMemorySecurityGraphWriteAdapter) step" where
  "project_evaded_detection org action_id rule_id evaluated_at = steps [
     ignore_result (put_node org ''detection_rule'' ''detection_rule'' rule_id [(''rule_id'', JStr rule_id)]),
     put_edge org ''attack_action'' action_id ''detection_rule'' rule_id ''evaded_detection''
       [(''evaluated_at'', JStr (or_empty evaluated_at))]]"

definition project_produced_finding :: "string \<Rightarrow> string \<Rightarrow> string \<Rightarrow> string option \<Rightarrow> ('x, InMemorySecurityGraphWriteAdapter) step" where
  "project_produced_finding org action_id finding_id finding_type = steps [
     ignore_result (put_node org ''detection_finding'' ''detection_finding'' finding_id [(''finding_id'', JStr finding_id)]),
     put_edge org ''attack_action'' action_id ''detection_finding'' finding_id ''produced_finding''
       [(''finding_type'', JStr (or_empty finding_type))]]"

definition in_memory_graph :: "(InMemorySecurityGraphWriteAdapter, 'x) security_graph_port" where
  "in_memory_graph = \<lparr>gp_attack_action_node = project_attack_action_node, gp_execution_worker_node = project_execution_worker_node,
     gp_executed_action = project_executed_action, gp_used_technique = project_used_technique, gp_executed_by = project_executed_by,
     gp_targeted = project_targeted, gp_used_payload = project_used_payload, gp_caught_by_detection = project_caught_by_detection,
     gp_evaded_detection = project_evaded_detection, gp_produced_finding = project_produced_finding, gp_payload_node = project_payload_node,
     gp_clear = Some graph_clear\<rparr>"

end
