(* ===== verification/Projection_Coordinator.thy ===== *)
theory Projection_Coordinator
  imports Read_Model_Laws Security_Graph
begin

text \<open>
  The event log (\<open>execution/application/projections/projection_publisher.py\<close>) and the coordinator
  (\<open>projection_coordinator.py\<close>), which writes every event to the log, the read models and the security graphs, and replays the log.
  The graph ports are arguments and may fail. What the clock and the generators of identifiers give while an event is published is part of
  its \<open>delivery\<close>; during a replay \<open>clock p\<close> is the time at which the event of position \<open>p\<close> is applied.
\<close>

section \<open>The event log\<close>

record EventMetadata =
  em_correlation_id :: string
  em_causation_id :: "string option"
  em_schema_version :: "int \<times> int"
  em_actor_id :: "string option"
  em_actor_type :: "string option"
  em_source_service :: string
  em_custom :: "(string \<times> string) list"

record EventEnvelope =
  en_event_id :: string
  en_stream_id :: string
  en_stream_position :: int
  en_global_position :: int
  en_event_type :: string
  en_aggregate_type :: string
  en_aggregate_id :: string
  en_organization_id :: string
  en_payload :: inbound_event
  en_metadata :: EventMetadata
  en_occurred_at :: datetime
  en_recorded_at :: datetime

record delivery =
  dl_event :: inbound_event
  dl_now :: datetime
  dl_generated_id :: string
  dl_correlation_id :: string

definition make_envelope :: "delivery \<Rightarrow> string \<Rightarrow> string \<Rightarrow> string \<Rightarrow> string \<Rightarrow> string \<Rightarrow> datetime \<Rightarrow> EventEnvelope" where
  "make_envelope d event_type aggregate_type aggregate_id stream_id organization_id occurred_at =
     \<lparr>en_event_id = dl_generated_id d, en_stream_id = stream_id, en_stream_position = 0, en_global_position = 0, en_event_type = event_type,
      en_aggregate_type = aggregate_type, en_aggregate_id = aggregate_id, en_organization_id = organization_id, en_payload = dl_event d,
      en_metadata = \<lparr>em_correlation_id = dl_correlation_id d, em_causation_id = None, em_schema_version = (1, 0), em_actor_id = None,
        em_actor_type = None, em_source_service = ''redforge'', em_custom = []\<rparr>,
      en_occurred_at = occurred_at, en_recorded_at = dl_now d\<rparr>"

record ProjectionEventRecord =
  er_envelope :: EventEnvelope
  er_domain_event :: inbound_event

record ProjectionPublisher =
  pb_log :: "ProjectionEventRecord list"
  pb_global_position :: int
  pb_stream_positions :: "(string, int) dict"

definition new_publisher :: ProjectionPublisher where
  "new_publisher = \<lparr>pb_log = [], pb_global_position = 0, pb_stream_positions = []\<rparr>"

primrec aggregate_type_of :: "inbound_event \<Rightarrow> string" where
  "aggregate_type_of (Event e) = ev_aggregate_type e"
| "aggregate_type_of (Dict _) = ''dict''"

primrec aggregate_id_of :: "inbound_event \<Rightarrow> string" where
  "aggregate_id_of (Event e) = ev_aggregate_id e"
| "aggregate_id_of (Dict _) = ''unknown''"

primrec occurred_at_of :: "datetime \<Rightarrow> inbound_event \<Rightarrow> datetime" where
  "occurred_at_of now (Event e) = ev_occurred_at e"
| "occurred_at_of now (Dict _) = now"

definition publish :: "delivery \<Rightarrow> ProjectionPublisher \<Rightarrow> EventEnvelope \<times> ProjectionPublisher" where
  "publish d p =
     (let event = dl_event d; org = tenant_of event; aggregate_type = aggregate_type_of event; aggregate_id = aggregate_id_of event;
          stream_id = ''red_team:'' @ org @ '':'' @ aggregate_type @ '':'' @ aggregate_id;
          stream_pos = dict_get (pb_stream_positions p) stream_id 0 + 1;
          global_position = pb_global_position p + 1;
          base = make_envelope d (''red_team.'' @ event_name event) aggregate_type aggregate_id stream_id org (occurred_at_of (dl_now d) event);
          envelope = base\<lparr>en_event_id := (case event of Event e \<Rightarrow> ev_event_id e | Dict _ \<Rightarrow> en_event_id base),
            en_stream_position := stream_pos, en_global_position := global_position\<rparr>
      in (envelope, \<lparr>pb_log = pb_log p @ [\<lparr>er_envelope = envelope, er_domain_event = event\<rparr>], pb_global_position = global_position,
            pb_stream_positions = dict_set stream_id stream_pos (pb_stream_positions p)\<rparr>))"

definition history_of :: "string option \<Rightarrow> int \<Rightarrow> ProjectionPublisher \<Rightarrow> ProjectionEventRecord list" where
  "history_of organization_id from_position p =
     (let records = (case organization_id of None \<Rightarrow> pb_log p | Some org \<Rightarrow> filter (\<lambda>r. en_organization_id (er_envelope r) = org) (pb_log p))
      in filter (\<lambda>r. en_global_position (er_envelope r) \<ge> from_position) records)"

definition publisher_clear :: "ProjectionPublisher \<Rightarrow> ProjectionPublisher" where
  "publisher_clear p = p\<lparr>pb_log := [], pb_global_position := 0, pb_stream_positions := []\<rparr>"

record publisher_status =
  us_schema_version :: int
  us_global_position :: int
  us_event_count :: int
  us_stream_count :: int

definition publisher_status_of :: "ProjectionPublisher \<Rightarrow> publisher_status" where
  "publisher_status_of p = \<lparr>us_schema_version = 1, us_global_position = pb_global_position p, us_event_count = int (length (pb_log p)),
     us_stream_count = int (length (pb_stream_positions p))\<rparr>"

section \<open>The coordinator\<close>

record ('a, 'x) engagement_graph_port =
  eg_engagement_node :: "string \<Rightarrow> string \<Rightarrow> string option \<Rightarrow> string option \<Rightarrow> ('x, 'a) step"
  eg_contains_operation :: "string \<Rightarrow> string \<Rightarrow> string \<Rightarrow> string option \<Rightarrow> ('x, 'a) step"

record ('b, 'x) operation_graph_port =
  og_operation_node :: "string \<Rightarrow> string \<Rightarrow> string option \<Rightarrow> string option \<Rightarrow> string option \<Rightarrow> string option \<Rightarrow> ('x, 'b) step"
  og_executed_action :: "string \<Rightarrow> string \<Rightarrow> string \<Rightarrow> ('x, 'b) step"

record ('g, 'a, 'b, 'x) coordinator_ports =
  cq_graph :: "('g, 'x) security_graph_port"
  cq_engagement_graph :: "('a, 'x) engagement_graph_port option"
  cq_operation_graph :: "('b, 'x) operation_graph_port option"
  cq_str :: "'x \<Rightarrow> string"

record ('g, 'a, 'b) ProjectionCoordinator =
  co_publisher :: ProjectionPublisher
  co_projections :: RedTeamProjectionService
  co_graph :: 'g
  co_engagement_graph :: 'a
  co_operation_graph :: 'b
  co_graph_failures :: "string list"
  co_graph_successes :: int

definition new_coordinator :: "'g \<Rightarrow> 'a \<Rightarrow> 'b \<Rightarrow> ('g, 'a, 'b) ProjectionCoordinator" where
  "new_coordinator g a b = \<lparr>co_publisher = new_publisher, co_projections = new_projection_service new_store, co_graph = g,
     co_engagement_graph = a, co_operation_graph = b, co_graph_failures = [], co_graph_successes = 0\<rparr>"

definition on_graph :: "('x, 'g) step \<Rightarrow> ('x, ('g, 'a, 'b) ProjectionCoordinator) step" where
  "on_graph = on_part co_graph (\<lambda>g c. c\<lparr>co_graph := g\<rparr>) id"

definition on_engagement_graph ::
  "('g, 'a, 'b, 'x) coordinator_ports \<Rightarrow> (('a, 'x) engagement_graph_port \<Rightarrow> ('x, 'a) step) \<Rightarrow> ('x, ('g, 'a, 'b) ProjectionCoordinator) step" where
  "on_engagement_graph ps f = (case cq_engagement_graph ps of None \<Rightarrow> assign id
     | Some p \<Rightarrow> on_part co_engagement_graph (\<lambda>g c. c\<lparr>co_engagement_graph := g\<rparr>) id (f p))"

definition on_operation_graph ::
  "('g, 'a, 'b, 'x) coordinator_ports \<Rightarrow> (('b, 'x) operation_graph_port \<Rightarrow> ('x, 'b) step) \<Rightarrow> ('x, ('g, 'a, 'b) ProjectionCoordinator) step" where
  "on_operation_graph ps f = (case cq_operation_graph ps of None \<Rightarrow> assign id
     | Some p \<Rightarrow> on_part co_operation_graph (\<lambda>g c. c\<lparr>co_operation_graph := g\<rparr>) id (f p))"

definition context_of :: "('g, 'a, 'b) ProjectionCoordinator \<Rightarrow> string \<Rightarrow> (string, string) dict" where
  "context_of c action_id = dict_get (ps_action_ctx (co_projections c)) action_id []"

definition pipeline_graph_writes :: "('g, 'x) security_graph_port \<Rightarrow> ('g, 'a, 'b, 'x) coordinator_ports \<Rightarrow> string \<Rightarrow> domain_event \<Rightarrow> PipelineEvent
    \<Rightarrow> (string, string) dict \<Rightarrow> ('x, ('g, 'a, 'b) ProjectionCoordinator) step list" where
  "pipeline_graph_writes g ps org e p ctx =
     (let action_id = ev_aggregate_id e in case p of
        AttackActionAuthorized engagement_id operation_id step_id target_id technique_id operator_id action_hash \<Rightarrow>
          [on_graph (ignore_result (gp_attack_action_node g org action_id (Some technique_id) (Some ''Authorized'') None (Some action_hash)
             (Some operation_id) (Some engagement_id))),
           on_graph (gp_targeted g org action_id target_id None ''asset'')]
      | AttackActionStarted engagement_id operation_id worker_id execution_timestamp \<Rightarrow>
          [on_graph (ignore_result (gp_attack_action_node g org action_id (map_of ctx ''technique_id'') (Some ''Executing'')
             (Some (isoformat execution_timestamp)) (map_of ctx ''action_hash'') (Some operation_id) (Some engagement_id))),
           on_graph (gp_executed_action g org operation_id action_id None)] @
          (case worker_id of None \<Rightarrow> [] | Some w \<Rightarrow> if w = [] then [] else [on_graph (gp_executed_by g org action_id w None)]) @
          [on_operation_graph ps (\<lambda>og. og_executed_action og org operation_id action_id)]
      | AttackActionCompleted engagement_id operation_id completion_timestamp output_hash \<Rightarrow>
          [on_graph (ignore_result (gp_attack_action_node g org action_id (map_of ctx ''technique_id'') (Some ''Completed'')
             (Some (isoformat completion_timestamp)) None (Some operation_id) (Some engagement_id)))] @
          (case map_of ctx ''technique_id'' of None \<Rightarrow> []
           | Some t \<Rightarrow> if t = [] then [] else [on_graph (gp_used_technique g org action_id t (Some True))])
      | ExecutionWorkerRegistered worker_type trust_level network_zone mhash signer \<Rightarrow>
          [on_graph (ignore_result (gp_execution_worker_node g org action_id (Some worker_type) (Some (WorkerTrustLevel_value trust_level)) None))]
      | _ \<Rightarrow> [])"

definition graph_writes :: "('g, 'a, 'b, 'x) coordinator_ports \<Rightarrow> inbound_event \<Rightarrow> (string, string) dict \<Rightarrow> ('x, ('g, 'a, 'b) ProjectionCoordinator) step list" where
  "graph_writes ps event ctx = (case event of Dict _ \<Rightarrow> [] | Event e \<Rightarrow>
     (let org = tenant_of event; i = ev_aggregate_id e in case ev_payload e of
        PipelineEvent p \<Rightarrow> pipeline_graph_writes (cq_graph ps) ps org e p ctx
      | EngagementCreated classification owner_id \<Rightarrow>
          [on_engagement_graph ps (\<lambda>g. eg_engagement_node g org i (Some ''Draft'') (Some classification))]
      | EngagementActivated scope_hash \<Rightarrow> [on_engagement_graph ps (\<lambda>g. eg_engagement_node g org i (Some ''Active'') None)]
      | OperationCreated engagement_id classification name \<Rightarrow>
          [on_operation_graph ps (\<lambda>g. og_operation_node g org i (Some classification) (Some ''Draft'') (Some engagement_id) (Some name)),
           on_engagement_graph ps (\<lambda>g. eg_contains_operation g org engagement_id i (Some ''created''))]
      | OperationApproved approval_id authority operator_id approval_count \<Rightarrow>
          [on_operation_graph ps (\<lambda>g. og_operation_node g org i None (Some ''Approved'') None None)]
      | _ \<Rightarrow> []))"

definition project_graph :: "('g, 'a, 'b, 'x) coordinator_ports \<Rightarrow> inbound_event \<Rightarrow> ('g, 'a, 'b) ProjectionCoordinator \<Rightarrow> ('g, 'a, 'b) ProjectionCoordinator" where
  "project_graph ps event c =
     (case steps (graph_writes ps event (context_of c (aggregate_id_of event))) c of
        Return _ c' \<Rightarrow> c'\<lparr>co_graph_successes := co_graph_successes c' + 1\<rparr>
      | Raise e c' \<Rightarrow> c'\<lparr>co_graph_failures := co_graph_failures c' @ [event_name event @ '':'' @ cq_str ps e]\<rparr>)"

definition project_event :: "('g, 'a, 'b, 'x) coordinator_ports \<Rightarrow> datetime \<Rightarrow> inbound_event \<Rightarrow> ('g, 'a, 'b) ProjectionCoordinator
    \<Rightarrow> bool \<times> ('g, 'a, 'b) ProjectionCoordinator" where
  "project_event ps now event c =
     (case projection_apply now event (co_projections c) of (applied, s) \<Rightarrow> (applied, project_graph ps event (c\<lparr>co_projections := s\<rparr>)))"

record batch_report =
  br_events :: int
  br_read_model_applied :: int
  br_graph_successes :: int
  br_graph_failures :: int

fun handle_each :: "('g, 'a, 'b, 'x) coordinator_ports \<Rightarrow> delivery list \<Rightarrow> ('g, 'a, 'b) ProjectionCoordinator \<Rightarrow> int \<times> ('g, 'a, 'b) ProjectionCoordinator" where
  "handle_each ps [] c = (0, c)"
| "handle_each ps (d # ds) c =
     (case project_event ps (dl_now d) (dl_event d) (c\<lparr>co_publisher := snd (publish d (co_publisher c))\<rparr>) of
        (applied, c1) \<Rightarrow> (case handle_each ps ds c1 of (n, c2) \<Rightarrow> (if applied then n + 1 else n, c2)))"

definition handle_batch :: "('g, 'a, 'b, 'x) coordinator_ports \<Rightarrow> delivery list \<Rightarrow> ('g, 'a, 'b) ProjectionCoordinator
    \<Rightarrow> batch_report \<times> ('g, 'a, 'b) ProjectionCoordinator" where
  "handle_batch ps ds c = (case handle_each ps ds c of (applied, c') \<Rightarrow>
     (\<lparr>br_events = int (length ds), br_read_model_applied = applied, br_graph_successes = co_graph_successes c',
       br_graph_failures = int (length (co_graph_failures c'))\<rparr>, c'))"

section \<open>Replay\<close>

record ReplayResult =
  rr_events_replayed :: int
  rr_from_position :: int
  rr_to_position :: int
  rr_organization_id :: "string option"
  rr_coordinator_version :: int

definition clear_for_replay :: "('g, 'a, 'b, 'x) coordinator_ports \<Rightarrow> string option \<Rightarrow> ('g, 'a, 'b) ProjectionCoordinator \<Rightarrow> ('g, 'a, 'b) ProjectionCoordinator" where
  "clear_for_replay ps organization_id c =
     c\<lparr>co_projections := on_store (case organization_id of Some org \<Rightarrow> clear_tenant org | None \<Rightarrow> clear_all) (reset_for_replay (co_projections c)),
       co_graph := (case gp_clear (cq_graph ps) of None \<Rightarrow> co_graph c | Some clear \<Rightarrow> clear (co_graph c)),
       co_graph_failures := [], co_graph_successes := 0\<rparr>"

fun replay_each :: "('g, 'a, 'b, 'x) coordinator_ports \<Rightarrow> (int \<Rightarrow> datetime) \<Rightarrow> ProjectionEventRecord list \<Rightarrow> int \<Rightarrow> ('g, 'a, 'b) ProjectionCoordinator
    \<Rightarrow> int \<times> ('g, 'a, 'b) ProjectionCoordinator" where
  "replay_each ps clock [] to_pos c = (to_pos, c)"
| "replay_each ps clock (r # rs) to_pos c =
     (let position = en_global_position (er_envelope r)
      in replay_each ps clock rs position (snd (project_event ps (clock position) (er_domain_event r) c)))"

definition replay :: "('g, 'a, 'b, 'x) coordinator_ports \<Rightarrow> (int \<Rightarrow> datetime) \<Rightarrow> string option \<Rightarrow> int \<Rightarrow> bool \<Rightarrow> ('g, 'a, 'b) ProjectionCoordinator
    \<Rightarrow> ReplayResult \<times> ('g, 'a, 'b) ProjectionCoordinator" where
  "replay ps clock organization_id from_position clear_read_models c =
     (let c1 = (if clear_read_models then clear_for_replay ps organization_id c else c);
          records = history_of organization_id from_position (co_publisher c1)
      in case replay_each ps clock records from_position c1 of (to_pos, c2) \<Rightarrow>
           (\<lparr>rr_events_replayed = int (length records), rr_from_position = from_position, rr_to_position = to_pos,
             rr_organization_id = organization_id, rr_coordinator_version = 1\<rparr>, c2))"

definition coordinator_health :: "('g, 'a, 'b) ProjectionCoordinator \<Rightarrow> ProjectionHealth list" where
  "coordinator_health c =
     (let rm = projection_health (co_projections c); failures = co_graph_failures c in
      [rm, \<lparr>ph_projection_name = ''red_team_security_graph'', ph_version = 1, ph_events_processed = co_graph_successes c,
        ph_last_event_id = ph_last_event_id rm, ph_last_updated_at = ph_last_updated_at rm, ph_healthy = (failures = []),
        ph_message = (if failures = [] then ''ok'' else str_int (int (length failures)) @ '' graph failures'')\<rparr>])"

definition reconcile :: "('g, 'a, 'b, 'x) coordinator_ports \<Rightarrow> (int \<Rightarrow> datetime) \<Rightarrow> datetime \<Rightarrow> string \<Rightarrow> ('g, 'a, 'b) ProjectionCoordinator
    \<Rightarrow> (ReplayResult \<times> ProjectionHealth list \<times> string) \<times> ('g, 'a, 'b) ProjectionCoordinator" where
  "reconcile ps clock now organization_id c =
     (case replay ps clock (Some organization_id) 0 True c of (res, c') \<Rightarrow> ((res, coordinator_health c', isoformat now), c'))"

definition recover :: "('g, 'a, 'b, 'x) coordinator_ports \<Rightarrow> (int \<Rightarrow> datetime) \<Rightarrow> datetime \<Rightarrow> string \<Rightarrow> ('g, 'a, 'b) ProjectionCoordinator
    \<Rightarrow> (ReplayResult \<times> ProjectionHealth list \<times> string) \<times> ('g, 'a, 'b) ProjectionCoordinator" where
  "recover ps clock now organization_id c =
     reconcile ps clock now organization_id (c\<lparr>co_projections := on_store (clear_tenant organization_id) (co_projections c)\<rparr>)"

section \<open>The projection of the registry\<close>

text \<open>\<open>RedTeamGraphProjection\<close> (\<open>red_team_graph_projection.py\<close>), which keeps a set of nodes per organisation from the envelopes of the event
  types it registers for; where it has a repository it saves a summary after every envelope.\<close>

record RedTeamKGNode =
  kg_node_id :: string
  kg_node_type :: string
  kg_label :: string
  kg_metadata :: "(string, string) dict"

record RedTeamGraphProjection =
  gj_nodes :: "(string, (string, RedTeamKGNode) dict) dict"
  gj_last_positions :: "(string, int) dict"
  gj_events_processed :: int

definition new_graph_projection :: RedTeamGraphProjection where
  "new_graph_projection = \<lparr>gj_nodes = [], gj_last_positions = [], gj_events_processed = 0\<rparr>"

definition registered_event_types :: "string list" where
  "registered_event_types = [''execution.AttackActionStarted'', ''execution.AttackActionCompleted'', ''execution.ExecutionWorkerRegistered'',
     ''engagement.EngagementCreated'', ''engagement.EngagementActivated'', ''operation.OperationCreated'', ''operation.OperationApproved'',
     ''red_team.AttackActionStarted'', ''red_team.AttackActionCompleted'', ''red_team.EngagementCreated'', ''red_team.OperationCreated'']"

definition ends_with :: "string \<Rightarrow> string \<Rightarrow> bool" where
  "ends_with s p \<longleftrightarrow> length p \<le> length s \<and> drop (length s - length p) s = p"

definition state_node :: "string \<Rightarrow> string \<Rightarrow> string \<Rightarrow> string \<Rightarrow> (string, RedTeamKGNode) dict \<Rightarrow> (string, RedTeamKGNode) dict" where
  "state_node org node_type aggregate_id state nodes =
     (let node_id = node_type @ '':'' @ aggregate_id in
      case map_of nodes node_id of
        Some existing \<Rightarrow> dict_set node_id (existing\<lparr>kg_metadata := dict_set ''state'' state (kg_metadata existing)\<rparr>) nodes
      | None \<Rightarrow> dict_set node_id \<lparr>kg_node_id = node_id, kg_node_type = node_type, kg_label = aggregate_id,
          kg_metadata = [(''state'', state), (''organization_id'', org)]\<rparr> nodes)"

definition node_after :: "EventEnvelope \<Rightarrow> (string, RedTeamKGNode) dict \<Rightarrow> (string, RedTeamKGNode) dict" where
  "node_after envelope nodes =
     (let org = en_organization_id envelope; et = en_event_type envelope; i = en_aggregate_id envelope in
      if ends_with et ''AttackActionStarted'' \<or> ends_with et ''AttackActionCompleted'' then
        dict_set (''attack_action:'' @ i) \<lparr>kg_node_id = ''attack_action:'' @ i, kg_node_type = ''attack_action'', kg_label = i,
          kg_metadata = [(''aggregate_id'', i), (''organization_id'', org), (''state'', if ends_with et ''Completed'' then ''Completed'' else ''Executing''),
            (''event_type'', et)]\<rparr> nodes
      else if ends_with et ''ExecutionWorkerRegistered'' then
        dict_set (''execution_worker:'' @ i) \<lparr>kg_node_id = ''execution_worker:'' @ i, kg_node_type = ''execution_worker'', kg_label = i,
          kg_metadata = [(''organization_id'', org), (''event_type'', et)]\<rparr> nodes
      else if ends_with et ''EngagementCreated'' \<or> ends_with et ''EngagementActivated'' then
        state_node org ''engagement'' i (if ends_with et ''Activated'' then ''Active'' else ''Draft'') nodes
      else if ends_with et ''OperationCreated'' \<or> ends_with et ''OperationApproved'' then
        state_node org ''operation'' i (if ends_with et ''Approved'' then ''Approved'' else ''Draft'') nodes
      else nodes)"

definition handle_envelope :: "(string \<Rightarrow> int \<Rightarrow> int \<Rightarrow> ('x, 'r) step) option \<Rightarrow> EventEnvelope \<Rightarrow> RedTeamGraphProjection \<times> 'r
    \<Rightarrow> ('x, unit, RedTeamGraphProjection \<times> 'r) outcome" where
  "handle_envelope save envelope = (\<lambda>(p, repo).
     let org = en_organization_id envelope; position = en_global_position envelope;
         nodes = node_after envelope (dict_get (gj_nodes p) org []);
         p' = \<lparr>gj_nodes = dict_set org nodes (gj_nodes p), gj_last_positions = dict_set org position (gj_last_positions p),
           gj_events_processed = gj_events_processed p + 1\<rparr>
     in case save of None \<Rightarrow> Return () (p', repo)
        | Some f \<Rightarrow> (case f org (int (length nodes)) position repo of Raise e r \<Rightarrow> Raise e (p', r) | Return _ r \<Rightarrow> Return () (p', r)))"

definition graph_projection_reset :: "RedTeamGraphProjection \<Rightarrow> RedTeamGraphProjection" where
  "graph_projection_reset p = p\<lparr>gj_nodes := [], gj_last_positions := [], gj_events_processed := 0\<rparr>"

definition nodes_for :: "string \<Rightarrow> RedTeamGraphProjection \<Rightarrow> RedTeamKGNode list" where
  "nodes_for organization_id p = map snd (dict_get (gj_nodes p) organization_id [])"

end
