(* ===== verification/Projection_Replay.thy ===== *)
theory Projection_Replay
  imports Projection_Coordinator
begin

text \<open>
  Replaying the event log. The read models and the security graph of \<open>execution\<close> after a batch or a replay are those that \<open>rebuild\<close>
  computes from the events alone, whatever the graphs of the other contexts do.
\<close>

section \<open>What an event writes\<close>

definition own_writes :: "('g, 'x) security_graph_port \<Rightarrow> inbound_event \<Rightarrow> (string, string) dict \<Rightarrow> ('x, 'g) step list" where
  "own_writes g event ctx = (case event of Dict _ \<Rightarrow> [] | Event e \<Rightarrow>
     (let org = tenant_of event; i = ev_aggregate_id e in case ev_payload e of
        PipelineEvent (AttackActionAuthorized engagement operation st target technique operator h) \<Rightarrow>
          [ignore_result (gp_attack_action_node g org i (Some technique) (Some ''Authorized'') None (Some h) (Some operation) (Some engagement)),
           gp_targeted g org i target None ''asset'']
      | PipelineEvent (AttackActionStarted engagement operation worker t) \<Rightarrow>
          [ignore_result (gp_attack_action_node g org i (map_of ctx ''technique_id'') (Some ''Executing'') (Some (isoformat t))
             (map_of ctx ''action_hash'') (Some operation) (Some engagement)), gp_executed_action g org operation i None] @
          (case worker of None \<Rightarrow> [] | Some w \<Rightarrow> if w = [] then [] else [gp_executed_by g org i w None])
      | PipelineEvent (AttackActionCompleted engagement operation t h) \<Rightarrow>
          [ignore_result (gp_attack_action_node g org i (map_of ctx ''technique_id'') (Some ''Completed'') (Some (isoformat t)) None
             (Some operation) (Some engagement))] @
          (case map_of ctx ''technique_id'' of None \<Rightarrow> [] | Some q \<Rightarrow> if q = [] then [] else [gp_used_technique g org i q (Some True)])
      | PipelineEvent (ExecutionWorkerRegistered w trust z m s) \<Rightarrow>
          [ignore_result (gp_execution_worker_node g org i (Some w) (Some (WorkerTrustLevel_value trust)) None)]
      | _ \<Rightarrow> []))"

definition spares_core :: "('x, ('g, 'a, 'b) ProjectionCoordinator) step \<Rightarrow> bool" where
  "spares_core a \<longleftrightarrow> (\<forall>c. co_graph (final (a c)) = co_graph c \<and> co_projections (final (a c)) = co_projections c \<and> co_publisher (final (a c)) = co_publisher c)"

lemma others_spare_core: "spares_core (on_engagement_graph ps f)" "spares_core (on_operation_graph ps h)"
  by (simp_all add: spares_core_def on_engagement_graph_def on_operation_graph_def on_part_def assign_def split: option.split outcome.split)

lemma graph_writes_split:
  "\<exists>os. graph_writes ps event ctx = map on_graph (own_writes (cq_graph ps) event ctx) @ os \<and> (\<forall>a \<in> set os. spares_core a)"
  unfolding graph_writes_def own_writes_def pipeline_graph_writes_def Let_def
  by (auto simp: others_spare_core intro: exI [of _ "[]"] split: inbound_event.split red_team_payload.split PipelineEvent.split option.split)

lemma steps_spare_core:
  "\<forall>a \<in> set os. spares_core a \<Longrightarrow> co_graph (final (steps os c)) = co_graph c \<and> co_projections (final (steps os c)) = co_projections c \<and>
     co_publisher (final (steps os c)) = co_publisher c"
proof (induction os arbitrary: c)
  case (Cons a os)
  then have "co_graph (final (a c)) = co_graph c" "co_projections (final (a c)) = co_projections c" "co_publisher (final (a c)) = co_publisher c"
    by (simp_all add: spares_core_def)
  with Cons show ?case by (auto simp: steps.simps split: outcome.splits)
qed simp

lemma steps_on_graph:
  assumes "\<forall>a \<in> set os. spares_core a"
  shows "co_graph (final (steps (map on_graph gs @ os) c)) = final (steps gs (co_graph c)) \<and>
    co_projections (final (steps (map on_graph gs @ os) c)) = co_projections c \<and> co_publisher (final (steps (map on_graph gs @ os) c)) = co_publisher c"
proof (induction gs arbitrary: c)
  case Nil
  then show ?case using steps_spare_core [OF assms, of c] by simp
next
  case (Cons a gs)
  show ?case
  proof (cases "a (co_graph c)")
    case (Return u g)
    then show ?thesis using Cons [of "c\<lparr>co_graph := g\<rparr>"] by (simp add: steps.simps on_graph_def on_part_def)
  qed (simp add: steps.simps on_graph_def on_part_def)
qed

lemma project_graph_core:
  "co_graph (project_graph ps event c) = final (steps (own_writes (cq_graph ps) event (context_of c (aggregate_id_of event))) (co_graph c))"
  "co_projections (project_graph ps event c) = co_projections c" "co_publisher (project_graph ps event c) = co_publisher c"
proof -
  obtain os where os: "graph_writes ps event (context_of c (aggregate_id_of event)) =
      map on_graph (own_writes (cq_graph ps) event (context_of c (aggregate_id_of event))) @ os" "\<forall>a \<in> set os. spares_core a"
    using graph_writes_split by blast
  note run = steps_on_graph [OF os(2), of "own_writes (cq_graph ps) event (context_of c (aggregate_id_of event))" c, folded os(1)]
  then show "co_graph (project_graph ps event c) = final (steps (own_writes (cq_graph ps) event (context_of c (aggregate_id_of event))) (co_graph c))"
    "co_projections (project_graph ps event c) = co_projections c" "co_publisher (project_graph ps event c) = co_publisher c"
    by (auto simp: project_graph_def split: outcome.splits)
qed

section \<open>Rebuilding from the events\<close>

definition rebuild_one :: "('g, 'x) security_graph_port \<Rightarrow> datetime \<times> inbound_event \<Rightarrow> RedTeamProjectionService \<times> 'g \<Rightarrow> RedTeamProjectionService \<times> 'g" where
  "rebuild_one g x st = (let s = snd (projection_apply (fst x) (snd x) (fst st))
     in (s, final (steps (own_writes g (snd x) (dict_get (ps_action_ctx s) (aggregate_id_of (snd x)) [])) (snd st))))"

definition rebuild :: "('g, 'x) security_graph_port \<Rightarrow> (datetime \<times> inbound_event) list \<Rightarrow> RedTeamProjectionService \<times> 'g \<Rightarrow> RedTeamProjectionService \<times> 'g" where
  "rebuild g = fold (rebuild_one g)"

definition core :: "('g, 'a, 'b) ProjectionCoordinator \<Rightarrow> RedTeamProjectionService \<times> 'g" where
  "core c = (co_projections c, co_graph c)"

lemma project_event_core:
  "core (snd (project_event ps now event c)) = rebuild_one (cq_graph ps) (now, event) (core c)"
  "co_publisher (snd (project_event ps now event c)) = co_publisher c"
  by (simp_all add: project_event_def core_def rebuild_one_def Let_def project_graph_core context_of_def case_prod_unfold)

lemma handle_each_core:
  "core (snd (handle_each ps ds c)) = rebuild (cq_graph ps) (map (\<lambda>d. (dl_now d, dl_event d)) ds) (core c)"
proof (induction ds arbitrary: c)
  case (Cons d ds)
  have "core (c\<lparr>co_publisher := p\<rparr>) = core c" for p by (simp add: core_def)
  with Cons show ?case by (simp add: case_prod_unfold rebuild_def project_event_core)
qed (simp add: rebuild_def)

lemma replay_each_core:
  "core (snd (replay_each ps clock rs to_pos c)) =
     rebuild (cq_graph ps) (map (\<lambda>r. (clock (en_global_position (er_envelope r)), er_domain_event r)) rs) (core c)"
  by (induction rs arbitrary: to_pos c) (simp_all add: rebuild_def Let_def project_event_core)

lemma rebuild_projections: "fst (rebuild g xs st) = apply_all xs (fst st)"
  unfolding rebuild_def by (induction xs arbitrary: st) (simp_all add: rebuild_one_def Let_def)

section \<open>The log\<close>

definition log_ok :: "ProjectionPublisher \<Rightarrow> bool" where
  "log_ok p \<longleftrightarrow> map (en_global_position \<circ> er_envelope) (pb_log p) = map (\<lambda>i. int i + 1) [0..<length (pb_log p)] \<and>
     pb_global_position p = int (length (pb_log p)) \<and> (\<forall>r \<in> set (pb_log p). en_organization_id (er_envelope r) = tenant_of (er_domain_event r))"

lemma publish_log:
  "map er_domain_event (pb_log (snd (publish d p))) = map er_domain_event (pb_log p) @ [dl_event d]"
  "log_ok p \<Longrightarrow> log_ok (snd (publish d p))"
  by (auto simp: publish_def Let_def log_ok_def make_envelope_def)

lemma handle_each_log:
  "map er_domain_event (pb_log (co_publisher (snd (handle_each ps ds c)))) = map er_domain_event (pb_log (co_publisher c)) @ map dl_event ds"
  "log_ok (co_publisher c) \<Longrightarrow> log_ok (co_publisher (snd (handle_each ps ds c)))"
  by (induction ds arbitrary: c) (simp_all add: case_prod_unfold project_event_core publish_log)

lemma replay_each_log: "co_publisher (snd (replay_each ps clock rs to_pos c)) = co_publisher c"
  by (induction rs arbitrary: to_pos c) (simp_all add: Let_def project_event_core)

lemma whole_history: "log_ok p \<Longrightarrow> history_of None 0 p = pb_log p"
proof -
  assume "log_ok p"
  then have "set (map (en_global_position \<circ> er_envelope) (pb_log p)) = (\<lambda>i. int i + 1) ` {0..<length (pb_log p)}" by (simp add: log_ok_def)
  then have positions: "(\<lambda>r. en_global_position (er_envelope r)) ` set (pb_log p) = (\<lambda>i. int i + 1) ` {0..<length (pb_log p)}" by simp
  have "0 \<le> en_global_position (er_envelope r)" if "r \<in> set (pb_log p)" for r
    using imageI [OF that, of "\<lambda>r. en_global_position (er_envelope r)"] unfolding positions by auto
  then show ?thesis by (simp add: history_of_def)
qed

lemma log_pairs:
  assumes "log_ok p" and "map er_domain_event (pb_log p) = map dl_event ds" and "\<forall>i < length ds. clock (int i + 1) = dl_now (ds ! i)"
  shows "map (\<lambda>r. (clock (en_global_position (er_envelope r)), er_domain_event r)) (pb_log p) = map (\<lambda>d. (dl_now d, dl_event d)) ds"
proof (rule nth_equalityI)
  have len: "length (pb_log p) = length ds" using arg_cong [OF assms(2), of length] by simp
  then show "length (map (\<lambda>r. (clock (en_global_position (er_envelope r)), er_domain_event r)) (pb_log p)) = length (map (\<lambda>d. (dl_now d, dl_event d)) ds)" by simp
  fix i assume "i < length (map (\<lambda>r. (clock (en_global_position (er_envelope r)), er_domain_event r)) (pb_log p))"
  then have i: "i < length (pb_log p)" by simp
  have "map (en_global_position \<circ> er_envelope) (pb_log p) ! i = map (\<lambda>i. int i + 1) [0..<length (pb_log p)] ! i"
    using assms(1) by (simp add: log_ok_def)
  then have "en_global_position (er_envelope (pb_log p ! i)) = int i + 1" using i by simp
  moreover have "er_domain_event (pb_log p ! i) = dl_event (ds ! i)" using arg_cong [OF assms(2), of "\<lambda>xs. xs ! i"] i len by simp
  ultimately show "map (\<lambda>r. (clock (en_global_position (er_envelope r)), er_domain_event r)) (pb_log p) ! i = map (\<lambda>d. (dl_now d, dl_event d)) ds ! i"
    using i len assms(3) by simp
qed

lemma cleared_store: "clear_all s = new_store"
  by (simp add: clear_all_def new_store_def)

lemma replay_core:
  "core (snd (replay ps clock org start True c)) =
     rebuild (cq_graph ps) (map (\<lambda>r. (clock (en_global_position (er_envelope r)), er_domain_event r)) (history_of org start (co_publisher c)))
       (core (clear_for_replay ps org c))"
proof -
  have "co_publisher (clear_for_replay ps org c) = co_publisher c" by (simp add: clear_for_replay_def)
  then show ?thesis by (simp add: replay_def Let_def case_prod_unfold replay_each_core)
qed

lemma clear_core:
  "core (clear_for_replay ps None c) =
     (new_projection_service new_store, case gp_clear (cq_graph ps) of None \<Rightarrow> co_graph c | Some clear \<Rightarrow> clear (co_graph c))"
  by (simp add: clear_for_replay_def core_def reset_for_replay_def on_store_def new_projection_service_def cleared_store)

lemma new_coordinator_log [simp]: "log_ok (co_publisher (new_coordinator g a b))" "pb_log (co_publisher (new_coordinator g a b)) = []"
  by (simp_all add: new_coordinator_def new_publisher_def log_ok_def)

section \<open>Organisations in the graph\<close>

text \<open>Every node and edge belongs to one organisation.\<close>

definition only_org :: "string \<Rightarrow> InMemorySecurityGraphWriteAdapter \<Rightarrow> bool" where
  "only_org t g \<longleftrightarrow> (\<forall>(k, n) \<in> set (ga_nodes g). fst k = t \<and> gn_organization_id n = t) \<and> (\<forall>(k, e) \<in> set (ga_edges g). fst k = t \<and> ge_organization_id e = t)"

definition org_step :: "string \<Rightarrow> ('x, InMemorySecurityGraphWriteAdapter) step \<Rightarrow> bool" where
  "org_step t a \<longleftrightarrow> (\<forall>g. only_org t g \<longrightarrow> only_org t (final (a g)))"

lemma dict_set_subset: "set (dict_set k v d) \<subseteq> insert (k, v) (set d)"
  unfolding dict_set_def by (induction d) auto

lemma upsert_only_org:
  "only_org t g \<Longrightarrow> only_org t (snd (upsert_node t kind domain entity attrs g))"
  "only_org t g \<Longrightarrow> only_org t (snd (upsert_edge t sd se td te rel attrs g))"
  by (auto simp: only_org_def upsert_node_def upsert_edge_def Let_def split: option.splits dest!: subsetD [OF dict_set_subset] map_of_SomeD)

lemma org_step_steps: "\<forall>a \<in> set as. org_step t a \<Longrightarrow> org_step t (steps as)"
proof (induction as)
  case (Cons a as)
  then show ?case by (fastforce simp: org_step_def steps.simps split: outcome.splits)
qed (simp add: org_step_def)

lemma org_step_put:
  "org_step t (ignore_result (put_node t kind domain entity attrs))" "org_step t (put_edge t sd se td te rel attrs)"
  using upsert_only_org by (auto simp: org_step_def ignore_result_def put_node_def put_edge_def assign_def and_return_def split: prod.splits) (metis snd_conv)+

lemma org_step_writes:
  "org_step t (ignore_result (project_attack_action_node t a o1 o2 o3 o4 o5 o6))" "org_step t (ignore_result (project_execution_worker_node t a o1 o2 w))"
  "org_step t (project_executed_action t a b n)" "org_step t (project_used_technique t a b s)" "org_step t (project_executed_by t a b d)"
  "org_step t (project_targeted t a b d q)" "org_step t (project_caught_by_detection t a b d e)" "org_step t (project_evaded_detection t a b d)"
  "org_step t (project_produced_finding t a b d)"
  unfolding project_executed_action_def project_used_technique_def project_executed_by_def project_targeted_def project_caught_by_detection_def
    project_evaded_detection_def project_produced_finding_def project_attack_action_node_def project_execution_worker_node_def project_payload_node_def
  by (auto simp: org_step_put intro!: org_step_steps)

lemma own_writes_org: "org_step (tenant_of event) (steps (own_writes in_memory_graph event ctx))"
  by (rule org_step_steps, unfold list_all_iff [symmetric])
    (simp add: own_writes_def in_memory_graph_def Let_def org_step_writes split: inbound_event.split red_team_payload.split PipelineEvent.split option.split)

lemma rebuild_only_org:
  "\<forall>x \<in> set xs. tenant_of (snd x) = t \<Longrightarrow> only_org t (snd st) \<Longrightarrow> only_org t (snd (rebuild in_memory_graph xs st))"
  unfolding rebuild_def
proof (induction xs arbitrary: st)
  case (Cons x xs)
  then have "only_org t (snd (rebuild_one in_memory_graph x st))"
    using own_writes_org [of "snd x"] by (auto simp: rebuild_one_def Let_def org_step_def)
  with Cons show ?case by simp
qed simp

end
