(* ===== verification/Detection_Correlation.thy ===== *)
theory Detection_Correlation
  imports Projection_Replay
begin

text \<open>
  The services over the projections: the correlation of detection findings with attack actions
  (\<open>execution/application/services/detection_correlation_service.py\<close>), the read-only simulation of a journal
  (\<open>replay_application_service.py\<close>) and the facade of the projections (\<open>projection_application_service.py\<close>). The correlation service writes
  to the graph port of the coordinator, as in \<open>execution/infrastructure/container.py\<close>; the journal repository is an argument.
\<close>

section \<open>Correlation\<close>

record DetectionFindingProducedDTO =
  df_finding_id :: string
  df_rule_id :: string
  df_asset_id :: string
  df_detected_at :: datetime
  df_tenant_id :: string
  df_related_technique :: "string option"
  df_action_id :: "string option"

record CorrelateDetectionFinding =
  cd_tenant_id :: string
  cd_action_id :: string
  cd_finding_id :: string
  cd_rule_id :: string
  cd_detected_at :: datetime

record CorrelationResult =
  cl_action_id :: string
  cl_outcome :: string
  cl_rule_id :: string
  cl_finding_id :: "string option"
  cl_coverage_pct :: rat

record ('g, 'a, 'b) DetectionCorrelationService =
  ds_coordinator :: "('g, 'a, 'b) ProjectionCoordinator"
  ds_window :: int
  ds_completions :: "(string, datetime) dict"
  ds_caught :: "(string, string set) dict"

definition CORRELATION_WINDOW :: int where "CORRELATION_WINDOW = 30 * 60 * 1000000"

definition new_correlation :: "('g, 'a, 'b) ProjectionCoordinator \<Rightarrow> ('g, 'a, 'b) DetectionCorrelationService" where
  "new_correlation c = \<lparr>ds_coordinator = c, ds_window = CORRELATION_WINDOW, ds_completions = [], ds_caught = []\<rparr>"

definition register_action_completed :: "string \<Rightarrow> datetime \<Rightarrow> ('g, 'a, 'b) DetectionCorrelationService \<Rightarrow> ('g, 'a, 'b) DetectionCorrelationService" where
  "register_action_completed action_id completed_at s = s\<lparr>ds_completions := dict_set action_id completed_at (ds_completions s)\<rparr>"

text \<open>The completion that a logged event reports; an event of another class of that name has no completion time.\<close>

definition completion_of :: "inbound_event \<Rightarrow> (string \<times> datetime) option" where
  "completion_of event = (case event of Event e \<Rightarrow> (case ev_payload e of
       PipelineEvent (AttackActionCompleted _ _ completion_timestamp _) \<Rightarrow>
         if ev_aggregate_id e \<noteq> [] then Some (ev_aggregate_id e, completion_timestamp) else None
     | _ \<Rightarrow> None) | _ \<Rightarrow> None)"

definition sync_completions_from_projection :: "('g, 'a, 'b) DetectionCorrelationService \<Rightarrow> ('g, 'a, 'b) DetectionCorrelationService" where
  "sync_completions_from_projection s =
     s\<lparr>ds_completions := fold (\<lambda>r d. case completion_of (er_domain_event r) of None \<Rightarrow> d | Some (a, t) \<Rightarrow> dict_set a t d)
         (history_of None 0 (co_publisher (ds_coordinator s))) (ds_completions s)\<rparr>"

definition within_window :: "int \<Rightarrow> datetime \<Rightarrow> datetime \<Rightarrow> bool" where
  "within_window window completed detected_at \<longleftrightarrow> 0 \<le> detected_at - completed \<and> detected_at - completed \<le> window"

text \<open>\<open>x and meta.get(key) and meta[key] != x\<close>.\<close>

definition differs :: "string \<Rightarrow> (string, string) dict \<Rightarrow> string \<Rightarrow> bool" where
  "differs x meta key \<longleftrightarrow> x \<noteq> [] \<and> (case map_of meta key of None \<Rightarrow> False | Some v \<Rightarrow> v \<noteq> [] \<and> v \<noteq> x)"

definition is_candidate :: "('g, 'a, 'b) DetectionCorrelationService \<Rightarrow> datetime \<Rightarrow> string option \<Rightarrow> string \<Rightarrow> string \<times> datetime \<Rightarrow> bool" where
  "is_candidate s detected_at technique asset_id x \<longleftrightarrow>
     (let meta = dict_get (ps_action_ctx (co_projections (ds_coordinator s))) (fst x) [] in
      within_window (ds_window s) (snd x) detected_at \<and> \<not> differs (or_empty technique) meta ''technique_id'' \<and> \<not> differs asset_id meta ''target_id'')"

definition infer_action :: "('g, 'a, 'b) DetectionCorrelationService \<Rightarrow> string \<Rightarrow> datetime \<Rightarrow> string option \<Rightarrow> string \<Rightarrow> string option" where
  "infer_action s tenant_id detected_at technique asset_id =
     (case sort_key (\<lambda>x. - snd x) (filter (is_candidate s detected_at technique asset_id) (ds_completions s)) of
        [] \<Rightarrow> None | x # _ \<Rightarrow> Some (fst x))"

definition on_coordinator_graph :: "('x, 'g) step \<Rightarrow> ('x, ('g, 'a, 'b) DetectionCorrelationService) step" where
  "on_coordinator_graph f = on_part (co_graph \<circ> ds_coordinator) (\<lambda>g s. s\<lparr>ds_coordinator := (ds_coordinator s)\<lparr>co_graph := g\<rparr>\<rparr>) id f"

definition with_projections :: "(RedTeamProjectionService \<Rightarrow> DetectionCoverageReport \<times> RedTeamProjectionService)
    \<Rightarrow> ('g, 'a, 'b) DetectionCorrelationService \<Rightarrow> ('x, DetectionCoverageReport, ('g, 'a, 'b) DetectionCorrelationService) outcome" where
  "with_projections f s = (case f (co_projections (ds_coordinator s)) of (report, p) \<Rightarrow>
     Return report (s\<lparr>ds_coordinator := (ds_coordinator s)\<lparr>co_projections := p\<rparr>\<rparr>))"

definition apply_caught :: "('g, 'a, 'b, 'x) coordinator_ports \<Rightarrow> datetime \<Rightarrow> string \<Rightarrow> string \<Rightarrow> string \<Rightarrow> string \<Rightarrow> datetime
    \<Rightarrow> ('g, 'a, 'b) DetectionCorrelationService \<Rightarrow> ('x, CorrelationResult, ('g, 'a, 'b) DetectionCorrelationService) outcome" where
  "apply_caught ps now tenant_id action_id finding_id rule_id detected_at s =
     (let caught_or = (\<lambda>outcome report. \<lparr>cl_action_id = action_id, cl_outcome = outcome, cl_rule_id = rule_id, cl_finding_id = Some finding_id,
            cl_coverage_pct = dc_coverage_pct report\<rparr>)
      in if (case map_of (ds_completions s) action_id of None \<Rightarrow> False | Some completed \<Rightarrow> \<not> within_window (ds_window s) completed detected_at)
         then and_then (with_projections (rebuild_coverage now tenant_id None)) (\<lambda>report. give (caught_or ''skipped'' report)) s
         else and_then (on_coordinator_graph (gp_caught_by_detection (cq_graph ps) tenant_id action_id rule_id (Some (isoformat detected_at)) (Some finding_id))) (\<lambda>_.
           and_then (on_coordinator_graph (gp_produced_finding (cq_graph ps) tenant_id action_id finding_id (Some ''detection''))) (\<lambda>_.
           and_then (assign (\<lambda>s. s\<lparr>ds_caught := dict_set action_id (insert rule_id (dict_get (ds_caught s) action_id {})) (ds_caught s)\<rparr>)) (\<lambda>_.
           and_then (with_projections (mark_action_detected now tenant_id action_id (Some finding_id))) (\<lambda>report.
           give (caught_or ''caught'' report))))) s)"

definition correlate_finding :: "('g, 'a, 'b, 'x) coordinator_ports \<Rightarrow> datetime \<Rightarrow> DetectionFindingProducedDTO
    \<Rightarrow> ('g, 'a, 'b) DetectionCorrelationService \<Rightarrow> ('x, CorrelationResult option, ('g, 'a, 'b) DetectionCorrelationService) outcome" where
  "correlate_finding ps now f s =
     (let s1 = sync_completions_from_projection s;
          action = (case df_action_id f of Some a \<Rightarrow> Some a
            | None \<Rightarrow> infer_action s1 (df_tenant_id f) (df_detected_at f) (df_related_technique f) (df_asset_id f))
      in case action of None \<Rightarrow> Return None s1
         | Some a \<Rightarrow> and_then (apply_caught ps now (df_tenant_id f) a (df_finding_id f) (df_rule_id f) (df_detected_at f)) (\<lambda>r. give (Some r)) s1)"

definition correlate_command :: "('g, 'a, 'b, 'x) coordinator_ports \<Rightarrow> datetime \<Rightarrow> CorrelateDetectionFinding
    \<Rightarrow> ('g, 'a, 'b) DetectionCorrelationService \<Rightarrow> ('x, CorrelationResult, ('g, 'a, 'b) DetectionCorrelationService) outcome" where
  "correlate_command ps now cmd s =
     apply_caught ps now (cd_tenant_id cmd) (cd_action_id cmd) (cd_finding_id cmd) (cd_rule_id cmd) (cd_detected_at cmd) (sync_completions_from_projection s)"

fun evade_each :: "('g, 'a, 'b, 'x) coordinator_ports \<Rightarrow> datetime \<Rightarrow> datetime \<Rightarrow> string \<Rightarrow> string \<Rightarrow> string set \<Rightarrow> string list
    \<Rightarrow> ('g, 'a, 'b) DetectionCorrelationService \<Rightarrow> ('x, CorrelationResult list, ('g, 'a, 'b) DetectionCorrelationService) outcome" where
  "evade_each ps clock now tenant_id action_id caught [] = give []"
| "evade_each ps clock now tenant_id action_id caught (rule_id # rule_ids) =
     (if rule_id \<in> caught then evade_each ps clock now tenant_id action_id caught rule_ids
      else and_then (on_coordinator_graph (gp_evaded_detection (cq_graph ps) tenant_id action_id rule_id (Some (isoformat now)))) (\<lambda>_.
        and_then (with_projections (rebuild_coverage clock tenant_id None)) (\<lambda>report.
        and_then (evade_each ps clock now tenant_id action_id caught rule_ids) (\<lambda>results.
        give (\<lparr>cl_action_id = action_id, cl_outcome = ''evaded'', cl_rule_id = rule_id, cl_finding_id = None,
          cl_coverage_pct = dc_coverage_pct report\<rparr> # results)))))"

definition mark_evaded :: "('g, 'a, 'b, 'x) coordinator_ports \<Rightarrow> datetime \<Rightarrow> string \<Rightarrow> string \<Rightarrow> string list \<Rightarrow> datetime option
    \<Rightarrow> ('g, 'a, 'b) DetectionCorrelationService \<Rightarrow> ('x, CorrelationResult list, ('g, 'a, 'b) DetectionCorrelationService) outcome" where
  "mark_evaded ps clock tenant_id action_id rule_ids evaluated_at s =
     (let s1 = sync_completions_from_projection s;
          now = (case evaluated_at of Some t \<Rightarrow> t | None \<Rightarrow> clock)
      in if (case map_of (ds_completions s1) action_id of None \<Rightarrow> False | Some completed \<Rightarrow> now - completed < ds_window s1)
         then Return [] s1
         else evade_each ps clock now tenant_id action_id (dict_get (ds_caught s1) action_id {}) rule_ids s1)"

section \<open>Simulating a journal\<close>

record ReplayAttackActionExecution =
  ra_tenant_id :: EntityId
  ra_journal_id :: "uuid option"
  ra_engagement_id :: "uuid option"

definition make_ReplayAttackActionExecution :: "EntityId \<Rightarrow> uuid option \<Rightarrow> uuid option \<Rightarrow> PyError + ReplayAttackActionExecution" where
  "make_ReplayAttackActionExecution tenant_id journal_id engagement_id =
     (if journal_id = None \<and> engagement_id = None then Inl (ValueError ''Either journal_id or engagement_id is required'')
      else Inr \<lparr>ra_tenant_id = tenant_id, ra_journal_id = journal_id, ra_engagement_id = engagement_id\<rparr>)"

record ReplayStep =
  rs_sequence_number :: int
  rs_entry_type :: string
  rs_content :: string
  rs_occurred_at :: string
  rs_entry_hash :: string
  rs_simulated_state :: string

record ReplayReport =
  rt_tenant_id :: string
  rt_journal_id :: string
  rt_engagement_id :: string
  rt_steps :: "ReplayStep list"
  rt_actions_simulated :: int
  rt_evidence_touched :: bool
  rt_journal_appended :: bool
  rt_attack_actions_created :: bool
  rt_simulated_at :: datetime

datatype 'x replay_error = LookupError string | ReplayPython PyError | ReplayFailure 'x

definition state_keys :: "(string \<times> string) list" where
  "state_keys = [(''AttackActionAuthorized'', ''Authorized''), (''AttackActionStarted'', ''Executing''), (''AttackActionCompleted'', ''Completed''),
     (''AttackActionFailed'', ''Failed''), (''AttackActionAborted'', ''Aborted''), (''KillSwitchTriggered'', ''KillSwitch''),
     (''JournalCreated'', ''JournalOpen''), (''JournalEntryAppended'', ''JournalEntry'')]"

definition simulate_state :: "string \<Rightarrow> string" where
  "simulate_state entry_type =
     (case find (\<lambda>x. occurs_in (lower (fst x)) (filter (\<lambda>c. c \<noteq> CHR ''_'') (lower entry_type))) state_keys of
        Some x \<Rightarrow> snd x
      | None \<Rightarrow> let normalized = map (\<lambda>c. if c = CHR ''-'' then CHR ''_'' else c) (lower entry_type)
          in if occurs_in ''started'' normalized then ''Executing''
             else if occurs_in ''completed'' normalized then ''Completed''
             else if occurs_in ''failed'' normalized then ''Failed''
             else if occurs_in ''abort'' normalized then ''Aborted''
             else if occurs_in ''kill'' normalized then ''KillSwitch''
             else ''Observed'')"

definition replay_step :: "JournalEntry \<Rightarrow> ReplayStep" where
  "replay_step e = (let t = JournalEntryType_value (je_entry_type e) in
     \<lparr>rs_sequence_number = je_sequence_number e, rs_entry_type = t, rs_content = je_content e, rs_occurred_at = isoformat (je_occurred_at e),
      rs_entry_hash = je_entry_hash e, rs_simulated_state = simulate_state t\<rparr>)"

definition load_journal :: "(uuid \<Rightarrow> EntityId \<Rightarrow> 'x + ExecutionJournal option) \<Rightarrow> (uuid \<Rightarrow> EntityId \<Rightarrow> 'x + ExecutionJournal option)
    \<Rightarrow> ReplayAttackActionExecution \<Rightarrow> 'x replay_error + ExecutionJournal option" where
  "load_journal find_by_id find_by_engagement cmd =
     (case ra_journal_id cmd of
        Some j \<Rightarrow> (case non_nil ''ExecutionJournalId'' j of Inl e \<Rightarrow> Inl (ReplayPython e) | Inr i \<Rightarrow> map_sum ReplayFailure id (find_by_id i (ra_tenant_id cmd)))
      | None \<Rightarrow> (case ra_engagement_id cmd of None \<Rightarrow> Inl (ReplayPython AssertionError)
          | Some g \<Rightarrow> (case non_nil ''EngagementId'' g of Inl e \<Rightarrow> Inl (ReplayPython e)
              | Inr i \<Rightarrow> map_sum ReplayFailure id (find_by_engagement i (ra_tenant_id cmd)))))"

definition replay_journal :: "(uuid \<Rightarrow> EntityId \<Rightarrow> 'x + ExecutionJournal option) \<Rightarrow> (uuid \<Rightarrow> EntityId \<Rightarrow> 'x + ExecutionJournal option)
    \<Rightarrow> datetime \<Rightarrow> ReplayAttackActionExecution \<Rightarrow> 'x replay_error + ReplayReport" where
  "replay_journal find_by_id find_by_engagement now cmd =
     (case load_journal find_by_id find_by_engagement cmd of
        Inl e \<Rightarrow> Inl e
      | Inr None \<Rightarrow> Inl (LookupError ''Execution journal not found'')
      | Inr (Some j) \<Rightarrow>
          (let steps = map replay_step (jn_entries j) in
           Inr \<lparr>rt_tenant_id = entity_str (ra_tenant_id cmd), rt_journal_id = uuid_str (jn_journal_id j), rt_engagement_id = uuid_str (jn_engagement_id j),
             rt_steps = steps,
             rt_actions_simulated = int (length (filter (\<lambda>s. rs_simulated_state s \<in> {''Executing'', ''Completed'', ''Failed'', ''Aborted''}) steps)),
             rt_evidence_touched = False, rt_journal_appended = False, rt_attack_actions_created = False, rt_simulated_at = now\<rparr>))"

section \<open>The facade\<close>

record projection_status_view =
  pv_projections :: "ProjectionHealth list"
  pv_publisher :: publisher_status
  pv_store :: store_status
  pv_coordinator_version :: int

definition projection_status :: "('g, 'a, 'b) ProjectionCoordinator \<Rightarrow> projection_status_view" where
  "projection_status c = \<lparr>pv_projections = coordinator_health c, pv_publisher = publisher_status_of (co_publisher c),
     pv_store = status (ps_store (co_projections c)), pv_coordinator_version = 1\<rparr>"

definition facade_replay :: "('g, 'a, 'b, 'x) coordinator_ports \<Rightarrow> (int \<Rightarrow> datetime) \<Rightarrow> EntityId option \<Rightarrow> int \<Rightarrow> ('g, 'a, 'b) ProjectionCoordinator
    \<Rightarrow> ReplayResult \<times> ('g, 'a, 'b) ProjectionCoordinator" where
  "facade_replay ps clock tenant_id from_position = replay ps clock (map_option entity_str tenant_id) from_position True"

definition get_detection_coverage :: "EntityId \<Rightarrow> string \<Rightarrow> ('g, 'a, 'b) ProjectionCoordinator \<Rightarrow> DetectionCoverageReport option" where
  "get_detection_coverage tenant_id view_key c = load_detection_coverage (entity_str tenant_id) view_key (ps_store (co_projections c))"

definition get_engagement_summary :: "EntityId \<Rightarrow> string \<Rightarrow> ('g, 'a, 'b) ProjectionCoordinator \<Rightarrow> EngagementSummaryView option" where
  "get_engagement_summary tenant_id engagement_id c = load_engagement_summary (entity_str tenant_id) engagement_id (ps_store (co_projections c))"

definition get_operation_timeline :: "EntityId \<Rightarrow> string \<Rightarrow> ('g, 'a, 'b) ProjectionCoordinator \<Rightarrow> OperationTimelineView option" where
  "get_operation_timeline tenant_id operation_id c = load_operation_timeline (entity_str tenant_id) operation_id (ps_store (co_projections c))"

definition get_action_by_technique :: "EntityId \<Rightarrow> ('g, 'a, 'b) ProjectionCoordinator \<Rightarrow> ActionByTechniqueView option" where
  "get_action_by_technique tenant_id c = load_action_by_technique (entity_str tenant_id) ''default'' (ps_store (co_projections c))"

text \<open>The part of the container that builds the projections, with the graphs of the engagement and the operation context.\<close>

definition projection_container :: "('a, 'x) engagement_graph_port \<Rightarrow> 'a \<Rightarrow> ('b, 'x) operation_graph_port \<Rightarrow> 'b \<Rightarrow> ('x \<Rightarrow> string)
    \<Rightarrow> (InMemorySecurityGraphWriteAdapter, 'a, 'b, 'x) coordinator_ports \<times> (InMemorySecurityGraphWriteAdapter, 'a, 'b) DetectionCorrelationService" where
  "projection_container eg a og b str =
     (\<lparr>cq_graph = in_memory_graph, cq_engagement_graph = Some eg, cq_operation_graph = Some og, cq_str = str\<rparr>,
      new_correlation (new_coordinator empty_graph a b))"

section \<open>Laws of the correlation\<close>

lemma infer_action_Some:
  assumes "infer_action s tenant detected_at technique asset = Some a"
  obtains t where "(a, t) \<in> set (ds_completions s)" "is_candidate s detected_at technique asset (a, t)"
    "\<And>x. x \<in> set (ds_completions s) \<Longrightarrow> is_candidate s detected_at technique asset x \<Longrightarrow> snd x \<le> t"
proof -
  let ?c = "filter (is_candidate s detected_at technique asset) (ds_completions s)"
  from assms obtain x xs where s: "sort_key (\<lambda>x. - snd x) ?c = x # xs" and a: "a = fst x"
    by (auto simp: infer_action_def split: list.splits)
  have same: "set (x # xs) = set ?c" by (metis s set_sort)
  then have "x \<in> set ?c" by auto
  then have x: "(a, snd x) \<in> set (ds_completions s)" "is_candidate s detected_at technique asset (a, snd x)" by (simp_all add: a)
  have "\<forall>y \<in> set ?c. snd y \<le> snd x" unfolding same [symmetric] using sorted_sort_key [of "\<lambda>x. - snd x" ?c] by (auto simp: s)
  then have "snd y \<le> snd x" if "y \<in> set (ds_completions s)" "is_candidate s detected_at technique asset y" for y using that by (cases y) auto
  then show ?thesis by (rule that [OF x])
qed

lemma sync_frame [simp]:
  "ds_coordinator (sync_completions_from_projection s) = ds_coordinator s" "ds_window (sync_completions_from_projection s) = ds_window s"
  "ds_caught (sync_completions_from_projection s) = ds_caught s"
  by (simp_all add: sync_completions_from_projection_def)

lemma sync_distinct: "distinct (map fst (ds_completions s)) \<Longrightarrow> distinct (map fst (ds_completions (sync_completions_from_projection s)))"
proof -
  have "distinct (map fst (fold (\<lambda>r d. case completion_of (er_domain_event r) of None \<Rightarrow> d | Some (a, t) \<Rightarrow> dict_set a t d) rs d))"
    if "distinct (map fst d)" for rs and d :: "(string, datetime) dict"
    using that by (induction rs arbitrary: d) (auto split: option.split prod.split)
  then show "distinct (map fst (ds_completions s)) \<Longrightarrow> ?thesis" by (simp add: sync_completions_from_projection_def)
qed

lemma upsert_edge_present:
  "map_of (ga_edges (snd (upsert_edge org sd se td te rel attrs g))) (org, sd @ '':'' @ se, rel, td @ '':'' @ te) \<noteq> None"
  by (simp add: upsert_edge_def Let_def map_of_dict_set split: option.split)

lemma upsert_edge_keeps: "map_of (ga_edges g) k \<noteq> None \<Longrightarrow> map_of (ga_edges (snd (upsert_edge org sd se td te rel attrs g))) k \<noteq> None"
  by (simp add: upsert_edge_def Let_def map_of_dict_set split: option.split)

lemma upsert_node_edges [simp]: "ga_edges (snd (upsert_node org kind domain entity attrs g)) = ga_edges g"
  by (simp add: upsert_node_def Let_def split: option.split)

lemma apply_caught_within:
  assumes "case map_of (ds_completions s) a of None \<Rightarrow> True | Some t \<Rightarrow> within_window (ds_window s) t detected_at" and "cq_graph ps = in_memory_graph"
  shows "\<exists>r s'. apply_caught ps now tenant a finding rule detected_at s = Return r s' \<and> cl_outcome r = ''caught'' \<and> cl_action_id r = a \<and>
    map_of (ga_edges (co_graph (ds_coordinator s'))) (tenant, ''attack_action:'' @ a, ''caught_by_detection'', ''detection_rule:'' @ rule) \<noteq> None \<and>
    a \<in> ps_detected_actions (co_projections (ds_coordinator s')) \<and> rule \<in> dict_get (ds_caught s') a {} \<and>
    load_detection_coverage tenant ''default'' (ps_store (co_projections (ds_coordinator s'))) \<noteq> None"
proof -
  let ?g1 = "snd (upsert_node tenant ''detection_rule'' ''detection_rule'' rule [(''rule_id'', JStr rule)] (co_graph (ds_coordinator s)))"
  let ?g2 = "snd (upsert_edge tenant ''attack_action'' a ''detection_rule'' rule ''caught_by_detection''
    [(''detected_at'', JStr (isoformat detected_at)), (''finding_id'', JStr finding)] ?g1)"
  let ?g3 = "snd (upsert_node tenant ''detection_finding'' ''detection_finding'' finding [(''finding_id'', JStr finding)] ?g2)"
  let ?g4 = "snd (upsert_edge tenant ''attack_action'' a ''detection_finding'' finding ''produced_finding'' [(''finding_type'', JStr ''detection'')] ?g3)"
  have "map_of (ga_edges ?g2) (tenant, ''attack_action'' @ '':'' @ a, ''caught_by_detection'', ''detection_rule'' @ '':'' @ rule) \<noteq> None"
    by (rule upsert_edge_present)
  then have edge: "map_of (ga_edges ?g4) (tenant, ''attack_action:'' @ a, ''caught_by_detection'', ''detection_rule:'' @ rule) \<noteq> None"
    using upsert_edge_keeps [of ?g3 "(tenant, ''attack_action:'' @ a, ''caught_by_detection'', ''detection_rule:'' @ rule)"] by simp
  have "\<not> (case map_of (ds_completions s) a of None \<Rightarrow> False | Some t \<Rightarrow> \<not> within_window (ds_window s) t detected_at)"
    using assms(1) by (simp split: option.splits)
  with edge assms(2) show ?thesis
    by (simp add: apply_caught_def and_then_def give_def assign_def on_coordinator_graph_def on_part_def in_memory_graph_def
        project_caught_by_detection_def project_produced_finding_def steps.simps ignore_result_def and_return_def put_node_def put_edge_def
        case_prod_unfold with_projections_def mark_action_detected_def rebuild_coverage_def Let_def or_empty_def dict_get_def map_of_dict_set
        coverage.load_save coverage_key_def coverage_report_def recompute_def)
qed

lemma apply_caught_outside:
  assumes "map_of (ds_completions s) a = Some t" and "\<not> within_window (ds_window s) t detected_at"
  shows "\<exists>r s'. apply_caught ps now tenant a finding rule detected_at s = Return r s' \<and> cl_outcome r = ''skipped'' \<and>
    co_graph (ds_coordinator s') = co_graph (ds_coordinator s) \<and>
    ps_detected_actions (co_projections (ds_coordinator s')) = ps_detected_actions (co_projections (ds_coordinator s)) \<and> ds_caught s' = ds_caught s"
  using assms by (simp add: apply_caught_def and_then_def give_def with_projections_def rebuild_coverage_def Let_def)

definition evaded_edge :: "string \<Rightarrow> string \<Rightarrow> string \<Rightarrow> string \<times> string \<times> string \<times> string" where
  "evaded_edge tenant action_id rule_id = (tenant, ''attack_action:'' @ action_id, ''evaded_detection'', ''detection_rule:'' @ rule_id)"

lemma evade_each_ok:
  assumes "cq_graph ps = in_memory_graph"
  shows "\<exists>rs s'. evade_each ps clock now tenant a caught rules s = Return rs s' \<and> map cl_rule_id rs = filter (\<lambda>r. r \<notin> caught) rules \<and>
    (\<forall>r \<in> set rs. cl_outcome r = ''evaded'' \<and> cl_action_id r = a) \<and>
    (\<forall>k. map_of (ga_edges (co_graph (ds_coordinator s'))) k \<noteq> None \<longleftrightarrow> map_of (ga_edges (co_graph (ds_coordinator s))) k \<noteq> None \<or>
      k \<in> evaded_edge tenant a ` (set rules - caught))"
proof (induction rules arbitrary: s)
  case (Cons rule rules)
  show ?case
  proof (cases "rule \<in> caught")
    case True
    then show ?thesis using Cons [of s] by (simp add: insert_Diff_if)
  next
    case False
    let ?g = "snd (upsert_edge tenant ''attack_action'' a ''detection_rule'' rule ''evaded_detection'' [(''evaluated_at'', JStr (isoformat now))]
      (snd (upsert_node tenant ''detection_rule'' ''detection_rule'' rule [(''rule_id'', JStr rule)] (co_graph (ds_coordinator s)))))"
    let ?c = "(ds_coordinator s)\<lparr>co_graph := ?g\<rparr>"
    let ?s = "s\<lparr>ds_coordinator := ?c\<lparr>co_projections := snd (rebuild_coverage clock tenant None (co_projections ?c))\<rparr>\<rparr>"
    have edges: "map_of (ga_edges ?g) k \<noteq> None \<longleftrightarrow> map_of (ga_edges (co_graph (ds_coordinator s))) k \<noteq> None \<or>
        k = evaded_edge tenant a rule" for k
      by (simp add: evaded_edge_def upsert_edge_def Let_def map_of_dict_set split: option.split)
    obtain rs s' where rs: "evade_each ps clock now tenant a caught rules ?s = Return rs s'" "map cl_rule_id rs = filter (\<lambda>r. r \<notin> caught) rules"
      "\<forall>r \<in> set rs. cl_outcome r = ''evaded'' \<and> cl_action_id r = a"
      "\<forall>k. map_of (ga_edges (co_graph (ds_coordinator s'))) k \<noteq> None \<longleftrightarrow> map_of (ga_edges (co_graph (ds_coordinator ?s))) k \<noteq> None \<or>
        k \<in> evaded_edge tenant a ` (set rules - caught)"
      using Cons [of ?s] by blast
    have "evade_each ps clock now tenant a caught (rule # rules) s = Return (\<lparr>cl_action_id = a, cl_outcome = ''evaded'', cl_rule_id = rule,
        cl_finding_id = None, cl_coverage_pct = dc_coverage_pct (fst (rebuild_coverage clock tenant None (co_projections ?c)))\<rparr> # rs) s'"
      using False rs(1) assms
      by (simp add: and_then_def give_def assign_def on_coordinator_graph_def on_part_def in_memory_graph_def project_evaded_detection_def steps.simps
          ignore_result_def and_return_def put_node_def put_edge_def case_prod_unfold with_projections_def or_empty_def)
    with False rs(2-4) edges show ?thesis by (auto simp: insert_Diff_if)
  qed
qed (simp add: give_def)

end
