(* ===== verification/Projection_Properties.thy ===== *)
theory Projection_Properties
  imports Detection_Correlation
begin

text \<open>
  The properties of the projections: deliveries, tenants, replay and correlation, with a concrete coordinator on which they are evaluated.
\<close>

section \<open>A concrete coordinator\<close>

definition completed_event :: "string \<Rightarrow> string \<Rightarrow> string \<Rightarrow> datetime \<Rightarrow> domain_event" where
  "completed_event event_id tenant action_id t = \<lparr>ev_occurred_at = t, ev_tenant_id = EntityId tenant, ev_aggregate_id = action_id,
     ev_aggregate_type = ''AttackAction'', ev_payload = PipelineEvent (AttackActionCompleted ''g1'' ''o1'' t None), ev_event_id = event_id\<rparr>"

definition delivered :: "domain_event \<Rightarrow> delivery" where
  "delivered e = \<lparr>dl_event = Event e, dl_now = ev_occurred_at e, dl_generated_id = ''gen'', dl_correlation_id = ''cor''\<rparr>"

definition execution_ports :: "(InMemorySecurityGraphWriteAdapter, unit, unit, unit) coordinator_ports" where
  "execution_ports = \<lparr>cq_graph = in_memory_graph, cq_engagement_graph = None, cq_operation_graph = None, cq_str = (\<lambda>_. [])\<rparr>"

definition two_tenants :: "delivery list" where
  "two_tenants = [delivered (completed_event ''e1'' ''t1'' ''a1'' 5), delivered (completed_event ''e2'' ''t2'' ''a2'' 7)]"

definition two_tenant_coordinator :: "(InMemorySecurityGraphWriteAdapter, unit, unit) ProjectionCoordinator" where
  "two_tenant_coordinator = snd (handle_batch execution_ports two_tenants (new_coordinator empty_graph () ()))"

lemmas concrete_events = completed_event_def delivered_def two_tenants_def

section \<open>Delivery\<close>

text \<open>C16: An event that is delivered again, with whatever content and at whatever time, leaves the read models, the context of the actions and
  the counters as they would be without it.\<close>

theorem redelivery_changes_nothing:
  assumes "event_id_of e \<noteq> []" and "event_id_of e' = event_id_of e"
  shows "apply_all (xs @ (t, e) # ys @ (t', e') # zs) s = apply_all (xs @ (t, e) # ys @ zs) s"
proof -
  let ?s = "apply_all ys (snd (projection_apply t e (apply_all xs s)))"
  have "event_id_of e \<in> ps_processed (snd (projection_apply t e (apply_all xs s)))" using assms(1) by (simp add: apply_processed)
  then have "event_id_of e' \<in> ps_processed ?s" using assms(2) apply_all_processed by auto
  then have "projection_apply t' e' ?s = (False, ?s)" using assms by (intro apply_seen) simp_all
  then show ?thesis by simp
qed

theorem redelivery_changes_nothing_witness:
  "apply_all ([] @ (1, Event (completed_event ''e1'' ''t1'' ''a1'' 5)) # [] @ (9, Event (completed_event ''e1'' ''t1'' ''a9'' 6)) # []) (new_projection_service new_store) =
   apply_all ([] @ (1, Event (completed_event ''e1'' ''t1'' ''a1'' 5)) # [] @ []) (new_projection_service new_store)"
  by (rule redelivery_changes_nothing) (simp_all add: completed_event_def)

section \<open>Counters and tenants\<close>

inductive service_reachable :: "RedTeamProjectionService \<Rightarrow> bool" where
  start: "service_reachable (new_projection_service new_store)"
| applied: "service_reachable s \<Longrightarrow> service_reachable (snd (projection_apply now event s))"
| detected: "service_reachable s \<Longrightarrow> service_reachable (snd (mark_action_detected now t a i s))"
| rebuilt: "service_reachable s \<Longrightarrow> service_reachable (snd (rebuild_coverage now t j s))"

lemma reachable_service_ok: "service_reachable s \<Longrightarrow> service_ok s"
  by (induction rule: service_reachable.induct) (simp_all add: new_service_ok apply_ok mark_ok writers_ok)

lemma reachable_apply_all: "service_reachable s \<Longrightarrow> service_reachable (apply_all xs s)"
  by (induction xs arbitrary: s) (simp_all add: service_reachable.applied)



text \<open>C18: An event of one tenant leaves every view of every other tenant as it is.\<close>

theorem tenant_views_isolated:
  assumes "service_reachable s" and "entity_str (ev_tenant_id e) \<noteq> t"
  shows "same_views t (ps_store s) (ps_store (snd (projection_apply now (Event e) s)))"
  using apply_touches [of e s now] reachable_service_ok [OF assms(1)] assms(2) by (simp add: unmoved_def service_ok_def)

theorem tenant_views_isolated_witness:
  "same_views ''t2'' (ps_store (new_projection_service new_store))
     (ps_store (snd (projection_apply 1 (Event (completed_event ''e1'' ''t1'' ''a1'' 5)) (new_projection_service new_store))))"
  by (rule tenant_views_isolated [OF service_reachable.start]) (simp add: completed_event_def)

text \<open>The coverage report that a completion of one tenant writes counts the completed actions of all tenants.\<close>

theorem coverage_counts_every_tenant:
  assumes "fresh_events (xs @ [(now, Event e)]) {}" and "ev_payload e = PipelineEvent (AttackActionCompleted engagement operation t h)"
    and "s = apply_all (xs @ [(now, Event e)]) (new_projection_service new_store)"
  shows "\<exists>r. load_detection_coverage (entity_str (ev_tenant_id e)) ''default'' (ps_store s) = Some r \<and> dc_detected_count r = 0 \<and>
    dc_total_actions r = int (card (\<Union>x \<in> set (xs @ [(now, Event e)]). completes (snd x)))"
proof -
  let ?n = "new_projection_service new_store" and ?xs = "xs @ [(now, Event e)]"
  have fresh: "fresh_events xs {}" "ev_event_id e \<noteq> []" and new: "ev_event_id e \<notin> event_id_of ` snd ` set xs"
    using assms(1) by (auto simp: fresh_events_def image_image)
  have start: "ps_processed ?n = {}" "ps_completed_actions ?n = {}" "ps_detected_actions ?n = {}" by (simp_all add: new_projection_service_def)
  have processed: "ps_processed (apply_all ys ?n) \<subseteq> event_id_of ` snd ` set ys" for ys
  proof (induction ys rule: rev_induct)
    case (snoc y ys)
    then show ?case by (auto simp: apply_processed split: if_splits)
  qed (simp add: start)
  let ?m = "apply_all xs ?n"
  have unseen: "event_id_of (Event e) \<notin> ps_processed ?m" using processed [of xs] new by auto
  have completed: "insert (ev_aggregate_id e) (ps_completed_actions ?m) = (\<Union>x \<in> set ?xs. completes (snd x))"
    using apply_all_completed [of xs ?n] fresh(1) by (simp add: start completes_def assms(2))
  have "ps_store s = ps_store (on_action_completed now e engagement operation t h (?m\<lparr>ps_processed := insert (ev_event_id e) (ps_processed ?m)\<rparr>))"
    using apply_fresh(3) [OF _ unseen, of now] fresh(2) by (simp add: assms(3) handle_def assms(2))
  then show ?thesis
    using completion_report [of e now engagement operation t h "?m\<lparr>ps_processed := insert (ev_event_id e) (ps_processed ?m)\<rparr>"]
    by (simp add: coverage_report_def recompute_def completed start)
qed

theorem coverage_counts_every_tenant_witness:
  "\<exists>r. load_detection_coverage ''t2'' ''default'' (ps_store (apply_all ([(5, Event (completed_event ''e1'' ''t1'' ''a1'' 5))] @
     [(7, Event (completed_event ''e2'' ''t2'' ''a2'' 7))]) (new_projection_service new_store))) = Some r \<and> dc_total_actions r = 2"
  using coverage_counts_every_tenant [of "[(5, Event (completed_event ''e1'' ''t1'' ''a1'' 5))]" 7 "completed_event ''e2'' ''t2'' ''a2'' 7" _ _ _ _,
      OF _ _ refl, of "''g1''" "''o1''" 7 None]
  by (auto simp: fresh_events_def completed_event_def completes_def)

section \<open>Replay\<close>


lemma clear_in_memory: "gp_clear in_memory_graph = Some (\<lambda>_. empty_graph)"
  by (simp add: in_memory_graph_def graph_clear_def empty_graph_def fun_eq_iff)


text \<open>A replay forgets which actions were detected: detections are not in the log.\<close>

theorem replay_forgets_detections: "ps_detected_actions (co_projections (snd (replay ps clock org start True c))) = {}"
proof -
  have "co_projections (snd (replay ps clock org start True c)) = fst (core (snd (replay ps clock org start True c)))" by (simp add: core_def)
  also have "\<dots> = apply_all (map (\<lambda>r. (clock (en_global_position (er_envelope r)), er_domain_event r)) (history_of org start (co_publisher c)))
      (co_projections (clear_for_replay ps org c))" by (simp add: replay_core rebuild_projections) (simp add: core_def)
  finally show ?thesis by (simp add: clear_for_replay_def reset_for_replay_def new_projection_service_def)
qed

text \<open>C21: A replay for one tenant leaves nodes and edges of that tenant only in the in-memory security graph: what was written for the other
  tenants is gone.\<close>

theorem tenant_replay_drops_other_tenants:
  assumes "cq_graph ps = in_memory_graph" and "log_ok (co_publisher c)"
  shows "only_org t (co_graph (snd (replay ps clock (Some t) start True c)))"
proof -
  let ?h = "history_of (Some t) start (co_publisher c)"
  have "co_graph (snd (replay ps clock (Some t) start True c)) = snd (rebuild (cq_graph ps)
      (map (\<lambda>r. (clock (en_global_position (er_envelope r)), er_domain_event r)) ?h) (core (clear_for_replay ps (Some t) c)))"
    using arg_cong [OF replay_core [of ps clock "Some t" start c], of snd] by (simp only: core_def snd_conv)
  moreover have "\<forall>x \<in> set (map (\<lambda>r. (clock (en_global_position (er_envelope r)), er_domain_event r)) ?h). tenant_of (snd x) = t"
    using assms(2) by (auto simp: history_of_def log_ok_def)
  moreover have "only_org t (snd (core (clear_for_replay ps (Some t) c)))"
    by (simp add: clear_for_replay_def core_def assms(1) clear_in_memory only_org_def empty_graph_def)
  ultimately show ?thesis unfolding assms(1) by (simp only: rebuild_only_org)
qed

lemma two_tenant_log: "log_ok (co_publisher two_tenant_coordinator)"
  unfolding two_tenant_coordinator_def handle_batch_def case_prod_unfold snd_conv by (rule handle_each_log(2)) simp

theorem tenant_replay_drops_other_tenants_witness:
  "map_of (ga_nodes (co_graph two_tenant_coordinator)) (''t2'', ''attack_action'', ''a2'') \<noteq> None \<and>
   map_of (ga_nodes (co_graph (snd (replay execution_ports (\<lambda>_. 9) (Some ''t1'') 0 True two_tenant_coordinator)))) (''t2'', ''attack_action'', ''a2'') = None"
proof
  show "map_of (ga_nodes (co_graph two_tenant_coordinator)) (''t2'', ''attack_action'', ''a2'') \<noteq> None" by code_simp
  have "only_org ''t1'' (co_graph (snd (replay execution_ports (\<lambda>_. 9) (Some ''t1'') 0 True two_tenant_coordinator)))"
    by (rule tenant_replay_drops_other_tenants [OF _ two_tenant_log]) (simp add: execution_ports_def)
  then show "map_of (ga_nodes (co_graph (snd (replay execution_ports (\<lambda>_. 9) (Some ''t1'') 0 True two_tenant_coordinator)))) (''t2'', ''attack_action'', ''a2'') = None"
    by (auto simp: only_org_def map_of_eq_None_iff)
qed

section \<open>Correlation\<close>


definition foreign_finding :: DetectionFindingProducedDTO where
  "foreign_finding = \<lparr>df_finding_id = ''f1'', df_rule_id = ''r1'', df_asset_id = ''host'', df_detected_at = 8, df_tenant_id = ''t1'',
     df_related_technique = None, df_action_id = None\<rparr>"


text \<open>C20: Within the window after a completion no rule is marked as evaded and the graph stays as it is. Afterwards, or where no completion is
  known, every rule that has not caught the action, and no other, is reported as evaded, and the edges of the graph are those of before and
  one to each such rule.\<close>

theorem evasion_after_window:
  assumes "cq_graph ps = in_memory_graph" and "s1 = sync_completions_from_projection s"
    and "inside = (case map_of (ds_completions s1) a of None \<Rightarrow> False | Some t \<Rightarrow> now - t < ds_window s)"
    and "evaded = (if inside then [] else filter (\<lambda>r. r \<notin> dict_get (ds_caught s) a {}) rules)"
  shows "\<exists>rs s'. mark_evaded ps clock tenant a rules (Some now) s = Return rs s' \<and> map cl_rule_id rs = evaded \<and>
    (\<forall>k. map_of (ga_edges (co_graph (ds_coordinator s'))) k \<noteq> None \<longleftrightarrow> map_of (ga_edges (co_graph (ds_coordinator s))) k \<noteq> None \<or>
      k \<in> evaded_edge tenant a ` set evaded)"
proof (cases inside)
  case True
  then show ?thesis using assms(2-4) by (simp add: mark_evaded_def Let_def cong: option.case_cong)
next
  case False
  obtain rs s' where "evade_each ps clock now tenant a (dict_get (ds_caught s) a {}) rules s1 = Return rs s'"
    "map cl_rule_id rs = filter (\<lambda>r. r \<notin> dict_get (ds_caught s) a {}) rules"
    "\<forall>k. map_of (ga_edges (co_graph (ds_coordinator s'))) k \<noteq> None \<longleftrightarrow> map_of (ga_edges (co_graph (ds_coordinator s1))) k \<noteq> None \<or>
      k \<in> evaded_edge tenant a ` (set rules - dict_get (ds_caught s) a {})"
    using evade_each_ok [OF assms(1), of clock now tenant a "dict_get (ds_caught s) a {}" rules s1] by blast
  moreover have "mark_evaded ps clock tenant a rules (Some now) s = evade_each ps clock now tenant a (dict_get (ds_caught s) a {}) rules s1"
    using False assms(2,3) by (simp add: mark_evaded_def Let_def cong: option.case_cong)
  moreover have "set evaded = set rules - dict_get (ds_caught s) a {}" using False by (auto simp: assms(4))
  ultimately show ?thesis using False by (simp add: assms(2,4))
qed

theorem evasion_after_window_witness:
  "\<exists>rs s'. mark_evaded execution_ports 0 ''t1'' ''a1'' [''r1'', ''r2''] (Some (5 + CORRELATION_WINDOW)) (new_correlation two_tenant_coordinator) = Return rs s' \<and>
     map cl_rule_id rs = [''r1'', ''r2'']"
proof -
  let ?s = "new_correlation two_tenant_coordinator"
  have c: "map_of (ds_completions (sync_completions_from_projection ?s)) ''a1'' = Some 5" by code_simp
  show ?thesis using evasion_after_window [where ps = execution_ports and s = ?s and a = "''a1''" and now = "5 + CORRELATION_WINDOW" and
      rules = "[''r1'', ''r2'']" and clock = 0 and tenant = "''t1''", OF _ refl refl refl] c
    by (auto simp: execution_ports_def new_correlation_def dict_get_def)
qed

section \<open>Journals\<close>

definition simulated :: "JournalEntryType \<Rightarrow> string" where
  "simulated t = (case t of ACTION_STARTED \<Rightarrow> ''Executing'' | ACTION_COMPLETED \<Rightarrow> ''Completed'' | ROLLBACK_COMPLETED \<Rightarrow> ''Completed''
     | ACTION_FAILED \<Rightarrow> ''Failed'' | SAFETY_CHECK_FAILED \<Rightarrow> ''Failed'' | ACTION_ABORTED \<Rightarrow> ''Aborted'' | JournalEntryType.KILL_SWITCH_TRIGGERED \<Rightarrow> ''KillSwitch''
     | _ \<Rightarrow> ''Observed'')"

lemma lower_names:
  "lower ''ActionStarted'' = ''actionstarted''" "lower ''ActionCompleted'' = ''actioncompleted''" "lower ''ActionFailed'' = ''actionfailed''"
  "lower ''ActionAborted'' = ''actionaborted''" "lower ''KillSwitchTriggered'' = ''killswitchtriggered''"
  "lower ''SafetyCheckFailed'' = ''safetycheckfailed''" "lower ''ScopeViolationAttempted'' = ''scopeviolationattempted''"
  "lower ''HumanApprovalRequired'' = ''humanapprovalrequired''" "lower ''ApprovalGranted'' = ''approvalgranted''"
  "lower ''ApprovalDenied'' = ''approvaldenied''" "lower ''RollbackInitiated'' = ''rollbackinitiated''"
  "lower ''RollbackCompleted'' = ''rollbackcompleted''" "lower ''CorrectionEntry'' = ''correctionentry''"
  "lower ''AttackActionAuthorized'' = ''attackactionauthorized''" "lower ''AttackActionStarted'' = ''attackactionstarted''"
  "lower ''AttackActionCompleted'' = ''attackactioncompleted''" "lower ''AttackActionFailed'' = ''attackactionfailed''"
  "lower ''AttackActionAborted'' = ''attackactionaborted''" "lower ''JournalCreated'' = ''journalcreated''"
  "lower ''JournalEntryAppended'' = ''journalentryappended''"
  by code_simp+

lemma simulated_state: "simulate_state (JournalEntryType_value t) = simulated t"
  unfolding simulate_state_def state_keys_def by (cases t) (simp_all add: lower_names simulated_def)

text \<open>Simulating a journal gives one step per entry in the order of the entries, and counts as simulated actions the entries for started,
  completed, failed and aborted actions, for completed rollbacks and for failed safety checks.\<close>

theorem journal_replay_counts:
  assumes "load_journal find_by_id find_by_engagement cmd = Inr (Some j)"
  shows "\<exists>report. replay_journal find_by_id find_by_engagement now cmd = Inr report \<and>
    map rs_sequence_number (rt_steps report) = map je_sequence_number (jn_entries j) \<and>
    rt_actions_simulated report = int (length (filter (\<lambda>e. je_entry_type e \<in>
      {ACTION_STARTED, ACTION_COMPLETED, ACTION_FAILED, ACTION_ABORTED, ROLLBACK_COMPLETED, SAFETY_CHECK_FAILED}) (jn_entries j)))"
proof -
  have state: "simulate_state (JournalEntryType_value t) \<in> {''Executing'', ''Completed'', ''Failed'', ''Aborted''} \<longleftrightarrow>
      t \<in> {ACTION_STARTED, ACTION_COMPLETED, ACTION_FAILED, ACTION_ABORTED, ROLLBACK_COMPLETED, SAFETY_CHECK_FAILED}" for t
    unfolding simulated_state by (cases t) (simp_all add: simulated_def)
  have "length (filter (\<lambda>s. rs_simulated_state s \<in> {''Executing'', ''Completed'', ''Failed'', ''Aborted''}) (map replay_step (jn_entries j))) =
      length (filter (\<lambda>e. je_entry_type e \<in> {ACTION_STARTED, ACTION_COMPLETED, ACTION_FAILED, ACTION_ABORTED, ROLLBACK_COMPLETED, SAFETY_CHECK_FAILED}) (jn_entries j))"
    unfolding filter_map length_map comp_def replay_step_def Let_def ReplayStep.select_convs state ..
  then show ?thesis by (simp add: replay_journal_def assms Let_def comp_def) (simp add: replay_step_def Let_def)
qed

definition rollback_journal :: ExecutionJournal where
  "rollback_journal = (create 1 (EntityId ''t1'') 2 0)\<lparr>jn_entries := [new_entry 3 ROLLBACK_COMPLETED [] 0 None None None []]\<rparr>"

theorem journal_replay_counts_witness:
  "\<exists>report. replay_journal (\<lambda>_ _. Inr (Some rollback_journal)) (\<lambda>_ _. Inr None) 0
     \<lparr>ra_tenant_id = EntityId ''t1'', ra_journal_id = Some 1, ra_engagement_id = None\<rparr> = (Inr report :: unit replay_error + ReplayReport) \<and> rt_actions_simulated report = 1"
  using journal_replay_counts [of "\<lambda>_ _. Inr (Some rollback_journal)" "\<lambda>_ _. Inr None"
      "\<lparr>ra_tenant_id = EntityId ''t1'', ra_journal_id = Some 1, ra_engagement_id = None\<rparr>" rollback_journal 0]
  by (auto simp: load_journal_def non_nil_def rollback_journal_def new_entry_def Let_def)

end
