(* ===== verification/Spec2Isabelle.thy ===== *)
theory Spec2Isabelle
  imports Campaign_Properties Execution_Properties TaskGraph_Properties Projection_Properties
begin

text \<open>
  A verification of the attack-execution core of RedForge (\<open>backend/src\<close>): the contexts \<open>taskgraph\<close>, \<open>campaignexecution\<close> and
  \<open>execution\<close>.

  \<^bold>\<open>The program.\<close> A campaign is planned as a graph of tasks (\<open>taskgraph\<close>: the \<open>TaskGraph\<close> aggregate, its validator, the order
  resolver and the static rollback plan). A signed graph is run by a \<open>TaskGraphExecution\<close> (\<open>campaignexecution\<close>), which tracks one
  record per task, barriers, human approval gates, pauses and rollbacks, beside a safety monitor that bounds concurrent actions; its
  domain services resolve branches, plan rollbacks, pause on breaches and hand tasks to operations. Single attack actions are the
  matter of \<open>execution\<close>: an action is created only with a token of the authorization gate, which consults the kill switches, the
  engagement's scope, the rate limit, the execution window and the worker's capabilities in this order; actions, workers, kill
  switches and the hash-chained journal are aggregates that the application service loads, changes and stores in one transaction per
  use case, and techniques are dispatched to workers through a port. The events that the aggregates publish are the input of the
  projections, which keep read models and a security graph per tenant, replay their log and correlate detection findings with actions.

  \<^bold>\<open>Conventions.\<close> An aggregate is a record with the fields of the class, a method is a step: a function from the record to
  \<open>Return\<close> or \<open>Raise\<close> with the record afterwards (\<open>Prelude\<close>, type \<open>outcome\<close>), written as a list of statements in the order of the
  code (\<open>steps\<close>). Mutations made before a raise are visible in the record of \<open>Raise\<close>. \<open>history exec cs s\<close> is the state after a
  sequence of calls of which any may raise. UUIDs are 128-bit words, Python integers \<open>int\<close>, a datetime is the number of
  microseconds since 1970 in UTC, dictionaries keep insertion order (\<open>dict\<close>) where the code depends on it. Randomness and the clock
  are arguments (\<open>fresh\<close> in the application service). Database, Redis, the ULID package and the ports to other contexts are
  arguments too; what is assumed of the database engine is \<open>Repositories.engine_laws\<close>, which the engine of list tables of
  \<open>Execution_Properties\<close> satisfies.

  \<^bold>\<open>Theories.\<close>
  \<^item> \<open>Prelude\<close>, \<open>Aggregates\<close>, \<open>Sha256\<close>, \<open>Hash_Text\<close>: Python text, dictionaries and steps; the contracts of aggregate roots as
    locales (\<open>aggregate_root\<close>, \<open>tenant_guarded\<close>, \<open>status_machine\<close>), interpreted by every aggregate; SHA-256 as FIPS 180-4
    defines it; which hashed texts determine their fields.
  \<^item> \<open>Topology\<close>, \<open>TaskGraph_Model\<close>, \<open>Graph_Validator\<close>, \<open>Order_Resolver\<close> (\<open>taskgraph/domain\<close>): the aggregate and its invariant, the
    immutability of signed graphs, the worklist loops (they end because the sum of the in-degrees falls), the validator against a
    declarative \<open>valid_graph\<close>, the layers of the resolver against the run-time ready sets.
  \<^item> \<open>Campaign_Data\<close>, \<open>Campaign_Execution\<close>, \<open>Safety_Monitor\<close>, \<open>Campaign_Services\<close> (\<open>campaignexecution/domain\<close>): the execution's state
    machine, what terminal tasks keep, the effect of completions, approval gates, the ceiling of the monitor, branch resolution and
    rollback plans.
  \<^item> \<open>Execution_Values\<close>, \<open>Kill_Switch\<close>, \<open>Rate_Limit\<close>, \<open>Worker\<close>, \<open>Attack_Action\<close>, \<open>Journal\<close>, \<open>Authorization\<close> (\<open>execution/domain\<close> and
    the in-memory and Redis stores of \<open>execution/infrastructure/redis\<close>): separation of duties, fail-safe evaluation, window and
    Destruct bounds, provenance and sealing of actions, the tamper-evident journal, the gate as a refinement of ``the first failing
    check decides''.
  \<^item> \<open>Service_Base\<close>, \<open>Execution_Service\<close>, \<open>Service_Laws\<close>, \<open>Kill_Switch_Service\<close> (\<open>execution/application\<close>,
    \<open>execution/infrastructure/container.py\<close>): the 21 use cases over a world of database, session, stores, ports and published
    events, with a calculus of triples; rollback, what a dispatch requires, what a denial leaves, what a triggered switch stops.
  \<^item> \<open>Repositories\<close>, \<open>Store_Invariant\<close>, \<open>Repository_Laws\<close>, \<open>Lost_Updates\<close>, \<open>Round_Trip\<close>, \<open>Execution_Properties\<close>
    (\<open>execution/infrastructure/persistence\<close>): the PostgreSQL repositories; the contract \<open>execution_store\<close> and its proof for them
    (\<open>pg_service\<close>); the version check (\<open>optimistic_repository\<close>) and the updates that it makes impossible; reading back.
  \<^item> \<open>Use_Case\<close>, \<open>Tables\<close>: what the application services and the repositories of the three contexts share: application errors, use cases
    as functions on a transaction (committed database, open session, collaborators, published batches), tables with their laws, JSON
    columns.
  \<^item> \<open>TaskGraph_Service\<close>, \<open>TaskGraph_Repository\<close>, \<open>TaskGraph_Store\<close>, \<open>TaskGraph_Storage\<close>, \<open>TaskGraph_Properties\<close>
    (\<open>taskgraph/application\<close>, \<open>taskgraph/infrastructure\<close>): the nine use cases, the in-memory security graph and the container; rows,
    JSON columns and the version check of the repository; requests and runs of requests (\<open>graph_runs\<close>) over the contract
    \<open>graph_store\<close>, which the PostgreSQL repository satisfies (\<open>pg_graph_engine\<close>); signed content stays final in the store, tenants are
    isolated, updates commit, stale saves conflict, signing writes the security graph.

  \<^item> \<open>Campaign_Service\<close>, \<open>Timestamps\<close>, \<open>Campaign_Repository\<close>, \<open>Campaign_Store\<close>, \<open>Campaign_Storage\<close>, \<open>Campaign_Invariant\<close>,
    \<open>Campaign_Properties\<close> (\<open>campaignexecution/application\<close>, \<open>campaignexecution/infrastructure\<close>): the 18 use cases, the stub adapters and
    the container; what \<open>isoformat\<close> and \<open>str(UUID)\<close> print reads back; rows, JSON columns and the two version checks; \<open>campaign_effect\<close>, the
    specification of a use case as calls of the aggregates followed by their saves, which every use case implements; the invariant
    \<open>campaign_valid\<close> of the three tables and the relation \<open>follows\<close> between successive databases; what holds of every reachable
    database (\<open>campaign_reachable\<close>): final states stay, stored monitors keep within their ceiling, one execution per campaign instance;
    which requests commit and which the version check rejects.
  \<^item> \<open>Read_Models\<close>, \<open>Read_Model_Laws\<close>, \<open>Security_Graph\<close>, \<open>Projection_Coordinator\<close>, \<open>Projection_Replay\<close>, \<open>Detection_Correlation\<close>,
    \<open>Projection_Properties\<close> (\<open>execution/application/projections\<close>, the correlation, replay and projection services of
    \<open>execution/application/services\<close>, \<open>execution/infrastructure/graph\<close>): the six views per tenant and their store (\<open>view_store\<close>, interpreted
    for each kind of view), one handler per event, the event log, the coordinator with graph ports that may fail, replay, correlation and
    the simulation of journals. Shown: an event delivered again changes nothing, what the counters count, views of other tenants stay, a
    replay restores the read models and the graph (\<open>rebuild\<close> is what both compute), which action a finding is attributed to and when
    rules are marked as evaded; and that a replay for one tenant loses the graph of the others, that coverage reports count all tenants,
    and that replays forget detections.

  The engine of the task-graph tables is an argument with the laws \<open>TaskGraph_Repository.graph_engine_laws\<close>. Its component
  \<open>ge_lazy_load\<close> says whether a session can load a relationship when it is accessed; an \<open>AsyncSession\<close> cannot, and
  \<open>no_graph_is_stored_without_lazy_loading\<close> says what follows. The engine of the campaign tables has the laws
  \<open>Campaign_Repository.campaign_engine_laws\<close>: tables as multisets of rows, the conversion of tenant identifiers to UUIDs and back, and a
  \<open>jsonb\<close> column that reads back as the same value up to the order of keys. A run of requests assumes in addition that generated
  identifiers are unused (\<open>unused_ids\<close>) and that the clock shows an instant of the years 1 to 9999.

  \<^bold>\<open>Bounds and fuel.\<close> No definition uses fuel: every loop is a \<open>fun\<close> or a \<open>function\<close> with a measure. Datetimes are unbounded
  integers; the code's datetimes end in the year 9999. Text is a list of 8-bit characters. The percentage of a coverage report is the exact quotient; the code
  rounds it to a floating-point number.

  \<^bold>\<open>Not modelled.\<close> Concurrency of transactions: each use case runs alone, the version checks are modelled as comparisons with the
  row that the use case finds, and the advisory lock of the journal repository has no effect then. The HTTP layer and the event
  publishers after publication: translation between frameworks, without state of their own. The other contexts under \<open>backend/src\<close>
  (engagement, operation, payload, SIEM, reporting and so on), which the modelled code meets through ports only: the ports are
  arguments. Migrations, generator scripts and the front end.
\<close>

end
